(* ===== verification/Strings.thy ===== *)
theory Strings
  imports Prelude
begin

text \<open>
  The functions of \<^verbatim>\<open>str\<close> and \<^verbatim>\<open>char\<close> that the sources call, on UTF-8 bytes: white space
  (\<^verbatim>\<open>trim\<close>, \<^verbatim>\<open>split_whitespace\<close>), splitting, prefixes and the decimal text that
  \<^verbatim>\<open>format!\<close> prints. Full Unicode lower-casing is a table of the standard library; a definition
  that needs \<^verbatim>\<open>str::to_lowercase\<close> takes it as the argument \<open>lc\<close>.
\<close>

section \<open>Unicode white space\<close>

text \<open>The UTF-8 encodings of the code points with the property White\_Space, one per argument.\<close>

definition white_space :: "string \<Rightarrow> bool" where
  "white_space s = (case map byte s of
      [b] \<Rightarrow> b = 32 \<or> 9 \<le> b \<and> b \<le> 13
    | [b, c] \<Rightarrow> b = 194 \<and> (c = 133 \<or> c = 160)
    | [b, c, d] \<Rightarrow>
        b = 225 \<and> c = 154 \<and> d = 128
        \<or> b = 226 \<and> c = 128 \<and> (128 \<le> d \<and> d \<le> 138 \<or> d = 168 \<or> d = 169 \<or> d = 175)
        \<or> b = 226 \<and> c = 129 \<and> d = 159
        \<or> b = 227 \<and> c = 128 \<and> d = 128
    | _ \<Rightarrow> False)"

text \<open>The length of the white space code point that a string starts with, 0 for none.\<close>

definition ws_prefix :: "string \<Rightarrow> nat" where
  "ws_prefix s =
     (if white_space (take 1 s) then 1
      else if white_space (take 2 s) then 2
      else if white_space (take 3 s) then 3 else 0)"

definition ws_suffix :: "string \<Rightarrow> nat" where
  "ws_suffix s =
     (if white_space (drop (length s - 1) s) then 1
      else if white_space (drop (length s - 2) s) then 2
      else if white_space (drop (length s - 3) s) then 3 else 0)"

declare white_space_def [str_defs] ws_prefix_def [str_defs] ws_suffix_def [str_defs]

lemma white_space_length: "white_space s \<Longrightarrow> 1 \<le> length s \<and> length s \<le> 3"
  by (auto simp: white_space_def split: list.splits)

lemma not_white_space_Nil [simp]: "\<not> white_space []"
  by (simp add: white_space_def)

lemma white_space_take_grow:
  "white_space (take (Suc k) s) \<Longrightarrow> \<not> white_space (take k s) \<Longrightarrow> Suc k \<le> length s"
  by (cases "length s \<le> k") auto

lemma white_space_drop_grow:
  "white_space (drop (length s - Suc k) s) \<Longrightarrow> \<not> white_space (drop (length s - k) s)
   \<Longrightarrow> Suc k \<le> length s"
  by (cases "length s \<le> k") auto

lemma ws_prefix_le: "ws_prefix s \<le> length s"
  using white_space_take_grow [of 0 s] white_space_take_grow [of 1 s]
    white_space_take_grow [of 2 s]
  by (auto simp: ws_prefix_def numeral_2_eq_2 numeral_3_eq_3)

lemma ws_suffix_le: "ws_suffix s \<le> length s"
  using white_space_drop_grow [of s 0] white_space_drop_grow [of s 1]
    white_space_drop_grow [of s 2]
  by (auto simp: ws_suffix_def numeral_2_eq_2 numeral_3_eq_3)

lemma drop_ws_prefix_shorter:
  "ws_prefix s \<noteq> 0 \<Longrightarrow> length (drop (ws_prefix s) s) < length s"
  using ws_prefix_le [of s] by simp

lemma ws_prefix_Nil [simp]: "ws_prefix [] = 0"
  by (simp add: ws_prefix_def)

lemma ws_suffix_Nil [simp]: "ws_suffix [] = 0"
  by (simp add: ws_suffix_def)

function trim_start :: "string \<Rightarrow> string" where
  "trim_start s = (if ws_prefix s = 0 then s else trim_start (drop (ws_prefix s) s))"
  by pat_completeness auto
termination
  by (relation "measure length") (use drop_ws_prefix_shorter in auto)

function trim_end :: "string \<Rightarrow> string" where
  "trim_end s = (if ws_suffix s = 0 then s else trim_end (take (length s - ws_suffix s) s))"
  by pat_completeness auto
termination
proof (relation "measure length", simp)
  fix s :: string
  assume "ws_suffix s \<noteq> 0"
  with ws_suffix_le [of s] show "(take (length s - ws_suffix s) s, s) \<in> measure length"
    by simp
qed

declare trim_start.simps [simp del] trim_end.simps [simp del]

definition trim :: "string \<Rightarrow> string" where
  "trim s = trim_end (trim_start s)"

declare trim_start.simps [str_defs] trim_end.simps [str_defs] trim_def [str_defs]

lemma ws_prefix_trim_start [simp]: "ws_prefix (trim_start s) = 0"
  by (induction s rule: trim_start.induct) (subst trim_start.simps, simp add: trim_start.simps)

lemma ws_suffix_trim_end [simp]: "ws_suffix (trim_end s) = 0"
  by (induction s rule: trim_end.induct) (subst trim_end.simps, simp add: trim_end.simps)

lemma trim_start_id: "ws_prefix s = 0 \<Longrightarrow> trim_start s = s"
  by (simp add: trim_start.simps)

lemma trim_end_id: "ws_suffix s = 0 \<Longrightarrow> trim_end s = s"
  by (simp add: trim_end.simps)

lemma ws_prefix_take:
  assumes "ws_prefix s = 0" shows "ws_prefix (take n s) = 0"
proof (rule ccontr)
  assume "ws_prefix (take n s) \<noteq> 0"
  then obtain k where k: "k \<in> {1, 2, 3}" and w: "white_space (take k (take n s))"
    by (auto simp: ws_prefix_def split: if_splits)
  show False
  proof (cases "k \<le> n")
    case True
    with w k assms show False by (auto simp: ws_prefix_def min_def split: if_splits)
  next
    case False
    with w have "white_space (take n s)" and "n < 3" using k by (auto simp: min_def)
    moreover from \<open>white_space (take n s)\<close> have "n \<noteq> 0" by (cases n) auto
    ultimately have "n = 1 \<or> n = 2" by auto
    with \<open>white_space (take n s)\<close> assms show False by (auto simp: ws_prefix_def split: if_splits)
  qed
qed

lemma trim_end_prefix: "\<exists>n. trim_end s = take n s"
proof (induction s rule: trim_end.induct)
  case (1 s)
  show ?case
  proof (cases "ws_suffix s = 0")
    case True
    then show ?thesis by (auto simp: trim_end_id intro: exI [of _ "length s"])
  next
    case False
    with 1 obtain n where "trim_end (take (length s - ws_suffix s) s)
        = take n (take (length s - ws_suffix s) s)" by blast
    with False show ?thesis by (subst trim_end.simps) (auto simp: min_def)
  qed
qed

lemma trim_idem [simp]: "trim (trim s) = trim s"
proof -
  obtain n where "trim_end (trim_start s) = take n (trim_start s)"
    using trim_end_prefix by blast
  then have "ws_prefix (trim s) = 0"
    by (simp add: trim_def ws_prefix_take)
  then show ?thesis by (simp add: trim_def trim_start_id trim_end_id)
qed

lemma trim_Nil [simp]: "trim [] = []"
  by (simp add: trim_def trim_start_id trim_end_id)

section \<open>Splitting, joining, prefixes\<close>

text \<open>\<^verbatim>\<open>str::split\<close> on one ASCII character: \<open>n\<close> separators give \<open>n + 1\<close> parts.\<close>

fun split_on :: "char \<Rightarrow> string \<Rightarrow> string list" where
  "split_on d [] = [[]]"
| "split_on d (c # s) =
     (if c = d then [] # split_on d s
      else (case split_on d s of [] \<Rightarrow> [[c]] | p # ps \<Rightarrow> (c # p) # ps))"

lemma split_on_not_Nil [simp]: "split_on d s \<noteq> []"
  by (induction s) (auto split: list.splits)

lemma length_split_on: "length (split_on d s) = Suc (count_list s d)"
proof (induction s)
  case (Cons c s)
  then show ?case by (cases "split_on d s") auto
qed simp

fun join :: "string \<Rightarrow> string list \<Rightarrow> string" where
  "join sep [] = []"
| "join sep [p] = p"
| "join sep (p # ps) = p @ sep @ join sep ps"

lemma join_Cons: "ps \<noteq> [] \<Longrightarrow> join sep (p # ps) = p @ sep @ join sep ps"
  by (cases ps) auto

lemma join_split_on: "join [d] (split_on d s) = s"
proof (induction s)
  case (Cons c s)
  obtain p ps where "split_on d s = p # ps"
    by (cases "split_on d s") auto
  with Cons.IH show ?case
    by (cases "ps = []") (auto simp: join_Cons)
qed simp

lemma split_on_parts: "p \<in> set (split_on d s) \<Longrightarrow> d \<notin> set p"
  by (induction s arbitrary: p) (auto split: list.splits if_splits)

function split_ws_from :: "string \<Rightarrow> string \<Rightarrow> string list" where
  "split_ws_from w [] = (if w = [] then [] else [w])"
| "split_ws_from w (c # s) =
     (if ws_prefix (c # s) = 0 then split_ws_from (w @ [c]) s
      else (if w = [] then [] else [w]) @ split_ws_from [] (drop (ws_prefix (c # s)) (c # s)))"
  by pat_completeness auto
termination
  by (relation "measure (\<lambda>(w, s). length s)") (auto simp: Suc_le_eq)

definition split_whitespace :: "string \<Rightarrow> string list" where
  "split_whitespace s = split_ws_from [] s"

declare split_whitespace_def [str_defs]

definition starts_with :: "string \<Rightarrow> string \<Rightarrow> bool" where
  "starts_with s p \<longleftrightarrow> take (length p) s = p"

definition ends_with :: "string \<Rightarrow> string \<Rightarrow> bool" where
  "ends_with s p \<longleftrightarrow> length p \<le> length s \<and> drop (length s - length p) s = p"

declare starts_with_def [str_defs] ends_with_def [str_defs]

lemma starts_with_iff: "starts_with s p \<longleftrightarrow> (\<exists>r. s = p @ r)"
  by (auto simp: starts_with_def) (metis append_take_drop_id)

text \<open>\<^verbatim>\<open>str::split_once\<close>: the parts before and after the first occurrence of a pattern.\<close>

fun split_once :: "string \<Rightarrow> string \<Rightarrow> (string \<times> string) option" where
  "split_once pat [] = (if pat = [] then Some ([], []) else None)"
| "split_once pat (c # s) =
     (if starts_with (c # s) pat then Some ([], drop (length pat) (c # s))
      else map_option (\<lambda>(a, b). (c # a, b)) (split_once pat s))"

definition strip_suffix :: "string \<Rightarrow> string \<Rightarrow> string option" where
  "strip_suffix suf s = (if ends_with s suf then Some (take (length s - length suf) s) else None)"

declare strip_suffix_def [str_defs]

text \<open>\<^verbatim>\<open>chars().count()\<close> counts the bytes that are no UTF-8 continuation bytes.\<close>

definition char_count :: "string \<Rightarrow> nat" where
  "char_count s = length (filter (\<lambda>c. \<not> (128 \<le> byte c \<and> byte c < 192)) s)"

declare char_count_def [str_defs]

fun has_white_space :: "string \<Rightarrow> bool" where
  "has_white_space [] = False"
| "has_white_space (c # s) = (ws_prefix (c # s) \<noteq> 0 \<or> has_white_space s)"

lemma split_once_Some: "split_once pat s = Some (a, b) \<Longrightarrow> s = a @ pat @ b"
  by (induction s arbitrary: a)
    (auto simp: starts_with_iff split: if_splits option.splits)

section \<open>Decimal text\<close>

fun show_nat :: "nat \<Rightarrow> string" where
  "show_nat n =
     (if n < 10 then [char_of (48 + n)] else show_nat (n div 10) @ [char_of (48 + n mod 10)])"

declare show_nat.simps [simp del] show_nat.simps [str_defs]

definition show_int :: "int \<Rightarrow> string" where
  "show_int i = (if i < 0 then CHR ''-'' # show_nat (nat (- i)) else show_nat (nat i))"

declare show_int_def [str_defs]

end
