(* ===== verification/Medium.thy ===== *)
theory Medium
  imports Strings
begin

text \<open>
  \<^verbatim>\<open>src/medium.rs\<close>: the reading of the channel-level \<^verbatim>\<open>podcast:medium\<close> value, an optional
  string compared with no ASCII case difference.
\<close>

definition MUSIC :: string where "MUSIC = ''music''"
definition PUBLISHER :: string where "PUBLISHER = ''publisher''"
definition MUSICL :: string where "MUSICL = ''musicL''"

definition is_some_and :: "('a \<Rightarrow> bool) \<Rightarrow> 'a option \<Rightarrow> bool" where
  "is_some_and p x = (case x of None \<Rightarrow> False | Some y \<Rightarrow> p y)"

definition is_music :: "string option \<Rightarrow> bool" where
  "is_music raw_medium = is_some_and (\<lambda>m. eq_ignore_ascii_case m MUSIC) raw_medium"

definition is_publisher :: "string option \<Rightarrow> bool" where
  "is_publisher raw_medium = is_some_and (\<lambda>m. eq_ignore_ascii_case m PUBLISHER) raw_medium"

definition is_musicl :: "string option \<Rightarrow> bool" where
  "is_musicl raw_medium = is_some_and (\<lambda>m. eq_ignore_ascii_case m MUSICL) raw_medium"

definition resolver_excluded :: "string option \<Rightarrow> bool" where
  "resolver_excluded raw_medium = is_musicl raw_medium"

definition payment_exempt :: "string option \<Rightarrow> bool" where
  "payment_exempt raw_medium \<longleftrightarrow> is_publisher raw_medium \<or> is_musicl raw_medium"

lemmas medium_defs = MUSIC_def PUBLISHER_def MUSICL_def is_music_def is_publisher_def
  is_musicl_def is_some_and_def payment_exempt_def resolver_excluded_def

lemma is_some_and_simps [simp]:
  "\<not> is_some_and p None"
  "is_some_and p (Some x) \<longleftrightarrow> p x"
  by (simp_all add: is_some_and_def)

lemma media_lower:
  "to_ascii_lowercase MUSIC = ''music''"
  "to_ascii_lowercase PUBLISHER = ''publisher''"
  "to_ascii_lowercase MUSICL = ''musicl''"
  by (simp_all add: medium_defs str_defs char_of_eq_iff)

lemma is_music_iff: "is_music (Some m) \<longleftrightarrow> to_ascii_lowercase m = ''music''"
  and is_publisher_iff: "is_publisher (Some m) \<longleftrightarrow> to_ascii_lowercase m = ''publisher''"
  and is_musicl_iff: "is_musicl (Some m) \<longleftrightarrow> to_ascii_lowercase m = ''musicl''"
  by (simp_all add: is_music_def is_publisher_def is_musicl_def eq_ignore_ascii_case_def media_lower)

text \<open>A medium is at most one of the three kinds.\<close>

lemma medium_disjoint:
  "is_music m \<Longrightarrow> \<not> is_publisher m"
  "is_music m \<Longrightarrow> \<not> is_musicl m"
  "is_publisher m \<Longrightarrow> \<not> is_musicl m"
  by (cases m; simp add: is_music_iff is_publisher_iff is_musicl_iff is_music_def is_publisher_def
        eq_ignore_ascii_case_def media_lower)+

lemma music_not_payment_exempt: "is_music m \<Longrightarrow> \<not> payment_exempt m"
  using medium_disjoint by (auto simp: payment_exempt_def)

lemma medium_None [simp]: "\<not> is_music None" "\<not> is_publisher None" "\<not> is_musicl None"
  by (simp_all add: is_music_def is_publisher_def is_musicl_def)

end
