(* ===== verification/Ingest.thy ===== *)
theory Ingest
  imports Medium
begin

text \<open>
  \<^verbatim>\<open>src/ingest.rs\<close>: the crawler's submission as records with the source's fields (each with a
  short prefix for its struct), and the \<^verbatim>\<open>podcast:block\<close> rule of ADR 0057.
  An \<^verbatim>\<open>f64\<close> is its 64-bit pattern: the sources only copy these values.
\<close>

type_synonym f64 = "64 word"
type_synonym u16 = "16 word"

datatype route_type = Node | Wallet | Keysend | Lnaddress
datatype value_time_split_form = Remote | Local

record ingest_payment_route =
  ipr_recipient_name :: "string option"
  ipr_route_type :: route_type
  ipr_address :: string
  ipr_custom_key :: "string option"
  ipr_custom_value :: "string option"
  ipr_split :: int
  ipr_fee :: bool

record ingest_value_time_split =
  ivts_form :: value_time_split_form
  ivts_start_time_secs :: f64
  ivts_duration_secs :: "f64 option"
  ivts_remote_feed_guid :: "string option"
  ivts_remote_item_guid :: "string option"
  ivts_remote_start_time_secs :: "f64 option"
  ivts_remote_percentage :: "f64 option"
  ivts_recipients :: "ingest_payment_route list"

record ingest_transcript =
  itr_position :: int
  itr_url :: string
  itr_mime_type :: "string option"
  itr_language :: "string option"
  itr_rel :: "string option"

record ingest_alternate_enclosure =
  iae_position :: int
  iae_url :: string
  iae_mime_type :: "string option"
  iae_bytes :: "int option"
  iae_rel :: "string option"
  iae_title :: "string option"
  iae_extraction_path :: string

record ingest_link =
  il_position :: int
  il_link_type :: string
  il_url :: string
  il_extraction_path :: string
  il_label :: "string option"

record ingest_entity_id =
  iei_position :: int
  iei_scheme :: string
  iei_value :: string

record ingest_person =
  ip_position :: int
  ip_name :: string
  ip_role :: "string option"
  ip_group_name :: "string option"
  ip_href :: "string option"
  ip_img :: "string option"
  ip_npub :: "string option"

record ingest_remote_feed_ref =
  irf_position :: int
  irf_medium :: "string option"
  irf_remote_feed_guid :: string
  irf_remote_feed_url :: "string option"
  irf_rel :: "string option"
  irf_item_guid :: "string option"
  irf_item_title :: "string option"
  irf_publisher_reference :: bool

record ingest_live_item_data =
  ili_live_item_guid :: string
  ili_title :: string
  ili_status :: string
  ili_start_at :: "int option"
  ili_end_at :: "int option"
  ili_content_link :: "string option"
  ili_pub_date :: "int option"
  ili_duration_secs :: "int option"
  ili_image_url :: "string option"
  ili_language :: "string option"
  ili_enclosure_url :: "string option"
  ili_enclosure_type :: "string option"
  ili_enclosure_bytes :: "int option"
  ili_alternate_enclosures :: "ingest_alternate_enclosure list"
  ili_track_number :: "int option"
  ili_season :: "int option"
  ili_explicit :: bool
  ili_description :: "string option"
  ili_author_name :: "string option"
  ili_live_value_uri :: "string option"
  ili_live_value_protocol :: "string option"
  ili_remote_items :: "ingest_remote_feed_ref list"
  ili_persons :: "ingest_person list"
  ili_entity_ids :: "ingest_entity_id list"
  ili_links :: "ingest_link list"
  ili_payment_routes :: "ingest_payment_route list"
  ili_value_time_splits :: "ingest_value_time_split list"
  ili_transcripts :: "ingest_transcript list"

record ingest_track_data =
  itd_track_guid :: string
  itd_title :: string
  itd_pub_date :: "int option"
  itd_duration_secs :: "int option"
  itd_image_url :: "string option"
  itd_language :: "string option"
  itd_enclosure_url :: "string option"
  itd_enclosure_type :: "string option"
  itd_enclosure_bytes :: "int option"
  itd_alternate_enclosures :: "ingest_alternate_enclosure list"
  itd_track_number :: "int option"
  itd_season :: "int option"
  itd_explicit :: bool
  itd_description :: "string option"
  itd_author_name :: "string option"
  itd_remote_items :: "ingest_remote_feed_ref list"
  itd_persons :: "ingest_person list"
  itd_entity_ids :: "ingest_entity_id list"
  itd_links :: "ingest_link list"
  itd_payment_routes :: "ingest_payment_route list"
  itd_value_time_splits :: "ingest_value_time_split list"
  itd_transcripts :: "ingest_transcript list"

record ingest_block_tag =
  ibt_id :: "string option"
  ibt_value :: string

record ingest_feed_data =
  ifd_feed_guid :: string
  ifd_title :: string
  ifd_description :: "string option"
  ifd_image_url :: "string option"
  ifd_language :: "string option"
  ifd_explicit :: bool
  ifd_itunes_type :: "string option"
  ifd_raw_medium :: "string option"
  ifd_author_name :: "string option"
  ifd_owner_name :: "string option"
  ifd_pub_date :: "int option"
  ifd_last_build_date :: "int option"
  ifd_new_feed_url :: "string option"
  ifd_locked :: "bool option"
  ifd_locked_owner :: "string option"
  ifd_remote_items :: "ingest_remote_feed_ref list"
  ifd_persons :: "ingest_person list"
  ifd_entity_ids :: "ingest_entity_id list"
  ifd_links :: "ingest_link list"
  ifd_feed_payment_routes :: "ingest_payment_route list"
  ifd_live_items :: "ingest_live_item_data list"
  ifd_blocks :: "ingest_block_tag list"
  ifd_tracks :: "ingest_track_data list"

record redirect_hop =
  rh_url :: string
  rh_status :: u16

record ingest_feed_request =
  ifr_canonical_url :: string
  ifr_source_url :: string
  ifr_crawl_token :: string
  ifr_http_status :: u16
  ifr_content_hash :: string
  ifr_feed_data :: "ingest_feed_data option"
  ifr_force_reingest :: bool
  ifr_redirects :: "redirect_hop list"

record ingest_response =
  irs_accepted :: bool
  irs_reason :: "string option"
  irs_events_emitted :: "string list"
  irs_no_change :: bool
  irs_warnings :: "string list"
  irs_source_url :: "string option"

end
