(* ===== verification/Model.thy ===== *)
theory Model
  imports Ingest
begin

text \<open>
  \<^verbatim>\<open>src/model.rs\<close>: the persisted entities as records with the source's fields, the reduction
  of payment routes to recipients, the summary of a copy of a feed with its digests, and the
  reading of a text as a web link. JSON encoding, SHA-256, UUID v5 and URL parsing are
  third-party code: they are the arguments \<open>json\<close>, \<open>sha256\_hex\<close>, \<open>uuid5\<close> and \<open>url\_parse\<close>.
\<close>

section \<open>Entities\<close>

record artist =
  ar_artist_id :: string
  ar_name :: string
  ar_name_lower :: string
  ar_sort_name :: "string option"
  ar_type_id :: "int option"
  ar_area :: "string option"
  ar_img_url :: "string option"
  ar_url :: "string option"
  ar_begin_year :: "int option"
  ar_end_year :: "int option"
  ar_created_at :: int
  ar_updated_at :: int

record artist_credit_name =
  acn_id :: int
  acn_artist_credit_id :: int
  acn_artist_id :: string
  acn_position :: int
  acn_name :: string
  acn_join_phrase :: string

record artist_credit =
  ac_id :: int
  ac_display_name :: string
  ac_feed_guid :: "string option"
  ac_created_at :: int
  ac_names :: "artist_credit_name list"

record feed =
  fe_feed_guid :: string
  fe_feed_url :: string
  fe_title :: string
  fe_title_lower :: string
  fe_description :: "string option"
  fe_image_url :: "string option"
  fe_publisher :: "string option"
  fe_language :: "string option"
  fe_explicit :: bool
  fe_itunes_type :: "string option"
  fe_release_artist :: "string option"
  fe_release_artist_sort :: "string option"
  fe_release_date :: "int option"
  fe_release_kind :: "string option"
  fe_episode_count :: int
  fe_newest_item_at :: "int option"
  fe_oldest_item_at :: "int option"
  fe_created_at :: int
  fe_updated_at :: int
  fe_raw_medium :: "string option"
  fe_last_build_date :: "int option"
  fe_release_artist_source :: "string option"

record track =
  tr_track_guid :: string
  tr_feed_guid :: string
  tr_title :: string
  tr_title_lower :: string
  tr_pub_date :: "int option"
  tr_duration_secs :: "int option"
  tr_enclosure_url :: "string option"
  tr_enclosure_type :: "string option"
  tr_enclosure_bytes :: "int option"
  tr_track_number :: "int option"
  tr_season :: "int option"
  tr_image_url :: "string option"
  tr_publisher :: "string option"
  tr_language :: "string option"
  tr_explicit :: bool
  tr_description :: "string option"
  tr_track_artist :: "string option"
  tr_track_artist_sort :: "string option"
  tr_created_at :: int
  tr_updated_at :: int

record payment_route =
  pr_id :: "int option"
  pr_track_guid :: string
  pr_feed_guid :: string
  pr_recipient_name :: "string option"
  pr_route_type :: route_type
  pr_address :: string
  pr_custom_key :: "string option"
  pr_custom_value :: "string option"
  pr_split :: int
  pr_fee :: bool

record feed_payment_route =
  fpr_id :: "int option"
  fpr_feed_guid :: string
  fpr_recipient_name :: "string option"
  fpr_route_type :: route_type
  fpr_address :: string
  fpr_custom_key :: "string option"
  fpr_custom_value :: "string option"
  fpr_split :: int
  fpr_fee :: bool

record feed_list_value_raw =
  flv_id :: "int option"
  flv_feed_guid :: string
  flv_recipient_name :: "string option"
  flv_route_type :: route_type
  flv_address :: string
  flv_custom_key :: "string option"
  flv_custom_value :: "string option"
  flv_split :: int
  flv_fee :: bool
  flv_position :: int

record route_recipient =
  rr_address :: string
  rr_custom_key :: "string option"
  rr_custom_value :: "string option"
  rr_split :: int

record value_time_split_recipient =
  vtr_recipient_name :: "string option"
  vtr_route_type :: route_type
  vtr_address :: string
  vtr_custom_key :: "string option"
  vtr_custom_value :: "string option"
  vtr_split :: int
  vtr_fee :: bool

record value_time_split =
  vts_id :: "int option"
  vts_source_feed_guid :: string
  vts_source_track_guid :: string
  vts_position :: int
  vts_form :: value_time_split_form
  vts_start_time_secs :: f64
  vts_duration_secs :: "f64 option"
  vts_remote_feed_guid :: "string option"
  vts_remote_item_guid :: "string option"
  vts_remote_start_time_secs :: "f64 option"
  vts_remote_percentage :: "f64 option"
  vts_recipients :: "value_time_split_recipient list"
  vts_created_at :: int

record feed_remote_item_raw =
  fri_id :: "int option"
  fri_feed_guid :: string
  fri_position :: int
  fri_medium :: "string option"
  fri_remote_feed_guid :: string
  fri_remote_feed_url :: "string option"
  fri_rel :: "string option"
  fri_source :: string
  fri_remote_item_guid :: "string option"
  fri_remote_item_title :: "string option"

record track_remote_item_raw =
  tri_id :: "int option"
  tri_feed_guid :: string
  tri_track_guid :: string
  tri_position :: int
  tri_medium :: "string option"
  tri_remote_feed_guid :: string
  tri_remote_feed_url :: "string option"
  tri_rel :: "string option"
  tri_source :: string

record live_event =
  le_live_item_guid :: string
  le_feed_guid :: string
  le_title :: string
  le_content_link :: "string option"
  le_status :: string
  le_scheduled_start :: "int option"
  le_scheduled_end :: "int option"
  le_created_at :: int
  le_updated_at :: int
  le_live_value_uri :: "string option"
  le_live_value_protocol :: "string option"

record source_contributor_claim =
  scc_id :: "int option"
  scc_feed_guid :: string
  scc_entity_type :: string
  scc_entity_id :: string
  scc_position :: int
  scc_name :: string
  scc_role :: "string option"
  scc_role_norm :: "string option"
  scc_group_name :: "string option"
  scc_href :: "string option"
  scc_img :: "string option"
  scc_npub :: "string option"
  scc_source :: string
  scc_extraction_path :: string
  scc_observed_at :: int

record source_entity_id_claim =
  sei_id :: "int option"
  sei_feed_guid :: string
  sei_entity_type :: string
  sei_entity_id :: string
  sei_position :: int
  sei_scheme :: string
  sei_value :: string
  sei_source :: string
  sei_extraction_path :: string
  sei_observed_at :: int

record source_entity_link =
  sel_id :: "int option"
  sel_feed_guid :: string
  sel_entity_type :: string
  sel_entity_id :: string
  sel_position :: int
  sel_link_type :: string
  sel_url :: string
  sel_source :: string
  sel_extraction_path :: string
  sel_observed_at :: int
  sel_label :: "string option"

record source_release_claim =
  src_id :: "int option"
  src_feed_guid :: string
  src_entity_type :: string
  src_entity_id :: string
  src_position :: int
  src_claim_type :: string
  src_claim_value :: string
  src_source :: string
  src_extraction_path :: string
  src_observed_at :: int

record source_item_enclosure =
  sie_id :: "int option"
  sie_feed_guid :: string
  sie_entity_type :: string
  sie_entity_id :: string
  sie_position :: int
  sie_url :: string
  sie_mime_type :: "string option"
  sie_bytes :: "int option"
  sie_rel :: "string option"
  sie_title :: "string option"
  sie_is_primary :: bool
  sie_source :: string
  sie_extraction_path :: string
  sie_observed_at :: int

record source_item_transcript =
  sit_id :: "int option"
  sit_feed_guid :: string
  sit_entity_type :: string
  sit_entity_id :: string
  sit_position :: int
  sit_url :: string
  sit_mime_type :: "string option"
  sit_language :: "string option"
  sit_rel :: "string option"
  sit_source :: string
  sit_extraction_path :: string
  sit_observed_at :: int

record source_platform_claim =
  spc_id :: "int option"
  spc_feed_guid :: string
  spc_platform_key :: string
  spc_url :: "string option"
  spc_owner_name :: "string option"
  spc_source :: string
  spc_extraction_path :: string
  spc_observed_at :: int

datatype feed_block_kind = Guid | Url

record feed_block =
  fb_block_id :: string
  fb_kind :: feed_block_kind
  fb_value :: string
  fb_reason :: string
  fb_blocked_at :: int

end
