(* ===== verification/Tables.thy ===== *)
theory Tables
  imports Prelude "HOL-Library.Multiset"
begin

text \<open>
  Containers that several components share: \<^verbatim>\<open>BTreeMap\<close> and \<^verbatim>\<open>BTreeSet\<close> as sorted lists,
  the keep-first loop of the \<^verbatim>\<open>dedupe\_*\<close> functions, and SQL tables as lists of rows in row-id
  order. Each shape is stated as a locale; the components interpret it on their own operations.
\<close>

section \<open>BTreeMap and BTreeSet\<close>

fun bt_insert :: "'k::linorder \<Rightarrow> 'v \<Rightarrow> ('k \<times> 'v) list \<Rightarrow> ('k \<times> 'v) list" where
  "bt_insert k v [] = [(k, v)]"
| "bt_insert k v ((k', v') # m) =
     (if k < k' then (k, v) # (k', v') # m
      else if k = k' then (k, v) # m
      else (k', v') # bt_insert k v m)"

definition bt_ordered :: "('k::linorder \<times> 'v) list \<Rightarrow> bool" where
  "bt_ordered m \<longleftrightarrow> sorted_wrt (<) (map fst m)"

definition bts_of_list :: "'a::linorder list \<Rightarrow> 'a list" where
  "bts_of_list xs = sort (remdups xs)"

text \<open>The interface of an ordered map: what a lookup returns after an insert.\<close>

locale ordered_map =
  fixes empty :: "'m"
    and insert_entry :: "'k \<Rightarrow> 'v \<Rightarrow> 'm \<Rightarrow> 'm"
    and lookup_entry :: "'m \<Rightarrow> 'k \<Rightarrow> 'v option"
    and invar :: "'m \<Rightarrow> bool"
  assumes lookup_empty: "lookup_entry empty k = None"
    and lookup_insert:
      "invar m \<Longrightarrow> lookup_entry (insert_entry k v m) k' = (if k' = k then Some v else lookup_entry m k')"
    and invar_empty: "invar empty"
    and invar_insert: "invar m \<Longrightarrow> invar (insert_entry k v m)"
begin

lemma invar_fold: "invar m \<Longrightarrow> invar (fold (\<lambda>(k, v). insert_entry k v) kvs m)"
  by (induction kvs arbitrary: m) (auto simp: invar_insert)

text \<open>A loop of inserts: the last value of a key wins.\<close>

lemma lookup_fold:
  "invar m \<Longrightarrow> lookup_entry (fold (\<lambda>(k, v). insert_entry k v) kvs m) k
    = (case map_of (rev kvs) k of Some v \<Rightarrow> Some v | None \<Rightarrow> lookup_entry m k)"
proof (induction kvs arbitrary: m)
  case (Cons kv kvs)
  obtain k' v' where "kv = (k', v')" by (cases kv)
  with Cons show ?case
    by (auto simp: lookup_insert invar_insert map_add_def split: option.splits)
qed simp

end

lemma fst_set_bt_insert: "fst ` set (bt_insert k v m) = insert k (fst ` set m)"
  by (induction k v m rule: bt_insert.induct) auto

lemma bt_ordered_insert: "bt_ordered m \<Longrightarrow> bt_ordered (bt_insert k v m)"
proof (induction k v m rule: bt_insert.induct)
  case (2 k v k' v' m)
  have "set (map fst (bt_insert k v m)) = insert k (fst ` set m)"
    using fst_set_bt_insert [of k v m] by simp
  with 2 show ?case by (auto simp: bt_ordered_def)
qed (simp add: bt_ordered_def)

lemma map_of_bt_insert:
  "bt_ordered m \<Longrightarrow> map_of (bt_insert k v m) k' = (if k' = k then Some v else map_of m k')"
proof (induction k v m rule: bt_insert.induct)
  case (2 k v k1 v1 m)
  then show ?case by (auto simp: bt_ordered_def)
qed simp

lemma bt_ordered_Nil [simp]: "bt_ordered []"
  by (simp add: bt_ordered_def)

interpretation bt: ordered_map "[]" bt_insert map_of bt_ordered
  by unfold_locales (simp_all add: map_of_bt_insert bt_ordered_insert)

lemma bts_of_list_cong: "set xs = set ys \<Longrightarrow> bts_of_list xs = bts_of_list ys"
  unfolding bts_of_list_def
  by (rule properties_for_sort) (auto simp: set_eq_iff_mset_remdups_eq)

lemma set_bts_of_list [simp]: "set (bts_of_list xs) = set xs"
  by (simp add: bts_of_list_def)

lemma distinct_bts_of_list [simp]: "distinct (bts_of_list xs)"
  by (simp add: bts_of_list_def)

lemma bts_of_list_inj: "bts_of_list xs = bts_of_list ys \<Longrightarrow> set xs = set ys"
  using set_bts_of_list by metis

section \<open>Keep the first row of each key\<close>

fun dedupe_loop :: "('a \<Rightarrow> 'k) \<Rightarrow> 'k list \<Rightarrow> 'a list \<Rightarrow> 'a list" where
  "dedupe_loop key seen [] = []"
| "dedupe_loop key seen (x # xs) =
     (if key x \<in> set seen then dedupe_loop key seen xs
      else x # dedupe_loop key (key x # seen) xs)"

definition dedupe_by :: "('a \<Rightarrow> 'k) \<Rightarrow> 'a list \<Rightarrow> 'a list" where
  "dedupe_by key xs = dedupe_loop key [] xs"

text \<open>The promise of a keep-first deduplication.\<close>

locale keep_first =
  fixes key :: "'a \<Rightarrow> 'k"
    and dedupe :: "'a list \<Rightarrow> 'a list"
  assumes keeps_order: "subseq (dedupe xs) xs"
    and keys_distinct: "distinct (map key (dedupe xs))"
    and first_of_key: "find (\<lambda>x. key x = k) (dedupe xs) = find (\<lambda>x. key x = k) xs"
    and distinct_unchanged: "distinct (map key xs) \<Longrightarrow> dedupe xs = xs"
begin

lemma dedupe_idem: "dedupe (dedupe xs) = dedupe xs"
  by (rule distinct_unchanged, rule keys_distinct)

lemma dedupe_subset: "set (dedupe xs) \<subseteq> set xs"
  using keeps_order [of xs] by (auto elim: list_emb_set)

lemma dedupe_keys: "key ` set (dedupe xs) = key ` set xs"
proof -
  have "(\<exists>x\<in>set (dedupe xs). key x = k) \<longleftrightarrow> (\<exists>x\<in>set xs. key x = k)" for k
    using first_of_key [of k xs] by (metis (mono_tags, lifting) find_None_iff)
  then show ?thesis by (auto simp: image_iff) metis+
qed

end

lemma dedupe_loop_subseq: "subseq (dedupe_loop key seen xs) xs"
  by (induction key seen xs rule: dedupe_loop.induct) auto

lemma dedupe_loop_keys:
  "distinct (map key (dedupe_loop key seen xs))
   \<and> set (map key (dedupe_loop key seen xs)) \<inter> set seen = {}"
  by (induction key seen xs rule: dedupe_loop.induct) auto

lemma dedupe_loop_find:
  "k \<notin> set seen \<Longrightarrow>
   find (\<lambda>x. key x = k) (dedupe_loop key seen xs) = find (\<lambda>x. key x = k) xs"
  by (induction key seen xs rule: dedupe_loop.induct) auto

lemma dedupe_loop_id:
  "distinct (map key xs) \<Longrightarrow> set (map key xs) \<inter> set seen = {} \<Longrightarrow> dedupe_loop key seen xs = xs"
  by (induction key seen xs rule: dedupe_loop.induct) auto

lemma keep_first_dedupe_by: "keep_first key (dedupe_by key)"
  by unfold_locales
    (simp_all add: dedupe_by_def dedupe_loop_subseq dedupe_loop_keys dedupe_loop_find
      dedupe_loop_id)

section \<open>Tables as lists of rows\<close>

text \<open>
  \<^verbatim>\<open>SELECT ... WHERE p\<close> is \<open>filter\<close>, \<^verbatim>\<open>DELETE ... WHERE p\<close> is \<open>delete\_where\<close>, and an
  upsert on a key replaces the row of the key in place or appends one.
\<close>

definition delete_where :: "('r \<Rightarrow> bool) \<Rightarrow> 'r list \<Rightarrow> 'r list" where
  "delete_where p t = filter (\<lambda>r. \<not> p r) t"

definition exists_where :: "('r \<Rightarrow> bool) \<Rightarrow> 'r list \<Rightarrow> bool" where
  "exists_where p t = list_ex p t"

definition update_where :: "('r \<Rightarrow> bool) \<Rightarrow> ('r \<Rightarrow> 'r) \<Rightarrow> 'r list \<Rightarrow> 'r list" where
  "update_where p f t = map (\<lambda>r. if p r then f r else r) t"

definition upsert_by :: "('r \<Rightarrow> 'k) \<Rightarrow> ('r \<Rightarrow> 'r \<Rightarrow> 'r) \<Rightarrow> 'r \<Rightarrow> 'r list \<Rightarrow> 'r list" where
  "upsert_by key merge new t =
     (if exists_where (\<lambda>r. key r = key new) t
      then update_where (\<lambda>r. key r = key new) (\<lambda>old. merge old new) t
      else t @ [new])"

definition lookup_by :: "('r \<Rightarrow> 'k) \<Rightarrow> 'r list \<Rightarrow> 'k \<Rightarrow> 'r option" where
  "lookup_by key t k = find (\<lambda>r. key r = k) t"

declare delete_where_def [db_defs] exists_where_def [db_defs] update_where_def [db_defs]
  upsert_by_def [db_defs] lookup_by_def [db_defs]

lemma exists_where_iff [simp]: "exists_where p t \<longleftrightarrow> (\<exists>r\<in>set t. p r)"
  by (simp add: exists_where_def list_ex_iff)

lemma set_delete_where [simp]: "set (delete_where p t) = {r \<in> set t. \<not> p r}"
  by (auto simp: delete_where_def)

lemma delete_where_idem [simp]: "delete_where p (delete_where p t) = delete_where p t"
  by (simp add: delete_where_def)

lemma delete_where_none: "\<not> exists_where p t \<Longrightarrow> delete_where p t = t"
  by (simp add: delete_where_def filter_id_conv)

lemma filter_delete_where:
  "filter q (delete_where p t) = filter (\<lambda>r. q r \<and> \<not> p r) t"
  by (simp add: delete_where_def conj_commute)

lemma lookup_by_None [simp]: "lookup_by key t k = None \<longleftrightarrow> k \<notin> key ` set t"
  by (auto simp: lookup_by_def find_None_iff)

lemma lookup_by_Some: "lookup_by key t k = Some r \<Longrightarrow> r \<in> set t \<and> key r = k"
  by (auto simp: lookup_by_def find_Some_iff)

lemma lookup_by_unique:
  "distinct (map key t) \<Longrightarrow> r \<in> set t \<Longrightarrow> lookup_by key t (key r) = Some r"
  by (induction t) (auto simp: lookup_by_def)

text \<open>The interface of a table with a primary key.\<close>

locale keyed_table =
  fixes key :: "'r \<Rightarrow> 'k"
    and upsert :: "'r \<Rightarrow> 't \<Rightarrow> 't"
    and delete :: "'k \<Rightarrow> 't \<Rightarrow> 't"
    and lookup :: "'t \<Rightarrow> 'k \<Rightarrow> 'r option"
    and merge :: "'r \<Rightarrow> 'r \<Rightarrow> 'r"
    and invar :: "'t \<Rightarrow> bool"
  assumes lookup_upsert:
      "invar t \<Longrightarrow> lookup (upsert r t) k =
        (if k = key r then Some (case lookup t k of None \<Rightarrow> r | Some old \<Rightarrow> merge old r)
         else lookup t k)"
    and lookup_delete:
      "invar t \<Longrightarrow> lookup (delete k t) k' = (if k' = k then None else lookup t k')"
    and invar_upsert: "invar t \<Longrightarrow> invar (upsert r t)"
    and invar_delete: "invar t \<Longrightarrow> invar (delete k t)"
begin

lemma upsert_visible: "invar t \<Longrightarrow> lookup (upsert r t) (key r) \<noteq> None"
  by (simp add: lookup_upsert)

lemma upsert_frame: "invar t \<Longrightarrow> k \<noteq> key r \<Longrightarrow> lookup (upsert r t) k = lookup t k"
  by (simp add: lookup_upsert)

text \<open>With an idempotent merge, delivering the same row twice changes nothing more.\<close>

lemma upsert_twice:
  assumes "invar t" and "\<And>a b. merge (merge a b) b = merge a b" and "merge r r = r"
  shows "lookup (upsert r (upsert r t)) k = lookup (upsert r t) k"
  using assms by (auto simp: lookup_upsert invar_upsert split: option.splits)

end

lemma map_update_where_key:
  "(\<And>r. p r \<Longrightarrow> key (f r) = key r) \<Longrightarrow> map key (update_where p f t) = map key t"
  by (auto simp: update_where_def)

lemma distinct_upsert_by:
  assumes "\<And>old. key old = key r \<Longrightarrow> key (merge old r) = key old"
    and "distinct (map key t)"
  shows "distinct (map key (upsert_by key merge r t))"
  using assms map_update_where_key [of "\<lambda>x. key x = key r" key "\<lambda>old. merge old r" t]
  by (auto simp: upsert_by_def)

lemma lookup_update_where:
  assumes "\<And>old. key old = k' \<Longrightarrow> key (f old) = key old"
  shows "lookup_by key (update_where (\<lambda>x. key x = k') f t) k =
    (if k = k' then map_option f (lookup_by key t k) else lookup_by key t k)"
  using assms by (induction t) (auto simp: lookup_by_def update_where_def)

lemma lookup_append_new:
  "k' \<notin> key ` set t \<Longrightarrow> key r = k' \<Longrightarrow>
   lookup_by key (t @ [r]) k = (if k = k' then Some r else lookup_by key t k)"
  by (induction t) (auto simp: lookup_by_def)

lemma lookup_upsert_by:
  assumes "\<And>old. key old = key r \<Longrightarrow> key (merge old r) = key old"
  shows "lookup_by key (upsert_by key merge r t) k =
    (if k = key r then Some (case lookup_by key t k of None \<Rightarrow> r | Some old \<Rightarrow> merge old r)
     else lookup_by key t k)"
proof (cases "key r \<in> key ` set t")
  case False
  then have "lookup_by key t (key r) = None" by simp
  moreover have "\<not> exists_where (\<lambda>x. key x = key r) t"
    using False by (auto simp: image_iff)
  ultimately have "lookup_by key t (key r) = None" "\<not> exists_where (\<lambda>x. key x = key r) t"
    by simp_all
  with False show ?thesis
    by (simp add: upsert_by_def lookup_append_new del: lookup_by_None)
next
  case True
  then obtain old where "lookup_by key t (key r) = Some old"
    using lookup_by_None by (metis not_None_eq)
  moreover from True have "exists_where (\<lambda>x. key x = key r) t" by auto
  ultimately show ?thesis
    using lookup_update_where [of key "key r" "\<lambda>old. merge old r" t k] assms
    by (simp add: upsert_by_def)
qed

lemma lookup_delete_by:
  "lookup_by key (delete_where (\<lambda>r. key r = k) t) k' = (if k' = k then None else lookup_by key t k')"
  by (induction t) (auto simp: lookup_by_def delete_where_def)

lemma distinct_delete_where: "distinct (map key t) \<Longrightarrow> distinct (map key (delete_where p t))"
  by (simp add: delete_where_def distinct_map_filter)

lemma keyed_table_by:
  assumes "\<And>old new. key old = key new \<Longrightarrow> key (merge old new) = key old"
  shows "keyed_table key (upsert_by key merge) (\<lambda>k. delete_where (\<lambda>r. key r = k))
    (lookup_by key) merge (\<lambda>t. distinct (map key t))"
  using assms
  by unfold_locales (simp_all add: lookup_upsert_by lookup_delete_by distinct_upsert_by
      distinct_delete_where)

end
