(* ===== verification/Summary.thy ===== *)
theory Summary
  imports Model Tables
begin

text \<open>
  \<^verbatim>\<open>src/model.rs\<close>, the functions: recipients of routes, the normal form of a block value, the
  summary of a copy with its digests (ADR 0058), the origin check of a GUID and the reading of a
  text as a web link (ADR 0054). The arguments that stand for third-party code are
  \<open>json\<close> (\<^verbatim>\<open>serde\_json::to\_vec\<close>), \<open>sha256\_hex\<close>, \<open>uuid5\<close> (the text of \<^verbatim>\<open>Uuid::new\_v5\<close> under the
  GUID namespace), \<open>url\_parse\<close> (\<^verbatim>\<open>url::Url::parse\<close>) and \<open>lc\<close> (\<^verbatim>\<open>str::to\_lowercase\<close>).
\<close>

section \<open>Parsed URLs\<close>

text \<open>The accessors of \<^verbatim>\<open>url::Url\<close> that the sources read.\<close>

record url =
  ur_scheme :: string
  ur_username :: string
  ur_password :: "string option"
  ur_host_str :: "string option"
  ur_port_or_known_default :: "nat option"

section \<open>Recipients\<close>

definition recipient_of_payment_route :: "payment_route \<Rightarrow> route_recipient" where
  "recipient_of_payment_route route =
    \<lparr>rr_address = pr_address route, rr_custom_key = pr_custom_key route,
     rr_custom_value = pr_custom_value route, rr_split = pr_split route\<rparr>"

definition recipient_of_feed_payment_route :: "feed_payment_route \<Rightarrow> route_recipient" where
  "recipient_of_feed_payment_route route =
    \<lparr>rr_address = fpr_address route, rr_custom_key = fpr_custom_key route,
     rr_custom_value = fpr_custom_value route, rr_split = fpr_split route\<rparr>"

definition recipient_of_ingest_route :: "ingest_payment_route \<Rightarrow> route_recipient" where
  "recipient_of_ingest_route route =
    \<lparr>rr_address = ipr_address route, rr_custom_key = ipr_custom_key route,
     rr_custom_value = ipr_custom_value route, rr_split = ipr_split route\<rparr>"

definition recipient_set :: "payment_route list \<Rightarrow> route_recipient list" where
  "recipient_set routes = map recipient_of_payment_route routes"

definition feed_recipient_set :: "feed_payment_route list \<Rightarrow> route_recipient list" where
  "feed_recipient_set routes = map recipient_of_feed_payment_route routes"

definition value_time_split_form_as_str :: "value_time_split_form \<Rightarrow> string" where
  "value_time_split_form_as_str f = (case f of Remote \<Rightarrow> ''remote'' | Local \<Rightarrow> ''local'')"

definition feed_block_kind_as_str :: "feed_block_kind \<Rightarrow> string" where
  "feed_block_kind_as_str k = (case k of Guid \<Rightarrow> ''guid'' | Url \<Rightarrow> ''url'')"

definition normalize :: "(string \<Rightarrow> string) \<Rightarrow> feed_block_kind \<Rightarrow> string \<Rightarrow> string" where
  "normalize lc k v = (case k of Guid \<Rightarrow> lc (trim v) | Url \<Rightarrow> trim v)"

section \<open>The summary of a copy\<close>

datatype copy_remote_item = CopyRemoteItem
  (cri_medium: "string option")
  (cri_feed_guid: string)
  (cri_feed_url: "string option")
  (cri_item_guid: "string option")

text \<open>The derived \<^verbatim>\<open>Ord\<close>: field by field, \<^verbatim>\<open>None\<close> first, strings by their bytes.\<close>

definition cri_key :: "copy_remote_item \<Rightarrow> string option \<times> string \<times> string option \<times> string option" where
  "cri_key i = (cri_medium i, cri_feed_guid i, cri_feed_url i, cri_item_guid i)"

lemma cri_key_inj: "cri_key a = cri_key b \<Longrightarrow> a = b"
  by (cases a; cases b) (simp add: cri_key_def)

instantiation copy_remote_item :: linorder
begin

definition less_eq_copy_remote_item :: "copy_remote_item \<Rightarrow> copy_remote_item \<Rightarrow> bool" where
  "less_eq_copy_remote_item a b \<longleftrightarrow> cri_key a \<le> cri_key b"

definition less_copy_remote_item :: "copy_remote_item \<Rightarrow> copy_remote_item \<Rightarrow> bool" where
  "less_copy_remote_item a b \<longleftrightarrow> cri_key a < cri_key b"

instance
  by standard
    (auto simp: less_eq_copy_remote_item_def less_copy_remote_item_def intro: cri_key_inj)

end

record copy_summary =
  cs_title :: string
  cs_item_guids :: "string list"
  cs_item_titles :: "string option list option"
  cs_image_url :: "string option"
  cs_remote_items :: "copy_remote_item list option"
  cs_item_durations :: "int option list option"
  cs_item_enclosure_urls :: "string option list option"
  cs_item_pub_dates :: "int option list option"
  cs_author :: "string option"
  cs_feed_recipients :: "route_recipient list"
  cs_track_recipients :: "(string \<times> route_recipient list) list"

definition non_empty :: "string option \<Rightarrow> string option" where
  "non_empty s = (case s of None \<Rightarrow> None | Some t \<Rightarrow> if t = [] then None else Some t)"

definition copy_item_of_ref :: "ingest_remote_feed_ref \<Rightarrow> copy_remote_item" where
  "copy_item_of_ref item = CopyRemoteItem (irf_medium item) (irf_remote_feed_guid item)
     (irf_remote_feed_url item) (irf_item_guid item)"

definition copy_summary :: "ingest_feed_data \<Rightarrow> copy_summary" where
  "copy_summary feed =
    \<lparr>cs_title = ifd_title feed,
     cs_item_guids = map itd_track_guid (ifd_tracks feed),
     cs_item_titles = Some (map (\<lambda>t. if itd_title t = [] then None else Some (itd_title t)) (ifd_tracks feed)),
     cs_image_url = ifd_image_url feed,
     cs_remote_items = Some (map copy_item_of_ref (ifd_remote_items feed)),
     cs_item_durations = Some (map itd_duration_secs (ifd_tracks feed)),
     cs_item_enclosure_urls = Some (map (\<lambda>t. non_empty (itd_enclosure_url t)) (ifd_tracks feed)),
     cs_item_pub_dates = Some (map itd_pub_date (ifd_tracks feed)),
     cs_author = non_empty (ifd_author_name feed),
     cs_feed_recipients = map recipient_of_ingest_route (ifd_feed_payment_routes feed),
     cs_track_recipients =
       fold (\<lambda>(g, rs). bt_insert g rs)
         (map (\<lambda>t. (itd_track_guid t, map recipient_of_ingest_route (itd_payment_routes t))) (ifd_tracks feed))
         []\<rparr>"

record copy_summary_digest_fields =
  df_item_guids :: "string list"
  df_feed_recipients :: "route_recipient list"
  df_track_recipients :: "(string \<times> route_recipient list) list"

definition summary_digest ::
  "(copy_summary_digest_fields \<Rightarrow> string) \<Rightarrow> (string \<Rightarrow> string) \<Rightarrow> copy_summary \<Rightarrow> string" where
  "summary_digest json sha256_hex s =
     sha256_hex (json \<lparr>df_item_guids = cs_item_guids s,
       df_feed_recipients = cs_feed_recipients s, df_track_recipients = cs_track_recipients s\<rparr>)"

definition remote_items_digest ::
  "(copy_remote_item list \<Rightarrow> string) \<Rightarrow> (string \<Rightarrow> string) \<Rightarrow> copy_summary \<Rightarrow> string option" where
  "remote_items_digest json sha256_hex s =
     (case cs_remote_items s of
        None \<Rightarrow> None
      | Some items \<Rightarrow> Some (sha256_hex (json (bts_of_list items))))"

lemma copy_summary_lengths:
  "\<exists>ts ds us ps. cs_item_titles (copy_summary f) = Some ts \<and> cs_item_durations (copy_summary f) = Some ds
    \<and> cs_item_enclosure_urls (copy_summary f) = Some us \<and> cs_item_pub_dates (copy_summary f) = Some ps
    \<and> length ts = length (cs_item_guids (copy_summary f)) \<and> length ds = length ts
    \<and> length us = length ts \<and> length ps = length ts"
  by (simp add: copy_summary_def)

text \<open>The recipients of a GUID that several items carry are those of the last one.\<close>

lemma copy_summary_track_lookup:
  "map_of (cs_track_recipients (copy_summary f)) g =
     map_option (\<lambda>t. map recipient_of_ingest_route (itd_payment_routes t))
       (find (\<lambda>t. itd_track_guid t = g) (rev (ifd_tracks f)))"
proof -
  have *: "map_of (map (\<lambda>t. (itd_track_guid t, h t)) ts) g =
      map_option h (find (\<lambda>t. itd_track_guid t = g) ts)" for h :: "ingest_track_data \<Rightarrow> route_recipient list" and ts
    by (induction ts) auto
  show ?thesis
    by (simp add: copy_summary_def bt.lookup_fold bt.invar_empty rev_map * split: option.split)
qed

lemma copy_summary_track_ordered: "bt_ordered (cs_track_recipients (copy_summary f))"
  by (simp add: copy_summary_def bt.invar_fold bt.invar_empty)

section \<open>GUID origin\<close>

definition guid_origin_matches :: "(string \<Rightarrow> string) \<Rightarrow> string \<Rightarrow> string \<Rightarrow> bool" where
  "guid_origin_matches uuid5 feed_guid u =
     (let without_scheme = (case split_once ''://'' u of None \<Rightarrow> u | Some (_, rest) \<Rightarrow> rest);
          name = (case strip_suffix ''/'' without_scheme of None \<Rightarrow> without_scheme | Some n \<Rightarrow> n)
      in eq_ignore_ascii_case (uuid5 name) feed_guid)"

section \<open>Web links\<close>

definition web_url_or_none :: "(string \<Rightarrow> url option) \<Rightarrow> string option \<Rightarrow> string option" where
  "web_url_or_none url_parse v =
     (case v of None \<Rightarrow> None
      | Some raw \<Rightarrow>
          (case url_parse raw of
             Some parsed \<Rightarrow> if ur_scheme parsed = ''http'' \<or> ur_scheme parsed = ''https'' then Some raw else None
           | None \<Rightarrow> None))"

fun uri_scheme_rest :: "string \<Rightarrow> bool" where
  "uri_scheme_rest [] = False"
| "uri_scheme_rest (c # cs) =
     (if c = CHR '':'' then True
      else if is_ascii_alphanumeric c \<or> c = CHR ''+'' \<or> c = CHR ''-'' \<or> c = CHR ''.'' then uri_scheme_rest cs
      else False)"

definition starts_with_uri_scheme :: "string \<Rightarrow> bool" where
  "starts_with_uri_scheme s =
     (case s of [] \<Rightarrow> False | c # cs \<Rightarrow> is_ascii_alphabetic c \<and> uri_scheme_rest cs)"

definition is_host_name_label :: "string \<Rightarrow> bool" where
  "is_host_name_label label \<longleftrightarrow>
     1 \<le> char_count label \<and> char_count label \<le> 63
     \<and> list_all (\<lambda>c. is_ascii_alphanumeric c \<or> c = CHR ''-'') label
     \<and> \<not> starts_with label ''-'' \<and> \<not> ends_with label ''-''"

definition is_host_name :: "string \<Rightarrow> bool" where
  "is_host_name candidate =
     (let labels = split_on CHR ''.'' candidate; l = last labels
      in 2 \<le> length labels \<and> list_all is_host_name_label labels
         \<and> 2 \<le> length l \<and> list_all is_ascii_alphabetic l)"

definition web_link_for_read :: "(string \<Rightarrow> url option) \<Rightarrow> string \<Rightarrow> string option \<times> bool" where
  "web_link_for_read url_parse raw =
     (let trimmed = trim raw in
      if \<not> starts_with_uri_scheme trimmed \<and> \<not> has_white_space trimmed
         \<and> is_host_name (takeWhile (\<lambda>c. c \<noteq> CHR ''/'' \<and> c \<noteq> CHR ''?'' \<and> c \<noteq> CHR ''#'') trimmed)
      then (web_url_or_none url_parse (Some (''https://'' @ trimmed)), True)
      else (web_url_or_none url_parse (Some trimmed), False))"

definition sort_key :: "(string \<Rightarrow> string) \<Rightarrow> string \<Rightarrow> string" where
  "sort_key lc t = lc (join '' '' (split_whitespace t))"

lemma web_url_or_none_Some:
  "web_url_or_none up v = Some w \<Longrightarrow>
     v = Some w \<and> (\<exists>u. up w = Some u \<and> (ur_scheme u = ''http'' \<or> ur_scheme u = ''https''))"
  by (auto simp: web_url_or_none_def split: option.splits if_splits)

text \<open>A host name has a dot and only letters, digits, dots and hyphens, so no \<^verbatim>\<open>:\<close> or \<^verbatim>\<open>@\<close>.\<close>

lemma set_split_on: "set s \<subseteq> insert d (\<Union> (set ` set (split_on d s)))"
proof (induction s)
  case (Cons c s)
  then show ?case by (cases "split_on d s") auto
qed simp

lemma is_host_name_chars:
  assumes "is_host_name h"
  shows "list_all (\<lambda>c. is_ascii_alphanumeric c \<or> c = CHR ''-'' \<or> c = CHR ''.'') h"
proof -
  have "set h \<subseteq> insert CHR ''.'' (\<Union> (set ` set (split_on CHR ''.'' h)))"
    by (rule set_split_on)
  with assms show ?thesis
    by (auto simp: is_host_name_def Let_def is_host_name_label_def list_all_iff)
qed

lemma is_host_name_dot: "is_host_name h \<Longrightarrow> CHR ''.'' \<in> set h"
  using length_split_on [of "CHR ''.''" h] count_list_0_iff [of h "CHR ''.''"]
  by (auto simp: is_host_name_def Let_def)

end
