(* ===== verification/Event.thy ===== *)
theory Event
  imports Summary
begin

text \<open>
  \<^verbatim>\<open>src/event.rs\<close>: the kinds of a sync event, the payload of each kind, the signed envelope
  and the fields its signature covers. The constructor names of the payload carry the suffix
  \<open>P\<close> to keep them apart from the event types.
\<close>

section \<open>Event types\<close>

datatype event_type =
    FeedUpserted
  | FeedRetired
  | TrackUpserted
  | TrackRemoved
  | ArtistUpserted
  | RoutesReplaced
  | ArtistCreditCreated
  | FeedRoutesReplaced
  | FeedRemoteItemsReplaced
  | TrackRemoteItemsReplaced
  | FeedListValueReplaced
  | LiveEventsReplaced
  | SourceContributorClaimsReplaced
  | SourceEntityIdsReplaced
  | SourceEntityLinksReplaced
  | SourceReleaseClaimsReplaced
  | SourceItemEnclosuresReplaced
  | SourceItemTranscriptsReplaced
  | SourcePlatformClaimsReplaced
  | FeedUrlObserved
  | FeedBlocked
  | FeedUnblocked
  | FeedCopyObserved
  | FeedCopyResolved
  | FeedGuidChangeObserved
  | FeedGuidChangeDecided
  | FeedGuidSuperseded

text \<open>The serde name of a type (\<^verbatim>\<open>rename\_all = "snake\_case"\<close>), the text of the column.\<close>

fun event_type_str :: "event_type \<Rightarrow> string" where
  "event_type_str FeedUpserted = ''feed_upserted''"
| "event_type_str FeedRetired = ''feed_retired''"
| "event_type_str TrackUpserted = ''track_upserted''"
| "event_type_str TrackRemoved = ''track_removed''"
| "event_type_str ArtistUpserted = ''artist_upserted''"
| "event_type_str RoutesReplaced = ''routes_replaced''"
| "event_type_str ArtistCreditCreated = ''artist_credit_created''"
| "event_type_str FeedRoutesReplaced = ''feed_routes_replaced''"
| "event_type_str FeedRemoteItemsReplaced = ''feed_remote_items_replaced''"
| "event_type_str TrackRemoteItemsReplaced = ''track_remote_items_replaced''"
| "event_type_str FeedListValueReplaced = ''feed_list_value_replaced''"
| "event_type_str LiveEventsReplaced = ''live_events_replaced''"
| "event_type_str SourceContributorClaimsReplaced = ''source_contributor_claims_replaced''"
| "event_type_str SourceEntityIdsReplaced = ''source_entity_ids_replaced''"
| "event_type_str SourceEntityLinksReplaced = ''source_entity_links_replaced''"
| "event_type_str SourceReleaseClaimsReplaced = ''source_release_claims_replaced''"
| "event_type_str SourceItemEnclosuresReplaced = ''source_item_enclosures_replaced''"
| "event_type_str SourceItemTranscriptsReplaced = ''source_item_transcripts_replaced''"
| "event_type_str SourcePlatformClaimsReplaced = ''source_platform_claims_replaced''"
| "event_type_str FeedUrlObserved = ''feed_url_observed''"
| "event_type_str FeedBlocked = ''feed_blocked''"
| "event_type_str FeedUnblocked = ''feed_unblocked''"
| "event_type_str FeedCopyObserved = ''feed_copy_observed''"
| "event_type_str FeedCopyResolved = ''feed_copy_resolved''"
| "event_type_str FeedGuidChangeObserved = ''feed_guid_change_observed''"
| "event_type_str FeedGuidChangeDecided = ''feed_guid_change_decided''"
| "event_type_str FeedGuidSuperseded = ''feed_guid_superseded''"

section \<open>Payloads\<close>

record feed_upserted_payload =
  fu_feed :: feed
  fu_reason :: "string option"

record feed_retired_payload =
  frt_feed_guid :: string
  frt_reason :: "string option"

record track_upserted_payload =
  tu_track :: track
  tu_routes :: "payment_route list"
  tu_value_time_splits :: "value_time_split list"

record track_removed_payload =
  trm_track_guid :: string
  trm_feed_guid :: string

record artist_upserted_payload =
  au_artist :: artist

record routes_replaced_payload =
  rrp_track_guid :: string
  rrp_feed_guid :: "string option"
  rrp_routes :: "payment_route list"

record artist_credit_created_payload =
  acc_artist_credit :: artist_credit

record feed_routes_replaced_payload =
  frr_feed_guid :: string
  frr_routes :: "feed_payment_route list"

record feed_remote_items_replaced_payload =
  frir_feed_guid :: string
  frir_remote_items :: "feed_remote_item_raw list"

record track_remote_items_replaced_payload =
  trir_track_guid :: string
  trir_feed_guid :: "string option"
  trir_remote_items :: "track_remote_item_raw list"

record feed_list_value_replaced_payload =
  flr_feed_guid :: string
  flr_list_values :: "feed_list_value_raw list"

record live_events_replaced_payload =
  ler_feed_guid :: string
  ler_live_events :: "live_event list"

record source_contributor_claims_replaced_payload =
  sccr_feed_guid :: string
  sccr_claims :: "source_contributor_claim list"

record source_entity_ids_replaced_payload =
  seir_feed_guid :: string
  seir_claims :: "source_entity_id_claim list"

record source_entity_links_replaced_payload =
  selr_feed_guid :: string
  selr_links :: "source_entity_link list"

record source_release_claims_replaced_payload =
  srcr_feed_guid :: string
  srcr_claims :: "source_release_claim list"

record source_item_enclosures_replaced_payload =
  sier_feed_guid :: string
  sier_enclosures :: "source_item_enclosure list"

record source_item_transcripts_replaced_payload =
  sitr_feed_guid :: string
  sitr_transcripts :: "source_item_transcript list"

record source_platform_claims_replaced_payload =
  spcr_feed_guid :: string
  spcr_claims :: "source_platform_claim list"

record feed_url_observed_payload =
  fuo_url :: string
  fuo_feed_guid :: string
  fuo_observed_at :: int

record feed_blocked_payload =
  fbd_block_id :: string
  fbd_kind :: feed_block_kind
  fbd_value :: string
  fbd_reason :: string
  fbd_blocked_at :: int

record feed_unblocked_payload =
  fub_block_id :: string

record feed_copy_observed_payload =
  fco_feed_guid :: string
  fco_url :: string
  fco_first_seen :: int
  fco_title :: string
  fco_item_guids :: "string list"
  fco_item_titles :: "string option list option"
  fco_image_url :: "string option"
  fco_remote_items :: "copy_remote_item list option"
  fco_item_durations :: "int option list option"
  fco_item_enclosure_urls :: "string option list option"
  fco_item_pub_dates :: "int option list option"
  fco_author :: "string option"
  fco_feed_recipients :: "route_recipient list"
  fco_track_recipients :: "(string \<times> route_recipient list) list"
  fco_summary_digest :: string

record feed_copy_resolved_payload =
  fcr_feed_guid :: string
  fcr_url :: string
  fcr_decision :: string
  fcr_reason :: string
  fcr_resolved_at :: int
  fcr_resolved_digest :: string
  fcr_resolved_remote_items_digest :: "string option"

record feed_guid_change_observed_payload =
  gco_source_url :: string
  gco_old_guid :: string
  gco_new_guid :: string
  gco_first_seen :: int

record feed_guid_change_decided_payload =
  gcd_source_url :: string
  gcd_old_guid :: string
  gcd_new_guid :: string
  gcd_decision :: string
  gcd_reason :: string
  gcd_decided_at :: int

record feed_guid_superseded_payload =
  fgs_old_guid :: string
  fgs_new_guid :: string
  fgs_source_url :: string

datatype event_payload =
    FeedUpsertedP feed_upserted_payload
  | FeedRetiredP feed_retired_payload
  | TrackUpsertedP track_upserted_payload
  | TrackRemovedP track_removed_payload
  | ArtistUpsertedP artist_upserted_payload
  | RoutesReplacedP routes_replaced_payload
  | ArtistCreditCreatedP artist_credit_created_payload
  | FeedRoutesReplacedP feed_routes_replaced_payload
  | FeedRemoteItemsReplacedP feed_remote_items_replaced_payload
  | TrackRemoteItemsReplacedP track_remote_items_replaced_payload
  | FeedListValueReplacedP feed_list_value_replaced_payload
  | LiveEventsReplacedP live_events_replaced_payload
  | SourceContributorClaimsReplacedP source_contributor_claims_replaced_payload
  | SourceEntityIdsReplacedP source_entity_ids_replaced_payload
  | SourceEntityLinksReplacedP source_entity_links_replaced_payload
  | SourceReleaseClaimsReplacedP source_release_claims_replaced_payload
  | SourceItemEnclosuresReplacedP source_item_enclosures_replaced_payload
  | SourceItemTranscriptsReplacedP source_item_transcripts_replaced_payload
  | SourcePlatformClaimsReplacedP source_platform_claims_replaced_payload
  | FeedUrlObservedP feed_url_observed_payload
  | FeedBlockedP feed_blocked_payload
  | FeedUnblockedP feed_unblocked_payload
  | FeedCopyObservedP feed_copy_observed_payload
  | FeedCopyResolvedP feed_copy_resolved_payload
  | FeedGuidChangeObservedP feed_guid_change_observed_payload
  | FeedGuidChangeDecidedP feed_guid_change_decided_payload
  | FeedGuidSupersededP feed_guid_superseded_payload

fun payload_type :: "event_payload \<Rightarrow> event_type" where
  "payload_type (FeedUpsertedP _) = FeedUpserted"
| "payload_type (FeedRetiredP _) = FeedRetired"
| "payload_type (TrackUpsertedP _) = TrackUpserted"
| "payload_type (TrackRemovedP _) = TrackRemoved"
| "payload_type (ArtistUpsertedP _) = ArtistUpserted"
| "payload_type (RoutesReplacedP _) = RoutesReplaced"
| "payload_type (ArtistCreditCreatedP _) = ArtistCreditCreated"
| "payload_type (FeedRoutesReplacedP _) = FeedRoutesReplaced"
| "payload_type (FeedRemoteItemsReplacedP _) = FeedRemoteItemsReplaced"
| "payload_type (TrackRemoteItemsReplacedP _) = TrackRemoteItemsReplaced"
| "payload_type (FeedListValueReplacedP _) = FeedListValueReplaced"
| "payload_type (LiveEventsReplacedP _) = LiveEventsReplaced"
| "payload_type (SourceContributorClaimsReplacedP _) = SourceContributorClaimsReplaced"
| "payload_type (SourceEntityIdsReplacedP _) = SourceEntityIdsReplaced"
| "payload_type (SourceEntityLinksReplacedP _) = SourceEntityLinksReplaced"
| "payload_type (SourceReleaseClaimsReplacedP _) = SourceReleaseClaimsReplaced"
| "payload_type (SourceItemEnclosuresReplacedP _) = SourceItemEnclosuresReplaced"
| "payload_type (SourceItemTranscriptsReplacedP _) = SourceItemTranscriptsReplaced"
| "payload_type (SourcePlatformClaimsReplacedP _) = SourcePlatformClaimsReplaced"
| "payload_type (FeedUrlObservedP _) = FeedUrlObserved"
| "payload_type (FeedBlockedP _) = FeedBlocked"
| "payload_type (FeedUnblockedP _) = FeedUnblocked"
| "payload_type (FeedCopyObservedP _) = FeedCopyObserved"
| "payload_type (FeedCopyResolvedP _) = FeedCopyResolved"
| "payload_type (FeedGuidChangeObservedP _) = FeedGuidChangeObserved"
| "payload_type (FeedGuidChangeDecidedP _) = FeedGuidChangeDecided"
| "payload_type (FeedGuidSupersededP _) = FeedGuidSuperseded"

section \<open>The envelope\<close>

record event =
  ev_event_id :: string
  ev_event_type :: event_type
  ev_payload :: event_payload
  ev_subject_guid :: string
  ev_signed_by :: string
  ev_signature :: string
  ev_seq :: int
  ev_created_at :: int
  ev_warnings :: "string list"
  ev_payload_json :: string

record event_signing_payload =
  esp_event_id :: string
  esp_event_type :: event_type
  esp_payload_json :: string
  esp_subject_guid :: string
  esp_created_at :: int
  esp_seq :: int

lemma event_type_str_inj: "event_type_str a = event_type_str b \<Longrightarrow> a = b"
  by (cases a; cases b) simp_all

end
