(* ===== verification/Signing.thy ===== *)
theory Signing
  imports Event
begin

text \<open>
  \<^verbatim>\<open>src/signing.rs\<close>: signing an event and verifying it. The cryptography, the hex and the JSON
  codecs are third-party code, collected in \<open>crypto\<close>; a key pair is named by its secret key.
\<close>

record crypto =
  cr_hex_encode :: "string \<Rightarrow> string"
  cr_hex_decode :: "string \<Rightarrow> string option"
  cr_sha256 :: "string \<Rightarrow> string"
  cr_signing_json :: "event_signing_payload \<Rightarrow> string"
  cr_public_key :: "string \<Rightarrow> string"
  cr_sign :: "string \<Rightarrow> string \<Rightarrow> string"
  cr_key_valid :: "string \<Rightarrow> bool"
  cr_verify :: "string \<Rightarrow> string \<Rightarrow> string \<Rightarrow> bool"

datatype signing_error = Io string | InvalidKey

definition pubkey_hex :: "crypto \<Rightarrow> string \<Rightarrow> string" where
  "pubkey_hex c key = cr_hex_encode c (cr_public_key c key)"

definition signing_payload ::
  "string \<Rightarrow> event_type \<Rightarrow> string \<Rightarrow> string \<Rightarrow> int \<Rightarrow> int \<Rightarrow> event_signing_payload" where
  "signing_payload event_id event_type payload_json subject_guid created_at seq =
    \<lparr>esp_event_id = event_id, esp_event_type = event_type, esp_payload_json = payload_json,
     esp_subject_guid = subject_guid, esp_created_at = created_at, esp_seq = seq\<rparr>"

definition sign_event ::
  "crypto \<Rightarrow> string \<Rightarrow> string \<Rightarrow> event_type \<Rightarrow> string \<Rightarrow> string \<Rightarrow> int \<Rightarrow> int \<Rightarrow> string \<times> string" where
  "sign_event c key event_id event_type payload_json subject_guid created_at seq =
     (let serialized = cr_signing_json c
            (signing_payload event_id event_type payload_json subject_guid created_at seq);
          digest = cr_sha256 c serialized
      in (pubkey_hex c key, cr_hex_encode c (cr_sign c key digest)))"

definition decode_exact :: "crypto \<Rightarrow> nat \<Rightarrow> string \<Rightarrow> string \<Rightarrow> signing_error + string" where
  "decode_exact c n what hex =
     (case cr_hex_decode c hex of None \<Rightarrow> Inl (Io ''invalid hex'')
      | Some bytes \<Rightarrow> if length bytes = n then Inr bytes else Inl (Io what))"

definition verify_event_signature :: "crypto \<Rightarrow> event \<Rightarrow> signing_error + unit" where
  "verify_event_signature c ev =
     rbind (decode_exact c 32 ''pubkey must be 32 bytes'' (ev_signed_by ev)) (\<lambda>pubkey.
     if \<not> cr_key_valid c pubkey then Inl InvalidKey
     else if ev_payload_json ev = [] then Inl (Io ''event.payload_json is empty'')
     else
       let digest = cr_sha256 c (cr_signing_json c (signing_payload (ev_event_id ev) (ev_event_type ev)
             (ev_payload_json ev) (ev_subject_guid ev) (ev_created_at ev) (ev_seq ev)))
       in rbind (decode_exact c 64 ''signature must be 64 bytes'' (ev_signature ev)) (\<lambda>sig.
            if cr_verify c pubkey digest sig then Inr () else Inl InvalidKey))"

definition verify_json_signature :: "crypto \<Rightarrow> ('a \<Rightarrow> string) \<Rightarrow> string \<Rightarrow> 'a \<Rightarrow> string \<Rightarrow> signing_error + unit" where
  "verify_json_signature c json signer_hex payload signature_hex =
     rbind (decode_exact c 32 ''pubkey must be 32 bytes'' signer_hex) (\<lambda>pubkey.
     if \<not> cr_key_valid c pubkey then Inl InvalidKey
     else
       let digest = cr_sha256 c (json payload)
       in rbind (decode_exact c 64 ''signature must be 64 bytes'' signature_hex) (\<lambda>sig.
            if cr_verify c pubkey digest sig then Inr () else Inl InvalidKey))"

definition sign_json :: "crypto \<Rightarrow> ('a \<Rightarrow> string) \<Rightarrow> string \<Rightarrow> 'a \<Rightarrow> string" where
  "sign_json c json key payload = cr_hex_encode c (cr_sign c key (cr_sha256 c (json payload)))"

text \<open>
  What the sources rely on: hex decoding inverts encoding, an ed25519 public key has 32 bytes
  and a signature 64, and a signature verifies under the key that made it.
\<close>

definition crypto_ok :: "crypto \<Rightarrow> bool" where
  "crypto_ok c \<longleftrightarrow> (\<forall>b. cr_hex_decode c (cr_hex_encode c b) = Some b)
     \<and> (\<forall>k. length (cr_public_key c k) = 32 \<and> cr_key_valid c (cr_public_key c k))
     \<and> (\<forall>k d. length (cr_sign c k d) = 64 \<and> cr_verify c (cr_public_key c k) d (cr_sign c k d))"

text \<open>A toy instance that meets it, for the witnesses.\<close>

definition toy_crypto :: crypto where
  "toy_crypto = \<lparr>cr_hex_encode = (\<lambda>b. b), cr_hex_decode = (\<lambda>h. Some h), cr_sha256 = (\<lambda>b. b),
     cr_signing_json = (\<lambda>p. esp_event_id p @ esp_payload_json p),
     cr_public_key = (\<lambda>k. take 32 (k @ replicate 32 CHR ''p'')),
     cr_sign = (\<lambda>k d. take 64 (d @ replicate 64 CHR ''s'')),
     cr_key_valid = (\<lambda>p. True),
     cr_verify = (\<lambda>p d s. s = take 64 (d @ replicate 64 CHR ''s''))\<rparr>"

lemma toy_crypto_ok: "crypto_ok toy_crypto"
  by (auto simp: crypto_ok_def toy_crypto_def min_def)

lemma decode_pubkey: "crypto_ok c \<Longrightarrow> decode_exact c 32 w (pubkey_hex c k) = Inr (cr_public_key c k)"
  by (simp add: decode_exact_def pubkey_hex_def crypto_ok_def)

lemma decode_signature:
  "crypto_ok c \<Longrightarrow> decode_exact c 64 w (cr_hex_encode c (cr_sign c k d)) = Inr (cr_sign c k d)"
  by (simp add: decode_exact_def crypto_ok_def)

lemma verify_signed_event:
  assumes "crypto_ok c" "ev_payload_json ev \<noteq> []"
    and "(ev_signed_by ev, ev_signature ev) = sign_event c key (ev_event_id ev) (ev_event_type ev)
       (ev_payload_json ev) (ev_subject_guid ev) (ev_created_at ev) (ev_seq ev)"
  shows "verify_event_signature c ev = Inr ()"
proof -
  have "ev_signed_by ev = pubkey_hex c key"
    "ev_signature ev = cr_hex_encode c (cr_sign c key (cr_sha256 c (cr_signing_json c (signing_payload
       (ev_event_id ev) (ev_event_type ev) (ev_payload_json ev) (ev_subject_guid ev) (ev_created_at ev) (ev_seq ev)))))"
    using assms(3) by (simp_all add: sign_event_def Let_def)
  with assms(1,2) show ?thesis
    by (simp add: verify_event_signature_def decode_pubkey decode_signature Let_def crypto_ok_def)
qed

lemma verify_signed_json:
  "crypto_ok c \<Longrightarrow> verify_json_signature c json (pubkey_hex c key) p (sign_json c json key p) = Inr ()"
  by (simp add: verify_json_signature_def sign_json_def decode_pubkey decode_signature Let_def crypto_ok_def)

section \<open>Properties of signing\<close>

text \<open>
  C22: What is signed verifies: an event whose signer and signature were made by signing its own id,
  type, payload text, subject, time and sequence number passes verification, and so does a signed
  JSON document under the signer's key. The payload text must not be empty.
\<close>

theorem signed_events_verify:
  assumes "crypto_ok c" "ev_payload_json ev \<noteq> []"
    and "(ev_signed_by ev, ev_signature ev) = sign_event c key (ev_event_id ev) (ev_event_type ev)
       (ev_payload_json ev) (ev_subject_guid ev) (ev_created_at ev) (ev_seq ev)"
  shows "verify_event_signature c ev = Inr ()
    \<and> verify_json_signature c json (pubkey_hex c key) doc (sign_json c json key doc) = Inr ()"
  by (intro conjI verify_signed_event [OF assms] verify_signed_json [OF assms(1)])

definition signed_sample :: event where
  "signed_sample = \<lparr>ev_event_id = ''e1'', ev_event_type = FeedUnblocked, ev_payload = FeedUnblockedP \<lparr>fub_block_id = ''b1''\<rparr>,
     ev_subject_guid = ''b1'', ev_signed_by = fst (sign_event toy_crypto ''key'' ''e1'' FeedUnblocked ''{}'' ''b1'' 5 1),
     ev_signature = snd (sign_event toy_crypto ''key'' ''e1'' FeedUnblocked ''{}'' ''b1'' 5 1),
     ev_seq = 1, ev_created_at = 5, ev_warnings = [], ev_payload_json = ''{}''\<rparr>"

theorem signed_events_verify_witness:
  "verify_event_signature toy_crypto signed_sample = Inr ()
    \<and> verify_json_signature toy_crypto (\<lambda>d. d) (pubkey_hex toy_crypto ''key'') ''doc'' (sign_json toy_crypto (\<lambda>d. d) ''key'' ''doc'') = Inr ()"
  by (rule signed_events_verify [OF toy_crypto_ok]) (simp_all add: signed_sample_def)

end
