(* ===== verification/Store.thy ===== *)
theory Store
  imports Event
begin

text \<open>
  The SQLite database of \<^verbatim>\<open>src/db.rs\<close> as a record of tables. A table is the list of its rows in
  row-id order (SQLite gives a new row the largest id, so an insert appends); the numeric ids
  themselves are not kept. A column pair that stores \<open>''''\<close> for an absent text is stored as
  \<^verbatim>\<open>None\<close>, what every read of it gives back. The recipients of a value time split are kept in its
  row, as the join on \<^verbatim>\<open>split\_id\<close> reads them. The nullable \<^verbatim>\<open>feed\_guid\<close> of
  \<^verbatim>\<open>value\_time\_splits\<close> and \<^verbatim>\<open>track\_remote\_items\_raw\<close> is the first component of a pair.

  A call (with errors \<open>'e\<close>) is a function from the state to a result and the new state: a failed statement
  leaves the state of the statements before it, and only a transaction that is dropped without a
  commit restores the old one.
\<close>

datatype db_error = Rusqlite string | Json string | Poisoned | Other string

section \<open>Rows and tables\<close>

record feed_row = feed +
  fr_declared_self_url :: "string option"
  fr_declared_new_feed_url :: "string option"
  fr_podcast_locked :: "bool option"
  fr_locked_owner :: "string option"
  fr_title_sort :: string
  fr_feed_host :: string

record event_row =
  er_event_id :: string
  er_event_type :: event_type
  er_payload_json :: string
  er_subject_guid :: string
  er_signed_by :: string
  er_signature :: string
  er_seq :: int
  er_created_at :: int
  er_warnings :: "string list"

record feed_url_observation =
  ob_url :: string
  ob_feed_guid :: string
  ob_observed_at :: int

record crawl_cache_row =
  cc_feed_url :: string
  cc_content_hash :: string
  cc_crawled_at :: int

record source_gone_row =
  sg_feed_guid :: string
  sg_source_url :: string
  sg_first_gone_at :: int
  sg_last_gone_at :: int
  sg_last_status :: int

record retired_source_hold =
  rsh_feed_guid :: string
  rsh_source_url :: string
  rsh_reason :: string
  rsh_retired_at :: int
  rsh_released_at :: "int option"

record feed_copy_row =
  fcy_feed_guid :: string
  fcy_url :: string
  fcy_first_seen :: int
  fcy_last_seen :: "int option"
  fcy_summary :: copy_summary
  fcy_summary_digest :: string
  fcy_remote_items_digest :: "string option"
  fcy_resolution :: "string option"
  fcy_resolution_reason :: "string option"
  fcy_resolved_at :: "int option"
  fcy_resolved_digest :: "string option"
  fcy_resolved_remote_items_digest :: "string option"

record guid_change_row =
  gc_source_url :: string
  gc_old_guid :: string
  gc_new_guid :: string
  gc_first_seen :: int
  gc_last_seen :: "int option"
  gc_decision :: "string option"
  gc_decision_reason :: "string option"
  gc_decided_at :: "int option"

record guid_supersession_row =
  gs_old_guid :: string
  gs_new_guid :: string
  gs_source_url :: string
  gs_superseded_at :: int

record node_sync_row =
  ns_node_pubkey :: string
  ns_last_seq :: int
  ns_last_seen_at :: int

record peer_node =
  pn_node_pubkey :: string
  pn_node_url :: string
  pn_discovered_at :: int
  pn_last_push_at :: "int option"
  pn_consecutive_failures :: int

record move_state_row =
  mv_feed_guid :: string
  mv_arrival_tag :: "string option"
  mv_return_count :: int
  mv_last_return_at :: "int option"
  mv_arrival_pending :: bool

record quality_row =
  q_entity_type :: string
  q_entity_id :: string
  q_score :: int
  q_computed_at :: int

record search_index_row =
  si_rowid :: int
  si_name :: string
  si_title :: string
  si_description :: string

record search_entity_row =
  se_rowid :: int
  se_entity_type :: string
  se_entity_id :: string

record db =
  t_feeds :: "feed_row list"
  t_tracks :: "track list"
  t_payment_routes :: "payment_route list"
  t_feed_payment_routes :: "feed_payment_route list"
  t_feed_list_value_raw :: "feed_list_value_raw list"
  t_value_time_splits :: "(string option \<times> value_time_split) list"
  t_feed_remote_items_raw :: "feed_remote_item_raw list"
  t_track_remote_items_raw :: "(string option \<times> track_remote_item_raw) list"
  t_live_events :: "live_event list"
  t_source_contributor_claims :: "source_contributor_claim list"
  t_source_entity_ids :: "source_entity_id_claim list"
  t_source_entity_links :: "source_entity_link list"
  t_source_release_claims :: "source_release_claim list"
  t_source_item_enclosures :: "source_item_enclosure list"
  t_source_item_transcripts :: "source_item_transcript list"
  t_source_platform_claims :: "source_platform_claim list"
  t_events :: "event_row list"
  t_feed_crawl_cache :: "crawl_cache_row list"
  t_feed_url_observations :: "feed_url_observation list"
  t_source_gone_answers :: "source_gone_row list"
  t_retired_source_holds :: "retired_source_hold list"
  t_feed_blocks :: "feed_block list"
  t_feed_copies :: "feed_copy_row list"
  t_feed_copy_overflow :: "(string \<times> int) list"
  t_feed_guid_changes :: "guid_change_row list"
  t_feed_guid_supersessions :: "guid_supersession_row list"
  t_node_sync_state :: "node_sync_row list"
  t_peer_nodes :: "peer_node list"
  t_entity_quality :: "quality_row list"
  t_search_index :: "search_index_row list"
  t_search_entities :: "search_entity_row list"
  t_feed_left_urls :: "(string \<times> string) list"
  t_feed_move_state :: "move_state_row list"

definition empty_db :: db where
  "empty_db = \<lparr>t_feeds = [], t_tracks = [], t_payment_routes = [], t_feed_payment_routes = [],
     t_feed_list_value_raw = [], t_value_time_splits = [], t_feed_remote_items_raw = [],
     t_track_remote_items_raw = [], t_live_events = [], t_source_contributor_claims = [],
     t_source_entity_ids = [], t_source_entity_links = [], t_source_release_claims = [],
     t_source_item_enclosures = [], t_source_item_transcripts = [], t_source_platform_claims = [],
     t_events = [], t_feed_crawl_cache = [], t_feed_url_observations = [],
     t_source_gone_answers = [], t_retired_source_holds = [], t_feed_blocks = [],
     t_feed_copies = [], t_feed_copy_overflow = [], t_feed_guid_changes = [],
     t_feed_guid_supersessions = [], t_node_sync_state = [], t_peer_nodes = [],
     t_entity_quality = [], t_search_index = [], t_search_entities = [], t_feed_left_urls = [],
     t_feed_move_state = []\<rparr>"

section \<open>Database calls\<close>

type_synonym ('e, 'a) call = "db \<Rightarrow> ('e + 'a) \<times> db"
type_synonym 'a dbm = "(db_error, 'a) call"

definition dret :: "'a \<Rightarrow> ('e, 'a) call" where
  "dret x = (\<lambda>s. (Inr x, s))"

definition dfail :: "'e \<Rightarrow> ('e, 'a) call" where
  "dfail e = (\<lambda>s. (Inl e, s))"

definition dbind :: "('e, 'a) call \<Rightarrow> ('a \<Rightarrow> ('e, 'b) call) \<Rightarrow> ('e, 'b) call" where
  "dbind m f = (\<lambda>s. case m s of (Inl e, s') \<Rightarrow> (Inl e, s') | (Inr x, s') \<Rightarrow> f x s')"

definition dseq :: "('e, 'a) call \<Rightarrow> ('e, 'b) call \<Rightarrow> ('e, 'b) call" where
  "dseq m n = dbind m (\<lambda>_. n)"

definition dread :: "(db \<Rightarrow> 'a) \<Rightarrow> ('e, 'a) call" where
  "dread f = (\<lambda>s. (Inr (f s), s))"

definition dexec :: "(db \<Rightarrow> db) \<Rightarrow> ('e, unit) call" where
  "dexec f = (\<lambda>s. (Inr (), f s))"

text \<open>One statement with its constraint check: \<open>Some e\<close> when a constraint fails.\<close>

definition dstmt :: "(db \<Rightarrow> db_error option) \<Rightarrow> (db \<Rightarrow> db) \<Rightarrow> unit dbm" where
  "dstmt chk f = (\<lambda>s. case chk s of Some e \<Rightarrow> (Inl e, s) | None \<Rightarrow> (Inr (), f s))"

fun dforeach :: "('a \<Rightarrow> ('e, unit) call) \<Rightarrow> 'a list \<Rightarrow> ('e, unit) call" where
  "dforeach f [] = dret ()"
| "dforeach f (x # xs) = dseq (f x) (dforeach f xs)"

text \<open>A transaction: commit on success, the old state on an error.\<close>

definition dtransaction :: "('e, 'a) call \<Rightarrow> ('e, 'a) call" where
  "dtransaction m = (\<lambda>s. case m s of (Inl e, _) \<Rightarrow> (Inl e, s) | (Inr x, s') \<Rightarrow> (Inr x, s'))"

lemmas dbm_defs = dret_def dfail_def dbind_def dseq_def dread_def dexec_def dstmt_def
declare dret_def [db_defs] dfail_def [db_defs] dbind_def [db_defs] dseq_def [db_defs]
  dread_def [db_defs] dexec_def [db_defs] dstmt_def [db_defs] dtransaction_def [db_defs]

definition CHECK_FAILED :: db_error where
  "CHECK_FAILED = Rusqlite ''CHECK constraint failed''"
definition UNIQUE_FAILED :: db_error where
  "UNIQUE_FAILED = Rusqlite ''UNIQUE constraint failed''"
definition FK_FAILED :: db_error where
  "FK_FAILED = Rusqlite ''FOREIGN KEY constraint failed''"

text \<open>SQLite tests \<^verbatim>\<open>CHECK\<close> first, then uniqueness, and foreign keys at the end of the statement.\<close>

definition constraints :: "bool \<Rightarrow> bool \<Rightarrow> bool \<Rightarrow> db_error option" where
  "constraints check unique fk =
     (if \<not> check then Some CHECK_FAILED else if \<not> unique then Some UNIQUE_FAILED
      else if \<not> fk then Some FK_FAILED else None)"

declare constraints_def [db_defs]

lemma constraints_None [simp]: "constraints c u f = None \<longleftrightarrow> c \<and> u \<and> f"
  by (simp add: constraints_def)

lemma constraints_hold [simp]: "constraints True True True = None"
  by (simp add: constraints_def)

text \<open>
  An invariant is kept by a call when the state after it satisfies it, on success and on error
  alike. The rules follow the structure of a call; they prove every preservation lemma below.
\<close>

named_theorems keeps_intros \<open>preservation rules of database calls\<close>

definition keeps :: "(db \<Rightarrow> bool) \<Rightarrow> ('e, 'a) call \<Rightarrow> bool" where
  "keeps P m \<longleftrightarrow> (\<forall>s. P s \<longrightarrow> P (snd (m s)))"

lemma keepsD: "keeps P m \<Longrightarrow> P s \<Longrightarrow> P (snd (m s))"
  by (simp add: keeps_def)

lemma keeps_dret [keeps_intros, simp]: "keeps P (dret x)"
  and keeps_dfail [keeps_intros, simp]: "keeps P (dfail e)"
  and keeps_dread [keeps_intros, simp]: "keeps P (dread f)"
  by (simp_all add: keeps_def dbm_defs)

lemma keeps_dexec [keeps_intros]: "(\<And>s. P s \<Longrightarrow> P (f s)) \<Longrightarrow> keeps P (dexec f)"
  by (simp add: keeps_def dbm_defs)

lemma keeps_dstmt [keeps_intros]:
  "(\<And>s. P s \<Longrightarrow> chk s = None \<Longrightarrow> P (f s)) \<Longrightarrow> keeps P (dstmt chk f)"
  by (simp add: keeps_def dbm_defs split: option.splits)

lemma keeps_dbind [keeps_intros]:
  assumes "keeps P m" and "\<And>x. keeps P (f x)" shows "keeps P (dbind m f)"
  unfolding keeps_def
proof (intro allI impI)
  fix s assume "P s"
  then have "P (snd (m s))" using assms(1) by (simp add: keepsD)
  then show "P (snd (dbind m f s))"
    using assms(2) by (auto simp: dbind_def keeps_def split: prod.splits sum.splits)
qed

lemma keeps_dseq [keeps_intros]: "keeps P m \<Longrightarrow> keeps P n \<Longrightarrow> keeps P (dseq m n)"
  by (simp add: dseq_def keeps_dbind)

lemma keeps_dforeach [keeps_intros]:
  "(\<And>x. x \<in> set xs \<Longrightarrow> keeps P (f x)) \<Longrightarrow> keeps P (dforeach f xs)"
  by (induction xs) (auto intro: keeps_intros)

lemma keeps_dtransaction [keeps_intros]: "keeps P m \<Longrightarrow> keeps P (dtransaction m)"
  by (auto simp: keeps_def dtransaction_def split: prod.splits sum.splits)

lemma keeps_if [keeps_intros]: "(b \<Longrightarrow> keeps P m) \<Longrightarrow> (\<not> b \<Longrightarrow> keeps P n) \<Longrightarrow> keeps P (if b then m else n)"
  by simp

lemma keeps_case_option [keeps_intros]:
  "keeps P m \<Longrightarrow> (\<And>x. keeps P (f x)) \<Longrightarrow> keeps P (case x of None \<Rightarrow> m | Some y \<Rightarrow> f y)"
  by (simp split: option.split)

text \<open>A call that cannot fail from a state with the invariant, and keeps it.\<close>

named_theorems total_intros \<open>rules for calls that cannot fail\<close>

definition total :: "(db \<Rightarrow> bool) \<Rightarrow> ('e, 'a) call \<Rightarrow> bool" where
  "total P m \<longleftrightarrow> (\<forall>s. P s \<longrightarrow> (\<exists>x s'. m s = (Inr x, s') \<and> P s'))"

lemma totalD: "total P m \<Longrightarrow> P s \<Longrightarrow> \<exists>x s'. m s = (Inr x, s') \<and> P s'"
  by (simp add: total_def)

lemma total_dret [total_intros, simp]: "total P (dret x)"
  and total_dread [total_intros, simp]: "total P (dread f)"
  by (simp_all add: total_def dbm_defs)

lemma total_dexec [total_intros]: "(\<And>s. P s \<Longrightarrow> P (f s)) \<Longrightarrow> total P (dexec f)"
  by (simp add: total_def dbm_defs)

lemma total_dbind [total_intros]: "total P m \<Longrightarrow> (\<And>x. total P (f x)) \<Longrightarrow> total P (dbind m f)"
  by (fastforce simp: total_def dbind_def)

lemma total_dseq [total_intros]: "total P m \<Longrightarrow> total P n \<Longrightarrow> total P (dseq m n)"
  by (simp add: dseq_def total_dbind)

lemma total_dforeach [total_intros]:
  "(\<And>x. x \<in> set xs \<Longrightarrow> total P (f x)) \<Longrightarrow> total P (dforeach f xs)"
  by (induction xs) (auto intro: total_intros)

lemma total_if [total_intros]: "(b \<Longrightarrow> total P m) \<Longrightarrow> (\<not> b \<Longrightarrow> total P n) \<Longrightarrow> total P (if b then m else n)"
  by simp

lemma total_case_option [total_intros]:
  "total P m \<Longrightarrow> (\<And>x. total P (f x)) \<Longrightarrow> total P (case x of None \<Rightarrow> m | Some y \<Rightarrow> f y)"
  by (simp split: option.split)

lemma total_keeps: "total P m \<Longrightarrow> keeps P m"
  by (fastforce simp: total_def keeps_def)

lemma dtransaction_error: "dtransaction m s = (Inl e, s') \<Longrightarrow> s' = s"
  by (auto simp: dtransaction_def split: prod.splits sum.splits)

lemma dbind_Inr:
  "dbind m f s = (Inr y, s2) \<longleftrightarrow> (\<exists>x s1. m s = (Inr x, s1) \<and> f x s1 = (Inr y, s2))"
  by (auto simp: dbind_def split: prod.splits sum.splits)

lemma dseq_Inr:
  "dseq m n s = (Inr y, s2) \<longleftrightarrow> (\<exists>x s1. m s = (Inr x, s1) \<and> n s1 = (Inr y, s2))"
  by (simp add: dseq_def dbind_Inr)

section \<open>Feeds and tracks\<close>

definition feed_exists :: "string \<Rightarrow> db \<Rightarrow> bool" where
  "feed_exists g s = exists_where (\<lambda>r. fe_feed_guid r = g) (t_feeds s)"

definition track_key :: "track \<Rightarrow> string \<times> string" where
  "track_key t = (tr_feed_guid t, tr_track_guid t)"

definition track_exists :: "string \<Rightarrow> string \<Rightarrow> db \<Rightarrow> bool" where
  "track_exists g t s = exists_where (\<lambda>r. track_key r = (g, t)) (t_tracks s)"

declare feed_exists_def [db_defs] track_key_def [db_defs] track_exists_def [db_defs]

text \<open>\<^verbatim>\<open>str::trim\_end\_matches('.')\<close> on the lower-case host of a parsed URL.\<close>

definition feed_host_of :: "(string \<Rightarrow> string) \<Rightarrow> (string \<Rightarrow> url option) \<Rightarrow> string \<Rightarrow> string" where
  "feed_host_of lc url_parse feed_url =
     (case url_parse feed_url of None \<Rightarrow> []
      | Some parsed \<Rightarrow>
          (case ur_host_str parsed of None \<Rightarrow> []
           | Some h \<Rightarrow> rev (dropWhile (\<lambda>c. c = CHR ''.'') (rev (lc h)))))"

definition feed_row_of :: "(string \<Rightarrow> string) \<Rightarrow> (string \<Rightarrow> url option) \<Rightarrow> feed \<Rightarrow> feed_row" where
  "feed_row_of lc url_parse f =
     feed.extend f \<lparr>fr_declared_self_url = None, fr_declared_new_feed_url = None,
       fr_podcast_locked = None, fr_locked_owner = None,
       fr_title_sort = sort_key lc (fe_title f),
       fr_feed_host = feed_host_of lc url_parse (fe_feed_url f)\<rparr>"

text \<open>\<^verbatim>\<open>ON CONFLICT(feed\_guid) DO UPDATE\<close>: every column of the statement but \<^verbatim>\<open>created\_at\<close>.\<close>

definition feed_merge :: "feed_row \<Rightarrow> feed_row \<Rightarrow> feed_row" where
  "feed_merge old new = new\<lparr>fe_feed_guid := fe_feed_guid old, fe_created_at := fe_created_at old,
     fr_declared_self_url := fr_declared_self_url old,
     fr_declared_new_feed_url := fr_declared_new_feed_url old,
     fr_podcast_locked := fr_podcast_locked old, fr_locked_owner := fr_locked_owner old\<rparr>"

definition upsert_feed :: "(string \<Rightarrow> string) \<Rightarrow> (string \<Rightarrow> url option) \<Rightarrow> feed \<Rightarrow> unit dbm" where
  "upsert_feed lc url_parse f = dstmt
     (\<lambda>s. constraints True
        (\<not> exists_where (\<lambda>r. fe_feed_url r = fe_feed_url f \<and> fe_feed_guid r \<noteq> fe_feed_guid f) (t_feeds s))
        True)
     (\<lambda>s. s\<lparr>t_feeds := upsert_by fe_feed_guid feed_merge (feed_row_of lc url_parse f) (t_feeds s)\<rparr>)"

definition track_merge :: "track \<Rightarrow> track \<Rightarrow> track" where
  "track_merge old new = new\<lparr>tr_track_guid := tr_track_guid old, tr_feed_guid := tr_feed_guid old,
     tr_created_at := tr_created_at old\<rparr>"

definition upsert_track :: "track \<Rightarrow> unit dbm" where
  "upsert_track t = dstmt
     (\<lambda>s. constraints True True (track_exists (tr_feed_guid t) (tr_track_guid t) s \<or> feed_exists (tr_feed_guid t) s))
     (\<lambda>s. s\<lparr>t_tracks := upsert_by track_key track_merge t (t_tracks s)\<rparr>)"

declare feed_row_of_def [db_defs] feed_merge_def [db_defs] upsert_feed_def [db_defs]
  track_merge_def [db_defs] upsert_track_def [db_defs]

definition get_feed_by_guid :: "db \<Rightarrow> string \<Rightarrow> feed option" where
  "get_feed_by_guid s g = map_option feed.truncate (lookup_by fe_feed_guid (t_feeds s) g)"

definition get_tracks_for_feed :: "db \<Rightarrow> string \<Rightarrow> track list" where
  "get_tracks_for_feed s g = filter (\<lambda>t. tr_feed_guid t = g) (t_tracks s)"

definition get_track_for_feed :: "db \<Rightarrow> string \<Rightarrow> string \<Rightarrow> track option" where
  "get_track_for_feed s g t = lookup_by track_key (t_tracks s) (g, t)"

definition get_tracks_by_guid :: "db \<Rightarrow> string \<Rightarrow> track list" where
  "get_tracks_by_guid s t = List.sort_key tr_feed_guid (filter (\<lambda>r. tr_track_guid r = t) (t_tracks s))"

end
