(* ===== verification/Rows.thy ===== *)
theory Rows
  imports Store
begin

text \<open>
  The statement pattern of every \<^verbatim>\<open>replace\_*\<close> function of \<^verbatim>\<open>src/db.rs\<close>: delete the rows of an
  owner, then insert the new ones one by one, each under the table's \<^verbatim>\<open>CHECK\<close>, \<^verbatim>\<open>UNIQUE\<close> and
  \<^verbatim>\<open>FOREIGN KEY\<close> constraints. The locale \<open>row\_table\<close> proves what such a call promises once;
  every child table of the store interprets it in \<open>Replace\<close>.

  A table is given by its field \<open>get\<close> and the field's update \<open>upd\<close>, its checks and its unique key
  (\<^verbatim>\<open>None\<close> when the table has none or a key column is null, which SQL never compares as equal).
\<close>

definition row_ok ::
  "(db \<Rightarrow> 'r list) \<Rightarrow> ('r \<Rightarrow> bool) \<Rightarrow> ('r \<Rightarrow> 'k option) \<Rightarrow> ('r \<Rightarrow> db \<Rightarrow> bool) \<Rightarrow> 'r \<Rightarrow> db \<Rightarrow> db_error option" where
  "row_ok get check key fk r s =
     constraints (check r) (\<not> exists_where (\<lambda>x. key x = key r \<and> key r \<noteq> None) (get s)) (fk r s)"

definition insert_row ::
  "(db \<Rightarrow> 'r list) \<Rightarrow> (('r list \<Rightarrow> 'r list) \<Rightarrow> db \<Rightarrow> db) \<Rightarrow> ('r \<Rightarrow> bool) \<Rightarrow> ('r \<Rightarrow> 'k option)
   \<Rightarrow> ('r \<Rightarrow> db \<Rightarrow> bool) \<Rightarrow> 'r \<Rightarrow> unit dbm" where
  "insert_row get upd check key fk r = dstmt (row_ok get check key fk r) (upd (\<lambda>t. t @ [r]))"

definition replace_rows ::
  "(db \<Rightarrow> 'r list) \<Rightarrow> (('r list \<Rightarrow> 'r list) \<Rightarrow> db \<Rightarrow> db) \<Rightarrow> ('r \<Rightarrow> bool) \<Rightarrow> ('r \<Rightarrow> 'k option)
   \<Rightarrow> ('r \<Rightarrow> db \<Rightarrow> bool) \<Rightarrow> ('r \<Rightarrow> bool) \<Rightarrow> 'r list \<Rightarrow> unit dbm" where
  "replace_rows get upd check key fk owner rows =
     dseq (dexec (upd (delete_where owner))) (dforeach (insert_row get upd check key fk) rows)"

definition no_key :: "'r \<Rightarrow> unit option" where
  "no_key r = None"

declare row_ok_def [db_defs] insert_row_def [db_defs] replace_rows_def [db_defs] no_key_def [db_defs]

text \<open>The rows of a table satisfy its constraints.\<close>

definition keys_distinct :: "('r \<Rightarrow> 'k option) \<Rightarrow> 'r list \<Rightarrow> bool" where
  "keys_distinct key t = sorted_wrt (\<lambda>x y. key x = None \<or> key x \<noteq> key y) t"

definition table_ok ::
  "(db \<Rightarrow> 'r list) \<Rightarrow> ('r \<Rightarrow> bool) \<Rightarrow> ('r \<Rightarrow> 'k option) \<Rightarrow> ('r \<Rightarrow> db \<Rightarrow> bool) \<Rightarrow> db \<Rightarrow> bool" where
  "table_ok get check key fk s \<longleftrightarrow> list_all (\<lambda>r. check r \<and> fk r s) (get s) \<and> keys_distinct key (get s)"

lemma keys_distinct_no_key [simp]: "keys_distinct no_key t"
  by (induction t) (simp_all add: keys_distinct_def no_key_def)

lemma keys_distinct_append:
  "keys_distinct key (t @ u) \<longleftrightarrow>
     keys_distinct key t \<and> keys_distinct key u
     \<and> (\<forall>x\<in>set t. \<forall>y\<in>set u. key x = None \<or> key x \<noteq> key y)"
  by (simp add: keys_distinct_def sorted_wrt_append)

lemma keys_distinct_single [simp]: "keys_distinct key [r]" "keys_distinct key []"
  by (simp_all add: keys_distinct_def)

lemma keys_distinct_filter: "keys_distinct key t \<Longrightarrow> keys_distinct key (filter p t)"
  by (simp add: keys_distinct_def sorted_wrt_filter)

lemma keys_distinct_Some: "keys_distinct (\<lambda>r. Some (key r)) t \<longleftrightarrow> distinct (map key t)"
  by (induction t) (auto simp: keys_distinct_def image_iff)

text \<open>The insert loop stops at the first row that breaks a constraint.\<close>

lemma dforeach_error_prefix:
  assumes "dforeach f rows s = (Inl e, s')"
  shows "\<exists>n<length rows. \<exists>s1. dforeach f (take n rows) s = (Inr (), s1) \<and> f (rows ! n) s1 = (Inl e, s')"
  using assms
proof (induction rows arbitrary: s)
  case (Cons r rows)
  show ?case
  proof (cases "f r s")
    case (Pair x s1)
    show ?thesis
    proof (cases x)
      case (Inl e')
      with Cons.prems Pair show ?thesis
        by (intro exI [of _ 0] conjI exI [of _ s]) (auto simp: dseq_def dbind_def dret_def)
    next
      case (Inr u)
      with Cons.prems Pair have "dforeach f rows s1 = (Inl e, s')"
        by (simp add: dseq_def dbind_def)
      from Cons.IH [OF this] obtain n s2 where "n < length rows"
        "dforeach f (take n rows) s1 = (Inr (), s2)" "f (rows ! n) s2 = (Inl e, s')" by blast
      with Pair Inr show ?thesis
        by (intro exI [of _ "Suc n"] conjI exI [of _ s2]) (auto simp: dseq_def dbind_def)
    qed
  qed
qed (simp add: dret_def)

locale row_table =
  fixes get :: "db \<Rightarrow> 'r list"
    and upd :: "('r list \<Rightarrow> 'r list) \<Rightarrow> db \<Rightarrow> db"
    and check :: "'r \<Rightarrow> bool"
    and key :: "'r \<Rightarrow> 'k option"
    and fk :: "'r \<Rightarrow> db \<Rightarrow> bool"
  assumes get_upd: "get (upd f s) = f (get s)"
    and upd_upd: "upd f (upd g s) = upd (\<lambda>t. f (g t)) s"
    and upd_same: "upd (\<lambda>t. t) s = s"
    and fk_upd: "fk r (upd f s) = fk r s"
begin

lemma insert_row_ok:
  "insert_row get upd check key fk r s = (Inr (), s') \<longleftrightarrow>
     check r \<and> fk r s \<and> keys_distinct key [r]
     \<and> (\<forall>x\<in>set (get s). key x = None \<or> key x \<noteq> key r) \<and> s' = upd (\<lambda>t. t @ [r]) s"
proof -
  have "row_ok get check key fk r s = None \<longleftrightarrow>
      check r \<and> fk r s \<and> (\<forall>x\<in>set (get s). key x = None \<or> key x \<noteq> key r)"
    by (auto simp: row_ok_def)
  then show ?thesis
    by (auto simp: insert_row_def dstmt_def split: option.splits)
qed

lemma insert_row_error: "insert_row get upd check key fk r s = (Inl e, s') \<Longrightarrow> s' = s"
  by (auto simp: insert_row_def dstmt_def split: option.splits)

lemma inserts_ok:
  assumes "keys_distinct key (get s)"
  shows "dforeach (insert_row get upd check key fk) rows s = (Inr (), s') \<longleftrightarrow>
     list_all (\<lambda>r. check r \<and> fk r s) rows \<and> keys_distinct key (get s @ rows)
     \<and> s' = upd (\<lambda>t. t @ rows) s"
  using assms
proof (induction rows arbitrary: s)
  case Nil
  then show ?case by (auto simp: dret_def upd_same)
next
  case (Cons r rows)
  let ?s1 = "upd (\<lambda>t. t @ [r]) s"
  have get1: "get ?s1 = get s @ [r]" by (simp add: get_upd)
  have upd1: "upd (\<lambda>t. t @ rows) ?s1 = upd (\<lambda>t. t @ r # rows) s" by (simp add: upd_upd)
  have step: "dforeach (insert_row get upd check key fk) (r # rows) s = (Inr (), s') \<longleftrightarrow>
      check r \<and> fk r s \<and> keys_distinct key (get s @ [r])
      \<and> dforeach (insert_row get upd check key fk) rows ?s1 = (Inr (), s')"
    using Cons.prems by (auto simp: dseq_Inr insert_row_ok keys_distinct_append)
  have split: "keys_distinct key (get s @ r # rows) \<longleftrightarrow>
      keys_distinct key (get s @ [r]) \<and> keys_distinct key ((get s @ [r]) @ rows)"
    using keys_distinct_append [of key "get s @ [r]" rows] by auto
  show ?case
  proof (cases "keys_distinct key (get s @ [r])")
    case True
    then have "dforeach (insert_row get upd check key fk) rows ?s1 = (Inr (), s') \<longleftrightarrow>
        list_all (\<lambda>r. check r \<and> fk r ?s1) rows \<and> keys_distinct key (get ?s1 @ rows)
        \<and> s' = upd (\<lambda>t. t @ rows) ?s1"
      by (intro Cons.IH) (simp add: get1)
    with True show ?thesis unfolding step split get1 upd1 by (simp add: fk_upd)
  next
    case False
    then show ?thesis unfolding step split by simp
  qed
qed

text \<open>
  A replace succeeds exactly when every new row meets the constraints, and then the rows of the
  owner are the new ones, in their order, after the rows of the other owners.
\<close>

lemma replace_ok:
  assumes "keys_distinct key (get s)"
  shows "replace_rows get upd check key fk owner rows s = (Inr (), s') \<longleftrightarrow>
     list_all (\<lambda>r. check r \<and> fk r s) rows \<and> keys_distinct key (delete_where owner (get s) @ rows)
     \<and> s' = upd (\<lambda>t. delete_where owner t @ rows) s"
proof -
  have "keys_distinct key (get (upd (delete_where owner) s))"
    using assms by (simp add: get_upd delete_where_def keys_distinct_filter)
  from inserts_ok [OF this, of rows s'] show ?thesis
    by (simp add: replace_rows_def dseq_Inr dexec_def fk_upd get_upd upd_upd)
qed

lemma replace_reads:
  assumes "keys_distinct key (get s)"
    and "replace_rows get upd check key fk owner rows s = (Inr (), s')"
    and "list_all owner rows"
  shows "filter owner (get s') = rows"
    and "(\<And>r. q r \<Longrightarrow> \<not> owner r) \<Longrightarrow> filter q (get s') = filter q (get s)"
proof -
  from replace_ok [OF assms(1)] assms(2) have s': "get s' = delete_where owner (get s) @ rows"
    by (simp add: get_upd)
  have none: "filter owner (delete_where owner (get s)) = []"
    by (simp add: delete_where_def filter_empty_conv)
  show "filter owner (get s') = rows"
    using assms(3) none by (simp add: s' list_all_iff)
  show "filter q (get s') = filter q (get s)" if q: "\<And>r. q r \<Longrightarrow> \<not> owner r"
  proof -
    have "filter q rows = []" using assms(3) q by (auto simp: filter_empty_conv list_all_iff)
    moreover have "filter q (delete_where owner (get s)) = filter q (get s)"
      using q by (auto simp: filter_delete_where intro: filter_cong)
    ultimately show ?thesis by (simp add: s')
  qed
qed

text \<open>When the key determines the owner, the rows of the other owners cannot collide.\<close>

lemma replace_owned_ok:
  assumes "table_ok get check key fk s" and "list_all owner rows"
    and "\<And>x r. key x \<noteq> None \<Longrightarrow> key x = key r \<Longrightarrow> owner x = owner r"
    and "list_all check rows" and "list_all (\<lambda>r. fk r s) rows" and "keys_distinct key rows"
  shows "replace_rows get upd check key fk owner rows s =
    (Inr (), upd (\<lambda>t. delete_where owner t @ rows) s)"
proof -
  have "keys_distinct key (get s)" using assms(1) by (simp add: table_ok_def)
  moreover have "keys_distinct key (delete_where owner (get s) @ rows)"
    using assms(2,3,6) calculation
    by (fastforce simp: keys_distinct_append delete_where_def list_all_iff
        intro: keys_distinct_filter)
  ultimately show ?thesis using assms(4,5) by (auto simp: replace_ok list_all_iff)
qed

text \<open>Delivering the same rows again changes nothing.\<close>

lemma replace_idem:
  assumes "keys_distinct key (get s)"
    and "replace_rows get upd check key fk owner rows s = (Inr (), s')"
    and "list_all owner rows"
  shows "replace_rows get upd check key fk owner rows s' = (Inr (), s')"
proof -
  have ok: "list_all (\<lambda>r. check r \<and> fk r s) rows" "keys_distinct key (delete_where owner (get s) @ rows)"
    and s': "s' = upd (\<lambda>t. delete_where owner t @ rows) s"
    using replace_ok [OF assms(1)] assms(2) by auto
  have del: "delete_where owner (delete_where owner t @ rows) = delete_where owner t" for t
    using assms(3) by (simp add: delete_where_def list_all_iff filter_empty_conv)
  have "keys_distinct key (get s')" using ok by (simp add: s' get_upd)
  then show ?thesis
    using ok by (simp add: replace_ok del s' get_upd upd_upd fk_upd)
qed

text \<open>A failed replace has deleted the rows of the owner and kept the rows before the bad one.\<close>

lemma replace_error:
  assumes "keys_distinct key (get s)"
    and "replace_rows get upd check key fk owner rows s = (Inl e, s')"
  shows "\<exists>n<length rows. s' = upd (\<lambda>t. delete_where owner t @ take n rows) s
     \<and> row_ok get check key fk (rows ! n) s' = Some e"
proof -
  let ?s0 = "upd (delete_where owner) s"
  from assms(2) have "dforeach (insert_row get upd check key fk) rows ?s0 = (Inl e, s')"
    by (simp add: replace_rows_def dseq_def dbind_def dexec_def)
  from dforeach_error_prefix [OF this] obtain n s1 where n: "n < length rows"
    and pre: "dforeach (insert_row get upd check key fk) (take n rows) ?s0 = (Inr (), s1)"
    and bad: "insert_row get upd check key fk (rows ! n) s1 = (Inl e, s')" by blast
  have "keys_distinct key (get ?s0)"
    using assms(1) by (simp add: get_upd delete_where_def keys_distinct_filter)
  from inserts_ok [OF this] pre have "s1 = upd (\<lambda>t. delete_where owner t @ take n rows) s"
    by (simp add: upd_upd)
  moreover have "s' = s1" by (rule insert_row_error [OF bad])
  moreover have "row_ok get check key fk (rows ! n) s1 = Some e"
    using bad by (auto simp: insert_row_def dstmt_def split: option.splits)
  ultimately show ?thesis using n by blast
qed

lemma insert_row_table_ok: "keeps (table_ok get check key fk) (insert_row get upd check key fk r)"
  unfolding insert_row_def
proof (rule keeps_dstmt)
  fix s assume "table_ok get check key fk s" and "row_ok get check key fk r s = None"
  then show "table_ok get check key fk (upd (\<lambda>t. t @ [r]) s)"
    by (auto simp: table_ok_def row_ok_def get_upd fk_upd keys_distinct_append list_all_iff)
qed

lemma delete_table_ok: "keeps (table_ok get check key fk) (dexec (upd (delete_where p)))"
  by (rule keeps_dexec)
    (auto simp: table_ok_def get_upd fk_upd list_all_iff delete_where_def keys_distinct_filter)

lemma replace_table_ok:
  "keeps (table_ok get check key fk) (replace_rows get upd check key fk owner rows)"
  unfolding replace_rows_def
  by (intro keeps_dseq keeps_dforeach delete_table_ok insert_row_table_ok)

text \<open>A property of the rest of the store that no update of the table reads is kept.\<close>

lemma replace_frame:
  assumes "\<And>f s. P (upd f s) = P s"
  shows "keeps P (replace_rows get upd check key fk owner rows)"
  unfolding replace_rows_def insert_row_def
  by (intro keeps_dseq keeps_dforeach keeps_dexec keeps_dstmt) (simp_all add: assms)

end

end
