(* ===== verification/Samples.thy ===== *)
theory Samples
  imports Store
begin

text \<open>Concrete rows that the witnesses of the properties use.\<close>

definition sample_feed :: feed where
  "sample_feed = \<lparr>fe_feed_guid = ''g1'', fe_feed_url = ''https://a.example/f.xml'', fe_title = ''Songs'',
     fe_title_lower = ''songs'', fe_description = None, fe_image_url = None, fe_publisher = None,
     fe_language = Some ''en'', fe_explicit = False, fe_itunes_type = None, fe_release_artist = None,
     fe_release_artist_sort = None, fe_release_date = None, fe_release_kind = None, fe_episode_count = 1,
     fe_newest_item_at = None, fe_oldest_item_at = None, fe_created_at = 5, fe_updated_at = 5,
     fe_raw_medium = Some ''music'', fe_last_build_date = None, fe_release_artist_source = None\<rparr>"

definition sample_track :: track where
  "sample_track = \<lparr>tr_track_guid = ''t1'', tr_feed_guid = ''g1'', tr_title = ''One'', tr_title_lower = ''one'',
     tr_pub_date = None, tr_duration_secs = Some 180, tr_enclosure_url = Some ''https://a.example/1.mp3'',
     tr_enclosure_type = None, tr_enclosure_bytes = None, tr_track_number = Some 1, tr_season = None,
     tr_image_url = None, tr_publisher = None, tr_language = None, tr_explicit = False, tr_description = None,
     tr_track_artist = None, tr_track_artist_sort = None, tr_created_at = 5, tr_updated_at = 5\<rparr>"

text \<open>A store with the feed, and one with the feed and its track.\<close>

definition feed_db :: db where
  "feed_db = empty_db\<lparr>t_feeds := [feed_row_of (\<lambda>t. t) (\<lambda>u. None) sample_feed]\<rparr>"

definition track_db :: db where
  "track_db = feed_db\<lparr>t_tracks := [sample_track]\<rparr>"

lemma feed_db_upsert: "upsert_feed (\<lambda>t. t) (\<lambda>u. None) sample_feed empty_db = (Inr (), feed_db)"
  by (simp add: upsert_feed_def dstmt_def feed_db_def empty_db_def upsert_by_def)

lemma track_db_upsert: "upsert_track sample_track feed_db = (Inr (), track_db)"
  by (simp add: upsert_track_def dstmt_def feed_db_def track_db_def empty_db_def upsert_by_def track_exists_def
      feed_exists_def feed_row_of_def sample_feed_def sample_track_def feed.extend_def)

lemma sample_db_feeds [simp]:
  "feed_exists g feed_db \<longleftrightarrow> g = ''g1''" "feed_exists g track_db \<longleftrightarrow> g = ''g1''"
  by (auto simp: feed_exists_def feed_db_def track_db_def empty_db_def feed_row_of_def sample_feed_def feed.extend_def)

end
