(* ===== verification/Replace.thy ===== *)
theory Replace
  imports Rows Samples
begin

text \<open>
  The child tables of a feed and of a track (\<^verbatim>\<open>src/db.rs\<close>): the constraints of each table, the
  deduplication of the staged rows, the \<^verbatim>\<open>replace\_*\<close> calls and the reads. Each table interprets
  \<open>row\_table\<close> and each deduplication \<open>keep\_first\<close>; the laws there give the properties.
\<close>

section \<open>Foreign keys and stored forms\<close>

definition feed_fk :: "('r \<Rightarrow> string) \<Rightarrow> 'r \<Rightarrow> db \<Rightarrow> bool" where
  "feed_fk guid r s = feed_exists (guid r) s"

definition track_fk :: "('r \<Rightarrow> string) \<Rightarrow> ('r \<Rightarrow> string) \<Rightarrow> 'r \<Rightarrow> db \<Rightarrow> bool" where
  "track_fk fg tg r s = track_exists (fg r) (tg r) s"

text \<open>A composite foreign key with a null column is not enforced.\<close>

definition null_track_fk :: "('r \<Rightarrow> string) \<Rightarrow> string option \<times> 'r \<Rightarrow> db \<Rightarrow> bool" where
  "null_track_fk tg r s = pred_option (\<lambda>g. track_exists g (tg (snd r)) s) (fst r)"

definition stored_payment_route :: "payment_route \<Rightarrow> payment_route" where
  "stored_payment_route r = r\<lparr>pr_id := None, pr_custom_key := non_empty (pr_custom_key r),
     pr_custom_value := non_empty (pr_custom_value r)\<rparr>"

definition stored_feed_payment_route :: "feed_payment_route \<Rightarrow> feed_payment_route" where
  "stored_feed_payment_route r = r\<lparr>fpr_id := None, fpr_custom_key := non_empty (fpr_custom_key r),
     fpr_custom_value := non_empty (fpr_custom_value r)\<rparr>"

definition stored_feed_list_value :: "feed_list_value_raw \<Rightarrow> feed_list_value_raw" where
  "stored_feed_list_value r = r\<lparr>flv_id := None, flv_custom_key := non_empty (flv_custom_key r),
     flv_custom_value := non_empty (flv_custom_value r)\<rparr>"

definition stored_vts_recipient :: "value_time_split_recipient \<Rightarrow> value_time_split_recipient" where
  "stored_vts_recipient r = r\<lparr>vtr_custom_key := non_empty (vtr_custom_key r),
     vtr_custom_value := non_empty (vtr_custom_value r)\<rparr>"

section \<open>Payment routes\<close>

definition pr_check :: "payment_route \<Rightarrow> bool" where
  "pr_check r \<longleftrightarrow> 0 \<le> pr_split r"

definition replace_payment_routes :: "string \<Rightarrow> payment_route list \<Rightarrow> unit dbm" where
  "replace_payment_routes track_guid routes =
     replace_rows t_payment_routes t_payment_routes_update pr_check no_key
       (track_fk pr_feed_guid pr_track_guid) (\<lambda>r. pr_track_guid r = track_guid)
       (map stored_payment_route routes)"

definition replace_payment_routes_for_feed_track :: "string \<Rightarrow> string \<Rightarrow> payment_route list \<Rightarrow> unit dbm" where
  "replace_payment_routes_for_feed_track feed_guid track_guid routes =
     replace_rows t_payment_routes t_payment_routes_update pr_check no_key
       (track_fk pr_feed_guid pr_track_guid)
       (\<lambda>r. pr_feed_guid r = feed_guid \<and> pr_track_guid r = track_guid)
       (map (\<lambda>r. (stored_payment_route r)\<lparr>pr_track_guid := track_guid, pr_feed_guid := feed_guid\<rparr>) routes)"

definition get_payment_routes_for_track :: "db \<Rightarrow> string \<Rightarrow> payment_route list" where
  "get_payment_routes_for_track s track_guid = filter (\<lambda>r. pr_track_guid r = track_guid) (t_payment_routes s)"

definition get_payment_routes_for_feed_track :: "db \<Rightarrow> string \<Rightarrow> string \<Rightarrow> payment_route list" where
  "get_payment_routes_for_feed_track s feed_guid track_guid =
     filter (\<lambda>r. pr_feed_guid r = feed_guid \<and> pr_track_guid r = track_guid) (t_payment_routes s)"

definition fpr_check :: "feed_payment_route \<Rightarrow> bool" where
  "fpr_check r \<longleftrightarrow> 0 \<le> fpr_split r"

definition replace_feed_payment_routes :: "string \<Rightarrow> feed_payment_route list \<Rightarrow> unit dbm" where
  "replace_feed_payment_routes feed_guid routes =
     replace_rows t_feed_payment_routes t_feed_payment_routes_update fpr_check no_key
       (feed_fk fpr_feed_guid) (\<lambda>r. fpr_feed_guid r = feed_guid) (map stored_feed_payment_route routes)"

definition get_feed_payment_routes_for_feed :: "db \<Rightarrow> string \<Rightarrow> feed_payment_route list" where
  "get_feed_payment_routes_for_feed s feed_guid =
     filter (\<lambda>r. fpr_feed_guid r = feed_guid) (t_feed_payment_routes s)"

definition flv_check :: "feed_list_value_raw \<Rightarrow> bool" where
  "flv_check r \<longleftrightarrow> 0 \<le> flv_split r"

definition replace_feed_list_value_raw :: "string \<Rightarrow> feed_list_value_raw list \<Rightarrow> unit dbm" where
  "replace_feed_list_value_raw feed_guid list_values =
     replace_rows t_feed_list_value_raw t_feed_list_value_raw_update flv_check no_key
       (feed_fk flv_feed_guid) (\<lambda>r. flv_feed_guid r = feed_guid) (map stored_feed_list_value list_values)"

definition get_feed_list_value_raw_for_feed :: "db \<Rightarrow> string \<Rightarrow> feed_list_value_raw list" where
  "get_feed_list_value_raw_for_feed s feed_guid =
     List.sort_key flv_position (filter (\<lambda>r. flv_feed_guid r = feed_guid) (t_feed_list_value_raw s))"

section \<open>Value time splits\<close>

definition vts_check :: "string option \<times> value_time_split \<Rightarrow> bool" where
  "vts_check r \<longleftrightarrow> vts_form (snd r) = Local \<or> vts_remote_feed_guid (snd r) \<noteq> None"

definition vts_owner :: "string \<Rightarrow> string \<Rightarrow> string option \<times> value_time_split \<Rightarrow> bool" where
  "vts_owner feed_guid track_guid r \<longleftrightarrow>
     vts_source_track_guid (snd r) = track_guid \<and> (fst r = Some feed_guid \<or> fst r = None)"

text \<open>
  One split is a row, and then a row per recipient that names the id of the split's row, the
  last one. A recipient that breaks its check leaves the split with the recipients before it.
\<close>

definition append_recipient ::
  "value_time_split_recipient \<Rightarrow> (string option \<times> value_time_split) list \<Rightarrow> (string option \<times> value_time_split) list" where
  "append_recipient r t = (case rev t of [] \<Rightarrow> []
     | (g, v) # earlier \<Rightarrow> rev earlier @ [(g, v\<lparr>vts_recipients := vts_recipients v @ [r]\<rparr>)])"

definition insert_vts_recipient :: "value_time_split_recipient \<Rightarrow> unit dbm" where
  "insert_vts_recipient r = dstmt (\<lambda>s. constraints (0 \<le> vtr_split r) True True)
     (t_value_time_splits_update (append_recipient (stored_vts_recipient r)))"

definition insert_value_time_split :: "string option \<Rightarrow> string \<Rightarrow> value_time_split \<Rightarrow> unit dbm" where
  "insert_value_time_split source_feed_guid source_track_guid v =
     dseq (insert_row t_value_time_splits t_value_time_splits_update vts_check no_key
             (null_track_fk vts_source_track_guid)
             (source_feed_guid, v\<lparr>vts_id := None, vts_source_feed_guid := case_option [] id source_feed_guid,
                vts_source_track_guid := source_track_guid, vts_recipients := []\<rparr>))
          (dforeach insert_vts_recipient (vts_recipients v))"

definition replace_value_time_splits_for_feed_track :: "string \<Rightarrow> string \<Rightarrow> value_time_split list \<Rightarrow> unit dbm" where
  "replace_value_time_splits_for_feed_track source_feed_guid source_track_guid splits =
     dseq (dexec (t_value_time_splits_update (delete_where (vts_owner source_feed_guid source_track_guid))))
       (dforeach (\<lambda>v. insert_value_time_split
            (Some (if vts_source_feed_guid v = [] then source_feed_guid else vts_source_feed_guid v))
            source_track_guid v) splits)"

definition get_value_time_splits_for_feed_track :: "db \<Rightarrow> string \<Rightarrow> string \<Rightarrow> value_time_split list" where
  "get_value_time_splits_for_feed_track s feed_guid track_guid =
     List.sort_key vts_position (map snd (filter (vts_owner feed_guid track_guid) (t_value_time_splits s)))"

section \<open>Remote items\<close>

definition any_row :: "'r \<Rightarrow> bool" where
  "any_row r = True"

definition fri_key :: "feed_remote_item_raw \<Rightarrow> (string \<times> int) option" where
  "fri_key r = Some (fri_feed_guid r, fri_position r)"

definition replace_feed_remote_items_raw :: "string \<Rightarrow> feed_remote_item_raw list \<Rightarrow> unit dbm" where
  "replace_feed_remote_items_raw feed_guid remote_items =
     replace_rows t_feed_remote_items_raw t_feed_remote_items_raw_update any_row fri_key
       (feed_fk fri_feed_guid) (\<lambda>r. fri_feed_guid r = feed_guid)
       (map (\<lambda>r. r\<lparr>fri_id := None\<rparr>) remote_items)"

definition get_feed_remote_items_for_feed :: "db \<Rightarrow> string \<Rightarrow> feed_remote_item_raw list" where
  "get_feed_remote_items_for_feed s feed_guid =
     List.sort_key fri_position (filter (\<lambda>r. fri_feed_guid r = feed_guid) (t_feed_remote_items_raw s))"

definition tri_key :: "string option \<times> track_remote_item_raw \<Rightarrow> (string \<times> string \<times> int) option" where
  "tri_key r = map_option (\<lambda>g. (g, tri_track_guid (snd r), tri_position (snd r))) (fst r)"

definition tri_owner :: "string \<Rightarrow> string \<Rightarrow> string option \<times> track_remote_item_raw \<Rightarrow> bool" where
  "tri_owner feed_guid track_guid r \<longleftrightarrow>
     tri_track_guid (snd r) = track_guid \<and> (fst r = Some feed_guid \<or> fst r = None)"

definition replace_track_remote_items_raw :: "string \<Rightarrow> track_remote_item_raw list \<Rightarrow> unit dbm" where
  "replace_track_remote_items_raw track_guid remote_items =
     replace_rows t_track_remote_items_raw t_track_remote_items_raw_update any_row tri_key
       (null_track_fk tri_track_guid) (\<lambda>r. tri_track_guid (snd r) = track_guid)
       (map (\<lambda>r. (None, r\<lparr>tri_id := None, tri_feed_guid := []\<rparr>)) remote_items)"

definition replace_track_remote_items_raw_for_feed_track ::
  "string \<Rightarrow> string \<Rightarrow> track_remote_item_raw list \<Rightarrow> unit dbm" where
  "replace_track_remote_items_raw_for_feed_track feed_guid track_guid remote_items =
     replace_rows t_track_remote_items_raw t_track_remote_items_raw_update any_row tri_key
       (null_track_fk tri_track_guid) (tri_owner feed_guid track_guid)
       (map (\<lambda>r. let g = (if tri_feed_guid r = [] then feed_guid else tri_feed_guid r) in
          (Some g, r\<lparr>tri_id := None, tri_feed_guid := g, tri_track_guid := track_guid\<rparr>)) remote_items)"

definition get_track_remote_items_for_track :: "db \<Rightarrow> string \<Rightarrow> track_remote_item_raw list" where
  "get_track_remote_items_for_track s track_guid =
     List.sort_key tri_position
       (map snd (filter (\<lambda>r. tri_track_guid (snd r) = track_guid) (t_track_remote_items_raw s)))"

definition get_track_remote_items_for_feed_track :: "db \<Rightarrow> string \<Rightarrow> string \<Rightarrow> track_remote_item_raw list" where
  "get_track_remote_items_for_feed_track s feed_guid track_guid =
     List.sort_key tri_position (map snd (filter (tri_owner feed_guid track_guid) (t_track_remote_items_raw s)))"

section \<open>Deduplication of staged rows\<close>

definition dedupe_live_events :: "live_event list \<Rightarrow> live_event list" where
  "dedupe_live_events = dedupe_by le_live_item_guid"

definition dedupe_and_sort_live_events :: "live_event list \<Rightarrow> live_event list" where
  "dedupe_and_sort_live_events es = List.sort_key le_live_item_guid (dedupe_live_events es)"

definition scc_key :: "source_contributor_claim \<Rightarrow> string \<times> string \<times> string \<times> int \<times> string" where
  "scc_key c = (scc_feed_guid c, scc_entity_type c, scc_entity_id c, scc_position c, scc_source c)"

definition dedupe_source_contributor_claims :: "source_contributor_claim list \<Rightarrow> source_contributor_claim list" where
  "dedupe_source_contributor_claims = dedupe_by scc_key"

definition sel_key :: "source_entity_link \<Rightarrow> string \<times> string \<times> string \<times> string \<times> string" where
  "sel_key l = (sel_feed_guid l, sel_entity_type l, sel_entity_id l, sel_link_type l, sel_url l)"

definition dedupe_source_entity_links :: "source_entity_link list \<Rightarrow> source_entity_link list" where
  "dedupe_source_entity_links = dedupe_by sel_key"

definition sei_key :: "source_entity_id_claim \<Rightarrow> string \<times> string \<times> string \<times> string \<times> string" where
  "sei_key c = (sei_feed_guid c, sei_entity_type c, sei_entity_id c, sei_scheme c, sei_value c)"

definition dedupe_source_entity_ids :: "source_entity_id_claim list \<Rightarrow> source_entity_id_claim list" where
  "dedupe_source_entity_ids = dedupe_by sei_key"

definition src_key :: "source_release_claim \<Rightarrow> string \<times> string \<times> string \<times> string \<times> int" where
  "src_key c = (src_feed_guid c, src_entity_type c, src_entity_id c, src_claim_type c, src_position c)"

definition dedupe_source_release_claims :: "source_release_claim list \<Rightarrow> source_release_claim list" where
  "dedupe_source_release_claims = dedupe_by src_key"

definition sie_key :: "source_item_enclosure \<Rightarrow> string \<times> string \<times> string \<times> int \<times> string" where
  "sie_key e = (sie_feed_guid e, sie_entity_type e, sie_entity_id e, sie_position e, sie_url e)"

definition dedupe_source_item_enclosures :: "source_item_enclosure list \<Rightarrow> source_item_enclosure list" where
  "dedupe_source_item_enclosures = dedupe_by sie_key"

definition sit_key :: "source_item_transcript \<Rightarrow> string \<times> string \<times> string \<times> int \<times> string" where
  "sit_key t = (sit_feed_guid t, sit_entity_type t, sit_entity_id t, sit_position t, sit_url t)"

definition dedupe_source_item_transcripts :: "source_item_transcript list \<Rightarrow> source_item_transcript list" where
  "dedupe_source_item_transcripts = dedupe_by sit_key"

interpretation dlive: keep_first le_live_item_guid dedupe_live_events
  unfolding dedupe_live_events_def by (rule keep_first_dedupe_by)
interpretation dcontrib: keep_first scc_key dedupe_source_contributor_claims
  unfolding dedupe_source_contributor_claims_def by (rule keep_first_dedupe_by)
interpretation dlinks: keep_first sel_key dedupe_source_entity_links
  unfolding dedupe_source_entity_links_def by (rule keep_first_dedupe_by)
interpretation dids: keep_first sei_key dedupe_source_entity_ids
  unfolding dedupe_source_entity_ids_def by (rule keep_first_dedupe_by)
interpretation drelease: keep_first src_key dedupe_source_release_claims
  unfolding dedupe_source_release_claims_def by (rule keep_first_dedupe_by)
interpretation denclosures: keep_first sie_key dedupe_source_item_enclosures
  unfolding dedupe_source_item_enclosures_def by (rule keep_first_dedupe_by)
interpretation dtranscripts: keep_first sit_key dedupe_source_item_transcripts
  unfolding dedupe_source_item_transcripts_def by (rule keep_first_dedupe_by)

section \<open>Live events and staged source rows\<close>

definition le_check :: "live_event \<Rightarrow> bool" where
  "le_check r \<longleftrightarrow> le_status r \<in> set [''pending'', ''live'', ''ended'']"

definition le_key :: "live_event \<Rightarrow> (string \<times> string) option" where
  "le_key r = Some (le_feed_guid r, le_live_item_guid r)"

definition replace_live_events_for_feed :: "string \<Rightarrow> live_event list \<Rightarrow> unit dbm" where
  "replace_live_events_for_feed feed_guid live_events =
     replace_rows t_live_events t_live_events_update le_check le_key (feed_fk le_feed_guid)
       (\<lambda>r. le_feed_guid r = feed_guid) (dedupe_live_events live_events)"

definition get_live_events_for_feed :: "db \<Rightarrow> string \<Rightarrow> live_event list" where
  "get_live_events_for_feed s feed_guid =
     List.sort_key (\<lambda>r. (case le_scheduled_start r of None \<Rightarrow> le_created_at r | Some t \<Rightarrow> t, le_live_item_guid r))
       (filter (\<lambda>r. le_feed_guid r = feed_guid) (t_live_events s))"

text \<open>The rows after a cursor, of the feeds the index still holds, in key order.\<close>

definition get_live_events_after_cursor :: "db \<Rightarrow> (string \<times> string) option \<Rightarrow> live_event list" where
  "get_live_events_after_cursor s cursor =
     List.sort_key (\<lambda>r. (le_feed_guid r, le_live_item_guid r))
       (filter (\<lambda>r. feed_exists (le_feed_guid r) s \<and>
            (case cursor of None \<Rightarrow> True | Some c \<Rightarrow> c < (le_feed_guid r, le_live_item_guid r)))
          (t_live_events s))"

definition entity_types :: "string list" where
  "entity_types = [''feed'', ''track'', ''live_item'']"

definition item_types :: "string list" where
  "item_types = [''track'', ''live_item'']"

definition scc_check :: "source_contributor_claim \<Rightarrow> bool" where
  "scc_check r \<longleftrightarrow> scc_entity_type r \<in> set entity_types"

definition replace_source_contributor_claims_for_feed :: "string \<Rightarrow> source_contributor_claim list \<Rightarrow> unit dbm" where
  "replace_source_contributor_claims_for_feed feed_guid claims =
     replace_rows t_source_contributor_claims t_source_contributor_claims_update scc_check
       (\<lambda>r. Some (scc_key r)) (feed_fk scc_feed_guid) (\<lambda>r. scc_feed_guid r = feed_guid)
       (map (\<lambda>r. r\<lparr>scc_id := None\<rparr>) (dedupe_source_contributor_claims claims))"

definition get_source_contributor_claims_for_feed :: "db \<Rightarrow> string \<Rightarrow> source_contributor_claim list" where
  "get_source_contributor_claims_for_feed s feed_guid =
     List.sort_key (\<lambda>r. (scc_entity_type r, scc_entity_id r, scc_position r))
       (filter (\<lambda>r. scc_feed_guid r = feed_guid) (t_source_contributor_claims s))"

definition sei_check :: "source_entity_id_claim \<Rightarrow> bool" where
  "sei_check r \<longleftrightarrow> sei_entity_type r \<in> set entity_types"

definition replace_source_entity_ids_for_feed :: "string \<Rightarrow> source_entity_id_claim list \<Rightarrow> unit dbm" where
  "replace_source_entity_ids_for_feed feed_guid claims =
     replace_rows t_source_entity_ids t_source_entity_ids_update sei_check
       (\<lambda>r. Some (sei_key r)) (feed_fk sei_feed_guid) (\<lambda>r. sei_feed_guid r = feed_guid)
       (map (\<lambda>r. r\<lparr>sei_id := None\<rparr>) (dedupe_source_entity_ids claims))"

definition get_source_entity_ids_for_feed :: "db \<Rightarrow> string \<Rightarrow> source_entity_id_claim list" where
  "get_source_entity_ids_for_feed s feed_guid =
     List.sort_key (\<lambda>r. (sei_entity_type r, sei_entity_id r, sei_position r, sei_scheme r, sei_value r))
       (filter (\<lambda>r. sei_feed_guid r = feed_guid) (t_source_entity_ids s))"

definition sel_check :: "source_entity_link \<Rightarrow> bool" where
  "sel_check r \<longleftrightarrow> sel_entity_type r \<in> set entity_types"

definition replace_source_entity_links_for_feed :: "string \<Rightarrow> source_entity_link list \<Rightarrow> unit dbm" where
  "replace_source_entity_links_for_feed feed_guid links =
     replace_rows t_source_entity_links t_source_entity_links_update sel_check
       (\<lambda>r. Some (sel_key r)) (feed_fk sel_feed_guid) (\<lambda>r. sel_feed_guid r = feed_guid)
       (map (\<lambda>r. r\<lparr>sel_id := None\<rparr>) (dedupe_source_entity_links links))"

definition get_source_entity_links_for_feed :: "db \<Rightarrow> string \<Rightarrow> source_entity_link list" where
  "get_source_entity_links_for_feed s feed_guid =
     List.sort_key (\<lambda>r. (sel_entity_type r, sel_entity_id r, sel_position r, sel_link_type r, sel_url r))
       (filter (\<lambda>r. sel_feed_guid r = feed_guid) (t_source_entity_links s))"

definition src_check :: "source_release_claim \<Rightarrow> bool" where
  "src_check r \<longleftrightarrow> src_entity_type r \<in> set entity_types"

definition replace_source_release_claims_for_feed :: "string \<Rightarrow> source_release_claim list \<Rightarrow> unit dbm" where
  "replace_source_release_claims_for_feed feed_guid claims =
     replace_rows t_source_release_claims t_source_release_claims_update src_check
       (\<lambda>r. Some (src_key r)) (feed_fk src_feed_guid) (\<lambda>r. src_feed_guid r = feed_guid)
       (map (\<lambda>r. r\<lparr>src_id := None\<rparr>) (dedupe_source_release_claims claims))"

definition get_source_release_claims_for_feed :: "db \<Rightarrow> string \<Rightarrow> source_release_claim list" where
  "get_source_release_claims_for_feed s feed_guid =
     List.sort_key (\<lambda>r. (src_entity_type r, src_entity_id r, src_claim_type r, src_position r))
       (filter (\<lambda>r. src_feed_guid r = feed_guid) (t_source_release_claims s))"

definition sie_check :: "source_item_enclosure \<Rightarrow> bool" where
  "sie_check r \<longleftrightarrow> sie_entity_type r \<in> set item_types"

definition replace_source_item_enclosures_for_feed :: "string \<Rightarrow> source_item_enclosure list \<Rightarrow> unit dbm" where
  "replace_source_item_enclosures_for_feed feed_guid enclosures =
     replace_rows t_source_item_enclosures t_source_item_enclosures_update sie_check
       (\<lambda>r. Some (sie_key r)) (feed_fk sie_feed_guid) (\<lambda>r. sie_feed_guid r = feed_guid)
       (map (\<lambda>r. r\<lparr>sie_id := None\<rparr>) (dedupe_source_item_enclosures enclosures))"

definition get_source_item_enclosures_for_feed :: "db \<Rightarrow> string \<Rightarrow> source_item_enclosure list" where
  "get_source_item_enclosures_for_feed s feed_guid =
     List.sort_key (\<lambda>r. (sie_entity_type r, sie_entity_id r, sie_position r, sie_url r))
       (filter (\<lambda>r. sie_feed_guid r = feed_guid) (t_source_item_enclosures s))"

definition sit_check :: "source_item_transcript \<Rightarrow> bool" where
  "sit_check r \<longleftrightarrow> sit_entity_type r \<in> set item_types"

definition replace_source_item_transcripts_for_feed :: "string \<Rightarrow> source_item_transcript list \<Rightarrow> unit dbm" where
  "replace_source_item_transcripts_for_feed feed_guid transcripts =
     replace_rows t_source_item_transcripts t_source_item_transcripts_update sit_check
       (\<lambda>r. Some (sit_key r)) (feed_fk sit_feed_guid) (\<lambda>r. sit_feed_guid r = feed_guid)
       (map (\<lambda>r. r\<lparr>sit_id := None\<rparr>) (dedupe_source_item_transcripts transcripts))"

definition get_source_item_transcripts_for_feed :: "db \<Rightarrow> string \<Rightarrow> source_item_transcript list" where
  "get_source_item_transcripts_for_feed s feed_guid =
     List.sort_key (\<lambda>r. (sit_entity_type r, sit_entity_id r, sit_position r, sit_url r))
       (filter (\<lambda>r. sit_feed_guid r = feed_guid) (t_source_item_transcripts s))"

definition replace_source_platform_claims_for_feed :: "string \<Rightarrow> source_platform_claim list \<Rightarrow> unit dbm" where
  "replace_source_platform_claims_for_feed feed_guid claims =
     replace_rows t_source_platform_claims t_source_platform_claims_update any_row no_key
       (feed_fk spc_feed_guid) (\<lambda>r. spc_feed_guid r = feed_guid) (map (\<lambda>r. r\<lparr>spc_id := None\<rparr>) claims)"

definition get_source_platform_claims_for_feed :: "db \<Rightarrow> string \<Rightarrow> source_platform_claim list" where
  "get_source_platform_claims_for_feed s feed_guid =
     List.sort_key (\<lambda>r. (spc_platform_key r, spc_extraction_path r, spc_url r, spc_owner_name r))
       (filter (\<lambda>r. spc_feed_guid r = feed_guid) (t_source_platform_claims s))"

section \<open>The tables meet the contract\<close>

lemmas fk_defs = feed_fk_def track_fk_def null_track_fk_def feed_exists_def track_exists_def

interpretation pr: row_table t_payment_routes t_payment_routes_update pr_check no_key "track_fk pr_feed_guid pr_track_guid"
  by unfold_locales (simp_all add: fk_defs comp_def)
interpretation fpr: row_table t_feed_payment_routes t_feed_payment_routes_update fpr_check no_key "feed_fk fpr_feed_guid"
  by unfold_locales (simp_all add: fk_defs comp_def)
interpretation flv: row_table t_feed_list_value_raw t_feed_list_value_raw_update flv_check no_key "feed_fk flv_feed_guid"
  by unfold_locales (simp_all add: fk_defs comp_def)
interpretation vts: row_table t_value_time_splits t_value_time_splits_update vts_check no_key "null_track_fk vts_source_track_guid"
  by unfold_locales (simp_all add: fk_defs comp_def)
interpretation fri: row_table t_feed_remote_items_raw t_feed_remote_items_raw_update any_row fri_key "feed_fk fri_feed_guid"
  by unfold_locales (simp_all add: fk_defs comp_def)
interpretation tri: row_table t_track_remote_items_raw t_track_remote_items_raw_update any_row tri_key "null_track_fk tri_track_guid"
  by unfold_locales (simp_all add: fk_defs comp_def)
interpretation le: row_table t_live_events t_live_events_update le_check le_key "feed_fk le_feed_guid"
  by unfold_locales (simp_all add: fk_defs comp_def)
interpretation scc: row_table t_source_contributor_claims t_source_contributor_claims_update scc_check "\<lambda>r. Some (scc_key r)" "feed_fk scc_feed_guid"
  by unfold_locales (simp_all add: fk_defs comp_def)
interpretation sei: row_table t_source_entity_ids t_source_entity_ids_update sei_check "\<lambda>r. Some (sei_key r)" "feed_fk sei_feed_guid"
  by unfold_locales (simp_all add: fk_defs comp_def)
interpretation sel: row_table t_source_entity_links t_source_entity_links_update sel_check "\<lambda>r. Some (sel_key r)" "feed_fk sel_feed_guid"
  by unfold_locales (simp_all add: fk_defs comp_def)
interpretation srcl: row_table t_source_release_claims t_source_release_claims_update src_check "\<lambda>r. Some (src_key r)" "feed_fk src_feed_guid"
  by unfold_locales (simp_all add: fk_defs comp_def)
interpretation sie: row_table t_source_item_enclosures t_source_item_enclosures_update sie_check "\<lambda>r. Some (sie_key r)" "feed_fk sie_feed_guid"
  by unfold_locales (simp_all add: fk_defs comp_def)
interpretation sit: row_table t_source_item_transcripts t_source_item_transcripts_update sit_check "\<lambda>r. Some (sit_key r)" "feed_fk sit_feed_guid"
  by unfold_locales (simp_all add: fk_defs comp_def)
interpretation spc: row_table t_source_platform_claims t_source_platform_claims_update any_row no_key "feed_fk spc_feed_guid"
  by unfold_locales (simp_all add: fk_defs comp_def)

section \<open>Properties of the replace calls\<close>

definition claim_rows_ok :: "db \<Rightarrow> bool" where
  "claim_rows_ok = table_ok t_source_contributor_claims scc_check (\<lambda>r. Some (scc_key r)) (feed_fk scc_feed_guid)"

lemma stored_claims_distinct:
  "keys_distinct (\<lambda>r. Some (scc_key r)) (map (\<lambda>r. r\<lparr>scc_id := None\<rparr>) (dedupe_source_contributor_claims claims))"
proof -
  have "map scc_key (map (\<lambda>r. r\<lparr>scc_id := None\<rparr>) xs) = map scc_key xs" for xs by (simp add: scc_key_def)
  then show ?thesis using dcontrib.keys_distinct [of claims] by (simp only: keys_distinct_Some)
qed

text \<open>
  Replacing the contributor claims of an indexed feed with claims of that feed always succeeds,
  repeated claims included: what is stored for the feed is the first claim of each key in order
  without its id, the claims of other feeds stay, and the same call again changes nothing.
\<close>

theorem replace_contributor_claims_contract:
  assumes "claim_rows_ok s" "feed_exists g s" "list_all (\<lambda>c. scc_feed_guid c = g \<and> scc_check c) claims"
  shows "\<exists>s'. replace_source_contributor_claims_for_feed g claims s = (Inr (), s')
    \<and> filter (\<lambda>r. scc_feed_guid r = g) (t_source_contributor_claims s')
        = map (\<lambda>r. r\<lparr>scc_id := None\<rparr>) (dedupe_source_contributor_claims claims)
    \<and> filter (\<lambda>r. scc_feed_guid r \<noteq> g) (t_source_contributor_claims s') = filter (\<lambda>r. scc_feed_guid r \<noteq> g) (t_source_contributor_claims s)
    \<and> replace_source_contributor_claims_for_feed g claims s' = (Inr (), s')"
proof -
  let ?rows = "map (\<lambda>r. r\<lparr>scc_id := None\<rparr>) (dedupe_source_contributor_claims claims)"
  have in_claims: "c \<in> set (dedupe_source_contributor_claims claims) \<Longrightarrow> scc_feed_guid c = g \<and> scc_check c" for c
    using assms(3) dcontrib.dedupe_subset [of claims] by (auto simp: list_all_iff)
  have own: "list_all (\<lambda>r. scc_feed_guid r = g) ?rows" and chk: "list_all scc_check ?rows"
    using in_claims by (auto simp: list_all_iff scc_check_def)
  have fk: "list_all (\<lambda>r. feed_fk scc_feed_guid r s) ?rows"
    using in_claims assms(2) by (auto simp: list_all_iff feed_fk_def)
  have ok: "keys_distinct (\<lambda>r. Some (scc_key r)) (t_source_contributor_claims s)"
    using assms(1) by (simp add: claim_rows_ok_def table_ok_def)
  define s' where "s' = t_source_contributor_claims_update (\<lambda>t. delete_where (\<lambda>r. scc_feed_guid r = g) t @ ?rows) s"
  have run: "replace_source_contributor_claims_for_feed g claims s = (Inr (), s')"
    unfolding replace_source_contributor_claims_for_feed_def s'_def
    by (rule scc.replace_owned_ok [OF _ own _ chk fk stored_claims_distinct])
      (use assms(1) in \<open>auto simp: claim_rows_ok_def scc_key_def\<close>)
  note raw = run [unfolded replace_source_contributor_claims_for_feed_def]
  have "replace_source_contributor_claims_for_feed g claims s' = (Inr (), s')"
    unfolding replace_source_contributor_claims_for_feed_def by (rule scc.replace_idem [OF ok raw own])
  moreover have "filter (\<lambda>r. scc_feed_guid r = g) (t_source_contributor_claims s') = ?rows"
    by (rule scc.replace_reads(1) [OF ok raw own])
  moreover have "filter (\<lambda>r. scc_feed_guid r \<noteq> g) (t_source_contributor_claims s')
      = filter (\<lambda>r. scc_feed_guid r \<noteq> g) (t_source_contributor_claims s)"
    by (rule scc.replace_reads(2) [OF ok raw own]) simp
  ultimately show ?thesis using run by (intro exI [of _ s'] conjI)
qed

definition sample_claim :: source_contributor_claim where
  "sample_claim = \<lparr>scc_id = Some 4, scc_feed_guid = ''g1'', scc_entity_type = ''feed'', scc_entity_id = ''g1'',
     scc_position = 0, scc_name = ''Ann'', scc_role = Some ''host'', scc_role_norm = Some ''host'', scc_group_name = None,
     scc_href = None, scc_img = None, scc_npub = None, scc_source = ''podcast_person'', scc_extraction_path = ''feed.person'',
     scc_observed_at = 5\<rparr>"

theorem replace_contributor_claims_contract_witness:
  "\<exists>s'. replace_source_contributor_claims_for_feed ''g1'' [sample_claim, sample_claim] feed_db = (Inr (), s')
    \<and> filter (\<lambda>r. scc_feed_guid r = ''g1'') (t_source_contributor_claims s') = [sample_claim\<lparr>scc_id := None\<rparr>]
    \<and> replace_source_contributor_claims_for_feed ''g1'' [sample_claim, sample_claim] s' = (Inr (), s')"
proof -
  have "dedupe_source_contributor_claims [sample_claim, sample_claim] = [sample_claim]"
    by (simp add: dedupe_source_contributor_claims_def dedupe_by_def)
  moreover have "claim_rows_ok feed_db"
    by (simp add: claim_rows_ok_def table_ok_def feed_db_def empty_db_def)
  ultimately show ?thesis
    using replace_contributor_claims_contract [of feed_db "''g1''" "[sample_claim, sample_claim]"]
    by (auto simp: sample_claim_def scc_check_def entity_types_def)
qed

text \<open>
  A replace of a feed's payment routes that fails outside a transaction is not undone: the old
  routes of the feed are gone and the routes before the offending one are stored; the offending
  row is one that a constraint refuses in that state.
\<close>

theorem replace_feed_routes_failure:
  assumes "replace_feed_payment_routes g routes s = (Inl e, s')"
  shows "\<exists>n<length routes.
     s' = s\<lparr>t_feed_payment_routes := delete_where (\<lambda>r. fpr_feed_guid r = g) (t_feed_payment_routes s)
            @ take n (map stored_feed_payment_route routes)\<rparr>
     \<and> (\<not> fpr_check (routes ! n) \<or> \<not> feed_exists (fpr_feed_guid (routes ! n)) s)"
proof -
  have "keys_distinct no_key (t_feed_payment_routes s)" by simp
  from fpr.replace_error [OF this assms [unfolded replace_feed_payment_routes_def]] obtain n where n: "n < length routes"
    "s' = t_feed_payment_routes_update (\<lambda>t. delete_where (\<lambda>r. fpr_feed_guid r = g) t @ take n (map stored_feed_payment_route routes)) s"
    "row_ok t_feed_payment_routes fpr_check no_key (feed_fk fpr_feed_guid) (map stored_feed_payment_route routes ! n) s' = Some e"
    by auto
  have "\<not> fpr_check (routes ! n) \<or> \<not> feed_exists (fpr_feed_guid (routes ! n)) s"
  proof (rule ccontr)
    assume "\<not> ?thesis"
    then have "row_ok t_feed_payment_routes fpr_check no_key (feed_fk fpr_feed_guid) (map stored_feed_payment_route routes ! n) s' = None"
      using n(1) by (simp add: row_ok_def n(2) no_key_def feed_fk_def feed_exists_def fpr_check_def stored_feed_payment_route_def)
    with n(3) show False by simp
  qed
  with n(1,2) show ?thesis by (intro exI [of _ n]) simp
qed

definition sample_fee :: "int \<Rightarrow> feed_payment_route" where
  "sample_fee n = \<lparr>fpr_id = None, fpr_feed_guid = ''g1'', fpr_recipient_name = None, fpr_route_type = Keysend,
     fpr_address = ''02ab'', fpr_custom_key = None, fpr_custom_value = None, fpr_split = n, fpr_fee = False\<rparr>"

theorem replace_feed_routes_failure_witness:
  "\<exists>s' n. fst (replace_feed_payment_routes ''g1'' [sample_fee 90, sample_fee (- 1)] feed_db) = Inl CHECK_FAILED
    \<and> n < (2::nat) \<and> snd (replace_feed_payment_routes ''g1'' [sample_fee 90, sample_fee (- 1)] feed_db)
       = feed_db\<lparr>t_feed_payment_routes := take n (map stored_feed_payment_route [sample_fee 90, sample_fee (- 1)])\<rparr>"
proof -
  have "fst (replace_feed_payment_routes ''g1'' [sample_fee 90, sample_fee (- 1)] feed_db) = Inl CHECK_FAILED"
    by (simp add: replace_feed_payment_routes_def db_defs sample_fee_def fpr_check_def stored_feed_payment_route_def
        feed_fk_def feed_db_def empty_db_def feed_row_of_def sample_feed_def feed.extend_def delete_where_def)
  then obtain s' where run: "replace_feed_payment_routes ''g1'' [sample_fee 90, sample_fee (- 1)] feed_db = (Inl CHECK_FAILED, s')"
    by (metis prod.collapse)
  from replace_feed_routes_failure [OF run] run show ?thesis
    by (auto simp: feed_db_def empty_db_def delete_where_def numeral_2_eq_2)
qed

end
