(* ===== verification/Search.thy ===== *)
theory Search
  imports Replace
begin

text \<open>
  \<^verbatim>\<open>src/search.rs\<close>, the writes: the row id of an entity, the bounded text of a field, the
  entry and the removal of an index row (ADR 0078), and the FTS5 query that a user's words
  become (ADR 0080). The FTS5 table and its companion \<^verbatim>\<open>search\_entities\<close> are the tables
  \<open>t\_search\_index\<close> and \<open>t\_search\_entities\<close> of the store.
\<close>

text \<open>
  The third-party functions of the index: SipHash-2-4 with zero keys, the JSON text of a pair of
  strings (\<^verbatim>\<open>serde\_json\<close>, in \<^verbatim>\<open>canonical\_track\_entity\_id\<close>) and the one SQLite builds
  (\<^verbatim>\<open>json\_array\<close>, in the track trigger).
\<close>

record env =
  en_siphash :: "string \<Rightarrow> 64 word"
  en_json_pair :: "string \<Rightarrow> string \<Rightarrow> string"
  en_json_array :: "string \<Rightarrow> string \<Rightarrow> string"

definition canonical_track_entity_id :: "env \<Rightarrow> string \<Rightarrow> string \<Rightarrow> string" where
  "canonical_track_entity_id env feed_guid track_guid = en_json_pair env feed_guid track_guid"

section \<open>Index rows\<close>

definition MAX_FTS_FIELD_BYTES :: nat where
  "MAX_FTS_FIELD_BYTES = 10000"

definition is_continuation :: "char \<Rightarrow> bool" where
  "is_continuation c \<longleftrightarrow> 128 \<le> byte c \<and> byte c < 192"

definition is_char_boundary :: "string \<Rightarrow> nat \<Rightarrow> bool" where
  "is_char_boundary s i \<longleftrightarrow> i = 0 \<or> i = length s \<or> (i < length s \<and> \<not> is_continuation (s ! i))"

fun boundary_at_or_before :: "string \<Rightarrow> nat \<Rightarrow> nat" where
  "boundary_at_or_before s 0 = 0"
| "boundary_at_or_before s (Suc n) =
     (if is_char_boundary s (Suc n) then Suc n else boundary_at_or_before s n)"

definition truncate_fts_field :: "string \<Rightarrow> string" where
  "truncate_fts_field s =
     (if length s \<le> MAX_FTS_FIELD_BYTES then s
      else take (boundary_at_or_before s MAX_FTS_FIELD_BYTES) s)"

definition rowid_for :: "env \<Rightarrow> string \<Rightarrow> string \<Rightarrow> int" where
  "rowid_for env entity_type entity_id =
     uint (and (en_siphash env (entity_type @ [CHR 0x00] @ entity_id)) (0x7FFFFFFFFFFFFFFF :: 64 word))"

definition entity_at :: "db \<Rightarrow> int \<Rightarrow> search_entity_row option" where
  "entity_at s rowid = lookup_by se_rowid (t_search_entities s) rowid"

definition delete_from_search_index :: "env \<Rightarrow> string \<Rightarrow> string \<Rightarrow> db \<Rightarrow> db" where
  "delete_from_search_index env entity_type entity_id s =
     (let rowid = rowid_for env entity_type entity_id;
          s1 = (if exists_where (\<lambda>r. se_rowid r = rowid) (t_search_entities s)
                then s\<lparr>t_search_index := delete_where (\<lambda>r. si_rowid r = rowid) (t_search_index s)\<rparr>
                else s)
      in s1\<lparr>t_search_entities := delete_where (\<lambda>r. se_rowid r = rowid) (t_search_entities s1)\<rparr>)"

text \<open>\<^verbatim>\<open>INSERT OR REPLACE\<close> deletes the row with the id and inserts the new one.\<close>

definition populate_search_index ::
  "env \<Rightarrow> string \<Rightarrow> string \<Rightarrow> string \<Rightarrow> string \<Rightarrow> string \<Rightarrow> unit dbm" where
  "populate_search_index env entity_type entity_id name title description =
     (let rowid = rowid_for env entity_type entity_id;
          entry = \<lparr>si_rowid = rowid, si_name = truncate_fts_field name,
                    si_title = truncate_fts_field title,
                    si_description = truncate_fts_field description\<rparr>;
          write = dseq
            (dstmt (\<lambda>s. constraints True (\<not> exists_where (\<lambda>r. si_rowid r = rowid) (t_search_index s)) True)
               (\<lambda>s. s\<lparr>t_search_index := t_search_index s @ [entry]\<rparr>))
            (dexec (\<lambda>s. s\<lparr>t_search_entities := delete_where (\<lambda>r. se_rowid r = rowid) (t_search_entities s)
               @ [\<lparr>se_rowid = rowid, se_entity_type = entity_type, se_entity_id = entity_id\<rparr>]\<rparr>))
      in dbind (dread (\<lambda>s. entity_at s rowid)) (\<lambda>existing. case existing of
           None \<Rightarrow> write
         | Some r \<Rightarrow>
             if se_entity_type r \<noteq> entity_type \<or> se_entity_id r \<noteq> entity_id then dret ()
             else dseq (dexec (\<lambda>s. s\<lparr>t_search_index := delete_where (\<lambda>r. si_rowid r = rowid) (t_search_index s)\<rparr>)) write))"

section \<open>Queries\<close>

definition QUOTE :: char where "QUOTE = CHR 0x22"

text \<open>
  \<^verbatim>\<open>char::is\_control\<close> is the general category Cc: U+0000 to U+001F and U+007F to U+009F, the
  last 32 of which are two bytes in UTF-8.
\<close>

fun strip_control :: "string \<Rightarrow> string" where
  "strip_control [] = []"
| "strip_control [c] = (if byte c < 32 \<or> byte c = 127 then [] else [c])"
| "strip_control (c # d # s) =
     (if byte c < 32 \<or> byte c = 127 then strip_control (d # s)
      else if byte c = 194 \<and> 128 \<le> byte d \<and> byte d < 160 then strip_control s
      else c # strip_control (d # s))"

definition double_quotes :: "string \<Rightarrow> string" where
  "double_quotes w = concat (map (\<lambda>c. if c = QUOTE then [QUOTE, QUOTE] else [c]) w)"

definition quoted :: "string \<Rightarrow> string" where
  "quoted body = QUOTE # body @ [QUOTE]"

definition word_phrases :: "string \<Rightarrow> string list" where
  "word_phrases text = map (\<lambda>w. quoted (double_quotes w)) (split_whitespace text)"

function phrases_of :: "string \<Rightarrow> string list" where
  "phrases_of rest =
     (case split_once [QUOTE] rest of None \<Rightarrow> word_phrases rest
      | Some (before, after) \<Rightarrow>
          (case split_once [QUOTE] after of None \<Rightarrow> word_phrases rest
           | Some (inside, rest') \<Rightarrow>
               word_phrases before
               @ (let ws = split_whitespace inside in if ws = [] then [] else [quoted (join '' '' ws)])
               @ phrases_of rest'))"
  by pat_completeness auto
termination
  by (relation "measure length") (auto dest!: split_once_Some)

declare phrases_of.simps [simp del]

definition fts5_phrases :: "string \<Rightarrow> string list" where
  "fts5_phrases input = phrases_of (strip_control input)"

definition fts5_query_from_words :: "string \<Rightarrow> string" where
  "fts5_query_from_words input = join '' '' (fts5_phrases input)"

section \<open>Bounded fields\<close>

lemma boundary_le: "boundary_at_or_before s n \<le> n"
  by (induction s n rule: boundary_at_or_before.induct) auto

lemma boundary_is_boundary: "is_char_boundary s (boundary_at_or_before s n)"
  by (induction s n rule: boundary_at_or_before.induct) (auto simp: is_char_boundary_def)

lemma boundary_greatest:
  "is_char_boundary s i \<Longrightarrow> i \<le> n \<Longrightarrow> i \<le> boundary_at_or_before s n"
  by (induction s n rule: boundary_at_or_before.induct) (auto simp: le_Suc_eq)

lemma truncate_fts_field_prefix: "\<exists>n. truncate_fts_field s = take n s \<and> is_char_boundary s n"
proof (cases "length s \<le> MAX_FTS_FIELD_BYTES")
  case True
  then show ?thesis
    by (intro exI [of _ "length s"]) (simp add: truncate_fts_field_def is_char_boundary_def)
next
  case False
  then show ?thesis
    by (intro exI [of _ "boundary_at_or_before s MAX_FTS_FIELD_BYTES"])
      (simp add: truncate_fts_field_def boundary_is_boundary)
qed

lemma truncate_fts_field_bound: "length (truncate_fts_field s) \<le> MAX_FTS_FIELD_BYTES"
  using boundary_le [of s MAX_FTS_FIELD_BYTES] by (simp add: truncate_fts_field_def)

lemma truncate_fts_field_idem: "truncate_fts_field (truncate_fts_field s) = truncate_fts_field s"
  using truncate_fts_field_bound [of s] by (simp add: truncate_fts_field_def [of "truncate_fts_field s"])

lemma truncate_facts:
  "\<exists>n. truncate_fts_field s = take n s \<and> n \<le> length s \<and> n \<le> MAX_FTS_FIELD_BYTES \<and> is_char_boundary s n
     \<and> (\<nexists>m. n < m \<and> m \<le> MAX_FTS_FIELD_BYTES \<and> m \<le> length s \<and> is_char_boundary s m)
     \<and> truncate_fts_field (truncate_fts_field s) = truncate_fts_field s"
proof (cases "length s \<le> MAX_FTS_FIELD_BYTES")
  case True
  then show ?thesis
    by (intro exI [of _ "length s"]) (simp add: truncate_fts_field_def is_char_boundary_def)
next
  case False
  let ?n = "boundary_at_or_before s MAX_FTS_FIELD_BYTES"
  have "truncate_fts_field s = take ?n s" using False by (simp add: truncate_fts_field_def)
  moreover have "\<not> (?n < m \<and> m \<le> MAX_FTS_FIELD_BYTES \<and> m \<le> length s \<and> is_char_boundary s m)" for m
    using boundary_greatest [of s m MAX_FTS_FIELD_BYTES] by linarith
  moreover have "?n \<le> MAX_FTS_FIELD_BYTES" "?n \<le> length s"
    using boundary_le [of s MAX_FTS_FIELD_BYTES] False by simp_all
  ultimately show ?thesis using boundary_is_boundary truncate_fts_field_idem by blast
qed

section \<open>The index and its companion stay in step\<close>

definition index_ok :: "env \<Rightarrow> db \<Rightarrow> bool" where
  "index_ok env s \<longleftrightarrow>
     distinct (map se_rowid (t_search_entities s)) \<and> distinct (map si_rowid (t_search_index s))
     \<and> set (map se_rowid (t_search_entities s)) = set (map si_rowid (t_search_index s))
     \<and> list_all (\<lambda>r. se_rowid r = rowid_for env (se_entity_type r) (se_entity_id r)) (t_search_entities s)"

lemma rowid_nonneg: "0 \<le> rowid_for env t e"
  by (simp add: rowid_for_def)

lemma rowid_for_bound: "is_i64 (rowid_for env t e)"
proof -
  have "and (en_siphash env (t @ [CHR 0x00] @ e)) (0x7FFFFFFFFFFFFFFF :: 64 word) \<le> 0x7FFFFFFFFFFFFFFF"
    by (rule word_and_le1)
  then have "rowid_for env t e \<le> 0x7FFFFFFFFFFFFFFF"
    by (simp add: word_le_def rowid_for_def)
  with rowid_nonneg [of env t e] show ?thesis
    by (simp add: is_i64_def i64_min_def i64_max_def)
qed

lemma image_delete_where_key: "key ` {r \<in> set t. key r \<noteq> k} = key ` set t - {k}"
  by auto

lemma exists_where_key: "exists_where (\<lambda>r. key r = k) t \<longleftrightarrow> k \<in> key ` set t"
  by (auto simp: image_iff)

lemma lookup_by_append: "lookup_by key (t @ [r]) k =
    (case lookup_by key t k of None \<Rightarrow> if key r = k then Some r else None | Some x \<Rightarrow> Some x)"
  by (induction t) (auto simp: lookup_by_def)

lemma delete_where_absent: "k \<notin> key ` set t \<Longrightarrow> delete_where (\<lambda>r. key r = k) t = t"
  by (rule delete_where_none) auto

lemma delete_from_search_index_tables:
  "t_search_entities (delete_from_search_index env t e s)
     = delete_where (\<lambda>r. se_rowid r = rowid_for env t e) (t_search_entities s)"
  "index_ok env s \<Longrightarrow> t_search_index (delete_from_search_index env t e s)
     = delete_where (\<lambda>r. si_rowid r = rowid_for env t e) (t_search_index s)"
proof -
  show "t_search_entities (delete_from_search_index env t e s)
     = delete_where (\<lambda>r. se_rowid r = rowid_for env t e) (t_search_entities s)"
    by (simp add: delete_from_search_index_def Let_def)
  assume ok: "index_ok env s"
  show "t_search_index (delete_from_search_index env t e s)
     = delete_where (\<lambda>r. si_rowid r = rowid_for env t e) (t_search_index s)"
  proof (cases "rowid_for env t e \<in> se_rowid ` set (t_search_entities s)")
    case True
    then have "exists_where (\<lambda>r. se_rowid r = rowid_for env t e) (t_search_entities s)"
      by (simp only: exists_where_key)
    then show ?thesis by (simp add: delete_from_search_index_def Let_def del: exists_where_iff)
  next
    case False
    then have "\<not> exists_where (\<lambda>r. se_rowid r = rowid_for env t e) (t_search_entities s)"
      by (simp only: exists_where_key not_False_eq_True)
    moreover from False ok have "rowid_for env t e \<notin> si_rowid ` set (t_search_index s)"
      by (simp add: index_ok_def)
    ultimately show ?thesis
      by (simp add: delete_from_search_index_def Let_def delete_where_absent del: exists_where_iff)
  qed
qed

lemma delete_from_search_index_ok:
  assumes "index_ok env s" shows "index_ok env (delete_from_search_index env t e s)"
proof -
  have "list_all (\<lambda>r. se_rowid r = rowid_for env (se_entity_type r) (se_entity_id r))
      (delete_where (\<lambda>r. se_rowid r = rowid_for env t e) (t_search_entities s))"
    using assms by (simp add: index_ok_def list_all_iff)
  with assms show ?thesis
    by (simp add: index_ok_def [of env "delete_from_search_index env t e s"]
        delete_from_search_index_tables)
      (simp add: index_ok_def image_delete_where_key distinct_delete_where)
qed

lemma entity_at_delete:
  "entity_at (delete_from_search_index env t e s) i =
     (if i = rowid_for env t e then None else entity_at s i)"
  by (simp add: entity_at_def delete_from_search_index_tables lookup_delete_by)

text \<open>Under the invariant an index write never fails, and it changes at most its own row.\<close>

definition indexed_state ::
  "env \<Rightarrow> string \<Rightarrow> string \<Rightarrow> string \<Rightarrow> string \<Rightarrow> string \<Rightarrow> db \<Rightarrow> db" where
  "indexed_state env t e name title description s =
     s\<lparr>t_search_index := delete_where (\<lambda>r. si_rowid r = rowid_for env t e) (t_search_index s)
         @ [\<lparr>si_rowid = rowid_for env t e, si_name = truncate_fts_field name,
             si_title = truncate_fts_field title, si_description = truncate_fts_field description\<rparr>],
       t_search_entities := delete_where (\<lambda>r. se_rowid r = rowid_for env t e) (t_search_entities s)
         @ [\<lparr>se_rowid = rowid_for env t e, se_entity_type = t, se_entity_id = e\<rparr>]\<rparr>"

definition collides :: "env \<Rightarrow> string \<Rightarrow> string \<Rightarrow> db \<Rightarrow> bool" where
  "collides env t e s = (case entity_at s (rowid_for env t e) of None \<Rightarrow> False
     | Some r \<Rightarrow> se_entity_type r \<noteq> t \<or> se_entity_id r \<noteq> e)"

lemma populate_search_index_result:
  assumes "index_ok env s"
  shows "populate_search_index env t e name title description s =
    (Inr (), if collides env t e s then s else indexed_state env t e name title description s)"
proof -
  let ?i = "rowid_for env t e"
  show ?thesis
  proof (cases "entity_at s ?i")
    case None
    then have "?i \<notin> se_rowid ` set (t_search_entities s)" by (simp add: entity_at_def)
    then have "?i \<notin> si_rowid ` set (t_search_index s)"
      using assms by (simp add: index_ok_def)
    then have no: "\<not> exists_where (\<lambda>r. si_rowid r = ?i) (t_search_index s)"
      "delete_where (\<lambda>r. si_rowid r = ?i) (t_search_index s) = t_search_index s"
      "delete_where (\<lambda>r. se_rowid r = ?i) (t_search_entities s) = t_search_entities s"
      using \<open>?i \<notin> se_rowid ` set (t_search_entities s)\<close>
      by (auto simp: image_iff intro!: delete_where_absent)
    with None show ?thesis
      by (simp add: populate_search_index_def Let_def dbm_defs collides_def indexed_state_def
          constraints_def no del: exists_where_iff)
  next
    case (Some r)
    then show ?thesis
      by (auto simp: populate_search_index_def Let_def dbm_defs collides_def indexed_state_def
          constraints_def)
  qed
qed

lemma indexed_state_ok:
  assumes "index_ok env s" shows "index_ok env (indexed_state env t e name title description s)"
proof -
  have "list_all (\<lambda>r. se_rowid r = rowid_for env (se_entity_type r) (se_entity_id r))
      (delete_where (\<lambda>r. se_rowid r = rowid_for env t e) (t_search_entities s))"
    using assms by (simp add: index_ok_def list_all_iff)
  with assms show ?thesis
    by (simp add: index_ok_def [of env "indexed_state env t e name title description s"]
        indexed_state_def)
      (simp add: index_ok_def image_delete_where_key distinct_delete_where)
qed

lemma total_populate_search_index [total_intros]:
  "total (index_ok env) (populate_search_index env t e name title description)"
  by (simp add: total_def populate_search_index_result indexed_state_ok)

lemma entity_at_indexed:
  "entity_at (indexed_state env t e name title description s) i =
     (if i = rowid_for env t e then Some \<lparr>se_rowid = i, se_entity_type = t, se_entity_id = e\<rparr>
      else entity_at s i)"
  by (auto simp: entity_at_def indexed_state_def lookup_by_append lookup_delete_by simp del: lookup_by_None split: option.split)

text \<open>The entities the index holds. Distinct row ids let a write and a delete act as on a set.\<close>

definition indexed :: "db \<Rightarrow> (string \<times> string) set" where
  "indexed s = set (map (\<lambda>r. (se_entity_type r, se_entity_id r)) (t_search_entities s))"

definition no_collision :: "env \<Rightarrow> (string \<times> string) set \<Rightarrow> bool" where
  "no_collision env es \<longleftrightarrow> inj_on (\<lambda>(t, e). rowid_for env t e) es"

lemma no_collisionD:
  "no_collision env es \<Longrightarrow> (t, e) \<in> es \<Longrightarrow> (t', e') \<in> es \<Longrightarrow> rowid_for env t e = rowid_for env t' e'
   \<Longrightarrow> t = t' \<and> e = e'"
  by (fastforce simp: no_collision_def inj_on_def)

lemma no_collision_mono: "no_collision env es \<Longrightarrow> es' \<subseteq> es \<Longrightarrow> no_collision env es'"
  by (auto simp: no_collision_def intro: inj_on_subset)

lemma indexed_rowid:
  assumes "index_ok env s" "no_collision env (insert (t, e) (indexed s))" "r \<in> set (t_search_entities s)"
  shows "se_rowid r = rowid_for env t e \<longleftrightarrow> (se_entity_type r, se_entity_id r) = (t, e)"
proof -
  have "(se_entity_type r, se_entity_id r) \<in> indexed s"
    using assms(3) by (auto simp: indexed_def)
  moreover have "se_rowid r = rowid_for env (se_entity_type r) (se_entity_id r)"
    using assms(1,3) by (simp add: index_ok_def list_all_iff)
  ultimately show ?thesis
    using no_collisionD [OF assms(2), of "se_entity_type r" "se_entity_id r" t e] by auto
qed

lemma indexed_delete:
  assumes "index_ok env s" "no_collision env (insert (t, e) (indexed s))"
  shows "indexed (delete_from_search_index env t e s) = indexed s - {(t, e)}"
  using indexed_rowid [OF assms]
  by (auto simp: indexed_def delete_from_search_index_tables)

lemma populate_no_collision:
  assumes "index_ok env s" "no_collision env (insert (t, e) (indexed s))"
  shows "populate_search_index env t e name title description s =
    (Inr (), indexed_state env t e name title description s)"
    and "indexed (indexed_state env t e name title description s) = insert (t, e) (indexed s)"
proof -
  have "\<not> collides env t e s"
    using indexed_rowid [OF assms]
    by (auto simp: collides_def entity_at_def dest!: lookup_by_Some split: option.split)
  then show "populate_search_index env t e name title description s =
    (Inr (), indexed_state env t e name title description s)"
    using assms(1) by (simp add: populate_search_index_result)
  show "indexed (indexed_state env t e name title description s) = insert (t, e) (indexed s)"
    using indexed_rowid [OF assms] by (auto simp: indexed_def indexed_state_def)
qed

section \<open>The query language\<close>

text \<open>
  The reference grammar: an FTS5 string is text in double quotes with each inner quote doubled,
  and a sequence of strings is a conjunction of phrases. \<open>fts5\_strings\<close> reads a query that
  consists of strings only, and nothing else.
\<close>

fun read_fts5_body :: "string \<Rightarrow> (string \<times> string) option" where
  "read_fts5_body [] = None"
| "read_fts5_body [c] = (if c = QUOTE then Some ([], []) else None)"
| "read_fts5_body (c # d # s) =
     (if c = QUOTE then
        if d = QUOTE then map_option (\<lambda>(w, r). (QUOTE # w, r)) (read_fts5_body s) else Some ([], d # s)
      else map_option (\<lambda>(w, r). (c # w, r)) (read_fts5_body (d # s)))"

lemma read_fts5_body_length: "read_fts5_body s = Some (w, r) \<Longrightarrow> length r < length s"
  by (induction s arbitrary: w rule: read_fts5_body.induct) (force split: if_splits)+

function fts5_strings :: "string \<Rightarrow> string list option" where
  "fts5_strings q =
     (case q of [] \<Rightarrow> Some []
      | c # s \<Rightarrow>
          if c \<noteq> QUOTE then None
          else (case read_fts5_body s of None \<Rightarrow> None
                | Some (w, []) \<Rightarrow> Some [w]
                | Some (w, d # rest) \<Rightarrow>
                    if d = CHR '' '' then map_option (\<lambda>ws. w # ws) (fts5_strings rest) else None))"
  by pat_completeness auto
termination
  by (relation "measure length") (auto dest!: read_fts5_body_length)

declare fts5_strings.simps [simp del]

definition phrase :: "string \<Rightarrow> string" where
  "phrase w = quoted (double_quotes w)"

lemma double_quotes_simps [simp]:
  "double_quotes [] = []"
  "double_quotes (c # w) = (if c = QUOTE then [QUOTE, QUOTE] else [c]) @ double_quotes w"
  by (simp_all add: double_quotes_def)

lemma double_quotes_id: "QUOTE \<notin> set w \<Longrightarrow> double_quotes w = w"
  by (induction w) auto

lemma read_double_quotes:
  "(case rest of [] \<Rightarrow> True | d # _ \<Rightarrow> d \<noteq> QUOTE) \<Longrightarrow>
   read_fts5_body (double_quotes w @ QUOTE # rest) = Some (w, rest)"
proof (induction w)
  case Nil
  then show ?case by (cases rest) auto
next
  case (Cons c w)
  then show ?case
    by (cases "double_quotes w @ QUOTE # rest") auto
qed

lemma space_not_quote [simp]: "CHR '' '' \<noteq> QUOTE"
  by (simp add: QUOTE_def)

lemma fts5_strings_phrases: "fts5_strings (join '' '' (map phrase ws)) = Some ws"
proof (induction ws)
  case Nil
  show ?case by (simp add: fts5_strings.simps)
next
  case (Cons w ws)
  show ?case
  proof (cases ws)
    case Nil
    then show ?thesis
      using read_double_quotes [of "[]" w] by (simp add: fts5_strings.simps phrase_def quoted_def)
  next
    case (Cons v vs)
    let ?rest = "CHR '' '' # join '' '' (map phrase ws)"
    have "join '' '' (map phrase (w # ws)) = QUOTE # double_quotes w @ QUOTE # ?rest"
      using Cons by (simp add: phrase_def quoted_def join_Cons)
    moreover have "read_fts5_body (double_quotes w @ QUOTE # ?rest) = Some (w, ?rest)"
      by (rule read_double_quotes) simp
    ultimately show ?thesis
      using Cons.IH by (simp add: fts5_strings.simps [of "QUOTE # _"])
  qed
qed

lemma split_ws_from_chars: "v \<in> set (split_ws_from w s) \<Longrightarrow> set v \<subseteq> set w \<union> set s"
proof (induction w s arbitrary: v rule: split_ws_from.induct)
  case (2 w c s)
  have "set (drop (ws_prefix (c # s)) (c # s)) \<subseteq> set (c # s)" by (rule set_drop_subset)
  with 2 show ?case by (fastforce split: if_splits)
qed (auto split: if_splits)

lemma split_whitespace_chars: "v \<in> set (split_whitespace s) \<Longrightarrow> set v \<subseteq> set s"
  using split_ws_from_chars [of v "[]" s] by (simp add: split_whitespace_def)

lemma split_once_quote_free: "split_once [d] s = Some (a, b) \<Longrightarrow> d \<notin> set a"
  by (induction s arbitrary: a) (auto simp: starts_with_def split: if_splits)

lemma join_chars: "set (join sep ps) \<subseteq> set sep \<union> \<Union> (set ` set ps)"
  by (induction sep ps rule: join.induct) auto

lemma word_phrases_phrases: "word_phrases t = map phrase (split_whitespace t)"
  by (simp add: word_phrases_def phrase_def)

lemma phrases_of_phrases: "\<exists>ws. phrases_of s = map phrase ws"
proof (induction s rule: phrases_of.induct)
  case (1 rest)
  show ?case
  proof (cases "\<exists>before after inside rest'. split_once [QUOTE] rest = Some (before, after)
      \<and> split_once [QUOTE] after = Some (inside, rest')")
    case True
    then obtain before after inside rest' where sp: "split_once [QUOTE] rest = Some (before, after)"
      "split_once [QUOTE] after = Some (inside, rest')" by blast
    let ?ws = "split_whitespace inside"
    from 1 [OF sp(1) refl sp(2) refl] obtain vs where vs: "phrases_of rest' = map phrase vs" by blast
    have "QUOTE \<notin> set (join '' '' ?ws)"
      using join_chars [of "'' ''" ?ws] split_whitespace_chars [of _ inside]
        split_once_quote_free [OF sp(2)] by (fastforce simp: QUOTE_def)
    then have "quoted (join '' '' ?ws) = phrase (join '' '' ?ws)"
      by (simp add: phrase_def double_quotes_id)
    then have "phrases_of rest = map phrase (split_whitespace before @ (if ?ws = [] then [] else [join '' '' ?ws]) @ vs)"
      by (simp add: phrases_of.simps [of rest] sp vs word_phrases_phrases Let_def)
    then show ?thesis by blast
  next
    case False
    then have "phrases_of rest = word_phrases rest"
      by (auto simp: phrases_of.simps [of rest] split: option.splits)
    then show ?thesis by (auto simp: word_phrases_phrases)
  qed
qed

lemma fts5_phrases_phrases: "\<exists>ws. fts5_phrases s = map phrase ws"
  by (simp add: fts5_phrases_def phrases_of_phrases)

section \<open>Properties of the index and its queries\<close>

lemma phrases_quote_free: "QUOTE \<notin> set s \<Longrightarrow> phrases_of s = word_phrases s"
proof -
  assume "QUOTE \<notin> set s"
  then have "split_once [QUOTE] s = None"
    using split_once_Some [of "[QUOTE]" s] by (cases "split_once [QUOTE] s") fastforce+
  then show ?thesis by (simp add: phrases_of.simps [of s])
qed

lemma strip_control_chars: "set (strip_control s) \<subseteq> set s"
  by (induction s rule: strip_control.induct) auto

text \<open>
  C14: Whatever a user types, the query built from it is a sequence of quoted FTS5 strings and
  nothing else, so no operator, column filter or prefix of the query language gets through; and
  when the input has no double quote the strings are its words, control characters removed.
\<close>

theorem fts5_query_is_quoted:
  assumes "QUOTE \<notin> set plain"
  shows "fts5_strings (fts5_query_from_words input) \<noteq> None
    \<and> fts5_strings (fts5_query_from_words plain) = Some (split_whitespace (strip_control plain))"
proof
  show "fts5_strings (fts5_query_from_words input) \<noteq> None"
    using fts5_phrases_phrases [of input] fts5_strings_phrases by (auto simp: fts5_query_from_words_def)
  have "QUOTE \<notin> set (strip_control plain)" using assms strip_control_chars by blast
  then have "fts5_phrases plain = map phrase (split_whitespace (strip_control plain))"
    by (simp add: fts5_phrases_def phrases_quote_free word_phrases_phrases)
  then show "fts5_strings (fts5_query_from_words plain) = Some (split_whitespace (strip_control plain))"
    by (simp add: fts5_query_from_words_def fts5_strings_phrases)
qed

theorem fts5_query_is_quoted_witness:
  "fts5_strings (fts5_query_from_words ''title:a OR'') = Some [''title:a'', ''OR'']
    \<and> fts5_strings (fts5_query_from_words [QUOTE, CHR ''x'']) \<noteq> None"
proof -
  have "split_whitespace (strip_control ''title:a OR'') = [''title:a'', ''OR'']" by code_simp
  then show ?thesis
    using fts5_query_is_quoted [of "''title:a OR''" "[QUOTE, CHR ''x'']"] by (simp add: QUOTE_def)
qed

text \<open>
  A field is cut for the index at the greatest character boundary within 10000 bytes: the
  result is a prefix within the bound that ends on a boundary, no longer prefix within the bound
  does, a field within the bound is kept, and cutting twice is cutting once.
\<close>

theorem truncate_fts_field_spec:
  "\<exists>n. truncate_fts_field s = take n s \<and> n \<le> length s \<and> n \<le> MAX_FTS_FIELD_BYTES \<and> is_char_boundary s n
     \<and> (\<nexists>m. n < m \<and> m \<le> MAX_FTS_FIELD_BYTES \<and> m \<le> length s \<and> is_char_boundary s m)
     \<and> truncate_fts_field (truncate_fts_field s) = truncate_fts_field s"
  by (rule truncate_facts)

text \<open>
  A row id shared by two entities is handled unevenly: writing the second entity leaves the
  first one's entry, but deleting the second, which was never indexed, removes the first one's
  entry from the index.
\<close>

theorem delete_removes_colliding_entity:
  assumes "index_ok env s" "entity_at s (rowid_for env t e) = Some r" "(se_entity_type r, se_entity_id r) \<noteq> (t, e)"
  shows "populate_search_index env t e name title description s = (Inr (), s)
    \<and> (se_entity_type r, se_entity_id r) \<in> indexed s
    \<and> (se_entity_type r, se_entity_id r) \<notin> indexed (delete_from_search_index env t e s)"
proof -
  let ?i = "rowid_for env t e"
  have "collides env t e s" using assms(2,3) by (auto simp: collides_def)
  then have "populate_search_index env t e name title description s = (Inr (), s)"
    by (simp add: populate_search_index_result [OF assms(1)])
  moreover have r: "r \<in> set (t_search_entities s)" "se_rowid r = ?i"
    using lookup_by_Some assms(2) by (auto simp: entity_at_def dest: lookup_by_Some)
  moreover have "(se_entity_type r, se_entity_id r) \<notin> indexed (delete_from_search_index env t e s)"
  proof
    assume "(se_entity_type r, se_entity_id r) \<in> indexed (delete_from_search_index env t e s)"
    then obtain q where q: "q \<in> set (t_search_entities s)" "se_rowid q \<noteq> ?i"
      "se_entity_type q = se_entity_type r" "se_entity_id q = se_entity_id r"
      by (auto simp: indexed_def delete_from_search_index_tables)
    with r assms(1) show False by (simp add: index_ok_def list_all_iff)
  qed
  ultimately show ?thesis by (auto simp: indexed_def)
qed

definition flat_env :: env where
  "flat_env = \<lparr>en_siphash = (\<lambda>t. 7), en_json_pair = (\<lambda>a b. a @ '','' @ b), en_json_array = (\<lambda>a b. a @ '','' @ b)\<rparr>"

definition one_entry_db :: db where
  "one_entry_db = empty_db\<lparr>t_search_index := [\<lparr>si_rowid = 7, si_name = [], si_title = ''Songs'', si_description = []\<rparr>],
     t_search_entities := [\<lparr>se_rowid = 7, se_entity_type = ''feed'', se_entity_id = ''g1''\<rparr>]\<rparr>"

theorem delete_removes_colliding_entity_witness:
  "populate_search_index flat_env ''feed'' ''g2'' [] ''Other'' [] one_entry_db = (Inr (), one_entry_db)
    \<and> (''feed'', ''g1'') \<in> indexed one_entry_db
    \<and> (''feed'', ''g1'') \<notin> indexed (delete_from_search_index flat_env ''feed'' ''g2'' one_entry_db)"
proof -
  have seven: "rowid_for flat_env t e = 7" for t e by (simp add: rowid_for_def flat_env_def)
  have "index_ok flat_env one_entry_db" by (simp add: index_ok_def one_entry_db_def empty_db_def seven)
  moreover have "entity_at one_entry_db (rowid_for flat_env ''feed'' ''g2'')
      = Some \<lparr>se_rowid = 7, se_entity_type = ''feed'', se_entity_id = ''g1''\<rparr>"
    by (simp add: entity_at_def lookup_by_def one_entry_db_def empty_db_def seven)
  ultimately show ?thesis
    using delete_removes_colliding_entity [of flat_env one_entry_db "''feed''" "''g2''" _ "[]" "''Other''" "[]"] by simp
qed

end
