(* ===== verification/Quality.thy ===== *)
theory Quality
  imports Search Samples
begin

text \<open>
  \<^verbatim>\<open>src/quality.rs\<close>, the completeness score of a feed and of a track with its table, and
  \<^verbatim>\<open>sync\_source\_read\_models\_for\_feed\<close> of \<^verbatim>\<open>src/db.rs\<close>, which brings the search index and the scores
  of one feed up to date. \<open>now\<close> is the clock the writes of one call read.
\<close>

section \<open>Scores\<close>

definition points :: "bool \<Rightarrow> int \<Rightarrow> int" where
  "points b n = (if b then n else 0)"

definition non_empty_text :: "string option \<Rightarrow> bool" where
  "non_empty_text t = (case t of None \<Rightarrow> False | Some s \<Rightarrow> s \<noteq> [])"

definition feed_row_score :: "feed \<Rightarrow> int" where
  "feed_row_score f =
     points (fe_title f \<noteq> []) 10
     + points (non_empty_text (fe_description f)) 15
     + points (fe_image_url f \<noteq> None) 15
     + points (fe_language f \<noteq> None) 5
     + points (fe_episode_count f > 0) 5
     + points (non_empty_text (fe_release_artist f)) 10
     + points (fe_newest_item_at f \<noteq> None) 5
     + points (fe_explicit f) 5
     + points (fe_itunes_type f \<noteq> None) 5"

definition compute_feed_quality :: "db \<Rightarrow> string \<Rightarrow> int" where
  "compute_feed_quality s feed_guid =
     (case get_feed_by_guid s feed_guid of None \<Rightarrow> 0 | Some f \<Rightarrow> feed_row_score f)
     + points (exists_where (\<lambda>t. tr_feed_guid t = feed_guid) (t_tracks s)) 10
     + points (exists_where (\<lambda>r. fpr_feed_guid r = feed_guid) (t_feed_payment_routes s)
               \<or> exists_where (\<lambda>r. pr_feed_guid r = feed_guid) (t_payment_routes s)) 15"

definition track_row_score :: "db \<Rightarrow> track \<Rightarrow> int" where
  "track_row_score s t =
     (let has_track_artist = non_empty_text (tr_track_artist t);
          has_feed_release_artist =
            (if has_track_artist then False
             else (case get_feed_by_guid s (tr_feed_guid t) of None \<Rightarrow> False
                   | Some f \<Rightarrow> non_empty_text (fe_release_artist f)))
      in points (tr_title t \<noteq> []) 10
         + points (tr_enclosure_url t \<noteq> None) 15
         + points (tr_enclosure_type t \<noteq> None) 5
         + points (case tr_duration_secs t of None \<Rightarrow> False | Some d \<Rightarrow> d > 0) 10
         + points (tr_pub_date t \<noteq> None) 5
         + points (non_empty_text (tr_description t)) 10
         + points (has_track_artist \<or> has_feed_release_artist) 5
         + points (tr_track_number t \<noteq> None) 5
         + points (tr_season t \<noteq> None) 5)"

definition compute_track_quality_for_feed_track :: "db \<Rightarrow> string \<Rightarrow> string \<Rightarrow> int" where
  "compute_track_quality_for_feed_track s feed_guid track_guid =
     (case get_track_for_feed s feed_guid track_guid of None \<Rightarrow> 0 | Some t \<Rightarrow> track_row_score s t)
     + points (exists_where (\<lambda>r. pr_feed_guid r = feed_guid \<and> pr_track_guid r = track_guid) (t_payment_routes s)) 20
     + points (exists_where (vts_owner feed_guid track_guid) (t_value_time_splits s)) 10"

definition compute_track_quality :: "db \<Rightarrow> string \<Rightarrow> db_error + int" where
  "compute_track_quality s track_guid =
     (case get_tracks_by_guid s track_guid of
        [] \<Rightarrow> Inr 0
      | [t] \<Rightarrow> Inr (compute_track_quality_for_feed_track s (tr_feed_guid t) (tr_track_guid t))
      | _ \<Rightarrow> Inl (Other (''track_guid '' @ track_guid @ '' is ambiguous; compute quality with feed scope'')))"

definition q_key :: "quality_row \<Rightarrow> string \<times> string" where
  "q_key r = (q_entity_type r, q_entity_id r)"

definition q_merge :: "quality_row \<Rightarrow> quality_row \<Rightarrow> quality_row" where
  "q_merge old new = old\<lparr>q_score := q_score new, q_computed_at := q_computed_at new\<rparr>"

definition store_quality :: "int \<Rightarrow> string \<Rightarrow> string \<Rightarrow> int \<Rightarrow> db \<Rightarrow> db" where
  "store_quality now entity_type entity_id score s =
     s\<lparr>t_entity_quality := upsert_by q_key q_merge
        \<lparr>q_entity_type = entity_type, q_entity_id = entity_id, q_score = score, q_computed_at = now\<rparr>
        (t_entity_quality s)\<rparr>"

definition get_quality :: "db \<Rightarrow> string \<Rightarrow> string \<Rightarrow> int" where
  "get_quality s entity_type entity_id =
     (case lookup_by q_key (t_entity_quality s) (entity_type, entity_id) of None \<Rightarrow> 0 | Some r \<Rightarrow> q_score r)"

interpretation qual: keyed_table q_key "upsert_by q_key q_merge" "\<lambda>k. delete_where (\<lambda>r. q_key r = k)"
  "lookup_by q_key" q_merge "\<lambda>t. distinct (map q_key t)"
  by (rule keyed_table_by) (simp add: q_key_def q_merge_def)

section \<open>The read models of one feed\<close>

definition sync_track_read_model :: "env \<Rightarrow> int \<Rightarrow> bool \<Rightarrow> track \<Rightarrow> unit dbm" where
  "sync_track_read_model env now is_music_feed t =
     (let id = canonical_track_entity_id env (tr_feed_guid t) (tr_track_guid t) in
      dseq (if is_music_feed
            then populate_search_index env ''track'' id (case_option [] (\<lambda>a. a) (tr_track_artist t)) (tr_title t)
                   (case_option [] (\<lambda>d. d) (tr_description t))
            else dexec (delete_from_search_index env ''track'' id))
           (dexec (\<lambda>s. store_quality now ''track'' id
                (compute_track_quality_for_feed_track s (tr_feed_guid t) (tr_track_guid t)) s)))"

definition sync_feed_index_row :: "env \<Rightarrow> feed \<Rightarrow> string \<Rightarrow> bool \<Rightarrow> unit dbm" where
  "sync_feed_index_row env f entity_type keep =
     (if keep
      then populate_search_index env entity_type (fe_feed_guid f) (case_option [] (\<lambda>a. a) (fe_release_artist f))
             (fe_title f) (case_option [] (\<lambda>d. d) (fe_description f))
      else dexec (delete_from_search_index env entity_type (fe_feed_guid f)))"

definition sync_source_read_models_for_feed :: "env \<Rightarrow> int \<Rightarrow> string \<Rightarrow> unit dbm" where
  "sync_source_read_models_for_feed env now feed_guid =
     dbind (dread (\<lambda>s. get_feed_by_guid s feed_guid)) (\<lambda>feed. case feed of None \<Rightarrow> dret () | Some f \<Rightarrow>
       dseq (sync_feed_index_row env f ''feed'' (is_music (fe_raw_medium f)))
      (dseq (sync_feed_index_row env f ''publisher'' (is_publisher (fe_raw_medium f)))
      (dseq (dexec (\<lambda>s. store_quality now ''feed'' (fe_feed_guid f) (compute_feed_quality s (fe_feed_guid f)) s))
            (dbind (dread (\<lambda>s. get_tracks_for_feed s feed_guid))
               (dforeach (sync_track_read_model env now (is_music (fe_raw_medium f))))))))"

section \<open>Lemmas\<close>

lemma points_bounds: "0 \<le> n \<Longrightarrow> 0 \<le> points b n \<and> points b n \<le> n"
  by (simp add: points_def)

lemma feed_row_score_bounds: "0 \<le> feed_row_score f" "feed_row_score f \<le> 75"
  by (simp_all add: feed_row_score_def points_def)

lemma track_row_score_bounds: "0 \<le> track_row_score s t" "track_row_score s t \<le> 70"
  by (simp_all add: track_row_score_def points_def Let_def)

lemma compute_feed_quality_bounds:
  "0 \<le> compute_feed_quality s g \<and> compute_feed_quality s g \<le> 100"
proof -
  have "0 \<le> (case get_feed_by_guid s g of None \<Rightarrow> 0 | Some f \<Rightarrow> feed_row_score f)
      \<and> (case get_feed_by_guid s g of None \<Rightarrow> 0 | Some f \<Rightarrow> feed_row_score f) \<le> 75"
    using feed_row_score_bounds by (simp split: option.split)
  then show ?thesis by (simp add: compute_feed_quality_def points_def)
qed

lemma compute_track_quality_bounds:
  "0 \<le> compute_track_quality_for_feed_track s g t \<and> compute_track_quality_for_feed_track s g t \<le> 100"
proof -
  have "0 \<le> (case get_track_for_feed s g t of None \<Rightarrow> 0 | Some r \<Rightarrow> track_row_score s r)
      \<and> (case get_track_for_feed s g t of None \<Rightarrow> 0 | Some r \<Rightarrow> track_row_score s r) \<le> 70"
    using track_row_score_bounds by (simp split: option.split)
  then show ?thesis by (simp add: compute_track_quality_for_feed_track_def points_def)
qed

lemma store_quality_frame [simp]:
  "index_ok env (store_quality now t e n s) = index_ok env s"
  "indexed (store_quality now t e n s) = indexed s"
  "t_tracks (store_quality now t e n s) = t_tracks s"
  "t_feeds (store_quality now t e n s) = t_feeds s"
  by (simp_all add: store_quality_def index_ok_def indexed_def)

lemma total_sync_track_read_model [total_intros]:
  "total (index_ok env) (sync_track_read_model env now b t)"
  unfolding sync_track_read_model_def Let_def
  by (intro total_intros) (simp_all add: delete_from_search_index_ok)

lemma total_sync_feed_index_row [total_intros]:
  "total (index_ok env) (sync_feed_index_row env f t b)"
  unfolding sync_feed_index_row_def
  by (intro total_intros) (simp add: delete_from_search_index_ok)

lemma total_sync_source_read_models [total_intros]:
  "total (index_ok env) (sync_source_read_models_for_feed env now g)"
  unfolding sync_source_read_models_for_feed_def
  by (intro total_intros) simp

definition track_entity :: "env \<Rightarrow> track \<Rightarrow> string \<times> string" where
  "track_entity env t = (''track'', canonical_track_entity_id env (tr_feed_guid t) (tr_track_guid t))"

lemma sync_track_indexed:
  assumes "index_ok env s" "no_collision env (insert (track_entity env t) (indexed s))"
  shows "\<exists>s'. sync_track_read_model env now b t s = (Inr (), s') \<and> index_ok env s' \<and> t_tracks s' = t_tracks s
    \<and> indexed s' = (if b then insert (track_entity env t) (indexed s) else indexed s - {track_entity env t})"
proof (cases b)
  case True
  with assms show ?thesis
    by (simp add: sync_track_read_model_def track_entity_def Let_def dbm_defs populate_no_collision
        indexed_state_ok) (simp add: indexed_state_def)
next
  case False
  with assms show ?thesis
    by (simp add: sync_track_read_model_def track_entity_def Let_def dbm_defs indexed_delete
        delete_from_search_index_ok) (simp add: delete_from_search_index_def Let_def)
qed

lemma sync_feed_row_indexed:
  assumes "index_ok env s" "no_collision env (insert (t, fe_feed_guid f) (indexed s))"
  shows "\<exists>s'. sync_feed_index_row env f t b s = (Inr (), s') \<and> index_ok env s' \<and> t_tracks s' = t_tracks s
    \<and> indexed s' = (if b then insert (t, fe_feed_guid f) (indexed s) else indexed s - {(t, fe_feed_guid f)})"
proof (cases b)
  case True
  with assms show ?thesis
    by (simp add: sync_feed_index_row_def populate_no_collision indexed_state_ok)
      (simp add: indexed_state_def)
next
  case False
  with assms show ?thesis
    by (simp add: sync_feed_index_row_def dbm_defs indexed_delete delete_from_search_index_ok)
      (simp add: delete_from_search_index_def Let_def)
qed

lemma sync_tracks_indexed:
  assumes "index_ok env s" "no_collision env (track_entity env ` set ts \<union> indexed s)"
  shows "\<exists>s'. dforeach (sync_track_read_model env now b) ts s = (Inr (), s') \<and> index_ok env s'
    \<and> indexed s' = (if b then indexed s \<union> track_entity env ` set ts else indexed s - track_entity env ` set ts)"
  using assms
proof (induction ts arbitrary: s)
  case (Cons t ts)
  have "no_collision env (insert (track_entity env t) (indexed s))"
    using Cons.prems(2) by (rule no_collision_mono) auto
  from sync_track_indexed [OF Cons.prems(1) this] obtain s1 where
    s1: "sync_track_read_model env now b t s = (Inr (), s1)" "index_ok env s1"
      "indexed s1 = (if b then insert (track_entity env t) (indexed s) else indexed s - {track_entity env t})"
    by blast
  have "no_collision env (track_entity env ` set ts \<union> indexed s1)"
    using Cons.prems(2) by (rule no_collision_mono) (auto simp: s1(3))
  from Cons.IH [OF s1(2) this] show ?case
    using s1 by (auto simp: dseq_def dbind_def)
qed (simp add: dret_def)

text \<open>
  What the index holds of a feed after a sync: a music feed its own row and one per track, a
  publisher feed the publisher row, any other feed none; the rows of other entities stay.
\<close>

definition feed_entities :: "env \<Rightarrow> db \<Rightarrow> string \<Rightarrow> (string \<times> string) set" where
  "feed_entities env s g =
     {(''feed'', g), (''publisher'', g)} \<union> track_entity env ` set (get_tracks_for_feed s g)"

definition wanted_entities :: "env \<Rightarrow> db \<Rightarrow> feed \<Rightarrow> (string \<times> string) set" where
  "wanted_entities env s f =
     (if is_music (fe_raw_medium f)
      then insert (''feed'', fe_feed_guid f) (track_entity env ` set (get_tracks_for_feed s (fe_feed_guid f)))
      else if is_publisher (fe_raw_medium f) then {(''publisher'', fe_feed_guid f)} else {})"

lemma get_feed_by_guid_guid: "get_feed_by_guid s g = Some f \<Longrightarrow> fe_feed_guid f = g"
  by (auto simp: get_feed_by_guid_def feed.truncate_def dest!: lookup_by_Some)

lemma sync_indexed_exact:
  assumes ok: "index_ok env s" and f: "get_feed_by_guid s g = Some f"
    and inj: "no_collision env (feed_entities env s g \<union> indexed s)"
  shows "\<exists>s'. sync_source_read_models_for_feed env now g s = (Inr (), s') \<and> index_ok env s'
    \<and> indexed s' = (indexed s - feed_entities env s g) \<union> wanted_entities env s f"
proof -
  have g: "fe_feed_guid f = g" using f by (rule get_feed_by_guid_guid)
  have sub: "no_collision env es" if "es \<subseteq> feed_entities env s g \<union> indexed s" for es
    using inj that by (rule no_collision_mono)
  have "no_collision env (insert (''feed'', fe_feed_guid f) (indexed s))"
    by (rule sub) (auto simp: feed_entities_def g)
  from sync_feed_row_indexed [OF ok this, of "is_music (fe_raw_medium f)"] obtain s1 where
    s1: "sync_feed_index_row env f ''feed'' (is_music (fe_raw_medium f)) s = (Inr (), s1)"
      "index_ok env s1" "t_tracks s1 = t_tracks s"
      "indexed s1 = (if is_music (fe_raw_medium f) then insert (''feed'', g) (indexed s) else indexed s - {(''feed'', g)})"
    unfolding g by blast
  have "no_collision env (insert (''publisher'', fe_feed_guid f) (indexed s1))"
    by (rule sub) (auto simp: feed_entities_def g s1(4))
  from sync_feed_row_indexed [OF s1(2) this, of "is_publisher (fe_raw_medium f)"] obtain s2 where
    s2: "sync_feed_index_row env f ''publisher'' (is_publisher (fe_raw_medium f)) s1 = (Inr (), s2)"
      "index_ok env s2" "t_tracks s2 = t_tracks s"
      "indexed s2 = (if is_publisher (fe_raw_medium f) then insert (''publisher'', g) (indexed s1) else indexed s1 - {(''publisher'', g)})"
    unfolding g s1(3) by blast
  define s3 where "s3 = store_quality now ''feed'' g (compute_feed_quality s2 g) s2"
  have s3: "index_ok env s3" "indexed s3 = indexed s2" "get_tracks_for_feed s3 g = get_tracks_for_feed s g"
    using s2 by (simp_all add: s3_def get_tracks_for_feed_def)
  have "no_collision env (track_entity env ` set (get_tracks_for_feed s3 g) \<union> indexed s3)"
    by (rule sub) (auto simp: feed_entities_def s3(2,3) s2(4) s1(4))
  from sync_tracks_indexed [OF s3(1) this, of now "is_music (fe_raw_medium f)"] obtain s4 where
    s4: "dforeach (sync_track_read_model env now (is_music (fe_raw_medium f))) (get_tracks_for_feed s3 g) s3 = (Inr (), s4)"
      "index_ok env s4"
      "indexed s4 = (if is_music (fe_raw_medium f) then indexed s3 \<union> track_entity env ` set (get_tracks_for_feed s g)
         else indexed s3 - track_entity env ` set (get_tracks_for_feed s g))"
    unfolding s3(3) by blast
  have "sync_source_read_models_for_feed env now g s = (Inr (), s4)"
    using s1(1) s2(1) s4(1)
    by (simp add: sync_source_read_models_for_feed_def dseq_def dbind_def dread_def dexec_def f g s3_def)
  moreover have "indexed s4 = (indexed s - feed_entities env s g) \<union> wanted_entities env s f"
    using medium_disjoint(1) [of "fe_raw_medium f"]
    by (auto simp: s4(3) s3(2) s2(4) s1(4) feed_entities_def wanted_entities_def g track_entity_def
        split: if_splits)
  ultimately show ?thesis using s4(2) by blast
qed

section \<open>Properties of the read models\<close>

text \<open>A quality score lies between 0 and 100, for a feed and for a track.\<close>

theorem quality_scores_bounded:
  "0 \<le> compute_feed_quality s g \<and> compute_feed_quality s g \<le> 100
   \<and> 0 \<le> compute_track_quality_for_feed_track s g t \<and> compute_track_quality_for_feed_track s g t \<le> 100"
  using compute_feed_quality_bounds compute_track_quality_bounds by auto

text \<open>
  C13: Unless two entities share a row id, after the read models of a feed are synced the index
  holds exactly this of it: a music feed its own entry and one for each of its tracks, a publisher
  feed the publisher entry, any other feed nothing. The entries of all other entities stay, and
  the index stays well formed.
\<close>

theorem sync_indexes_exactly:
  assumes "index_ok env s" "get_feed_by_guid s g = Some f" "no_collision env (feed_entities env s g \<union> indexed s)"
  shows "\<exists>s'. sync_source_read_models_for_feed env now g s = (Inr (), s') \<and> index_ok env s'
    \<and> indexed s' = (indexed s - feed_entities env s g) \<union> wanted_entities env s f"
  using assms by (rule sync_indexed_exact)

definition length_env :: env where
  "length_env = \<lparr>en_siphash = (\<lambda>t. of_nat (length t)), en_json_pair = (\<lambda>a b. a @ '','' @ b), en_json_array = (\<lambda>a b. a @ '','' @ b)\<rparr>"

theorem sync_indexes_exactly_witness:
  "\<exists>s'. sync_source_read_models_for_feed length_env 9 ''g1'' track_db = (Inr (), s')
    \<and> indexed s' = {(''feed'', ''g1''), (''track'', ''g1,t1'')}"
proof -
  have none: "indexed track_db = {}" by (simp add: indexed_def track_db_def feed_db_def empty_db_def)
  have ents: "feed_entities length_env track_db ''g1'' = {(''feed'', ''g1''), (''publisher'', ''g1''), (''track'', ''g1,t1'')}"
    by (auto simp: feed_entities_def track_entity_def canonical_track_entity_id_def length_env_def get_tracks_for_feed_def
        track_db_def sample_track_def)
  have feed: "get_feed_by_guid track_db ''g1'' = Some sample_feed"
    by (simp add: get_feed_by_guid_def lookup_by_def track_db_def feed_db_def empty_db_def feed_row_of_def sample_feed_def
        feed.extend_def feed.truncate_def)
  have "rowid_for length_env ''feed'' ''g1'' = 7" "rowid_for length_env ''publisher'' ''g1'' = 12"
    "rowid_for length_env ''track'' ''g1,t1'' = 11"
    by (simp_all add: rowid_for_def length_env_def)
  then have "no_collision length_env (feed_entities length_env track_db ''g1'' \<union> indexed track_db)"
    by (simp add: none ents no_collision_def inj_on_def)
  moreover have "index_ok length_env track_db" by (simp add: index_ok_def track_db_def feed_db_def empty_db_def)
  moreover have "wanted_entities length_env track_db sample_feed = {(''feed'', ''g1''), (''track'', ''g1,t1'')}"
    by (auto simp: wanted_entities_def sample_feed_def is_music_def MUSIC_def eq_ignore_ascii_case_def track_entity_def
        canonical_track_entity_id_def length_env_def get_tracks_for_feed_def track_db_def sample_track_def)
  ultimately show ?thesis
    using sync_indexes_exactly [OF _ feed, of length_env 9] by (auto simp: none)
qed

end
