(* ===== verification/Integrity.thy ===== *)
theory Integrity
  imports Quality
begin

text \<open>
  The referential integrity of the store: unique feeds, URLs and tracks, and every child row
  within its table's constraints, in particular with its parent present. The replace calls and
  the upserts keep it, on success and on failure.
\<close>

definition feeds_ok :: "db \<Rightarrow> bool" where
  "feeds_ok s \<longleftrightarrow> distinct (map fe_feed_guid (t_feeds s)) \<and> distinct (map fe_feed_url (t_feeds s))"

definition tracks_ok :: "db \<Rightarrow> bool" where
  "tracks_ok s \<longleftrightarrow> distinct (map track_key (t_tracks s))
     \<and> list_all (\<lambda>t. feed_exists (tr_feed_guid t) s) (t_tracks s)"

definition feed_children_ok :: "db \<Rightarrow> bool" where
  "feed_children_ok s \<longleftrightarrow>
     table_ok t_feed_payment_routes fpr_check no_key (feed_fk fpr_feed_guid) s
     \<and> table_ok t_feed_list_value_raw flv_check no_key (feed_fk flv_feed_guid) s
     \<and> table_ok t_feed_remote_items_raw any_row fri_key (feed_fk fri_feed_guid) s
     \<and> table_ok t_live_events le_check le_key (feed_fk le_feed_guid) s
     \<and> table_ok t_source_contributor_claims scc_check (\<lambda>r. Some (scc_key r)) (feed_fk scc_feed_guid) s
     \<and> table_ok t_source_entity_ids sei_check (\<lambda>r. Some (sei_key r)) (feed_fk sei_feed_guid) s
     \<and> table_ok t_source_entity_links sel_check (\<lambda>r. Some (sel_key r)) (feed_fk sel_feed_guid) s
     \<and> table_ok t_source_release_claims src_check (\<lambda>r. Some (src_key r)) (feed_fk src_feed_guid) s
     \<and> table_ok t_source_item_enclosures sie_check (\<lambda>r. Some (sie_key r)) (feed_fk sie_feed_guid) s
     \<and> table_ok t_source_item_transcripts sit_check (\<lambda>r. Some (sit_key r)) (feed_fk sit_feed_guid) s
     \<and> table_ok t_source_platform_claims any_row no_key (feed_fk spc_feed_guid) s
     \<and> table_ok t_source_gone_answers any_row (\<lambda>r. Some (sg_feed_guid r)) (feed_fk sg_feed_guid) s"

definition track_children_ok :: "db \<Rightarrow> bool" where
  "track_children_ok s \<longleftrightarrow>
     table_ok t_payment_routes pr_check no_key (track_fk pr_feed_guid pr_track_guid) s
     \<and> table_ok t_value_time_splits vts_check no_key (null_track_fk vts_source_track_guid) s
     \<and> table_ok t_track_remote_items_raw any_row tri_key (null_track_fk tri_track_guid) s"

definition refs_ok :: "db \<Rightarrow> bool" where
  "refs_ok s \<longleftrightarrow> feeds_ok s \<and> tracks_ok s \<and> feed_children_ok s \<and> track_children_ok s"

lemmas refs_defs = refs_ok_def feeds_ok_def tracks_ok_def feed_children_ok_def track_children_ok_def

lemma refs_ok_empty: "refs_ok empty_db"
  by (simp add: refs_defs table_ok_def empty_db_def)

interpretation sg: row_table t_source_gone_answers t_source_gone_answers_update any_row
  "\<lambda>r. Some (sg_feed_guid r)" "feed_fk sg_feed_guid"
  by unfold_locales (simp_all add: fk_defs comp_def)

lemma keeps_conj: "keeps P m \<Longrightarrow> keeps Q m \<Longrightarrow> keeps (\<lambda>s. P s \<and> Q s) m"
  by (simp add: keeps_def)

lemmas frame_defs = refs_defs table_ok_def fk_defs

text \<open>Every replace call keeps the integrity of all tables.\<close>

lemma keeps_replace_payment_routes [keeps_intros]:
  "keeps refs_ok (replace_payment_routes t rs)"
  "keeps refs_ok (replace_payment_routes_for_feed_track g t rs)"
  unfolding replace_payment_routes_def replace_payment_routes_for_feed_track_def refs_ok_def track_children_ok_def
  by (intro keeps_conj pr.replace_table_ok; rule pr.replace_frame; simp add: frame_defs)+

lemma keeps_replace_feed_payment_routes [keeps_intros]:
  "keeps refs_ok (replace_feed_payment_routes g rs)"
  unfolding replace_feed_payment_routes_def refs_ok_def feed_children_ok_def
  by (intro keeps_conj fpr.replace_table_ok; rule fpr.replace_frame; simp add: frame_defs)

lemma keeps_replace_feed_list_value_raw [keeps_intros]:
  "keeps refs_ok (replace_feed_list_value_raw g rs)"
  unfolding replace_feed_list_value_raw_def refs_ok_def feed_children_ok_def
  by (intro keeps_conj flv.replace_table_ok; rule flv.replace_frame; simp add: frame_defs)

lemma keeps_replace_feed_remote_items_raw [keeps_intros]:
  "keeps refs_ok (replace_feed_remote_items_raw g rs)"
  unfolding replace_feed_remote_items_raw_def refs_ok_def feed_children_ok_def
  by (intro keeps_conj fri.replace_table_ok; rule fri.replace_frame; simp add: frame_defs)

lemma keeps_replace_track_remote_items_raw [keeps_intros]:
  "keeps refs_ok (replace_track_remote_items_raw t rs)"
  "keeps refs_ok (replace_track_remote_items_raw_for_feed_track g t rs)"
  unfolding replace_track_remote_items_raw_def replace_track_remote_items_raw_for_feed_track_def
    refs_ok_def track_children_ok_def
  by (intro keeps_conj tri.replace_table_ok; rule tri.replace_frame; simp add: frame_defs)+

lemma keeps_replace_live_events [keeps_intros]:
  "keeps refs_ok (replace_live_events_for_feed g rs)"
  unfolding replace_live_events_for_feed_def refs_ok_def feed_children_ok_def
  by (intro keeps_conj le.replace_table_ok; rule le.replace_frame; simp add: frame_defs)

lemma keeps_replace_source_contributor_claims [keeps_intros]:
  "keeps refs_ok (replace_source_contributor_claims_for_feed g rs)"
  unfolding replace_source_contributor_claims_for_feed_def refs_ok_def feed_children_ok_def
  by (intro keeps_conj scc.replace_table_ok; rule scc.replace_frame; simp add: frame_defs)

lemma keeps_replace_source_entity_ids [keeps_intros]:
  "keeps refs_ok (replace_source_entity_ids_for_feed g rs)"
  unfolding replace_source_entity_ids_for_feed_def refs_ok_def feed_children_ok_def
  by (intro keeps_conj sei.replace_table_ok; rule sei.replace_frame; simp add: frame_defs)

lemma keeps_replace_source_entity_links [keeps_intros]:
  "keeps refs_ok (replace_source_entity_links_for_feed g rs)"
  unfolding replace_source_entity_links_for_feed_def refs_ok_def feed_children_ok_def
  by (intro keeps_conj sel.replace_table_ok; rule sel.replace_frame; simp add: frame_defs)

lemma keeps_replace_source_release_claims [keeps_intros]:
  "keeps refs_ok (replace_source_release_claims_for_feed g rs)"
  unfolding replace_source_release_claims_for_feed_def refs_ok_def feed_children_ok_def
  by (intro keeps_conj srcl.replace_table_ok; rule srcl.replace_frame; simp add: frame_defs)

lemma keeps_replace_source_item_enclosures [keeps_intros]:
  "keeps refs_ok (replace_source_item_enclosures_for_feed g rs)"
  unfolding replace_source_item_enclosures_for_feed_def refs_ok_def feed_children_ok_def
  by (intro keeps_conj sie.replace_table_ok; rule sie.replace_frame; simp add: frame_defs)

lemma keeps_replace_source_item_transcripts [keeps_intros]:
  "keeps refs_ok (replace_source_item_transcripts_for_feed g rs)"
  unfolding replace_source_item_transcripts_for_feed_def refs_ok_def feed_children_ok_def
  by (intro keeps_conj sit.replace_table_ok; rule sit.replace_frame; simp add: frame_defs)

lemma keeps_replace_source_platform_claims [keeps_intros]:
  "keeps refs_ok (replace_source_platform_claims_for_feed g rs)"
  unfolding replace_source_platform_claims_for_feed_def refs_ok_def feed_children_ok_def
  by (intro keeps_conj spc.replace_table_ok; rule spc.replace_frame; simp add: frame_defs)

text \<open>A split and its recipients.\<close>

lemma append_recipient_all:
  assumes "\<And>g v rs. Q (g, v\<lparr>vts_recipients := rs\<rparr>) = Q (g, v)"
  shows "list_all Q (append_recipient x t) = list_all Q t"
proof (cases t rule: rev_cases)
  case (snoc u r)
  then show ?thesis using assms by (cases r) (simp add: append_recipient_def)
qed (simp add: append_recipient_def)

lemma keeps_insert_vts_recipient [keeps_intros]: "keeps refs_ok (insert_vts_recipient r)"
  unfolding insert_vts_recipient_def
proof (rule keeps_dstmt)
  fix s assume s: "refs_ok s"
  let ?s' = "t_value_time_splits_update (append_recipient (stored_vts_recipient r)) s"
  have "list_all (\<lambda>r. vts_check r \<and> null_track_fk vts_source_track_guid r s) (t_value_time_splits s)"
    using s by (simp only: refs_ok_def track_children_ok_def table_ok_def)
  moreover have "list_all (\<lambda>r. vts_check r \<and> null_track_fk vts_source_track_guid r s)
      (append_recipient (stored_vts_recipient r) (t_value_time_splits s))
    = list_all (\<lambda>r. vts_check r \<and> null_track_fk vts_source_track_guid r s) (t_value_time_splits s)"
    by (rule append_recipient_all) (simp add: vts_check_def null_track_fk_def)
  ultimately have "list_all (\<lambda>r. vts_check r \<and> null_track_fk vts_source_track_guid r s) (t_value_time_splits ?s')"
    by simp
  moreover have fk: "null_track_fk vts_source_track_guid x ?s' = null_track_fk vts_source_track_guid x s" for x
    by (simp add: null_track_fk_def track_exists_def)
  ultimately have "table_ok t_value_time_splits vts_check no_key (null_track_fk vts_source_track_guid) ?s'"
    by (simp add: table_ok_def fk)
  moreover have "feeds_ok ?s' = feeds_ok s" "tracks_ok ?s' = tracks_ok s"
    "feed_children_ok ?s' = feed_children_ok s"
    "table_ok t_payment_routes pr_check no_key (track_fk pr_feed_guid pr_track_guid) ?s'
     = table_ok t_payment_routes pr_check no_key (track_fk pr_feed_guid pr_track_guid) s"
    "table_ok t_track_remote_items_raw any_row tri_key (null_track_fk tri_track_guid) ?s'
     = table_ok t_track_remote_items_raw any_row tri_key (null_track_fk tri_track_guid) s"
    by (simp_all add: frame_defs)
  ultimately show "refs_ok ?s'" using s by (simp add: refs_ok_def track_children_ok_def)
qed

lemma keeps_vts_delete: "keeps refs_ok (dexec (t_value_time_splits_update (delete_where p)))"
  unfolding refs_ok_def track_children_ok_def
  by (intro keeps_conj vts.delete_table_ok; rule keeps_dexec; simp add: frame_defs)

lemma keeps_vts_insert:
  "keeps refs_ok (insert_row t_value_time_splits t_value_time_splits_update vts_check no_key
     (null_track_fk vts_source_track_guid) r)"
  unfolding refs_ok_def track_children_ok_def
  by (intro keeps_conj vts.insert_row_table_ok; unfold insert_row_def; rule keeps_dstmt;
      simp add: frame_defs)

lemma keeps_insert_value_time_split [keeps_intros]:
  "keeps refs_ok (insert_value_time_split g t v)"
  unfolding insert_value_time_split_def
  by (intro keeps_dseq keeps_dforeach keeps_vts_insert keeps_insert_vts_recipient)

lemma keeps_replace_value_time_splits [keeps_intros]:
  "keeps refs_ok (replace_value_time_splits_for_feed_track g t vs)"
  unfolding replace_value_time_splits_for_feed_track_def
  by (intro keeps_dseq keeps_dforeach keeps_vts_delete keeps_insert_value_time_split)

section \<open>Upserts\<close>

text \<open>Adding parents never breaks a child.\<close>

lemma table_ok_mono:
  assumes "table_ok get check key fk s" "get s' = get s" "\<And>r. fk r s \<Longrightarrow> fk r s'"
  shows "table_ok get check key fk s'"
  using assms by (auto simp: table_ok_def list_all_iff)

lemma feed_children_mono:
  assumes "feed_children_ok s" "\<And>g. feed_exists g s \<Longrightarrow> feed_exists g s'"
    and "t_feed_payment_routes s' = t_feed_payment_routes s"
    "t_feed_list_value_raw s' = t_feed_list_value_raw s"
    "t_feed_remote_items_raw s' = t_feed_remote_items_raw s"
    "t_live_events s' = t_live_events s"
    "t_source_contributor_claims s' = t_source_contributor_claims s"
    "t_source_entity_ids s' = t_source_entity_ids s"
    "t_source_entity_links s' = t_source_entity_links s"
    "t_source_release_claims s' = t_source_release_claims s"
    "t_source_item_enclosures s' = t_source_item_enclosures s"
    "t_source_item_transcripts s' = t_source_item_transcripts s"
    "t_source_platform_claims s' = t_source_platform_claims s"
    "t_source_gone_answers s' = t_source_gone_answers s"
  shows "feed_children_ok s'"
  using assms(1) unfolding feed_children_ok_def
  by (elim conjE, intro conjI; elim table_ok_mono; simp add: assms feed_fk_def)

lemma track_children_mono:
  assumes "track_children_ok s" "\<And>g t. track_exists g t s \<Longrightarrow> track_exists g t s'"
    and "t_payment_routes s' = t_payment_routes s" "t_value_time_splits s' = t_value_time_splits s"
    "t_track_remote_items_raw s' = t_track_remote_items_raw s"
  shows "track_children_ok s'"
  using assms(1) unfolding track_children_ok_def
  by (elim conjE, intro conjI; elim table_ok_mono; simp add: assms track_fk_def null_track_fk_def; auto elim: option.pred_mono_strong simp: assms)

lemma upsert_by_keys:
  assumes "\<And>old. key old = key r \<Longrightarrow> key (merge old r) = key old"
  shows "key ` set (upsert_by key merge r t) = insert (key r) (key ` set t)"
proof -
  have "set (map key (update_where (\<lambda>x. key x = key r) (\<lambda>old. merge old r) t)) = set (map key t)"
    using assms by (subst map_update_where_key) auto
  then show ?thesis
    by (auto simp: upsert_by_def exists_where_key simp del: exists_where_iff)
qed

lemma feed_row_of_simps [simp]:
  "fe_feed_guid (feed_row_of lc up f) = fe_feed_guid f"
  "fe_feed_url (feed_row_of lc up f) = fe_feed_url f"
  "fe_feed_guid (feed_merge old new) = fe_feed_guid old"
  "fe_feed_url (feed_merge old new) = fe_feed_url new"
  by (simp_all add: feed_row_of_def feed_merge_def feed.extend_def)

lemma feed_exists_iff: "feed_exists g s \<longleftrightarrow> g \<in> fe_feed_guid ` set (t_feeds s)"
  by (simp add: feed_exists_def exists_where_key del: exists_where_iff)

lemma track_exists_iff: "track_exists g t s \<longleftrightarrow> (g, t) \<in> track_key ` set (t_tracks s)"
  by (simp add: track_exists_def exists_where_key del: exists_where_iff)

lemma distinct_update_where:
  assumes "distinct (map key t)" "distinct (map other t)" "\<And>x. p x \<longleftrightarrow> key x = k"
    and "\<And>x. x \<in> set t \<Longrightarrow> \<not> p x \<Longrightarrow> other x \<noteq> v" "\<And>x. other (f x) = v"
  shows "distinct (map other (update_where p f t))"
  using assms(1,2,4)
proof (induction t)
  case (Cons x t)
  have tl: "distinct (map other (update_where p f t))" using Cons by simp
  have mem: "other ` set (update_where p f t) \<subseteq> other ` set t \<union> {v}"
    by (auto simp: update_where_def assms(5))
  show ?case
  proof (cases "p x")
    case True
    then have "\<forall>y\<in>set t. \<not> p y" using Cons.prems(1) assms(3) by (auto simp: image_iff)
    then have "update_where p f t = t" by (simp add: update_where_def map_idI)
    moreover have "v \<notin> other ` set t"
      using Cons.prems(3) \<open>\<forall>y\<in>set t. \<not> p y\<close> by auto
    ultimately show ?thesis using True Cons.prems by (simp add: update_where_def assms(5))
  next
    case False
    then have "other x \<noteq> v" using Cons.prems(3) by simp
    then have "other x \<notin> other ` set (update_where p f t)"
      using mem Cons.prems(2) by (simp add: subset_iff) blast
    moreover have "update_where p f (x # t) = x # update_where p f t"
      using False by (simp add: update_where_def)
    ultimately show ?thesis using tl by simp
  qed
qed (simp add: update_where_def)

lemma keeps_upsert_feed [keeps_intros]: "keeps refs_ok (upsert_feed lc up f)"
  unfolding upsert_feed_def
proof (rule keeps_dstmt)
  fix s assume s: "refs_ok s"
    and c: "constraints True (\<not> exists_where (\<lambda>r. fe_feed_url r = fe_feed_url f \<and> fe_feed_guid r \<noteq> fe_feed_guid f)
        (t_feeds s)) True = None"
  let ?r = "feed_row_of lc up f"
  let ?s' = "s\<lparr>t_feeds := upsert_by fe_feed_guid feed_merge ?r (t_feeds s)\<rparr>"
  have exists: "feed_exists g ?s' \<longleftrightarrow> g = fe_feed_guid f \<or> feed_exists g s" for g
    by (simp add: feed_exists_iff upsert_by_keys)
  have urls: "\<forall>x\<in>set (t_feeds s). fe_feed_guid x \<noteq> fe_feed_guid f \<longrightarrow> fe_feed_url x \<noteq> fe_feed_url f"
    using c by auto
  have "distinct (map fe_feed_guid (t_feeds ?s'))"
    using s by (simp add: refs_ok_def feeds_ok_def distinct_upsert_by)
  moreover have "distinct (map fe_feed_url (t_feeds ?s'))"
  proof -
    have "distinct (map fe_feed_url (update_where (\<lambda>x. fe_feed_guid x = fe_feed_guid f) (\<lambda>old. feed_merge old ?r) (t_feeds s)))"
      using s urls
      by (intro distinct_update_where [where key = fe_feed_guid and k = "fe_feed_guid f" and v = "fe_feed_url f"])
        (auto simp: refs_ok_def feeds_ok_def)
    moreover have "fe_feed_url f \<notin> fe_feed_url ` set (t_feeds s)" if "fe_feed_guid f \<notin> fe_feed_guid ` set (t_feeds s)"
      using urls that by (metis (no_types, lifting) image_iff)
    moreover have "distinct (map fe_feed_url (t_feeds s))" using s by (simp add: refs_ok_def feeds_ok_def)
    ultimately show ?thesis by (auto simp: upsert_by_def exists_where_key simp del: exists_where_iff)
  qed
  moreover have "tracks_ok ?s'"
    using s exists by (auto simp: refs_ok_def tracks_ok_def list_all_iff)
  moreover have "feed_children_ok ?s'"
    by (rule feed_children_mono [of s]) (use s exists in \<open>simp_all add: refs_ok_def\<close>)
  moreover have "track_children_ok ?s'"
    by (rule track_children_mono [of s]) (use s in \<open>simp_all add: refs_ok_def track_exists_def\<close>)
  ultimately show "refs_ok ?s'" by (simp add: refs_ok_def feeds_ok_def)
qed

lemma track_merge_simps [simp]:
  "track_key old = track_key new \<Longrightarrow> track_key (track_merge old new) = track_key old"
  "tr_feed_guid (track_merge old new) = tr_feed_guid old"
  by (simp_all add: track_merge_def track_key_def)

lemma keeps_upsert_track [keeps_intros]: "keeps refs_ok (upsert_track t)"
  unfolding upsert_track_def
proof (rule keeps_dstmt)
  fix s assume s: "refs_ok s"
    and c: "constraints True True (track_exists (tr_feed_guid t) (tr_track_guid t) s \<or> feed_exists (tr_feed_guid t) s) = None"
  let ?s' = "s\<lparr>t_tracks := upsert_by track_key track_merge t (t_tracks s)\<rparr>"
  have feed: "feed_exists (fst k) s" if "k \<in> track_key ` set (t_tracks s)" for k
    using s that by (auto simp: refs_ok_def tracks_ok_def list_all_iff track_key_def)
  have keys: "track_key ` set (t_tracks ?s') = insert (track_key t) (track_key ` set (t_tracks s))"
    by (simp add: upsert_by_keys)
  have "feed_exists (fst k) s" if "k \<in> track_key ` set (t_tracks ?s')" for k
    using that feed c unfolding keys track_exists_iff by (fastforce simp: track_key_def)
  then have "feed_exists (tr_feed_guid r) s" if "r \<in> set (t_tracks ?s')" for r
    using that by (metis fst_conv image_eqI track_key_def)
  then have "list_all (\<lambda>r. feed_exists (tr_feed_guid r) ?s') (t_tracks ?s')"
    by (simp add: list_all_iff feed_exists_def)
  moreover have "distinct (map track_key (t_tracks ?s'))"
    using s by (simp add: refs_ok_def tracks_ok_def distinct_upsert_by)
  moreover have "feed_children_ok ?s'"
    by (rule feed_children_mono [of s]) (use s in \<open>simp_all add: refs_ok_def feed_exists_def\<close>)
  moreover have "track_children_ok ?s'"
    by (rule track_children_mono [of s]) (use s keys in \<open>simp_all add: refs_ok_def track_exists_iff\<close>)
  ultimately show "refs_ok ?s'" using s by (simp add: refs_ok_def feeds_ok_def tracks_ok_def)
qed

section \<open>Read models do not touch the references\<close>

lemma refs_ok_frame [simp]:
  "refs_ok (t_entity_quality_update f s) = refs_ok s"
  "refs_ok (t_search_index_update g s) = refs_ok s"
  "refs_ok (t_search_entities_update h s) = refs_ok s"
  "refs_ok (t_events_update k s) = refs_ok s"
  by (simp_all add: frame_defs)

lemma keeps_refs_sync [keeps_intros]:
  "keeps refs_ok (sync_source_read_models_for_feed env now g)"
proof -
  have del: "refs_ok (delete_from_search_index env t e s) = refs_ok s" for t e s
    by (simp add: delete_from_search_index_def Let_def)
  have pop: "keeps refs_ok (populate_search_index env t e n ti d)" for t e n ti d
    unfolding populate_search_index_def Let_def by (intro keeps_intros) simp_all
  have tr: "keeps refs_ok (sync_track_read_model env now b t)" for b t
    unfolding sync_track_read_model_def Let_def
    by (intro keeps_intros pop) (simp_all add: del store_quality_def)
  have fe: "keeps refs_ok (sync_feed_index_row env f t b)" for f t b
    unfolding sync_feed_index_row_def by (intro keeps_intros pop) (simp add: del)
  show ?thesis
    unfolding sync_source_read_models_for_feed_def
    by (intro keeps_intros tr fe) (simp add: store_quality_def)
qed

end
