(* ===== verification/Delete.thy ===== *)
theory Delete
  imports Integrity Samples
begin

text \<open>
  The cascade deletes of \<^verbatim>\<open>src/db.rs\<close> with the two cleanup triggers of the schema
  (\<^verbatim>\<open>migrations/0043, 0047, 0053\<close>). No statement of a delete can break a constraint, because
  the children of a row are gone before it, so a delete is a function on the store. The view of
  a feed collects every row that belongs to it: deleting a feed empties its view and leaves
  every other one as it was.
\<close>

section \<open>Triggers\<close>

definition trg_tracks_cleanup :: "env \<Rightarrow> track \<Rightarrow> db \<Rightarrow> db" where
  "trg_tracks_cleanup env t s =
     t_entity_quality_update (delete_where (\<lambda>r. q_entity_type r = ''track'' \<and>
         (q_entity_id r = tr_track_guid t \<or> q_entity_id r = en_json_array env (tr_feed_guid t) (tr_track_guid t))))
     (t_track_remote_items_raw_update (delete_where (tri_owner (tr_feed_guid t) (tr_track_guid t)))
     (t_payment_routes_update (delete_where (\<lambda>r. pr_track_guid r = tr_track_guid t \<and> pr_feed_guid r = tr_feed_guid t))
     (t_value_time_splits_update (delete_where (vts_owner (tr_feed_guid t) (tr_track_guid t))) s)))"

text \<open>\<^verbatim>\<open>DELETE FROM tracks WHERE p\<close> runs the trigger of each row it deletes.\<close>

definition delete_tracks_where :: "env \<Rightarrow> (track \<Rightarrow> bool) \<Rightarrow> db \<Rightarrow> db" where
  "delete_tracks_where env p s =
     t_tracks_update (delete_where p) (fold (trg_tracks_cleanup env) (filter p (t_tracks s)) s)"

definition trg_feeds_cleanup :: "env \<Rightarrow> string \<Rightarrow> db \<Rightarrow> db" where
  "trg_feeds_cleanup env g s =
     delete_tracks_where env (\<lambda>t. tr_feed_guid t = g)
     (t_source_platform_claims_update (delete_where (\<lambda>r. spc_feed_guid r = g))
     (t_source_item_transcripts_update (delete_where (\<lambda>r. sit_feed_guid r = g))
     (t_source_item_enclosures_update (delete_where (\<lambda>r. sie_feed_guid r = g))
     (t_source_release_claims_update (delete_where (\<lambda>r. src_feed_guid r = g))
     (t_source_entity_links_update (delete_where (\<lambda>r. sel_feed_guid r = g))
     (t_source_entity_ids_update (delete_where (\<lambda>r. sei_feed_guid r = g))
     (t_source_contributor_claims_update (delete_where (\<lambda>r. scc_feed_guid r = g))
     (t_live_events_update (delete_where (\<lambda>r. le_feed_guid r = g))
     (t_feed_remote_items_raw_update (delete_where (\<lambda>r. fri_feed_guid r = g))
     (t_entity_quality_update (delete_where (\<lambda>r. q_entity_type r = ''feed'' \<and> q_entity_id r = g))
     (t_feed_list_value_raw_update (delete_where (\<lambda>r. flv_feed_guid r = g))
     (t_feed_payment_routes_update (delete_where (\<lambda>r. fpr_feed_guid r = g)) s))))))))))))"

text \<open>
  \<^verbatim>\<open>DELETE FROM feeds WHERE feed\_guid = ?\<close>: the trigger when a row matches, the row, and the
  cascade of \<^verbatim>\<open>source\_gone\_answers\<close>.
\<close>

definition delete_feed_row :: "env \<Rightarrow> string \<Rightarrow> db \<Rightarrow> db" where
  "delete_feed_row env g s =
     (if feed_exists g s
      then t_source_gone_answers_update (delete_where (\<lambda>r. sg_feed_guid r = g))
          (t_feeds_update (delete_where (\<lambda>r. fe_feed_guid r = g)) (trg_feeds_cleanup env g s))
      else s)"

section \<open>Tracks\<close>

definition delete_track_sql :: "env \<Rightarrow> string \<Rightarrow> string \<Rightarrow> db \<Rightarrow> db" where
  "delete_track_sql env g t s =
     delete_tracks_where env (\<lambda>r. tr_feed_guid r = g \<and> tr_track_guid r = t)
     (t_track_remote_items_raw_update (delete_where (tri_owner g t))
     (t_entity_quality_update (delete_where (\<lambda>r. q_entity_type r = ''track'' \<and>
         (q_entity_id r = canonical_track_entity_id env g t \<or> q_entity_id r = t)))
     (t_payment_routes_update (delete_where (\<lambda>r. pr_feed_guid r = g \<and> pr_track_guid r = t))
     (t_value_time_splits_update (delete_where (vts_owner g t))
     (delete_from_search_index env ''track'' (canonical_track_entity_id env g t) s)))))"

definition delete_track_for_feed :: "env \<Rightarrow> string \<Rightarrow> string \<Rightarrow> unit dbm" where
  "delete_track_for_feed env g t = dtransaction (dexec (delete_track_sql env g t))"

definition get_track_by_guid :: "db \<Rightarrow> string \<Rightarrow> db_error + track option" where
  "get_track_by_guid s t = (case get_tracks_by_guid s t of
       [] \<Rightarrow> Inr None
     | [r] \<Rightarrow> Inr (Some r)
     | _ \<Rightarrow> Inl (Other (''track_guid '' @ t @ '' is ambiguous; resolve with feed scope'')))"

definition delete_track :: "env \<Rightarrow> string \<Rightarrow> unit dbm" where
  "delete_track env t = dbind (dread (\<lambda>s. get_track_by_guid s t)) (\<lambda>found. case found of
       Inl e \<Rightarrow> dfail e
     | Inr None \<Rightarrow> dret ()
     | Inr (Some r) \<Rightarrow> delete_track_for_feed env (tr_feed_guid r) (tr_track_guid r))"

section \<open>Feeds\<close>

definition each :: "('a \<Rightarrow> db \<Rightarrow> db) \<Rightarrow> 'a list \<Rightarrow> db \<Rightarrow> db" where
  "each f xs s = fold f xs s"

definition delete_feed_sql :: "env \<Rightarrow> string \<Rightarrow> db \<Rightarrow> db" where
  "delete_feed_sql env g s0 =
    (let tgs = sort (map tr_track_guid (get_tracks_for_feed s0 g));
         s1 = delete_from_search_index env ''feed'' g s0;
         s2 = delete_from_search_index env ''publisher'' g s1;
         s3 = each (\<lambda>t. delete_from_search_index env ''track'' (canonical_track_entity_id env g t)) tgs s2;
         s4 = t_value_time_splits_update (delete_where (\<lambda>r. fst r = Some g)) s3;
         s5 = each (\<lambda>t. t_value_time_splits_update
                (delete_where (\<lambda>r. vts_source_track_guid (snd r) = t \<and> fst r = None))) tgs s4;
         s6 = t_payment_routes_update (delete_where (\<lambda>r. pr_feed_guid r = g)) s5;
         s7 = t_track_remote_items_raw_update (delete_where (\<lambda>r. fst r = Some g)) s6;
         s8 = each (\<lambda>t. t_track_remote_items_raw_update
                (delete_where (\<lambda>r. tri_track_guid (snd r) = t \<and> fst r = None))) tgs s7;
         s9 = t_feed_payment_routes_update (delete_where (\<lambda>r. fpr_feed_guid r = g)) s8;
         s10 = each (\<lambda>t. t_entity_quality_update (delete_where (\<lambda>r. q_entity_type r = ''track'' \<and>
                (q_entity_id r = canonical_track_entity_id env g t \<or> q_entity_id r = t)))) tgs s9;
         s11 = t_entity_quality_update (delete_where (\<lambda>r. q_entity_type r = ''feed'' \<and> q_entity_id r = g)) s10;
         s12 = t_feed_remote_items_raw_update (delete_where (\<lambda>r. fri_feed_guid r = g)) s11;
         s13 = t_live_events_update (delete_where (\<lambda>r. le_feed_guid r = g)) s12;
         s14 = t_source_contributor_claims_update (delete_where (\<lambda>r. scc_feed_guid r = g)) s13;
         s15 = t_source_entity_ids_update (delete_where (\<lambda>r. sei_feed_guid r = g)) s14;
         s16 = t_source_entity_links_update (delete_where (\<lambda>r. sel_feed_guid r = g)) s15;
         s17 = t_source_release_claims_update (delete_where (\<lambda>r. src_feed_guid r = g)) s16;
         s18 = t_source_item_enclosures_update (delete_where (\<lambda>r. sie_feed_guid r = g)) s17;
         s19 = t_source_item_transcripts_update (delete_where (\<lambda>r. sit_feed_guid r = g)) s18;
         s20 = t_source_platform_claims_update (delete_where (\<lambda>r. spc_feed_guid r = g)) s19;
         s21 = t_feed_copies_update (delete_where (\<lambda>r. fcy_feed_guid r = g)) s20;
         s22 = t_feed_copy_overflow_update (delete_where (\<lambda>r. fst r = g)) s21;
         s23 = t_feed_left_urls_update (delete_where (\<lambda>r. fst r = g)) s22;
         s24 = t_feed_move_state_update (delete_where (\<lambda>r. mv_feed_guid r = g)) s23;
         s25 = delete_tracks_where env (\<lambda>t. tr_feed_guid t = g) s24
     in delete_feed_row env g s25)"

definition delete_feed :: "env \<Rightarrow> string \<Rightarrow> unit dbm" where
  "delete_feed env g = dtransaction (dexec (delete_feed_sql env g))"

section \<open>Closed forms\<close>

text \<open>
  A loop of deletes is one delete. The tables come out one by one, so every later proof reads a
  field of the result and never unfolds the loops.
\<close>

lemma delete_where_comp: "delete_where p (delete_where q t) = delete_where (\<lambda>r. q r \<or> p r) t"
  by (simp add: delete_where_def conj_commute)

lemma delete_where_False [simp]: "delete_where (\<lambda>r. False) t = t"
  by (simp add: delete_where_def)

lemma each_frame:
  assumes "\<And>x s. x \<in> set xs \<Longrightarrow> get (f x s) = get s" shows "get (each f xs s) = get s"
  using assms unfolding each_def by (induction xs arbitrary: s) simp_all

lemma each_delete:
  assumes "\<And>x s. x \<in> set xs \<Longrightarrow> get (f x s) = delete_where (p x) (get s)"
  shows "get (each f xs s) = delete_where (\<lambda>r. list_ex (\<lambda>x. p x r) xs) (get s)"
  using assms unfolding each_def
  by (induction xs arbitrary: s) (simp_all add: delete_where_comp)

lemma search_frame [simp]:
  "t_feeds (delete_from_search_index env e i s) = t_feeds s"
  "t_tracks (delete_from_search_index env e i s) = t_tracks s"
  "t_payment_routes (delete_from_search_index env e i s) = t_payment_routes s"
  "t_feed_payment_routes (delete_from_search_index env e i s) = t_feed_payment_routes s"
  "t_feed_list_value_raw (delete_from_search_index env e i s) = t_feed_list_value_raw s"
  "t_value_time_splits (delete_from_search_index env e i s) = t_value_time_splits s"
  "t_feed_remote_items_raw (delete_from_search_index env e i s) = t_feed_remote_items_raw s"
  "t_track_remote_items_raw (delete_from_search_index env e i s) = t_track_remote_items_raw s"
  "t_live_events (delete_from_search_index env e i s) = t_live_events s"
  "t_source_contributor_claims (delete_from_search_index env e i s) = t_source_contributor_claims s"
  "t_source_entity_ids (delete_from_search_index env e i s) = t_source_entity_ids s"
  "t_source_entity_links (delete_from_search_index env e i s) = t_source_entity_links s"
  "t_source_release_claims (delete_from_search_index env e i s) = t_source_release_claims s"
  "t_source_item_enclosures (delete_from_search_index env e i s) = t_source_item_enclosures s"
  "t_source_item_transcripts (delete_from_search_index env e i s) = t_source_item_transcripts s"
  "t_source_platform_claims (delete_from_search_index env e i s) = t_source_platform_claims s"
  "t_events (delete_from_search_index env e i s) = t_events s"
  "t_feed_crawl_cache (delete_from_search_index env e i s) = t_feed_crawl_cache s"
  "t_feed_url_observations (delete_from_search_index env e i s) = t_feed_url_observations s"
  "t_source_gone_answers (delete_from_search_index env e i s) = t_source_gone_answers s"
  "t_retired_source_holds (delete_from_search_index env e i s) = t_retired_source_holds s"
  "t_feed_blocks (delete_from_search_index env e i s) = t_feed_blocks s"
  "t_feed_copies (delete_from_search_index env e i s) = t_feed_copies s"
  "t_feed_copy_overflow (delete_from_search_index env e i s) = t_feed_copy_overflow s"
  "t_feed_guid_changes (delete_from_search_index env e i s) = t_feed_guid_changes s"
  "t_feed_guid_supersessions (delete_from_search_index env e i s) = t_feed_guid_supersessions s"
  "t_node_sync_state (delete_from_search_index env e i s) = t_node_sync_state s"
  "t_peer_nodes (delete_from_search_index env e i s) = t_peer_nodes s"
  "t_entity_quality (delete_from_search_index env e i s) = t_entity_quality s"
  "t_feed_left_urls (delete_from_search_index env e i s) = t_feed_left_urls s"
  "t_feed_move_state (delete_from_search_index env e i s) = t_feed_move_state s"
  by (simp_all add: delete_from_search_index_def Let_def)

text \<open>Deleting tracks changes the tracks and their child tables only.\<close>

lemma delete_tracks_frame [simp]:
  "t_feeds (delete_tracks_where env p s) = t_feeds s"
  "t_feed_payment_routes (delete_tracks_where env p s) = t_feed_payment_routes s"
  "t_feed_list_value_raw (delete_tracks_where env p s) = t_feed_list_value_raw s"
  "t_feed_remote_items_raw (delete_tracks_where env p s) = t_feed_remote_items_raw s"
  "t_live_events (delete_tracks_where env p s) = t_live_events s"
  "t_source_contributor_claims (delete_tracks_where env p s) = t_source_contributor_claims s"
  "t_source_entity_ids (delete_tracks_where env p s) = t_source_entity_ids s"
  "t_source_entity_links (delete_tracks_where env p s) = t_source_entity_links s"
  "t_source_release_claims (delete_tracks_where env p s) = t_source_release_claims s"
  "t_source_item_enclosures (delete_tracks_where env p s) = t_source_item_enclosures s"
  "t_source_item_transcripts (delete_tracks_where env p s) = t_source_item_transcripts s"
  "t_source_platform_claims (delete_tracks_where env p s) = t_source_platform_claims s"
  "t_events (delete_tracks_where env p s) = t_events s"
  "t_feed_crawl_cache (delete_tracks_where env p s) = t_feed_crawl_cache s"
  "t_feed_url_observations (delete_tracks_where env p s) = t_feed_url_observations s"
  "t_source_gone_answers (delete_tracks_where env p s) = t_source_gone_answers s"
  "t_retired_source_holds (delete_tracks_where env p s) = t_retired_source_holds s"
  "t_feed_blocks (delete_tracks_where env p s) = t_feed_blocks s"
  "t_feed_copies (delete_tracks_where env p s) = t_feed_copies s"
  "t_feed_copy_overflow (delete_tracks_where env p s) = t_feed_copy_overflow s"
  "t_feed_guid_changes (delete_tracks_where env p s) = t_feed_guid_changes s"
  "t_feed_guid_supersessions (delete_tracks_where env p s) = t_feed_guid_supersessions s"
  "t_node_sync_state (delete_tracks_where env p s) = t_node_sync_state s"
  "t_peer_nodes (delete_tracks_where env p s) = t_peer_nodes s"
  "t_search_index (delete_tracks_where env p s) = t_search_index s"
  "t_search_entities (delete_tracks_where env p s) = t_search_entities s"
  "t_feed_left_urls (delete_tracks_where env p s) = t_feed_left_urls s"
  "t_feed_move_state (delete_tracks_where env p s) = t_feed_move_state s"
  by (simp_all add: delete_tracks_where_def each_def [symmetric] trg_tracks_cleanup_def
      each_frame [where get = t_feeds] each_frame [where get = t_feed_payment_routes] each_frame [where get = t_feed_list_value_raw] each_frame [where get = t_feed_remote_items_raw] each_frame [where get = t_live_events] each_frame [where get = t_source_contributor_claims] each_frame [where get = t_source_entity_ids] each_frame [where get = t_source_entity_links] each_frame [where get = t_source_release_claims] each_frame [where get = t_source_item_enclosures] each_frame [where get = t_source_item_transcripts] each_frame [where get = t_source_platform_claims] each_frame [where get = t_events] each_frame [where get = t_feed_crawl_cache] each_frame [where get = t_feed_url_observations] each_frame [where get = t_source_gone_answers] each_frame [where get = t_retired_source_holds] each_frame [where get = t_feed_blocks] each_frame [where get = t_feed_copies] each_frame [where get = t_feed_copy_overflow] each_frame [where get = t_feed_guid_changes] each_frame [where get = t_feed_guid_supersessions] each_frame [where get = t_node_sync_state] each_frame [where get = t_peer_nodes] each_frame [where get = t_search_index] each_frame [where get = t_search_entities] each_frame [where get = t_feed_left_urls] each_frame [where get = t_feed_move_state])

definition gone :: "(track \<Rightarrow> bool) \<Rightarrow> (track \<Rightarrow> 'r \<Rightarrow> bool) \<Rightarrow> db \<Rightarrow> 'r \<Rightarrow> bool" where
  "gone p own s r = list_ex (\<lambda>t. own t r) (filter p (t_tracks s))"

lemma gone_iff [simp]: "gone p own s r \<longleftrightarrow> (\<exists>t\<in>set (t_tracks s). p t \<and> own t r)"
  by (auto simp: gone_def list_ex_iff)

lemma delete_tracks_tables:
  "t_tracks (delete_tracks_where env p s) = delete_where p (t_tracks s)"
  "t_payment_routes (delete_tracks_where env p s) = delete_where
     (gone p (\<lambda>t r. pr_track_guid r = tr_track_guid t \<and> pr_feed_guid r = tr_feed_guid t) s) (t_payment_routes s)"
  "t_value_time_splits (delete_tracks_where env p s) = delete_where
     (gone p (\<lambda>t. vts_owner (tr_feed_guid t) (tr_track_guid t)) s) (t_value_time_splits s)"
  "t_track_remote_items_raw (delete_tracks_where env p s) = delete_where
     (gone p (\<lambda>t. tri_owner (tr_feed_guid t) (tr_track_guid t)) s) (t_track_remote_items_raw s)"
  "t_entity_quality (delete_tracks_where env p s) = delete_where
     (gone p (\<lambda>t r. q_entity_type r = ''track'' \<and> (q_entity_id r = tr_track_guid t
        \<or> q_entity_id r = en_json_array env (tr_feed_guid t) (tr_track_guid t))) s) (t_entity_quality s)"
proof -
  have gone_eq: "gone p own s = (\<lambda>r. list_ex (\<lambda>t. own t r) (filter p (t_tracks s)))" for own :: "track \<Rightarrow> 'x \<Rightarrow> bool"
    by (rule ext) (simp only: gone_def)
  note defs = delete_tracks_where_def each_def [symmetric] gone_eq
  show "t_tracks (delete_tracks_where env p s) = delete_where p (t_tracks s)"
    by (simp add: defs each_frame [where get = t_tracks] trg_tracks_cleanup_def)
  show "t_payment_routes (delete_tracks_where env p s) = delete_where
     (gone p (\<lambda>t r. pr_track_guid r = tr_track_guid t \<and> pr_feed_guid r = tr_feed_guid t) s) (t_payment_routes s)"
    by (simp add: defs del: list_ex_iff) (rule each_delete, simp add: trg_tracks_cleanup_def)
  show "t_value_time_splits (delete_tracks_where env p s) = delete_where
     (gone p (\<lambda>t. vts_owner (tr_feed_guid t) (tr_track_guid t)) s) (t_value_time_splits s)"
    by (simp add: defs del: list_ex_iff) (rule each_delete, simp add: trg_tracks_cleanup_def)
  show "t_track_remote_items_raw (delete_tracks_where env p s) = delete_where
     (gone p (\<lambda>t. tri_owner (tr_feed_guid t) (tr_track_guid t)) s) (t_track_remote_items_raw s)"
    by (simp add: defs del: list_ex_iff) (rule each_delete, simp add: trg_tracks_cleanup_def)
  show "t_entity_quality (delete_tracks_where env p s) = delete_where
     (gone p (\<lambda>t r. q_entity_type r = ''track'' \<and> (q_entity_id r = tr_track_guid t
        \<or> q_entity_id r = en_json_array env (tr_feed_guid t) (tr_track_guid t))) s) (t_entity_quality s)"
    by (simp add: defs del: list_ex_iff) (rule each_delete, simp add: trg_tracks_cleanup_def)
qed

text \<open>The loops of the feed delete over the guids of its tracks.\<close>

lemma each_search_frame [simp]:
  "t_feeds (each (\<lambda>t. delete_from_search_index env e (i t)) tgs s) = t_feeds s"
  "t_tracks (each (\<lambda>t. delete_from_search_index env e (i t)) tgs s) = t_tracks s"
  "t_payment_routes (each (\<lambda>t. delete_from_search_index env e (i t)) tgs s) = t_payment_routes s"
  "t_feed_payment_routes (each (\<lambda>t. delete_from_search_index env e (i t)) tgs s) = t_feed_payment_routes s"
  "t_feed_list_value_raw (each (\<lambda>t. delete_from_search_index env e (i t)) tgs s) = t_feed_list_value_raw s"
  "t_value_time_splits (each (\<lambda>t. delete_from_search_index env e (i t)) tgs s) = t_value_time_splits s"
  "t_feed_remote_items_raw (each (\<lambda>t. delete_from_search_index env e (i t)) tgs s) = t_feed_remote_items_raw s"
  "t_track_remote_items_raw (each (\<lambda>t. delete_from_search_index env e (i t)) tgs s) = t_track_remote_items_raw s"
  "t_live_events (each (\<lambda>t. delete_from_search_index env e (i t)) tgs s) = t_live_events s"
  "t_source_contributor_claims (each (\<lambda>t. delete_from_search_index env e (i t)) tgs s) = t_source_contributor_claims s"
  "t_source_entity_ids (each (\<lambda>t. delete_from_search_index env e (i t)) tgs s) = t_source_entity_ids s"
  "t_source_entity_links (each (\<lambda>t. delete_from_search_index env e (i t)) tgs s) = t_source_entity_links s"
  "t_source_release_claims (each (\<lambda>t. delete_from_search_index env e (i t)) tgs s) = t_source_release_claims s"
  "t_source_item_enclosures (each (\<lambda>t. delete_from_search_index env e (i t)) tgs s) = t_source_item_enclosures s"
  "t_source_item_transcripts (each (\<lambda>t. delete_from_search_index env e (i t)) tgs s) = t_source_item_transcripts s"
  "t_source_platform_claims (each (\<lambda>t. delete_from_search_index env e (i t)) tgs s) = t_source_platform_claims s"
  "t_events (each (\<lambda>t. delete_from_search_index env e (i t)) tgs s) = t_events s"
  "t_feed_crawl_cache (each (\<lambda>t. delete_from_search_index env e (i t)) tgs s) = t_feed_crawl_cache s"
  "t_feed_url_observations (each (\<lambda>t. delete_from_search_index env e (i t)) tgs s) = t_feed_url_observations s"
  "t_source_gone_answers (each (\<lambda>t. delete_from_search_index env e (i t)) tgs s) = t_source_gone_answers s"
  "t_retired_source_holds (each (\<lambda>t. delete_from_search_index env e (i t)) tgs s) = t_retired_source_holds s"
  "t_feed_blocks (each (\<lambda>t. delete_from_search_index env e (i t)) tgs s) = t_feed_blocks s"
  "t_feed_copies (each (\<lambda>t. delete_from_search_index env e (i t)) tgs s) = t_feed_copies s"
  "t_feed_copy_overflow (each (\<lambda>t. delete_from_search_index env e (i t)) tgs s) = t_feed_copy_overflow s"
  "t_feed_guid_changes (each (\<lambda>t. delete_from_search_index env e (i t)) tgs s) = t_feed_guid_changes s"
  "t_feed_guid_supersessions (each (\<lambda>t. delete_from_search_index env e (i t)) tgs s) = t_feed_guid_supersessions s"
  "t_node_sync_state (each (\<lambda>t. delete_from_search_index env e (i t)) tgs s) = t_node_sync_state s"
  "t_peer_nodes (each (\<lambda>t. delete_from_search_index env e (i t)) tgs s) = t_peer_nodes s"
  "t_entity_quality (each (\<lambda>t. delete_from_search_index env e (i t)) tgs s) = t_entity_quality s"
  "t_feed_left_urls (each (\<lambda>t. delete_from_search_index env e (i t)) tgs s) = t_feed_left_urls s"
  "t_feed_move_state (each (\<lambda>t. delete_from_search_index env e (i t)) tgs s) = t_feed_move_state s"
  by (simp_all add: each_frame [where get = t_feeds] each_frame [where get = t_tracks] each_frame [where get = t_payment_routes] each_frame [where get = t_feed_payment_routes] each_frame [where get = t_feed_list_value_raw] each_frame [where get = t_value_time_splits] each_frame [where get = t_feed_remote_items_raw] each_frame [where get = t_track_remote_items_raw] each_frame [where get = t_live_events] each_frame [where get = t_source_contributor_claims] each_frame [where get = t_source_entity_ids] each_frame [where get = t_source_entity_links] each_frame [where get = t_source_release_claims] each_frame [where get = t_source_item_enclosures] each_frame [where get = t_source_item_transcripts] each_frame [where get = t_source_platform_claims] each_frame [where get = t_events] each_frame [where get = t_feed_crawl_cache] each_frame [where get = t_feed_url_observations] each_frame [where get = t_source_gone_answers] each_frame [where get = t_retired_source_holds] each_frame [where get = t_feed_blocks] each_frame [where get = t_feed_copies] each_frame [where get = t_feed_copy_overflow] each_frame [where get = t_feed_guid_changes] each_frame [where get = t_feed_guid_supersessions] each_frame [where get = t_node_sync_state] each_frame [where get = t_peer_nodes] each_frame [where get = t_entity_quality] each_frame [where get = t_feed_left_urls] each_frame [where get = t_feed_move_state])

lemma each_vts_frame [simp]:
  "t_feeds (each (\<lambda>t. t_value_time_splits_update (delete_where (p t))) tgs s) = t_feeds s"
  "t_tracks (each (\<lambda>t. t_value_time_splits_update (delete_where (p t))) tgs s) = t_tracks s"
  "t_payment_routes (each (\<lambda>t. t_value_time_splits_update (delete_where (p t))) tgs s) = t_payment_routes s"
  "t_feed_payment_routes (each (\<lambda>t. t_value_time_splits_update (delete_where (p t))) tgs s) = t_feed_payment_routes s"
  "t_feed_list_value_raw (each (\<lambda>t. t_value_time_splits_update (delete_where (p t))) tgs s) = t_feed_list_value_raw s"
  "t_feed_remote_items_raw (each (\<lambda>t. t_value_time_splits_update (delete_where (p t))) tgs s) = t_feed_remote_items_raw s"
  "t_track_remote_items_raw (each (\<lambda>t. t_value_time_splits_update (delete_where (p t))) tgs s) = t_track_remote_items_raw s"
  "t_live_events (each (\<lambda>t. t_value_time_splits_update (delete_where (p t))) tgs s) = t_live_events s"
  "t_source_contributor_claims (each (\<lambda>t. t_value_time_splits_update (delete_where (p t))) tgs s) = t_source_contributor_claims s"
  "t_source_entity_ids (each (\<lambda>t. t_value_time_splits_update (delete_where (p t))) tgs s) = t_source_entity_ids s"
  "t_source_entity_links (each (\<lambda>t. t_value_time_splits_update (delete_where (p t))) tgs s) = t_source_entity_links s"
  "t_source_release_claims (each (\<lambda>t. t_value_time_splits_update (delete_where (p t))) tgs s) = t_source_release_claims s"
  "t_source_item_enclosures (each (\<lambda>t. t_value_time_splits_update (delete_where (p t))) tgs s) = t_source_item_enclosures s"
  "t_source_item_transcripts (each (\<lambda>t. t_value_time_splits_update (delete_where (p t))) tgs s) = t_source_item_transcripts s"
  "t_source_platform_claims (each (\<lambda>t. t_value_time_splits_update (delete_where (p t))) tgs s) = t_source_platform_claims s"
  "t_events (each (\<lambda>t. t_value_time_splits_update (delete_where (p t))) tgs s) = t_events s"
  "t_feed_crawl_cache (each (\<lambda>t. t_value_time_splits_update (delete_where (p t))) tgs s) = t_feed_crawl_cache s"
  "t_feed_url_observations (each (\<lambda>t. t_value_time_splits_update (delete_where (p t))) tgs s) = t_feed_url_observations s"
  "t_source_gone_answers (each (\<lambda>t. t_value_time_splits_update (delete_where (p t))) tgs s) = t_source_gone_answers s"
  "t_retired_source_holds (each (\<lambda>t. t_value_time_splits_update (delete_where (p t))) tgs s) = t_retired_source_holds s"
  "t_feed_blocks (each (\<lambda>t. t_value_time_splits_update (delete_where (p t))) tgs s) = t_feed_blocks s"
  "t_feed_copies (each (\<lambda>t. t_value_time_splits_update (delete_where (p t))) tgs s) = t_feed_copies s"
  "t_feed_copy_overflow (each (\<lambda>t. t_value_time_splits_update (delete_where (p t))) tgs s) = t_feed_copy_overflow s"
  "t_feed_guid_changes (each (\<lambda>t. t_value_time_splits_update (delete_where (p t))) tgs s) = t_feed_guid_changes s"
  "t_feed_guid_supersessions (each (\<lambda>t. t_value_time_splits_update (delete_where (p t))) tgs s) = t_feed_guid_supersessions s"
  "t_node_sync_state (each (\<lambda>t. t_value_time_splits_update (delete_where (p t))) tgs s) = t_node_sync_state s"
  "t_peer_nodes (each (\<lambda>t. t_value_time_splits_update (delete_where (p t))) tgs s) = t_peer_nodes s"
  "t_entity_quality (each (\<lambda>t. t_value_time_splits_update (delete_where (p t))) tgs s) = t_entity_quality s"
  "t_search_index (each (\<lambda>t. t_value_time_splits_update (delete_where (p t))) tgs s) = t_search_index s"
  "t_search_entities (each (\<lambda>t. t_value_time_splits_update (delete_where (p t))) tgs s) = t_search_entities s"
  "t_feed_left_urls (each (\<lambda>t. t_value_time_splits_update (delete_where (p t))) tgs s) = t_feed_left_urls s"
  "t_feed_move_state (each (\<lambda>t. t_value_time_splits_update (delete_where (p t))) tgs s) = t_feed_move_state s"
  by (simp_all add: each_frame [where get = t_feeds] each_frame [where get = t_tracks] each_frame [where get = t_payment_routes] each_frame [where get = t_feed_payment_routes] each_frame [where get = t_feed_list_value_raw] each_frame [where get = t_feed_remote_items_raw] each_frame [where get = t_track_remote_items_raw] each_frame [where get = t_live_events] each_frame [where get = t_source_contributor_claims] each_frame [where get = t_source_entity_ids] each_frame [where get = t_source_entity_links] each_frame [where get = t_source_release_claims] each_frame [where get = t_source_item_enclosures] each_frame [where get = t_source_item_transcripts] each_frame [where get = t_source_platform_claims] each_frame [where get = t_events] each_frame [where get = t_feed_crawl_cache] each_frame [where get = t_feed_url_observations] each_frame [where get = t_source_gone_answers] each_frame [where get = t_retired_source_holds] each_frame [where get = t_feed_blocks] each_frame [where get = t_feed_copies] each_frame [where get = t_feed_copy_overflow] each_frame [where get = t_feed_guid_changes] each_frame [where get = t_feed_guid_supersessions] each_frame [where get = t_node_sync_state] each_frame [where get = t_peer_nodes] each_frame [where get = t_entity_quality] each_frame [where get = t_search_index] each_frame [where get = t_search_entities] each_frame [where get = t_feed_left_urls] each_frame [where get = t_feed_move_state])

lemma each_tri_frame [simp]:
  "t_feeds (each (\<lambda>t. t_track_remote_items_raw_update (delete_where (q t))) tgs s) = t_feeds s"
  "t_tracks (each (\<lambda>t. t_track_remote_items_raw_update (delete_where (q t))) tgs s) = t_tracks s"
  "t_payment_routes (each (\<lambda>t. t_track_remote_items_raw_update (delete_where (q t))) tgs s) = t_payment_routes s"
  "t_feed_payment_routes (each (\<lambda>t. t_track_remote_items_raw_update (delete_where (q t))) tgs s) = t_feed_payment_routes s"
  "t_feed_list_value_raw (each (\<lambda>t. t_track_remote_items_raw_update (delete_where (q t))) tgs s) = t_feed_list_value_raw s"
  "t_value_time_splits (each (\<lambda>t. t_track_remote_items_raw_update (delete_where (q t))) tgs s) = t_value_time_splits s"
  "t_feed_remote_items_raw (each (\<lambda>t. t_track_remote_items_raw_update (delete_where (q t))) tgs s) = t_feed_remote_items_raw s"
  "t_live_events (each (\<lambda>t. t_track_remote_items_raw_update (delete_where (q t))) tgs s) = t_live_events s"
  "t_source_contributor_claims (each (\<lambda>t. t_track_remote_items_raw_update (delete_where (q t))) tgs s) = t_source_contributor_claims s"
  "t_source_entity_ids (each (\<lambda>t. t_track_remote_items_raw_update (delete_where (q t))) tgs s) = t_source_entity_ids s"
  "t_source_entity_links (each (\<lambda>t. t_track_remote_items_raw_update (delete_where (q t))) tgs s) = t_source_entity_links s"
  "t_source_release_claims (each (\<lambda>t. t_track_remote_items_raw_update (delete_where (q t))) tgs s) = t_source_release_claims s"
  "t_source_item_enclosures (each (\<lambda>t. t_track_remote_items_raw_update (delete_where (q t))) tgs s) = t_source_item_enclosures s"
  "t_source_item_transcripts (each (\<lambda>t. t_track_remote_items_raw_update (delete_where (q t))) tgs s) = t_source_item_transcripts s"
  "t_source_platform_claims (each (\<lambda>t. t_track_remote_items_raw_update (delete_where (q t))) tgs s) = t_source_platform_claims s"
  "t_events (each (\<lambda>t. t_track_remote_items_raw_update (delete_where (q t))) tgs s) = t_events s"
  "t_feed_crawl_cache (each (\<lambda>t. t_track_remote_items_raw_update (delete_where (q t))) tgs s) = t_feed_crawl_cache s"
  "t_feed_url_observations (each (\<lambda>t. t_track_remote_items_raw_update (delete_where (q t))) tgs s) = t_feed_url_observations s"
  "t_source_gone_answers (each (\<lambda>t. t_track_remote_items_raw_update (delete_where (q t))) tgs s) = t_source_gone_answers s"
  "t_retired_source_holds (each (\<lambda>t. t_track_remote_items_raw_update (delete_where (q t))) tgs s) = t_retired_source_holds s"
  "t_feed_blocks (each (\<lambda>t. t_track_remote_items_raw_update (delete_where (q t))) tgs s) = t_feed_blocks s"
  "t_feed_copies (each (\<lambda>t. t_track_remote_items_raw_update (delete_where (q t))) tgs s) = t_feed_copies s"
  "t_feed_copy_overflow (each (\<lambda>t. t_track_remote_items_raw_update (delete_where (q t))) tgs s) = t_feed_copy_overflow s"
  "t_feed_guid_changes (each (\<lambda>t. t_track_remote_items_raw_update (delete_where (q t))) tgs s) = t_feed_guid_changes s"
  "t_feed_guid_supersessions (each (\<lambda>t. t_track_remote_items_raw_update (delete_where (q t))) tgs s) = t_feed_guid_supersessions s"
  "t_node_sync_state (each (\<lambda>t. t_track_remote_items_raw_update (delete_where (q t))) tgs s) = t_node_sync_state s"
  "t_peer_nodes (each (\<lambda>t. t_track_remote_items_raw_update (delete_where (q t))) tgs s) = t_peer_nodes s"
  "t_entity_quality (each (\<lambda>t. t_track_remote_items_raw_update (delete_where (q t))) tgs s) = t_entity_quality s"
  "t_search_index (each (\<lambda>t. t_track_remote_items_raw_update (delete_where (q t))) tgs s) = t_search_index s"
  "t_search_entities (each (\<lambda>t. t_track_remote_items_raw_update (delete_where (q t))) tgs s) = t_search_entities s"
  "t_feed_left_urls (each (\<lambda>t. t_track_remote_items_raw_update (delete_where (q t))) tgs s) = t_feed_left_urls s"
  "t_feed_move_state (each (\<lambda>t. t_track_remote_items_raw_update (delete_where (q t))) tgs s) = t_feed_move_state s"
  by (simp_all add: each_frame [where get = t_feeds] each_frame [where get = t_tracks] each_frame [where get = t_payment_routes] each_frame [where get = t_feed_payment_routes] each_frame [where get = t_feed_list_value_raw] each_frame [where get = t_value_time_splits] each_frame [where get = t_feed_remote_items_raw] each_frame [where get = t_live_events] each_frame [where get = t_source_contributor_claims] each_frame [where get = t_source_entity_ids] each_frame [where get = t_source_entity_links] each_frame [where get = t_source_release_claims] each_frame [where get = t_source_item_enclosures] each_frame [where get = t_source_item_transcripts] each_frame [where get = t_source_platform_claims] each_frame [where get = t_events] each_frame [where get = t_feed_crawl_cache] each_frame [where get = t_feed_url_observations] each_frame [where get = t_source_gone_answers] each_frame [where get = t_retired_source_holds] each_frame [where get = t_feed_blocks] each_frame [where get = t_feed_copies] each_frame [where get = t_feed_copy_overflow] each_frame [where get = t_feed_guid_changes] each_frame [where get = t_feed_guid_supersessions] each_frame [where get = t_node_sync_state] each_frame [where get = t_peer_nodes] each_frame [where get = t_entity_quality] each_frame [where get = t_search_index] each_frame [where get = t_search_entities] each_frame [where get = t_feed_left_urls] each_frame [where get = t_feed_move_state])

lemma each_quality_frame [simp]:
  "t_feeds (each (\<lambda>t. t_entity_quality_update (delete_where (v t))) tgs s) = t_feeds s"
  "t_tracks (each (\<lambda>t. t_entity_quality_update (delete_where (v t))) tgs s) = t_tracks s"
  "t_payment_routes (each (\<lambda>t. t_entity_quality_update (delete_where (v t))) tgs s) = t_payment_routes s"
  "t_feed_payment_routes (each (\<lambda>t. t_entity_quality_update (delete_where (v t))) tgs s) = t_feed_payment_routes s"
  "t_feed_list_value_raw (each (\<lambda>t. t_entity_quality_update (delete_where (v t))) tgs s) = t_feed_list_value_raw s"
  "t_value_time_splits (each (\<lambda>t. t_entity_quality_update (delete_where (v t))) tgs s) = t_value_time_splits s"
  "t_feed_remote_items_raw (each (\<lambda>t. t_entity_quality_update (delete_where (v t))) tgs s) = t_feed_remote_items_raw s"
  "t_track_remote_items_raw (each (\<lambda>t. t_entity_quality_update (delete_where (v t))) tgs s) = t_track_remote_items_raw s"
  "t_live_events (each (\<lambda>t. t_entity_quality_update (delete_where (v t))) tgs s) = t_live_events s"
  "t_source_contributor_claims (each (\<lambda>t. t_entity_quality_update (delete_where (v t))) tgs s) = t_source_contributor_claims s"
  "t_source_entity_ids (each (\<lambda>t. t_entity_quality_update (delete_where (v t))) tgs s) = t_source_entity_ids s"
  "t_source_entity_links (each (\<lambda>t. t_entity_quality_update (delete_where (v t))) tgs s) = t_source_entity_links s"
  "t_source_release_claims (each (\<lambda>t. t_entity_quality_update (delete_where (v t))) tgs s) = t_source_release_claims s"
  "t_source_item_enclosures (each (\<lambda>t. t_entity_quality_update (delete_where (v t))) tgs s) = t_source_item_enclosures s"
  "t_source_item_transcripts (each (\<lambda>t. t_entity_quality_update (delete_where (v t))) tgs s) = t_source_item_transcripts s"
  "t_source_platform_claims (each (\<lambda>t. t_entity_quality_update (delete_where (v t))) tgs s) = t_source_platform_claims s"
  "t_events (each (\<lambda>t. t_entity_quality_update (delete_where (v t))) tgs s) = t_events s"
  "t_feed_crawl_cache (each (\<lambda>t. t_entity_quality_update (delete_where (v t))) tgs s) = t_feed_crawl_cache s"
  "t_feed_url_observations (each (\<lambda>t. t_entity_quality_update (delete_where (v t))) tgs s) = t_feed_url_observations s"
  "t_source_gone_answers (each (\<lambda>t. t_entity_quality_update (delete_where (v t))) tgs s) = t_source_gone_answers s"
  "t_retired_source_holds (each (\<lambda>t. t_entity_quality_update (delete_where (v t))) tgs s) = t_retired_source_holds s"
  "t_feed_blocks (each (\<lambda>t. t_entity_quality_update (delete_where (v t))) tgs s) = t_feed_blocks s"
  "t_feed_copies (each (\<lambda>t. t_entity_quality_update (delete_where (v t))) tgs s) = t_feed_copies s"
  "t_feed_copy_overflow (each (\<lambda>t. t_entity_quality_update (delete_where (v t))) tgs s) = t_feed_copy_overflow s"
  "t_feed_guid_changes (each (\<lambda>t. t_entity_quality_update (delete_where (v t))) tgs s) = t_feed_guid_changes s"
  "t_feed_guid_supersessions (each (\<lambda>t. t_entity_quality_update (delete_where (v t))) tgs s) = t_feed_guid_supersessions s"
  "t_node_sync_state (each (\<lambda>t. t_entity_quality_update (delete_where (v t))) tgs s) = t_node_sync_state s"
  "t_peer_nodes (each (\<lambda>t. t_entity_quality_update (delete_where (v t))) tgs s) = t_peer_nodes s"
  "t_search_index (each (\<lambda>t. t_entity_quality_update (delete_where (v t))) tgs s) = t_search_index s"
  "t_search_entities (each (\<lambda>t. t_entity_quality_update (delete_where (v t))) tgs s) = t_search_entities s"
  "t_feed_left_urls (each (\<lambda>t. t_entity_quality_update (delete_where (v t))) tgs s) = t_feed_left_urls s"
  "t_feed_move_state (each (\<lambda>t. t_entity_quality_update (delete_where (v t))) tgs s) = t_feed_move_state s"
  by (simp_all add: each_frame [where get = t_feeds] each_frame [where get = t_tracks] each_frame [where get = t_payment_routes] each_frame [where get = t_feed_payment_routes] each_frame [where get = t_feed_list_value_raw] each_frame [where get = t_value_time_splits] each_frame [where get = t_feed_remote_items_raw] each_frame [where get = t_track_remote_items_raw] each_frame [where get = t_live_events] each_frame [where get = t_source_contributor_claims] each_frame [where get = t_source_entity_ids] each_frame [where get = t_source_entity_links] each_frame [where get = t_source_release_claims] each_frame [where get = t_source_item_enclosures] each_frame [where get = t_source_item_transcripts] each_frame [where get = t_source_platform_claims] each_frame [where get = t_events] each_frame [where get = t_feed_crawl_cache] each_frame [where get = t_feed_url_observations] each_frame [where get = t_source_gone_answers] each_frame [where get = t_retired_source_holds] each_frame [where get = t_feed_blocks] each_frame [where get = t_feed_copies] each_frame [where get = t_feed_copy_overflow] each_frame [where get = t_feed_guid_changes] each_frame [where get = t_feed_guid_supersessions] each_frame [where get = t_node_sync_state] each_frame [where get = t_peer_nodes] each_frame [where get = t_search_index] each_frame [where get = t_search_entities] each_frame [where get = t_feed_left_urls] each_frame [where get = t_feed_move_state])

lemma each_tables [simp]:
  "t_value_time_splits (each (\<lambda>t. t_value_time_splits_update (delete_where (p t))) tgs s)
     = delete_where (\<lambda>r. list_ex (\<lambda>t. p t r) tgs) (t_value_time_splits s)"
  "t_track_remote_items_raw (each (\<lambda>t. t_track_remote_items_raw_update (delete_where (q t))) tgs s)
     = delete_where (\<lambda>r. list_ex (\<lambda>t. q t r) tgs) (t_track_remote_items_raw s)"
  "t_entity_quality (each (\<lambda>t. t_entity_quality_update (delete_where (v t))) tgs s)
     = delete_where (\<lambda>r. list_ex (\<lambda>t. v t r) tgs) (t_entity_quality s)"
  by (rule each_delete, simp)+

text \<open>What a feed delete leaves in each table.\<close>

lemma delete_feed_sql_same:
  "t_events (delete_feed_sql env g s) = t_events s"
  "t_feed_crawl_cache (delete_feed_sql env g s) = t_feed_crawl_cache s"
  "t_feed_url_observations (delete_feed_sql env g s) = t_feed_url_observations s"
  "t_retired_source_holds (delete_feed_sql env g s) = t_retired_source_holds s"
  "t_feed_blocks (delete_feed_sql env g s) = t_feed_blocks s"
  "t_feed_guid_changes (delete_feed_sql env g s) = t_feed_guid_changes s"
  "t_feed_guid_supersessions (delete_feed_sql env g s) = t_feed_guid_supersessions s"
  "t_node_sync_state (delete_feed_sql env g s) = t_node_sync_state s"
  "t_peer_nodes (delete_feed_sql env g s) = t_peer_nodes s"
  by (simp_all add: delete_feed_sql_def delete_feed_row_def trg_feeds_cleanup_def Let_def)

lemma delete_feed_sql_children:
  "t_feed_payment_routes (delete_feed_sql env g s) = delete_where (\<lambda>r. fpr_feed_guid r = g) (t_feed_payment_routes s)"
  "t_feed_remote_items_raw (delete_feed_sql env g s) = delete_where (\<lambda>r. fri_feed_guid r = g) (t_feed_remote_items_raw s)"
  "t_live_events (delete_feed_sql env g s) = delete_where (\<lambda>r. le_feed_guid r = g) (t_live_events s)"
  "t_source_contributor_claims (delete_feed_sql env g s) = delete_where (\<lambda>r. scc_feed_guid r = g) (t_source_contributor_claims s)"
  "t_source_entity_ids (delete_feed_sql env g s) = delete_where (\<lambda>r. sei_feed_guid r = g) (t_source_entity_ids s)"
  "t_source_entity_links (delete_feed_sql env g s) = delete_where (\<lambda>r. sel_feed_guid r = g) (t_source_entity_links s)"
  "t_source_release_claims (delete_feed_sql env g s) = delete_where (\<lambda>r. src_feed_guid r = g) (t_source_release_claims s)"
  "t_source_item_enclosures (delete_feed_sql env g s) = delete_where (\<lambda>r. sie_feed_guid r = g) (t_source_item_enclosures s)"
  "t_source_item_transcripts (delete_feed_sql env g s) = delete_where (\<lambda>r. sit_feed_guid r = g) (t_source_item_transcripts s)"
  "t_source_platform_claims (delete_feed_sql env g s) = delete_where (\<lambda>r. spc_feed_guid r = g) (t_source_platform_claims s)"
  "t_feed_copies (delete_feed_sql env g s) = delete_where (\<lambda>r. fcy_feed_guid r = g) (t_feed_copies s)"
  "t_feed_copy_overflow (delete_feed_sql env g s) = delete_where (\<lambda>r. fst r = g) (t_feed_copy_overflow s)"
  "t_feed_left_urls (delete_feed_sql env g s) = delete_where (\<lambda>r. fst r = g) (t_feed_left_urls s)"
  "t_feed_move_state (delete_feed_sql env g s) = delete_where (\<lambda>r. mv_feed_guid r = g) (t_feed_move_state s)"
  by (simp_all add: delete_feed_sql_def delete_feed_row_def trg_feeds_cleanup_def Let_def)


lemma delete_where_cong: "(\<And>r. r \<in> set t \<Longrightarrow> p r = q r) \<Longrightarrow> delete_where p t = delete_where q t"
  by (auto simp: delete_where_def intro: filter_cong)

lemma set_get_tracks [simp]: "t \<in> set (get_tracks_for_feed s g) \<longleftrightarrow> t \<in> set (t_tracks s) \<and> tr_feed_guid t = g"
  by (auto simp: get_tracks_for_feed_def)

lemma delete_feed_sql_parents:
  "t_feeds (delete_feed_sql env g s) = delete_where (\<lambda>r. fe_feed_guid r = g) (t_feeds s)"
  "t_tracks (delete_feed_sql env g s) = delete_where (\<lambda>t. tr_feed_guid t = g) (t_tracks s)"
  "t_feed_list_value_raw (delete_feed_sql env g s) =
     (if feed_exists g s then delete_where (\<lambda>r. flv_feed_guid r = g) (t_feed_list_value_raw s)
      else t_feed_list_value_raw s)"
  "t_source_gone_answers (delete_feed_sql env g s) =
     (if feed_exists g s then delete_where (\<lambda>r. sg_feed_guid r = g) (t_source_gone_answers s)
      else t_source_gone_answers s)"
  by (auto simp: delete_feed_sql_def delete_feed_row_def trg_feeds_cleanup_def Let_def feed_exists_def
      delete_tracks_tables delete_where_none)

lemma delete_feed_sql_track_children:
  "t_payment_routes (delete_feed_sql env g s) = delete_where (\<lambda>r. pr_feed_guid r = g) (t_payment_routes s)"
  "t_value_time_splits (delete_feed_sql env g s) = delete_where (\<lambda>r. fst r = Some g \<or> fst r = None
     \<and> vts_source_track_guid (snd r) \<in> tr_track_guid ` set (get_tracks_for_feed s g)) (t_value_time_splits s)"
  "t_track_remote_items_raw (delete_feed_sql env g s) = delete_where (\<lambda>r. fst r = Some g \<or> fst r = None
     \<and> tri_track_guid (snd r) \<in> tr_track_guid ` set (get_tracks_for_feed s g)) (t_track_remote_items_raw s)"
  by (simp_all add: delete_feed_sql_def delete_feed_row_def trg_feeds_cleanup_def Let_def
      delete_tracks_tables delete_where_comp)
    (rule delete_where_cong; auto simp: vts_owner_def tri_owner_def list_ex_iff image_iff)+

lemma delete_feed_sql_quality:
  "t_entity_quality (delete_feed_sql env g s) = delete_where
     (\<lambda>r. q_entity_type r = ''feed'' \<and> q_entity_id r = g
        \<or> q_entity_type r = ''track'' \<and> (\<exists>t\<in>set (get_tracks_for_feed s g). q_entity_id r \<in>
            {canonical_track_entity_id env g (tr_track_guid t), tr_track_guid t, en_json_array env g (tr_track_guid t)}))
     (t_entity_quality s)"
  by (simp add: delete_feed_sql_def delete_feed_row_def trg_feeds_cleanup_def Let_def
      delete_tracks_tables delete_where_comp)
    (intro conjI impI; rule delete_where_cong; auto simp: list_ex_iff image_iff)

text \<open>The index rows of the feed and of its tracks go.\<close>

lemma each_index_ok: "index_ok env s \<Longrightarrow> index_ok env (each (\<lambda>t. delete_from_search_index env e (i t)) tgs s)"
  unfolding each_def by (induction tgs arbitrary: s) (simp_all add: delete_from_search_index_ok)

lemma each_entity_at:
  "entity_at (each (\<lambda>t. delete_from_search_index env e (i t)) tgs s) n =
     (if n \<in> (\<lambda>t. rowid_for env e (i t)) ` set tgs then None else entity_at s n)"
  unfolding each_def by (induction tgs arbitrary: s) (auto simp: entity_at_delete)

lemma delete_feed_sql_search:
  "t_search_entities (delete_feed_sql env g s) = t_search_entities
     (each (\<lambda>t. delete_from_search_index env ''track'' (canonical_track_entity_id env g t))
       (sort (map tr_track_guid (get_tracks_for_feed s g)))
       (delete_from_search_index env ''publisher'' g (delete_from_search_index env ''feed'' g s)))"
  "t_search_index (delete_feed_sql env g s) = t_search_index
     (each (\<lambda>t. delete_from_search_index env ''track'' (canonical_track_entity_id env g t))
       (sort (map tr_track_guid (get_tracks_for_feed s g)))
       (delete_from_search_index env ''publisher'' g (delete_from_search_index env ''feed'' g s)))"
  by (simp_all add: delete_feed_sql_def delete_feed_row_def trg_feeds_cleanup_def Let_def)

lemma index_ok_cong:
  "t_search_entities s = t_search_entities s' \<Longrightarrow> t_search_index s = t_search_index s' \<Longrightarrow> index_ok env s = index_ok env s'"
  by (simp add: index_ok_def)

lemma delete_feed_index_ok: "index_ok env s \<Longrightarrow> index_ok env (delete_feed_sql env g s)"
  unfolding index_ok_cong [OF delete_feed_sql_search]
  by (intro each_index_ok delete_from_search_index_ok)

lemma delete_feed_entity_at:
  "entity_at (delete_feed_sql env g s) n =
    (if n \<in> {rowid_for env ''feed'' g, rowid_for env ''publisher'' g}
         \<union> (\<lambda>t. rowid_for env ''track'' (canonical_track_entity_id env g (tr_track_guid t))) ` set (get_tracks_for_feed s g)
     then None else entity_at s n)"
proof -
  have "entity_at (delete_feed_sql env g s) n = entity_at
     (each (\<lambda>t. delete_from_search_index env ''track'' (canonical_track_entity_id env g t))
       (sort (map tr_track_guid (get_tracks_for_feed s g)))
       (delete_from_search_index env ''publisher'' g (delete_from_search_index env ''feed'' g s))) n"
    unfolding entity_at_def delete_feed_sql_search ..
  then show ?thesis
    unfolding each_entity_at by (simp add: entity_at_delete image_image del: set_get_tracks)
qed

section \<open>The view of a feed\<close>

text \<open>Every row of the store that belongs to a feed.\<close>

record feed_view =
  v_feed :: "feed_row list"
  v_tracks :: "track list"
  v_payment_routes :: "payment_route list"
  v_feed_payment_routes :: "feed_payment_route list"
  v_feed_list_value :: "feed_list_value_raw list"
  v_value_time_splits :: "(string option \<times> value_time_split) list"
  v_feed_remote_items :: "feed_remote_item_raw list"
  v_track_remote_items :: "(string option \<times> track_remote_item_raw) list"
  v_live_events :: "live_event list"
  v_contributor_claims :: "source_contributor_claim list"
  v_entity_ids :: "source_entity_id_claim list"
  v_entity_links :: "source_entity_link list"
  v_release_claims :: "source_release_claim list"
  v_enclosures :: "source_item_enclosure list"
  v_transcripts :: "source_item_transcript list"
  v_platform_claims :: "source_platform_claim list"
  v_gone_answers :: "source_gone_row list"
  v_copies :: "feed_copy_row list"
  v_copy_overflow :: "(string \<times> int) list"
  v_left_urls :: "(string \<times> string) list"
  v_move_state :: "move_state_row list"

definition feed_view :: "db \<Rightarrow> string \<Rightarrow> feed_view" where
  "feed_view s g = \<lparr>
     v_feed = filter (\<lambda>r. fe_feed_guid r = g) (t_feeds s),
     v_tracks = filter (\<lambda>r. tr_feed_guid r = g) (t_tracks s),
     v_payment_routes = filter (\<lambda>r. pr_feed_guid r = g) (t_payment_routes s),
     v_feed_payment_routes = filter (\<lambda>r. fpr_feed_guid r = g) (t_feed_payment_routes s),
     v_feed_list_value = filter (\<lambda>r. flv_feed_guid r = g) (t_feed_list_value_raw s),
     v_value_time_splits = filter (\<lambda>r. fst r = Some g) (t_value_time_splits s),
     v_feed_remote_items = filter (\<lambda>r. fri_feed_guid r = g) (t_feed_remote_items_raw s),
     v_track_remote_items = filter (\<lambda>r. fst r = Some g) (t_track_remote_items_raw s),
     v_live_events = filter (\<lambda>r. le_feed_guid r = g) (t_live_events s),
     v_contributor_claims = filter (\<lambda>r. scc_feed_guid r = g) (t_source_contributor_claims s),
     v_entity_ids = filter (\<lambda>r. sei_feed_guid r = g) (t_source_entity_ids s),
     v_entity_links = filter (\<lambda>r. sel_feed_guid r = g) (t_source_entity_links s),
     v_release_claims = filter (\<lambda>r. src_feed_guid r = g) (t_source_release_claims s),
     v_enclosures = filter (\<lambda>r. sie_feed_guid r = g) (t_source_item_enclosures s),
     v_transcripts = filter (\<lambda>r. sit_feed_guid r = g) (t_source_item_transcripts s),
     v_platform_claims = filter (\<lambda>r. spc_feed_guid r = g) (t_source_platform_claims s),
     v_gone_answers = filter (\<lambda>r. sg_feed_guid r = g) (t_source_gone_answers s),
     v_copies = filter (\<lambda>r. fcy_feed_guid r = g) (t_feed_copies s),
     v_copy_overflow = filter (\<lambda>r. fst r = g) (t_feed_copy_overflow s),
     v_left_urls = filter (\<lambda>r. fst r = g) (t_feed_left_urls s),
     v_move_state = filter (\<lambda>r. mv_feed_guid r = g) (t_feed_move_state s)\<rparr>"

definition empty_view :: feed_view where
  "empty_view = feed_view empty_db []"

lemma filter_delete_same: "filter p (delete_where p t) = []"
  by (simp add: delete_where_def filter_empty_conv)

lemma filter_delete_other: "(\<And>r. q r \<Longrightarrow> \<not> p r) \<Longrightarrow> filter q (delete_where p t) = filter q t"
  by (auto simp: delete_where_def intro: filter_cong)

lemma feed_children_owned:
  assumes "refs_ok s" "\<not> feed_exists g s"
  shows "filter (\<lambda>r. flv_feed_guid r = g) (t_feed_list_value_raw s) = []"
    and "filter (\<lambda>r. sg_feed_guid r = g) (t_source_gone_answers s) = []"
  using assms by (auto simp: refs_ok_def feed_children_ok_def table_ok_def feed_fk_def list_all_iff filter_empty_conv)

lemma delete_feed_view_self:
  assumes "refs_ok s" shows "feed_view (delete_feed_sql env g s) g = empty_view"
proof -
  have flv: "filter (\<lambda>r. flv_feed_guid r = g) (t_feed_list_value_raw (delete_feed_sql env g s)) = []"
    and sg: "filter (\<lambda>r. sg_feed_guid r = g) (t_source_gone_answers (delete_feed_sql env g s)) = []"
    using feed_children_owned [OF assms, of g] by (simp_all add: delete_feed_sql_parents filter_delete_same)
  have vts: "filter (\<lambda>r. fst r = Some g) (t_value_time_splits (delete_feed_sql env g s)) = []"
    and tri: "filter (\<lambda>r. fst r = Some g) (t_track_remote_items_raw (delete_feed_sql env g s)) = []"
    by (auto simp: delete_feed_sql_track_children filter_empty_conv)
  show ?thesis
    unfolding feed_view_def empty_view_def flv sg vts tri
    by (simp add: delete_feed_sql_parents(1,2) delete_feed_sql_children delete_feed_sql_track_children(1)
        filter_delete_same empty_db_def)
qed

lemma delete_feed_view_other: "h \<noteq> g \<Longrightarrow> feed_view (delete_feed_sql env g s) h = feed_view s h"
  unfolding feed_view_def
  by (simp add: delete_feed_sql_parents delete_feed_sql_children delete_feed_sql_track_children
      filter_delete_other)
    (intro conjI; rule filter_delete_other; auto)


section \<open>Deletes keep the references\<close>

lemma table_ok_delete:
  assumes "table_ok get check key fk s" "get s' = delete_where p (get s)"
    and "\<And>r. \<not> p r \<Longrightarrow> fk r s \<Longrightarrow> fk r s'"
  shows "table_ok get check key fk s'"
  using assms by (auto simp: table_ok_def list_all_iff delete_where_def keys_distinct_filter)

lemma feed_exists_deleted: "feed_exists h (delete_feed_sql env g s) \<longleftrightarrow> h \<noteq> g \<and> feed_exists h s"
  by (auto simp: feed_exists_def delete_feed_sql_parents)

lemma track_exists_deleted:
  "track_exists h t (delete_feed_sql env g s) \<longleftrightarrow> h \<noteq> g \<and> track_exists h t s"
  by (auto simp: track_exists_def delete_feed_sql_parents track_key_def)

lemma delete_feed_refs_ok:
  assumes s: "refs_ok s" shows "refs_ok (delete_feed_sql env g s)"
proof -
  let ?s' = "delete_feed_sql env g s"
  have "feeds_ok ?s'"
    using s by (simp add: refs_ok_def feeds_ok_def delete_feed_sql_parents distinct_delete_where)
  moreover have "tracks_ok ?s'"
    using s by (auto simp: refs_ok_def tracks_ok_def delete_feed_sql_parents(2) distinct_delete_where
        list_all_iff feed_exists_deleted)
  moreover have "feed_children_ok ?s'"
  proof -
    have child: "table_ok get check key (feed_fk guid) ?s'"
      if "table_ok get check key (feed_fk guid) s" "get ?s' = delete_where (\<lambda>r. guid r = g) (get s)"
      for get :: "db \<Rightarrow> 'r list" and check and key :: "'r \<Rightarrow> 'k option" and guid
      using that by (rule table_ok_delete) (simp add: feed_fk_def feed_exists_deleted)
    have flv: "t_feed_list_value_raw ?s' = delete_where (\<lambda>r. flv_feed_guid r = g) (t_feed_list_value_raw s)"
      and sg: "t_source_gone_answers ?s' = delete_where (\<lambda>r. sg_feed_guid r = g) (t_source_gone_answers s)"
      using feed_children_owned [OF s, of g]
      by (auto simp: delete_feed_sql_parents filter_empty_conv delete_where_none)
    show ?thesis
      unfolding feed_children_ok_def
      by (intro conjI; rule child)
        (use s in \<open>simp_all add: refs_ok_def feed_children_ok_def delete_feed_sql_children flv sg\<close>)
  qed
  moreover have "track_children_ok ?s'"
  proof -
    have t: "table_ok t_payment_routes pr_check no_key (track_fk pr_feed_guid pr_track_guid) s"
      "table_ok t_value_time_splits vts_check no_key (null_track_fk vts_source_track_guid) s"
      "table_ok t_track_remote_items_raw any_row tri_key (null_track_fk tri_track_guid) s"
      using s by (simp_all add: refs_ok_def track_children_ok_def)
    show ?thesis
      unfolding track_children_ok_def
      by (intro conjI table_ok_delete [where get = t_payment_routes, OF t(1) delete_feed_sql_track_children(1)]
          table_ok_delete [where get = t_value_time_splits, OF t(2) delete_feed_sql_track_children(2)]
          table_ok_delete [where get = t_track_remote_items_raw, OF t(3) delete_feed_sql_track_children(3)])
        (auto simp: track_fk_def null_track_fk_def track_exists_deleted elim!: option.pred_mono_strong)
  qed
  ultimately show ?thesis by (simp add: refs_ok_def)
qed

lemma delete_track_tables:
  "t_feeds (delete_track_sql env g t s) = t_feeds s"
  "t_tracks (delete_track_sql env g t s) = delete_where (\<lambda>r. tr_feed_guid r = g \<and> tr_track_guid r = t) (t_tracks s)"
  "t_payment_routes (delete_track_sql env g t s) =
     delete_where (\<lambda>r. pr_feed_guid r = g \<and> pr_track_guid r = t) (t_payment_routes s)"
  "t_value_time_splits (delete_track_sql env g t s) = delete_where (vts_owner g t) (t_value_time_splits s)"
  "t_track_remote_items_raw (delete_track_sql env g t s) = delete_where (tri_owner g t) (t_track_remote_items_raw s)"
proof -
  note defs = delete_track_sql_def delete_tracks_tables delete_where_comp
  show "t_feeds (delete_track_sql env g t s) = t_feeds s"
    "t_tracks (delete_track_sql env g t s) = delete_where (\<lambda>r. tr_feed_guid r = g \<and> tr_track_guid r = t) (t_tracks s)"
    by (simp_all add: defs)
  show "t_payment_routes (delete_track_sql env g t s) =
     delete_where (\<lambda>r. pr_feed_guid r = g \<and> pr_track_guid r = t) (t_payment_routes s)"
    by (simp add: defs) (rule delete_where_cong; auto)
  show "t_value_time_splits (delete_track_sql env g t s) = delete_where (vts_owner g t) (t_value_time_splits s)"
    by (simp add: defs) (rule delete_where_cong; auto)
  show "t_track_remote_items_raw (delete_track_sql env g t s) = delete_where (tri_owner g t) (t_track_remote_items_raw s)"
    by (simp add: defs) (rule delete_where_cong; auto)
qed

lemma track_exists_track_deleted:
  "track_exists h u (delete_track_sql env g t s) \<longleftrightarrow> (h, u) \<noteq> (g, t) \<and> track_exists h u s"
  by (auto simp: track_exists_def delete_track_tables track_key_def)

lemma delete_track_refs_ok:
  assumes s: "refs_ok s" shows "refs_ok (delete_track_sql env g t s)"
proof -
  let ?s' = "delete_track_sql env g t s"
  have fe: "feed_exists h ?s' = feed_exists h s" for h
    by (simp add: feed_exists_def delete_track_tables)
  have "feeds_ok ?s'" using s by (simp add: refs_ok_def feeds_ok_def delete_track_tables)
  moreover have "tracks_ok ?s'"
    using s by (simp add: refs_ok_def tracks_ok_def delete_track_tables(2) distinct_delete_where list_all_iff fe)
  moreover have "feed_children_ok ?s'"
    by (rule feed_children_mono [of s]) (use s fe in \<open>simp_all add: refs_ok_def delete_track_sql_def\<close>)
  moreover have "track_children_ok ?s'"
  proof -
    have t: "table_ok t_payment_routes pr_check no_key (track_fk pr_feed_guid pr_track_guid) s"
      "table_ok t_value_time_splits vts_check no_key (null_track_fk vts_source_track_guid) s"
      "table_ok t_track_remote_items_raw any_row tri_key (null_track_fk tri_track_guid) s"
      using s by (simp_all add: refs_ok_def track_children_ok_def)
    show ?thesis
      unfolding track_children_ok_def
      by (intro conjI table_ok_delete [where get = t_payment_routes, OF t(1) delete_track_tables(3)]
          table_ok_delete [where get = t_value_time_splits, OF t(2) delete_track_tables(4)]
          table_ok_delete [where get = t_track_remote_items_raw, OF t(3) delete_track_tables(5)])
        (auto simp: track_fk_def null_track_fk_def vts_owner_def tri_owner_def track_exists_track_deleted
          elim!: option.pred_mono_strong)
  qed
  ultimately show ?thesis by (simp add: refs_ok_def)
qed

lemma delete_tracks_refs [keeps_intros]:
  "keeps refs_ok (delete_feed env g)" "keeps refs_ok (delete_track_for_feed env g t)"
  unfolding delete_feed_def delete_track_for_feed_def
  by (intro keeps_dtransaction keeps_dexec; simp add: delete_feed_refs_ok delete_track_refs_ok)+

section \<open>Deleting again changes nothing\<close>

lemma delete_from_search_index_absent:
  assumes "entity_at s (rowid_for env t e) = None" shows "delete_from_search_index env t e s = s"
proof -
  have "\<not> exists_where (\<lambda>r. se_rowid r = rowid_for env t e) (t_search_entities s)"
    using assms by (simp only: entity_at_def lookup_by_None exists_where_key not_False_eq_True)
  then show ?thesis
    by (simp add: delete_from_search_index_def Let_def delete_where_none del: exists_where_iff)
qed

lemma each_Nil [simp]: "each f [] s = s"
  by (simp add: each_def)

lemma delete_feed_search_twice:
  "t_search_entities (delete_feed_sql env g (delete_feed_sql env g s)) = t_search_entities (delete_feed_sql env g s)"
  "t_search_index (delete_feed_sql env g (delete_feed_sql env g s)) = t_search_index (delete_feed_sql env g s)"
proof -
  let ?s = "delete_feed_sql env g s"
  have none: "get_tracks_for_feed ?s g = []"
    by (simp add: get_tracks_for_feed_def delete_feed_sql_parents filter_delete_same)
  have "delete_from_search_index env ''feed'' g ?s = ?s" "delete_from_search_index env ''publisher'' g ?s = ?s"
    by (rule delete_from_search_index_absent, simp add: delete_feed_entity_at)+
  then show "t_search_entities (delete_feed_sql env g ?s) = t_search_entities ?s"
    "t_search_index (delete_feed_sql env g ?s) = t_search_index ?s"
    by (simp_all add: delete_feed_sql_search(1,2) [of env g ?s] none)
qed

lemma delete_feed_twice: "delete_feed_sql env g (delete_feed_sql env g s) = delete_feed_sql env g s"
proof -
  let ?s = "delete_feed_sql env g s"
  have gone: "\<not> feed_exists g ?s" by (simp add: feed_exists_deleted)
  have none: "get_tracks_for_feed ?s g = []"
    by (simp add: get_tracks_for_feed_def delete_feed_sql_parents filter_delete_same)
  have vts: "t_value_time_splits (delete_feed_sql env g ?s) = t_value_time_splits ?s"
    and tri: "t_track_remote_items_raw (delete_feed_sql env g ?s) = t_track_remote_items_raw ?s"
    by (simp_all add: delete_feed_sql_track_children(2,3) [of env g ?s] none)
      (simp_all add: delete_feed_sql_track_children delete_where_comp disj_commute disj_left_commute)
  have q: "t_entity_quality (delete_feed_sql env g ?s) = t_entity_quality ?s"
    by (simp add: delete_feed_sql_quality [of env g ?s] none)
      (simp add: delete_feed_sql_quality delete_where_comp disj_commute disj_left_commute)
  show ?thesis
    by (rule db.equality)
      (simp_all add: delete_feed_search_twice vts tri q delete_feed_sql_same delete_feed_sql_children
        delete_feed_sql_parents delete_feed_sql_track_children(1) gone)
qed


section \<open>Properties of deletion\<close>

lemma track_db_refs: "refs_ok track_db"
  using keepsD [OF keeps_upsert_feed refs_ok_empty, of "\<lambda>t. t" "\<lambda>u. None" sample_feed]
    keepsD [OF keeps_upsert_track, of feed_db sample_track]
  by (simp add: feed_db_upsert track_db_upsert)



text \<open>
  Deleting a feed or one of its tracks leaves no dangling reference: every foreign key, key and
  check of the store still holds.
\<close>

theorem deletes_keep_references:
  assumes "refs_ok s"
  shows "refs_ok (snd (delete_feed env g s)) \<and> refs_ok (snd (delete_track_for_feed env g t s))"
  using delete_feed_refs_ok [OF assms] delete_track_refs_ok [OF assms]
  by (simp add: dtransaction_def delete_feed_def delete_track_for_feed_def dexec_def)

theorem deletes_keep_references_witness:
  "refs_ok (snd (delete_feed length_env ''g1'' track_db)) \<and> refs_ok (snd (delete_track_for_feed length_env ''g1'' ''t1'' track_db))"
  by (rule deletes_keep_references [OF track_db_refs])

text \<open>Deleting a feed a second time changes nothing at all, in any table.\<close>

theorem delete_feed_idempotent:
  "delete_feed env g (snd (delete_feed env g s)) = (Inr (), snd (delete_feed env g s))"
  using delete_feed_twice by (simp add: dtransaction_def delete_feed_def dexec_def)

end
