(* ===== verification/Registry.thy ===== *)
theory Registry
  imports Signing Delete
begin

text \<open>
  The event log and the small registries of \<^verbatim>\<open>src/db.rs\<close>: the crawl cache, URL observations,
  feed blocks (with \<^verbatim>\<open>src/blocks.rs\<close>), copies of feeds, retired-source holds, gone answers,
  moves, GUID changes and supersessions, the sync cursors and the push peers. \<open>lc\<close> is
  \<^verbatim>\<open>str::to\_lowercase\<close>; \<open>parse\<close> is the JSON decoding of a payload of a type.
\<close>

section \<open>The event log\<close>

definition next_seq :: "db \<Rightarrow> int" where
  "next_seq s = (case map er_seq (t_events s) of [] \<Rightarrow> 1 | x # xs \<Rightarrow> fold max xs x + 1)"

definition event_id_taken :: "string \<Rightarrow> db \<Rightarrow> bool" where
  "event_id_taken i s = exists_where (\<lambda>r. er_event_id r = i) (t_events s)"

definition update_event_signature :: "string \<Rightarrow> string \<Rightarrow> string \<Rightarrow> db \<Rightarrow> db" where
  "update_event_signature event_id signed_by signature s =
     s\<lparr>t_events := update_where (\<lambda>r. er_event_id r = event_id)
        (\<lambda>r. r\<lparr>er_signed_by := signed_by, er_signature := signature\<rparr>) (t_events s)\<rparr>"

text \<open>
  The row goes in with an empty signature and the next sequence number; the signature over that
  number is written after it.
\<close>

definition insert_event ::
  "crypto \<Rightarrow> string \<Rightarrow> string \<Rightarrow> event_type \<Rightarrow> string \<Rightarrow> string \<Rightarrow> int \<Rightarrow> string list
   \<Rightarrow> (int \<times> string \<times> string) dbm" where
  "insert_event c key event_id event_type payload_json subject_guid created_at warnings =
     dbind (dread next_seq) (\<lambda>seq.
     dseq (dstmt (\<lambda>s. constraints True (\<not> event_id_taken event_id s) True)
       (\<lambda>s. s\<lparr>t_events := t_events s @ [\<lparr>er_event_id = event_id, er_event_type = event_type,
          er_payload_json = payload_json, er_subject_guid = subject_guid,
          er_signed_by = pubkey_hex c key, er_signature = [], er_seq = seq,
          er_created_at = created_at, er_warnings = warnings\<rparr>]\<rparr>))
     (let (signed_by, signature) =
            sign_event c key event_id event_type payload_json subject_guid created_at seq
      in dseq (dexec (update_event_signature event_id signed_by signature))
           (dret (seq, signed_by, signature))))"

definition insert_event_idempotent ::
  "string \<Rightarrow> event_type \<Rightarrow> string \<Rightarrow> string \<Rightarrow> string \<Rightarrow> string \<Rightarrow> int \<Rightarrow> string list \<Rightarrow> int option dbm" where
  "insert_event_idempotent event_id event_type payload_json subject_guid signed_by signature created_at warnings =
     (\<lambda>s. if event_id_taken event_id s then (Inr None, s)
          else (Inr (Some (next_seq s)),
            s\<lparr>t_events := t_events s @ [\<lparr>er_event_id = event_id, er_event_type = event_type,
              er_payload_json = payload_json, er_subject_guid = subject_guid, er_signed_by = signed_by,
              er_signature = signature, er_seq = next_seq s, er_created_at = created_at,
              er_warnings = warnings\<rparr>]\<rparr>))"

definition event_of_row :: "(event_type \<Rightarrow> string \<Rightarrow> event_payload option) \<Rightarrow> event_row \<Rightarrow> db_error + event" where
  "event_of_row parse r =
     (case parse (er_event_type r) (er_payload_json r) of None \<Rightarrow> Inl (Json ''payload'')
      | Some p \<Rightarrow> Inr \<lparr>ev_event_id = er_event_id r, ev_event_type = er_event_type r, ev_payload = p,
          ev_subject_guid = er_subject_guid r, ev_signed_by = er_signed_by r,
          ev_signature = er_signature r, ev_seq = er_seq r, ev_created_at = er_created_at r,
          ev_warnings = er_warnings r, ev_payload_json = er_payload_json r\<rparr>)"

fun rmap :: "('a \<Rightarrow> 'e + 'b) \<Rightarrow> 'a list \<Rightarrow> 'e + 'b list" where
  "rmap f [] = Inr []"
| "rmap f (x # xs) = rbind (f x) (\<lambda>y. rbind (rmap f xs) (\<lambda>ys. Inr (y # ys)))"

definition event_rows_since :: "db \<Rightarrow> int \<Rightarrow> int \<Rightarrow> event_row list" where
  "event_rows_since s after_seq limit =
     take (nat (max limit 1)) (List.sort_key er_seq (filter (\<lambda>r. er_seq r > after_seq) (t_events s)))"

definition get_events_since ::
  "(event_type \<Rightarrow> string \<Rightarrow> event_payload option) \<Rightarrow> db \<Rightarrow> int \<Rightarrow> int \<Rightarrow> db_error + event list" where
  "get_events_since parse s after_seq limit = rmap (event_of_row parse) (event_rows_since s after_seq limit)"

text \<open>One row more than the limit tells whether the answer is truncated.\<close>

definition get_event_refs_since :: "db \<Rightarrow> int \<Rightarrow> int \<Rightarrow> (string \<times> int) list \<times> bool" where
  "get_event_refs_since s since_seq limit0 =
     (let limit = max limit0 1;
          fetch_limit = min (limit + 1) i64_max;
          refs = map (\<lambda>r. (er_event_id r, er_seq r)) (take (nat fetch_limit)
                   (List.sort_key er_seq (filter (\<lambda>r. er_seq r \<ge> since_seq) (t_events s))));
          truncated = int (length refs) > limit
      in (if truncated then take (nat limit) refs else refs, truncated))"

section \<open>Crawl cache and URL observations\<close>

definition upsert_feed_crawl_cache :: "string \<Rightarrow> string \<Rightarrow> int \<Rightarrow> db \<Rightarrow> db" where
  "upsert_feed_crawl_cache feed_url content_hash crawled_at s =
     s\<lparr>t_feed_crawl_cache := upsert_by cc_feed_url
        (\<lambda>old new. old\<lparr>cc_content_hash := cc_content_hash new, cc_crawled_at := cc_crawled_at new\<rparr>)
        \<lparr>cc_feed_url = feed_url, cc_content_hash = content_hash, cc_crawled_at = crawled_at\<rparr>
        (t_feed_crawl_cache s)\<rparr>"

definition get_feed_url_observation :: "db \<Rightarrow> string \<Rightarrow> feed_url_observation option" where
  "get_feed_url_observation s url = lookup_by ob_url (t_feed_url_observations s) url"

definition upsert_feed_url_observation :: "string \<Rightarrow> string \<Rightarrow> int \<Rightarrow> db \<Rightarrow> db" where
  "upsert_feed_url_observation url feed_guid observed_at s =
     s\<lparr>t_feed_url_observations := upsert_by ob_url
        (\<lambda>old new. old\<lparr>ob_feed_guid := ob_feed_guid new, ob_observed_at := ob_observed_at new\<rparr>)
        \<lparr>ob_url = url, ob_feed_guid = feed_guid, ob_observed_at = observed_at\<rparr>
        (t_feed_url_observations s)\<rparr>"

definition record_feed_url_observation ::
  "string \<Rightarrow> string \<Rightarrow> int \<Rightarrow> db \<Rightarrow> feed_url_observation option \<times> db" where
  "record_feed_url_observation url feed_guid now s =
     (let new = \<lparr>ob_url = url, ob_feed_guid = feed_guid, ob_observed_at = now\<rparr> in
      case get_feed_url_observation s url of
        None \<Rightarrow> (Some new, s\<lparr>t_feed_url_observations := t_feed_url_observations s @ [new]\<rparr>)
      | Some row \<Rightarrow>
          if ob_feed_guid row = feed_guid then (None, s)
          else (Some new, s\<lparr>t_feed_url_observations := update_where (\<lambda>r. ob_url r = url)
                 (\<lambda>r. r\<lparr>ob_feed_guid := feed_guid, ob_observed_at := now\<rparr>) (t_feed_url_observations s)\<rparr>))"

datatype listed_feed_resolution =
    ByGuid string
  | ByFeedUrl string int
  | Unresolved

definition feed_indexed_by_stored_url :: "db \<Rightarrow> string \<Rightarrow> (string \<times> int) option" where
  "feed_indexed_by_stored_url s url =
     map_option (\<lambda>f. (fe_feed_guid f, fe_created_at f)) (find (\<lambda>f. fe_feed_url f = url) (t_feeds s))"

definition resolve_listed_feed :: "db \<Rightarrow> string \<Rightarrow> string option \<Rightarrow> listed_feed_resolution" where
  "resolve_listed_feed s listed_feed_guid listed_feed_url =
     (if feed_exists listed_feed_guid s then ByGuid listed_feed_guid
      else case listed_feed_url of None \<Rightarrow> Unresolved
        | Some url \<Rightarrow>
            (case get_feed_url_observation s url of
               Some ob \<Rightarrow>
                 if feed_exists (ob_feed_guid ob) s then ByFeedUrl (ob_feed_guid ob) (ob_observed_at ob)
                 else (case feed_indexed_by_stored_url s url of
                         Some (g, created_at) \<Rightarrow> ByFeedUrl g created_at | None \<Rightarrow> Unresolved)
             | None \<Rightarrow> (case feed_indexed_by_stored_url s url of
                         Some (g, created_at) \<Rightarrow> ByFeedUrl g created_at | None \<Rightarrow> Unresolved)))"

definition resolved_guid :: "listed_feed_resolution \<Rightarrow> string option" where
  "resolved_guid r = (case r of ByGuid g \<Rightarrow> Some g | ByFeedUrl g _ \<Rightarrow> Some g | Unresolved \<Rightarrow> None)"

section \<open>Feed blocks\<close>

definition fb_pair :: "feed_block \<Rightarrow> feed_block_kind \<times> string" where
  "fb_pair b = (fb_kind b, fb_value b)"

text \<open>\<^verbatim>\<open>INSERT OR IGNORE\<close> writes nothing when the id or the pair has a row.\<close>

definition insert_feed_block :: "(string \<Rightarrow> string) \<Rightarrow> feed_block \<Rightarrow> db \<Rightarrow> bool \<times> db" where
  "insert_feed_block lc block s =
     (let v = normalize lc (fb_kind block) (fb_value block);
          changed = \<not> exists_where (\<lambda>r. fb_block_id r = fb_block_id block
                       \<or> fb_pair r = (fb_kind block, v)) (t_feed_blocks s);
          s1 = (if changed then s\<lparr>t_feed_blocks := t_feed_blocks s @ [block\<lparr>fb_value := v\<rparr>]\<rparr> else s);
          s2 = (if changed \<and> fb_kind block = Url
                then s1\<lparr>t_feed_copies := delete_where (\<lambda>r. fcy_url r = v) (t_feed_copies s1)\<rparr> else s1)
      in (changed, s2))"

definition delete_feed_block :: "string \<Rightarrow> db \<Rightarrow> bool \<times> db" where
  "delete_feed_block block_id s =
     (exists_where (\<lambda>r. fb_block_id r = block_id) (t_feed_blocks s),
      s\<lparr>t_feed_blocks := delete_where (\<lambda>r. fb_block_id r = block_id) (t_feed_blocks s)\<rparr>)"

definition list_feed_blocks :: "db \<Rightarrow> feed_block list" where
  "list_feed_blocks s = t_feed_blocks s"

definition get_feed_block_by_pair ::
  "(string \<Rightarrow> string) \<Rightarrow> db \<Rightarrow> feed_block_kind \<Rightarrow> string \<Rightarrow> feed_block option" where
  "get_feed_block_by_pair lc s kind v = lookup_by fb_pair (t_feed_blocks s) (kind, normalize lc kind v)"

fun first_blocked_url :: "(string \<Rightarrow> string) \<Rightarrow> db \<Rightarrow> string list \<Rightarrow> feed_block option" where
  "first_blocked_url lc s [] = None"
| "first_blocked_url lc s (u # us) =
     (if u = [] then first_blocked_url lc s us
      else case get_feed_block_by_pair lc s Url u of Some b \<Rightarrow> Some b | None \<Rightarrow> first_blocked_url lc s us)"

definition find_feed_block ::
  "(string \<Rightarrow> string) \<Rightarrow> db \<Rightarrow> string option \<Rightarrow> string list \<Rightarrow> feed_block option" where
  "find_feed_block lc s feed_guid urls =
     (case feed_guid of None \<Rightarrow> first_blocked_url lc s urls
      | Some g \<Rightarrow> (case get_feed_block_by_pair lc s Guid g of
            Some b \<Rightarrow> Some b | None \<Rightarrow> first_blocked_url lc s urls))"

text \<open>\<^verbatim>\<open>src/blocks.rs\<close>. The environment and the fresh UUIDs are arguments.\<close>

definition read_csv_env :: "string option \<Rightarrow> string list" where
  "read_csv_env v = filter (\<lambda>p. p \<noteq> []) (map trim (split_on CHR '','' (case v of None \<Rightarrow> [] | Some t \<Rightarrow> t)))"

definition blocks_from_env :: "(string \<Rightarrow> string option) \<Rightarrow> (feed_block_kind \<times> string) list" where
  "blocks_from_env var = map (\<lambda>v. (Guid, v)) (read_csv_env (var ''BLOCKED_FEED_GUIDS''))
     @ map (\<lambda>v. (Url, v)) (read_csv_env (var ''BLOCKED_FEED_URLS''))"

definition SEEDED_REASON :: string where "SEEDED_REASON = ''seeded from environment''"

definition blocked_payload :: "feed_block \<Rightarrow> feed_blocked_payload" where
  "blocked_payload b = \<lparr>fbd_block_id = fb_block_id b, fbd_kind = fb_kind b, fbd_value = fb_value b,
     fbd_reason = fb_reason b, fbd_blocked_at = fb_blocked_at b\<rparr>"

fun seed_blocks_loop ::
  "(string \<Rightarrow> string) \<Rightarrow> (feed_blocked_payload \<Rightarrow> string) \<Rightarrow> crypto \<Rightarrow> string \<Rightarrow> int
   \<Rightarrow> ((feed_block_kind \<times> string) \<times> string \<times> string) list \<Rightarrow> nat dbm" where
  "seed_blocks_loop lc json c key now [] = dret 0"
| "seed_blocks_loop lc json c key now (((kind, v), block_id, event_id) # es) =
     (let b = \<lparr>fb_block_id = block_id, fb_kind = kind, fb_value = normalize lc kind v,
               fb_reason = SEEDED_REASON, fb_blocked_at = now\<rparr>
      in dbind (\<lambda>s. let (changed, s') = insert_feed_block lc b s in (Inr changed, s')) (\<lambda>changed.
         if \<not> changed then seed_blocks_loop lc json c key now es
         else dseq (insert_event c key event_id FeedBlocked (json (blocked_payload b)) block_id now [])
              (dbind (seed_blocks_loop lc json c key now es) (\<lambda>n. dret (Suc n)))))"

definition seed_blocks ::
  "(string \<Rightarrow> string) \<Rightarrow> (feed_blocked_payload \<Rightarrow> string) \<Rightarrow> crypto \<Rightarrow> string \<Rightarrow> int
   \<Rightarrow> ((feed_block_kind \<times> string) \<times> string \<times> string) list \<Rightarrow> nat dbm" where
  "seed_blocks lc json c key now entries = dtransaction (seed_blocks_loop lc json c key now entries)"

section \<open>Blocks are found once they are inserted\<close>

definition block_absent :: "(string \<Rightarrow> string) \<Rightarrow> feed_block \<Rightarrow> db \<Rightarrow> bool" where
  "block_absent lc b s \<longleftrightarrow> fb_block_id b \<notin> fb_block_id ` set (t_feed_blocks s)
     \<and> (fb_kind b, normalize lc (fb_kind b) (fb_value b)) \<notin> fb_pair ` set (t_feed_blocks s)"

lemma insert_feed_block_result:
  "fst (insert_feed_block lc b s) = block_absent lc b s"
  "t_feed_blocks (snd (insert_feed_block lc b s)) = (if block_absent lc b s
     then t_feed_blocks s @ [b\<lparr>fb_value := normalize lc (fb_kind b) (fb_value b)\<rparr>] else t_feed_blocks s)"
  "\<not> block_absent lc b s \<Longrightarrow> snd (insert_feed_block lc b s) = s"
proof -
  have "\<not> exists_where (\<lambda>r. fb_block_id r = fb_block_id b \<or> fb_pair r = (fb_kind b, normalize lc (fb_kind b) (fb_value b)))
      (t_feed_blocks s) \<longleftrightarrow> block_absent lc b s"
    by (fastforce simp: block_absent_def image_iff)
  then have run: "insert_feed_block lc b s = (block_absent lc b s,
     let v = normalize lc (fb_kind b) (fb_value b);
         s1 = (if block_absent lc b s then s\<lparr>t_feed_blocks := t_feed_blocks s @ [b\<lparr>fb_value := v\<rparr>]\<rparr> else s)
     in if block_absent lc b s \<and> fb_kind b = Url
        then s1\<lparr>t_feed_copies := delete_where (\<lambda>r. fcy_url r = v) (t_feed_copies s1)\<rparr> else s1)"
    by (simp only: insert_feed_block_def Let_def)
  show "fst (insert_feed_block lc b s) = block_absent lc b s"
    "t_feed_blocks (snd (insert_feed_block lc b s)) = (if block_absent lc b s
       then t_feed_blocks s @ [b\<lparr>fb_value := normalize lc (fb_kind b) (fb_value b)\<rparr>] else t_feed_blocks s)"
    "\<not> block_absent lc b s \<Longrightarrow> snd (insert_feed_block lc b s) = s"
    unfolding run by (simp_all add: Let_def)
qed

lemma get_block_inserted:
  assumes "fb_block_id b \<notin> fb_block_id ` set (t_feed_blocks s)"
  shows "get_feed_block_by_pair lc (snd (insert_feed_block lc b s)) kind v \<noteq> None \<longleftrightarrow>
    get_feed_block_by_pair lc s kind v \<noteq> None \<or> (fb_kind b = kind \<and> normalize lc kind v = normalize lc kind (fb_value b))"
proof -
  have "fb_pair ` set (t_feed_blocks (snd (insert_feed_block lc b s))) =
    insert (fb_kind b, normalize lc (fb_kind b) (fb_value b)) (fb_pair ` set (t_feed_blocks s))"
    using assms by (auto simp: insert_feed_block_result block_absent_def fb_pair_def)
  moreover have "get_feed_block_by_pair lc t kind v \<noteq> None \<longleftrightarrow> (kind, normalize lc kind v) \<in> fb_pair ` set (t_feed_blocks t)" for t
    unfolding get_feed_block_by_pair_def lookup_by_None by simp
  ultimately show ?thesis by (simp only: insert_iff prod.inject) auto
qed

lemma first_blocked_url_iff:
  "first_blocked_url lc s urls \<noteq> None \<longleftrightarrow> (\<exists>u\<in>set urls. u \<noteq> [] \<and> get_feed_block_by_pair lc s Url u \<noteq> None)"
  by (induction lc s urls rule: first_blocked_url.induct) (auto split: option.splits)

lemma find_feed_block_iff:
  "find_feed_block lc s guid urls \<noteq> None \<longleftrightarrow>
    (\<exists>g. guid = Some g \<and> get_feed_block_by_pair lc s Guid g \<noteq> None)
    \<or> (\<exists>u\<in>set urls. u \<noteq> [] \<and> get_feed_block_by_pair lc s Url u \<noteq> None)"
  using first_blocked_url_iff [of lc s urls]
  by (cases guid) (auto simp: find_feed_block_def split: option.splits)

section \<open>Seeding twice\<close>

lemma insert_block_present:
  "(fb_kind b, normalize lc (fb_kind b) (fb_value b)) \<in> fb_pair ` set (t_feed_blocks s) \<Longrightarrow>
   insert_feed_block lc b s = (False, s)"
  using insert_feed_block_result [of lc b s] by (simp add: block_absent_def prod_eq_iff)

definition seed_pair :: "(string \<Rightarrow> string) \<Rightarrow> feed_block_kind \<times> string \<Rightarrow> feed_block_kind \<times> string" where
  "seed_pair lc e = (fst e, normalize lc (fst e) (normalize lc (fst e) (snd e)))"

lemma seed_present:
  "seed_pair lc ` fst ` set es \<subseteq> fb_pair ` set (t_feed_blocks s) \<Longrightarrow> seed_blocks_loop lc json c key now es s = (Inr 0, s)"
proof (induction lc json c key now es rule: seed_blocks_loop.induct)
  case (2 lc json c key now kind v block_id event_id es)
  then have "insert_feed_block lc \<lparr>fb_block_id = block_id, fb_kind = kind, fb_value = normalize lc kind v,
      fb_reason = SEEDED_REASON, fb_blocked_at = now\<rparr> s = (False, s)"
    by (intro insert_block_present) (auto simp: seed_pair_def)
  with 2 show ?case by (simp add: dbind_def Let_def)
qed (simp add: dret_def)

lemma insert_event_blocks: "t_feed_blocks (snd (insert_event c key i et pj sg ca ws s)) = t_feed_blocks s"
  by (simp add: insert_event_def db_defs update_event_signature_def Let_def split: option.split prod.split)

lemma seed_loop_pairs:
  assumes "seed_blocks_loop lc json c key now es s = (Inr n, s')"
    and "distinct (map (\<lambda>e. fst (snd e)) es)" "(\<lambda>e. fst (snd e)) ` set es \<inter> fb_block_id ` set (t_feed_blocks s) = {}"
  shows "fb_pair ` set (t_feed_blocks s') = seed_pair lc ` fst ` set es \<union> fb_pair ` set (t_feed_blocks s)"
  using assms
proof (induction lc json c key now es arbitrary: s n rule: seed_blocks_loop.induct)
  case (2 lc json c key now kind v block_id event_id es)
  let ?b = "\<lparr>fb_block_id = block_id, fb_kind = kind, fb_value = normalize lc kind v, fb_reason = SEEDED_REASON, fb_blocked_at = now\<rparr>"
  obtain ch s1 where ins: "insert_feed_block lc ?b s = (ch, s1)" by force
  have blocks: "t_feed_blocks s1 = (if ch then t_feed_blocks s @ [?b\<lparr>fb_value := normalize lc kind (normalize lc kind v)\<rparr>] else t_feed_blocks s)"
    and ch: "ch \<longleftrightarrow> seed_pair lc (kind, v) \<notin> fb_pair ` set (t_feed_blocks s)"
    using insert_feed_block_result(1,2) [of lc ?b s] ins 2(5)
    by (auto simp: block_absent_def seed_pair_def)
  have pairs1: "fb_pair ` set (t_feed_blocks s1) = insert (seed_pair lc (kind, v)) (fb_pair ` set (t_feed_blocks s))"
    using ch by (auto simp: blocks seed_pair_def fb_pair_def)
  have ids1: "(\<lambda>e. fst (snd e)) ` set es \<inter> fb_block_id ` set (t_feed_blocks s1) = {}"
    using 2(4,5) by (auto simp: blocks)
  have dist: "distinct (map (\<lambda>e. fst (snd e)) es)" using 2(4) by simp
  show ?case
  proof (cases ch)
    case False
    have "fb_pair ` set (t_feed_blocks s') = seed_pair lc ` fst ` set es \<union> fb_pair ` set (t_feed_blocks s1)"
      by (rule 2(1) [OF refl, of False s1 n]) (use 2(3) ins False dist ids1 in \<open>auto simp: dbind_def Let_def\<close>)
    then show ?thesis by (auto simp: pairs1)
  next
    case True
    with 2(3) ins obtain r s2 m where ev: "insert_event c key event_id FeedBlocked (json (blocked_payload ?b)) block_id now [] s1 = (Inr r, s2)"
      and rest: "seed_blocks_loop lc json c key now es s2 = (Inr m, s')"
      by (auto simp: dbind_def dseq_def Let_def dret_def split: prod.splits sum.splits)
    from ev have b2: "t_feed_blocks s2 = t_feed_blocks s1"
      using insert_event_blocks [of c key event_id FeedBlocked "json (blocked_payload ?b)" block_id now "[]" s1] by simp
    have "fb_pair ` set (t_feed_blocks s') = seed_pair lc ` fst ` set es \<union> fb_pair ` set (t_feed_blocks s2)"
      by (rule 2(2) [OF refl, of True s2 m]) (use True rest dist ids1 in \<open>auto simp: b2\<close>)
    then show ?thesis by (auto simp: b2 pairs1)
  qed
qed (simp add: dret_def)

section \<open>Observations and resolution\<close>

lemma record_observation_facts:
  "get_feed_url_observation (snd (record_feed_url_observation url g now s)) u =
     (if u \<noteq> url then get_feed_url_observation s u
      else case get_feed_url_observation s url of
          None \<Rightarrow> Some \<lparr>ob_url = url, ob_feed_guid = g, ob_observed_at = now\<rparr>
        | Some row \<Rightarrow> Some (if ob_feed_guid row = g then row else \<lparr>ob_url = url, ob_feed_guid = g, ob_observed_at = now\<rparr>))
   \<and> (fst (record_feed_url_observation url g now s) = None \<longleftrightarrow>
        map_option ob_feed_guid (get_feed_url_observation s url) = Some g)
   \<and> record_feed_url_observation url g later (snd (record_feed_url_observation url g now s))
      = (None, snd (record_feed_url_observation url g now s))"
proof -
  let ?new = "\<lparr>ob_url = url, ob_feed_guid = g, ob_observed_at = now\<rparr>"
  let ?s = "snd (record_feed_url_observation url g now s)"
  have look: "get_feed_url_observation ?s u =
     (if u \<noteq> url then get_feed_url_observation s u
      else case get_feed_url_observation s url of None \<Rightarrow> Some ?new
        | Some row \<Rightarrow> Some (if ob_feed_guid row = g then row else ?new))" for u
  proof (cases "get_feed_url_observation s url")
    case None
    then have "url \<notin> ob_url ` set (t_feed_url_observations s)" by (simp add: get_feed_url_observation_def)
    then have "lookup_by ob_url (t_feed_url_observations s @ [?new]) u =
      (if u = url then Some ?new else lookup_by ob_url (t_feed_url_observations s) u)"
      using lookup_append_new [of url ob_url "t_feed_url_observations s" ?new u]
      by simp
    with None show ?thesis
      by (simp add: record_feed_url_observation_def get_feed_url_observation_def Let_def del: lookup_by_None)
  next
    case (Some row)
    let ?f = "\<lambda>r. r\<lparr>ob_feed_guid := g, ob_observed_at := now\<rparr>"
    have moved: "lookup_by ob_url (update_where (\<lambda>r. ob_url r = url) ?f (t_feed_url_observations s)) u =
        (if u = url then map_option ?f (lookup_by ob_url (t_feed_url_observations s) u)
         else lookup_by ob_url (t_feed_url_observations s) u)"
      by (rule lookup_update_where) simp
    have found: "lookup_by ob_url (t_feed_url_observations s) url = Some row"
      using Some by (simp add: get_feed_url_observation_def)
    then have "?f row = ?new" using lookup_by_Some [OF found] by (cases row) simp
    with moved found show ?thesis
      by (cases "u = url") (simp_all add: record_feed_url_observation_def get_feed_url_observation_def Let_def del: lookup_by_None)
  qed
  then have "\<exists>row. get_feed_url_observation ?s url = Some row \<and> ob_feed_guid row = g"
    by (auto split: option.split)
  then have "record_feed_url_observation url g later ?s = (None, ?s)"
    by (auto simp: record_feed_url_observation_def [of url g later] Let_def)
  moreover have "fst (record_feed_url_observation url g now s) = None \<longleftrightarrow>
        map_option ob_feed_guid (get_feed_url_observation s url) = Some g"
    by (auto simp: record_feed_url_observation_def Let_def split: option.split)
  ultimately show ?thesis by (simp add: look)
qed

lemma find_feed_exists: "find (\<lambda>f. fe_feed_url f = u) (t_feeds s) = Some f \<Longrightarrow> feed_exists (fe_feed_guid f) s"
  by (auto simp: feed_exists_def find_Some_iff)

lemma resolve_facts:
  "resolved_guid (resolve_listed_feed s g url) =
     (if feed_exists g s then Some g
      else Option.bind url (\<lambda>u.
        case Option.bind (get_feed_url_observation s u) (\<lambda>ob. if feed_exists (ob_feed_guid ob) s then Some (ob_feed_guid ob) else None) of
          Some h \<Rightarrow> Some h
        | None \<Rightarrow> map_option fe_feed_guid (find (\<lambda>f. fe_feed_url f = u) (t_feeds s))))
   \<and> pred_option (\<lambda>h. feed_exists h s) (resolved_guid (resolve_listed_feed s g url))"
  by (auto simp: resolve_listed_feed_def resolved_guid_def feed_indexed_by_stored_url_def
      intro: find_feed_exists split: option.splits)

section \<open>Properties of the registries\<close>

definition sample_block :: feed_block where
  "sample_block = \<lparr>fb_block_id = ''b1'', fb_kind = Guid, fb_value = ''  G1 '', fb_reason = ''spam'', fb_blocked_at = 5\<rparr>"

text \<open>
  After a block is inserted, a submission is refused exactly when it was refused before, or it
  carries the blocked GUID, or one of its non-empty URLs is the blocked URL, values being compared
  in their normal form.
\<close>

theorem inserted_block_is_found:
  assumes "fb_block_id b \<notin> fb_block_id ` set (t_feed_blocks s)"
  shows "find_feed_block lc (snd (insert_feed_block lc b s)) guid urls \<noteq> None \<longleftrightarrow>
    find_feed_block lc s guid urls \<noteq> None
    \<or> (fb_kind b = Guid \<and> (\<exists>g. guid = Some g \<and> normalize lc Guid g = normalize lc Guid (fb_value b)))
    \<or> (fb_kind b = Url \<and> (\<exists>u\<in>set urls. u \<noteq> [] \<and> normalize lc Url u = normalize lc Url (fb_value b)))"
  unfolding find_feed_block_iff get_block_inserted [OF assms] by auto

theorem inserted_block_is_found_witness:
  "find_feed_block to_ascii_lowercase (snd (insert_feed_block to_ascii_lowercase sample_block empty_db)) (Some ''g1'') [] \<noteq> None"
proof -
  have "normalize to_ascii_lowercase Guid ''g1'' = normalize to_ascii_lowercase Guid (fb_value sample_block)"
    by code_simp
  then show ?thesis
    using inserted_block_is_found [of sample_block empty_db to_ascii_lowercase "Some ''g1''" "[]"]
    by (simp add: empty_db_def sample_block_def)
qed

text \<open>
  Seeding the block list from the environment is idempotent: with fresh block ids, the start
  after a start that seeded the same entries adds nothing and writes no event.
\<close>

theorem seed_blocks_twice:
  assumes "seed_blocks lc json c key now es s = (Inr n, s')"
    and "distinct (map (\<lambda>e. fst (snd e)) es)" "(\<lambda>e. fst (snd e)) ` set es \<inter> fb_block_id ` set (t_feed_blocks s) = {}"
    and "map fst es' = map fst es"
  shows "seed_blocks lc json c key later es' s' = (Inr 0, s')"
proof -
  have "seed_blocks_loop lc json c key now es s = (Inr n, s')"
    using assms(1) by (auto simp: seed_blocks_def dtransaction_def split: prod.splits sum.splits)
  from seed_loop_pairs [OF this assms(2,3)] have "seed_pair lc ` fst ` set es' \<subseteq> fb_pair ` set (t_feed_blocks s')"
    using assms(4) by (metis list.set_map Un_upper1)
  then show ?thesis by (simp add: seed_blocks_def dtransaction_def seed_present)
qed

theorem seed_blocks_twice_witness:
  "\<exists>n s'. seed_blocks (\<lambda>t. t) (\<lambda>p. ''{}'') toy_crypto ''key'' 5 [((Guid, ''g1''), ''b1'', ''e1'')] empty_db = (Inr n, s')
    \<and> seed_blocks (\<lambda>t. t) (\<lambda>p. ''{}'') toy_crypto ''key'' 9 [((Guid, ''g1''), ''b2'', ''e2'')] s' = (Inr 0, s')"
proof -
  have "\<exists>n s'. seed_blocks (\<lambda>t. t) (\<lambda>p. ''{}'') toy_crypto ''key'' 5 [((Guid, ''g1''), ''b1'', ''e1'')] empty_db = (Inr n, s')"
    by (simp add: seed_blocks_def db_defs insert_feed_block_def insert_event_def event_id_taken_def empty_db_def
        prod.case_eq_if Let_def)
  then obtain n s' where run: "seed_blocks (\<lambda>t. t) (\<lambda>p. ''{}'') toy_crypto ''key'' 5 [((Guid, ''g1''), ''b1'', ''e1'')] empty_db = (Inr n, s')"
    by blast
  have "seed_blocks (\<lambda>t. t) (\<lambda>p. ''{}'') toy_crypto ''key'' 9 [((Guid, ''g1''), ''b2'', ''e2'')] s' = (Inr 0, s')"
    by (rule seed_blocks_twice [OF run]) (simp_all add: empty_db_def)
  with run show ?thesis by blast
qed

text \<open>
  Recording which GUID a URL served reports a change exactly when the recorded GUID was not
  already this one; afterwards the URL's observation is this GUID, every other URL keeps its own,
  and recording the same again changes nothing.
\<close>

theorem record_observation_result:
  "get_feed_url_observation (snd (record_feed_url_observation url g now s)) u =
     (if u \<noteq> url then get_feed_url_observation s u
      else case get_feed_url_observation s url of
          None \<Rightarrow> Some \<lparr>ob_url = url, ob_feed_guid = g, ob_observed_at = now\<rparr>
        | Some row \<Rightarrow> Some (if ob_feed_guid row = g then row else \<lparr>ob_url = url, ob_feed_guid = g, ob_observed_at = now\<rparr>))
   \<and> (fst (record_feed_url_observation url g now s) = None \<longleftrightarrow>
        map_option ob_feed_guid (get_feed_url_observation s url) = Some g)
   \<and> record_feed_url_observation url g later (snd (record_feed_url_observation url g now s))
      = (None, snd (record_feed_url_observation url g now s))"
  by (rule record_observation_facts)

text \<open>
  A listed feed resolves to its own GUID when that feed is indexed; otherwise, when it lists a
  URL, to the feed last observed at the URL if that one is indexed, else to the feed stored with
  the URL; and a resolution always names an indexed feed.
\<close>

theorem resolve_listed_feed_result:
  "resolved_guid (resolve_listed_feed s g url) =
     (if feed_exists g s then Some g
      else Option.bind url (\<lambda>u.
        case Option.bind (get_feed_url_observation s u) (\<lambda>ob. if feed_exists (ob_feed_guid ob) s then Some (ob_feed_guid ob) else None) of
          Some h \<Rightarrow> Some h
        | None \<Rightarrow> map_option fe_feed_guid (find (\<lambda>f. fe_feed_url f = u) (t_feeds s))))
   \<and> pred_option (\<lambda>h. feed_exists h s) (resolved_guid (resolve_listed_feed s g url))"
  by (rule resolve_facts)

end
