(* ===== verification/Moves.thy ===== *)
theory Moves
  imports Registry
begin

text \<open>
  The records of \<^verbatim>\<open>src/db.rs\<close> around a feed that changes place: copies seen at other URLs (ADR
  0058), holds and gone answers (ADR 0067, 0079), the left URLs and the return wait of a move
  (ADR 0083), pending GUID changes and supersessions (ADR 0052), and the sync cursors and push
  peers of the nodes.
\<close>

section \<open>Copies\<close>

definition MAX_COPIES_PER_GUID :: int where "MAX_COPIES_PER_GUID = 20"

definition fcy_key :: "feed_copy_row \<Rightarrow> string \<times> string" where
  "fcy_key r = (fcy_feed_guid r, fcy_url r)"

definition fcy_merge :: "feed_copy_row \<Rightarrow> feed_copy_row \<Rightarrow> feed_copy_row" where
  "fcy_merge old new = old\<lparr>fcy_summary := fcy_summary new, fcy_summary_digest := fcy_summary_digest new,
     fcy_remote_items_digest := fcy_remote_items_digest new\<rparr>"

definition upsert_feed_copy_summary ::
  "string \<Rightarrow> string \<Rightarrow> int \<Rightarrow> copy_summary \<Rightarrow> string \<Rightarrow> string option \<Rightarrow> db \<Rightarrow> db" where
  "upsert_feed_copy_summary feed_guid url first_seen summary digest items_digest s =
     s\<lparr>t_feed_copies := upsert_by fcy_key fcy_merge
        \<lparr>fcy_feed_guid = feed_guid, fcy_url = url, fcy_first_seen = first_seen, fcy_last_seen = None,
         fcy_summary = summary, fcy_summary_digest = digest, fcy_remote_items_digest = items_digest,
         fcy_resolution = None, fcy_resolution_reason = None, fcy_resolved_at = None,
         fcy_resolved_digest = None, fcy_resolved_remote_items_digest = None\<rparr>
        (t_feed_copies s)\<rparr>"

definition get_feed_copy :: "db \<Rightarrow> string \<Rightarrow> string \<Rightarrow> feed_copy_row option" where
  "get_feed_copy s feed_guid url = lookup_by fcy_key (t_feed_copies s) (feed_guid, url)"

definition list_feed_copies :: "db \<Rightarrow> string \<Rightarrow> feed_copy_row list" where
  "list_feed_copies s feed_guid =
     List.sort_key fcy_first_seen (filter (\<lambda>r. fcy_feed_guid r = feed_guid) (t_feed_copies s))"

definition count_feed_copies :: "db \<Rightarrow> string \<Rightarrow> int" where
  "count_feed_copies s feed_guid = int (length (filter (\<lambda>r. fcy_feed_guid r = feed_guid) (t_feed_copies s)))"

definition touch_feed_copy_last_seen :: "string \<Rightarrow> string \<Rightarrow> int \<Rightarrow> db \<Rightarrow> db" where
  "touch_feed_copy_last_seen feed_guid url now s =
     s\<lparr>t_feed_copies := update_where (\<lambda>r. fcy_feed_guid r = feed_guid \<and> fcy_url r = url)
        (\<lambda>r. r\<lparr>fcy_last_seen := Some now\<rparr>) (t_feed_copies s)\<rparr>"

definition increment_copy_overflow :: "string \<Rightarrow> db \<Rightarrow> db" where
  "increment_copy_overflow feed_guid s =
     s\<lparr>t_feed_copy_overflow := upsert_by fst (\<lambda>old new. (fst old, snd old + 1)) (feed_guid, 1)
        (t_feed_copy_overflow s)\<rparr>"

definition get_copy_overflow :: "db \<Rightarrow> string \<Rightarrow> int" where
  "get_copy_overflow s feed_guid =
     (case lookup_by fst (t_feed_copy_overflow s) feed_guid of None \<Rightarrow> 0 | Some r \<Rightarrow> snd r)"

definition set_feed_copy_resolution ::
  "string \<Rightarrow> string \<Rightarrow> string \<Rightarrow> string \<Rightarrow> int \<Rightarrow> string \<Rightarrow> string option \<Rightarrow> unit dbm" where
  "set_feed_copy_resolution feed_guid url decision reason resolved_at resolved_digest resolved_items_digest = dstmt
     (\<lambda>s. constraints (decision \<in> set [''keep_source'', ''relocate'']
        \<or> \<not> exists_where (\<lambda>r. fcy_feed_guid r = feed_guid \<and> fcy_url r = url) (t_feed_copies s)) True True)
     (\<lambda>s. s\<lparr>t_feed_copies := update_where (\<lambda>r. fcy_feed_guid r = feed_guid \<and> fcy_url r = url)
        (\<lambda>r. r\<lparr>fcy_resolution := Some decision, fcy_resolution_reason := Some reason,
          fcy_resolved_at := Some resolved_at, fcy_resolved_digest := Some resolved_digest,
          fcy_resolved_remote_items_digest := resolved_items_digest\<rparr>) (t_feed_copies s)\<rparr>)"

definition recipient_key :: "route_recipient \<Rightarrow> string \<times> string option \<times> string option \<times> int" where
  "recipient_key r = (rr_address r, rr_custom_key r, rr_custom_value r, rr_split r)"

definition recipient_sets_equal :: "route_recipient list \<Rightarrow> route_recipient list \<Rightarrow> bool" where
  "recipient_sets_equal a b \<longleftrightarrow>
     length a = length b \<and> sort (map recipient_key a) = sort (map recipient_key b)"

definition copy_entry_key ::
  "db \<Rightarrow> string \<Rightarrow> string option \<Rightarrow> string option
   \<Rightarrow> string option \<times> string option \<times> string option \<times> string option" where
  "copy_entry_key s feed_guid feed_url item_guid =
     (case resolved_guid (resolve_listed_feed s feed_guid feed_url) of
        Some g \<Rightarrow> (Some g, None, None, item_guid)
      | None \<Rightarrow> (None, Some feed_guid, feed_url, item_guid))"

text \<open>The track loop: the first track with a changed recipient set ends it.\<close>

fun track_recipients_differ :: "db \<Rightarrow> string \<Rightarrow> (string \<times> route_recipient list) list \<Rightarrow> track list \<Rightarrow> bool" where
  "track_recipients_differ s g stored [] = False"
| "track_recipients_differ s g stored (t # ts) =
     (case map_of stored (tr_track_guid t) of
        None \<Rightarrow> track_recipients_differ s g stored ts
      | Some rs \<Rightarrow>
          if \<not> recipient_sets_equal (recipient_set (get_payment_routes_for_feed_track s g (tr_track_guid t))) rs
          then True else track_recipients_differ s g stored ts)"

definition copy_differences :: "db \<Rightarrow> string \<Rightarrow> feed_copy_row \<Rightarrow> bool \<times> bool \<times> bool" where
  "copy_differences s feed_guid row =
     (let tracks = get_tracks_for_feed s feed_guid;
          summary = fcy_summary row;
          differs_tracks = set (map tr_track_guid tracks) \<noteq> set (cs_item_guids summary);
          feed_differs = \<not> recipient_sets_equal
             (feed_recipient_set (get_feed_payment_routes_for_feed s feed_guid)) (cs_feed_recipients summary);
          differs_recipients = (if feed_differs then True
             else track_recipients_differ s feed_guid (cs_track_recipients summary) tracks);
          differs_remote_items = (case cs_remote_items summary of None \<Rightarrow> False
             | Some items \<Rightarrow>
                 set (map (\<lambda>i. copy_entry_key s (fri_remote_feed_guid i) (fri_remote_feed_url i) (fri_remote_item_guid i))
                   (get_feed_remote_items_for_feed s feed_guid))
                 \<noteq> set (map (\<lambda>i. copy_entry_key s (cri_feed_guid i) (cri_feed_url i) (cri_item_guid i)) items))
      in (differs_tracks, differs_recipients, differs_remote_items))"

definition copy_resolution_holds :: "feed_copy_row \<Rightarrow> bool" where
  "copy_resolution_holds row \<longleftrightarrow>
     is_some_and (\<lambda>d. d = fcy_summary_digest row) (fcy_resolved_digest row)
     \<and> (case fcy_resolved_remote_items_digest row of None \<Rightarrow> True | Some d \<Rightarrow> Some d = fcy_remote_items_digest row)"

definition is_open_copy :: "bool \<Rightarrow> bool \<Rightarrow> bool \<Rightarrow> feed_copy_row \<Rightarrow> bool" where
  "is_open_copy differs_tracks differs_recipients differs_remote_items row \<longleftrightarrow>
     (differs_tracks \<or> differs_recipients \<or> differs_remote_items) \<and> \<not> copy_resolution_holds row"

definition copy_is_open :: "db \<Rightarrow> string \<Rightarrow> feed_copy_row \<Rightarrow> bool" where
  "copy_is_open s g row = (let (a, b, c) = copy_differences s g row in is_open_copy a b c row)"

fun open_copy_loop :: "db \<Rightarrow> string \<Rightarrow> int \<Rightarrow> int option \<Rightarrow> feed_copy_row list \<Rightarrow> int \<times> int option" where
  "open_copy_loop s g n newest [] = (n, newest)"
| "open_copy_loop s g n newest (row # rows) =
     (if copy_is_open s g row
      then open_copy_loop s g (n + 1)
             (Some (case newest of None \<Rightarrow> fcy_first_seen row | Some seen \<Rightarrow> max seen (fcy_first_seen row))) rows
      else open_copy_loop s g n newest rows)"

definition open_copy_summary :: "db \<Rightarrow> string \<Rightarrow> int \<times> int option" where
  "open_copy_summary s feed_guid =
     (if count_feed_copies s feed_guid = 0 then (0, None)
      else open_copy_loop s feed_guid 0 None (list_feed_copies s feed_guid))"

definition list_feed_copy_guids :: "db \<Rightarrow> string list" where
  "list_feed_copy_guids s = remdups (map fcy_feed_guid (t_feed_copies s))"

section \<open>Gone answers and holds\<close>

definition feed_guid_for_source_url :: "db \<Rightarrow> string \<Rightarrow> string option" where
  "feed_guid_for_source_url s url = map_option fst (feed_indexed_by_stored_url s url)"

definition get_source_gone_answer :: "db \<Rightarrow> string \<Rightarrow> source_gone_row option" where
  "get_source_gone_answer s g = lookup_by sg_feed_guid (t_source_gone_answers s) g"

definition record_source_gone_answer :: "string \<Rightarrow> string \<Rightarrow> int \<Rightarrow> u16 \<Rightarrow> unit dbm" where
  "record_source_gone_answer feed_guid source_url now status = dstmt
     (\<lambda>s. constraints True True (feed_exists feed_guid s
        \<or> exists_where (\<lambda>r. sg_feed_guid r = feed_guid) (t_source_gone_answers s)))
     (\<lambda>s. s\<lparr>t_source_gone_answers := upsert_by sg_feed_guid
        (\<lambda>old new. old\<lparr>sg_last_gone_at := sg_last_gone_at new, sg_last_status := sg_last_status new\<rparr>)
        \<lparr>sg_feed_guid = feed_guid, sg_source_url = source_url, sg_first_gone_at = now,
         sg_last_gone_at = now, sg_last_status = uint status\<rparr> (t_source_gone_answers s)\<rparr>)"

definition get_retired_source_hold :: "(string \<Rightarrow> string) \<Rightarrow> db \<Rightarrow> string \<Rightarrow> retired_source_hold option" where
  "get_retired_source_hold lc s feed_guid = lookup_by rsh_feed_guid (t_retired_source_holds s) (lc feed_guid)"

text \<open>\<^verbatim>\<open>lower()\<close> of SQL changes ASCII letters only.\<close>

definition release_retired_source_hold :: "string \<Rightarrow> int \<Rightarrow> db \<Rightarrow> bool \<times> db" where
  "release_retired_source_hold feed_guid released_at s =
     (let p = (\<lambda>r. rsh_feed_guid r = to_ascii_lowercase feed_guid \<and> rsh_released_at r = None)
      in (exists_where p (t_retired_source_holds s),
          s\<lparr>t_retired_source_holds := update_where p (\<lambda>r. r\<lparr>rsh_released_at := Some released_at\<rparr>)
             (t_retired_source_holds s)\<rparr>))"

definition HOLD_RETIRE_REASONS :: "string list" where
  "HOLD_RETIRE_REASONS = [''podcast_block'', ''source_gone'', ''admin retired via API'']"

text \<open>The last \<^verbatim>\<open>feed\_retired\<close> event of each subject, in log order.\<close>

definition last_retires :: "db \<Rightarrow> event_row list" where
  "last_retires s = List.sort_key er_seq (filter (\<lambda>e. er_event_type e = FeedRetired
      \<and> \<not> exists_where (\<lambda>r. er_event_type r = FeedRetired \<and> er_subject_guid r = er_subject_guid e
            \<and> er_seq r > er_seq e) (t_events s)) (t_events s))"

definition last_upsert_before :: "db \<Rightarrow> string \<Rightarrow> int \<Rightarrow> event_row option" where
  "last_upsert_before s g seq = (case rev (List.sort_key er_seq (filter (\<lambda>e. er_event_type e = FeedUpserted
      \<and> er_subject_guid e = g \<and> er_seq e < seq) (t_events s))) of [] \<Rightarrow> None | e # _ \<Rightarrow> Some e)"

text \<open>
  \<open>retire\_reason\<close> decodes the reason of a retire payload and \<open>upserted\_url\<close> the feed URL of an
  upsert payload; \<^verbatim>\<open>None\<close> is a JSON error, which ends the call.
\<close>

fun fill_holds_loop ::
  "(string \<Rightarrow> string) \<Rightarrow> (string \<Rightarrow> string option option) \<Rightarrow> (string \<Rightarrow> string option) \<Rightarrow> event_row list \<Rightarrow> nat dbm" where
  "fill_holds_loop lc retire_reason upserted_url [] = dret 0"
| "fill_holds_loop lc retire_reason upserted_url (e # es) =
     (let guid = er_subject_guid e; lower = lc guid; rest = fill_holds_loop lc retire_reason upserted_url es in
      case retire_reason (er_payload_json e) of
        None \<Rightarrow> dfail (Json ''feed_retired'')
      | Some None \<Rightarrow> rest
      | Some (Some reason) \<Rightarrow>
          if reason \<notin> set HOLD_RETIRE_REASONS then rest
          else dbind (dread (\<lambda>s. exists_where (\<lambda>f. fe_feed_guid f = guid \<or> fe_feed_guid f = lower) (t_feeds s)
                 \<or> exists_where (\<lambda>b. fb_kind b = Guid \<and> fb_value b = lower) (t_feed_blocks s)
                 \<or> exists_where (\<lambda>h. rsh_feed_guid h = lower) (t_retired_source_holds s))) (\<lambda>skip.
               if skip then rest
               else dbind (dread (\<lambda>s. last_upsert_before s guid (er_seq e))) (\<lambda>up. case up of
                   None \<Rightarrow> rest
                 | Some u \<Rightarrow> (case upserted_url (er_payload_json u) of
                       None \<Rightarrow> dfail (Json ''feed_upserted'')
                     | Some url \<Rightarrow> dseq
                         (dexec (\<lambda>s. s\<lparr>t_retired_source_holds := t_retired_source_holds s @
                            [\<lparr>rsh_feed_guid = lower, rsh_source_url = url, rsh_reason = reason,
                              rsh_retired_at = er_created_at e, rsh_released_at = None\<rparr>]\<rparr>))
                         (dbind rest (\<lambda>n. dret (Suc n)))))))"

definition fill_retired_source_holds ::
  "(string \<Rightarrow> string) \<Rightarrow> (string \<Rightarrow> string option option) \<Rightarrow> (string \<Rightarrow> string option) \<Rightarrow> nat dbm" where
  "fill_retired_source_holds lc retire_reason upserted_url =
     dtransaction (dbind (dread last_retires) (fill_holds_loop lc retire_reason upserted_url))"

section \<open>Declarations and moves\<close>

definition get_declared_self_url :: "db \<Rightarrow> string \<Rightarrow> string option" where
  "get_declared_self_url s g = Option.bind (lookup_by fe_feed_guid (t_feeds s) g) fr_declared_self_url"

definition set_declared_self_url :: "string \<Rightarrow> string option \<Rightarrow> db \<Rightarrow> db" where
  "set_declared_self_url g u s = s\<lparr>t_feeds := update_where (\<lambda>r. fe_feed_guid r = g)
     (\<lambda>r. r\<lparr>fr_declared_self_url := u\<rparr>) (t_feeds s)\<rparr>"

definition get_declared_new_feed_url :: "db \<Rightarrow> string \<Rightarrow> string option" where
  "get_declared_new_feed_url s g = Option.bind (lookup_by fe_feed_guid (t_feeds s) g) fr_declared_new_feed_url"

definition set_feed_move_declarations :: "string \<Rightarrow> string option \<Rightarrow> bool option \<Rightarrow> string option \<Rightarrow> db \<Rightarrow> db" where
  "set_feed_move_declarations g new_url locked owner s = s\<lparr>t_feeds := update_where (\<lambda>r. fe_feed_guid r = g)
     (\<lambda>r. r\<lparr>fr_declared_new_feed_url := new_url, fr_podcast_locked := locked, fr_locked_owner := owner\<rparr>) (t_feeds s)\<rparr>"

definition clear_declared_new_feed_url :: "string \<Rightarrow> db \<Rightarrow> db" where
  "clear_declared_new_feed_url g s = s\<lparr>t_feeds := update_where (\<lambda>r. fe_feed_guid r = g)
     (\<lambda>r. r\<lparr>fr_declared_new_feed_url := None\<rparr>) (t_feeds s)\<rparr>"

definition get_left_urls :: "db \<Rightarrow> string \<Rightarrow> string list" where
  "get_left_urls s g = sort (map snd (filter (\<lambda>r. fst r = g) (t_feed_left_urls s)))"

definition add_left_url :: "string \<Rightarrow> string \<Rightarrow> db \<Rightarrow> db" where
  "add_left_url g url s = (if (g, url) \<in> set (t_feed_left_urls s) then s
     else s\<lparr>t_feed_left_urls := t_feed_left_urls s @ [(g, url)]\<rparr>)"

definition remove_left_url :: "string \<Rightarrow> string \<Rightarrow> db \<Rightarrow> db" where
  "remove_left_url g url s = s\<lparr>t_feed_left_urls := delete_where (\<lambda>r. r = (g, url)) (t_feed_left_urls s)\<rparr>"

record move_state =
  ms_arrival_tag :: "string option"
  ms_return_count :: int
  ms_last_return_at :: "int option"

record feed_move_write =
  fm_old_url :: string
  fm_new_url :: string
  fm_arrival_tag :: "string option"
  fm_return_values :: "(int \<times> int) option"

definition RETURN_WAIT_BASE_SECS :: int where "RETURN_WAIT_BASE_SECS = 3600"
definition RETURN_WAIT_LIMIT_SECS :: int where "RETURN_WAIT_LIMIT_SECS = 604800"
definition RETURN_COUNT_RESET_SECS :: int where "RETURN_COUNT_RESET_SECS = 2592000"

definition saturating_add :: "int \<Rightarrow> int \<Rightarrow> int" where
  "saturating_add a b = max i64_min (min i64_max (a + b))"

definition saturating_sub :: "int \<Rightarrow> int \<Rightarrow> int" where
  "saturating_sub a b = max i64_min (min i64_max (a - b))"

definition effective_return_count :: "int \<Rightarrow> int option \<Rightarrow> int \<Rightarrow> int" where
  "effective_return_count n last_return_at now =
     (case last_return_at of None \<Rightarrow> 0
      | Some prev \<Rightarrow>
          if n > 0 \<and> saturating_sub now prev < RETURN_COUNT_RESET_SECS then n else 0)"

text \<open>\<^verbatim>\<open>u32::try\_from(effective - 1)\<close> gives \<^verbatim>\<open>u32::MAX\<close> above 32 bits; the shift is at most 20.\<close>

definition return_cooldown_end :: "int \<Rightarrow> int option \<Rightarrow> int \<Rightarrow> int option" where
  "return_cooldown_end n last_return_at now =
     (let effective = effective_return_count n last_return_at now in
      if effective < 1 then None
      else
        let shift = min (if effective - 1 < 2 ^ 32 then effective - 1 else 2 ^ 32 - 1) 20;
            wait = min (RETURN_WAIT_BASE_SECS * 2 ^ nat shift) RETURN_WAIT_LIMIT_SECS
        in map_option (\<lambda>prev. saturating_add prev wait) last_return_at)"

definition get_move_state :: "db \<Rightarrow> string \<Rightarrow> move_state" where
  "get_move_state s g = (case lookup_by mv_feed_guid (t_feed_move_state s) g of
       None \<Rightarrow> \<lparr>ms_arrival_tag = None, ms_return_count = 0, ms_last_return_at = None\<rparr>
     | Some r \<Rightarrow> \<lparr>ms_arrival_tag = mv_arrival_tag r, ms_return_count = mv_return_count r,
                  ms_last_return_at = mv_last_return_at r\<rparr>)"

definition clear_arrival_tag_unless :: "string \<Rightarrow> string option \<Rightarrow> db \<Rightarrow> db" where
  "clear_arrival_tag_unless g tag s = s\<lparr>t_feed_move_state := update_where (\<lambda>r. mv_feed_guid r = g)
     (\<lambda>r. r\<lparr>mv_arrival_tag := (if mv_arrival_pending r then tag
                               else if mv_arrival_tag r = tag then mv_arrival_tag r else None),
            mv_arrival_pending := False\<rparr>) (t_feed_move_state s)\<rparr>"

definition write_feed_move :: "string \<Rightarrow> feed_move_write \<Rightarrow> db \<Rightarrow> db" where
  "write_feed_move g mv s =
     (let s1 = remove_left_url g (fm_new_url mv) (add_left_url g (fm_old_url mv) s);
          s2 = s1\<lparr>t_feed_move_state := upsert_by mv_feed_guid
                 (\<lambda>old new. old\<lparr>mv_arrival_tag := mv_arrival_tag new, mv_arrival_pending := False\<rparr>)
                 \<lparr>mv_feed_guid = g, mv_arrival_tag = fm_arrival_tag mv, mv_return_count = 0,
                  mv_last_return_at = None, mv_arrival_pending = False\<rparr> (t_feed_move_state s1)\<rparr>
      in case fm_return_values mv of None \<Rightarrow> s2
         | Some (n, at) \<Rightarrow> s2\<lparr>t_feed_move_state := update_where (\<lambda>r. mv_feed_guid r = g)
              (\<lambda>r. r\<lparr>mv_return_count := n, mv_last_return_at := Some at\<rparr>) (t_feed_move_state s2)\<rparr>)"

definition write_relocation_state :: "string \<Rightarrow> string \<Rightarrow> string \<Rightarrow> db \<Rightarrow> db" where
  "write_relocation_state g old_url new_url s =
     (let s1 = remove_left_url g new_url (add_left_url g old_url s) in
      s1\<lparr>t_feed_move_state := upsert_by mv_feed_guid
        (\<lambda>old new. old\<lparr>mv_arrival_tag := None, mv_return_count := 0, mv_arrival_pending := True\<rparr>)
        \<lparr>mv_feed_guid = g, mv_arrival_tag = None, mv_return_count = 0, mv_last_return_at = None,
         mv_arrival_pending = True\<rparr> (t_feed_move_state s1)\<rparr>)"

section \<open>GUID changes\<close>

definition get_guid_change :: "db \<Rightarrow> string \<Rightarrow> guid_change_row option" where
  "get_guid_change s url = lookup_by gc_source_url (t_feed_guid_changes s) url"

definition get_guid_change_for_old_guid :: "db \<Rightarrow> string \<Rightarrow> guid_change_row option" where
  "get_guid_change_for_old_guid s g =
     (case List.sort_key (\<lambda>r. - gc_first_seen r) (filter (\<lambda>r. gc_old_guid r = g) (t_feed_guid_changes s)) of
        [] \<Rightarrow> None | r # _ \<Rightarrow> Some r)"

definition get_pending_guid_change_for_feed :: "db \<Rightarrow> string \<Rightarrow> guid_change_row option" where
  "get_pending_guid_change_for_feed s g =
     find (\<lambda>c. exists_where (\<lambda>f. fe_feed_url f = gc_source_url c \<and> fe_feed_guid f = g) (t_feeds s))
       (t_feed_guid_changes s)"

definition list_guid_changes :: "db \<Rightarrow> guid_change_row list" where
  "list_guid_changes s = List.sort_key (\<lambda>r. - gc_first_seen r)
     (filter (\<lambda>r. gc_decision r \<noteq> Some ''reject'') (t_feed_guid_changes s))"

text \<open>The right-hand sides of the \<^verbatim>\<open>UPDATE\<close> read the old row.\<close>

definition gc_merge :: "guid_change_row \<Rightarrow> guid_change_row \<Rightarrow> guid_change_row" where
  "gc_merge old new = (let same = (gc_new_guid old = gc_new_guid new) in
     old\<lparr>gc_old_guid := gc_old_guid new, gc_new_guid := gc_new_guid new,
       gc_first_seen := (if same then gc_first_seen old else gc_first_seen new),
       gc_decision := (if same then gc_decision old else None),
       gc_decision_reason := (if same then gc_decision_reason old else None),
       gc_decided_at := (if same then gc_decided_at old else None)\<rparr>)"

definition upsert_guid_change :: "string \<Rightarrow> string \<Rightarrow> string \<Rightarrow> int \<Rightarrow> db \<Rightarrow> db" where
  "upsert_guid_change source_url old_guid new_guid first_seen s =
     s\<lparr>t_feed_guid_changes := upsert_by gc_source_url gc_merge
        \<lparr>gc_source_url = source_url, gc_old_guid = old_guid, gc_new_guid = new_guid,
         gc_first_seen = first_seen, gc_last_seen = None, gc_decision = None,
         gc_decision_reason = None, gc_decided_at = None\<rparr> (t_feed_guid_changes s)\<rparr>"

definition touch_guid_change_last_seen :: "string \<Rightarrow> int \<Rightarrow> db \<Rightarrow> db" where
  "touch_guid_change_last_seen source_url now s = s\<lparr>t_feed_guid_changes :=
     update_where (\<lambda>r. gc_source_url r = source_url) (\<lambda>r. r\<lparr>gc_last_seen := Some now\<rparr>) (t_feed_guid_changes s)\<rparr>"

definition delete_guid_change :: "string \<Rightarrow> db \<Rightarrow> db" where
  "delete_guid_change source_url s = s\<lparr>t_feed_guid_changes :=
     delete_where (\<lambda>r. gc_source_url r = source_url) (t_feed_guid_changes s)\<rparr>"

definition set_guid_change_decision :: "string \<Rightarrow> string \<Rightarrow> string \<Rightarrow> int \<Rightarrow> unit dbm" where
  "set_guid_change_decision source_url decision reason decided_at = dstmt
     (\<lambda>s. constraints (decision \<in> set [''approve'', ''reject'']
        \<or> \<not> exists_where (\<lambda>r. gc_source_url r = source_url) (t_feed_guid_changes s)) True True)
     (\<lambda>s. s\<lparr>t_feed_guid_changes := update_where (\<lambda>r. gc_source_url r = source_url)
        (\<lambda>r. r\<lparr>gc_decision := Some decision, gc_decision_reason := Some reason, gc_decided_at := Some decided_at\<rparr>)
        (t_feed_guid_changes s)\<rparr>)"

definition insert_guid_supersession :: "string \<Rightarrow> string \<Rightarrow> string \<Rightarrow> int \<Rightarrow> db \<Rightarrow> db" where
  "insert_guid_supersession old_guid new_guid source_url superseded_at s =
     (if exists_where (\<lambda>r. gs_old_guid r = old_guid) (t_feed_guid_supersessions s) then s
      else s\<lparr>t_feed_guid_supersessions := t_feed_guid_supersessions s @
        [\<lparr>gs_old_guid = old_guid, gs_new_guid = new_guid, gs_source_url = source_url,
          gs_superseded_at = superseded_at\<rparr>]\<rparr>)"

definition get_guid_supersession :: "db \<Rightarrow> string \<Rightarrow> guid_supersession_row option" where
  "get_guid_supersession s g = lookup_by gs_old_guid (t_feed_guid_supersessions s) g"

section \<open>Sync cursors and peers\<close>

definition ns_merge :: "node_sync_row \<Rightarrow> node_sync_row \<Rightarrow> node_sync_row" where
  "ns_merge old new = old\<lparr>ns_last_seq := max (ns_last_seq old) (ns_last_seq new),
     ns_last_seen_at := ns_last_seen_at new\<rparr>"

definition upsert_node_sync_state :: "string \<Rightarrow> int \<Rightarrow> int \<Rightarrow> db \<Rightarrow> db" where
  "upsert_node_sync_state node_pubkey last_seq last_seen_at s =
     s\<lparr>t_node_sync_state := upsert_by ns_node_pubkey ns_merge
        \<lparr>ns_node_pubkey = node_pubkey, ns_last_seq = last_seq, ns_last_seen_at = last_seen_at\<rparr>
        (t_node_sync_state s)\<rparr>"

definition get_node_sync_cursor :: "db \<Rightarrow> string \<Rightarrow> int" where
  "get_node_sync_cursor s k =
     (case lookup_by ns_node_pubkey (t_node_sync_state s) k of None \<Rightarrow> 0 | Some r \<Rightarrow> ns_last_seq r)"

definition MAX_PEER_FAILURES :: int where "MAX_PEER_FAILURES = 10"

definition get_push_peers :: "db \<Rightarrow> peer_node list" where
  "get_push_peers s = filter (\<lambda>p. pn_consecutive_failures p < MAX_PEER_FAILURES) (t_peer_nodes s)"

definition push_subscribers_at_start :: "db \<Rightarrow> string \<rightharpoonup> string" where
  "push_subscribers_at_start s = map_of (map (\<lambda>p. (pn_node_pubkey p, pn_node_url p)) (get_push_peers s))"

definition upsert_peer_node :: "string \<Rightarrow> string \<Rightarrow> int \<Rightarrow> db \<Rightarrow> db" where
  "upsert_peer_node k url now s = s\<lparr>t_peer_nodes := upsert_by pn_node_pubkey
     (\<lambda>old new. old\<lparr>pn_node_url := pn_node_url new\<rparr>)
     \<lparr>pn_node_pubkey = k, pn_node_url = url, pn_discovered_at = now, pn_last_push_at = None,
      pn_consecutive_failures = 0\<rparr> (t_peer_nodes s)\<rparr>"

definition record_push_success :: "string \<Rightarrow> int \<Rightarrow> db \<Rightarrow> db" where
  "record_push_success k now s = s\<lparr>t_peer_nodes := update_where (\<lambda>p. pn_node_pubkey p = k)
     (\<lambda>p. p\<lparr>pn_last_push_at := Some now, pn_consecutive_failures := 0\<rparr>) (t_peer_nodes s)\<rparr>"

definition increment_peer_failures :: "string \<Rightarrow> db \<Rightarrow> db" where
  "increment_peer_failures k s = s\<lparr>t_peer_nodes := update_where (\<lambda>p. pn_node_pubkey p = k)
     (\<lambda>p. p\<lparr>pn_consecutive_failures := pn_consecutive_failures p + 1\<rparr>) (t_peer_nodes s)\<rparr>"

definition reset_peer_failures :: "string \<Rightarrow> db \<Rightarrow> db" where
  "reset_peer_failures k s = s\<lparr>t_peer_nodes := update_where (\<lambda>p. pn_node_pubkey p = k)
     (\<lambda>p. p\<lparr>pn_consecutive_failures := 0\<rparr>) (t_peer_nodes s)\<rparr>"

section \<open>The wait after a return\<close>

lemma cooldown_wait:
  assumes "1 \<le> n"
  shows "min (RETURN_WAIT_BASE_SECS * 2 ^ nat (min (if n - 1 < 2 ^ 32 then n - 1 else 2 ^ 32 - 1) 20)) RETURN_WAIT_LIMIT_SECS
    = min (RETURN_WAIT_BASE_SECS * 2 ^ nat (n - 1)) RETURN_WAIT_LIMIT_SECS"
proof (cases "n - 1 < 20")
  case True
  then show ?thesis by (simp add: min_def)
next
  case False
  have big: "RETURN_WAIT_LIMIT_SECS \<le> RETURN_WAIT_BASE_SECS * 2 ^ k" if "20 \<le> k" for k
  proof -
    have "(2::int) ^ 20 \<le> 2 ^ k" using that by (intro power_increasing) auto
    then show ?thesis by (simp add: RETURN_WAIT_BASE_SECS_def RETURN_WAIT_LIMIT_SECS_def)
  qed
  have "20 \<le> nat (n - 1)" "20 \<le> nat (min (if n - 1 < 2 ^ 32 then n - 1 else 2 ^ 32 - 1) 20)"
    using False by (auto simp: nat_le_iff le_nat_iff)
  from big [OF this(1)] big [OF this(2)] show ?thesis by (simp add: min_absorb2)
qed

section \<open>Counting open copies\<close>

fun newest_seen :: "int option \<Rightarrow> feed_copy_row list \<Rightarrow> int option" where
  "newest_seen n [] = n"
| "newest_seen n (r # rs) = newest_seen (Some (case n of None \<Rightarrow> fcy_first_seen r | Some m \<Rightarrow> max m (fcy_first_seen r))) rs"

lemma newest_seen_Max: "newest_seen (Some m) rs = Some (Max (insert m (fcy_first_seen ` set rs)))"
proof (induction rs arbitrary: m)
  case (Cons r rs)
  have "Max (insert m (insert (fcy_first_seen r) (fcy_first_seen ` set rs)))
      = Max (insert (max m (fcy_first_seen r)) (fcy_first_seen ` set rs))"
    by (cases "rs = []") (simp_all add: max.assoc)
  with Cons show ?case by simp
qed simp

lemma open_copy_loop_filter:
  "open_copy_loop s g n newest rows = (n + int (length (filter (copy_is_open s g) rows)), newest_seen newest (filter (copy_is_open s g) rows))"
  by (induction s g n newest rows rule: open_copy_loop.induct) auto

lemma open_copy_summary_facts:
  "open_copy_summary s g =
    (let open_rows = filter (\<lambda>r. fcy_feed_guid r = g \<and> copy_is_open s g r) (t_feed_copies s)
     in (int (length open_rows), if open_rows = [] then None else Some (Max (fcy_first_seen ` set open_rows))))"
proof -
  let ?rows = "filter (\<lambda>r. fcy_feed_guid r = g) (t_feed_copies s)"
  let ?open = "filter (\<lambda>r. fcy_feed_guid r = g \<and> copy_is_open s g r) (t_feed_copies s)"
  let ?f = "filter (copy_is_open s g) (list_feed_copies s g)"
  have "?f = List.sort_key fcy_first_seen ?open"
    by (simp add: list_feed_copies_def filter_sort conj_commute)
  then have same: "length ?f = length ?open" "set ?f = set ?open" by simp_all
  show ?thesis
  proof (cases "count_feed_copies s g = 0")
    case True
    then have "?rows = []" by (simp add: count_feed_copies_def)
    then have "?open = []" by (auto simp: filter_empty_conv)
    with True show ?thesis by (simp add: open_copy_summary_def)
  next
    case False
    have "newest_seen None ?f = (if ?open = [] then None else Some (Max (fcy_first_seen ` set ?open)))"
    proof (cases ?f)
      case Nil
      with same(1) show ?thesis by simp
    next
      case (Cons r rs)
      with same(1) have "?open \<noteq> []" by auto
      moreover have "newest_seen None ?f = Some (Max (fcy_first_seen ` set ?f))"
        by (simp add: Cons newest_seen_Max)
      ultimately show ?thesis by (simp only: same(2) if_False)
    qed
    with False same(1) show ?thesis by (simp add: open_copy_summary_def open_copy_loop_filter Let_def)
  qed
qed

section \<open>Filling the holds twice\<close>

text \<open>What a run of the loop may change: the holds, by adding rows.\<close>

definition holds_grow :: "db \<Rightarrow> db \<Rightarrow> bool" where
  "holds_grow s s' \<longleftrightarrow> t_feeds s' = t_feeds s \<and> t_feed_blocks s' = t_feed_blocks s \<and> t_events s' = t_events s
     \<and> set (t_retired_source_holds s) \<subseteq> set (t_retired_source_holds s')"

lemma holds_grow_refl [simp]: "holds_grow s s"
  by (simp add: holds_grow_def)

lemma holds_grow_trans: "holds_grow s s1 \<Longrightarrow> holds_grow s1 s2 \<Longrightarrow> holds_grow s s2"
  by (auto simp: holds_grow_def)

definition hold_skips :: "(string \<Rightarrow> string) \<Rightarrow> event_row \<Rightarrow> db \<Rightarrow> bool" where
  "hold_skips lc e s \<longleftrightarrow> exists_where (\<lambda>f. fe_feed_guid f = er_subject_guid e \<or> fe_feed_guid f = lc (er_subject_guid e)) (t_feeds s)
     \<or> exists_where (\<lambda>b. fb_kind b = Guid \<and> fb_value b = lc (er_subject_guid e)) (t_feed_blocks s)
     \<or> exists_where (\<lambda>h. rsh_feed_guid h = lc (er_subject_guid e)) (t_retired_source_holds s)"

definition hold_row :: "(string \<Rightarrow> string) \<Rightarrow> event_row \<Rightarrow> string \<Rightarrow> string \<Rightarrow> retired_source_hold" where
  "hold_row lc e url reason = \<lparr>rsh_feed_guid = lc (er_subject_guid e), rsh_source_url = url, rsh_reason = reason,
     rsh_retired_at = er_created_at e, rsh_released_at = None\<rparr>"

lemma fill_holds_step:
  "fill_holds_loop lc rr uu (e # es) s =
    (case rr (er_payload_json e) of None \<Rightarrow> (Inl (Json ''feed_retired''), s)
     | Some None \<Rightarrow> fill_holds_loop lc rr uu es s
     | Some (Some reason) \<Rightarrow>
         if reason \<notin> set HOLD_RETIRE_REASONS \<or> hold_skips lc e s then fill_holds_loop lc rr uu es s
         else (case last_upsert_before s (er_subject_guid e) (er_seq e) of
             None \<Rightarrow> fill_holds_loop lc rr uu es s
           | Some u \<Rightarrow> (case uu (er_payload_json u) of None \<Rightarrow> (Inl (Json ''feed_upserted''), s)
               | Some url \<Rightarrow> dbind (fill_holds_loop lc rr uu es) (\<lambda>n. dret (Suc n))
                   (s\<lparr>t_retired_source_holds := t_retired_source_holds s @ [hold_row lc e url reason]\<rparr>))))"
proof -
  have skip: "(exists_where (\<lambda>f. fe_feed_guid f = er_subject_guid e \<or> fe_feed_guid f = lc (er_subject_guid e)) (t_feeds s)
     \<or> exists_where (\<lambda>b. fb_kind b = Guid \<and> fb_value b = lc (er_subject_guid e)) (t_feed_blocks s)
     \<or> exists_where (\<lambda>h. rsh_feed_guid h = lc (er_subject_guid e)) (t_retired_source_holds s)) = hold_skips lc e s"
    by (simp only: hold_skips_def)
  show ?thesis
    by (simp add: Let_def dfail_def dbind_def dread_def dseq_def dexec_def skip hold_row_def del: exists_where_iff
        split: option.split)
qed

lemma hold_skips_grow: "holds_grow s s' \<Longrightarrow> hold_skips lc e s \<Longrightarrow> hold_skips lc e s'"
  by (auto simp: holds_grow_def hold_skips_def)

lemma fill_holds_grow: "holds_grow s (snd (fill_holds_loop lc rr uu es s))"
proof (induction es arbitrary: s)
  case (Cons e es)
  have "holds_grow s (s\<lparr>t_retired_source_holds := t_retired_source_holds s @ [h]\<rparr>)" for h
    by (auto simp: holds_grow_def)
  then have "holds_grow s (snd (fill_holds_loop lc rr uu es (s\<lparr>t_retired_source_holds := t_retired_source_holds s @ [h]\<rparr>)))" for h
    using Cons holds_grow_trans by blast
  then have "holds_grow s (snd (dbind (fill_holds_loop lc rr uu es) (\<lambda>n. dret (Suc n))
      (s\<lparr>t_retired_source_holds := t_retired_source_holds s @ [h]\<rparr>)))" for h
    by (simp add: dbind_def dret_def split: prod.split sum.split) (metis snd_conv)
  with Cons show ?case
    unfolding fill_holds_step by (simp split: option.split)
qed (simp add: dret_def)

lemma last_upsert_grow: "holds_grow s s' \<Longrightarrow> last_upsert_before s' g n = last_upsert_before s g n"
  by (simp add: holds_grow_def last_upsert_before_def)

lemma fill_holds_again:
  assumes "fill_holds_loop lc rr uu es s = (Inr n, s')" "holds_grow s' t"
  shows "fill_holds_loop lc rr uu es t = (Inr 0, t)"
  using assms
proof (induction es arbitrary: s n)
  case (Cons e es)
  have grow: "holds_grow s t"
    using fill_holds_grow [of s lc rr uu "e # es"] Cons.prems holds_grow_trans by simp
  obtain why where why: "rr (er_payload_json e) = Some why"
    using Cons.prems(1) unfolding fill_holds_step by (cases "rr (er_payload_json e)") auto
  show ?case
  proof (cases "why = None \<or> the why \<notin> set HOLD_RETIRE_REASONS \<or> hold_skips lc e s
      \<or> last_upsert_before s (er_subject_guid e) (er_seq e) = None")
    case True
    then have "fill_holds_loop lc rr uu es s = (Inr n, s')"
      using Cons.prems(1) why unfolding fill_holds_step by (auto split: option.splits if_splits)
    from Cons.IH [OF this Cons.prems(2)] True why grow show ?thesis
      unfolding fill_holds_step by (auto simp: hold_skips_grow last_upsert_grow split: option.split)
  next
    case False
    then obtain reason u where r: "why = Some reason" "reason \<in> set HOLD_RETIRE_REASONS"
      "last_upsert_before s (er_subject_guid e) (er_seq e) = Some u" "\<not> hold_skips lc e s" by auto
    obtain url m where rest: "fill_holds_loop lc rr uu es
        (s\<lparr>t_retired_source_holds := t_retired_source_holds s @ [hold_row lc e url reason]\<rparr>) = (Inr m, s')"
      using Cons.prems(1) r why unfolding fill_holds_step
      by (auto simp: dbind_def dret_def split: option.splits prod.splits sum.splits)
    have "hold_row lc e url reason \<in> set (t_retired_source_holds s')"
      using fill_holds_grow [of "s\<lparr>t_retired_source_holds := t_retired_source_holds s @ [hold_row lc e url reason]\<rparr>" lc rr uu es] rest
      by (simp add: holds_grow_def)
    then have "hold_row lc e url reason \<in> set (t_retired_source_holds t)"
      using Cons.prems(2) by (auto simp: holds_grow_def)
    moreover have "rsh_feed_guid (hold_row lc e url reason) = lc (er_subject_guid e)" by (simp add: hold_row_def)
    ultimately have "hold_skips lc e t" by (auto simp: hold_skips_def)
    with Cons.IH [OF rest Cons.prems(2)] why r show ?thesis unfolding fill_holds_step by simp
  qed
qed (simp add: dret_def)

lemma fill_holds_twice:
  assumes "fill_retired_source_holds lc rr uu s = (Inr n, s')"
  shows "fill_retired_source_holds lc rr uu s' = (Inr 0, s')"
proof -
  have run: "fill_holds_loop lc rr uu (last_retires s) s = (Inr n, s')"
    using assms by (auto simp: fill_retired_source_holds_def dtransaction_def dbind_def dread_def split: prod.splits sum.splits)
  have "t_events s' = t_events s"
    using fill_holds_grow [of s lc rr uu "last_retires s"] run by (simp add: holds_grow_def)
  then have "last_retires s' = last_retires s" by (simp add: last_retires_def)
  with fill_holds_again [OF run holds_grow_refl] show ?thesis
    by (simp add: fill_retired_source_holds_def dtransaction_def dbind_def dread_def)
qed

section \<open>Moves\<close>

lemma left_urls_add: "set (get_left_urls (add_left_url g u s) h) = (if h = g then insert u (set (get_left_urls s h)) else set (get_left_urls s h))"
  by (force simp: get_left_urls_def add_left_url_def)

lemma left_urls_remove: "set (get_left_urls (remove_left_url g u s) h) = set (get_left_urls s h) - (if h = g then {u} else {})"
  by (force simp: get_left_urls_def remove_left_url_def)

lemma move_left_urls:
  "set (get_left_urls (write_feed_move g mv s) h) =
     (if h = g then insert (fm_old_url mv) (set (get_left_urls s g)) - {fm_new_url mv} else set (get_left_urls s h))"
proof -
  let ?s1 = "remove_left_url g (fm_new_url mv) (add_left_url g (fm_old_url mv) s)"
  have "t_feed_left_urls (write_feed_move g mv s) = t_feed_left_urls ?s1"
    by (simp add: write_feed_move_def Let_def split: option.split)
  then have "get_left_urls (write_feed_move g mv s) h = get_left_urls ?s1 h" by (simp add: get_left_urls_def)
  then show ?thesis by (simp add: left_urls_add left_urls_remove)
qed

lemma move_state_after:
  "get_move_state (write_feed_move g mv s) h =
     (if h \<noteq> g then get_move_state s h
      else \<lparr>ms_arrival_tag = fm_arrival_tag mv,
             ms_return_count = (case fm_return_values mv of None \<Rightarrow> ms_return_count (get_move_state s g) | Some r \<Rightarrow> fst r),
             ms_last_return_at = (case fm_return_values mv of None \<Rightarrow> ms_last_return_at (get_move_state s g) | Some r \<Rightarrow> Some (snd r))\<rparr>)"
proof -
  let ?merge = "\<lambda>old new. old\<lparr>mv_arrival_tag := mv_arrival_tag new, mv_arrival_pending := False\<rparr>"
  let ?row = "\<lparr>mv_feed_guid = g, mv_arrival_tag = fm_arrival_tag mv, mv_return_count = 0, mv_last_return_at = None, mv_arrival_pending = False\<rparr>"
  let ?t = "upsert_by mv_feed_guid ?merge ?row (t_feed_move_state s)"
  have same: "t_feed_move_state (remove_left_url g a (add_left_url g b s)) = t_feed_move_state s" for a b
    by (simp add: remove_left_url_def add_left_url_def)
  have up: "lookup_by mv_feed_guid ?t k = (if k = mv_feed_guid ?row
      then Some (case lookup_by mv_feed_guid (t_feed_move_state s) k of None \<Rightarrow> ?row | Some old \<Rightarrow> ?merge old ?row)
      else lookup_by mv_feed_guid (t_feed_move_state s) k)" for k
    by (rule lookup_upsert_by) simp
  have put: "lookup_by mv_feed_guid (update_where (\<lambda>r. mv_feed_guid r = g) (\<lambda>r. r\<lparr>mv_return_count := n, mv_last_return_at := Some at\<rparr>) ?t) k =
      (if k = g then map_option (\<lambda>r. r\<lparr>mv_return_count := n, mv_last_return_at := Some at\<rparr>) (lookup_by mv_feed_guid ?t k)
       else lookup_by mv_feed_guid ?t k)" for n at k
    by (rule lookup_update_where) simp
  show ?thesis
    by (simp add: get_move_state_def write_feed_move_def Let_def same put up del: lookup_by_None split: option.split)
qed

section \<open>Properties of copies, moves and holds\<close>

text \<open>
  Two recipient lists count as equal exactly when they are the same multiset of (address,
  custom key, custom value, split): neither the order nor the names matter, repetitions do.
\<close>

theorem recipient_sets_equal_iff:
  "recipient_sets_equal a b \<longleftrightarrow> mset (map recipient_key a) = mset (map recipient_key b)"
proof -
  have "sort (map recipient_key a) = sort (map recipient_key b) \<longleftrightarrow> mset (map recipient_key a) = mset (map recipient_key b)"
  proof
    assume "sort (map recipient_key a) = sort (map recipient_key b)"
    then have "mset (sort (map recipient_key a)) = mset (sort (map recipient_key b))" by (rule arg_cong)
    then show "mset (map recipient_key a) = mset (map recipient_key b)" by (simp only: mset_sort)
  next
    assume "mset (map recipient_key a) = mset (map recipient_key b)"
    then show "sort (map recipient_key a) = sort (map recipient_key b)"
      by (intro properties_for_sort) (simp_all only: mset_sort sorted_sort)
  qed
  moreover have "mset (map recipient_key a) = mset (map recipient_key b) \<Longrightarrow> length a = length b"
    by (metis length_map size_mset)
  ultimately show ?thesis by (auto simp: recipient_sets_equal_def)
qed

text \<open>
  The summary of open copies is the number of the feed's copies that differ from the stored
  feed without a resolution that still holds, with the latest time one of them was first seen.
\<close>

theorem open_copy_summary_result:
  "open_copy_summary s g =
    (let open_rows = filter (\<lambda>r. fcy_feed_guid r = g \<and> copy_is_open s g r) (t_feed_copies s)
     in (int (length open_rows), if open_rows = [] then None else Some (Max (fcy_first_seen ` set open_rows))))"
  by (rule open_copy_summary_facts)

text \<open>
  While the last return is recent, the cooldown after n returns ends 3600 * 2^(n-1) seconds
  after it, at most 604800: the 32-bit conversion and the cap of the shift never change the
  result, and the end saturates instead of wrapping.
\<close>

theorem return_cooldown_end_formula:
  assumes "1 \<le> n" "saturating_sub now prev < RETURN_COUNT_RESET_SECS"
  shows "return_cooldown_end n (Some prev) now = Some (saturating_add prev (min (3600 * 2 ^ nat (n - 1)) 604800))"
proof -
  have "effective_return_count n (Some prev) now = n" using assms by (simp add: effective_return_count_def)
  with cooldown_wait [OF assms(1)] assms(1) show ?thesis
    by (simp add: return_cooldown_end_def Let_def) (simp add: RETURN_WAIT_BASE_SECS_def RETURN_WAIT_LIMIT_SECS_def)
qed

theorem return_cooldown_end_formula_witness:
  "return_cooldown_end 3 (Some 1000) 2000 = Some (saturating_add 1000 (min (3600 * 2 ^ nat (3 - 1)) 604800))"
  by (rule return_cooldown_end_formula) (simp_all add: saturating_sub_def i64_max_def i64_min_def RETURN_COUNT_RESET_SECS_def)

text \<open>
  A move from an old URL to a new one leaves the old URL among the feed's left URLs and the
  new one not; it sets the arrival tag and the given return values; every other feed keeps its
  left URLs and its move state.
\<close>

theorem write_feed_move_result:
  "set (get_left_urls (write_feed_move g mv s) h) =
     (if h = g then insert (fm_old_url mv) (set (get_left_urls s g)) - {fm_new_url mv} else set (get_left_urls s h))
   \<and> get_move_state (write_feed_move g mv s) h =
     (if h \<noteq> g then get_move_state s h
      else \<lparr>ms_arrival_tag = fm_arrival_tag mv,
             ms_return_count = (case fm_return_values mv of None \<Rightarrow> ms_return_count (get_move_state s g) | Some r \<Rightarrow> fst r),
             ms_last_return_at = (case fm_return_values mv of None \<Rightarrow> ms_last_return_at (get_move_state s g) | Some r \<Rightarrow> Some (snd r))\<rparr>)"
  using move_left_urls move_state_after by blast

text \<open>
  A GUID change that is observed again under the same new GUID keeps its first-seen time and
  its decision; under another new GUID it starts afresh and undecided. Changes at other URLs stay.
\<close>

theorem upsert_guid_change_result:
  "get_guid_change (upsert_guid_change url old new now s) u =
     (if u \<noteq> url then get_guid_change s u
      else Some (case get_guid_change s url of
          None \<Rightarrow> \<lparr>gc_source_url = url, gc_old_guid = old, gc_new_guid = new, gc_first_seen = now, gc_last_seen = None,
                   gc_decision = None, gc_decision_reason = None, gc_decided_at = None\<rparr>
        | Some r \<Rightarrow> if gc_new_guid r = new then r\<lparr>gc_old_guid := old\<rparr>
            else r\<lparr>gc_old_guid := old, gc_new_guid := new, gc_first_seen := now, gc_decision := None,
                   gc_decision_reason := None, gc_decided_at := None\<rparr>))"
proof -
  let ?new = "\<lparr>gc_source_url = url, gc_old_guid = old, gc_new_guid = new, gc_first_seen = now, gc_last_seen = None,
                   gc_decision = None, gc_decision_reason = None, gc_decided_at = None\<rparr>"
  have "lookup_by gc_source_url (upsert_by gc_source_url gc_merge ?new (t_feed_guid_changes s)) u =
    (if u = gc_source_url ?new then Some (case lookup_by gc_source_url (t_feed_guid_changes s) u of None \<Rightarrow> ?new | Some o' \<Rightarrow> gc_merge o' ?new)
     else lookup_by gc_source_url (t_feed_guid_changes s) u)"
    by (rule lookup_upsert_by) (simp add: gc_merge_def Let_def)
  then show ?thesis
    by (auto simp: get_guid_change_def upsert_guid_change_def gc_merge_def Let_def simp del: lookup_by_None split: option.split)
qed

text \<open>
  Filling the holds of retired sources from the event log is idempotent: a second run after
  a successful one adds no hold.
\<close>

theorem fill_retired_source_holds_twice:
  assumes "fill_retired_source_holds lc rr uu s = (Inr n, s')"
  shows "fill_retired_source_holds lc rr uu s' = (Inr 0, s')"
  using assms by (rule fill_holds_twice)

definition log_row :: "event_type \<Rightarrow> int \<Rightarrow> string \<Rightarrow> event_row" where
  "log_row t n payload = \<lparr>er_event_id = show_int n, er_event_type = t, er_payload_json = payload, er_subject_guid = ''g1'',
     er_signed_by = [], er_signature = [], er_seq = n, er_created_at = 5, er_warnings = []\<rparr>"

definition retired_log :: db where
  "retired_log = empty_db\<lparr>t_events := [log_row FeedUpserted 1 ''https://a.example/f'', log_row FeedRetired 2 ''source_gone'']\<rparr>"

theorem fill_retired_source_holds_twice_witness:
  "\<exists>s'. fill_retired_source_holds (\<lambda>t. t) (\<lambda>p. Some (Some p)) Some retired_log = (Inr 1, s')
    \<and> fill_retired_source_holds (\<lambda>t. t) (\<lambda>p. Some (Some p)) Some s' = (Inr 0, s')"
proof -
  have last: "last_retires retired_log = [log_row FeedRetired 2 ''source_gone'']"
    by (simp add: retired_log_def last_retires_def log_row_def)
  have up: "last_upsert_before retired_log ''g1'' 2 = Some (log_row FeedUpserted 1 ''https://a.example/f'')"
    by (simp add: retired_log_def last_upsert_before_def log_row_def)
  have go: "\<not> hold_skips (\<lambda>t. t) e retired_log" for e
    by (simp add: hold_skips_def retired_log_def empty_db_def)
  have "\<exists>s'. fill_holds_loop (\<lambda>t. t) (\<lambda>p. Some (Some p)) Some (last_retires retired_log) retired_log = (Inr 1, s')"
    unfolding last fill_holds_step
    by (simp add: go dbind_def dret_def) (simp add: log_row_def HOLD_RETIRE_REASONS_def up dbind_def dret_def)
  then obtain s' where "fill_holds_loop (\<lambda>t. t) (\<lambda>p. Some (Some p)) Some (last_retires retired_log) retired_log = (Inr 1, s')"
    by blast
  then have run: "fill_retired_source_holds (\<lambda>t. t) (\<lambda>p. Some (Some p)) Some retired_log = (Inr 1, s')"
    by (simp add: fill_retired_source_holds_def dtransaction_def dbind_def dread_def del: fill_holds_loop.simps)
  from fill_retired_source_holds_twice [OF this] run show ?thesis by blast
qed

end
