(* ===== verification/Sse.thy ===== *)
theory Sse
  imports Event
begin

text \<open>
  The server-sent-event registry of \<^verbatim>\<open>src/api.rs\<close>: one broadcast channel and one ring buffer per
  feed, both bounded, the connection slots, the channel an event goes to and the frames of a
  change of live items. A channel is the set of feeds that have one; what a subscriber receives
  is tokio's. A frame carries the typed payload that the JSON text is made of.
\<close>

definition SSE_RING_BUFFER_SIZE :: nat where "SSE_RING_BUFFER_SIZE = 100"
definition MAX_SSE_REGISTRY_FEEDS :: nat where "MAX_SSE_REGISTRY_FEEDS = 10000"
definition MAX_SSE_CONNECTIONS :: nat where "MAX_SSE_CONNECTIONS = 1000"

datatype sse_body =
    EventBody event_payload
  | LiveBody string string string "string option" string "int option" "int option"

record sse_frame =
  sf_event_type :: string
  sf_subject_guid :: string
  sf_payload :: sse_body
  sf_seq :: int

record sse_registry =
  sr_senders :: "string list"
  sr_ring_buffers :: "(string \<times> sse_frame list) list"
  sr_active_connections :: nat

definition sse_new :: sse_registry where
  "sse_new = \<lparr>sr_senders = [], sr_ring_buffers = [], sr_active_connections = 0\<rparr>"

definition try_acquire_connection :: "sse_registry \<Rightarrow> bool \<times> sse_registry" where
  "try_acquire_connection r =
     (if sr_active_connections r < MAX_SSE_CONNECTIONS
      then (True, r\<lparr>sr_active_connections := Suc (sr_active_connections r)\<rparr>) else (False, r))"

text \<open>\<^verbatim>\<open>fetch\_sub\<close> on a \<^verbatim>\<open>usize\<close> wraps at zero.\<close>

definition release_connection :: "sse_registry \<Rightarrow> sse_registry" where
  "release_connection r = r\<lparr>sr_active_connections :=
     (if sr_active_connections r = 0 then 2 ^ 64 - 1 else sr_active_connections r - 1)\<rparr>"

definition feed_count :: "sse_registry \<Rightarrow> nat" where
  "feed_count r = length (sr_senders r)"

definition subscribe :: "string \<Rightarrow> sse_registry \<Rightarrow> bool \<times> sse_registry" where
  "subscribe g r =
     (if g \<in> set (sr_senders r) then (True, r)
      else if length (sr_senders r) \<ge> MAX_SSE_REGISTRY_FEEDS then (False, r)
      else (True, r\<lparr>sr_senders := sr_senders r @ [g]\<rparr>))"

definition recent_events :: "sse_registry \<Rightarrow> string \<Rightarrow> sse_frame list" where
  "recent_events r g = (case map_of (sr_ring_buffers r) g of None \<Rightarrow> [] | Some b \<Rightarrow> b)"

fun buffer_put :: "string \<Rightarrow> sse_frame list \<Rightarrow> (string \<times> sse_frame list) list \<Rightarrow> (string \<times> sse_frame list) list" where
  "buffer_put g b [] = [(g, b)]"
| "buffer_put g b ((h, c) # m) = (if g = h then (g, b) # m else (h, c) # buffer_put g b m)"

definition publish :: "string \<Rightarrow> sse_frame \<Rightarrow> sse_registry \<Rightarrow> sse_registry" where
  "publish g frame r =
     (if g \<notin> set (sr_senders r) \<and> length (sr_senders r) \<ge> MAX_SSE_REGISTRY_FEEDS then r
      else
        let r1 = (if g \<in> set (sr_senders r) then r else r\<lparr>sr_senders := sr_senders r @ [g]\<rparr>) in
        if map_of (sr_ring_buffers r1) g = None \<and> length (sr_ring_buffers r1) \<ge> MAX_SSE_REGISTRY_FEEDS then r1
        else
          let buf = recent_events r1 g;
              buf1 = (if length buf \<ge> SSE_RING_BUFFER_SIZE then drop 1 buf else buf)
          in r1\<lparr>sr_ring_buffers := buffer_put g (buf1 @ [frame]) (sr_ring_buffers r1)\<rparr>)"

definition publish_sse_frames :: "(string \<times> sse_frame) list \<Rightarrow> sse_registry \<Rightarrow> sse_registry" where
  "publish_sse_frames frames r = fold (\<lambda>(g, f). publish g f) frames r"

section \<open>The channel of an event\<close>

fun feed_guid_of_payload :: "event_payload \<Rightarrow> string option" where
  "feed_guid_of_payload (FeedUpsertedP p) = Some (fe_feed_guid (fu_feed p))"
| "feed_guid_of_payload (TrackUpsertedP p) = Some (tr_feed_guid (tu_track p))"
| "feed_guid_of_payload (FeedRetiredP p) = Some (frt_feed_guid p)"
| "feed_guid_of_payload (TrackRemovedP p) = Some (trm_feed_guid p)"
| "feed_guid_of_payload (RoutesReplacedP p) = rrp_feed_guid p"
| "feed_guid_of_payload (FeedRoutesReplacedP p) = Some (frr_feed_guid p)"
| "feed_guid_of_payload (FeedRemoteItemsReplacedP p) = Some (frir_feed_guid p)"
| "feed_guid_of_payload (TrackRemoteItemsReplacedP p) = trir_feed_guid p"
| "feed_guid_of_payload (FeedListValueReplacedP p) = Some (flr_feed_guid p)"
| "feed_guid_of_payload (LiveEventsReplacedP p) = Some (ler_feed_guid p)"
| "feed_guid_of_payload (SourceContributorClaimsReplacedP p) = Some (sccr_feed_guid p)"
| "feed_guid_of_payload (SourceEntityIdsReplacedP p) = Some (seir_feed_guid p)"
| "feed_guid_of_payload (SourceEntityLinksReplacedP p) = Some (selr_feed_guid p)"
| "feed_guid_of_payload (SourceReleaseClaimsReplacedP p) = Some (srcr_feed_guid p)"
| "feed_guid_of_payload (SourceItemEnclosuresReplacedP p) = Some (sier_feed_guid p)"
| "feed_guid_of_payload (SourceItemTranscriptsReplacedP p) = Some (sitr_feed_guid p)"
| "feed_guid_of_payload (SourcePlatformClaimsReplacedP p) = Some (spcr_feed_guid p)"
| "feed_guid_of_payload (FeedUrlObservedP p) = Some (fuo_feed_guid p)"
| "feed_guid_of_payload (FeedCopyObservedP p) = Some (fco_feed_guid p)"
| "feed_guid_of_payload (FeedCopyResolvedP p) = Some (fcr_feed_guid p)"
| "feed_guid_of_payload (ArtistUpsertedP _) = None"
| "feed_guid_of_payload (ArtistCreditCreatedP _) = None"
| "feed_guid_of_payload (FeedBlockedP _) = None"
| "feed_guid_of_payload (FeedUnblockedP _) = None"
| "feed_guid_of_payload (FeedGuidChangeObservedP _) = None"
| "feed_guid_of_payload (FeedGuidChangeDecidedP _) = None"
| "feed_guid_of_payload (FeedGuidSupersededP _) = None"

definition feed_guid_for_event :: "event \<Rightarrow> string option" where
  "feed_guid_for_event ev = feed_guid_of_payload (ev_payload ev)"

definition event_frame :: "event \<Rightarrow> sse_frame" where
  "event_frame ev = \<lparr>sf_event_type = event_type_str (ev_event_type ev), sf_subject_guid = ev_subject_guid ev,
     sf_payload = EventBody (ev_payload ev), sf_seq = ev_seq ev\<rparr>"

fun publish_events_to_sse :: "event list \<Rightarrow> sse_registry \<Rightarrow> sse_registry" where
  "publish_events_to_sse [] r = r"
| "publish_events_to_sse (ev # evs) r =
     (case feed_guid_for_event ev of None \<Rightarrow> publish_events_to_sse evs r
      | Some g \<Rightarrow> publish_events_to_sse evs (publish g (event_frame ev) r))"

section \<open>Live items that start and end\<close>

definition live_sse_payload :: "string \<Rightarrow> live_event \<Rightarrow> string \<Rightarrow> sse_body" where
  "live_sse_payload g e status = LiveBody g (le_live_item_guid e) (le_title e) (le_content_link e) status
     (le_scheduled_start e) (le_scheduled_end e)"

fun live_snapshot_seq :: "string \<Rightarrow> event list \<Rightarrow> int option" where
  "live_snapshot_seq g [] = None"
| "live_snapshot_seq g (ev # evs) =
     (case ev_payload ev of
        LiveEventsReplacedP p \<Rightarrow>
          if ler_feed_guid p = g
          then Some (case live_snapshot_seq g evs of None \<Rightarrow> ev_seq ev | Some m \<Rightarrow> max (ev_seq ev) m)
          else live_snapshot_seq g evs
      | _ \<Rightarrow> live_snapshot_seq g evs)"

text \<open>Collecting into a \<^verbatim>\<open>HashMap\<close> keeps the last row of a GUID.\<close>

definition live_by_guid :: "live_event list \<Rightarrow> string \<Rightarrow> live_event option" where
  "live_by_guid es g = map_of (rev (map (\<lambda>e. (le_live_item_guid e, e)) es)) g"

definition live_started :: "live_event list \<Rightarrow> live_event \<Rightarrow> bool" where
  "live_started old e \<longleftrightarrow> le_status e = ''live''
     \<and> \<not> (case live_by_guid old (le_live_item_guid e) of None \<Rightarrow> False | Some o' \<Rightarrow> le_status o' = ''live'')"

definition live_ended :: "live_event list \<Rightarrow> live_event \<Rightarrow> bool" where
  "live_ended new e \<longleftrightarrow> le_status e \<in> set [''pending'', ''live'']
     \<and> (case live_by_guid new (le_live_item_guid e) of None \<Rightarrow> True | Some n \<Rightarrow> le_status n = ''ended'')"

definition build_live_sse_frames_for_feed ::
  "string \<Rightarrow> live_event list \<Rightarrow> live_event list \<Rightarrow> event list \<Rightarrow> (string \<times> sse_frame) list" where
  "build_live_sse_frames_for_feed g old new events =
     (case live_snapshot_seq g events of None \<Rightarrow> []
      | Some seq \<Rightarrow>
          map (\<lambda>e. (g, \<lparr>sf_event_type = ''live_event_started'', sf_subject_guid = le_live_item_guid e,
                 sf_payload = live_sse_payload g e ''live'', sf_seq = seq\<rparr>)) (filter (live_started old) new)
          @ map (\<lambda>e. (g, \<lparr>sf_event_type = ''live_event_ended'', sf_subject_guid = le_live_item_guid e,
                 sf_payload = live_sse_payload g e ''ended'', sf_seq = seq\<rparr>)) (filter (live_ended new) old))"

section \<open>The registry stays bounded and replays the latest frames\<close>

definition sse_ok :: "sse_registry \<Rightarrow> bool" where
  "sse_ok r \<longleftrightarrow> distinct (sr_senders r) \<and> length (sr_senders r) \<le> MAX_SSE_REGISTRY_FEEDS
     \<and> distinct (map fst (sr_ring_buffers r)) \<and> length (sr_ring_buffers r) \<le> MAX_SSE_REGISTRY_FEEDS
     \<and> list_all (\<lambda>b. length (snd b) \<le> SSE_RING_BUFFER_SIZE) (sr_ring_buffers r)
     \<and> set (map fst (sr_ring_buffers r)) \<subseteq> set (sr_senders r)
     \<and> sr_active_connections r \<le> MAX_SSE_CONNECTIONS"

lemma sse_new_ok: "sse_ok sse_new"
  by (simp add: sse_ok_def sse_new_def)

lemma map_of_buffer_put: "map_of (buffer_put g b m) h = (if h = g then Some b else map_of m h)"
  by (induction g b m rule: buffer_put.induct) auto

lemma keys_buffer_put: "set (map fst (buffer_put g b m)) = insert g (set (map fst m))"
  by (induction g b m rule: buffer_put.induct) auto

lemma distinct_buffer_put: "distinct (map fst m) \<Longrightarrow> distinct (map fst (buffer_put g b m))"
proof (induction g b m rule: buffer_put.induct)
  case (2 g b h c m)
  then show ?case using keys_buffer_put [of g b m] by auto
qed simp

lemma length_buffer_put:
  "length (buffer_put g b m) = (if map_of m g = None then Suc (length m) else length m)"
  by (induction g b m rule: buffer_put.induct) auto

lemma all_buffer_put: "list_all P m \<Longrightarrow> P (g, b) \<Longrightarrow> list_all P (buffer_put g b m)"
  by (induction g b m rule: buffer_put.induct) auto

lemma recent_events_bound: "sse_ok r \<Longrightarrow> length (recent_events r g) \<le> SSE_RING_BUFFER_SIZE"
  by (auto simp: recent_events_def sse_ok_def list_all_iff split: option.split dest!: map_of_SomeD)

lemma publish_ok: assumes "sse_ok r" shows "sse_ok (publish g f r)"
proof -
  have b: "length (recent_events r g) \<le> SSE_RING_BUFFER_SIZE" by (rule recent_events_bound [OF assms])
  have pos: "0 < SSE_RING_BUFFER_SIZE" by (simp add: SSE_RING_BUFFER_SIZE_def)
  show ?thesis
    using assms b pos
    by (auto simp: publish_def Let_def sse_ok_def recent_events_def keys_buffer_put [simplified]
        distinct_buffer_put length_buffer_put intro!: all_buffer_put)
qed

definition last_n :: "nat \<Rightarrow> 'a list \<Rightarrow> 'a list" where
  "last_n n xs = drop (length xs - n) xs"

lemma recent_events_publish:
  assumes "sse_ok r" "feed_count r < MAX_SSE_REGISTRY_FEEDS \<or> map_of (sr_ring_buffers r) g \<noteq> None"
  shows "recent_events (publish g f r) h =
    (if h = g then last_n SSE_RING_BUFFER_SIZE (recent_events r g @ [f]) else recent_events r h)"
proof -
  have b: "length (recent_events r g) \<le> SSE_RING_BUFFER_SIZE" by (rule recent_events_bound [OF assms(1)])
  have pos: "0 < SSE_RING_BUFFER_SIZE" by (simp add: SSE_RING_BUFFER_SIZE_def)
  have sub: "set (map fst (sr_ring_buffers r)) \<subseteq> set (sr_senders r)" "distinct (map fst (sr_ring_buffers r))"
    using assms(1) by (simp_all add: sse_ok_def)
  then have "length (sr_ring_buffers r) \<le> feed_count r"
    using card_mono [OF _ sub(1)] distinct_card [OF sub(2)] card_length [of "sr_senders r"]
    by (simp add: feed_count_def)
  moreover have "g \<in> set (sr_senders r)" if "map_of (sr_ring_buffers r) g \<noteq> None"
    using that sub(1) by (force dest: map_of_SomeD)
  ultimately show ?thesis
    using assms(2) b pos
    by (auto simp: publish_def Let_def recent_events_def feed_count_def map_of_buffer_put last_n_def
        split: option.splits)
qed

section \<open>Every use of the registry\<close>

text \<open>
  The steps of a server: a client asks for a slot, a client that holds one gives it back, a client
  subscribes, an event is published. The number beside the registry is the number of slots held.
\<close>

inductive sse_step :: "sse_registry \<times> nat \<Rightarrow> sse_registry \<times> nat \<Rightarrow> bool" where
  acquired: "try_acquire_connection r = (True, r') \<Longrightarrow> sse_step (r, n) (r', Suc n)"
| refused: "try_acquire_connection r = (False, r') \<Longrightarrow> sse_step (r, n) (r', n)"
| released: "sse_step (r, Suc n) (release_connection r, n)"
| subscribed: "subscribe g r = (ok, r') \<Longrightarrow> sse_step (r, n) (r', n)"
| published: "sse_step (r, n) (publish g f r, n)"

inductive_cases sse_stepE: "sse_step (r, n) st"

inductive sse_reachable :: "sse_registry \<Rightarrow> nat \<Rightarrow> bool" where
  start: "sse_reachable sse_new 0"
| more: "sse_reachable r n \<Longrightarrow> sse_step (r, n) (r', n') \<Longrightarrow> sse_reachable r' n'"

lemma subscribe_ok: "sse_ok r \<Longrightarrow> sse_ok (snd (subscribe g r)) \<and> sr_active_connections (snd (subscribe g r)) = sr_active_connections r"
  by (auto simp: subscribe_def sse_ok_def)

lemma publish_connections: "sr_active_connections (publish g f r) = sr_active_connections r"
  by (simp add: publish_def Let_def)

lemma sse_step_ok:
  assumes "sse_step (r, n) (r', n')" "sse_ok r" "sr_active_connections r = n"
  shows "sse_ok r' \<and> sr_active_connections r' = n'"
  using assms(1)
proof (cases rule: sse_step.cases)
  case acquired
  with assms show ?thesis by (fastforce simp: try_acquire_connection_def sse_ok_def split: if_splits)
next
  case refused
  with assms show ?thesis by (auto simp: try_acquire_connection_def split: if_splits)
next
  case released
  with assms show ?thesis by (fastforce simp: release_connection_def sse_ok_def)
next
  case (subscribed g ok)
  with assms subscribe_ok [of r g] show ?thesis by simp
next
  case (published g f)
  with assms show ?thesis by (simp add: publish_ok publish_connections)
qed

lemma sse_reachable_ok: "sse_reachable r n \<Longrightarrow> sse_ok r \<and> sr_active_connections r = n"
proof (induction rule: sse_reachable.induct)
  case start
  show ?case using sse_new_ok by (simp add: sse_new_def)
next
  case (more r n r' n')
  then show ?case using sse_step_ok by blast
qed

text \<open>
  C21: However clients connect, leave, subscribe and events are published, the registry stays within
  its bounds: at most 10000 channels and buffers, a channel for every buffer, at most 100 frames in
  a buffer, at most 1000 connections, and the counter is the number of slots held, so it never wraps.
\<close>

theorem sse_registry_bounded:
  assumes "sse_reachable r n"
  shows "sse_ok r \<and> sr_active_connections r = n \<and> n \<le> 1000 \<and> length (recent_events r g) \<le> 100"
  using sse_reachable_ok [OF assms] recent_events_bound [of r g]
  by (simp add: sse_ok_def MAX_SSE_CONNECTIONS_def SSE_RING_BUFFER_SIZE_def)

theorem sse_registry_bounded_witness:
  "sse_ok (sse_new\<lparr>sr_active_connections := 1\<rparr>) \<and> length (recent_events (sse_new\<lparr>sr_active_connections := 1\<rparr>) ''g1'') \<le> 100"
proof -
  have "sse_step (sse_new, 0) (sse_new\<lparr>sr_active_connections := 1\<rparr>, Suc 0)"
    by (rule acquired) (simp add: try_acquire_connection_def sse_new_def MAX_SSE_CONNECTIONS_def)
  from sse_registry_bounded [OF more [OF start this], of "''g1''"] show ?thesis by simp
qed

text \<open>
  Publishing a frame to a feed with room in the registry makes the feed's replay buffer the
  last 100 frames published to it, this one included, and leaves every other feed's buffer.
\<close>

theorem publish_keeps_latest_frames:
  assumes "sse_ok r" "feed_count r < MAX_SSE_REGISTRY_FEEDS \<or> map_of (sr_ring_buffers r) g \<noteq> None"
  shows "recent_events (publish g f r) h =
    (if h = g then last_n SSE_RING_BUFFER_SIZE (recent_events r g @ [f]) else recent_events r h)"
  using assms by (rule recent_events_publish)

definition sample_frame :: sse_frame where
  "sample_frame = \<lparr>sf_event_type = ''feed_unblocked'', sf_subject_guid = ''b1'',
     sf_payload = EventBody (FeedUnblockedP \<lparr>fub_block_id = ''b1''\<rparr>), sf_seq = 1\<rparr>"

theorem publish_keeps_latest_frames_witness:
  "recent_events (publish ''g1'' sample_frame sse_new) ''g1'' = [sample_frame]"
  using publish_keeps_latest_frames [OF sse_new_ok, of "''g1''" sample_frame "''g1''"]
  by (simp add: sse_new_def feed_count_def MAX_SSE_REGISTRY_FEEDS_def recent_events_def last_n_def SSE_RING_BUFFER_SIZE_def)

lemma live_by_guid_distinct:
  "distinct (map le_live_item_guid es) \<Longrightarrow> e \<in> set es \<Longrightarrow> live_by_guid es (le_live_item_guid e) = Some e"
  unfolding live_by_guid_def by (rule map_of_is_SomeI) (simp_all add: comp_def distinct_rev flip: rev_map)

text \<open>
  When the live items of a feed did not change, no start and no end is announced, whatever
  events the batch holds.
\<close>

theorem unchanged_live_items_are_silent:
  assumes "distinct (map le_live_item_guid es)"
  shows "build_live_sse_frames_for_feed g es es events = []"
proof -
  have "filter (live_started es) es = []" "filter (live_ended es) es = []"
    using live_by_guid_distinct [OF assms] by (auto simp: filter_empty_conv live_started_def live_ended_def)
  then show ?thesis by (simp add: build_live_sse_frames_for_feed_def split: option.split)
qed

definition sample_live :: live_event where
  "sample_live = \<lparr>le_live_item_guid = ''l1'', le_feed_guid = ''g1'', le_title = ''Show'', le_content_link = None,
     le_status = ''live'', le_scheduled_start = None, le_scheduled_end = None, le_created_at = 5, le_updated_at = 5,
     le_live_value_uri = None, le_live_value_protocol = None\<rparr>"

theorem unchanged_live_items_are_silent_witness:
  "build_live_sse_frames_for_feed ''g1'' [sample_live] [sample_live] [] = []"
  by (rule unchanged_live_items_are_silent) simp

end
