(* ===== verification/Apply.thy ===== *)
theory Apply
  imports Moves Sse
begin

text \<open>
  \<^verbatim>\<open>src/apply.rs\<close>: a community node applies the primary's signed events. One event is a match over
  its payload, decoded again from the signed text; a batch verifies the signatures, applies every
  verified event in one transaction, moves the sync cursor and publishes what it applied.
\<close>

record node =
  nd_env :: env
  nd_crypto :: crypto
  nd_lc :: "string \<Rightarrow> string"
  nd_url_parse :: "string \<Rightarrow> url option"
  nd_items_json :: "copy_remote_item list \<Rightarrow> string"
  nd_sha256_hex :: "string \<Rightarrow> string"
  nd_parse :: "event_type \<Rightarrow> string \<Rightarrow> event_payload option"

definition SYNC_CURSOR_KEY :: string where "SYNC_CURSOR_KEY = ''primary_sync_cursor''"

datatype apply_outcome = Applied int | Duplicate

record apply_summary =
  as_applied :: nat
  as_duplicate :: nat
  as_rejected :: nat
  as_max_seq :: int

section \<open>One event\<close>

definition deserialize_verified_payload :: "node \<Rightarrow> event \<Rightarrow> event_payload option" where
  "deserialize_verified_payload nd ev = nd_parse nd (ev_event_type ev) (ev_payload_json ev)"

definition summary_of_observed :: "feed_copy_observed_payload \<Rightarrow> copy_summary" where
  "summary_of_observed p = \<lparr>cs_title = fco_title p, cs_item_guids = fco_item_guids p,
     cs_item_titles = fco_item_titles p, cs_image_url = fco_image_url p,
     cs_remote_items = fco_remote_items p, cs_item_durations = fco_item_durations p,
     cs_item_enclosure_urls = fco_item_enclosure_urls p, cs_item_pub_dates = fco_item_pub_dates p,
     cs_author = fco_author p, cs_feed_recipients = fco_feed_recipients p,
     cs_track_recipients = fco_track_recipients p\<rparr>"

fun apply_payload :: "node \<Rightarrow> int \<Rightarrow> int \<Rightarrow> event_payload \<Rightarrow> unit dbm" where
  "apply_payload nd now created (ArtistUpsertedP _) = dret ()"
| "apply_payload nd now created (ArtistCreditCreatedP _) = dret ()"
| "apply_payload nd now created (FeedUpsertedP p) =
     dseq (upsert_feed (nd_lc nd) (nd_url_parse nd) (fu_feed p))
       (sync_source_read_models_for_feed (nd_env nd) now (fe_feed_guid (fu_feed p)))"
| "apply_payload nd now created (TrackUpsertedP p) =
     (let g = tr_feed_guid (tu_track p); t = tr_track_guid (tu_track p) in
      dseq (upsert_track (tu_track p))
     (dseq (replace_payment_routes_for_feed_track g t (tu_routes p))
     (dseq (replace_value_time_splits_for_feed_track g t (tu_value_time_splits p))
           (sync_source_read_models_for_feed (nd_env nd) now g))))"
| "apply_payload nd now created (RoutesReplacedP p) =
     (case rrp_feed_guid p of
        Some g \<Rightarrow> replace_payment_routes_for_feed_track g (rrp_track_guid p) (rrp_routes p)
      | None \<Rightarrow> replace_payment_routes (rrp_track_guid p) (rrp_routes p))"
| "apply_payload nd now created (FeedRoutesReplacedP p) = replace_feed_payment_routes (frr_feed_guid p) (frr_routes p)"
| "apply_payload nd now created (FeedRemoteItemsReplacedP p) =
     replace_feed_remote_items_raw (frir_feed_guid p) (frir_remote_items p)"
| "apply_payload nd now created (FeedListValueReplacedP p) =
     replace_feed_list_value_raw (flr_feed_guid p) (flr_list_values p)"
| "apply_payload nd now created (TrackRemoteItemsReplacedP p) =
     (case trir_feed_guid p of
        Some g \<Rightarrow> replace_track_remote_items_raw_for_feed_track g (trir_track_guid p) (trir_remote_items p)
      | None \<Rightarrow> replace_track_remote_items_raw (trir_track_guid p) (trir_remote_items p))"
| "apply_payload nd now created (LiveEventsReplacedP p) =
     replace_live_events_for_feed (ler_feed_guid p) (ler_live_events p)"
| "apply_payload nd now created (SourceContributorClaimsReplacedP p) =
     replace_source_contributor_claims_for_feed (sccr_feed_guid p) (sccr_claims p)"
| "apply_payload nd now created (SourceEntityIdsReplacedP p) =
     replace_source_entity_ids_for_feed (seir_feed_guid p) (seir_claims p)"
| "apply_payload nd now created (SourceEntityLinksReplacedP p) =
     replace_source_entity_links_for_feed (selr_feed_guid p) (selr_links p)"
| "apply_payload nd now created (SourceReleaseClaimsReplacedP p) =
     replace_source_release_claims_for_feed (srcr_feed_guid p) (srcr_claims p)"
| "apply_payload nd now created (SourceItemEnclosuresReplacedP p) =
     replace_source_item_enclosures_for_feed (sier_feed_guid p) (sier_enclosures p)"
| "apply_payload nd now created (SourceItemTranscriptsReplacedP p) =
     replace_source_item_transcripts_for_feed (sitr_feed_guid p) (sitr_transcripts p)"
| "apply_payload nd now created (SourcePlatformClaimsReplacedP p) =
     replace_source_platform_claims_for_feed (spcr_feed_guid p) (spcr_claims p)"
| "apply_payload nd now created (FeedUrlObservedP p) =
     dexec (upsert_feed_url_observation (fuo_url p) (fuo_feed_guid p) (fuo_observed_at p))"
| "apply_payload nd now created (FeedBlockedP p) =
     dexec (\<lambda>s. snd (insert_feed_block (nd_lc nd) \<lparr>fb_block_id = fbd_block_id p, fb_kind = fbd_kind p,
       fb_value = fbd_value p, fb_reason = fbd_reason p, fb_blocked_at = fbd_blocked_at p\<rparr> s))"
| "apply_payload nd now created (FeedUnblockedP p) = dexec (\<lambda>s. snd (delete_feed_block (fub_block_id p) s))"
| "apply_payload nd now created (FeedCopyObservedP p) =
     dexec (upsert_feed_copy_summary (fco_feed_guid p) (fco_url p) (fco_first_seen p) (summary_of_observed p)
       (fco_summary_digest p) (remote_items_digest (nd_items_json nd) (nd_sha256_hex nd) (summary_of_observed p)))"
| "apply_payload nd now created (FeedCopyResolvedP p) =
     set_feed_copy_resolution (fcr_feed_guid p) (fcr_url p) (fcr_decision p) (fcr_reason p)
       (fcr_resolved_at p) (fcr_resolved_digest p) (fcr_resolved_remote_items_digest p)"
| "apply_payload nd now created (FeedGuidChangeObservedP p) =
     dexec (if gco_new_guid p = gco_old_guid p then delete_guid_change (gco_source_url p)
       else upsert_guid_change (gco_source_url p) (gco_old_guid p) (gco_new_guid p) (gco_first_seen p))"
| "apply_payload nd now created (FeedGuidChangeDecidedP p) =
     set_guid_change_decision (gcd_source_url p) (gcd_decision p) (gcd_reason p) (gcd_decided_at p)"
| "apply_payload nd now created (FeedGuidSupersededP p) =
     dexec (insert_guid_supersession (fgs_old_guid p) (fgs_new_guid p) (fgs_source_url p) created)"
| "apply_payload nd now created (FeedRetiredP p) =
     dbind (dread (\<lambda>s. get_feed_by_guid s (frt_feed_guid p))) (\<lambda>feed. case feed of None \<Rightarrow> dret ()
       | Some _ \<Rightarrow> dexec (delete_feed_sql (nd_env nd) (frt_feed_guid p)))"
| "apply_payload nd now created (TrackRemovedP p) =
     dbind (dread (\<lambda>s. get_track_for_feed s (trm_feed_guid p) (trm_track_guid p))) (\<lambda>track. case track of None \<Rightarrow> dret ()
       | Some _ \<Rightarrow> dexec (delete_track_sql (nd_env nd) (trm_feed_guid p) (trm_track_guid p)))"

definition insert_received_event :: "event \<Rightarrow> int option dbm" where
  "insert_received_event ev = insert_event_idempotent (ev_event_id ev) (ev_event_type ev) (ev_payload_json ev)
     (ev_subject_guid ev) (ev_signed_by ev) (ev_signature ev) (ev_created_at ev) (ev_warnings ev)"

definition apply_single_event_inner :: "node \<Rightarrow> int \<Rightarrow> event \<Rightarrow> apply_outcome dbm" where
  "apply_single_event_inner nd now ev =
     dbind (insert_received_event ev) (\<lambda>seq_opt. case seq_opt of
       None \<Rightarrow> dret Duplicate
     | Some seq \<Rightarrow> (case deserialize_verified_payload nd ev of
           None \<Rightarrow> dfail (Json ''payload'')
         | Some p \<Rightarrow> dseq (apply_payload nd now (ev_created_at ev) p) (dret (Applied seq))))"

definition apply_single_event :: "node \<Rightarrow> int \<Rightarrow> event \<Rightarrow> apply_outcome dbm" where
  "apply_single_event nd now ev = dtransaction
     (dbind (apply_single_event_inner nd now ev) (\<lambda>outcome. case outcome of
        Duplicate \<Rightarrow> dret outcome
      | Applied _ \<Rightarrow> dseq (dexec (upsert_node_sync_state SYNC_CURSOR_KEY (ev_seq ev) now)) (dret outcome)))"

section \<open>A batch\<close>

text \<open>The state the loop over the verified events carries besides the database.\<close>

record batch =
  ba_summary :: apply_summary
  ba_max_primary_seq :: int
  ba_applied :: "(event \<times> int) list"
  ba_live_diffs :: "(string \<times> live_event list \<times> live_event list) list"

definition empty_summary :: apply_summary where
  "empty_summary = \<lparr>as_applied = 0, as_duplicate = 0, as_rejected = 0, as_max_seq = 0\<rparr>"

definition empty_batch :: batch where
  "empty_batch = \<lparr>ba_summary = empty_summary, ba_max_primary_seq = 0, ba_applied = [], ba_live_diffs = []\<rparr>"

definition note_applied :: "event \<Rightarrow> int \<Rightarrow> batch \<Rightarrow> batch" where
  "note_applied ev local_seq b = b\<lparr>ba_summary := (ba_summary b)\<lparr>
        as_applied := Suc (as_applied (ba_summary b)),
        as_max_seq := max (max (as_max_seq (ba_summary b)) local_seq) (ev_seq ev)\<rparr>,
     ba_max_primary_seq := max (ba_max_primary_seq b) (ev_seq ev),
     ba_applied := ba_applied b @ [(ev, local_seq)]\<rparr>"

definition note_duplicate :: "event \<Rightarrow> batch \<Rightarrow> batch" where
  "note_duplicate ev b = b\<lparr>ba_summary := (ba_summary b)\<lparr>as_duplicate := Suc (as_duplicate (ba_summary b))\<rparr>,
     ba_max_primary_seq := max (ba_max_primary_seq b) (ev_seq ev)\<rparr>"

definition note_rejected :: "batch \<Rightarrow> batch" where
  "note_rejected b = b\<lparr>ba_summary := (ba_summary b)\<lparr>as_rejected := Suc (as_rejected (ba_summary b))\<rparr>\<rparr>"

definition note_live_diff :: "db \<Rightarrow> event_payload \<Rightarrow> batch \<Rightarrow> batch" where
  "note_live_diff s p b = (case p of
       LiveEventsReplacedP q \<Rightarrow> b\<lparr>ba_live_diffs := ba_live_diffs b
          @ [(ler_feed_guid q, get_live_events_for_feed s (ler_feed_guid q), ler_live_events q)]\<rparr>
     | _ \<Rightarrow> b)"

text \<open>
  A payload that does not decode ends the batch with an error. An event that fails to apply is
  counted, and the loop goes on in the state its statements left.
\<close>

fun apply_batch_loop :: "node \<Rightarrow> int \<Rightarrow> batch \<Rightarrow> event list \<Rightarrow> batch dbm" where
  "apply_batch_loop nd now b [] = dret b"
| "apply_batch_loop nd now b (ev # evs) = (\<lambda>s.
     case deserialize_verified_payload nd ev of
       None \<Rightarrow> (Inl (Json ''payload''), s)
     | Some p \<Rightarrow>
         let b1 = note_live_diff s p b in
         (case apply_single_event_inner nd now ev s of
            (Inr (Applied local_seq), s') \<Rightarrow> apply_batch_loop nd now (note_applied ev local_seq b1) evs s'
          | (Inr Duplicate, s') \<Rightarrow> apply_batch_loop nd now (note_duplicate ev b1) evs s'
          | (Inl _, s') \<Rightarrow> apply_batch_loop nd now (note_rejected b1) evs s'))"

definition apply_batch :: "node \<Rightarrow> int \<Rightarrow> event list \<Rightarrow> batch dbm" where
  "apply_batch nd now verified = dtransaction
     (dbind (apply_batch_loop nd now empty_batch verified) (\<lambda>b.
        dseq (if ba_max_primary_seq b > 0
              then dexec (upsert_node_sync_state SYNC_CURSOR_KEY (ba_max_primary_seq b) now) else dret ())
             (dret b)))"

definition is_verified :: "node \<Rightarrow> event \<Rightarrow> bool" where
  "is_verified nd ev = (verify_event_signature (nd_crypto nd) ev = Inr ())"

definition local_event :: "event \<times> int \<Rightarrow> event" where
  "local_event r = (fst r)\<lparr>ev_seq := snd r\<rparr>"

definition publish_batch :: "batch \<Rightarrow> sse_registry \<Rightarrow> sse_registry" where
  "publish_batch b reg =
     publish_sse_frames
       (concat (map (\<lambda>(g, old, new). build_live_sse_frames_for_feed g old new (map local_event (ba_applied b)))
          (ba_live_diffs b)))
       (fold (\<lambda>r. publish_events_to_sse [local_event r]) (ba_applied b) reg)"

definition apply_events ::
  "node \<Rightarrow> int \<Rightarrow> event list \<Rightarrow> db \<times> sse_registry option \<Rightarrow> apply_summary \<times> db \<times> sse_registry option" where
  "apply_events nd now events st =
     (let (s, reg) = st;
          verified = filter (is_verified nd) events;
          bad = length (filter (\<lambda>ev. \<not> is_verified nd ev) events)
      in if verified = [] then (empty_summary\<lparr>as_rejected := bad\<rparr>, s, reg)
         else case apply_batch nd now verified s of
             (Inl _, s') \<Rightarrow> (empty_summary\<lparr>as_rejected := bad + length verified\<rparr>, s', reg)
           | (Inr b, s') \<Rightarrow>
               ((ba_summary b)\<lparr>as_rejected := bad + as_rejected (ba_summary b),
                  as_max_seq := max 0 (as_max_seq (ba_summary b))\<rparr>,
                s', map_option (publish_batch b) reg))"

end
