(* ===== verification/Sync.thy ===== *)
theory Sync
  imports Apply
begin

text \<open>
  What applying events guarantees: the invariants of the store, the outcome of a delivery and of
  a repeated one, the movement of the cursor, and independence from the unsigned payload.
\<close>

section \<open>The log\<close>

definition events_ok :: "db \<Rightarrow> bool" where
  "events_ok s \<longleftrightarrow> distinct (map er_event_id (t_events s)) \<and> sorted_wrt (<) (map er_seq (t_events s))"

lemma fold_max_ge: "x \<le> fold max xs (x::int)" "y \<in> set xs \<Longrightarrow> y \<le> fold max xs x"
proof -
  have "x \<le> fold max xs x \<and> (\<forall>y\<in>set xs. y \<le> fold max xs x)" for xs and x :: int
  proof (induction xs arbitrary: x)
    case (Cons z xs)
    from Cons [of "max z x"] show ?case by auto
  qed simp
  then show "x \<le> fold max xs x" "y \<in> set xs \<Longrightarrow> y \<le> fold max xs x" by blast+
qed

lemma next_seq_greater: "r \<in> set (t_events s) \<Longrightarrow> er_seq r < next_seq s"
proof (cases "t_events s")
  case (Cons x xs)
  assume "r \<in> set (t_events s)"
  then have "er_seq r = er_seq x \<or> er_seq r \<in> set (map er_seq xs)" using Cons by auto
  then have "er_seq r \<le> fold max (map er_seq xs) (er_seq x)"
    using fold_max_ge(1) [of "er_seq x" "map er_seq xs"] fold_max_ge(2) [of "er_seq r" "map er_seq xs" "er_seq x"]
    by auto
  then show ?thesis by (simp add: next_seq_def Cons)
qed simp

lemma event_id_taken_iff: "event_id_taken i s \<longleftrightarrow> i \<in> er_event_id ` set (t_events s)"
  by (simp add: event_id_taken_def exists_where_key del: exists_where_iff)

lemma events_ok_append:
  assumes "events_ok s" "\<not> event_id_taken (er_event_id r) s" "er_seq r = next_seq s"
  shows "events_ok (s\<lparr>t_events := t_events s @ [r]\<rparr>)"
  using assms next_seq_greater by (auto simp: events_ok_def event_id_taken_iff sorted_wrt_append)

lemma events_ok_signature:
  "events_ok (update_event_signature i k g s) = events_ok s"
proof -
  have "map er_event_id (t_events (update_event_signature i k g s)) = map er_event_id (t_events s)"
    "map er_seq (t_events (update_event_signature i k g s)) = map er_seq (t_events s)"
    by (simp_all add: update_event_signature_def update_where_def)
  then show ?thesis by (simp add: events_ok_def)
qed

lemma insert_event_ok:
  assumes "\<not> event_id_taken i s"
  shows "\<exists>s'. insert_event c key i et pj sg ca ws s =
      (Inr (next_seq s, sign_event c key i et pj sg ca (next_seq s)), s')
    \<and> t_events s' = t_events s @ [\<lparr>er_event_id = i, er_event_type = et, er_payload_json = pj,
        er_subject_guid = sg, er_signed_by = fst (sign_event c key i et pj sg ca (next_seq s)),
        er_signature = snd (sign_event c key i et pj sg ca (next_seq s)), er_seq = next_seq s,
        er_created_at = ca, er_warnings = ws\<rparr>]"
proof -
  have "update_where (\<lambda>r. er_event_id r = i) f (t_events s) = t_events s" for f
    using assms by (auto simp: update_where_def event_id_taken_iff image_iff intro!: map_idI)
  then show ?thesis
    using assms
    by (auto simp: insert_event_def dbind_def dseq_def dread_def dstmt_def dexec_def dret_def Let_def
        constraints_def update_event_signature_def update_where_def prod.case_eq_if)
qed

lemma insert_event_error:
  "event_id_taken i s \<Longrightarrow> insert_event c key i et pj sg ca ws s = (Inl UNIQUE_FAILED, s)"
  by (simp add: insert_event_def dbind_def dseq_def dread_def dstmt_def constraints_def)

lemma rmap_length: "rmap f xs = Inr ys \<Longrightarrow> length ys = length xs"
  by (induction xs arbitrary: ys) auto

lemma rmap_seqs: "rmap (event_of_row parse) rows = Inr evs \<Longrightarrow> map ev_seq evs = map er_seq rows"
  by (induction rows arbitrary: evs) (auto simp: event_of_row_def split: option.splits)

lemma sort_key_sorted: "sorted_wrt (<) (map er_seq t) \<Longrightarrow> List.sort_key er_seq t = t"
  by (rule sort_key_id_if_sorted)
    (metis sorted_wrt_mono_rel order_less_imp_le sorted_map sorted_wrt_map)

lemma sorted_filter_seq: "sorted_wrt (<) (map er_seq t) \<Longrightarrow> sorted_wrt (<) (map er_seq (filter p t))"
  by (simp add: sorted_wrt_map sorted_wrt_filter)

text \<open>Reading from the last sequence number of a page gives the rest of the log, and no row twice.\<close>

lemma event_rows_since_sorted:
  "events_ok s \<Longrightarrow> event_rows_since s a n = take (nat (max n 1)) (filter (\<lambda>r. er_seq r > a) (t_events s))"
  by (simp add: event_rows_since_def sort_key_sorted sorted_filter_seq events_ok_def)

lemma filter_gt_take:
  assumes "sorted_wrt (<) (map er_seq t)" "0 < n" "n \<le> length t"
  shows "filter (\<lambda>r. er_seq r > er_seq (t ! (n - 1))) t = drop n t"
proof -
  let ?p = "\<lambda>r. er_seq r > er_seq (t ! (n - 1))"
  have lt: "i < j \<Longrightarrow> j < length t \<Longrightarrow> er_seq (t ! i) < er_seq (t ! j)" for i j
    using assms(1) by (simp add: sorted_wrt_iff_nth_less)
  have "filter ?p (take n t) = []"
  proof -
    have "\<not> ?p r" if "r \<in> set (take n t)" for r
    proof -
      from that obtain i where i: "i < n" "i < length t" "r = t ! i" by (auto simp: in_set_conv_nth)
      have "i = n - 1 \<or> i < n - 1" using i(1) by linarith
      moreover have "n - 1 < length t" using assms(2,3) by linarith
      ultimately show ?thesis using lt [of i "n - 1"] i(3) by auto
    qed
    then show ?thesis by (auto simp: filter_empty_conv)
  qed
  moreover have "filter ?p (drop n t) = drop n t"
  proof -
    have "?p r" if "r \<in> set (drop n t)" for r
    proof -
      from that obtain i where "i < length t - n" "r = t ! (n + i)" by (auto simp: in_set_conv_nth)
      then show ?thesis using lt [of "n - 1" "n + i"] assms(2) by auto
    qed
    then show ?thesis by (simp add: filter_id_conv)
  qed
  ultimately show ?thesis by (metis append_Nil append_take_drop_id filter_append)
qed

lemma event_rows_next_page:
  assumes "events_ok s" "0 < n"
    and "page = event_rows_since s a (int n)" "length page = n"
  shows "page @ filter (\<lambda>r. er_seq r > er_seq (last page)) (t_events s) = filter (\<lambda>r. er_seq r > a) (t_events s)"
proof -
  let ?t = "filter (\<lambda>r. er_seq r > a) (t_events s)"
  have srt: "sorted_wrt (<) (map er_seq ?t)" using assms(1) by (simp add: events_ok_def sorted_filter_seq)
  have page: "page = take n ?t" using assms(1-3) by (simp add: event_rows_since_sorted)
  have len: "n \<le> length ?t" using assms(4) by (simp add: page)
  have lst: "last page = ?t ! (n - 1)"
    using assms(2) len by (subst last_conv_nth) (auto simp: page)
  have "page \<noteq> []" using assms(2,4) by auto
  then have "last page \<in> set page" by simp
  then have "last page \<in> set ?t" using page by (metis in_set_takeD)
  then have "er_seq (last page) > a" by simp
  then have "filter (\<lambda>r. er_seq r > er_seq (last page)) (t_events s) = filter (\<lambda>r. er_seq r > er_seq (last page)) ?t"
    by (auto intro: filter_cong)
  also have "\<dots> = drop n ?t" unfolding lst by (rule filter_gt_take [OF srt assms(2) len])
  finally show ?thesis by (simp add: page)
qed

section \<open>Applying keeps the store well formed\<close>

definition log_index_ok :: "env \<Rightarrow> db \<Rightarrow> bool" where
  "log_index_ok env s \<longleftrightarrow> index_ok env s \<and> events_ok s"

definition store_ok :: "env \<Rightarrow> db \<Rightarrow> bool" where
  "store_ok env s \<longleftrightarrow> refs_ok s \<and> index_ok env s \<and> events_ok s"

lemmas log_defs = log_index_ok_def index_ok_def events_ok_def

text \<open>A replace touches neither the log nor the index.\<close>

lemma keeps_log_replace [keeps_intros]:
  "keeps (log_index_ok env) (replace_payment_routes t prs)"
  "keeps (log_index_ok env) (replace_payment_routes_for_feed_track g t prs)"
  "keeps (log_index_ok env) (replace_feed_payment_routes g fprs)"
  "keeps (log_index_ok env) (replace_feed_list_value_raw g flvs)"
  "keeps (log_index_ok env) (replace_feed_remote_items_raw g fris)"
  "keeps (log_index_ok env) (replace_track_remote_items_raw t tris)"
  "keeps (log_index_ok env) (replace_track_remote_items_raw_for_feed_track g t tris)"
  "keeps (log_index_ok env) (replace_live_events_for_feed g les)"
  "keeps (log_index_ok env) (replace_source_contributor_claims_for_feed g sccs)"
  "keeps (log_index_ok env) (replace_source_entity_ids_for_feed g seis)"
  "keeps (log_index_ok env) (replace_source_entity_links_for_feed g sels)"
  "keeps (log_index_ok env) (replace_source_release_claims_for_feed g srcs)"
  "keeps (log_index_ok env) (replace_source_item_enclosures_for_feed g sies)"
  "keeps (log_index_ok env) (replace_source_item_transcripts_for_feed g sits)"
  "keeps (log_index_ok env) (replace_source_platform_claims_for_feed g spcs)"
  by (unfold replace_payment_routes_def replace_payment_routes_for_feed_track_def replace_feed_payment_routes_def
      replace_feed_list_value_raw_def replace_feed_remote_items_raw_def replace_track_remote_items_raw_def
      replace_track_remote_items_raw_for_feed_track_def replace_live_events_for_feed_def
      replace_source_contributor_claims_for_feed_def replace_source_entity_ids_for_feed_def
      replace_source_entity_links_for_feed_def replace_source_release_claims_for_feed_def
      replace_source_item_enclosures_for_feed_def replace_source_item_transcripts_for_feed_def
      replace_source_platform_claims_for_feed_def,
      (rule pr.replace_frame fpr.replace_frame flv.replace_frame fri.replace_frame tri.replace_frame
        le.replace_frame scc.replace_frame sei.replace_frame sel.replace_frame srcl.replace_frame
        sie.replace_frame sit.replace_frame spc.replace_frame, simp add: log_defs)+)

lemma keeps_log_value_time_splits [keeps_intros]:
  "keeps (log_index_ok env) (replace_value_time_splits_for_feed_track g t vs)"
  unfolding replace_value_time_splits_for_feed_track_def insert_value_time_split_def insert_vts_recipient_def
    insert_row_def
  by (intro keeps_intros) (simp_all add: log_defs)

lemma keeps_log_upserts [keeps_intros]:
  "keeps (log_index_ok env) (upsert_feed lc up f)"
  "keeps (log_index_ok env) (upsert_track t)"
  unfolding upsert_feed_def upsert_track_def
  by (rule keeps_dstmt, simp add: log_defs)+

lemma index_events_frame:
  "t_events (delete_from_search_index env t e s) = t_events s"
  "t_events (store_quality now a b n s) = t_events s"
  by (simp_all add: store_quality_def)

lemma keeps_log_sync [keeps_intros]:
  "keeps (log_index_ok env) (sync_source_read_models_for_feed env now g)"
proof -
  have pop: "keeps (log_index_ok env) (populate_search_index env t e n ti d)" for t e n ti d
    by (simp add: keeps_def log_index_ok_def populate_search_index_result indexed_state_ok)
      (simp add: indexed_state_def events_ok_def)
  have tr: "keeps (log_index_ok env) (sync_track_read_model env now b t)" for b t
    unfolding sync_track_read_model_def Let_def
    by (intro keeps_intros pop)
      (simp_all add: log_index_ok_def delete_from_search_index_ok events_ok_def index_events_frame)
  have fe: "keeps (log_index_ok env) (sync_feed_index_row env f t b)" for f t b
    unfolding sync_feed_index_row_def
    by (intro keeps_intros pop) (simp add: log_index_ok_def delete_from_search_index_ok events_ok_def)
  show ?thesis
    unfolding sync_source_read_models_for_feed_def
    by (intro keeps_intros tr fe) (simp add: log_index_ok_def events_ok_def index_events_frame)
qed

lemma log_index_deletes:
  "log_index_ok env s \<Longrightarrow> log_index_ok env (delete_feed_sql env g s)"
  "log_index_ok env s \<Longrightarrow> log_index_ok env (delete_track_sql env g t s)"
proof -
  assume s: "log_index_ok env s"
  then show "log_index_ok env (delete_feed_sql env g s)"
    by (simp add: log_index_ok_def delete_feed_index_ok events_ok_def delete_feed_sql_same)
  have "t_search_entities (delete_track_sql env g t s) = t_search_entities (delete_from_search_index env ''track'' (canonical_track_entity_id env g t) s)"
    "t_search_index (delete_track_sql env g t s) = t_search_index (delete_from_search_index env ''track'' (canonical_track_entity_id env g t) s)"
    "t_events (delete_track_sql env g t s) = t_events s"
    by (simp_all add: delete_track_sql_def)
  with s show "log_index_ok env (delete_track_sql env g t s)"
    using delete_from_search_index_ok [of env s "''track''" "canonical_track_entity_id env g t"]
    by (simp add: log_defs)
qed

text \<open>The registries are outside both invariants.\<close>

lemma registry_frame [simp]:
  "refs_ok (s\<lparr>t_feed_url_observations := a\<rparr>) = refs_ok s"
  "refs_ok (s\<lparr>t_feed_blocks := b\<rparr>) = refs_ok s"
  "refs_ok (s\<lparr>t_feed_copies := c\<rparr>) = refs_ok s"
  "refs_ok (s\<lparr>t_feed_guid_changes := d\<rparr>) = refs_ok s"
  "refs_ok (s\<lparr>t_feed_guid_supersessions := e\<rparr>) = refs_ok s"
  "refs_ok (s\<lparr>t_node_sync_state := f\<rparr>) = refs_ok s"
  "refs_ok (s\<lparr>t_events := h\<rparr>) = refs_ok s"
  "log_index_ok env (s\<lparr>t_feed_url_observations := a\<rparr>) = log_index_ok env s"
  "log_index_ok env (s\<lparr>t_feed_blocks := b\<rparr>) = log_index_ok env s"
  "log_index_ok env (s\<lparr>t_feed_copies := c\<rparr>) = log_index_ok env s"
  "log_index_ok env (s\<lparr>t_feed_guid_changes := d\<rparr>) = log_index_ok env s"
  "log_index_ok env (s\<lparr>t_feed_guid_supersessions := e\<rparr>) = log_index_ok env s"
  "log_index_ok env (s\<lparr>t_node_sync_state := f\<rparr>) = log_index_ok env s"
  by (simp_all add: frame_defs log_defs)

lemma registry_ops [simp]:
  "refs_ok (upsert_feed_url_observation u g n s) = refs_ok s"
  "refs_ok (snd (insert_feed_block lc b s)) = refs_ok s"
  "refs_ok (snd (delete_feed_block i s)) = refs_ok s"
  "refs_ok (upsert_feed_copy_summary g u n cs d od s) = refs_ok s"
  "refs_ok (delete_guid_change u s) = refs_ok s"
  "refs_ok (upsert_guid_change u g h n s) = refs_ok s"
  "refs_ok (insert_guid_supersession g h u n s) = refs_ok s"
  "refs_ok (upsert_node_sync_state u n m s) = refs_ok s"
  "log_index_ok env (upsert_feed_url_observation u g n s) = log_index_ok env s"
  "log_index_ok env (snd (insert_feed_block lc b s)) = log_index_ok env s"
  "log_index_ok env (snd (delete_feed_block i s)) = log_index_ok env s"
  "log_index_ok env (upsert_feed_copy_summary g u n cs d od s) = log_index_ok env s"
  "log_index_ok env (delete_guid_change u s) = log_index_ok env s"
  "log_index_ok env (upsert_guid_change u g h n s) = log_index_ok env s"
  "log_index_ok env (insert_guid_supersession g h u n s) = log_index_ok env s"
  "log_index_ok env (upsert_node_sync_state u n m s) = log_index_ok env s"
  by (simp_all add: upsert_feed_url_observation_def insert_feed_block_def delete_feed_block_def Let_def
      upsert_feed_copy_summary_def delete_guid_change_def upsert_guid_change_def insert_guid_supersession_def
      upsert_node_sync_state_def del: exists_where_iff)

lemma keeps_registry_statements [keeps_intros]:
  "keeps refs_ok (set_feed_copy_resolution g u d r n rd od)"
  "keeps refs_ok (set_guid_change_decision u d r n)"
  "keeps (log_index_ok env) (set_feed_copy_resolution g u d r n rd od)"
  "keeps (log_index_ok env) (set_guid_change_decision u d r n)"
  unfolding set_feed_copy_resolution_def set_guid_change_decision_def
  by (rule keeps_dstmt, simp)+

lemma keeps_refs_apply_payload: "keeps refs_ok (apply_payload nd now ca p)"
  by (cases p; simp only: apply_payload.simps Let_def; intro keeps_intros;
      simp add: delete_feed_refs_ok delete_track_refs_ok)

lemma keeps_log_apply_payload: "keeps (log_index_ok (nd_env nd)) (apply_payload nd now ca p)"
  by (cases p; simp only: apply_payload.simps Let_def; intro keeps_intros;
      simp add: log_index_deletes)

section \<open>Applying a payload leaves the log and the cursor\<close>

definition log_view :: "(event_row list \<Rightarrow> node_sync_row list \<Rightarrow> bool) \<Rightarrow> db \<Rightarrow> bool" where
  "log_view Q s = Q (t_events s) (t_node_sync_state s)"

lemma keeps_view_replace [keeps_intros]:
  "keeps (log_view Q) (replace_payment_routes t prs)"
  "keeps (log_view Q) (replace_payment_routes_for_feed_track g t prs)"
  "keeps (log_view Q) (replace_feed_payment_routes g fprs)"
  "keeps (log_view Q) (replace_feed_list_value_raw g flvs)"
  "keeps (log_view Q) (replace_feed_remote_items_raw g fris)"
  "keeps (log_view Q) (replace_track_remote_items_raw t tris)"
  "keeps (log_view Q) (replace_track_remote_items_raw_for_feed_track g t tris)"
  "keeps (log_view Q) (replace_live_events_for_feed g les)"
  "keeps (log_view Q) (replace_source_contributor_claims_for_feed g sccs)"
  "keeps (log_view Q) (replace_source_entity_ids_for_feed g seis)"
  "keeps (log_view Q) (replace_source_entity_links_for_feed g sels)"
  "keeps (log_view Q) (replace_source_release_claims_for_feed g srcs)"
  "keeps (log_view Q) (replace_source_item_enclosures_for_feed g sies)"
  "keeps (log_view Q) (replace_source_item_transcripts_for_feed g sits)"
  "keeps (log_view Q) (replace_source_platform_claims_for_feed g spcs)"
  by (unfold replace_payment_routes_def replace_payment_routes_for_feed_track_def replace_feed_payment_routes_def
      replace_feed_list_value_raw_def replace_feed_remote_items_raw_def replace_track_remote_items_raw_def
      replace_track_remote_items_raw_for_feed_track_def replace_live_events_for_feed_def
      replace_source_contributor_claims_for_feed_def replace_source_entity_ids_for_feed_def
      replace_source_entity_links_for_feed_def replace_source_release_claims_for_feed_def
      replace_source_item_enclosures_for_feed_def replace_source_item_transcripts_for_feed_def
      replace_source_platform_claims_for_feed_def,
      (rule pr.replace_frame fpr.replace_frame flv.replace_frame fri.replace_frame tri.replace_frame
        le.replace_frame scc.replace_frame sei.replace_frame sel.replace_frame srcl.replace_frame
        sie.replace_frame sit.replace_frame spc.replace_frame, simp add: log_view_def)+)

lemma keeps_view_rest [keeps_intros]:
  "keeps (log_view Q) (replace_value_time_splits_for_feed_track g t vs)"
  "keeps (log_view Q) (upsert_feed lc up f)"
  "keeps (log_view Q) (upsert_track tr)"
  "keeps (log_view Q) (set_feed_copy_resolution g u d r n rd od)"
  "keeps (log_view Q) (set_guid_change_decision u d r n)"
  unfolding replace_value_time_splits_for_feed_track_def insert_value_time_split_def insert_vts_recipient_def
    insert_row_def upsert_feed_def upsert_track_def set_feed_copy_resolution_def set_guid_change_decision_def
  by (intro keeps_intros; simp add: log_view_def)+

lemma keeps_view_sync [keeps_intros]:
  "keeps (log_view Q) (sync_source_read_models_for_feed env now g)"
proof -
  have pop: "keeps (log_view Q) (populate_search_index env t e n ti d)" for t e n ti d
    unfolding populate_search_index_def Let_def by (intro keeps_intros) (simp_all add: log_view_def)
  have tr: "keeps (log_view Q) (sync_track_read_model env now b t)" for b t
    unfolding sync_track_read_model_def Let_def
    by (intro keeps_intros pop) (simp_all add: log_view_def store_quality_def)
  have fe: "keeps (log_view Q) (sync_feed_index_row env f t b)" for f t b
    unfolding sync_feed_index_row_def by (intro keeps_intros pop) (simp add: log_view_def)
  show ?thesis
    unfolding sync_source_read_models_for_feed_def
    by (intro keeps_intros tr fe) (simp add: log_view_def store_quality_def)
qed

lemma view_ops [simp]:
  "log_view Q (upsert_feed_url_observation u g n s) = log_view Q s"
  "log_view Q (snd (insert_feed_block lc b s)) = log_view Q s"
  "log_view Q (snd (delete_feed_block i s)) = log_view Q s"
  "log_view Q (upsert_feed_copy_summary g u n cs d od s) = log_view Q s"
  "log_view Q (delete_guid_change u s) = log_view Q s"
  "log_view Q (upsert_guid_change u g h n s) = log_view Q s"
  "log_view Q (insert_guid_supersession g h u n s) = log_view Q s"
  "log_view Q (delete_feed_sql env g s) = log_view Q s"
  "log_view Q (delete_track_sql env g t s) = log_view Q s"
  by (simp_all add: log_view_def upsert_feed_url_observation_def insert_feed_block_def delete_feed_block_def Let_def
      upsert_feed_copy_summary_def delete_guid_change_def upsert_guid_change_def insert_guid_supersession_def
      delete_feed_sql_same delete_track_sql_def del: exists_where_iff)

lemma keeps_view_apply_payload: "keeps (log_view Q) (apply_payload nd now ca p)"
  by (cases p; simp only: apply_payload.simps Let_def; intro keeps_intros; simp)

lemma apply_payload_log:
  "t_events (snd (apply_payload nd now ca p s)) = t_events s"
  "t_node_sync_state (snd (apply_payload nd now ca p s)) = t_node_sync_state s"
  using keepsD [OF keeps_view_apply_payload [of "\<lambda>e n. e = t_events s \<and> n = t_node_sync_state s" nd now ca p], of s]
  by (simp_all add: log_view_def)

section \<open>One event\<close>

definition received_row :: "event \<Rightarrow> db \<Rightarrow> event_row" where
  "received_row ev s = \<lparr>er_event_id = ev_event_id ev, er_event_type = ev_event_type ev,
     er_payload_json = ev_payload_json ev, er_subject_guid = ev_subject_guid ev, er_signed_by = ev_signed_by ev,
     er_signature = ev_signature ev, er_seq = next_seq s, er_created_at = ev_created_at ev,
     er_warnings = ev_warnings ev\<rparr>"

lemma insert_received_event_result:
  "insert_received_event ev s = (if event_id_taken (ev_event_id ev) s then (Inr None, s)
     else (Inr (Some (next_seq s)), s\<lparr>t_events := t_events s @ [received_row ev s]\<rparr>))"
  by (simp add: insert_received_event_def insert_event_idempotent_def received_row_def)

lemma inner_duplicate:
  "event_id_taken (ev_event_id ev) s \<Longrightarrow> apply_single_event_inner nd now ev s = (Inr Duplicate, s)"
  by (simp add: apply_single_event_inner_def dbind_def insert_received_event_result dret_def)

lemma inner_new:
  assumes "\<not> event_id_taken (ev_event_id ev) s"
  shows "t_events (snd (apply_single_event_inner nd now ev s)) = t_events s @ [received_row ev s]"
    and "fst (apply_single_event_inner nd now ev s) = Inr (Applied (next_seq s))
      \<or> (\<exists>e. fst (apply_single_event_inner nd now ev s) = Inl e)"
proof -
  let ?s = "s\<lparr>t_events := t_events s @ [received_row ev s]\<rparr>"
  have start: "insert_received_event ev s = (Inr (Some (next_seq s)), ?s)"
    using assms by (simp add: insert_received_event_result)
  have "t_events (snd (apply_single_event_inner nd now ev s)) = t_events s @ [received_row ev s] \<and>
    (fst (apply_single_event_inner nd now ev s) = Inr (Applied (next_seq s))
      \<or> (\<exists>e. fst (apply_single_event_inner nd now ev s) = Inl e))"
  proof (cases "deserialize_verified_payload nd ev")
    case None
    then show ?thesis by (simp add: apply_single_event_inner_def dbind_def start dfail_def)
  next
    case (Some p)
    obtain r s1 where run: "apply_payload nd now (ev_created_at ev) p ?s = (r, s1)" by force
    have "t_events s1 = t_events ?s"
      using apply_payload_log(1) [of nd now "ev_created_at ev" p ?s] by (simp add: run)
    then show ?thesis
      using Some run by (cases r) (simp_all add: apply_single_event_inner_def dbind_def start dret_def dseq_def)
  qed
  then show "t_events (snd (apply_single_event_inner nd now ev s)) = t_events s @ [received_row ev s]"
    and "fst (apply_single_event_inner nd now ev s) = Inr (Applied (next_seq s))
      \<or> (\<exists>e. fst (apply_single_event_inner nd now ev s) = Inl e)" by auto
qed

section \<open>Properties of the log\<close>

text \<open>
  C15: Writing an own event either refuses a known id and changes nothing, or appends one row with
  the next sequence number, greater than every earlier one, and that row read back is an event
  whose signature verifies.
\<close>

theorem inserted_event_verifies:
  assumes "crypto_ok c" "payload_json \<noteq> []" "parse event_type payload_json = Some p"
  shows "case insert_event c key i event_type payload_json subject now warnings s of
      (Inl e, s') \<Rightarrow> event_id_taken i s \<and> s' = s
    | (Inr (seq, by, sig), s') \<Rightarrow> \<not> event_id_taken i s \<and> list_all (\<lambda>r. er_seq r < seq) (t_events s)
        \<and> (\<exists>row ev. t_events s' = t_events s @ [row] \<and> event_of_row parse row = Inr ev \<and> ev_seq ev = seq
              \<and> verify_event_signature c ev = Inr ())"
proof (cases "event_id_taken i s")
  case True
  then show ?thesis by (simp add: insert_event_error)
next
  case False
  let ?sg = "sign_event c key i event_type payload_json subject now (next_seq s)"
  obtain s' where s': "insert_event c key i event_type payload_json subject now warnings s = (Inr (next_seq s, ?sg), s')"
    "t_events s' = t_events s @ [\<lparr>er_event_id = i, er_event_type = event_type, er_payload_json = payload_json,
        er_subject_guid = subject, er_signed_by = fst ?sg, er_signature = snd ?sg, er_seq = next_seq s,
        er_created_at = now, er_warnings = warnings\<rparr>]"
    using insert_event_ok [OF False, of c key event_type payload_json subject now warnings] by blast
  let ?ev = "\<lparr>ev_event_id = i, ev_event_type = event_type, ev_payload = p, ev_subject_guid = subject,
     ev_signed_by = fst ?sg, ev_signature = snd ?sg, ev_seq = next_seq s, ev_created_at = now,
     ev_warnings = warnings, ev_payload_json = payload_json\<rparr>"
  have "verify_event_signature c ?ev = Inr ()"
    by (rule verify_signed_event [OF assms(1), of _ key]) (simp_all add: assms(2))
  moreover have "list_all (\<lambda>r. er_seq r < next_seq s) (t_events s)" by (simp add: list_all_iff next_seq_greater)
  ultimately show ?thesis
    using s' False assms(3) by (cases ?sg) (simp add: event_of_row_def)
qed

theorem inserted_event_verifies_witness:
  "case insert_event toy_crypto ''key'' ''e1'' FeedUnblocked ''{}'' ''b1'' 5 [] empty_db of
      (Inl e, s') \<Rightarrow> event_id_taken ''e1'' empty_db \<and> s' = empty_db
    | (Inr (seq, by, sig), s') \<Rightarrow> \<not> event_id_taken ''e1'' empty_db \<and> list_all (\<lambda>r. er_seq r < seq) (t_events empty_db)
        \<and> (\<exists>row ev. t_events s' = t_events empty_db @ [row]
              \<and> event_of_row (\<lambda>t j. Some (FeedUnblockedP \<lparr>fub_block_id = ''b1''\<rparr>)) row = Inr ev \<and> ev_seq ev = seq
              \<and> verify_event_signature toy_crypto ev = Inr ())"
  by (rule inserted_event_verifies [OF toy_crypto_ok]) simp_all

text \<open>
  C20: Reading the log page by page loses and repeats nothing: a full page after a sequence number,
  followed by everything after the last event of the page, is everything after that number.
\<close>

theorem event_pages_partition_the_log:
  assumes "events_ok s" "0 < n" "get_events_since parse s a (int n) = Inr page" "length page = n"
  shows "map ev_seq page @ map er_seq (filter (\<lambda>r. er_seq r > ev_seq (last page)) (t_events s))
    = map er_seq (filter (\<lambda>r. er_seq r > a) (t_events s))"
proof -
  let ?rows = "event_rows_since s a (int n)"
  have run: "rmap (event_of_row parse) ?rows = Inr page" using assms(3) by (simp add: get_events_since_def)
  have seqs: "map ev_seq page = map er_seq ?rows" by (rule rmap_seqs [OF run])
  have len: "length ?rows = n" using rmap_length [OF run] assms(4) by simp
  then have "?rows \<noteq> []" "page \<noteq> []" using assms(2,4) by auto
  then have "ev_seq (last page) = er_seq (last ?rows)" using seqs by (metis last_map)
  with event_rows_next_page [OF assms(1,2) refl len] seqs show ?thesis
    by (metis map_append)
qed

definition two_row_log :: db where
  "two_row_log = empty_db\<lparr>t_events := [log_row FeedBlocked 1 ''{}'', log_row FeedUnblocked 2 ''{}'']\<rparr>"

theorem event_pages_partition_the_log_witness:
  "\<exists>page. get_events_since (\<lambda>t j. Some (FeedUnblockedP \<lparr>fub_block_id = ''b1''\<rparr>)) two_row_log 0 (int 1) = Inr page
    \<and> map ev_seq page @ map er_seq (filter (\<lambda>r. er_seq r > ev_seq (last page)) (t_events two_row_log)) = [1, 2]"
proof -
  have ok: "events_ok two_row_log"
    unfolding events_ok_def two_row_log_def log_row_def empty_db_def by code_simp
  have rows: "event_rows_since two_row_log 0 (int 1) = [log_row FeedBlocked 1 ''{}'']"
    by (simp add: event_rows_since_sorted [OF ok]) (simp add: two_row_log_def log_row_def)
  obtain page where page: "get_events_since (\<lambda>t j. Some (FeedUnblockedP \<lparr>fub_block_id = ''b1''\<rparr>)) two_row_log 0 (int 1) = Inr page" "length page = 1"
    by (simp add: get_events_since_def rows [simplified] event_of_row_def)
  from event_pages_partition_the_log [OF ok _ page(1)] page show ?thesis
    by (auto simp: two_row_log_def log_row_def)
qed

text \<open>
  A page of event references holds the events from a sequence number on, in order, at most the
  limit of them, and is marked truncated exactly when the log holds more.
\<close>

theorem event_refs_page:
  assumes "events_ok s" "1 \<le> limit" "limit < i64_max"
  shows "get_event_refs_since s a limit =
    (map (\<lambda>r. (er_event_id r, er_seq r)) (take (nat limit) (filter (\<lambda>r. er_seq r \<ge> a) (t_events s))),
     int (length (filter (\<lambda>r. er_seq r \<ge> a) (t_events s))) > limit)"
proof -
  have fetch: "min (limit + 1) i64_max = limit + 1" "max limit 1 = limit" using assms(2,3) by simp_all
  have "List.sort_key er_seq (filter (\<lambda>r. er_seq r \<ge> a) (t_events s)) = filter (\<lambda>r. er_seq r \<ge> a) (t_events s)"
    using assms(1) by (simp add: sort_key_sorted sorted_filter_seq events_ok_def)
  moreover have "nat (limit + 1) = Suc (nat limit)" using assms(2) by simp
  ultimately show ?thesis
    unfolding get_event_refs_since_def Let_def fetch using assms(2)
    by (auto simp: take_map min_def nat_le_iff)
qed

theorem event_refs_page_witness:
  "get_event_refs_since two_row_log 1 1 = ([(show_int 1, 1)], True)"
proof -
  have "events_ok two_row_log"
    unfolding events_ok_def two_row_log_def log_row_def empty_db_def by code_simp
  from event_refs_page [OF this, of 1 1] show ?thesis
    by (simp add: two_row_log_def log_row_def i64_max_def)
qed

end
