(* ===== verification/Delivery.thy ===== *)
theory Delivery
  imports Sync
begin

text \<open>
  What a community node promises when it applies a batch: the store stays well formed, every event
  of the batch is counted once, the log grows by the first copy of each unknown event, a batch that
  arrives again changes nothing but the cursor, and the cursor never goes back.
\<close>

section \<open>Invariants\<close>

lemma store_ok_split: "store_ok env s \<longleftrightarrow> refs_ok s \<and> log_index_ok env s"
  by (simp add: store_ok_def log_index_ok_def)

lemma keeps_insert_received [keeps_intros]:
  "keeps refs_ok (insert_received_event ev)"
  "keeps (log_index_ok env) (insert_received_event ev)"
proof -
  show "keeps refs_ok (insert_received_event ev)"
    by (simp add: keeps_def insert_received_event_result)
  have "log_index_ok env (s\<lparr>t_events := t_events s @ [received_row ev s]\<rparr>)"
    if "log_index_ok env s" "\<not> event_id_taken (ev_event_id ev) s" for s
    using that events_ok_append [of s "received_row ev s"] by (simp add: log_index_ok_def index_ok_def received_row_def)
  then show "keeps (log_index_ok env) (insert_received_event ev)"
    by (simp add: keeps_def insert_received_event_result)
qed

lemma keeps_inner [keeps_intros]:
  "keeps refs_ok (apply_single_event_inner nd now ev)"
  "keeps (log_index_ok (nd_env nd)) (apply_single_event_inner nd now ev)"
  unfolding apply_single_event_inner_def
  by (intro keeps_intros keeps_refs_apply_payload keeps_log_apply_payload)+

lemma keeps_batch_loop:
  assumes "\<And>ev. keeps P (apply_single_event_inner nd now ev)"
  shows "keeps P (apply_batch_loop nd now b evs)"
proof (induction evs arbitrary: b)
  case (Cons ev evs)
  show ?case
    unfolding keeps_def
  proof (intro allI impI)
    fix s assume s: "P s"
    obtain r s1 where run: "apply_single_event_inner nd now ev s = (r, s1)" by force
    with s assms [of ev] have s1: "P s1" by (metis keepsD snd_conv)
    then have "P (snd (apply_batch_loop nd now b' evs s1))" for b'
      using Cons [of b'] by (simp add: keepsD)
    with s run show "P (snd (apply_batch_loop nd now b (ev # evs) s))"
      by (auto simp: Let_def split: option.split sum.split apply_outcome.split)
  qed
qed simp

lemma keeps_apply_batch:
  "keeps refs_ok (apply_batch nd now evs)"
  "keeps (log_index_ok (nd_env nd)) (apply_batch nd now evs)"
  unfolding apply_batch_def
  by (intro keeps_intros keeps_batch_loop; simp)+

lemma apply_events_db:
  "fst (snd (apply_events nd now evs (s, reg))) =
    (if filter (is_verified nd) evs = [] then s else snd (apply_batch nd now (filter (is_verified nd) evs) s))"
  by (simp add: apply_events_def Let_def split: prod.split sum.split)

lemma apply_events_keeps:
  assumes "store_ok (nd_env nd) s"
  shows "store_ok (nd_env nd) (fst (snd (apply_events nd now evs (s, reg))))"
  using assms keeps_apply_batch by (auto simp: apply_events_db store_ok_split keeps_def)

lemma single_event_keeps:
  assumes "store_ok (nd_env nd) s"
  shows "store_ok (nd_env nd) (snd (apply_single_event nd now ev s))"
proof -
  have "keeps refs_ok (apply_single_event nd now ev)" "keeps (log_index_ok (nd_env nd)) (apply_single_event nd now ev)"
    unfolding apply_single_event_def
    by (intro keeps_intros; auto intro!: keeps_intros split: apply_outcome.split)+
  with assms show ?thesis by (simp add: store_ok_split keeps_def)
qed

section \<open>Counting\<close>

definition summary_total :: "apply_summary \<Rightarrow> nat" where
  "summary_total r = as_applied r + as_duplicate r + as_rejected r"

lemma total_notes [simp]:
  "summary_total (ba_summary (note_applied ev n b)) = Suc (summary_total (ba_summary b))"
  "summary_total (ba_summary (note_duplicate ev b)) = Suc (summary_total (ba_summary b))"
  "summary_total (ba_summary (note_rejected b)) = Suc (summary_total (ba_summary b))"
  "ba_summary (note_live_diff s p b) = ba_summary b"
  "ba_applied (note_live_diff s p b) = ba_applied b"
  "ba_max_primary_seq (note_live_diff s p b) = ba_max_primary_seq b"
  by (simp_all add: summary_total_def note_applied_def note_duplicate_def note_rejected_def note_live_diff_def
      split: event_payload.split)

lemma batch_loop_total:
  "apply_batch_loop nd now b evs s = (Inr b', s') \<Longrightarrow>
   summary_total (ba_summary b') = summary_total (ba_summary b) + length evs"
proof (induction evs arbitrary: b s)
  case (Cons ev evs)
  from Cons.prems show ?case
    by (auto simp: Let_def dest!: Cons.IH split: option.splits prod.splits sum.splits apply_outcome.splits)
qed (simp add: dret_def)

lemma apply_batch_Inr:
  "apply_batch nd now evs s = (Inr b, s') \<longleftrightarrow>
   (\<exists>s1. apply_batch_loop nd now empty_batch evs s = (Inr b, s1) \<and>
     s' = (if ba_max_primary_seq b > 0 then upsert_node_sync_state SYNC_CURSOR_KEY (ba_max_primary_seq b) now s1 else s1))"
  by (auto simp: apply_batch_def dtransaction_def dbind_def dseq_def dexec_def dret_def
      split: prod.splits sum.splits if_splits)

lemma apply_batch_total:
  "apply_batch nd now evs s = (Inr b, s') \<Longrightarrow> summary_total (ba_summary b) = length evs"
  by (auto simp: apply_batch_Inr empty_batch_def empty_summary_def summary_total_def dest!: batch_loop_total)

lemma apply_events_total:
  "summary_total (fst (apply_events nd now evs (s, reg))) = length evs"
proof -
  let ?v = "filter (is_verified nd) evs"
  have len: "length (filter (\<lambda>ev. \<not> is_verified nd ev) evs) + length ?v = length evs"
    using sum_length_filter_compl [of "is_verified nd" evs] by simp
  obtain r s' where run: "apply_batch nd now ?v s = (r, s')" by force
  show ?thesis
  proof (cases r)
    case (Inl e)
    with len run show ?thesis by (auto simp: apply_events_def Let_def summary_total_def empty_summary_def)
  next
    case (Inr b)
    with run have "summary_total (ba_summary b) = length ?v" by (simp add: apply_batch_total)
    with len run Inr show ?thesis by (auto simp: apply_events_def Let_def summary_total_def empty_summary_def)
  qed
qed

section \<open>What the log receives\<close>

definition row_at :: "event \<Rightarrow> int \<Rightarrow> event_row" where
  "row_at ev seq = \<lparr>er_event_id = ev_event_id ev, er_event_type = ev_event_type ev,
     er_payload_json = ev_payload_json ev, er_subject_guid = ev_subject_guid ev, er_signed_by = ev_signed_by ev,
     er_signature = ev_signature ev, er_seq = seq, er_created_at = ev_created_at ev, er_warnings = ev_warnings ev\<rparr>"

lemma received_row_at: "received_row ev s = row_at ev (next_seq s)"
  by (simp add: received_row_def row_at_def)

fun rows_from :: "int \<Rightarrow> event list \<Rightarrow> event_row list" where
  "rows_from n [] = []"
| "rows_from n (ev # evs) = row_at ev n # rows_from (n + 1) evs"

text \<open>The events of a batch whose id is new: the first copy of each id the log does not hold.\<close>

definition unknown_events :: "db \<Rightarrow> event list \<Rightarrow> event list" where
  "unknown_events s evs = dedupe_loop ev_event_id (map er_event_id (t_events s)) evs"

lemma dedupe_loop_seen: "set seen = set seen' \<Longrightarrow> dedupe_loop key seen xs = dedupe_loop key seen' xs"
proof (induction key seen xs arbitrary: seen' rule: dedupe_loop.induct)
  case (2 key seen x xs)
  then show ?case using 2(2) [of "key x # seen'"] by simp
qed simp

lemma next_seq_append: "t_events s' = t_events s @ [row_at ev (next_seq s)] \<Longrightarrow> next_seq s' = next_seq s + 1"
  using fold_max_ge(1) by (auto simp: next_seq_def row_at_def split: list.splits)

lemma unknown_known:
  "event_id_taken (ev_event_id ev) s \<Longrightarrow> unknown_events s (ev # evs) = unknown_events s evs"
  by (simp add: unknown_events_def event_id_taken_iff)

lemma unknown_new:
  assumes "\<not> event_id_taken (ev_event_id ev) s" "t_events s' = t_events s @ [row_at ev n]"
  shows "unknown_events s (ev # evs) = ev # unknown_events s' evs"
  using assms dedupe_loop_seen [of "ev_event_id ev # map er_event_id (t_events s)" "map er_event_id (t_events s')" ev_event_id evs]
  by (auto simp: unknown_events_def event_id_taken_iff row_at_def)

lemma batch_loop_log:
  "apply_batch_loop nd now b evs s = (Inr b', s') \<Longrightarrow>
   t_events s' = t_events s @ rows_from (next_seq s) (unknown_events s evs)"
proof (induction evs arbitrary: b s)
  case Nil
  then show ?case by (simp add: dret_def unknown_events_def)
next
  case (Cons ev evs)
  obtain r s1 where run: "apply_single_event_inner nd now ev s = (r, s1)" by force
  from Cons.prems run obtain b1 where rest: "apply_batch_loop nd now b1 evs s1 = (Inr b', s')"
    by (auto simp: Let_def split: option.splits prod.splits sum.splits apply_outcome.splits)
  show ?case
  proof (cases "event_id_taken (ev_event_id ev) s")
    case True
    with run have "s1 = s" by (simp add: inner_duplicate)
    with Cons.IH [OF rest] True show ?thesis by (simp add: unknown_known)
  next
    case False
    with run inner_new(1) [of ev s nd now] have log: "t_events s1 = t_events s @ [row_at ev (next_seq s)]"
      by (simp add: received_row_at)
    with Cons.IH [OF rest] unknown_new [OF False log] next_seq_append [OF log] show ?thesis by simp
  qed
qed

lemma upsert_cursor_events [simp]: "t_events (upsert_node_sync_state k n now s) = t_events s"
  by (simp add: upsert_node_sync_state_def)

lemma apply_batch_log:
  "apply_batch nd now evs s = (Inr b, s') \<Longrightarrow>
   t_events s' = t_events s @ rows_from (next_seq s) (unknown_events s evs)"
  by (auto simp: apply_batch_Inr dest!: batch_loop_log)

lemma rows_from_ids: "map er_event_id (rows_from n evs) = map ev_event_id evs"
  by (induction n evs rule: rows_from.induct) (simp_all add: row_at_def)

lemma apply_batch_all_taken:
  assumes "apply_batch nd now evs s = (Inr b, s')" "ev \<in> set evs"
  shows "event_id_taken (ev_event_id ev) s'"
proof -
  have keys: "ev_event_id ` set evs \<subseteq> set (map er_event_id (t_events s)) \<union> ev_event_id ` set (unknown_events s evs)"
  proof -
    have "key ` set xs \<subseteq> set seen \<union> key ` set (dedupe_loop key seen xs)" for key :: "event \<Rightarrow> string" and seen xs
      by (induction key seen xs rule: dedupe_loop.induct) auto
    then show ?thesis unfolding unknown_events_def by blast
  qed
  have "map er_event_id (t_events s') = map er_event_id (t_events s) @ map ev_event_id (unknown_events s evs)"
    using apply_batch_log [OF assms(1)] by (simp add: rows_from_ids)
  then have "set (map er_event_id (t_events s')) = set (map er_event_id (t_events s)) \<union> ev_event_id ` set (unknown_events s evs)"
    by (metis set_append list.set_map)
  with keys assms(2) show ?thesis by (auto simp: event_id_taken_iff)
qed

section \<open>A batch that arrives again\<close>

definition decodable :: "node \<Rightarrow> event \<Rightarrow> bool" where
  "decodable nd ev \<longleftrightarrow> deserialize_verified_payload nd ev \<noteq> None"

lemma batch_loop_decodable:
  "apply_batch_loop nd now b evs s = (Inr b', s') \<Longrightarrow> list_all (decodable nd) evs"
proof (induction evs arbitrary: b s)
  case (Cons ev evs)
  from Cons.prems show ?case
    by (auto simp: Let_def decodable_def dest!: Cons.IH split: option.splits prod.splits sum.splits apply_outcome.splits)
qed simp

lemma batch_loop_known:
  assumes "\<forall>ev\<in>set evs. decodable nd ev \<and> event_id_taken (ev_event_id ev) s" "ba_applied b = []"
  shows "\<exists>b'. apply_batch_loop nd now b evs s = (Inr b', s) \<and> ba_applied b' = [] \<and>
    ba_summary b' = (ba_summary b)\<lparr>as_duplicate := as_duplicate (ba_summary b) + length evs\<rparr>"
  using assms
proof (induction evs arbitrary: b)
  case (Cons ev evs)
  then obtain p where p: "deserialize_verified_payload nd ev = Some p" by (auto simp: decodable_def)
  have "apply_single_event_inner nd now ev s = (Inr Duplicate, s)" using Cons.prems by (simp add: inner_duplicate)
  with Cons.IH [of "note_duplicate ev (note_live_diff s p b)"] Cons.prems p show ?case
    by (auto simp: Let_def note_duplicate_def)
qed (simp add: dret_def)

lemma build_no_events [simp]: "build_live_sse_frames_for_feed g old new [] = []"
  by (simp add: build_live_sse_frames_for_feed_def)

lemma concat_map_Nil: "concat (map (\<lambda>x. []) xs) = []"
  by (induction xs) simp_all

lemma publish_nothing: "ba_applied b = [] \<Longrightarrow> publish_batch b reg = reg"
  by (simp add: publish_batch_def publish_sse_frames_def case_prod_unfold concat_map_Nil)

lemma redelivered_batch:
  assumes "apply_batch nd now (filter (is_verified nd) evs) s = (Inr b, s1)" "filter (is_verified nd) evs \<noteq> []"
  shows "\<exists>n. apply_events nd now' evs (s1, reg) =
    (\<lparr>as_applied = 0, as_duplicate = length (filter (is_verified nd) evs),
       as_rejected = length (filter (\<lambda>ev. \<not> is_verified nd ev) evs), as_max_seq = 0\<rparr>,
     s1\<lparr>t_node_sync_state := n\<rparr>, reg)"
proof -
  let ?v = "filter (is_verified nd) evs"
  obtain s0 where "apply_batch_loop nd now empty_batch ?v s = (Inr b, s0)" using assms(1) by (auto simp: apply_batch_Inr)
  from batch_loop_decodable [OF this] have dec: "\<forall>ev\<in>set ?v. decodable nd ev \<and> event_id_taken (ev_event_id ev) s1"
    using apply_batch_all_taken [OF assms(1)] by (auto simp: list_all_iff)
  obtain b2 where run: "apply_batch_loop nd now' empty_batch ?v s1 = (Inr b2, s1)" and none: "ba_applied b2 = []"
    and sm: "ba_summary b2 = empty_summary\<lparr>as_duplicate := length ?v\<rparr>"
    using batch_loop_known [OF dec, of empty_batch now'] by (auto simp: empty_batch_def empty_summary_def)
  define s2 where "s2 = (if ba_max_primary_seq b2 > 0
    then upsert_node_sync_state SYNC_CURSOR_KEY (ba_max_primary_seq b2) now' s1 else s1)"
  have again: "apply_batch nd now' ?v s1 = (Inr b2, s2)" using run by (simp add: apply_batch_Inr s2_def)
  have "s2 = s1\<lparr>t_node_sync_state := t_node_sync_state s2\<rparr>" by (simp add: s2_def upsert_node_sync_state_def)
  moreover have "apply_events nd now' evs (s1, reg) =
    (\<lparr>as_applied = 0, as_duplicate = length ?v,
       as_rejected = length (filter (\<lambda>ev. \<not> is_verified nd ev) evs), as_max_seq = 0\<rparr>, s2, reg)"
    using assms(2) by (cases reg) (simp_all add: apply_events_def Let_def again sm empty_summary_def publish_nothing [OF none])
  ultimately show ?thesis by metis
qed

section \<open>The cursor\<close>

lemma cursor_upsert:
  "get_node_sync_cursor (upsert_node_sync_state k n now s) k' =
    (if k' \<noteq> k then get_node_sync_cursor s k'
     else case lookup_by ns_node_pubkey (t_node_sync_state s) k of None \<Rightarrow> n | Some r \<Rightarrow> max (ns_last_seq r) n)"
  by (simp add: get_node_sync_cursor_def upsert_node_sync_state_def lookup_upsert_by ns_merge_def
      split: option.split del: lookup_by_None)

lemma cursor_upsert_ge:
  "0 < n \<Longrightarrow> get_node_sync_cursor s k' \<le> get_node_sync_cursor (upsert_node_sync_state k n now s) k'"
  by (simp add: cursor_upsert) (simp add: get_node_sync_cursor_def split: option.split del: lookup_by_None)

lemma received_cursor: "t_node_sync_state (snd (insert_received_event ev s)) = t_node_sync_state s"
  by (simp add: insert_received_event_result)

lemma inner_cursor: "t_node_sync_state (snd (apply_single_event_inner nd now ev s)) = t_node_sync_state s"
proof -
  have "keeps (\<lambda>s'. t_node_sync_state s' = t_node_sync_state s) (insert_received_event ev)"
    using received_cursor by (simp add: keeps_def)
  moreover have "keeps (\<lambda>s'. t_node_sync_state s' = t_node_sync_state s) (apply_payload nd now ca p)" for ca p
    using apply_payload_log(2) by (simp add: keeps_def)
  ultimately have "keeps (\<lambda>s'. t_node_sync_state s' = t_node_sync_state s) (apply_single_event_inner nd now ev)"
    unfolding apply_single_event_inner_def by (intro keeps_intros)
  then show ?thesis by (simp add: keeps_def)
qed

lemma batch_loop_cursor: "t_node_sync_state (snd (apply_batch_loop nd now b evs s)) = t_node_sync_state s"
  using keeps_batch_loop [of "\<lambda>s'. t_node_sync_state s' = t_node_sync_state s" nd now b evs] inner_cursor
  by (simp add: keeps_def)

lemma batch_cursor_ge:
  "get_node_sync_cursor s k \<le> get_node_sync_cursor (snd (apply_batch nd now evs s)) k"
proof -
  obtain r s' where run: "apply_batch nd now evs s = (r, s')" by force
  show ?thesis
  proof (cases r)
    case (Inl e)
    with run have "s' = s" unfolding apply_batch_def by (blast dest: dtransaction_error)
    with run show ?thesis by simp
  next
    case (Inr b)
    with run obtain s1 where s1: "apply_batch_loop nd now empty_batch evs s = (Inr b, s1)"
      and s': "s' = (if ba_max_primary_seq b > 0 then upsert_node_sync_state SYNC_CURSOR_KEY (ba_max_primary_seq b) now s1 else s1)"
      by (auto simp: apply_batch_Inr)
    have "get_node_sync_cursor s1 k = get_node_sync_cursor s k"
      using batch_loop_cursor [of nd now empty_batch evs s] s1 by (simp add: get_node_sync_cursor_def)
    with run s' cursor_upsert_ge [of "ba_max_primary_seq b" s1 k] show ?thesis by auto
  qed
qed

section \<open>The unsigned payload\<close>

text \<open>
  An event carries its payload twice: as signed text, and as a typed value beside it that nobody
  signed. \<open>carry h ev\<close> replaces the typed value.
\<close>

definition carry :: "(event \<Rightarrow> event_payload) \<Rightarrow> event \<Rightarrow> event" where
  "carry h ev = ev\<lparr>ev_payload := h ev\<rparr>"

lemma carry_verified [simp]: "is_verified nd (carry h ev) = is_verified nd ev"
  by (simp add: is_verified_def carry_def verify_event_signature_def)

lemma carry_fields [simp]:
  "ev_event_id (carry h ev) = ev_event_id ev" "ev_seq (carry h ev) = ev_seq ev"
  "ev_created_at (carry h ev) = ev_created_at ev"
  "deserialize_verified_payload nd (carry h ev) = deserialize_verified_payload nd ev"
  "insert_received_event (carry h ev) = insert_received_event ev"
  by (simp_all add: carry_def deserialize_verified_payload_def insert_received_event_def)

lemma carry_inner [simp]: "apply_single_event_inner nd now (carry h ev) = apply_single_event_inner nd now ev"
  unfolding apply_single_event_inner_def by (simp only: carry_fields)

text \<open>Two batches that agree on everything but the events kept for publication.\<close>

definition same_books :: "(event \<Rightarrow> event_payload) \<Rightarrow> batch \<Rightarrow> batch \<Rightarrow> bool" where
  "same_books h b b' \<longleftrightarrow> ba_summary b' = ba_summary b \<and> ba_max_primary_seq b' = ba_max_primary_seq b
     \<and> ba_live_diffs b' = ba_live_diffs b \<and> ba_applied b' = map (\<lambda>(ev, n). (carry h ev, n)) (ba_applied b)"

lemma carry_loop:
  assumes "same_books h b b'"
  shows "\<exists>r. apply_batch_loop nd now b' (map (carry h) evs) s =
      (r, snd (apply_batch_loop nd now b evs s))
    \<and> rel_sum (=) (same_books h) (fst (apply_batch_loop nd now b evs s)) r"
  using assms
proof (induction evs arbitrary: b b' s)
  case (Cons ev evs)
  show ?case
  proof (cases "deserialize_verified_payload nd ev")
    case (Some p)
    obtain r s1 where run: "apply_single_event_inner nd now ev s = (r, s1)" by force
    have live: "same_books h (note_live_diff s p b) (note_live_diff s p b')"
      using Cons.prems by (simp add: same_books_def note_live_diff_def split: event_payload.split)
    have "same_books h (note_applied ev n b1) (note_applied (carry h ev) n b2)"
      "same_books h (note_duplicate ev b1) (note_duplicate (carry h ev) b2)"
      "same_books h (note_rejected b1) (note_rejected b2)" if "same_books h b1 b2" for b1 b2 n
      using that by (simp_all add: same_books_def note_applied_def note_duplicate_def note_rejected_def)
    note step = this [OF live]
    show ?thesis
    proof (cases r)
      case (Inl e)
      with Some run Cons.IH [OF step(3), of s1] show ?thesis by (simp add: Let_def)
    next
      case (Inr out)
      with Some run Cons.IH [OF step(2), of s1] Cons.IH [OF step(1), of _ s1] show ?thesis
        by (cases out) (simp_all add: Let_def)
    qed
  qed simp
qed (simp add: dret_def)

lemma carry_batch:
  "\<exists>r. apply_batch nd now (map (carry h) evs) s = (r, snd (apply_batch nd now evs s))
    \<and> rel_sum (=) (same_books h) (fst (apply_batch nd now evs s)) r"
proof -
  have "same_books h empty_batch empty_batch" by (simp add: same_books_def empty_batch_def)
  from carry_loop [OF this, of nd now evs s] obtain r
    where r: "apply_batch_loop nd now empty_batch (map (carry h) evs) s = (r, snd (apply_batch_loop nd now empty_batch evs s))"
      "rel_sum (=) (same_books h) (fst (apply_batch_loop nd now empty_batch evs s)) r" by blast
  obtain q s1 where q: "apply_batch_loop nd now empty_batch evs s = (q, s1)" by force
  show ?thesis
    using r q by (cases q; cases r)
      (auto simp: apply_batch_def dtransaction_def dbind_def dseq_def dexec_def dret_def same_books_def)
qed

lemma filter_carry: "filter (is_verified nd) (map (carry h) evs) = map (carry h) (filter (is_verified nd) evs)"
  by (simp add: filter_map comp_def)

lemma carry_events:
  "fst (apply_events nd now (map (carry h) evs) (s, reg)) = fst (apply_events nd now evs (s, reg))
   \<and> fst (snd (apply_events nd now (map (carry h) evs) (s, reg))) = fst (snd (apply_events nd now evs (s, reg)))"
proof -
  let ?v = "filter (is_verified nd) evs"
  have bad: "length (filter (\<lambda>ev. \<not> is_verified nd ev) (map (carry h) evs)) = length (filter (\<lambda>ev. \<not> is_verified nd ev) evs)"
    by (simp add: filter_map comp_def)
  obtain r where r: "apply_batch nd now (map (carry h) ?v) s = (r, snd (apply_batch nd now ?v s))"
    "rel_sum (=) (same_books h) (fst (apply_batch nd now ?v s)) r"
    using carry_batch by blast
  obtain q s1 where q: "apply_batch nd now ?v s = (q, s1)" by force
  show ?thesis
    using r q bad by (cases q; cases r) (auto simp: apply_events_def Let_def filter_carry same_books_def)
qed

section \<open>One pushed event\<close>

lemma single_event_duplicate:
  "event_id_taken (ev_event_id ev) s \<Longrightarrow> apply_single_event nd now ev s = (Inr Duplicate, s)"
  by (simp add: apply_single_event_def dtransaction_def dbind_def inner_duplicate dret_def)

lemma single_event_error: "apply_single_event nd now ev s = (Inl e, s') \<Longrightarrow> s' = s"
  unfolding apply_single_event_def by (rule dtransaction_error)

lemma single_event_applied:
  assumes "apply_single_event nd now ev s = (Inr (Applied n), s')"
  shows "n = next_seq s \<and> t_events s' = t_events s @ [row_at ev n] \<and> \<not> event_id_taken (ev_event_id ev) s
    \<and> ev_seq ev \<le> get_node_sync_cursor s' SYNC_CURSOR_KEY"
proof -
  have new: "\<not> event_id_taken (ev_event_id ev) s" using assms by (auto simp: single_event_duplicate)
  from assms obtain s1 where inner: "apply_single_event_inner nd now ev s = (Inr (Applied n), s1)"
    and s': "s' = upsert_node_sync_state SYNC_CURSOR_KEY (ev_seq ev) now s1"
    by (auto simp: apply_single_event_def dtransaction_def dbind_def dseq_def dexec_def dret_def
        split: prod.splits sum.splits apply_outcome.splits)
  show ?thesis
    using inner_new [OF new, of nd now] inner new
    by (auto simp: s' received_row_at cursor_upsert split: option.split simp del: lookup_by_None)
qed

section \<open>An event that fails inside a batch\<close>

lemma inner_failed:
  assumes "\<not> event_id_taken (ev_event_id ev) s" "deserialize_verified_payload nd ev = Some p"
    and "apply_payload nd now (ev_created_at ev) p (s\<lparr>t_events := t_events s @ [row_at ev (next_seq s)]\<rparr>) = (Inl e, s1)"
  shows "apply_single_event_inner nd now ev s = (Inl e, s1)"
  using assms by (simp add: apply_single_event_inner_def dbind_def insert_received_event_result received_row_at dseq_def)

lemma failed_in_batch:
  assumes "is_verified nd ev" "\<not> event_id_taken (ev_event_id ev) s" "deserialize_verified_payload nd ev = Some p"
    and "apply_payload nd now (ev_created_at ev) p (s\<lparr>t_events := t_events s @ [row_at ev (next_seq s)]\<rparr>) = (Inl e, s1)"
  shows "apply_events nd now [ev] (s, None) = (empty_summary\<lparr>as_rejected := 1\<rparr>, s1, None)"
    and "event_id_taken (ev_event_id ev) s1"
proof -
  have inner: "apply_single_event_inner nd now ev s = (Inl e, s1)" by (rule inner_failed [OF assms(2-4)])
  show "apply_events nd now [ev] (s, None) = (empty_summary\<lparr>as_rejected := 1\<rparr>, s1, None)"
    using assms(1,3) inner
    by (simp add: apply_events_def apply_batch_def dtransaction_def dbind_def dseq_def dret_def Let_def
        note_rejected_def note_live_diff_def empty_batch_def empty_summary_def split: event_payload.split)
  have "t_events s1 = t_events s @ [received_row ev s]"
    using inner_new(1) [OF assms(2), of nd now] inner by simp
  then show "event_id_taken (ev_event_id ev) s1" by (simp add: event_id_taken_iff received_row_def)
qed

section \<open>When a batch commits\<close>

lemma batch_loop_Inr:
  "list_all (decodable nd) evs \<Longrightarrow> \<exists>b' s'. apply_batch_loop nd now b evs s = (Inr b', s')"
proof (induction evs arbitrary: b s)
  case (Cons ev evs)
  then have rest: "\<exists>b' s'. apply_batch_loop nd now b1 evs s1 = (Inr b', s')" for b1 s1 by simp
  from Cons.prems show ?case
    by (auto simp: Let_def decodable_def rest split: prod.splits sum.splits apply_outcome.splits)
qed (simp add: dret_def)

lemma batch_decodable_Inr:
  "list_all (decodable nd) evs \<Longrightarrow> \<exists>b s'. apply_batch nd now evs s = (Inr b, s')"
  using batch_loop_Inr [of nd evs now empty_batch s] by (auto simp: apply_batch_Inr)

lemma batch_undecodable_Inl:
  assumes "\<not> list_all (decodable nd) evs" shows "\<exists>e s'. apply_batch nd now evs s = (Inl e, s')"
proof -
  obtain r s' where run: "apply_batch nd now evs s = (r, s')" by force
  show ?thesis
  proof (cases r)
    case (Inr b)
    with run obtain s1 where "apply_batch_loop nd now empty_batch evs s = (Inr b, s1)" by (auto simp: apply_batch_Inr)
    with assms show ?thesis by (auto dest: batch_loop_decodable)
  qed (use run in auto)
qed

lemma single_event_not_duplicate:
  "\<not> event_id_taken (ev_event_id ev) s \<Longrightarrow> fst (apply_single_event nd now ev s) \<noteq> Inr Duplicate"
  using inner_new(2) [of ev s nd now]
  by (auto simp: apply_single_event_def dtransaction_def dbind_def dseq_def dexec_def dret_def
      split: prod.split sum.split apply_outcome.split)

lemma log_after_batch:
  "t_events (fst (snd (apply_events nd now evs (s, reg)))) =
    (if list_all (decodable nd) (filter (is_verified nd) evs)
     then t_events s @ rows_from (next_seq s) (unknown_events s (filter (is_verified nd) evs))
     else t_events s)"
proof -
  let ?v = "filter (is_verified nd) evs"
  obtain r s' where run: "apply_batch nd now ?v s = (r, s')" by force
  show ?thesis
  proof (cases "list_all (decodable nd) ?v")
    case True
    then obtain b where "r = Inr b" using batch_decodable_Inr [OF True, of now s] run by auto
    with run True apply_batch_log [of nd now ?v s] show ?thesis
      by (auto simp: apply_events_db unknown_events_def)
  next
    case False
    then obtain e where "r = Inl e" using batch_undecodable_Inl [OF False, of now s] run by auto
    with run have "s' = s" unfolding apply_batch_def by (blast dest: dtransaction_error)
    with run False show ?thesis by (auto simp: apply_events_db)
  qed
qed

section \<open>A sample node\<close>

definition sample_payload :: event_payload where
  "sample_payload = FeedUnblockedP \<lparr>fub_block_id = ''b1''\<rparr>"

definition sample_env :: env where
  "sample_env = \<lparr>en_siphash = (\<lambda>t. of_nat (length t)), en_json_pair = (\<lambda>a b. a @ '','' @ b), en_json_array = (\<lambda>a b. a @ '','' @ b)\<rparr>"

definition sample_node :: "event_payload \<Rightarrow> node" where
  "sample_node p = \<lparr>nd_env = sample_env, nd_crypto = toy_crypto, nd_lc = (\<lambda>t. t), nd_url_parse = (\<lambda>t. None),
     nd_items_json = (\<lambda>r. []), nd_sha256_hex = (\<lambda>t. t), nd_parse = (\<lambda>t j. Some p)\<rparr>"

definition sample_event :: "string \<Rightarrow> event_payload \<Rightarrow> event" where
  "sample_event i p = \<lparr>ev_event_id = i, ev_event_type = payload_type p, ev_payload = p, ev_subject_guid = ''g1'',
     ev_signed_by = fst (sign_event toy_crypto ''key'' i (payload_type p) ''{}'' ''g1'' 5 1),
     ev_signature = snd (sign_event toy_crypto ''key'' i (payload_type p) ''{}'' ''g1'' 5 1),
     ev_seq = 1, ev_created_at = 5, ev_warnings = [], ev_payload_json = ''{}''\<rparr>"

lemma sample_verified: "is_verified (sample_node q) (sample_event i p)"
  using verify_signed_event [OF toy_crypto_ok, of "sample_event i p" "''key''"]
  by (simp add: is_verified_def sample_node_def sample_event_def)

lemma sample_decodes [simp]: "deserialize_verified_payload (sample_node p) ev = Some p"
  by (simp add: deserialize_verified_payload_def sample_node_def)

lemma empty_store_ok: "store_ok env empty_db"
  using refs_ok_empty by (simp add: store_ok_def index_ok_def events_ok_def empty_db_def)

definition sample_route :: feed_payment_route where
  "sample_route = \<lparr>fpr_id = None, fpr_feed_guid = ''g1'', fpr_recipient_name = Some ''band'', fpr_route_type = Keysend,
     fpr_address = ''02ab'', fpr_custom_key = None, fpr_custom_value = None, fpr_split = 95, fpr_fee = False\<rparr>"

definition sample_routes :: event_payload where
  "sample_routes = FeedRoutesReplacedP \<lparr>frr_feed_guid = ''g1'', frr_routes = [sample_route]\<rparr>"

definition other_feed :: event_payload where
  "other_feed = FeedRetiredP \<lparr>frt_feed_guid = ''g2'', frt_reason = None\<rparr>"

section \<open>Properties of the delivery\<close>

text \<open>
  C8: Applying a batch of received events keeps the store well formed, whatever the events are:
  distinct feed GUIDs and URLs, every foreign key resolved, every table's checks and keys, the
  search index in step with its entity table under distinct row ids, and an event log with
  distinct ids in strictly increasing sequence. It holds also when events of the batch fail.
\<close>

theorem apply_events_store_ok:
  "store_ok (nd_env nd) s \<Longrightarrow> store_ok (nd_env nd) (fst (snd (apply_events nd now evs (s, reg))))"
  by (rule apply_events_keeps)

theorem apply_events_store_ok_witness:
  "store_ok (nd_env (sample_node sample_payload))
    (fst (snd (apply_events (sample_node sample_payload) 9 [sample_event ''e1'' sample_payload] (empty_db, None))))"
  by (rule apply_events_store_ok [OF empty_store_ok])

text \<open>
  C9: After a batch the log is the old log followed by one row for the first copy of each verified
  event whose id it did not hold, in delivery order, numbered on from the next sequence number and
  with the received signature; only when some verified payload does not decode does the whole
  batch leave the log as it was.
\<close>

theorem apply_events_log:
  "t_events (fst (snd (apply_events nd now evs (s, reg)))) =
    (if list_all (decodable nd) (filter (is_verified nd) evs)
     then t_events s @ rows_from (next_seq s) (unknown_events s (filter (is_verified nd) evs))
     else t_events s)"
  by (rule log_after_batch)

text \<open>
  Every event of a batch is counted exactly once, as applied, duplicate or rejected, on every
  path: a bad signature, a failing event, an undecodable batch.
\<close>

theorem apply_events_counts:
  "as_applied (fst (apply_events nd now evs (s, reg))) + as_duplicate (fst (apply_events nd now evs (s, reg)))
    + as_rejected (fst (apply_events nd now evs (s, reg))) = length evs"
  using apply_events_total [of nd now evs s reg] by (simp add: summary_total_def)

text \<open>
  C10: A batch that was committed and arrives again is idempotent: every verified event is counted
  as a duplicate, the registry of subscribers receives nothing, and no table but the sync cursor
  changes.
\<close>

theorem apply_events_redelivery:
  assumes "list_all (decodable nd) (filter (is_verified nd) evs)" "filter (is_verified nd) evs \<noteq> []"
  shows "\<exists>n. apply_events nd later evs (snd (apply_events nd now evs (s, reg))) =
    (\<lparr>as_applied = 0, as_duplicate = length (filter (is_verified nd) evs),
       as_rejected = length (filter (\<lambda>ev. \<not> is_verified nd ev) evs), as_max_seq = 0\<rparr>,
     (fst (snd (apply_events nd now evs (s, reg))))\<lparr>t_node_sync_state := n\<rparr>,
     snd (snd (apply_events nd now evs (s, reg))))"
proof -
  let ?v = "filter (is_verified nd) evs"
  obtain b s1 where run: "apply_batch nd now ?v s = (Inr b, s1)" using batch_decodable_Inr [OF assms(1)] by blast
  then have "fst (snd (apply_events nd now evs (s, reg))) = s1" using assms(2) by (simp add: apply_events_db)
  with redelivered_batch [OF run assms(2), of later "snd (snd (apply_events nd now evs (s, reg)))"] show ?thesis
    by (metis prod.collapse)
qed

theorem apply_events_redelivery_witness:
  "\<exists>n. apply_events (sample_node sample_payload) 10 [sample_event ''e1'' sample_payload]
      (snd (apply_events (sample_node sample_payload) 9 [sample_event ''e1'' sample_payload] (empty_db, None))) =
    (\<lparr>as_applied = 0, as_duplicate = 1, as_rejected = 0, as_max_seq = 0\<rparr>,
     (fst (snd (apply_events (sample_node sample_payload) 9 [sample_event ''e1'' sample_payload] (empty_db, None))))
       \<lparr>t_node_sync_state := n\<rparr>,
     snd (snd (apply_events (sample_node sample_payload) 9 [sample_event ''e1'' sample_payload] (empty_db, None))))"
  using apply_events_redelivery [of "sample_node sample_payload" "[sample_event ''e1'' sample_payload]" 10 9 empty_db None]
  by (simp add: sample_verified decodable_def)

text \<open>
  No batch moves a sync cursor back: for every node key the recorded sequence number after a
  batch is at least the one before.
\<close>

theorem apply_events_cursor:
  "get_node_sync_cursor s k \<le> get_node_sync_cursor (fst (snd (apply_events nd now evs (s, reg)))) k"
  using batch_cursor_ge by (simp add: apply_events_db)

text \<open>
  The unsigned copy of the payload that an event carries beside the signed text decides
  nothing in the database: with any other copy the same events verify, the same rows are written
  and the counts are the same.
\<close>

theorem apply_events_ignores_unsigned_payload:
  "fst (apply_events nd now (map (carry h) evs) (s, reg)) = fst (apply_events nd now evs (s, reg))
   \<and> fst (snd (apply_events nd now (map (carry h) evs) (s, reg))) = fst (snd (apply_events nd now evs (s, reg)))"
  by (rule carry_events)

text \<open>
  The frame published to subscribers is built from the unsigned copy: a verified event whose
  typed payload was exchanged for another reaches the channel of the exchanged payload's feed,
  with the exchanged payload as its body.
\<close>

theorem published_frame_carries_unsigned_payload:
  assumes "is_verified nd ev" "deserialize_verified_payload nd ev = Some p" "\<forall>q. p \<noteq> LiveEventsReplacedP q"
    and "apply_single_event_inner nd now ev s = (Inr (Applied n), s1)" "feed_guid_of_payload fake = Some g"
  shows "snd (snd (apply_events nd now [carry (\<lambda>e. fake) ev] (s, Some reg))) =
    Some (publish g \<lparr>sf_event_type = event_type_str (ev_event_type ev), sf_subject_guid = ev_subject_guid ev,
      sf_payload = EventBody fake, sf_seq = n\<rparr> reg)"
proof -
  let ?ev = "carry (\<lambda>e. fake) ev"
  let ?b = "note_applied ?ev n empty_batch"
  have live: "note_live_diff s p b = b" for b
    using assms(3) by (cases p) (simp_all add: note_live_diff_def)
  have "apply_batch_loop nd now empty_batch [?ev] s = (Inr ?b, s1)"
    using assms(2,4) by (simp add: Let_def live dret_def)
  then obtain s2 where "apply_batch nd now [?ev] s = (Inr ?b, s2)"
    by (simp add: apply_batch_Inr)
  with assms(1) have "snd (snd (apply_events nd now [?ev] (s, Some reg))) = Some (publish_batch ?b reg)"
    by (simp add: apply_events_def)
  also have "publish_batch ?b reg = publish g (event_frame (local_event (?ev, n))) reg"
    using assms(5)
    by (simp add: publish_batch_def note_applied_def empty_batch_def publish_sse_frames_def feed_guid_for_event_def
        local_event_def carry_def)
  finally show ?thesis by (simp add: event_frame_def local_event_def carry_def)
qed

theorem published_frame_carries_unsigned_payload_witness:
  "snd (snd (apply_events (sample_node sample_payload) 9 [carry (\<lambda>e. other_feed) (sample_event ''e1'' sample_payload)]
      (empty_db, Some sse_new))) =
    Some (publish ''g2'' \<lparr>sf_event_type = ''feed_unblocked'', sf_subject_guid = ''g1'',
      sf_payload = EventBody other_feed, sf_seq = 1\<rparr> sse_new)"
proof -
  let ?n = "sample_node sample_payload" and ?e = "sample_event ''e1'' sample_payload"
  have "\<exists>s1. apply_single_event_inner ?n 9 ?e empty_db = (Inr (Applied 1), s1)"
    by (simp add: apply_single_event_inner_def insert_received_event_result dbind_def dseq_def dexec_def dret_def
        event_id_taken_iff empty_db_def next_seq_def sample_payload_def)
  then obtain s1 where "apply_single_event_inner ?n 9 ?e empty_db = (Inr (Applied 1), s1)" by blast
  from published_frame_carries_unsigned_payload [OF sample_verified sample_decodes _ this, of other_feed "''g2''" sse_new]
  show ?thesis by (simp add: sample_payload_def other_feed_def sample_event_def)
qed

text \<open>
  C16: One pushed event is atomic: on an error the database is as before; a duplicate changes
  nothing; an applied event is the next row of the log, was not in it, and the sync cursor has
  reached its sequence number.
\<close>

theorem apply_single_event_outcomes:
  "case apply_single_event nd now ev s of
     (Inl e, s') \<Rightarrow> s' = s
   | (Inr Duplicate, s') \<Rightarrow> s' = s \<and> event_id_taken (ev_event_id ev) s
   | (Inr (Applied n), s') \<Rightarrow> n = next_seq s \<and> t_events s' = t_events s @ [row_at ev n]
       \<and> \<not> event_id_taken (ev_event_id ev) s \<and> ev_seq ev \<le> get_node_sync_cursor s' SYNC_CURSOR_KEY"
proof -
  obtain r s' where run: "apply_single_event nd now ev s = (r, s')" by force
  show ?thesis
  proof (cases r)
    case (Inl e)
    with run single_event_error [of nd now ev s] show ?thesis by simp
  next
    case (Inr out)
    show ?thesis
    proof (cases out)
      case (Applied n)
      with run Inr single_event_applied [of nd now ev s] show ?thesis by simp
    next
      case Duplicate
      with run Inr single_event_not_duplicate [of ev s nd now] single_event_duplicate [of ev s nd now]
      show ?thesis by auto
    qed
  qed
qed

text \<open>
  An event of a batch whose application fails is counted as rejected but keeps its row in the
  log (its partial writes stay too), so that delivering it again is a duplicate and it is never
  applied.
\<close>

theorem failed_batch_event_is_lost:
  assumes "is_verified nd ev" "\<not> event_id_taken (ev_event_id ev) s" "deserialize_verified_payload nd ev = Some p"
    and "apply_payload nd now (ev_created_at ev) p (s\<lparr>t_events := t_events s @ [row_at ev (next_seq s)]\<rparr>) = (Inl e, s1)"
  shows "apply_events nd now [ev] (s, None) = (empty_summary\<lparr>as_rejected := 1\<rparr>, s1, None)
    \<and> apply_single_event nd later ev s1 = (Inr Duplicate, s1)"
  using failed_in_batch [OF assms] by (simp add: single_event_duplicate)

theorem failed_batch_event_is_lost_witness:
  "\<exists>s1. apply_events (sample_node sample_routes) 9 [sample_event ''e1'' sample_routes] (empty_db, None)
      = (empty_summary\<lparr>as_rejected := 1\<rparr>, s1, None)
    \<and> apply_single_event (sample_node sample_routes) 10 (sample_event ''e1'' sample_routes) s1 = (Inr Duplicate, s1)"
proof -
  let ?n = "sample_node sample_routes" and ?e = "sample_event ''e1'' sample_routes"
  have new: "\<not> event_id_taken (ev_event_id ?e) empty_db" by (simp add: event_id_taken_iff empty_db_def)
  have "\<exists>e s1. apply_payload ?n 9 (ev_created_at ?e) sample_routes
      (empty_db\<lparr>t_events := t_events empty_db @ [row_at ?e (next_seq empty_db)]\<rparr>) = (Inl e, s1)"
    by (simp add: sample_routes_def sample_route_def replace_feed_payment_routes_def db_defs fpr_check_def
        stored_feed_payment_route_def feed_fk_def empty_db_def)
  then obtain e s1 where "apply_payload ?n 9 (ev_created_at ?e) sample_routes
      (empty_db\<lparr>t_events := t_events empty_db @ [row_at ?e (next_seq empty_db)]\<rparr>) = (Inl e, s1)" by blast
  from failed_batch_event_is_lost [OF sample_verified new sample_decodes this] show ?thesis by blast
qed

end
