(* ===== verification/Verify.thy ===== *)
theory Verify
  imports Store Samples
begin

text \<open>
  \<^verbatim>\<open>src/verify.rs\<close> and \<^verbatim>\<open>src/verifiers/\<close>: the checks a submission goes through before any write, the
  chain that runs them and its configuration; and the \<^verbatim>\<open>podcast:block\<close> rule of \<^verbatim>\<open>src/ingest.rs\<close>.
  UUID parsing and SHA-256 are parameters. A verifier is its name and its function; a panic at
  start-up is \<open>None\<close>.
\<close>

record ingest_context =
  ic_request :: ingest_feed_request
  ic_db :: db
  ic_existing :: "feed option"

datatype verify_result = Pass | Warn string | Fail string

record verifier =
  vf_name :: string
  vf_verify :: "ingest_context \<Rightarrow> verify_result"

record verifier_chain =
  vc_crawl_token :: string
  vc_verifiers :: "verifier list"

definition APOS :: string where "APOS = [CHR 0x27]"
definition DASH :: string where "DASH = [CHR 0xE2, CHR 0x80, CHR 0x94]"

section \<open>The verifiers\<close>

definition NO_CHANGE_SENTINEL :: string where "NO_CHANGE_SENTINEL = ''NO_CHANGE''"

definition content_hash_verifier :: verifier where
  "content_hash_verifier = \<lparr>vf_name = ''content_hash'', vf_verify = (\<lambda>ctx.
     if ifr_force_reingest (ic_request ctx) then Pass
     else if is_some_and (\<lambda>f. is_publisher (ifd_raw_medium f)) (ifr_feed_data (ic_request ctx)) then Pass
     else case map_option cc_content_hash
                 (lookup_by cc_feed_url (t_feed_crawl_cache (ic_db ctx)) (ifr_canonical_url (ic_request ctx))) of
       Some h \<Rightarrow> if h = ifr_content_hash (ic_request ctx) then Fail NO_CHANGE_SENTINEL else Pass
     | None \<Rightarrow> Pass)\<rparr>"

definition medium_music_verifier :: verifier where
  "medium_music_verifier = \<lparr>vf_name = ''medium_music'', vf_verify = (\<lambda>ctx.
     case Option.bind (ifr_feed_data (ic_request ctx)) ifd_raw_medium of
       None \<Rightarrow> Fail (''podcast:medium absent '' @ DASH @ '' must be '' @ APOS @ ''music'' @ APOS @ '', '' @ APOS
                @ ''publisher'' @ APOS @ '', or '' @ APOS @ ''musicL'' @ APOS)
     | Some m \<Rightarrow>
         if is_music (Some m) then Pass
         else if is_publisher (Some m) then
           (if is_some_and (\<lambda>f. list_ex (\<lambda>ri. is_music (irf_medium ri)) (ifd_remote_items f)) (ifr_feed_data (ic_request ctx))
            then Pass
            else Fail (''publisher feed has no remoteItem with medium='' @ APOS @ ''music'' @ APOS))
         else if is_musicl (Some m) then Pass
         else Fail (''medium is '' @ APOS @ m @ APOS @ '', expected '' @ APOS @ ''music'' @ APOS @ '', '' @ APOS
                @ ''publisher'' @ APOS @ '', or '' @ APOS @ ''musicL'' @ APOS))\<rparr>"

definition BAD_GUIDS :: "string list" where
  "BAD_GUIDS = [''c9c7bad3-4712-514e-9ebd-d1e208fa1b76'']"

definition feed_guid_verifier :: "(string \<Rightarrow> bool) \<Rightarrow> verifier" where
  "feed_guid_verifier uuid_ok = \<lparr>vf_name = ''feed_guid'', vf_verify = (\<lambda>ctx.
     case map_option ifd_feed_guid (ifr_feed_data (ic_request ctx)) of
       None \<Rightarrow> Pass
     | Some guid \<Rightarrow>
         if guid \<in> set BAD_GUIDS then Fail (''known bad guid: '' @ guid)
         else if \<not> uuid_ok guid then Fail (''invalid uuid: '' @ guid)
         else Pass)\<rparr>"

definition validate_routes :: "string \<Rightarrow> ingest_payment_route list \<Rightarrow> string + unit" where
  "validate_routes context routes =
     (if list_ex (\<lambda>r. ipr_address r \<noteq> [] \<and> ipr_split r > 0) routes then Inr ()
      else Inl (context @ '' podcast:value block has no valid recipient (all routes have empty address or zero split)''))"

definition track_label :: "ingest_track_data \<Rightarrow> string" where
  "track_label t = ''track '' @ APOS @ itd_track_guid t @ APOS"

text \<open>The loop over the tracks: the first track that resolves to no valid route ends it.\<close>

fun v4v_tracks :: "bool \<Rightarrow> ingest_track_data list \<Rightarrow> verify_result" where
  "v4v_tracks feed_routes_valid [] = Pass"
| "v4v_tracks feed_routes_valid (t # ts) =
     (if itd_payment_routes t = [] then
        (if feed_routes_valid then v4v_tracks feed_routes_valid ts
         else Fail (track_label t @ '' declares no podcast:value block, and the feed has no feed-level block to fall back to''))
      else case validate_routes (track_label t) (itd_payment_routes t) of
          Inl msg \<Rightarrow> Fail msg
        | Inr _ \<Rightarrow> v4v_tracks feed_routes_valid ts)"

definition v4v_payment_verifier :: verifier where
  "v4v_payment_verifier = \<lparr>vf_name = ''v4v_payment'', vf_verify = (\<lambda>ctx.
     case ifr_feed_data (ic_request ctx) of
       None \<Rightarrow> Pass
     | Some f \<Rightarrow>
         if payment_exempt (ifd_raw_medium f) then Pass
         else
           let check_tracks = (\<lambda>feed_routes_valid.
                 if ifd_tracks f = [] \<and> \<not> feed_routes_valid
                 then Fail (''no feed-level podcast:value block and no tracks '' @ DASH @ '' feed does not participate in V4V'')
                 else v4v_tracks feed_routes_valid (ifd_tracks f))
           in if ifd_feed_payment_routes f = [] then check_tracks False
              else case validate_routes ''feed'' (ifd_feed_payment_routes f) of
                  Inl msg \<Rightarrow> Fail msg
                | Inr _ \<Rightarrow> check_tracks True)\<rparr>"

text \<open>The sum of the release build wraps at 64 bits.\<close>

fun route_sum_tracks :: "ingest_track_data list \<Rightarrow> verify_result" where
  "route_sum_tracks [] = Pass"
| "route_sum_tracks (t # ts) =
     (if itd_payment_routes t = [] then route_sum_tracks ts
      else let sum = foldl i64_add 0 (map ipr_split (itd_payment_routes t)) in
        if sum \<noteq> 100 then Fail (track_label t @ '' payment splits sum to '' @ show_int sum @ '' (expected 100)'')
        else route_sum_tracks ts)"

definition payment_route_sum_verifier :: verifier where
  "payment_route_sum_verifier = \<lparr>vf_name = ''payment_route_sum'', vf_verify = (\<lambda>ctx.
     case ifr_feed_data (ic_request ctx) of None \<Rightarrow> Pass | Some f \<Rightarrow> route_sum_tracks (ifd_tracks f))\<rparr>"

fun video_tracks :: "ingest_track_data list \<Rightarrow> verify_result" where
  "video_tracks [] = Pass"
| "video_tracks (t # ts) =
     (case itd_enclosure_type t of
        None \<Rightarrow> video_tracks ts
      | Some mime \<Rightarrow>
          if starts_with mime ''video/''
          then Warn (track_label t @ '' has video enclosure type '' @ APOS @ mime @ APOS)
          else video_tracks ts)"

definition enclosure_type_verifier :: verifier where
  "enclosure_type_verifier = \<lparr>vf_name = ''enclosure_type'', vf_verify = (\<lambda>ctx.
     case ifr_feed_data (ic_request ctx) of None \<Rightarrow> Pass | Some f \<Rightarrow> video_tracks (ifd_tracks f))\<rparr>"

section \<open>The chain\<close>

definition token_matches :: "(string \<Rightarrow> string) \<Rightarrow> string \<Rightarrow> string \<Rightarrow> bool" where
  "token_matches sha256 provided expected \<longleftrightarrow> sha256 provided = sha256 expected"

definition new_chain :: "string \<Rightarrow> verifier list \<Rightarrow> verifier_chain option" where
  "new_chain crawl_token vs =
     (if trim crawl_token = [] then None else Some \<lparr>vc_crawl_token = crawl_token, vc_verifiers = vs\<rparr>)"

definition authenticate :: "(string \<Rightarrow> string) \<Rightarrow> verifier_chain \<Rightarrow> ingest_feed_request \<Rightarrow> string + unit" where
  "authenticate sha256 chain req =
     (if token_matches sha256 (ifr_crawl_token req) (vc_crawl_token chain) then Inr ()
      else Inl ''[crawl_token] invalid crawl token'')"

definition tagged :: "verifier \<Rightarrow> string \<Rightarrow> string" where
  "tagged v msg = ''['' @ vf_name v @ ''] '' @ msg"

fun run_verifiers :: "verifier list \<Rightarrow> ingest_context \<Rightarrow> string list \<Rightarrow> string + string list" where
  "run_verifiers [] ctx warnings = Inr warnings"
| "run_verifiers (v # vs) ctx warnings =
     (case vf_verify v ctx of
        Pass \<Rightarrow> run_verifiers vs ctx warnings
      | Warn msg \<Rightarrow> run_verifiers vs ctx (warnings @ [tagged v msg])
      | Fail msg \<Rightarrow> Inl (tagged v msg))"

definition run_chain :: "verifier_chain \<Rightarrow> ingest_context \<Rightarrow> string + string list" where
  "run_chain chain ctx = run_verifiers (vc_verifiers chain) ctx []"

definition DEFAULT_CHAIN :: string where
  "DEFAULT_CHAIN = ''content_hash,medium_music,feed_guid,v4v_payment,enclosure_type''"

definition split_names :: "string \<Rightarrow> string list" where
  "split_names raw = filter (\<lambda>n. n \<noteq> []) (map trim (split_on CHR '','' raw))"

definition names_from_env :: "string option \<Rightarrow> string list" where
  "names_from_env var =
     (let names = split_names (case var of None \<Rightarrow> [] | Some raw \<Rightarrow> raw)
      in if names = [] then split_names DEFAULT_CHAIN else names)"

text \<open>\<^verbatim>\<open>feed\_blocklist\<close> names nothing any more and is skipped; any other unknown name is a panic.\<close>

fun named_verifiers :: "(string \<Rightarrow> bool) \<Rightarrow> string list \<Rightarrow> verifier list option" where
  "named_verifiers uuid_ok [] = Some []"
| "named_verifiers uuid_ok (n # ns) =
     (if n = ''crawl_token'' then None
      else if n = ''feed_blocklist'' then named_verifiers uuid_ok ns
      else
        let put = (\<lambda>v. map_option (\<lambda>vs. v # vs) (named_verifiers uuid_ok ns)) in
        if n = ''content_hash'' then put content_hash_verifier
        else if n = ''medium_music'' then put medium_music_verifier
        else if n = ''feed_guid'' then put (feed_guid_verifier uuid_ok)
        else if n = ''v4v_payment'' then put v4v_payment_verifier
        else if n = ''payment_route_sum'' then put payment_route_sum_verifier
        else if n = ''enclosure_type'' then put enclosure_type_verifier
        else None)"

definition build_chain :: "(string \<Rightarrow> bool) \<Rightarrow> string list \<Rightarrow> string \<Rightarrow> verifier_chain option" where
  "build_chain uuid_ok names crawl_token =
     Option.bind (named_verifiers uuid_ok names) (new_chain crawl_token)"

definition require_crawl_token :: "string \<Rightarrow> bool" where
  "require_crawl_token v \<longleftrightarrow> trim v \<noteq> []"

section \<open>The source's own block\<close>

definition INDEX_SLUG :: string where "INDEX_SLUG = ''musicindex''"

definition block_has :: "(string \<Rightarrow> string) \<Rightarrow> ingest_block_tag list \<Rightarrow> bool \<Rightarrow> string \<Rightarrow> bool" where
  "block_has lc blocks this_index v = list_ex (\<lambda>tag.
     (if this_index then is_some_and (\<lambda>i. lc (trim i) = INDEX_SLUG) (ibt_id tag)
      else (case ibt_id tag of None \<Rightarrow> True | Some i \<Rightarrow> trim i = []))
     \<and> lc (trim (ibt_value tag)) = v) blocks"

definition source_blocks_this_index :: "(string \<Rightarrow> string) \<Rightarrow> ingest_block_tag list \<Rightarrow> bool" where
  "source_blocks_this_index lc blocks =
     (if block_has lc blocks True ''no'' then False
      else block_has lc blocks True ''yes'' \<or> block_has lc blocks False ''yes'')"

section \<open>What the chain decides\<close>

text \<open>The message of a failing verifier, and the warnings of the others.\<close>

definition failure :: "ingest_context \<Rightarrow> verifier \<Rightarrow> string option" where
  "failure ctx v = (case vf_verify v ctx of Fail msg \<Rightarrow> Some (tagged v msg) | _ \<Rightarrow> None)"

definition warning :: "ingest_context \<Rightarrow> verifier \<Rightarrow> string list" where
  "warning ctx v = (case vf_verify v ctx of Warn msg \<Rightarrow> [tagged v msg] | _ \<Rightarrow> [])"

lemma run_verifiers_spec:
  "run_verifiers vs ctx ws =
    (case find (\<lambda>v. failure ctx v \<noteq> None) vs of
       Some v \<Rightarrow> Inl (the (failure ctx v)) | None \<Rightarrow> Inr (ws @ concat (map (warning ctx) vs)))"
  by (induction vs ctx ws rule: run_verifiers.induct)
    (auto simp: failure_def warning_def split: verify_result.splits option.splits)

lemma run_verifiers_accepts:
  "(\<exists>ws'. run_verifiers vs ctx ws = Inr ws') \<longleftrightarrow> list_all (\<lambda>v. failure ctx v = None) vs"
  by (induction vs ctx ws rule: run_verifiers.induct) (auto simp: failure_def split: verify_result.splits)

lemma run_accepts_iff: "(\<exists>ws. run_chain c ctx = Inr ws) \<longleftrightarrow> list_all (\<lambda>v. failure ctx v = None) (vc_verifiers c)"
  unfolding run_chain_def by (rule run_verifiers_accepts)

lemma named_known:
  "named_verifiers uuid_ok ns = Some vs \<Longrightarrow> ''crawl_token'' \<notin> set ns \<and> map vf_name vs = filter (\<lambda>n. n \<noteq> ''feed_blocklist'') ns"
proof (induction ns arbitrary: vs)
  case (Cons n ns)
  then show ?case
    by (auto simp: Let_def content_hash_verifier_def medium_music_verifier_def feed_guid_verifier_def
        v4v_payment_verifier_def payment_route_sum_verifier_def enclosure_type_verifier_def split: if_splits)
qed simp

section \<open>What the verifiers accept\<close>

definition routes_valid :: "ingest_payment_route list \<Rightarrow> bool" where
  "routes_valid rs \<longleftrightarrow> (\<exists>r\<in>set rs. ipr_address r \<noteq> [] \<and> ipr_split r > 0)"

definition unchanged :: "ingest_context \<Rightarrow> bool" where
  "unchanged ctx \<longleftrightarrow> \<not> ifr_force_reingest (ic_request ctx)
     \<and> \<not> is_some_and (\<lambda>f. is_publisher (ifd_raw_medium f)) (ifr_feed_data (ic_request ctx))
     \<and> map_option cc_content_hash (lookup_by cc_feed_url (t_feed_crawl_cache (ic_db ctx)) (ifr_canonical_url (ic_request ctx)))
         = Some (ifr_content_hash (ic_request ctx))"

definition medium_accepted :: "ingest_feed_data \<Rightarrow> bool" where
  "medium_accepted f \<longleftrightarrow> is_music (ifd_raw_medium f) \<or> is_musicl (ifd_raw_medium f)
     \<or> (is_publisher (ifd_raw_medium f) \<and> (\<exists>ri\<in>set (ifd_remote_items f). is_music (irf_medium ri)))"

text \<open>Every declared block is valid, and every track has its own block or the feed's to fall back to.\<close>

definition v4v_accepted :: "ingest_feed_data \<Rightarrow> bool" where
  "v4v_accepted f \<longleftrightarrow> payment_exempt (ifd_raw_medium f)
     \<or> ((ifd_feed_payment_routes f = [] \<or> routes_valid (ifd_feed_payment_routes f))
        \<and> (ifd_tracks f \<noteq> [] \<or> ifd_feed_payment_routes f \<noteq> [])
        \<and> (\<forall>t\<in>set (ifd_tracks f). if itd_payment_routes t = [] then ifd_feed_payment_routes f \<noteq> []
              else routes_valid (itd_payment_routes t)))"

definition admissible :: "(string \<Rightarrow> bool) \<Rightarrow> ingest_context \<Rightarrow> bool" where
  "admissible uuid_ok ctx \<longleftrightarrow> \<not> unchanged ctx
     \<and> (case ifr_feed_data (ic_request ctx) of None \<Rightarrow> False
        | Some f \<Rightarrow> medium_accepted f \<and> v4v_accepted f \<and> uuid_ok (ifd_feed_guid f) \<and> ifd_feed_guid f \<notin> set BAD_GUIDS)"

lemma content_hash_fails: "failure ctx content_hash_verifier = None \<longleftrightarrow> \<not> unchanged ctx"
  by (auto simp: failure_def content_hash_verifier_def unchanged_def split: option.split simp del: lookup_by_None)

lemma medium_music_fails:
  "failure ctx medium_music_verifier = None \<longleftrightarrow> is_some_and medium_accepted (ifr_feed_data (ic_request ctx))"
proof (cases "ifr_feed_data (ic_request ctx)")
  case (Some f)
  then show ?thesis
    using medium_disjoint [of "ifd_raw_medium f"]
    by (cases "ifd_raw_medium f")
      (auto simp: failure_def medium_music_verifier_def medium_accepted_def list_ex_iff split: if_splits)
qed (simp add: failure_def medium_music_verifier_def)

lemma feed_guid_fails:
  "failure ctx (feed_guid_verifier uuid_ok) = None \<longleftrightarrow>
    (case ifr_feed_data (ic_request ctx) of None \<Rightarrow> True | Some f \<Rightarrow> uuid_ok (ifd_feed_guid f) \<and> ifd_feed_guid f \<notin> set BAD_GUIDS)"
  by (auto simp: failure_def feed_guid_verifier_def split: option.split)

lemma validate_routes_iff: "validate_routes c rs = Inr () \<longleftrightarrow> routes_valid rs"
  by (auto simp: validate_routes_def routes_valid_def list_ex_iff)

lemma validate_routes_case:
  "(case validate_routes c rs of Inl msg \<Rightarrow> Fail msg | Inr u \<Rightarrow> k u) =
    (if routes_valid rs then k () else Fail (c @ '' podcast:value block has no valid recipient (all routes have empty address or zero split)''))"
  by (auto simp: validate_routes_def routes_valid_def list_ex_iff)

lemma v4v_tracks_pass:
  "(\<exists>msg. v4v_tracks ok ts = Fail msg) \<longleftrightarrow>
    \<not> (\<forall>t\<in>set ts. if itd_payment_routes t = [] then ok else routes_valid (itd_payment_routes t))"
  by (cases ok; induction ts) (auto simp: validate_routes_case)

lemma failure_None: "failure ctx v = None \<longleftrightarrow> \<not> (\<exists>msg. vf_verify v ctx = Fail msg)"
  by (auto simp: failure_def split: verify_result.splits)

lemma v4v_payment_fails:
  "failure ctx v4v_payment_verifier = None \<longleftrightarrow>
    (case ifr_feed_data (ic_request ctx) of None \<Rightarrow> True | Some f \<Rightarrow> v4v_accepted f)"
proof (cases "ifr_feed_data (ic_request ctx)")
  case (Some f)
  have tracks: "(\<exists>msg. (if ifd_tracks f = [] \<and> \<not> ok then Fail m else v4v_tracks ok (ifd_tracks f)) = Fail msg) \<longleftrightarrow>
      (ifd_tracks f = [] \<and> \<not> ok) \<or> \<not> (\<forall>t\<in>set (ifd_tracks f). if itd_payment_routes t = [] then ok else routes_valid (itd_payment_routes t))"
    for ok m
    using v4v_tracks_pass [of ok "ifd_tracks f"] by auto
  show ?thesis
  proof (cases "payment_exempt (ifd_raw_medium f)")
    case True
    with Some show ?thesis by (simp add: failure_None v4v_payment_verifier_def v4v_accepted_def)
  next
    case False
    show ?thesis
    proof (cases "ifd_feed_payment_routes f = []")
      case True
      with Some False tracks [of False] show ?thesis
        by (simp add: failure_None v4v_payment_verifier_def v4v_accepted_def Let_def)
    next
      case nonempty: False
      show ?thesis
      proof (cases "routes_valid (ifd_feed_payment_routes f)")
        case True
        with Some False nonempty tracks [of True] show ?thesis
          by (simp add: failure_None v4v_payment_verifier_def v4v_accepted_def Let_def validate_routes_case)
      next
        case invalid: False
        with Some False nonempty show ?thesis
          by (simp add: failure_None v4v_payment_verifier_def v4v_accepted_def Let_def validate_routes_case)
      qed
    qed
  qed
qed (simp add: failure_def v4v_payment_verifier_def)

lemma video_tracks_pass: "video_tracks ts \<noteq> Fail msg"
  by (induction ts rule: video_tracks.induct) (auto split: option.split)

lemma enclosure_type_fails: "failure ctx enclosure_type_verifier = None"
  using video_tracks_pass by (auto simp: failure_None enclosure_type_verifier_def split: option.split)

lemma default_names:
  "names_from_env None = [''content_hash'', ''medium_music'', ''feed_guid'', ''v4v_payment'', ''enclosure_type'']"
  by code_simp

lemma default_verifiers:
  "named_verifiers uuid_ok (names_from_env None) =
    Some [content_hash_verifier, medium_music_verifier, feed_guid_verifier uuid_ok, v4v_payment_verifier, enclosure_type_verifier]"
  by (simp add: default_names Let_def)

section \<open>Sums that wrap\<close>

lemma i64_wrap_add: "i64_wrap (i64_wrap a + b) = i64_wrap (a + b)"
  by (simp add: i64_wrap_def mod_simps algebra_simps)

lemma sum_wraps: "foldl i64_add a xs = (if xs = [] then a else i64_wrap (a + sum_list xs))"
proof (induction xs arbitrary: a)
  case (Cons x xs)
  have "i64_wrap (i64_add a x + sum_list xs) = i64_wrap (a + (x + sum_list xs))"
    by (simp add: i64_add_def i64_wrap_add add.assoc)
  with Cons show ?case by (simp add: i64_add_def)
qed simp

lemma wrap_100: "i64_wrap x = 100 \<longleftrightarrow> x mod 2 ^ 64 = 100"
proof
  assume "i64_wrap x = 100"
  then have "(x + 2 ^ 63) mod 2 ^ 64 = 100 + 2 ^ 63" by (simp add: i64_wrap_def)
  then have "((x + 2 ^ 63) mod 2 ^ 64 - 2 ^ 63) mod 2 ^ 64 = 100" by simp
  then show "x mod 2 ^ 64 = 100" by (simp only: mod_diff_left_eq add_diff_cancel_right')
next
  assume "x mod 2 ^ 64 = 100"
  then have "(x + 2 ^ 63) mod 2 ^ 64 = (100 + 2 ^ 63) mod 2 ^ 64" by (metis mod_add_left_eq)
  then show "i64_wrap x = 100" by (simp add: i64_wrap_def)
qed

lemma route_sum_pass:
  "route_sum_tracks ts = Pass \<longleftrightarrow>
    (\<forall>t\<in>set ts. itd_payment_routes t = [] \<or> i64_wrap (sum_list (map ipr_split (itd_payment_routes t))) = 100)"
  by (induction ts rule: route_sum_tracks.induct) (auto simp: Let_def sum_wraps)

section \<open>Properties of the verifier chain\<close>

text \<open>
  C23: The default chain accepts a submission exactly when the feed did not go unchanged since the
  last crawl (a publisher feed and a forced submission never count as unchanged), the feed is
  music, musicL or a publisher of music, its GUID is a UUID and not a known bad one, and every
  payment block it declares is valid with each track paid by its own block or the feed's.
\<close>

theorem default_chain_accepts_iff:
  assumes "build_chain uuid_ok (names_from_env None) token = Some chain"
  shows "(\<exists>warnings. run_chain chain ctx = Inr warnings) \<longleftrightarrow> admissible uuid_ok ctx"
proof -
  have "vc_verifiers chain = [content_hash_verifier, medium_music_verifier, feed_guid_verifier uuid_ok,
      v4v_payment_verifier, enclosure_type_verifier]"
    using assms by (auto simp: build_chain_def default_verifiers new_chain_def split: if_splits)
  then show ?thesis
    unfolding run_accepts_iff
    by (auto simp: content_hash_fails medium_music_fails feed_guid_fails v4v_payment_fails enclosure_type_fails
        admissible_def split: option.split)
qed

definition sample_recipient :: ingest_payment_route where
  "sample_recipient = \<lparr>ipr_recipient_name = None, ipr_route_type = Keysend, ipr_address = ''02ab'',
     ipr_custom_key = None, ipr_custom_value = None, ipr_split = 100, ipr_fee = False\<rparr>"

definition sample_submission :: ingest_feed_data where
  "sample_submission = \<lparr>ifd_feed_guid = ''g1'', ifd_title = ''Songs'', ifd_description = None, ifd_image_url = None,
     ifd_language = None, ifd_explicit = False, ifd_itunes_type = None, ifd_raw_medium = Some ''Music'',
     ifd_author_name = None, ifd_owner_name = None, ifd_pub_date = None, ifd_last_build_date = None,
     ifd_new_feed_url = None, ifd_locked = None, ifd_locked_owner = None, ifd_remote_items = [], ifd_persons = [],
     ifd_entity_ids = [], ifd_links = [], ifd_feed_payment_routes = [sample_recipient], ifd_live_items = [],
     ifd_blocks = [], ifd_tracks = []\<rparr>"

definition sample_request :: ingest_feed_request where
  "sample_request = \<lparr>ifr_canonical_url = ''https://a.example/f'', ifr_source_url = ''https://a.example/f'',
     ifr_crawl_token = ''secret'', ifr_http_status = 200, ifr_content_hash = ''h1'', ifr_feed_data = Some sample_submission,
     ifr_force_reingest = False, ifr_redirects = []\<rparr>"

definition sample_context :: ingest_context where
  "sample_context = \<lparr>ic_request = sample_request, ic_db = empty_db, ic_existing = None\<rparr>"

lemma secret_token: "trim ''secret'' \<noteq> []"
  by code_simp

theorem default_chain_accepts_iff_witness:
  "\<exists>chain. build_chain (\<lambda>u. True) (names_from_env None) ''secret'' = Some chain
    \<and> (\<exists>warnings. run_chain chain sample_context = Inr warnings)"
proof -
  obtain chain where chain: "build_chain (\<lambda>u. True) (names_from_env None) ''secret'' = Some chain"
    using secret_token by (simp add: build_chain_def default_verifiers new_chain_def)
  have "is_music (Some ''Music'')" unfolding is_music_iff by code_simp
  then have "admissible (\<lambda>u. True) sample_context"
    by (simp add: admissible_def sample_context_def sample_request_def sample_submission_def unchanged_def empty_db_def
        medium_accepted_def v4v_accepted_def routes_valid_def sample_recipient_def BAD_GUIDS_def lookup_by_def)
  with default_chain_accepts_iff [OF chain] chain show ?thesis by blast
qed

text \<open>
  A chain run is the first failure in chain order, with its verifier's name, or else the
  warnings of all verifiers in order; later verifiers do not matter once one has failed.
\<close>

theorem chain_run_is_first_failure:
  "run_chain chain ctx =
    (case find (\<lambda>v. failure ctx v \<noteq> None) (vc_verifiers chain) of
       Some v \<Rightarrow> Inl (the (failure ctx v)) | None \<Rightarrow> Inr (concat (map (warning ctx) (vc_verifiers chain))))"
  unfolding run_chain_def run_verifiers_spec append_Nil ..

text \<open>
  Whatever the configured names are, a chain that starts holds the configured token, which is
  not blank, its verifiers are the named ones in order, and no name stands for the token check.
\<close>

theorem built_chain_is_as_configured:
  assumes "build_chain uuid_ok names token = Some chain"
  shows "vc_crawl_token chain = token \<and> trim token \<noteq> [] \<and> ''crawl_token'' \<notin> set names
    \<and> map vf_name (vc_verifiers chain) = filter (\<lambda>n. n \<noteq> ''feed_blocklist'') names"
  using assms named_known by (fastforce simp: build_chain_def new_chain_def bind_eq_Some_conv split: if_splits)

theorem built_chain_is_as_configured_witness:
  "\<exists>chain. build_chain (\<lambda>u. True) [''feed_guid'', ''feed_blocklist''] ''secret'' = Some chain
    \<and> map vf_name (vc_verifiers chain) = [''feed_guid'']"
proof -
  obtain chain where chain: "build_chain (\<lambda>u. True) [''feed_guid'', ''feed_blocklist''] ''secret'' = Some chain"
    using secret_token by (simp add: build_chain_def new_chain_def Let_def)
  from built_chain_is_as_configured [OF this] chain show ?thesis by auto
qed

text \<open>
  A configuration that names only the retired block list verifier starts a node whose chain is
  empty and accepts every submission, one with no feed data included.
\<close>

theorem blocklist_only_chain_accepts_everything:
  assumes "build_chain uuid_ok (names_from_env (Some ''feed_blocklist'')) token = Some chain"
  shows "run_chain chain ctx = Inr []"
proof -
  have "names_from_env (Some ''feed_blocklist'') = [''feed_blocklist'']" by code_simp
  with assms show ?thesis by (auto simp: build_chain_def new_chain_def run_chain_def split: if_splits)
qed

theorem blocklist_only_chain_accepts_everything_witness:
  "\<exists>chain. build_chain (\<lambda>u. True) (names_from_env (Some ''feed_blocklist'')) ''secret'' = Some chain
    \<and> run_chain chain sample_context = Inr []"
proof -
  have "names_from_env (Some ''feed_blocklist'') = [''feed_blocklist'']" by code_simp
  then obtain chain where chain: "build_chain (\<lambda>u. True) (names_from_env (Some ''feed_blocklist'')) ''secret'' = Some chain"
    using secret_token by (simp add: build_chain_def new_chain_def)
  from blocklist_only_chain_accepts_everything [OF this] chain show ?thesis by blast
qed

text \<open>
  The route-sum verifier passes a feed exactly when the splits of each track with routes add up
  to 100 modulo 2^64: a true sum of 100 always passes, and a sum of 2^64 + 100 passes too.
\<close>

theorem route_sum_is_modular:
  "vf_verify payment_route_sum_verifier ctx = Pass \<longleftrightarrow>
    (case ifr_feed_data (ic_request ctx) of None \<Rightarrow> True
     | Some f \<Rightarrow> list_all (\<lambda>t. itd_payment_routes t = [] \<or> sum_list (map ipr_split (itd_payment_routes t)) mod 2 ^ 64 = 100) (ifd_tracks f))"
  by (simp add: payment_route_sum_verifier_def route_sum_pass wrap_100 list_all_iff split: option.split)

text \<open>
  The block tags of a source are read as a set: their order and repetition do not change
  whether the source blocks this index.
\<close>

theorem block_tags_are_a_set:
  assumes "set tags = set tags'"
  shows "source_blocks_this_index lc tags = source_blocks_this_index lc tags'"
proof -
  have "block_has lc tags here v = block_has lc tags' here v" for here v
    by (simp add: block_has_def list_ex_iff assms)
  then show ?thesis by (simp add: source_blocks_this_index_def)
qed

theorem block_tags_are_a_set_witness:
  "source_blocks_this_index (\<lambda>t. t) [\<lparr>ibt_id = None, ibt_value = ''yes''\<rparr>, \<lparr>ibt_id = Some ''musicindex'', ibt_value = ''no''\<rparr>]
   = source_blocks_this_index (\<lambda>t. t) [\<lparr>ibt_id = Some ''musicindex'', ibt_value = ''no''\<rparr>, \<lparr>ibt_id = None, ibt_value = ''yes''\<rparr>]"
  by (rule block_tags_are_a_set) auto

end
