(* ===== verification/Diff.thy ===== *)
theory Diff
  imports Moves
begin

text \<open>
  The events of an ingest (\<^verbatim>\<open>src/db.rs\<close>, \<^verbatim>\<open>build\_diff\_events\<close> and its helpers): what of a submission
  differs from the stored rows, and one event row per difference. The JSON text of a payload
  (\<open>json\<close>) and the fresh UUIDs (\<open>uuid i\<close> for the i-th event of a call) are parameters.
\<close>

section \<open>Arguments\<close>

type_synonym track_ingest_bundle =
  "track \<times> payment_route list \<times> value_time_split list \<times> track_remote_item_raw list"

text \<open>The row arguments that \<^verbatim>\<open>build\_diff\_events\<close> and \<^verbatim>\<open>ingest\_transaction\<close> share.\<close>

record feed_write =
  fw_feed :: feed
  fw_remote_items :: "feed_remote_item_raw list"
  fw_source_contributor_claims :: "source_contributor_claim list"
  fw_source_entity_ids :: "source_entity_id_claim list"
  fw_source_entity_links :: "source_entity_link list"
  fw_source_release_claims :: "source_release_claim list"
  fw_source_item_enclosures :: "source_item_enclosure list"
  fw_source_item_transcripts :: "source_item_transcript list"
  fw_source_platform_claims :: "source_platform_claim list"
  fw_feed_routes :: "feed_payment_route list"
  fw_feed_list_values :: "feed_list_value_raw list"
  fw_live_events :: "live_event list"
  fw_tracks :: "track_ingest_bundle list"

text \<open>The Rust struct \<^verbatim>\<open>EventRow\<close>: an event before it has a number and a signature.\<close>

record new_event =
  nw_event_id :: string
  nw_event_type :: event_type
  nw_payload_json :: string
  nw_subject_guid :: string
  nw_created_at :: int
  nw_warnings :: "string list"

section \<open>Comparisons\<close>

definition feed_fields_changed :: "feed \<Rightarrow> feed \<Rightarrow> bool" where
  "feed_fields_changed existing new \<longleftrightarrow> fe_title existing \<noteq> fe_title new
     \<or> fe_description existing \<noteq> fe_description new \<or> fe_image_url existing \<noteq> fe_image_url new
     \<or> fe_publisher existing \<noteq> fe_publisher new \<or> fe_language existing \<noteq> fe_language new
     \<or> fe_explicit existing \<noteq> fe_explicit new \<or> fe_itunes_type existing \<noteq> fe_itunes_type new
     \<or> fe_release_artist existing \<noteq> fe_release_artist new
     \<or> fe_release_artist_sort existing \<noteq> fe_release_artist_sort new
     \<or> fe_release_date existing \<noteq> fe_release_date new \<or> fe_release_kind existing \<noteq> fe_release_kind new
     \<or> fe_raw_medium existing \<noteq> fe_raw_medium new \<or> fe_feed_url existing \<noteq> fe_feed_url new"

definition track_fields_changed :: "track \<Rightarrow> track \<Rightarrow> bool" where
  "track_fields_changed existing new \<longleftrightarrow> tr_title existing \<noteq> tr_title new
     \<or> tr_pub_date existing \<noteq> tr_pub_date new \<or> tr_duration_secs existing \<noteq> tr_duration_secs new
     \<or> tr_image_url existing \<noteq> tr_image_url new \<or> tr_language existing \<noteq> tr_language new
     \<or> tr_enclosure_url existing \<noteq> tr_enclosure_url new \<or> tr_enclosure_type existing \<noteq> tr_enclosure_type new
     \<or> tr_enclosure_bytes existing \<noteq> tr_enclosure_bytes new \<or> tr_track_number existing \<noteq> tr_track_number new
     \<or> tr_season existing \<noteq> tr_season new \<or> tr_explicit existing \<noteq> tr_explicit new
     \<or> tr_description existing \<noteq> tr_description new \<or> tr_publisher existing \<noteq> tr_publisher new
     \<or> tr_track_artist existing \<noteq> tr_track_artist new \<or> tr_track_artist_sort existing \<noteq> tr_track_artist_sort new"

text \<open>\<^verbatim>\<open>existing.len() != new.len() || existing.iter().zip(new.iter()).any(..)\<close>\<close>

definition rows_changed :: "('a \<Rightarrow> 'a \<Rightarrow> bool) \<Rightarrow> 'a list \<Rightarrow> 'a list \<Rightarrow> bool" where
  "rows_changed differs existing new \<longleftrightarrow>
     length existing \<noteq> length new \<or> list_ex (\<lambda>(a, b). differs a b) (zip existing new)"

definition feed_routes_changed :: "feed_payment_route list \<Rightarrow> feed_payment_route list \<Rightarrow> bool" where
  "feed_routes_changed = rows_changed (\<lambda>a b.
     fpr_recipient_name a \<noteq> fpr_recipient_name b \<or> fpr_route_type a \<noteq> fpr_route_type b
     \<or> fpr_address a \<noteq> fpr_address b \<or> fpr_custom_key a \<noteq> fpr_custom_key b
     \<or> fpr_custom_value a \<noteq> fpr_custom_value b \<or> fpr_split a \<noteq> fpr_split b
     \<or> fpr_fee a \<noteq> fpr_fee b)"

definition feed_remote_items_changed :: "feed_remote_item_raw list \<Rightarrow> feed_remote_item_raw list \<Rightarrow> bool" where
  "feed_remote_items_changed = rows_changed (\<lambda>a b.
     fri_position a \<noteq> fri_position b \<or> fri_medium a \<noteq> fri_medium b
     \<or> fri_remote_feed_guid a \<noteq> fri_remote_feed_guid b
     \<or> fri_remote_feed_url a \<noteq> fri_remote_feed_url b \<or> fri_rel a \<noteq> fri_rel b
     \<or> fri_source a \<noteq> fri_source b \<or> fri_remote_item_guid a \<noteq> fri_remote_item_guid b
     \<or> fri_remote_item_title a \<noteq> fri_remote_item_title b)"

definition feed_list_values_changed :: "feed_list_value_raw list \<Rightarrow> feed_list_value_raw list \<Rightarrow> bool" where
  "feed_list_values_changed = rows_changed (\<lambda>a b.
     flv_recipient_name a \<noteq> flv_recipient_name b \<or> flv_route_type a \<noteq> flv_route_type b
     \<or> flv_address a \<noteq> flv_address b \<or> flv_custom_key a \<noteq> flv_custom_key b
     \<or> flv_custom_value a \<noteq> flv_custom_value b \<or> flv_split a \<noteq> flv_split b
     \<or> flv_fee a \<noteq> flv_fee b \<or> flv_position a \<noteq> flv_position b)"

definition track_remote_items_changed :: "track_remote_item_raw list \<Rightarrow> track_remote_item_raw list \<Rightarrow> bool" where
  "track_remote_items_changed = rows_changed (\<lambda>a b.
     tri_position a \<noteq> tri_position b \<or> tri_medium a \<noteq> tri_medium b
     \<or> tri_remote_feed_guid a \<noteq> tri_remote_feed_guid b
     \<or> tri_remote_feed_url a \<noteq> tri_remote_feed_url b \<or> tri_source a \<noteq> tri_source b)"

definition live_events_changed :: "live_event list \<Rightarrow> live_event list \<Rightarrow> bool" where
  "live_events_changed = rows_changed (\<lambda>a b.
     le_live_item_guid a \<noteq> le_live_item_guid b \<or> le_title a \<noteq> le_title b
     \<or> le_content_link a \<noteq> le_content_link b \<or> le_status a \<noteq> le_status b
     \<or> le_scheduled_start a \<noteq> le_scheduled_start b \<or> le_scheduled_end a \<noteq> le_scheduled_end b
     \<or> le_live_value_uri a \<noteq> le_live_value_uri b
     \<or> le_live_value_protocol a \<noteq> le_live_value_protocol b)"

definition source_contributor_claims_changed :: "source_contributor_claim list \<Rightarrow> source_contributor_claim list \<Rightarrow> bool" where
  "source_contributor_claims_changed = rows_changed (\<lambda>a b.
     scc_feed_guid a \<noteq> scc_feed_guid b \<or> scc_entity_type a \<noteq> scc_entity_type b
     \<or> scc_entity_id a \<noteq> scc_entity_id b \<or> scc_position a \<noteq> scc_position b
     \<or> scc_name a \<noteq> scc_name b \<or> scc_role a \<noteq> scc_role b
     \<or> scc_group_name a \<noteq> scc_group_name b \<or> scc_href a \<noteq> scc_href b
     \<or> scc_img a \<noteq> scc_img b \<or> scc_npub a \<noteq> scc_npub b \<or> scc_source a \<noteq> scc_source b
     \<or> scc_extraction_path a \<noteq> scc_extraction_path b)"

definition source_entity_ids_changed :: "source_entity_id_claim list \<Rightarrow> source_entity_id_claim list \<Rightarrow> bool" where
  "source_entity_ids_changed = rows_changed (\<lambda>a b.
     sei_feed_guid a \<noteq> sei_feed_guid b \<or> sei_entity_type a \<noteq> sei_entity_type b
     \<or> sei_entity_id a \<noteq> sei_entity_id b \<or> sei_position a \<noteq> sei_position b
     \<or> sei_scheme a \<noteq> sei_scheme b \<or> sei_value a \<noteq> sei_value b
     \<or> sei_source a \<noteq> sei_source b \<or> sei_extraction_path a \<noteq> sei_extraction_path b)"

definition source_entity_links_changed :: "source_entity_link list \<Rightarrow> source_entity_link list \<Rightarrow> bool" where
  "source_entity_links_changed = rows_changed (\<lambda>a b.
     sel_feed_guid a \<noteq> sel_feed_guid b \<or> sel_entity_type a \<noteq> sel_entity_type b
     \<or> sel_entity_id a \<noteq> sel_entity_id b \<or> sel_position a \<noteq> sel_position b
     \<or> sel_link_type a \<noteq> sel_link_type b \<or> sel_url a \<noteq> sel_url b
     \<or> sel_source a \<noteq> sel_source b \<or> sel_extraction_path a \<noteq> sel_extraction_path b
     \<or> sel_label a \<noteq> sel_label b)"

definition source_release_claims_changed :: "source_release_claim list \<Rightarrow> source_release_claim list \<Rightarrow> bool" where
  "source_release_claims_changed = rows_changed (\<lambda>a b.
     src_feed_guid a \<noteq> src_feed_guid b \<or> src_entity_type a \<noteq> src_entity_type b
     \<or> src_entity_id a \<noteq> src_entity_id b \<or> src_position a \<noteq> src_position b
     \<or> src_claim_type a \<noteq> src_claim_type b \<or> src_claim_value a \<noteq> src_claim_value b
     \<or> src_source a \<noteq> src_source b \<or> src_extraction_path a \<noteq> src_extraction_path b)"

definition source_item_enclosures_changed :: "source_item_enclosure list \<Rightarrow> source_item_enclosure list \<Rightarrow> bool" where
  "source_item_enclosures_changed = rows_changed (\<lambda>a b.
     sie_feed_guid a \<noteq> sie_feed_guid b \<or> sie_entity_type a \<noteq> sie_entity_type b
     \<or> sie_entity_id a \<noteq> sie_entity_id b \<or> sie_position a \<noteq> sie_position b
     \<or> sie_url a \<noteq> sie_url b \<or> sie_mime_type a \<noteq> sie_mime_type b
     \<or> sie_bytes a \<noteq> sie_bytes b \<or> sie_rel a \<noteq> sie_rel b \<or> sie_title a \<noteq> sie_title b
     \<or> sie_is_primary a \<noteq> sie_is_primary b \<or> sie_source a \<noteq> sie_source b
     \<or> sie_extraction_path a \<noteq> sie_extraction_path b)"

definition source_item_transcripts_changed :: "source_item_transcript list \<Rightarrow> source_item_transcript list \<Rightarrow> bool" where
  "source_item_transcripts_changed = rows_changed (\<lambda>a b.
     sit_feed_guid a \<noteq> sit_feed_guid b \<or> sit_entity_type a \<noteq> sit_entity_type b
     \<or> sit_entity_id a \<noteq> sit_entity_id b \<or> sit_position a \<noteq> sit_position b
     \<or> sit_url a \<noteq> sit_url b \<or> sit_mime_type a \<noteq> sit_mime_type b
     \<or> sit_language a \<noteq> sit_language b \<or> sit_rel a \<noteq> sit_rel b
     \<or> sit_source a \<noteq> sit_source b \<or> sit_extraction_path a \<noteq> sit_extraction_path b)"

definition source_platform_claims_changed :: "source_platform_claim list \<Rightarrow> source_platform_claim list \<Rightarrow> bool" where
  "source_platform_claims_changed = rows_changed (\<lambda>a b.
     spc_feed_guid a \<noteq> spc_feed_guid b \<or> spc_platform_key a \<noteq> spc_platform_key b
     \<or> spc_url a \<noteq> spc_url b \<or> spc_owner_name a \<noteq> spc_owner_name b
     \<or> spc_source a \<noteq> spc_source b \<or> spc_extraction_path a \<noteq> spc_extraction_path b)"

section \<open>Event rows\<close>

definition build_feed_upserted_event ::
  "(event_payload \<Rightarrow> string) \<Rightarrow> feed \<Rightarrow> int \<Rightarrow> string list \<Rightarrow> string \<Rightarrow> new_event" where
  "build_feed_upserted_event json feed now warnings event_id =
     \<lparr>nw_event_id = event_id, nw_event_type = FeedUpserted, nw_payload_json = json (FeedUpsertedP \<lparr>fu_feed = feed, fu_reason = None\<rparr>),
       nw_subject_guid = fe_feed_guid feed, nw_created_at = now, nw_warnings = warnings\<rparr>"

definition build_feed_routes_event ::
  "(event_payload \<Rightarrow> string) \<Rightarrow> feed \<Rightarrow> feed_payment_route list \<Rightarrow> int \<Rightarrow> string list \<Rightarrow> string \<Rightarrow> new_event" where
  "build_feed_routes_event json feed routes now warnings event_id =
     \<lparr>nw_event_id = event_id, nw_event_type = FeedRoutesReplaced, nw_payload_json = json (FeedRoutesReplacedP \<lparr>frr_feed_guid = fe_feed_guid feed, frr_routes = routes\<rparr>),
       nw_subject_guid = fe_feed_guid feed, nw_created_at = now, nw_warnings = warnings\<rparr>"

definition build_feed_list_value_event ::
  "(event_payload \<Rightarrow> string) \<Rightarrow> feed \<Rightarrow> feed_list_value_raw list \<Rightarrow> int \<Rightarrow> string list \<Rightarrow> string \<Rightarrow> new_event" where
  "build_feed_list_value_event json feed list_values now warnings event_id =
     \<lparr>nw_event_id = event_id, nw_event_type = FeedListValueReplaced, nw_payload_json = json (FeedListValueReplacedP \<lparr>flr_feed_guid = fe_feed_guid feed, flr_list_values = list_values\<rparr>),
       nw_subject_guid = fe_feed_guid feed, nw_created_at = now, nw_warnings = warnings\<rparr>"

definition build_feed_remote_items_event ::
  "(event_payload \<Rightarrow> string) \<Rightarrow> feed \<Rightarrow> feed_remote_item_raw list \<Rightarrow> int \<Rightarrow> string list \<Rightarrow> string \<Rightarrow> new_event" where
  "build_feed_remote_items_event json feed remote_items now warnings event_id =
     \<lparr>nw_event_id = event_id, nw_event_type = FeedRemoteItemsReplaced, nw_payload_json = json (FeedRemoteItemsReplacedP \<lparr>frir_feed_guid = fe_feed_guid feed, frir_remote_items = remote_items\<rparr>),
       nw_subject_guid = fe_feed_guid feed, nw_created_at = now, nw_warnings = warnings\<rparr>"

definition build_track_remote_items_event ::
  "(event_payload \<Rightarrow> string) \<Rightarrow> track \<Rightarrow> track_remote_item_raw list \<Rightarrow> int \<Rightarrow> string list \<Rightarrow> string \<Rightarrow> new_event" where
  "build_track_remote_items_event json track remote_items now warnings event_id =
     \<lparr>nw_event_id = event_id, nw_event_type = TrackRemoteItemsReplaced, nw_payload_json = json (TrackRemoteItemsReplacedP \<lparr>trir_track_guid = tr_track_guid track, trir_feed_guid = Some (tr_feed_guid track), trir_remote_items = remote_items\<rparr>),
       nw_subject_guid = tr_track_guid track, nw_created_at = now, nw_warnings = warnings\<rparr>"

definition build_live_events_event ::
  "(event_payload \<Rightarrow> string) \<Rightarrow> feed \<Rightarrow> live_event list \<Rightarrow> int \<Rightarrow> string list \<Rightarrow> string \<Rightarrow> new_event" where
  "build_live_events_event json feed live_events now warnings event_id =
     \<lparr>nw_event_id = event_id, nw_event_type = LiveEventsReplaced, nw_payload_json = json (LiveEventsReplacedP \<lparr>ler_feed_guid = fe_feed_guid feed, ler_live_events = live_events\<rparr>),
       nw_subject_guid = fe_feed_guid feed, nw_created_at = now, nw_warnings = warnings\<rparr>"

definition build_source_contributor_claims_event ::
  "(event_payload \<Rightarrow> string) \<Rightarrow> feed \<Rightarrow> source_contributor_claim list \<Rightarrow> int \<Rightarrow> string list \<Rightarrow> string \<Rightarrow> new_event" where
  "build_source_contributor_claims_event json feed claims now warnings event_id =
     \<lparr>nw_event_id = event_id, nw_event_type = SourceContributorClaimsReplaced, nw_payload_json = json (SourceContributorClaimsReplacedP \<lparr>sccr_feed_guid = fe_feed_guid feed, sccr_claims = claims\<rparr>),
       nw_subject_guid = fe_feed_guid feed, nw_created_at = now, nw_warnings = warnings\<rparr>"

definition build_source_entity_ids_event ::
  "(event_payload \<Rightarrow> string) \<Rightarrow> feed \<Rightarrow> source_entity_id_claim list \<Rightarrow> int \<Rightarrow> string list \<Rightarrow> string \<Rightarrow> new_event" where
  "build_source_entity_ids_event json feed claims now warnings event_id =
     \<lparr>nw_event_id = event_id, nw_event_type = SourceEntityIdsReplaced, nw_payload_json = json (SourceEntityIdsReplacedP \<lparr>seir_feed_guid = fe_feed_guid feed, seir_claims = claims\<rparr>),
       nw_subject_guid = fe_feed_guid feed, nw_created_at = now, nw_warnings = warnings\<rparr>"

definition build_source_entity_links_event ::
  "(event_payload \<Rightarrow> string) \<Rightarrow> feed \<Rightarrow> source_entity_link list \<Rightarrow> int \<Rightarrow> string list \<Rightarrow> string \<Rightarrow> new_event" where
  "build_source_entity_links_event json feed links now warnings event_id =
     \<lparr>nw_event_id = event_id, nw_event_type = SourceEntityLinksReplaced, nw_payload_json = json (SourceEntityLinksReplacedP \<lparr>selr_feed_guid = fe_feed_guid feed, selr_links = links\<rparr>),
       nw_subject_guid = fe_feed_guid feed, nw_created_at = now, nw_warnings = warnings\<rparr>"

definition build_source_release_claims_event ::
  "(event_payload \<Rightarrow> string) \<Rightarrow> feed \<Rightarrow> source_release_claim list \<Rightarrow> int \<Rightarrow> string list \<Rightarrow> string \<Rightarrow> new_event" where
  "build_source_release_claims_event json feed claims now warnings event_id =
     \<lparr>nw_event_id = event_id, nw_event_type = SourceReleaseClaimsReplaced, nw_payload_json = json (SourceReleaseClaimsReplacedP \<lparr>srcr_feed_guid = fe_feed_guid feed, srcr_claims = claims\<rparr>),
       nw_subject_guid = fe_feed_guid feed, nw_created_at = now, nw_warnings = warnings\<rparr>"

definition build_source_item_enclosures_event ::
  "(event_payload \<Rightarrow> string) \<Rightarrow> feed \<Rightarrow> source_item_enclosure list \<Rightarrow> int \<Rightarrow> string list \<Rightarrow> string \<Rightarrow> new_event" where
  "build_source_item_enclosures_event json feed enclosures now warnings event_id =
     \<lparr>nw_event_id = event_id, nw_event_type = SourceItemEnclosuresReplaced, nw_payload_json = json (SourceItemEnclosuresReplacedP \<lparr>sier_feed_guid = fe_feed_guid feed, sier_enclosures = enclosures\<rparr>),
       nw_subject_guid = fe_feed_guid feed, nw_created_at = now, nw_warnings = warnings\<rparr>"

definition build_source_item_transcripts_event ::
  "(event_payload \<Rightarrow> string) \<Rightarrow> feed \<Rightarrow> source_item_transcript list \<Rightarrow> int \<Rightarrow> string list \<Rightarrow> string \<Rightarrow> new_event" where
  "build_source_item_transcripts_event json feed transcripts now warnings event_id =
     \<lparr>nw_event_id = event_id, nw_event_type = SourceItemTranscriptsReplaced, nw_payload_json = json (SourceItemTranscriptsReplacedP \<lparr>sitr_feed_guid = fe_feed_guid feed, sitr_transcripts = transcripts\<rparr>),
       nw_subject_guid = fe_feed_guid feed, nw_created_at = now, nw_warnings = warnings\<rparr>"

definition build_source_platform_claims_event ::
  "(event_payload \<Rightarrow> string) \<Rightarrow> feed \<Rightarrow> source_platform_claim list \<Rightarrow> int \<Rightarrow> string list \<Rightarrow> string \<Rightarrow> new_event" where
  "build_source_platform_claims_event json feed claims now warnings event_id =
     \<lparr>nw_event_id = event_id, nw_event_type = SourcePlatformClaimsReplaced, nw_payload_json = json (SourcePlatformClaimsReplacedP \<lparr>spcr_feed_guid = fe_feed_guid feed, spcr_claims = claims\<rparr>),
       nw_subject_guid = fe_feed_guid feed, nw_created_at = now, nw_warnings = warnings\<rparr>"

definition build_track_upserted_event ::
  "(event_payload \<Rightarrow> string) \<Rightarrow> track \<Rightarrow> payment_route list \<Rightarrow> value_time_split list \<Rightarrow> int \<Rightarrow> string list \<Rightarrow> string \<Rightarrow> new_event" where
  "build_track_upserted_event json track routes vts now warnings event_id =
     \<lparr>nw_event_id = event_id, nw_event_type = TrackUpserted, nw_payload_json = json (TrackUpsertedP \<lparr>tu_track = track, tu_routes = routes, tu_value_time_splits = vts\<rparr>),
       nw_subject_guid = tr_track_guid track, nw_created_at = now, nw_warnings = warnings\<rparr>"

section \<open>The events of a submission\<close>

text \<open>A push to the event list: the row but for its fresh id.\<close>

definition emit :: "bool \<Rightarrow> (string \<Rightarrow> new_event) \<Rightarrow> (string \<Rightarrow> new_event) list" where
  "emit b mk = (if b then [mk] else [])"

definition with_ids :: "(nat \<Rightarrow> string) \<Rightarrow> (string \<Rightarrow> new_event) list \<Rightarrow> new_event list" where
  "with_ids uuid mks = map (\<lambda>(i, mk). mk (uuid i)) (enumerate 0 mks)"

definition build_all_events ::
  "(event_payload \<Rightarrow> string) \<Rightarrow> feed_write \<Rightarrow> int \<Rightarrow> string list \<Rightarrow> (string \<Rightarrow> new_event) list" where
  "build_all_events json w now warnings =
     (let feed = fw_feed w; sorted_live_events = dedupe_and_sort_live_events (fw_live_events w) in
      emit True (build_feed_upserted_event json feed now warnings)
      @ emit (fw_feed_routes w \<noteq> []) (build_feed_routes_event json feed (fw_feed_routes w) now warnings)
      @ emit (fw_feed_list_values w \<noteq> []) (build_feed_list_value_event json feed (fw_feed_list_values w) now warnings)
      @ emit (fw_remote_items w \<noteq> []) (build_feed_remote_items_event json feed (fw_remote_items w) now warnings)
      @ emit (fw_source_contributor_claims w \<noteq> [])
          (build_source_contributor_claims_event json feed (fw_source_contributor_claims w) now warnings)
      @ emit (fw_source_entity_ids w \<noteq> []) (build_source_entity_ids_event json feed (fw_source_entity_ids w) now warnings)
      @ emit (fw_source_entity_links w \<noteq> [])
          (build_source_entity_links_event json feed (fw_source_entity_links w) now warnings)
      @ emit (fw_source_release_claims w \<noteq> [])
          (build_source_release_claims_event json feed (fw_source_release_claims w) now warnings)
      @ emit (fw_source_item_enclosures w \<noteq> [])
          (build_source_item_enclosures_event json feed (fw_source_item_enclosures w) now warnings)
      @ emit (fw_source_item_transcripts w \<noteq> [])
          (build_source_item_transcripts_event json feed (fw_source_item_transcripts w) now warnings)
      @ emit (fw_source_platform_claims w \<noteq> [])
          (build_source_platform_claims_event json feed (fw_source_platform_claims w) now warnings)
      @ emit (sorted_live_events \<noteq> []) (build_live_events_event json feed sorted_live_events now warnings)
      @ concat (map (\<lambda>(track, routes, vts, items).
          emit True (build_track_upserted_event json track routes vts now warnings)
          @ emit (items \<noteq> []) (build_track_remote_items_event json track items now warnings)) (fw_tracks w)))"

text \<open>\<^verbatim>\<open>existing\_map\<close>: a hash map of the stored tracks, where the last row of a GUID stays.\<close>

definition existing_track :: "db \<Rightarrow> string \<Rightarrow> string \<Rightarrow> track option" where
  "existing_track s feed_guid track_guid =
     map_of (rev (map (\<lambda>t. (tr_track_guid t, t)) (get_tracks_for_feed s feed_guid))) track_guid"

definition track_diff_events ::
  "(event_payload \<Rightarrow> string) \<Rightarrow> db \<Rightarrow> string \<Rightarrow> int \<Rightarrow> string list \<Rightarrow> track_ingest_bundle \<Rightarrow> (string \<Rightarrow> new_event) list" where
  "track_diff_events json s feed_guid now warnings bundle =
     (case bundle of (track, routes, vts, items) \<Rightarrow>
        let existing = existing_track s feed_guid (tr_track_guid track);
            existing_items = get_track_remote_items_for_feed_track s (tr_feed_guid track) (tr_track_guid track)
        in if (case existing of None \<Rightarrow> True | Some e \<Rightarrow> track_fields_changed e track)
           then emit True (build_track_upserted_event json track routes vts now warnings)
             @ emit (items \<noteq> [] \<or> (existing \<noteq> None \<and> existing_items \<noteq> []))
                 (build_track_remote_items_event json track items now warnings)
           else emit (track_remote_items_changed existing_items items)
                 (build_track_remote_items_event json track items now warnings))"

definition build_changed_events ::
  "(event_payload \<Rightarrow> string) \<Rightarrow> db \<Rightarrow> feed_write \<Rightarrow> int \<Rightarrow> string list \<Rightarrow> feed \<Rightarrow> (string \<Rightarrow> new_event) list" where
  "build_changed_events json s w now warnings existing_feed =
     (let feed = fw_feed w; g = fe_feed_guid feed;
          existing_live_events = List.sort_key le_live_item_guid (get_live_events_for_feed s g);
          sorted_live_events = dedupe_and_sort_live_events (fw_live_events w) in
      emit (feed_fields_changed existing_feed feed) (build_feed_upserted_event json feed now warnings)
      @ emit (feed_routes_changed (get_feed_payment_routes_for_feed s g) (fw_feed_routes w))
          (build_feed_routes_event json feed (fw_feed_routes w) now warnings)
      @ emit (feed_list_values_changed (get_feed_list_value_raw_for_feed s g) (fw_feed_list_values w))
          (build_feed_list_value_event json feed (fw_feed_list_values w) now warnings)
      @ emit (feed_remote_items_changed (get_feed_remote_items_for_feed s g) (fw_remote_items w))
          (build_feed_remote_items_event json feed (fw_remote_items w) now warnings)
      @ emit (source_contributor_claims_changed (get_source_contributor_claims_for_feed s g) (fw_source_contributor_claims w))
          (build_source_contributor_claims_event json feed (fw_source_contributor_claims w) now warnings)
      @ emit (source_entity_ids_changed (get_source_entity_ids_for_feed s g) (fw_source_entity_ids w))
          (build_source_entity_ids_event json feed (fw_source_entity_ids w) now warnings)
      @ emit (source_entity_links_changed (get_source_entity_links_for_feed s g) (fw_source_entity_links w))
          (build_source_entity_links_event json feed (fw_source_entity_links w) now warnings)
      @ emit (source_release_claims_changed (get_source_release_claims_for_feed s g) (fw_source_release_claims w))
          (build_source_release_claims_event json feed (fw_source_release_claims w) now warnings)
      @ emit (source_item_enclosures_changed (get_source_item_enclosures_for_feed s g) (fw_source_item_enclosures w))
          (build_source_item_enclosures_event json feed (fw_source_item_enclosures w) now warnings)
      @ emit (source_item_transcripts_changed (get_source_item_transcripts_for_feed s g) (fw_source_item_transcripts w))
          (build_source_item_transcripts_event json feed (fw_source_item_transcripts w) now warnings)
      @ emit (source_platform_claims_changed (get_source_platform_claims_for_feed s g) (fw_source_platform_claims w))
          (build_source_platform_claims_event json feed (fw_source_platform_claims w) now warnings)
      @ emit (live_events_changed existing_live_events sorted_live_events)
          (build_live_events_event json feed sorted_live_events now warnings)
      @ concat (map (track_diff_events json s g now warnings) (fw_tracks w)))"

definition build_diff_events ::
  "(event_payload \<Rightarrow> string) \<Rightarrow> (nat \<Rightarrow> string) \<Rightarrow> db \<Rightarrow> feed_write \<Rightarrow> int \<Rightarrow> string list \<Rightarrow> new_event list" where
  "build_diff_events json uuid s w now warnings = with_ids uuid
     (case get_feed_by_guid s (fe_feed_guid (fw_feed w)) of
        None \<Rightarrow> build_all_events json w now warnings
      | Some ef \<Rightarrow> build_changed_events json s w now warnings ef)"

section \<open>What is compared\<close>

text \<open>A row without the columns that its comparison does not read.\<close>

definition feed_content :: "feed \<Rightarrow> feed" where
  "feed_content r = r\<lparr>fe_feed_guid := [], fe_title_lower := [], fe_episode_count := 0, fe_newest_item_at := None, fe_oldest_item_at := None, fe_created_at := 0, fe_updated_at := 0, fe_last_build_date := None, fe_release_artist_source := None\<rparr>"

definition track_content :: "track \<Rightarrow> track" where
  "track_content r = r\<lparr>tr_track_guid := [], tr_feed_guid := [], tr_title_lower := [], tr_created_at := 0, tr_updated_at := 0\<rparr>"

definition feed_route_content :: "feed_payment_route \<Rightarrow> feed_payment_route" where
  "feed_route_content r = r\<lparr>fpr_id := None, fpr_feed_guid := []\<rparr>"

definition feed_list_value_content :: "feed_list_value_raw \<Rightarrow> feed_list_value_raw" where
  "feed_list_value_content r = r\<lparr>flv_id := None, flv_feed_guid := []\<rparr>"

definition feed_remote_item_content :: "feed_remote_item_raw \<Rightarrow> feed_remote_item_raw" where
  "feed_remote_item_content r = r\<lparr>fri_id := None, fri_feed_guid := []\<rparr>"

definition track_remote_item_content :: "track_remote_item_raw \<Rightarrow> track_remote_item_raw" where
  "track_remote_item_content r = r\<lparr>tri_id := None, tri_feed_guid := [], tri_track_guid := [], tri_rel := None\<rparr>"

definition live_event_content :: "live_event \<Rightarrow> live_event" where
  "live_event_content r = r\<lparr>le_feed_guid := [], le_created_at := 0, le_updated_at := 0\<rparr>"

definition contributor_claim_content :: "source_contributor_claim \<Rightarrow> source_contributor_claim" where
  "contributor_claim_content r = r\<lparr>scc_id := None, scc_role_norm := None, scc_observed_at := 0\<rparr>"

definition entity_id_content :: "source_entity_id_claim \<Rightarrow> source_entity_id_claim" where
  "entity_id_content r = r\<lparr>sei_id := None, sei_observed_at := 0\<rparr>"

definition entity_link_content :: "source_entity_link \<Rightarrow> source_entity_link" where
  "entity_link_content r = r\<lparr>sel_id := None, sel_observed_at := 0\<rparr>"

definition release_claim_content :: "source_release_claim \<Rightarrow> source_release_claim" where
  "release_claim_content r = r\<lparr>src_id := None, src_observed_at := 0\<rparr>"

definition item_enclosure_content :: "source_item_enclosure \<Rightarrow> source_item_enclosure" where
  "item_enclosure_content r = r\<lparr>sie_id := None, sie_observed_at := 0\<rparr>"

definition item_transcript_content :: "source_item_transcript \<Rightarrow> source_item_transcript" where
  "item_transcript_content r = r\<lparr>sit_id := None, sit_observed_at := 0\<rparr>"

definition platform_claim_content :: "source_platform_claim \<Rightarrow> source_platform_claim" where
  "platform_claim_content r = r\<lparr>spc_id := None, spc_observed_at := 0\<rparr>"

lemma rows_changed_iff:
  assumes "\<And>a b. differs a b \<longleftrightarrow> content a \<noteq> content b"
  shows "rows_changed differs xs ys \<longleftrightarrow> map content xs \<noteq> map content ys"
proof -
  have "length xs = length ys \<Longrightarrow> list_ex (\<lambda>(a, b). differs a b) (zip xs ys) \<longleftrightarrow> map content xs \<noteq> map content ys"
    by (induction xs ys rule: list_induct2) (auto simp: assms)
  then show ?thesis unfolding rows_changed_def by (metis length_map)
qed

lemma feed_fields_changed_iff: "feed_fields_changed a b \<longleftrightarrow> feed_content a \<noteq> feed_content b"
  by (cases a; cases b) (auto simp: feed_fields_changed_def feed_content_def)

lemma track_fields_changed_iff: "track_fields_changed a b \<longleftrightarrow> track_content a \<noteq> track_content b"
  by (cases a; cases b) (auto simp: track_fields_changed_def track_content_def)

lemma feed_routes_changed_iff: "feed_routes_changed xs ys \<longleftrightarrow> map feed_route_content xs \<noteq> map feed_route_content ys"
  unfolding feed_routes_changed_def
  by (rule rows_changed_iff, rename_tac a b, case_tac a, case_tac b) (auto simp: feed_route_content_def)

lemma feed_list_values_changed_iff: "feed_list_values_changed xs ys \<longleftrightarrow> map feed_list_value_content xs \<noteq> map feed_list_value_content ys"
  unfolding feed_list_values_changed_def
  by (rule rows_changed_iff, rename_tac a b, case_tac a, case_tac b) (auto simp: feed_list_value_content_def)

lemma feed_remote_items_changed_iff: "feed_remote_items_changed xs ys \<longleftrightarrow> map feed_remote_item_content xs \<noteq> map feed_remote_item_content ys"
  unfolding feed_remote_items_changed_def
  by (rule rows_changed_iff, rename_tac a b, case_tac a, case_tac b) (auto simp: feed_remote_item_content_def)

lemma track_remote_items_changed_iff: "track_remote_items_changed xs ys \<longleftrightarrow> map track_remote_item_content xs \<noteq> map track_remote_item_content ys"
  unfolding track_remote_items_changed_def
  by (rule rows_changed_iff, rename_tac a b, case_tac a, case_tac b) (auto simp: track_remote_item_content_def)

lemma live_events_changed_iff: "live_events_changed xs ys \<longleftrightarrow> map live_event_content xs \<noteq> map live_event_content ys"
  unfolding live_events_changed_def
  by (rule rows_changed_iff, rename_tac a b, case_tac a, case_tac b) (auto simp: live_event_content_def)

lemma source_contributor_claims_changed_iff: "source_contributor_claims_changed xs ys \<longleftrightarrow> map contributor_claim_content xs \<noteq> map contributor_claim_content ys"
  unfolding source_contributor_claims_changed_def
  by (rule rows_changed_iff, rename_tac a b, case_tac a, case_tac b) (auto simp: contributor_claim_content_def)

lemma source_entity_ids_changed_iff: "source_entity_ids_changed xs ys \<longleftrightarrow> map entity_id_content xs \<noteq> map entity_id_content ys"
  unfolding source_entity_ids_changed_def
  by (rule rows_changed_iff, rename_tac a b, case_tac a, case_tac b) (auto simp: entity_id_content_def)

lemma source_entity_links_changed_iff: "source_entity_links_changed xs ys \<longleftrightarrow> map entity_link_content xs \<noteq> map entity_link_content ys"
  unfolding source_entity_links_changed_def
  by (rule rows_changed_iff, rename_tac a b, case_tac a, case_tac b) (auto simp: entity_link_content_def)

lemma source_release_claims_changed_iff: "source_release_claims_changed xs ys \<longleftrightarrow> map release_claim_content xs \<noteq> map release_claim_content ys"
  unfolding source_release_claims_changed_def
  by (rule rows_changed_iff, rename_tac a b, case_tac a, case_tac b) (auto simp: release_claim_content_def)

lemma source_item_enclosures_changed_iff: "source_item_enclosures_changed xs ys \<longleftrightarrow> map item_enclosure_content xs \<noteq> map item_enclosure_content ys"
  unfolding source_item_enclosures_changed_def
  by (rule rows_changed_iff, rename_tac a b, case_tac a, case_tac b) (auto simp: item_enclosure_content_def)

lemma source_item_transcripts_changed_iff: "source_item_transcripts_changed xs ys \<longleftrightarrow> map item_transcript_content xs \<noteq> map item_transcript_content ys"
  unfolding source_item_transcripts_changed_def
  by (rule rows_changed_iff, rename_tac a b, case_tac a, case_tac b) (auto simp: item_transcript_content_def)

lemma source_platform_claims_changed_iff: "source_platform_claims_changed xs ys \<longleftrightarrow> map platform_claim_content xs \<noteq> map platform_claim_content ys"
  unfolding source_platform_claims_changed_def
  by (rule rows_changed_iff, rename_tac a b, case_tac a, case_tac b) (auto simp: platform_claim_content_def)

lemmas changed_iffs = feed_fields_changed_iff track_fields_changed_iff feed_routes_changed_iff
  feed_list_values_changed_iff
  feed_remote_items_changed_iff
  track_remote_items_changed_iff
  live_events_changed_iff
  source_contributor_claims_changed_iff
  source_entity_ids_changed_iff
  source_entity_links_changed_iff
  source_release_claims_changed_iff
  source_item_enclosures_changed_iff
  source_item_transcripts_changed_iff
  source_platform_claims_changed_iff

end
