(* ===== verification/IngestTx.thy ===== *)
theory IngestTx
  imports Diff Sync
begin

text \<open>
  \<^verbatim>\<open>ingest\_transaction\<close> of \<^verbatim>\<open>src/db.rs\<close>: one submission becomes rows, signed events and read models,
  in one transaction. The statements of the child tables are those of the \<^verbatim>\<open>replace\_*\<close> functions, so
  the model calls these; rows that were deduplicated once are unchanged by the second time. Rust
  visits the hash set of stored track GUIDs in an unspecified order, the parameter \<open>pm_hash_order\<close>.
\<close>

record primary =
  pm_env :: env
  pm_lc :: "string \<Rightarrow> string"
  pm_url_parse :: "string \<Rightarrow> url option"
  pm_crypto :: crypto
  pm_key :: string
  pm_json :: "event_payload \<Rightarrow> string"
  pm_hash_order :: "string list \<Rightarrow> string list"

section \<open>The transaction\<close>

definition get_existing_feed :: "db \<Rightarrow> string \<Rightarrow> feed option" where
  "get_existing_feed s feed_url = map_option feed.truncate (find (\<lambda>r. fe_feed_url r = feed_url) (t_feeds s))"

text \<open>A loop that collects what its calls return.\<close>

fun dcollect :: "('a \<Rightarrow> ('e, 'b) call) \<Rightarrow> 'a list \<Rightarrow> ('e, 'b list) call" where
  "dcollect f [] = dret []"
| "dcollect f (x # xs) = dbind (f x) (\<lambda>y. dbind (dcollect f xs) (\<lambda>ys. dret (y # ys)))"

text \<open>The \<^verbatim>\<open>let\<close> bindings before the transaction.\<close>

definition dedupe_write :: "feed_write \<Rightarrow> feed_write" where
  "dedupe_write w = w\<lparr>
     fw_source_contributor_claims := dedupe_source_contributor_claims (fw_source_contributor_claims w),
     fw_source_entity_ids := dedupe_source_entity_ids (fw_source_entity_ids w),
     fw_source_entity_links := dedupe_source_entity_links (fw_source_entity_links w),
     fw_source_release_claims := dedupe_source_release_claims (fw_source_release_claims w),
     fw_source_item_enclosures := dedupe_source_item_enclosures (fw_source_item_enclosures w),
     fw_source_item_transcripts := dedupe_source_item_transcripts (fw_source_item_transcripts w)\<rparr>"

definition ingest_feed_rows :: "primary \<Rightarrow> feed_write \<Rightarrow> unit dbm" where
  "ingest_feed_rows pm w = (let g = fe_feed_guid (fw_feed w) in
     dseq (upsert_feed (pm_lc pm) (pm_url_parse pm) (fw_feed w))
    (dseq (dexec (t_source_gone_answers_update (delete_where (\<lambda>r. sg_feed_guid r = g))))
    (dseq (dexec (t_retired_source_holds_update (delete_where (\<lambda>r. rsh_feed_guid r = pm_lc pm g))))
    (dseq (replace_feed_payment_routes g (fw_feed_routes w))
    (dseq (replace_feed_remote_items_raw g (fw_remote_items w))
    (dseq (replace_feed_list_value_raw g (fw_feed_list_values w))
          (replace_live_events_for_feed g (fw_live_events w))))))))"

definition ingest_source_claims :: "feed_write \<Rightarrow> unit dbm" where
  "ingest_source_claims w = (let g = fe_feed_guid (fw_feed w) in
     dseq (replace_source_contributor_claims_for_feed g (fw_source_contributor_claims w))
    (dseq (replace_source_entity_ids_for_feed g (fw_source_entity_ids w))
    (dseq (replace_source_entity_links_for_feed g (fw_source_entity_links w))
          (replace_source_release_claims_for_feed g (fw_source_release_claims w)))))"

definition ingest_source_items :: "feed_write \<Rightarrow> unit dbm" where
  "ingest_source_items w = (let g = fe_feed_guid (fw_feed w) in
     dseq (replace_source_item_enclosures_for_feed g (fw_source_item_enclosures w))
    (dseq (replace_source_item_transcripts_for_feed g (fw_source_item_transcripts w))
          (replace_source_platform_claims_for_feed g (fw_source_platform_claims w))))"

definition ingest_track :: "track_ingest_bundle \<Rightarrow> unit dbm" where
  "ingest_track bundle = (case bundle of (track, routes, splits, items) \<Rightarrow>
     let g = tr_feed_guid track; t = tr_track_guid track in
     dseq (upsert_track track)
    (dseq (replace_payment_routes_for_feed_track g t routes)
    (dseq (replace_value_time_splits_for_feed_track g t splits)
          (replace_track_remote_items_raw_for_feed_track g t items))))"

definition track_removed_event :: "primary \<Rightarrow> feed \<Rightarrow> string \<Rightarrow> string \<Rightarrow> new_event" where
  "track_removed_event pm feed removed_guid event_id =
     \<lparr>nw_event_id = event_id, nw_event_type = TrackRemoved,
       nw_payload_json = pm_json pm (TrackRemovedP \<lparr>trm_track_guid = removed_guid, trm_feed_guid = fe_feed_guid feed\<rparr>),
       nw_subject_guid = removed_guid, nw_created_at = fe_updated_at feed, nw_warnings = []\<rparr>"

definition remove_stale_track :: "primary \<Rightarrow> feed \<Rightarrow> string \<Rightarrow> (string \<Rightarrow> new_event) dbm" where
  "remove_stale_track pm feed removed_guid =
     dbind (dread (\<lambda>s. get_track_for_feed s (fe_feed_guid feed) removed_guid)) (\<lambda>track_opt.
     dseq (if track_opt \<noteq> None then dexec (delete_track_sql (pm_env pm) (fe_feed_guid feed) removed_guid) else dret ())
          (dret (track_removed_event pm feed removed_guid)))"

definition stale_guids :: "primary \<Rightarrow> feed_write \<Rightarrow> string list \<Rightarrow> string list" where
  "stale_guids pm w existing_guids =
     filter (\<lambda>t. t \<notin> set (map (\<lambda>b. tr_track_guid (fst b)) (fw_tracks w))) (pm_hash_order pm (remdups existing_guids))"

definition insert_new_event :: "primary \<Rightarrow> new_event \<Rightarrow> (int \<times> string \<times> string) dbm" where
  "insert_new_event pm er = insert_event (pm_crypto pm) (pm_key pm) (nw_event_id er) (nw_event_type er)
     (nw_payload_json er) (nw_subject_guid er) (nw_created_at er) (nw_warnings er)"

definition ingest_body ::
  "primary \<Rightarrow> (nat \<Rightarrow> string) \<Rightarrow> int \<Rightarrow> feed_write \<Rightarrow> new_event list \<Rightarrow> feed_move_write option
   \<Rightarrow> (int \<times> string \<times> string) list dbm" where
  "ingest_body pm uuid now w event_rows feed_move = (let g = fe_feed_guid (fw_feed w) in
     dseq (ingest_feed_rows pm w)
    (dseq (ingest_source_claims w)
    (dseq (ingest_source_items w)
    (dbind (dread (\<lambda>s. map tr_track_guid (get_tracks_for_feed s g))) (\<lambda>existing_guids.
     dseq (dforeach ingest_track (fw_tracks w))
    (dbind (dcollect (remove_stale_track pm (fw_feed w)) (stale_guids pm w existing_guids)) (\<lambda>removals.
     dbind (dcollect (insert_new_event pm) (event_rows @ with_ids uuid removals)) (\<lambda>seqs.
     dseq (sync_source_read_models_for_feed (pm_env pm) now g)
    (dseq (case feed_move of None \<Rightarrow> dret () | Some mv \<Rightarrow> dexec (write_feed_move g mv))
          (dret seqs))))))))))"

definition ingest_transaction ::
  "primary \<Rightarrow> (nat \<Rightarrow> string) \<Rightarrow> int \<Rightarrow> feed_write \<Rightarrow> new_event list \<Rightarrow> feed_move_write option
   \<Rightarrow> (int \<times> string \<times> string) list dbm" where
  "ingest_transaction pm uuid now w event_rows feed_move =
     dtransaction (ingest_body pm uuid now (dedupe_write w) event_rows feed_move)"

section \<open>The class of a submission\<close>

datatype submission_class =
    RecordConflict
  | GuidChange string
  | Update
  | Mirror string
  | NewFeed

definition classify_submission :: "db \<Rightarrow> string \<Rightarrow> string \<Rightarrow> string \<Rightarrow> submission_class" where
  "classify_submission s feed_guid source_url canonical_url =
     (let held_url = map_option fe_feed_url (lookup_by fe_feed_guid (t_feeds s) feed_guid);
          conflicting_guid = map_option fe_feed_guid
            (find (\<lambda>r. (fe_feed_url r = source_url \<or> fe_feed_url r = canonical_url) \<and> fe_feed_guid r \<noteq> feed_guid) (t_feeds s))
      in case conflicting_guid of
           Some held_guid \<Rightarrow> if held_url \<noteq> None then RecordConflict else GuidChange held_guid
         | None \<Rightarrow> (case held_url of
               Some url \<Rightarrow> if url = source_url \<or> url = canonical_url then Update else Mirror url
             | None \<Rightarrow> NewFeed))"

end
