(* ===== verification/Frames.thy ===== *)
theory Frames
  imports IngestTx
begin

text \<open>
  What the statements of an ingest and of an applied event leave alone: each call keeps every
  property of the store that the updates of its own tables do not change. The rules serve the
  \<open>keeps\<close> proofs of the ingest and of its replication.
\<close>

named_theorems frame_intros \<open>frame rules of database calls\<close>

lemma frame_replace [frame_intros]:
  "(\<And>f s. P (t_payment_routes_update f s) = P s) \<Longrightarrow> keeps P (replace_payment_routes t prs)"
  "(\<And>f s. P (t_payment_routes_update f s) = P s) \<Longrightarrow> keeps P (replace_payment_routes_for_feed_track g t prs)"
  "(\<And>f s. P (t_feed_payment_routes_update f s) = P s) \<Longrightarrow> keeps P (replace_feed_payment_routes g fprs)"
  "(\<And>f s. P (t_feed_list_value_raw_update f s) = P s) \<Longrightarrow> keeps P (replace_feed_list_value_raw g flvs)"
  "(\<And>f s. P (t_feed_remote_items_raw_update f s) = P s) \<Longrightarrow> keeps P (replace_feed_remote_items_raw g fris)"
  "(\<And>f s. P (t_track_remote_items_raw_update f s) = P s) \<Longrightarrow> keeps P (replace_track_remote_items_raw t tris)"
  "(\<And>f s. P (t_track_remote_items_raw_update f s) = P s) \<Longrightarrow> keeps P (replace_track_remote_items_raw_for_feed_track g t tris)"
  "(\<And>f s. P (t_live_events_update f s) = P s) \<Longrightarrow> keeps P (replace_live_events_for_feed g les)"
  "(\<And>f s. P (t_source_contributor_claims_update f s) = P s) \<Longrightarrow> keeps P (replace_source_contributor_claims_for_feed g sccs)"
  "(\<And>f s. P (t_source_entity_ids_update f s) = P s) \<Longrightarrow> keeps P (replace_source_entity_ids_for_feed g seis)"
  "(\<And>f s. P (t_source_entity_links_update f s) = P s) \<Longrightarrow> keeps P (replace_source_entity_links_for_feed g sels)"
  "(\<And>f s. P (t_source_release_claims_update f s) = P s) \<Longrightarrow> keeps P (replace_source_release_claims_for_feed g srcs)"
  "(\<And>f s. P (t_source_item_enclosures_update f s) = P s) \<Longrightarrow> keeps P (replace_source_item_enclosures_for_feed g sies)"
  "(\<And>f s. P (t_source_item_transcripts_update f s) = P s) \<Longrightarrow> keeps P (replace_source_item_transcripts_for_feed g sits)"
  "(\<And>f s. P (t_source_platform_claims_update f s) = P s) \<Longrightarrow> keeps P (replace_source_platform_claims_for_feed g spcs)"
  unfolding replace_payment_routes_def replace_payment_routes_for_feed_track_def replace_feed_payment_routes_def
    replace_feed_list_value_raw_def replace_feed_remote_items_raw_def replace_track_remote_items_raw_def
    replace_track_remote_items_raw_for_feed_track_def replace_live_events_for_feed_def
    replace_source_contributor_claims_for_feed_def replace_source_entity_ids_for_feed_def
    replace_source_entity_links_for_feed_def replace_source_release_claims_for_feed_def
    replace_source_item_enclosures_for_feed_def replace_source_item_transcripts_for_feed_def
    replace_source_platform_claims_for_feed_def
  by (rule pr.replace_frame fpr.replace_frame flv.replace_frame fri.replace_frame tri.replace_frame
      le.replace_frame scc.replace_frame sei.replace_frame sel.replace_frame srcl.replace_frame
      sie.replace_frame sit.replace_frame spc.replace_frame, assumption)+

lemma frame_value_time_splits [frame_intros]:
  "(\<And>f s. P (t_value_time_splits_update f s) = P s) \<Longrightarrow> keeps P (replace_value_time_splits_for_feed_track g t vs)"
  unfolding replace_value_time_splits_for_feed_track_def insert_value_time_split_def insert_vts_recipient_def insert_row_def
  by (intro keeps_intros) simp_all

lemma frame_upserts [frame_intros]:
  "(\<And>f s. P (t_feeds_update f s) = P s) \<Longrightarrow> keeps P (upsert_feed lc up fd)"
  "(\<And>f s. P (t_tracks_update f s) = P s) \<Longrightarrow> keeps P (upsert_track tr)"
proof -
  show "keeps P (upsert_feed lc up fd)" if p: "\<And>f s. P (t_feeds_update f s) = P s"
  proof -
    have "P (s\<lparr>t_feeds := x\<rparr>) = P s" for x s using p [of "\<lambda>_. x" s] by simp
    then show ?thesis unfolding upsert_feed_def by (intro keeps_dstmt) simp
  qed
  show "keeps P (upsert_track tr)" if p: "\<And>f s. P (t_tracks_update f s) = P s"
  proof -
    have "P (s\<lparr>t_tracks := x\<rparr>) = P s" for x s using p [of "\<lambda>_. x" s] by simp
    then show ?thesis unfolding upsert_track_def by (intro keeps_dstmt) simp
  qed
qed

lemma frame_sync [frame_intros]:
  assumes p: "\<And>f s. P (t_search_index_update f s) = P s" "\<And>f s. P (t_search_entities_update f s) = P s"
    "\<And>f s. P (t_entity_quality_update f s) = P s"
  shows "keeps P (sync_source_read_models_for_feed env now g)"
proof -
  have c: "P (s\<lparr>t_search_index := a\<rparr>) = P s" "P (s\<lparr>t_search_entities := b\<rparr>) = P s" "P (s\<lparr>t_entity_quality := d\<rparr>) = P s" for a b d s
    using p(1) [of "\<lambda>_. a" s] p(2) [of "\<lambda>_. b" s] p(3) [of "\<lambda>_. d" s] by simp_all
  have del: "P (delete_from_search_index env t e s) = P s" for t e s
    by (simp add: delete_from_search_index_def Let_def p c)
  have pop: "keeps P (populate_search_index env t e n ti d)" for t e n ti d
    unfolding populate_search_index_def Let_def by (intro keeps_intros) (simp_all add: p c)
  have tr: "keeps P (sync_track_read_model env now b t)" for b t
    unfolding sync_track_read_model_def Let_def
    by (intro keeps_intros pop) (simp_all add: del store_quality_def p c)
  have fe: "keeps P (sync_feed_index_row env f t b)" for f t b
    unfolding sync_feed_index_row_def by (intro keeps_intros pop) (simp add: del)
  show ?thesis
    unfolding sync_source_read_models_for_feed_def
    by (intro keeps_intros tr fe) (simp add: store_quality_def p c)
qed

lemma frame_insert_event [frame_intros]:
  assumes p: "\<And>f s. P (t_events_update f s) = P s"
  shows "keeps P (insert_event c key i et pj sg ca ws)"
proof -
  have "P (s\<lparr>t_events := x\<rparr>) = P s" for x s using p [of "\<lambda>_. x" s] by simp
  then show ?thesis
    unfolding insert_event_def update_event_signature_def Let_def
    by (auto intro!: keeps_intros split: prod.split)
qed

lemma keeps_dcollect [keeps_intros]:
  "(\<And>x. x \<in> set xs \<Longrightarrow> keeps P (f x)) \<Longrightarrow> keeps P (dcollect f xs)"
  by (induction xs) (auto intro!: keeps_intros)

text \<open>A read that a call keeps has the same value after it.\<close>

lemma keeps_read:
  assumes "\<And>c. keeps (\<lambda>s. get s = c) m" "m s = (r, s')"
  shows "get s' = get s"
  using keepsD [OF assms(1) [of "get s"], of s] assms(2) by simp

section \<open>A new event of the primary\<close>

text \<open>The row that \<open>insert_event\<close> leaves, signed over its number.\<close>

definition signed_row :: "primary \<Rightarrow> new_event \<Rightarrow> int \<Rightarrow> event_row" where
  "signed_row pm er n =
     (let sig = sign_event (pm_crypto pm) (pm_key pm) (nw_event_id er) (nw_event_type er) (nw_payload_json er)
                  (nw_subject_guid er) (nw_created_at er) n in
      \<lparr>er_event_id = nw_event_id er, er_event_type = nw_event_type er, er_payload_json = nw_payload_json er,
        er_subject_guid = nw_subject_guid er, er_signed_by = fst sig, er_signature = snd sig, er_seq = n,
        er_created_at = nw_created_at er, er_warnings = nw_warnings er\<rparr>)"

lemma signed_row_fields [simp]:
  "er_event_id (signed_row pm er n) = nw_event_id er" "er_seq (signed_row pm er n) = n"
  "er_event_type (signed_row pm er n) = nw_event_type er" "er_payload_json (signed_row pm er n) = nw_payload_json er"
  "er_created_at (signed_row pm er n) = nw_created_at er" "er_subject_guid (signed_row pm er n) = nw_subject_guid er"
  by (simp_all add: signed_row_def Let_def)

lemma insert_new_event_ok:
  assumes "\<not> event_id_taken (nw_event_id er) s"
  shows "insert_new_event pm er s =
    (Inr (next_seq s, er_signed_by (signed_row pm er (next_seq s)), er_signature (signed_row pm er (next_seq s))),
     s\<lparr>t_events := t_events s @ [signed_row pm er (next_seq s)]\<rparr>)"
proof -
  have "update_where (\<lambda>r. er_event_id r = nw_event_id er) f (t_events s) = t_events s" for f
    using assms by (auto simp: update_where_def event_id_taken_iff image_iff intro!: map_idI)
  then show ?thesis
    using assms
    by (auto simp: insert_new_event_def insert_event_def dbind_def dseq_def dread_def dstmt_def dexec_def dret_def Let_def
        constraints_def update_event_signature_def update_where_def prod.case_eq_if signed_row_def)
qed

lemma insert_new_event_error:
  "event_id_taken (nw_event_id er) s \<Longrightarrow> insert_new_event pm er s = (Inl UNIQUE_FAILED, s)"
  by (simp add: insert_new_event_def insert_event_error)

lemma log_index_append:
  assumes "log_index_ok env s" "\<not> event_id_taken (er_event_id r) s" "er_seq r = next_seq s"
  shows "log_index_ok env (s\<lparr>t_events := t_events s @ [r]\<rparr>)"
  using assms events_ok_append [of s r] by (simp add: log_index_ok_def index_ok_def)

lemma keeps_insert_new_event [keeps_intros]:
  "keeps refs_ok (insert_new_event pm er)"
  "keeps (log_index_ok env) (insert_new_event pm er)"
proof -
  show "keeps refs_ok (insert_new_event pm er)"
    unfolding insert_new_event_def by (rule frame_insert_event) simp
  have "log_index_ok env (snd (insert_new_event pm er s))" if "log_index_ok env s" for s
    using that log_index_append [of env s "signed_row pm er (next_seq s)"]
    by (cases "event_id_taken (nw_event_id er) s") (simp_all add: insert_new_event_ok insert_new_event_error)
  then show "keeps (log_index_ok env) (insert_new_event pm er)" by (simp add: keeps_def)
qed

section \<open>What a call that succeeds establishes\<close>

definition ensures :: "(db \<Rightarrow> bool) \<Rightarrow> ('e, 'a) call \<Rightarrow> (db \<Rightarrow> bool) \<Rightarrow> bool" where
  "ensures P m Q \<longleftrightarrow> (\<forall>s x s'. P s \<longrightarrow> m s = (Inr x, s') \<longrightarrow> Q s')"

lemma ensuresD: "ensures P m Q \<Longrightarrow> m s = (Inr x, s') \<Longrightarrow> P s \<Longrightarrow> Q s'"
  by (simp add: ensures_def)

lemma keeps_ensures: "keeps P m \<Longrightarrow> ensures P m P"
  unfolding ensures_def by (metis keepsD snd_conv)

lemma ensures_bind: "ensures P m R \<Longrightarrow> (\<And>x. ensures R (f x) Q) \<Longrightarrow> ensures P (dbind m f) Q"
  by (auto simp: ensures_def dbind_Inr)

lemma ensures_seq: "ensures P m R \<Longrightarrow> ensures R n Q \<Longrightarrow> ensures P (dseq m n) Q"
  unfolding dseq_def by (rule ensures_bind)

text \<open>The statement that establishes the claim is the first one, or a later one.\<close>

lemma ensures_here: "ensures P m Q \<Longrightarrow> keeps Q n \<Longrightarrow> ensures P (dseq m n) Q"
  by (rule ensures_seq [OF _ keeps_ensures])

lemma ensures_later: "keeps P m \<Longrightarrow> ensures P n Q \<Longrightarrow> ensures P (dseq m n) Q"
  by (rule ensures_seq [OF keeps_ensures])

lemma ensures_bind_later: "keeps P m \<Longrightarrow> (\<And>x. ensures P (f x) Q) \<Longrightarrow> ensures P (dbind m f) Q"
  by (rule ensures_bind [OF keeps_ensures])

lemma ensures_transaction: "ensures P m Q \<Longrightarrow> ensures P (dtransaction m) Q"
  by (auto simp: ensures_def dtransaction_def split: prod.splits sum.splits)

lemma ensures_conj: "ensures P m Q \<Longrightarrow> ensures P m R \<Longrightarrow> ensures P m (\<lambda>s. Q s \<and> R s)"
  by (simp add: ensures_def)

lemma ensures_weaken: "ensures P m Q \<Longrightarrow> (\<And>s. P' s \<Longrightarrow> P s) \<Longrightarrow> (\<And>s. Q s \<Longrightarrow> Q' s) \<Longrightarrow> ensures P' m Q'"
  unfolding ensures_def by blast

end
