(* ===== verification/Written.thy ===== *)
theory Written
  imports Frames Delivery
begin

text \<open>
  The rows of one ingest transaction: it keeps the store well formed, and the child rows of the feed
  are afterwards the submitted ones as the store keeps and reads them.
\<close>

section \<open>The store stays well formed\<close>

lemma ingest_tables_frame [simp]:
  "refs_ok (t_retired_source_holds_update f s) = refs_ok s"
  "log_index_ok env (t_retired_source_holds_update f s) = log_index_ok env s"
  "log_index_ok env (t_source_gone_answers_update h s) = log_index_ok env s"
  "refs_ok (write_feed_move g mv s) = refs_ok s"
  "log_index_ok env (write_feed_move g mv s) = log_index_ok env s"
  by (simp_all add: frame_defs log_defs write_feed_move_def Let_def add_left_url_def remove_left_url_def split: option.split)

lemma refs_ok_gone: "refs_ok s \<Longrightarrow> refs_ok (t_source_gone_answers_update (delete_where p) s)"
  by (auto simp: frame_defs list_all_iff delete_where_def keys_distinct_filter)

lemma keeps_remove_stale [keeps_intros]:
  "keeps refs_ok (remove_stale_track pm f t)"
  "keeps (log_index_ok (pm_env pm)) (remove_stale_track pm f t)"
  unfolding remove_stale_track_def
  by (intro keeps_intros; simp add: delete_track_refs_ok log_index_deletes)+

lemma keeps_ingest_track [keeps_intros]:
  "keeps refs_ok (ingest_track b)"
  "keeps (log_index_ok env) (ingest_track b)"
  unfolding ingest_track_def Let_def
  by (cases b; auto intro!: keeps_intros)+

lemma keeps_ingest:
  "keeps refs_ok (ingest_transaction pm uuid now w rows mv)"
  "keeps (log_index_ok (pm_env pm)) (ingest_transaction pm uuid now w rows mv)"
  unfolding ingest_transaction_def ingest_body_def ingest_feed_rows_def ingest_source_claims_def
    ingest_source_items_def Let_def
  by (intro keeps_intros; simp add: refs_ok_gone)+

section \<open>The rows of a submission\<close>

text \<open>
  The child rows of a feed as they are read, and the rows of a submission as they should be read
  back: stored, the first of each key, in the order of the reads.
\<close>

record feed_rows =
  rw_routes :: "feed_payment_route list"
  rw_list_values :: "feed_list_value_raw list"
  rw_remote_items :: "feed_remote_item_raw list"
  rw_live_events :: "live_event list"
  rw_contributor_claims :: "source_contributor_claim list"
  rw_entity_ids :: "source_entity_id_claim list"
  rw_entity_links :: "source_entity_link list"
  rw_release_claims :: "source_release_claim list"
  rw_item_enclosures :: "source_item_enclosure list"
  rw_item_transcripts :: "source_item_transcript list"
  rw_platform_claims :: "source_platform_claim list"

definition stored_rows :: "db \<Rightarrow> string \<Rightarrow> feed_rows" where
  "stored_rows s g = \<lparr>rw_routes = get_feed_payment_routes_for_feed s g,
     rw_list_values = get_feed_list_value_raw_for_feed s g,
     rw_remote_items = get_feed_remote_items_for_feed s g,
     rw_live_events = get_live_events_for_feed s g,
     rw_contributor_claims = get_source_contributor_claims_for_feed s g,
     rw_entity_ids = get_source_entity_ids_for_feed s g,
     rw_entity_links = get_source_entity_links_for_feed s g,
     rw_release_claims = get_source_release_claims_for_feed s g,
     rw_item_enclosures = get_source_item_enclosures_for_feed s g,
     rw_item_transcripts = get_source_item_transcripts_for_feed s g,
     rw_platform_claims = get_source_platform_claims_for_feed s g\<rparr>"

definition written_rows :: "feed_write \<Rightarrow> feed_rows" where
  "written_rows w = \<lparr>rw_routes = map stored_feed_payment_route (fw_feed_routes w),
     rw_list_values = List.sort_key flv_position (map stored_feed_list_value (fw_feed_list_values w)),
     rw_remote_items = List.sort_key fri_position (map (\<lambda>r. r\<lparr>fri_id := None\<rparr>) (fw_remote_items w)),
     rw_live_events = List.sort_key (\<lambda>r. (case le_scheduled_start r of None \<Rightarrow> le_created_at r | Some t \<Rightarrow> t, le_live_item_guid r)) (dedupe_live_events (fw_live_events w)),
     rw_contributor_claims = List.sort_key (\<lambda>r. (scc_entity_type r, scc_entity_id r, scc_position r)) (map (\<lambda>r. r\<lparr>scc_id := None\<rparr>) (dedupe_source_contributor_claims (fw_source_contributor_claims w))),
     rw_entity_ids = List.sort_key (\<lambda>r. (sei_entity_type r, sei_entity_id r, sei_position r, sei_scheme r, sei_value r)) (map (\<lambda>r. r\<lparr>sei_id := None\<rparr>) (dedupe_source_entity_ids (fw_source_entity_ids w))),
     rw_entity_links = List.sort_key (\<lambda>r. (sel_entity_type r, sel_entity_id r, sel_position r, sel_link_type r, sel_url r)) (map (\<lambda>r. r\<lparr>sel_id := None\<rparr>) (dedupe_source_entity_links (fw_source_entity_links w))),
     rw_release_claims = List.sort_key (\<lambda>r. (src_entity_type r, src_entity_id r, src_claim_type r, src_position r)) (map (\<lambda>r. r\<lparr>src_id := None\<rparr>) (dedupe_source_release_claims (fw_source_release_claims w))),
     rw_item_enclosures = List.sort_key (\<lambda>r. (sie_entity_type r, sie_entity_id r, sie_position r, sie_url r)) (map (\<lambda>r. r\<lparr>sie_id := None\<rparr>) (dedupe_source_item_enclosures (fw_source_item_enclosures w))),
     rw_item_transcripts = List.sort_key (\<lambda>r. (sit_entity_type r, sit_entity_id r, sit_position r, sit_url r)) (map (\<lambda>r. r\<lparr>sit_id := None\<rparr>) (dedupe_source_item_transcripts (fw_source_item_transcripts w))),
     rw_platform_claims = List.sort_key (\<lambda>r. (spc_platform_key r, spc_extraction_path r, spc_url r, spc_owner_name r)) (map (\<lambda>r. r\<lparr>spc_id := None\<rparr>) (fw_source_platform_claims w))\<rparr>"

text \<open>Every row of a submission names its feed.\<close>

definition rows_of_feed :: "feed_write \<Rightarrow> bool" where
  "rows_of_feed w \<longleftrightarrow> (let g = fe_feed_guid (fw_feed w) in
     list_all (\<lambda>r. fpr_feed_guid r = g) (fw_feed_routes w)
     \<and> list_all (\<lambda>r. flv_feed_guid r = g) (fw_feed_list_values w)
     \<and> list_all (\<lambda>r. fri_feed_guid r = g) (fw_remote_items w)
     \<and> list_all (\<lambda>r. le_feed_guid r = g) (fw_live_events w)
     \<and> list_all (\<lambda>r. scc_feed_guid r = g) (fw_source_contributor_claims w)
     \<and> list_all (\<lambda>r. sei_feed_guid r = g) (fw_source_entity_ids w)
     \<and> list_all (\<lambda>r. sel_feed_guid r = g) (fw_source_entity_links w)
     \<and> list_all (\<lambda>r. src_feed_guid r = g) (fw_source_release_claims w)
     \<and> list_all (\<lambda>r. sie_feed_guid r = g) (fw_source_item_enclosures w)
     \<and> list_all (\<lambda>r. sit_feed_guid r = g) (fw_source_item_transcripts w)
     \<and> list_all (\<lambda>r. spc_feed_guid r = g) (fw_source_platform_claims w)
     \<and> list_all (\<lambda>b. tr_feed_guid (fst b) = g) (fw_tracks w))"

lemma ensures_routes:
  assumes "list_all (\<lambda>r. fpr_feed_guid r = g) xs"
  shows "ensures refs_ok (replace_feed_payment_routes g xs) (\<lambda>s. get_feed_payment_routes_for_feed s g = map stored_feed_payment_route xs)"
proof -
  have own: "list_all (\<lambda>r. fpr_feed_guid r = g) (map stored_feed_payment_route xs)"
    using assms by (auto simp: list_all_iff stored_feed_payment_route_def)
  have "filter (\<lambda>r. fpr_feed_guid r = g) (t_feed_payment_routes s') = map stored_feed_payment_route xs"
    if "refs_ok s" "replace_feed_payment_routes g xs s = (Inr x, s')" for s x s'
    using fpr.replace_reads(1) [OF _ _ own, of s s'] that
    by (simp add: replace_feed_payment_routes_def refs_ok_def feed_children_ok_def table_ok_def)
  then show ?thesis by (simp add: ensures_def get_feed_payment_routes_for_feed_def)
qed

lemma ensures_list_values:
  assumes "list_all (\<lambda>r. flv_feed_guid r = g) xs"
  shows "ensures refs_ok (replace_feed_list_value_raw g xs) (\<lambda>s. get_feed_list_value_raw_for_feed s g = List.sort_key flv_position (map stored_feed_list_value xs))"
proof -
  have own: "list_all (\<lambda>r. flv_feed_guid r = g) (map stored_feed_list_value xs)"
    using assms by (auto simp: list_all_iff stored_feed_list_value_def)
  have "filter (\<lambda>r. flv_feed_guid r = g) (t_feed_list_value_raw s') = map stored_feed_list_value xs"
    if "refs_ok s" "replace_feed_list_value_raw g xs s = (Inr x, s')" for s x s'
    using flv.replace_reads(1) [OF _ _ own, of s s'] that
    by (simp add: replace_feed_list_value_raw_def refs_ok_def feed_children_ok_def table_ok_def)
  then show ?thesis by (simp add: ensures_def get_feed_list_value_raw_for_feed_def)
qed

lemma ensures_remote_items:
  assumes "list_all (\<lambda>r. fri_feed_guid r = g) xs"
  shows "ensures refs_ok (replace_feed_remote_items_raw g xs) (\<lambda>s. get_feed_remote_items_for_feed s g = List.sort_key fri_position (map (\<lambda>r. r\<lparr>fri_id := None\<rparr>) xs))"
proof -
  have own: "list_all (\<lambda>r. fri_feed_guid r = g) (map (\<lambda>r. r\<lparr>fri_id := None\<rparr>) xs)"
    using assms by (auto simp: list_all_iff)
  have "filter (\<lambda>r. fri_feed_guid r = g) (t_feed_remote_items_raw s') = map (\<lambda>r. r\<lparr>fri_id := None\<rparr>) xs"
    if "refs_ok s" "replace_feed_remote_items_raw g xs s = (Inr x, s')" for s x s'
    using fri.replace_reads(1) [OF _ _ own, of s s'] that
    by (simp add: replace_feed_remote_items_raw_def refs_ok_def feed_children_ok_def table_ok_def)
  then show ?thesis by (simp add: ensures_def get_feed_remote_items_for_feed_def)
qed

lemma ensures_live_events:
  assumes "list_all (\<lambda>r. le_feed_guid r = g) xs"
  shows "ensures refs_ok (replace_live_events_for_feed g xs) (\<lambda>s. get_live_events_for_feed s g = List.sort_key (\<lambda>r. (case le_scheduled_start r of None \<Rightarrow> le_created_at r | Some t \<Rightarrow> t, le_live_item_guid r)) (dedupe_live_events xs))"
proof -
  have own: "list_all (\<lambda>r. le_feed_guid r = g) (dedupe_live_events xs)"
    using assms dlive.dedupe_subset [of xs] by (auto simp: list_all_iff)
  have "filter (\<lambda>r. le_feed_guid r = g) (t_live_events s') = dedupe_live_events xs"
    if "refs_ok s" "replace_live_events_for_feed g xs s = (Inr x, s')" for s x s'
    using le.replace_reads(1) [OF _ _ own, of s s'] that
    by (simp add: replace_live_events_for_feed_def refs_ok_def feed_children_ok_def table_ok_def)
  then show ?thesis by (simp add: ensures_def get_live_events_for_feed_def)
qed

lemma ensures_contributor_claims:
  assumes "list_all (\<lambda>r. scc_feed_guid r = g) xs"
  shows "ensures refs_ok (replace_source_contributor_claims_for_feed g xs) (\<lambda>s. get_source_contributor_claims_for_feed s g = List.sort_key (\<lambda>r. (scc_entity_type r, scc_entity_id r, scc_position r)) (map (\<lambda>r. r\<lparr>scc_id := None\<rparr>) (dedupe_source_contributor_claims xs)))"
proof -
  have own: "list_all (\<lambda>r. scc_feed_guid r = g) (map (\<lambda>r. r\<lparr>scc_id := None\<rparr>) (dedupe_source_contributor_claims xs))"
    using assms dcontrib.dedupe_subset [of xs] by (auto simp: list_all_iff)
  have "filter (\<lambda>r. scc_feed_guid r = g) (t_source_contributor_claims s') = map (\<lambda>r. r\<lparr>scc_id := None\<rparr>) (dedupe_source_contributor_claims xs)"
    if "refs_ok s" "replace_source_contributor_claims_for_feed g xs s = (Inr x, s')" for s x s'
    using scc.replace_reads(1) [OF _ _ own, of s s'] that
    by (simp add: replace_source_contributor_claims_for_feed_def refs_ok_def feed_children_ok_def table_ok_def)
  then show ?thesis by (simp add: ensures_def get_source_contributor_claims_for_feed_def)
qed

lemma ensures_entity_ids:
  assumes "list_all (\<lambda>r. sei_feed_guid r = g) xs"
  shows "ensures refs_ok (replace_source_entity_ids_for_feed g xs) (\<lambda>s. get_source_entity_ids_for_feed s g = List.sort_key (\<lambda>r. (sei_entity_type r, sei_entity_id r, sei_position r, sei_scheme r, sei_value r)) (map (\<lambda>r. r\<lparr>sei_id := None\<rparr>) (dedupe_source_entity_ids xs)))"
proof -
  have own: "list_all (\<lambda>r. sei_feed_guid r = g) (map (\<lambda>r. r\<lparr>sei_id := None\<rparr>) (dedupe_source_entity_ids xs))"
    using assms dids.dedupe_subset [of xs] by (auto simp: list_all_iff)
  have "filter (\<lambda>r. sei_feed_guid r = g) (t_source_entity_ids s') = map (\<lambda>r. r\<lparr>sei_id := None\<rparr>) (dedupe_source_entity_ids xs)"
    if "refs_ok s" "replace_source_entity_ids_for_feed g xs s = (Inr x, s')" for s x s'
    using sei.replace_reads(1) [OF _ _ own, of s s'] that
    by (simp add: replace_source_entity_ids_for_feed_def refs_ok_def feed_children_ok_def table_ok_def)
  then show ?thesis by (simp add: ensures_def get_source_entity_ids_for_feed_def)
qed

lemma ensures_entity_links:
  assumes "list_all (\<lambda>r. sel_feed_guid r = g) xs"
  shows "ensures refs_ok (replace_source_entity_links_for_feed g xs) (\<lambda>s. get_source_entity_links_for_feed s g = List.sort_key (\<lambda>r. (sel_entity_type r, sel_entity_id r, sel_position r, sel_link_type r, sel_url r)) (map (\<lambda>r. r\<lparr>sel_id := None\<rparr>) (dedupe_source_entity_links xs)))"
proof -
  have own: "list_all (\<lambda>r. sel_feed_guid r = g) (map (\<lambda>r. r\<lparr>sel_id := None\<rparr>) (dedupe_source_entity_links xs))"
    using assms dlinks.dedupe_subset [of xs] by (auto simp: list_all_iff)
  have "filter (\<lambda>r. sel_feed_guid r = g) (t_source_entity_links s') = map (\<lambda>r. r\<lparr>sel_id := None\<rparr>) (dedupe_source_entity_links xs)"
    if "refs_ok s" "replace_source_entity_links_for_feed g xs s = (Inr x, s')" for s x s'
    using sel.replace_reads(1) [OF _ _ own, of s s'] that
    by (simp add: replace_source_entity_links_for_feed_def refs_ok_def feed_children_ok_def table_ok_def)
  then show ?thesis by (simp add: ensures_def get_source_entity_links_for_feed_def)
qed

lemma ensures_release_claims:
  assumes "list_all (\<lambda>r. src_feed_guid r = g) xs"
  shows "ensures refs_ok (replace_source_release_claims_for_feed g xs) (\<lambda>s. get_source_release_claims_for_feed s g = List.sort_key (\<lambda>r. (src_entity_type r, src_entity_id r, src_claim_type r, src_position r)) (map (\<lambda>r. r\<lparr>src_id := None\<rparr>) (dedupe_source_release_claims xs)))"
proof -
  have own: "list_all (\<lambda>r. src_feed_guid r = g) (map (\<lambda>r. r\<lparr>src_id := None\<rparr>) (dedupe_source_release_claims xs))"
    using assms drelease.dedupe_subset [of xs] by (auto simp: list_all_iff)
  have "filter (\<lambda>r. src_feed_guid r = g) (t_source_release_claims s') = map (\<lambda>r. r\<lparr>src_id := None\<rparr>) (dedupe_source_release_claims xs)"
    if "refs_ok s" "replace_source_release_claims_for_feed g xs s = (Inr x, s')" for s x s'
    using srcl.replace_reads(1) [OF _ _ own, of s s'] that
    by (simp add: replace_source_release_claims_for_feed_def refs_ok_def feed_children_ok_def table_ok_def)
  then show ?thesis by (simp add: ensures_def get_source_release_claims_for_feed_def)
qed

lemma ensures_item_enclosures:
  assumes "list_all (\<lambda>r. sie_feed_guid r = g) xs"
  shows "ensures refs_ok (replace_source_item_enclosures_for_feed g xs) (\<lambda>s. get_source_item_enclosures_for_feed s g = List.sort_key (\<lambda>r. (sie_entity_type r, sie_entity_id r, sie_position r, sie_url r)) (map (\<lambda>r. r\<lparr>sie_id := None\<rparr>) (dedupe_source_item_enclosures xs)))"
proof -
  have own: "list_all (\<lambda>r. sie_feed_guid r = g) (map (\<lambda>r. r\<lparr>sie_id := None\<rparr>) (dedupe_source_item_enclosures xs))"
    using assms denclosures.dedupe_subset [of xs] by (auto simp: list_all_iff)
  have "filter (\<lambda>r. sie_feed_guid r = g) (t_source_item_enclosures s') = map (\<lambda>r. r\<lparr>sie_id := None\<rparr>) (dedupe_source_item_enclosures xs)"
    if "refs_ok s" "replace_source_item_enclosures_for_feed g xs s = (Inr x, s')" for s x s'
    using sie.replace_reads(1) [OF _ _ own, of s s'] that
    by (simp add: replace_source_item_enclosures_for_feed_def refs_ok_def feed_children_ok_def table_ok_def)
  then show ?thesis by (simp add: ensures_def get_source_item_enclosures_for_feed_def)
qed

lemma ensures_item_transcripts:
  assumes "list_all (\<lambda>r. sit_feed_guid r = g) xs"
  shows "ensures refs_ok (replace_source_item_transcripts_for_feed g xs) (\<lambda>s. get_source_item_transcripts_for_feed s g = List.sort_key (\<lambda>r. (sit_entity_type r, sit_entity_id r, sit_position r, sit_url r)) (map (\<lambda>r. r\<lparr>sit_id := None\<rparr>) (dedupe_source_item_transcripts xs)))"
proof -
  have own: "list_all (\<lambda>r. sit_feed_guid r = g) (map (\<lambda>r. r\<lparr>sit_id := None\<rparr>) (dedupe_source_item_transcripts xs))"
    using assms dtranscripts.dedupe_subset [of xs] by (auto simp: list_all_iff)
  have "filter (\<lambda>r. sit_feed_guid r = g) (t_source_item_transcripts s') = map (\<lambda>r. r\<lparr>sit_id := None\<rparr>) (dedupe_source_item_transcripts xs)"
    if "refs_ok s" "replace_source_item_transcripts_for_feed g xs s = (Inr x, s')" for s x s'
    using sit.replace_reads(1) [OF _ _ own, of s s'] that
    by (simp add: replace_source_item_transcripts_for_feed_def refs_ok_def feed_children_ok_def table_ok_def)
  then show ?thesis by (simp add: ensures_def get_source_item_transcripts_for_feed_def)
qed

lemma ensures_platform_claims:
  assumes "list_all (\<lambda>r. spc_feed_guid r = g) xs"
  shows "ensures refs_ok (replace_source_platform_claims_for_feed g xs) (\<lambda>s. get_source_platform_claims_for_feed s g = List.sort_key (\<lambda>r. (spc_platform_key r, spc_extraction_path r, spc_url r, spc_owner_name r)) (map (\<lambda>r. r\<lparr>spc_id := None\<rparr>) xs))"
proof -
  have own: "list_all (\<lambda>r. spc_feed_guid r = g) (map (\<lambda>r. r\<lparr>spc_id := None\<rparr>) xs)"
    using assms by (auto simp: list_all_iff)
  have "filter (\<lambda>r. spc_feed_guid r = g) (t_source_platform_claims s') = map (\<lambda>r. r\<lparr>spc_id := None\<rparr>) xs"
    if "refs_ok s" "replace_source_platform_claims_for_feed g xs s = (Inr x, s')" for s x s'
    using spc.replace_reads(1) [OF _ _ own, of s s'] that
    by (simp add: replace_source_platform_claims_for_feed_def refs_ok_def feed_children_ok_def table_ok_def)
  then show ?thesis by (simp add: ensures_def get_source_platform_claims_for_feed_def)
qed

text \<open>From the tracks on, an ingest writes only the tables of tracks, read models, moves and events.\<close>

definition ingest_tail ::
  "primary \<Rightarrow> (nat \<Rightarrow> string) \<Rightarrow> int \<Rightarrow> feed_write \<Rightarrow> new_event list \<Rightarrow> feed_move_write option
   \<Rightarrow> (int \<times> string \<times> string) list dbm" where
  "ingest_tail pm uuid now w event_rows feed_move = (let g = fe_feed_guid (fw_feed w) in
     dbind (dread (\<lambda>s. map tr_track_guid (get_tracks_for_feed s g))) (\<lambda>existing_guids.
     dseq (dforeach ingest_track (fw_tracks w))
    (dbind (dcollect (remove_stale_track pm (fw_feed w)) (stale_guids pm w existing_guids)) (\<lambda>removals.
     dbind (dcollect (insert_new_event pm) (event_rows @ with_ids uuid removals)) (\<lambda>seqs.
     dseq (sync_source_read_models_for_feed (pm_env pm) now g)
    (dseq (case feed_move of None \<Rightarrow> dret () | Some mv \<Rightarrow> dexec (write_feed_move g mv))
          (dret seqs)))))))"

lemma ingest_body_tail:
  "ingest_body pm uuid now w rows mv = dseq (ingest_feed_rows pm w)
    (dseq (ingest_source_claims w) (dseq (ingest_source_items w) (ingest_tail pm uuid now w rows mv)))"
  by (simp only: ingest_body_def ingest_tail_def Let_def)

lemma delete_track_frame:
  assumes "\<And>f s. P (t_tracks_update f s) = P s" "\<And>f s. P (t_payment_routes_update f s) = P s"
    "\<And>f s. P (t_value_time_splits_update f s) = P s" "\<And>f s. P (t_track_remote_items_raw_update f s) = P s"
    "\<And>f s. P (t_search_index_update f s) = P s" "\<And>f s. P (t_search_entities_update f s) = P s"
    "\<And>f s. P (t_entity_quality_update f s) = P s"
  shows "P (delete_track_sql env g t s) = P s"
proof -
  have c: "P (s\<lparr>t_search_index := a\<rparr>) = P s" "P (s\<lparr>t_search_entities := b\<rparr>) = P s" for a b s
    using assms(5) [of "\<lambda>_. a" s] assms(6) [of "\<lambda>_. b" s] by simp_all
  have "P (delete_tracks_where env p s) = P s" for p s
    unfolding delete_tracks_where_def each_def [symmetric]
    by (simp add: assms each_frame [where get = P] trg_tracks_cleanup_def)
  moreover have "P (delete_from_search_index env e i s) = P s" for e i s
    by (simp add: delete_from_search_index_def Let_def assms c)
  ultimately show ?thesis by (simp add: delete_track_sql_def assms)
qed

lemma keeps_ingest_tail:
  assumes t: "\<And>f s. P (t_tracks_update f s) = P s" "\<And>f s. P (t_payment_routes_update f s) = P s"
    "\<And>f s. P (t_value_time_splits_update f s) = P s" "\<And>f s. P (t_track_remote_items_raw_update f s) = P s"
    and i: "\<And>f s. P (t_search_index_update f s) = P s" "\<And>f s. P (t_search_entities_update f s) = P s"
    "\<And>f s. P (t_entity_quality_update f s) = P s"
    and e: "\<And>f s. P (t_events_update f s) = P s"
    and m: "\<And>f s. P (t_feed_left_urls_update f s) = P s" "\<And>f s. P (t_feed_move_state_update f s) = P s"
  shows "keeps P (ingest_tail pm uuid now w rows mv)"
proof -
  have c: "P (s\<lparr>t_feed_left_urls := a\<rparr>) = P s" "P (s\<lparr>t_feed_move_state := b\<rparr>) = P s" for a b s
    using m(1) [of "\<lambda>_. a" s] m(2) [of "\<lambda>_. b" s] by simp_all
  have tr: "keeps P (ingest_track b)" for b
    unfolding ingest_track_def Let_def
    by (cases b) (auto intro!: keeps_dseq frame_replace frame_value_time_splits frame_upserts simp: t)
  have rm: "keeps P (remove_stale_track pm f t)" for f t
    unfolding remove_stale_track_def by (intro keeps_intros) (simp add: delete_track_frame [where P = P] t i)
  have mv: "P (write_feed_move g mv s) = P s" for g mv s
    by (simp add: write_feed_move_def add_left_url_def remove_left_url_def Let_def m c split: option.split)
  have ev: "keeps P (insert_new_event pm er)" for er
    unfolding insert_new_event_def by (rule frame_insert_event) (rule e)
  show ?thesis
    unfolding ingest_tail_def Let_def
    by (intro keeps_dbind keeps_dseq keeps_dread keeps_dret keeps_dforeach keeps_dcollect tr rm ev frame_sync keeps_case_option keeps_dexec)
      (simp_all add: i mv)
qed

lemma refs_prefix:
  "keeps refs_ok (upsert_feed lc up f)"
  "keeps refs_ok (dexec (t_source_gone_answers_update (delete_where p)))"
  "keeps refs_ok (dexec (t_retired_source_holds_update h))"
  "keeps refs_ok (ingest_feed_rows pm w)" "keeps refs_ok (ingest_source_claims w)" "keeps refs_ok (ingest_source_items w)"
  unfolding ingest_feed_rows_def ingest_source_claims_def ingest_source_items_def Let_def
  by (intro keeps_intros; simp add: refs_ok_gone)+

text \<open>The replace of a table establishes what is read; the other statements keep it.\<close>

lemma written_routes:
  assumes "list_all (\<lambda>r. fpr_feed_guid r = fe_feed_guid (fw_feed w)) (fw_feed_routes w)"
  shows "ensures refs_ok (ingest_feed_rows pm w) (\<lambda>s. get_feed_payment_routes_for_feed s (fe_feed_guid (fw_feed w)) = map stored_feed_payment_route (fw_feed_routes w))"
  unfolding ingest_feed_rows_def Let_def
  by (rule ensures_later, (rule refs_prefix keeps_intros), rule ensures_later, (rule refs_prefix keeps_intros), rule ensures_later, (rule refs_prefix keeps_intros), rule ensures_here, rule ensures_routes [OF assms])
    (intro keeps_dseq frame_replace; simp add: get_feed_payment_routes_for_feed_def)

lemma written_remote_items:
  assumes "list_all (\<lambda>r. fri_feed_guid r = fe_feed_guid (fw_feed w)) (fw_remote_items w)"
  shows "ensures refs_ok (ingest_feed_rows pm w) (\<lambda>s. get_feed_remote_items_for_feed s (fe_feed_guid (fw_feed w)) = List.sort_key fri_position (map (\<lambda>r. r\<lparr>fri_id := None\<rparr>) (fw_remote_items w)))"
  unfolding ingest_feed_rows_def Let_def
  by (rule ensures_later, (rule refs_prefix keeps_intros), rule ensures_later, (rule refs_prefix keeps_intros), rule ensures_later, (rule refs_prefix keeps_intros), rule ensures_later, (rule refs_prefix keeps_intros), rule ensures_here, rule ensures_remote_items [OF assms])
    (intro keeps_dseq frame_replace; simp add: get_feed_remote_items_for_feed_def)

lemma written_list_values:
  assumes "list_all (\<lambda>r. flv_feed_guid r = fe_feed_guid (fw_feed w)) (fw_feed_list_values w)"
  shows "ensures refs_ok (ingest_feed_rows pm w) (\<lambda>s. get_feed_list_value_raw_for_feed s (fe_feed_guid (fw_feed w)) = List.sort_key flv_position (map stored_feed_list_value (fw_feed_list_values w)))"
  unfolding ingest_feed_rows_def Let_def
  by (rule ensures_later, (rule refs_prefix keeps_intros), rule ensures_later, (rule refs_prefix keeps_intros), rule ensures_later, (rule refs_prefix keeps_intros), rule ensures_later, (rule refs_prefix keeps_intros), rule ensures_later, (rule refs_prefix keeps_intros), rule ensures_here, rule ensures_list_values [OF assms])
    (intro keeps_dseq frame_replace; simp add: get_feed_list_value_raw_for_feed_def)

lemma written_live_events:
  assumes "list_all (\<lambda>r. le_feed_guid r = fe_feed_guid (fw_feed w)) (fw_live_events w)"
  shows "ensures refs_ok (ingest_feed_rows pm w) (\<lambda>s. get_live_events_for_feed s (fe_feed_guid (fw_feed w)) = List.sort_key (\<lambda>r. (case le_scheduled_start r of None \<Rightarrow> le_created_at r | Some t \<Rightarrow> t, le_live_item_guid r)) (dedupe_live_events (fw_live_events w)))"
  unfolding ingest_feed_rows_def Let_def
  by (rule ensures_later, (rule refs_prefix keeps_intros), rule ensures_later, (rule refs_prefix keeps_intros), rule ensures_later, (rule refs_prefix keeps_intros), rule ensures_later, (rule refs_prefix keeps_intros), rule ensures_later, (rule refs_prefix keeps_intros), rule ensures_later, (rule refs_prefix keeps_intros), rule ensures_live_events [OF assms])

lemma written_contributor_claims:
  assumes "list_all (\<lambda>r. scc_feed_guid r = fe_feed_guid (fw_feed w)) (fw_source_contributor_claims w)"
  shows "ensures refs_ok (ingest_source_claims w) (\<lambda>s. get_source_contributor_claims_for_feed s (fe_feed_guid (fw_feed w)) = List.sort_key (\<lambda>r. (scc_entity_type r, scc_entity_id r, scc_position r)) (map (\<lambda>r. r\<lparr>scc_id := None\<rparr>) (dedupe_source_contributor_claims (fw_source_contributor_claims w))))"
  unfolding ingest_source_claims_def Let_def
  by (rule ensures_here, rule ensures_contributor_claims [OF assms])
    (intro keeps_dseq frame_replace; simp add: get_source_contributor_claims_for_feed_def)

lemma written_entity_ids:
  assumes "list_all (\<lambda>r. sei_feed_guid r = fe_feed_guid (fw_feed w)) (fw_source_entity_ids w)"
  shows "ensures refs_ok (ingest_source_claims w) (\<lambda>s. get_source_entity_ids_for_feed s (fe_feed_guid (fw_feed w)) = List.sort_key (\<lambda>r. (sei_entity_type r, sei_entity_id r, sei_position r, sei_scheme r, sei_value r)) (map (\<lambda>r. r\<lparr>sei_id := None\<rparr>) (dedupe_source_entity_ids (fw_source_entity_ids w))))"
  unfolding ingest_source_claims_def Let_def
  by (rule ensures_later, (rule refs_prefix keeps_intros), rule ensures_here, rule ensures_entity_ids [OF assms])
    (intro keeps_dseq frame_replace; simp add: get_source_entity_ids_for_feed_def)

lemma written_entity_links:
  assumes "list_all (\<lambda>r. sel_feed_guid r = fe_feed_guid (fw_feed w)) (fw_source_entity_links w)"
  shows "ensures refs_ok (ingest_source_claims w) (\<lambda>s. get_source_entity_links_for_feed s (fe_feed_guid (fw_feed w)) = List.sort_key (\<lambda>r. (sel_entity_type r, sel_entity_id r, sel_position r, sel_link_type r, sel_url r)) (map (\<lambda>r. r\<lparr>sel_id := None\<rparr>) (dedupe_source_entity_links (fw_source_entity_links w))))"
  unfolding ingest_source_claims_def Let_def
  by (rule ensures_later, (rule refs_prefix keeps_intros), rule ensures_later, (rule refs_prefix keeps_intros), rule ensures_here, rule ensures_entity_links [OF assms])
    (intro keeps_dseq frame_replace; simp add: get_source_entity_links_for_feed_def)

lemma written_release_claims:
  assumes "list_all (\<lambda>r. src_feed_guid r = fe_feed_guid (fw_feed w)) (fw_source_release_claims w)"
  shows "ensures refs_ok (ingest_source_claims w) (\<lambda>s. get_source_release_claims_for_feed s (fe_feed_guid (fw_feed w)) = List.sort_key (\<lambda>r. (src_entity_type r, src_entity_id r, src_claim_type r, src_position r)) (map (\<lambda>r. r\<lparr>src_id := None\<rparr>) (dedupe_source_release_claims (fw_source_release_claims w))))"
  unfolding ingest_source_claims_def Let_def
  by (rule ensures_later, (rule refs_prefix keeps_intros), rule ensures_later, (rule refs_prefix keeps_intros), rule ensures_later, (rule refs_prefix keeps_intros), rule ensures_release_claims [OF assms])

lemma written_item_enclosures:
  assumes "list_all (\<lambda>r. sie_feed_guid r = fe_feed_guid (fw_feed w)) (fw_source_item_enclosures w)"
  shows "ensures refs_ok (ingest_source_items w) (\<lambda>s. get_source_item_enclosures_for_feed s (fe_feed_guid (fw_feed w)) = List.sort_key (\<lambda>r. (sie_entity_type r, sie_entity_id r, sie_position r, sie_url r)) (map (\<lambda>r. r\<lparr>sie_id := None\<rparr>) (dedupe_source_item_enclosures (fw_source_item_enclosures w))))"
  unfolding ingest_source_items_def Let_def
  by (rule ensures_here, rule ensures_item_enclosures [OF assms])
    (intro keeps_dseq frame_replace; simp add: get_source_item_enclosures_for_feed_def)

lemma written_item_transcripts:
  assumes "list_all (\<lambda>r. sit_feed_guid r = fe_feed_guid (fw_feed w)) (fw_source_item_transcripts w)"
  shows "ensures refs_ok (ingest_source_items w) (\<lambda>s. get_source_item_transcripts_for_feed s (fe_feed_guid (fw_feed w)) = List.sort_key (\<lambda>r. (sit_entity_type r, sit_entity_id r, sit_position r, sit_url r)) (map (\<lambda>r. r\<lparr>sit_id := None\<rparr>) (dedupe_source_item_transcripts (fw_source_item_transcripts w))))"
  unfolding ingest_source_items_def Let_def
  by (rule ensures_later, (rule refs_prefix keeps_intros), rule ensures_here, rule ensures_item_transcripts [OF assms])
    (intro keeps_dseq frame_replace; simp add: get_source_item_transcripts_for_feed_def)

lemma written_platform_claims:
  assumes "list_all (\<lambda>r. spc_feed_guid r = fe_feed_guid (fw_feed w)) (fw_source_platform_claims w)"
  shows "ensures refs_ok (ingest_source_items w) (\<lambda>s. get_source_platform_claims_for_feed s (fe_feed_guid (fw_feed w)) = List.sort_key (\<lambda>r. (spc_platform_key r, spc_extraction_path r, spc_url r, spc_owner_name r)) (map (\<lambda>r. r\<lparr>spc_id := None\<rparr>) (fw_source_platform_claims w)))"
  unfolding ingest_source_items_def Let_def
  by (rule ensures_later, (rule refs_prefix keeps_intros), rule ensures_later, (rule refs_prefix keeps_intros), rule ensures_platform_claims [OF assms])

lemma keeps_source_rows:
  assumes "\<And>f s. P (t_source_contributor_claims_update f s) = P s" "\<And>f s. P (t_source_entity_ids_update f s) = P s"
    "\<And>f s. P (t_source_entity_links_update f s) = P s" "\<And>f s. P (t_source_release_claims_update f s) = P s"
  shows "keeps P (ingest_source_claims w)"
  unfolding ingest_source_claims_def Let_def by (intro keeps_dseq frame_replace) (rule assms)+

lemma keeps_source_items:
  assumes "\<And>f s. P (t_source_item_enclosures_update f s) = P s" "\<And>f s. P (t_source_item_transcripts_update f s) = P s"
    "\<And>f s. P (t_source_platform_claims_update f s) = P s"
  shows "keeps P (ingest_source_items w)"
  unfolding ingest_source_items_def Let_def by (intro keeps_dseq frame_replace) (rule assms)+

lemmas ingest_frame = keeps_dseq keeps_source_rows keeps_source_items keeps_ingest_tail

lemma ingest_body_rows:
  assumes "rows_of_feed w"
  shows "ensures refs_ok (ingest_body pm uuid now w rows mv) (\<lambda>s. stored_rows s (fe_feed_guid (fw_feed w)) = written_rows w)"
proof -
  note own = assms [unfolded rows_of_feed_def Let_def]
  let ?g = "fe_feed_guid (fw_feed w)" and ?body = "ingest_body pm uuid now w rows mv"
  have routes: "ensures refs_ok ?body (\<lambda>s. get_feed_payment_routes_for_feed s ?g = map stored_feed_payment_route (fw_feed_routes w))"
    unfolding ingest_body_tail
    by (rule ensures_here, rule written_routes)
      (use own in \<open>simp_all add: ingest_frame get_feed_payment_routes_for_feed_def\<close>)
  have remote_items: "ensures refs_ok ?body (\<lambda>s. get_feed_remote_items_for_feed s ?g = List.sort_key fri_position (map (\<lambda>r. r\<lparr>fri_id := None\<rparr>) (fw_remote_items w)))"
    unfolding ingest_body_tail
    by (rule ensures_here, rule written_remote_items)
      (use own in \<open>simp_all add: ingest_frame get_feed_remote_items_for_feed_def\<close>)
  have list_values: "ensures refs_ok ?body (\<lambda>s. get_feed_list_value_raw_for_feed s ?g = List.sort_key flv_position (map stored_feed_list_value (fw_feed_list_values w)))"
    unfolding ingest_body_tail
    by (rule ensures_here, rule written_list_values)
      (use own in \<open>simp_all add: ingest_frame get_feed_list_value_raw_for_feed_def\<close>)
  have live_events: "ensures refs_ok ?body (\<lambda>s. get_live_events_for_feed s ?g = List.sort_key (\<lambda>r. (case le_scheduled_start r of None \<Rightarrow> le_created_at r | Some t \<Rightarrow> t, le_live_item_guid r)) (dedupe_live_events (fw_live_events w)))"
    unfolding ingest_body_tail
    by (rule ensures_here, rule written_live_events)
      (use own in \<open>simp_all add: ingest_frame get_live_events_for_feed_def\<close>)
  have contributor_claims: "ensures refs_ok ?body (\<lambda>s. get_source_contributor_claims_for_feed s ?g = List.sort_key (\<lambda>r. (scc_entity_type r, scc_entity_id r, scc_position r)) (map (\<lambda>r. r\<lparr>scc_id := None\<rparr>) (dedupe_source_contributor_claims (fw_source_contributor_claims w))))"
    unfolding ingest_body_tail
    by (rule ensures_later, rule refs_prefix, rule ensures_here, rule written_contributor_claims)
      (use own in \<open>simp_all add: ingest_frame get_source_contributor_claims_for_feed_def\<close>)
  have entity_ids: "ensures refs_ok ?body (\<lambda>s. get_source_entity_ids_for_feed s ?g = List.sort_key (\<lambda>r. (sei_entity_type r, sei_entity_id r, sei_position r, sei_scheme r, sei_value r)) (map (\<lambda>r. r\<lparr>sei_id := None\<rparr>) (dedupe_source_entity_ids (fw_source_entity_ids w))))"
    unfolding ingest_body_tail
    by (rule ensures_later, rule refs_prefix, rule ensures_here, rule written_entity_ids)
      (use own in \<open>simp_all add: ingest_frame get_source_entity_ids_for_feed_def\<close>)
  have entity_links: "ensures refs_ok ?body (\<lambda>s. get_source_entity_links_for_feed s ?g = List.sort_key (\<lambda>r. (sel_entity_type r, sel_entity_id r, sel_position r, sel_link_type r, sel_url r)) (map (\<lambda>r. r\<lparr>sel_id := None\<rparr>) (dedupe_source_entity_links (fw_source_entity_links w))))"
    unfolding ingest_body_tail
    by (rule ensures_later, rule refs_prefix, rule ensures_here, rule written_entity_links)
      (use own in \<open>simp_all add: ingest_frame get_source_entity_links_for_feed_def\<close>)
  have release_claims: "ensures refs_ok ?body (\<lambda>s. get_source_release_claims_for_feed s ?g = List.sort_key (\<lambda>r. (src_entity_type r, src_entity_id r, src_claim_type r, src_position r)) (map (\<lambda>r. r\<lparr>src_id := None\<rparr>) (dedupe_source_release_claims (fw_source_release_claims w))))"
    unfolding ingest_body_tail
    by (rule ensures_later, rule refs_prefix, rule ensures_here, rule written_release_claims)
      (use own in \<open>simp_all add: ingest_frame get_source_release_claims_for_feed_def\<close>)
  have item_enclosures: "ensures refs_ok ?body (\<lambda>s. get_source_item_enclosures_for_feed s ?g = List.sort_key (\<lambda>r. (sie_entity_type r, sie_entity_id r, sie_position r, sie_url r)) (map (\<lambda>r. r\<lparr>sie_id := None\<rparr>) (dedupe_source_item_enclosures (fw_source_item_enclosures w))))"
    unfolding ingest_body_tail
    by (rule ensures_later, rule refs_prefix, rule ensures_later, rule refs_prefix, rule ensures_here, rule written_item_enclosures)
      (use own in \<open>simp_all add: ingest_frame get_source_item_enclosures_for_feed_def\<close>)
  have item_transcripts: "ensures refs_ok ?body (\<lambda>s. get_source_item_transcripts_for_feed s ?g = List.sort_key (\<lambda>r. (sit_entity_type r, sit_entity_id r, sit_position r, sit_url r)) (map (\<lambda>r. r\<lparr>sit_id := None\<rparr>) (dedupe_source_item_transcripts (fw_source_item_transcripts w))))"
    unfolding ingest_body_tail
    by (rule ensures_later, rule refs_prefix, rule ensures_later, rule refs_prefix, rule ensures_here, rule written_item_transcripts)
      (use own in \<open>simp_all add: ingest_frame get_source_item_transcripts_for_feed_def\<close>)
  have platform_claims: "ensures refs_ok ?body (\<lambda>s. get_source_platform_claims_for_feed s ?g = List.sort_key (\<lambda>r. (spc_platform_key r, spc_extraction_path r, spc_url r, spc_owner_name r)) (map (\<lambda>r. r\<lparr>spc_id := None\<rparr>) (fw_source_platform_claims w)))"
    unfolding ingest_body_tail
    by (rule ensures_later, rule refs_prefix, rule ensures_later, rule refs_prefix, rule ensures_here, rule written_platform_claims)
      (use own in \<open>simp_all add: ingest_frame get_source_platform_claims_for_feed_def\<close>)
  show ?thesis
    unfolding stored_rows_def written_rows_def feed_rows.ext_inject
    by (intro ensures_conj routes list_values remote_items live_events contributor_claims entity_ids entity_links release_claims item_enclosures item_transcripts platform_claims) (simp add: ensures_def)
qed

lemma written_dedupe: "written_rows (dedupe_write w) = written_rows w"
  by (simp add: written_rows_def dedupe_write_def dcontrib.dedupe_idem dids.dedupe_idem dlinks.dedupe_idem
      drelease.dedupe_idem denclosures.dedupe_idem dtranscripts.dedupe_idem)

lemma rows_of_feed_dedupe: "rows_of_feed w \<Longrightarrow> rows_of_feed (dedupe_write w)"
  using dcontrib.dedupe_subset dids.dedupe_subset dlinks.dedupe_subset drelease.dedupe_subset
    denclosures.dedupe_subset dtranscripts.dedupe_subset
  by (fastforce simp: rows_of_feed_def dedupe_write_def Let_def list_all_iff)

lemma dedupe_write_feed [simp]:
  "fw_feed (dedupe_write w) = fw_feed w" "fw_tracks (dedupe_write w) = fw_tracks w"
  "stale_guids pm (dedupe_write w) gs = stale_guids pm w gs"
  by (simp_all add: dedupe_write_def stale_guids_def)

lemma ingest_rows:
  assumes "refs_ok s" "rows_of_feed w" "ingest_transaction pm uuid now w rows mv s = (Inr seqs, s')"
  shows "stored_rows s' (fe_feed_guid (fw_feed w)) = written_rows w"
  using ensuresD [OF ensures_transaction [OF ingest_body_rows [OF rows_of_feed_dedupe [OF assms(2)]]]
      assms(3) [unfolded ingest_transaction_def] assms(1)]
  by (simp add: written_dedupe)

end
