(* ===== verification/SampleIngest.thy ===== *)
theory SampleIngest
  imports IngestTx Delivery
begin

text \<open>A primary, a submission and a community node that the witnesses of the ingest use.\<close>

definition sample_primary :: primary where
  "sample_primary = \<lparr>pm_env = length_env, pm_lc = (\<lambda>t. t), pm_url_parse = (\<lambda>u. None), pm_crypto = toy_crypto,
     pm_key = ''key'', pm_json = (\<lambda>p. case p of TrackRemovedP q \<Rightarrow> CHR ''t'' # trm_track_guid q | _ \<Rightarrow> ''{}''),
     pm_hash_order = (\<lambda>xs. xs)\<rparr>"

definition uuid_at :: "nat \<Rightarrow> string" where
  "uuid_at n = CHR ''b'' # show_nat n"

definition removal_uuid :: "nat \<Rightarrow> string" where
  "removal_uuid n = CHR ''r'' # show_nat n"

definition sample_person :: source_contributor_claim where
  "sample_person = \<lparr>scc_id = None, scc_feed_guid = ''g1'', scc_entity_type = ''feed'', scc_entity_id = ''g1'', scc_position = 0,
     scc_name = ''Ann'', scc_role = None, scc_role_norm = None, scc_group_name = None, scc_href = None, scc_img = None,
     scc_npub = None, scc_source = ''podcast_person'', scc_extraction_path = ''feed.podcast:person'', scc_observed_at = 9\<rparr>"

definition sample_item :: track_remote_item_raw where
  "sample_item = \<lparr>tri_id = None, tri_feed_guid = ''g1'', tri_track_guid = ''t1'', tri_position = 0, tri_medium = None,
     tri_remote_feed_guid = ''g9'', tri_remote_feed_url = None, tri_rel = None, tri_source = ''podcast_remote_item''\<rparr>"

definition sample_write :: feed_write where
  "sample_write = \<lparr>fw_feed = sample_feed, fw_remote_items = [], fw_source_contributor_claims = [sample_person],
     fw_source_entity_ids = [], fw_source_entity_links = [], fw_source_release_claims = [], fw_source_item_enclosures = [],
     fw_source_item_transcripts = [], fw_source_platform_claims = [], fw_feed_routes = [sample_route],
     fw_feed_list_values = [], fw_live_events = [], fw_tracks = [(sample_track, [], [], [sample_item])]\<rparr>"

definition sample_events :: "new_event list" where
  "sample_events = build_diff_events (pm_json sample_primary) uuid_at empty_db sample_write 9 []"

definition sample_run :: "(db_error + (int \<times> string \<times> string) list) \<times> db" where
  "sample_run = ingest_transaction sample_primary removal_uuid 9 sample_write sample_events None empty_db"

declare option.pred_inject [code]

text \<open>
  The payloads that the sample submission sends, and a node that decodes them: the type tells the
  payload, but for a removal, whose text names the track.
\<close>

definition sample_payloads :: "event_payload list" where
  "sample_payloads = (let w = sample_write; g = fe_feed_guid (fw_feed w) in
     [FeedUpsertedP \<lparr>fu_feed = fw_feed w, fu_reason = None\<rparr>,
      FeedRoutesReplacedP \<lparr>frr_feed_guid = g, frr_routes = fw_feed_routes w\<rparr>,
      FeedListValueReplacedP \<lparr>flr_feed_guid = g, flr_list_values = fw_feed_list_values w\<rparr>,
      FeedRemoteItemsReplacedP \<lparr>frir_feed_guid = g, frir_remote_items = fw_remote_items w\<rparr>,
      LiveEventsReplacedP \<lparr>ler_feed_guid = g, ler_live_events = dedupe_and_sort_live_events (fw_live_events w)\<rparr>,
      SourceContributorClaimsReplacedP \<lparr>sccr_feed_guid = g, sccr_claims = fw_source_contributor_claims w\<rparr>,
      SourceEntityIdsReplacedP \<lparr>seir_feed_guid = g, seir_claims = fw_source_entity_ids w\<rparr>,
      SourceEntityLinksReplacedP \<lparr>selr_feed_guid = g, selr_links = fw_source_entity_links w\<rparr>,
      SourceReleaseClaimsReplacedP \<lparr>srcr_feed_guid = g, srcr_claims = fw_source_release_claims w\<rparr>,
      SourceItemEnclosuresReplacedP \<lparr>sier_feed_guid = g, sier_enclosures = fw_source_item_enclosures w\<rparr>,
      SourceItemTranscriptsReplacedP \<lparr>sitr_feed_guid = g, sitr_transcripts = fw_source_item_transcripts w\<rparr>,
      SourcePlatformClaimsReplacedP \<lparr>spcr_feed_guid = g, spcr_claims = fw_source_platform_claims w\<rparr>,
      TrackUpsertedP \<lparr>tu_track = sample_track, tu_routes = [], tu_value_time_splits = []\<rparr>,
      TrackRemoteItemsReplacedP \<lparr>trir_track_guid = ''t1'', trir_feed_guid = Some g, trir_remote_items = [sample_item]\<rparr>])"

definition sample_decode :: "event_type \<Rightarrow> string \<Rightarrow> event_payload option" where
  "sample_decode ty json = (if ty = TrackRemoved
     then (case json of [] \<Rightarrow> None | _ # t \<Rightarrow> Some (TrackRemovedP \<lparr>trm_track_guid = t, trm_feed_guid = ''g1''\<rparr>))
     else find (\<lambda>p. payload_type p = ty) sample_payloads)"

definition sample_replica :: node where
  "sample_replica = (sample_node (TrackRemovedP \<lparr>trm_track_guid = ''t1'', trm_feed_guid = ''g1''\<rparr>))\<lparr>nd_parse := sample_decode\<rparr>"

text \<open>The events of the run as the node receives them.\<close>

definition sample_message :: "int \<Rightarrow> string \<Rightarrow> string \<Rightarrow> event_payload \<Rightarrow> event" where
  "sample_message seq i subject p = \<lparr>ev_event_id = i, ev_event_type = payload_type p, ev_payload = p, ev_subject_guid = subject,
     ev_signed_by = ''key'' @ replicate 29 CHR ''p'', ev_signature = i @ ''{}'' @ replicate 60 CHR ''s'', ev_seq = seq,
     ev_created_at = 9, ev_warnings = [], ev_payload_json = ''{}''\<rparr>"

definition sample_received :: "event list" where
  "sample_received = [
     sample_message 1 ''b0'' ''g1'' (FeedUpsertedP \<lparr>fu_feed = sample_feed, fu_reason = None\<rparr>),
     sample_message 2 ''b1'' ''g1'' (FeedRoutesReplacedP \<lparr>frr_feed_guid = ''g1'', frr_routes = [sample_route]\<rparr>),
     sample_message 3 ''b2'' ''g1'' (SourceContributorClaimsReplacedP \<lparr>sccr_feed_guid = ''g1'', sccr_claims = [sample_person]\<rparr>),
     sample_message 4 ''b3'' ''t1'' (TrackUpsertedP \<lparr>tu_track = sample_track, tu_routes = [], tu_value_time_splits = []\<rparr>),
     sample_message 5 ''b4'' ''t1'' (TrackRemoteItemsReplacedP
       \<lparr>trir_track_guid = ''t1'', trir_feed_guid = Some ''g1'', trir_remote_items = [sample_item]\<rparr>)]"

lemma sample_received_applied:
  "as_applied (fst (apply_events sample_replica 9 sample_received (empty_db, None))) = length sample_received"
  by code_simp

lemma sample_run_evaluated:
  "case sample_run of
     (Inr seqs, s) \<Rightarrow> length seqs = 5 \<and> rmap (event_of_row (nd_parse sample_replica)) (t_events s) = Inr sample_received
   | (Inl e, s) \<Rightarrow> False"
  by code_simp

lemma sample_run_Inr: "\<exists>seqs s'. sample_run = (Inr seqs, s')"
  using sample_run_evaluated by (auto split: prod.splits sum.splits)

lemma sample_received_rows:
  assumes "sample_run = (Inr seqs, s)"
  shows "rmap (event_of_row (nd_parse sample_replica)) (t_events s) = Inr sample_received"
  using sample_run_evaluated unfolding assms by simp

end
