(* ===== verification/Ingested.thy ===== *)
theory Ingested
  imports Written SampleIngest
begin

text \<open>
  What one ingest transaction promises: the feed and its tracks as submitted, tracks that are gone
  removed, the log extended by signed events, and the events of the same submission once it is
  stored.
\<close>

section \<open>The feed row\<close>

definition feed_at :: "db \<Rightarrow> string \<Rightarrow> feed_row option" where
  "feed_at s g = lookup_by fe_feed_guid (t_feeds s) g"

lemma feed_row_of_guid [simp]: "fe_feed_guid (feed_row_of lc up f) = fe_feed_guid f"
  by (simp add: feed_row_of_def feed.extend_def)

lemma lookup_merged:
  "lookup_by fe_feed_guid (upsert_by fe_feed_guid feed_merge r t) (fe_feed_guid r) =
    Some (case lookup_by fe_feed_guid t (fe_feed_guid r) of None \<Rightarrow> r | Some old \<Rightarrow> feed_merge old r)"
  by (subst lookup_upsert_by) (auto simp: feed_merge_def)

lemma truncate_row:
  "feed.truncate (feed_row_of lc up f) = f"
  "fe_feed_guid old = fe_feed_guid f \<Longrightarrow>
    feed.truncate (feed_merge old (feed_row_of lc up f)) = f\<lparr>fe_created_at := fe_created_at old\<rparr>"
  by (cases f; simp add: feed_merge_def feed_row_of_def feed.defs)+

text \<open>The stored feed is the submitted one but for the time of its first ingest.\<close>

definition feed_written :: "db \<Rightarrow> feed \<Rightarrow> bool" where
  "feed_written s f \<longleftrightarrow> (\<exists>c. get_feed_by_guid s (fe_feed_guid f) = Some (f\<lparr>fe_created_at := c\<rparr>))"

lemma ensures_feed: "ensures P (upsert_feed lc up f) (\<lambda>s. feed_written s f)"
proof -
  have "feed_written s' f" if "upsert_feed lc up f s = (Inr (), s')" for s s'
  proof -
    have t: "t_feeds s' = upsert_by fe_feed_guid feed_merge (feed_row_of lc up f) (t_feeds s)"
      using that by (auto simp: upsert_feed_def dstmt_def split: option.splits)
    show ?thesis
    proof (cases "lookup_by fe_feed_guid (t_feeds s) (fe_feed_guid f)")
      case None
      then have "get_feed_by_guid s' (fe_feed_guid f) = Some f"
        using lookup_merged [of "feed_row_of lc up f" "t_feeds s"] by (simp add: get_feed_by_guid_def t truncate_row del: lookup_by_None)
      then show ?thesis unfolding feed_written_def by (intro exI [of _ "fe_created_at f"]) simp
    next
      case (Some old)
      then have "get_feed_by_guid s' (fe_feed_guid f) = Some (f\<lparr>fe_created_at := fe_created_at old\<rparr>)"
        using lookup_merged [of "feed_row_of lc up f" "t_feeds s"] lookup_by_Some [OF Some]
        by (simp add: get_feed_by_guid_def t truncate_row)
      then show ?thesis unfolding feed_written_def by blast
    qed
  qed
  then show ?thesis by (auto simp: ensures_def)
qed

lemma ingest_body_feed: "ensures P (ingest_body pm uuid now w rows mv) (\<lambda>s. feed_written s (fw_feed w))"
  unfolding ingest_body_tail ingest_feed_rows_def Let_def
  by (rule ensures_here, rule ensures_here, rule ensures_feed)
    (intro keeps_dseq frame_replace keeps_dexec ingest_frame; simp add: feed_written_def get_feed_by_guid_def)+

section \<open>The tracks\<close>

text \<open>What a bundle leaves for its track.\<close>

definition track_written :: "db \<Rightarrow> track_ingest_bundle \<Rightarrow> bool" where
  "track_written s b \<longleftrightarrow> (case b of (track, routes, splits, items) \<Rightarrow>
     let g = tr_feed_guid track; t = tr_track_guid track in
     (\<exists>c. get_track_for_feed s g t = Some (track\<lparr>tr_created_at := c\<rparr>))
     \<and> get_payment_routes_for_feed_track s g t
         = map (\<lambda>r. (stored_payment_route r)\<lparr>pr_track_guid := t, pr_feed_guid := g\<rparr>) routes
     \<and> get_track_remote_items_for_feed_track s g t = List.sort_key tri_position
         (map (\<lambda>r. r\<lparr>tri_id := None, tri_feed_guid := g, tri_track_guid := t\<rparr>) items))"

text \<open>The remote items of a bundle name its feed, or none.\<close>

definition bundle_ok :: "track_ingest_bundle \<Rightarrow> bool" where
  "bundle_ok b = (case b of (track, routes, splits, items) \<Rightarrow>
     list_all (\<lambda>r. tri_feed_guid r = [] \<or> tri_feed_guid r = tr_feed_guid track) items)"

lemma ensures_track:
  "ensures P (upsert_track t) (\<lambda>s. \<exists>c. get_track_for_feed s (tr_feed_guid t) (tr_track_guid t) = Some (t\<lparr>tr_created_at := c\<rparr>))"
proof -
  have "\<exists>c. get_track_for_feed s' (tr_feed_guid t) (tr_track_guid t) = Some (t\<lparr>tr_created_at := c\<rparr>)"
    if "upsert_track t s = (Inr (), s')" for s s'
  proof -
    have tt: "t_tracks s' = upsert_by track_key track_merge t (t_tracks s)"
      using that by (auto simp: upsert_track_def dstmt_def split: option.splits)
    have look: "lookup_by track_key (t_tracks s') (track_key t) =
        Some (case lookup_by track_key (t_tracks s) (track_key t) of None \<Rightarrow> t | Some old \<Rightarrow> track_merge old t)"
      unfolding tt by (subst lookup_upsert_by) (auto simp: track_merge_def track_key_def)
    show ?thesis
    proof (cases "lookup_by track_key (t_tracks s) (track_key t)")
      case None
      then show ?thesis using look
        by (intro exI [of _ "tr_created_at t"]) (simp add: get_track_for_feed_def track_key_def del: lookup_by_None)
    next
      case (Some old)
      then have "track_merge old t = t\<lparr>tr_created_at := tr_created_at old\<rparr>"
        using lookup_by_Some [OF Some] by (cases t) (simp add: track_merge_def track_key_def)
      with Some look show ?thesis by (auto simp: get_track_for_feed_def track_key_def)
    qed
  qed
  then show ?thesis by (auto simp: ensures_def)
qed

lemma refs_table_ok:
  assumes "refs_ok s"
  shows "keys_distinct no_key (t_payment_routes s)" "keys_distinct tri_key (t_track_remote_items_raw s)"
  using assms by (simp_all add: refs_ok_def track_children_ok_def table_ok_def)

lemma ensures_track_routes:
  "ensures refs_ok (replace_payment_routes_for_feed_track g t routes)
    (\<lambda>s. get_payment_routes_for_feed_track s g t = map (\<lambda>r. (stored_payment_route r)\<lparr>pr_track_guid := t, pr_feed_guid := g\<rparr>) routes)"
  unfolding ensures_def replace_payment_routes_for_feed_track_def get_payment_routes_for_feed_track_def
  by (auto intro!: pr.replace_reads(1) [OF refs_table_ok(1)] simp: list_all_iff)

lemma ensures_track_items:
  assumes "list_all (\<lambda>r. tri_feed_guid r = [] \<or> tri_feed_guid r = g) items"
  shows "ensures refs_ok (replace_track_remote_items_raw_for_feed_track g t items)
    (\<lambda>s. get_track_remote_items_for_feed_track s g t = List.sort_key tri_position
         (map (\<lambda>r. r\<lparr>tri_id := None, tri_feed_guid := g, tri_track_guid := t\<rparr>) items))"
proof -
  have rows: "map (\<lambda>r. let h = (if tri_feed_guid r = [] then g else tri_feed_guid r) in
      (Some h, r\<lparr>tri_id := None, tri_feed_guid := h, tri_track_guid := t\<rparr>)) items
    = map (\<lambda>r. (Some g, r\<lparr>tri_id := None, tri_feed_guid := g, tri_track_guid := t\<rparr>)) items"
    using assms by (auto simp: list_all_iff Let_def)
  have "filter (tri_owner g t) (t_track_remote_items_raw s') = map (\<lambda>r. (Some g, r\<lparr>tri_id := None, tri_feed_guid := g, tri_track_guid := t\<rparr>)) items"
    if "refs_ok s" "replace_track_remote_items_raw_for_feed_track g t items s = (Inr (), s')" for s s'
    by (rule tri.replace_reads(1) [OF refs_table_ok(2) [OF that(1)]
        that(2) [unfolded replace_track_remote_items_raw_for_feed_track_def rows]]) (simp add: list_all_iff tri_owner_def)
  then show ?thesis by (auto simp: ensures_def get_track_remote_items_for_feed_track_def comp_def)
qed

lemma ingest_track_writes:
  assumes "bundle_ok b"
  shows "ensures refs_ok (ingest_track b) (\<lambda>s. track_written s b)"
proof -
  obtain track routes splits items where b: "b = (track, routes, splits, items)" by (cases b)
  have items: "list_all (\<lambda>r. tri_feed_guid r = [] \<or> tri_feed_guid r = tr_feed_guid track) items"
    using assms by (simp add: bundle_ok_def b)
  show ?thesis
    unfolding track_written_def ingest_track_def b prod.case Let_def
  proof (intro ensures_conj)
    show "ensures refs_ok (dseq (upsert_track track)
       (dseq (replace_payment_routes_for_feed_track (tr_feed_guid track) (tr_track_guid track) routes)
       (dseq (replace_value_time_splits_for_feed_track (tr_feed_guid track) (tr_track_guid track) splits)
         (replace_track_remote_items_raw_for_feed_track (tr_feed_guid track) (tr_track_guid track) items))))
      (\<lambda>s. \<exists>c. get_track_for_feed s (tr_feed_guid track) (tr_track_guid track) = Some (track\<lparr>tr_created_at := c\<rparr>))"
      by (rule ensures_here, rule ensures_track)
        (intro keeps_dseq frame_replace frame_value_time_splits; simp add: get_track_for_feed_def)
    show "ensures refs_ok (dseq (upsert_track track)
       (dseq (replace_payment_routes_for_feed_track (tr_feed_guid track) (tr_track_guid track) routes)
       (dseq (replace_value_time_splits_for_feed_track (tr_feed_guid track) (tr_track_guid track) splits)
         (replace_track_remote_items_raw_for_feed_track (tr_feed_guid track) (tr_track_guid track) items))))
      (\<lambda>s. get_payment_routes_for_feed_track s (tr_feed_guid track) (tr_track_guid track) =
         map (\<lambda>r. (stored_payment_route r)\<lparr>pr_track_guid := tr_track_guid track, pr_feed_guid := tr_feed_guid track\<rparr>) routes)"
      by (rule ensures_later, rule keeps_intros, rule ensures_here, rule ensures_track_routes)
        (intro keeps_dseq frame_replace frame_value_time_splits; simp add: get_payment_routes_for_feed_track_def)
    show "ensures refs_ok (dseq (upsert_track track)
       (dseq (replace_payment_routes_for_feed_track (tr_feed_guid track) (tr_track_guid track) routes)
       (dseq (replace_value_time_splits_for_feed_track (tr_feed_guid track) (tr_track_guid track) splits)
         (replace_track_remote_items_raw_for_feed_track (tr_feed_guid track) (tr_track_guid track) items))))
      (\<lambda>s. get_track_remote_items_for_feed_track s (tr_feed_guid track) (tr_track_guid track) = List.sort_key tri_position
         (map (\<lambda>r. r\<lparr>tri_id := None, tri_feed_guid := tr_feed_guid track, tri_track_guid := tr_track_guid track\<rparr>) items))"
      by (rule ensures_later, (rule keeps_intros), rule ensures_later, (rule keeps_intros), rule ensures_later,
          (rule keeps_intros), rule ensures_track_items [OF items])
  qed
qed

text \<open>A bundle leaves what another bundle of the feed has left for its track.\<close>

lemma ensures_kept_seq:
  assumes "ensures (\<lambda>s. refs_ok s \<and> Q s) m Q" "keeps refs_ok m" "ensures (\<lambda>s. refs_ok s \<and> Q s) n Q"
  shows "ensures (\<lambda>s. refs_ok s \<and> Q s) (dseq m n) Q"
proof (rule ensures_seq [OF _ assms(3)])
  have "ensures refs_ok m refs_ok" by (rule keeps_ensures [OF assms(2)])
  with assms(1) show "ensures (\<lambda>s. refs_ok s \<and> Q s) m (\<lambda>s. refs_ok s \<and> Q s)" unfolding ensures_def by blast
qed

lemma keeps_kept: "keeps Q m \<Longrightarrow> ensures (\<lambda>s. refs_ok s \<and> Q s) m Q"
  by (rule ensures_weaken [OF keeps_ensures]) simp_all

lemma upsert_other_track:
  assumes "tr_track_guid t' \<noteq> t"
  shows "keeps (\<lambda>s. get_track_for_feed s g t = r) (upsert_track t')"
  unfolding upsert_track_def
proof (rule keeps_dstmt)
  fix s assume "get_track_for_feed s g t = r"
  then show "get_track_for_feed (s\<lparr>t_tracks := upsert_by track_key track_merge t' (t_tracks s)\<rparr>) g t = r"
    using assms unfolding get_track_for_feed_def
    by (simp, subst lookup_upsert_by) (auto simp: track_merge_def track_key_def)
qed

lemma routes_other_track:
  assumes "t' \<noteq> t"
  shows "ensures (\<lambda>s. refs_ok s \<and> get_payment_routes_for_feed_track s g t = r) (replace_payment_routes_for_feed_track h t' routes)
    (\<lambda>s. get_payment_routes_for_feed_track s g t = r)"
  unfolding ensures_def replace_payment_routes_for_feed_track_def get_payment_routes_for_feed_track_def
  using assms by (auto dest!: pr.replace_reads(2) [OF refs_table_ok(1), where q = "\<lambda>r. pr_feed_guid r = g \<and> pr_track_guid r = t"]
      simp: list_all_iff)

lemma items_other_track:
  assumes "t' \<noteq> t"
  shows "ensures (\<lambda>s. refs_ok s \<and> get_track_remote_items_for_feed_track s g t = r)
    (replace_track_remote_items_raw_for_feed_track h t' items) (\<lambda>s. get_track_remote_items_for_feed_track s g t = r)"
proof -
  have "get_track_remote_items_for_feed_track s' g t = get_track_remote_items_for_feed_track s g t"
    if s: "refs_ok s" and run: "replace_track_remote_items_raw_for_feed_track h t' items s = (Inr (), s')" for s s'
  proof -
    let ?rows = "map (\<lambda>r. let k = (if tri_feed_guid r = [] then h else tri_feed_guid r) in
      (Some k, r\<lparr>tri_id := None, tri_feed_guid := k, tri_track_guid := t'\<rparr>)) items"
    have del: "filter (tri_owner g t) (delete_where (tri_owner h t') u) = filter (tri_owner g t) u" for u
      using assms by (auto simp: delete_where_def tri_owner_def intro!: filter_cong)
    have none: "filter (tri_owner g t) ?rows = []"
      using assms by (auto simp: filter_empty_conv tri_owner_def Let_def)
    have "s' = t_track_remote_items_raw_update (\<lambda>u. delete_where (tri_owner h t') u @ ?rows) s"
      using tri.replace_ok [OF refs_table_ok(2) [OF s], of "tri_owner h t'" ?rows s'] run
      by (simp add: replace_track_remote_items_raw_for_feed_track_def)
    then show ?thesis by (simp add: get_track_remote_items_for_feed_track_def del none)
  qed
  then show ?thesis by (auto simp: ensures_def)
qed

lemma ensures_kept_conj:
  "ensures (\<lambda>s. R s \<and> P s) m P \<Longrightarrow> ensures (\<lambda>s. R s \<and> Q s) m Q \<Longrightarrow> ensures (\<lambda>s. R s \<and> P s \<and> Q s) m (\<lambda>s. P s \<and> Q s)"
  by (auto simp: ensures_def)

lemma ensures_kept_ex:
  "(\<And>c. ensures (\<lambda>s. R s \<and> P c s) m (P c)) \<Longrightarrow> ensures (\<lambda>s. R s \<and> (\<exists>c. P c s)) m (\<lambda>s. \<exists>c. P c s)"
  unfolding ensures_def by blast

lemma ingest_track_other:
  assumes "tr_track_guid (fst b') \<noteq> tr_track_guid (fst b)"
  shows "ensures (\<lambda>s. refs_ok s \<and> track_written s b) (ingest_track b') (\<lambda>s. track_written s b)"
proof -
  obtain track routes splits items where b: "b = (track, routes, splits, items)" by (cases b)
  obtain track' routes' splits' items' where b': "b' = (track', routes', splits', items')" by (cases b')
  have ne: "tr_track_guid track' \<noteq> tr_track_guid track" using assms by (simp add: b b')
  show ?thesis
    unfolding track_written_def ingest_track_def b b' prod.case Let_def
    by (intro ensures_kept_conj ensures_kept_ex ensures_kept_seq keeps_intros
        keeps_kept [OF upsert_other_track [OF ne]] routes_other_track [OF ne] items_other_track [OF ne];
        rule keeps_kept; (rule frame_replace frame_value_time_splits frame_upserts);
        simp add: get_track_for_feed_def get_payment_routes_for_feed_track_def get_track_remote_items_for_feed_track_def)
qed

lemma ingest_tracks_write:
  assumes "list_all bundle_ok bs" "distinct (map (\<lambda>b. tr_track_guid (fst b)) bs)" "b \<in> set bs"
  shows "ensures refs_ok (dforeach ingest_track bs) (\<lambda>s. track_written s b)"
  using assms
proof (induction bs)
  case (Cons b1 bs)
  show ?case
  proof (cases "b = b1")
    case True
    have rest: "ensures (\<lambda>s. refs_ok s \<and> track_written s b1) (dforeach ingest_track cs) (\<lambda>s. track_written s b1)"
      if "\<forall>c\<in>set cs. tr_track_guid (fst c) \<noteq> tr_track_guid (fst b1)" for cs
      using that
    proof (induction cs)
      case (Cons c cs)
      then show ?case unfolding dforeach.simps
        by (intro ensures_kept_seq ingest_track_other keeps_ingest_track) simp_all
    qed (simp add: ensures_def dret_def)
    have "ensures refs_ok (ingest_track b1) (\<lambda>s. refs_ok s \<and> track_written s b1)"
      using Cons.prems(1) ingest_track_writes [of b1] keeps_ensures [OF keeps_ingest_track(1), of b1]
      by (auto simp: ensures_def)
    then show ?thesis
      using Cons.prems(2) True by (auto intro!: ensures_seq rest simp: image_iff)
  next
    case False
    then show ?thesis
      using Cons by (auto intro!: ensures_later keeps_ingest_track)
  qed
qed simp

section \<open>Stale tracks\<close>

definition track_guids :: "db \<Rightarrow> string \<Rightarrow> string set" where
  "track_guids s g = tr_track_guid ` {t \<in> set (t_tracks s). tr_feed_guid t = g}"

text \<open>A hash set gives its elements once each.\<close>

definition hash_ok :: "(string list \<Rightarrow> string list) \<Rightarrow> bool" where
  "hash_ok order \<longleftrightarrow> (\<forall>xs. distinct xs \<longrightarrow> distinct (order xs) \<and> set (order xs) = set xs)"

lemma track_guids_upsert:
  "ensures (\<lambda>s. tr_feed_guid t = g \<and> track_guids s g = K) (upsert_track t) (\<lambda>s. track_guids s g = insert (tr_track_guid t) K)"
proof -
  have "track_guids s' g = insert (tr_track_guid t) (track_guids s g)"
    if "upsert_track t s = (Inr (), s')" "tr_feed_guid t = g" for s s'
  proof -
    have tt: "t_tracks s' = upsert_by track_key track_merge t (t_tracks s)"
      using that by (auto simp: upsert_track_def dstmt_def split: option.splits)
    have keys: "track_guids s g = {x. (g, x) \<in> track_key ` set (t_tracks s)}" for s
      by (auto simp: track_guids_def track_key_def)
    have "track_key ` set (t_tracks s') = insert (track_key t) (track_key ` set (t_tracks s))"
      unfolding tt by (rule upsert_by_keys) (simp add: track_merge_def track_key_def)
    then show ?thesis using that(2) by (auto simp: keys track_key_def)
  qed
  then show ?thesis by (auto simp: ensures_def)
qed

lemma track_guids_ingest:
  assumes "tr_feed_guid (fst b) = g"
  shows "ensures (\<lambda>s. track_guids s g = K) (ingest_track b) (\<lambda>s. track_guids s g = insert (tr_track_guid (fst b)) K)"
proof -
  obtain track routes splits items where b: "b = (track, routes, splits, items)" by (cases b)
  show ?thesis
    unfolding ingest_track_def b prod.case Let_def
    by (rule ensures_here, rule ensures_weaken [OF track_guids_upsert [of track g K]])
      (use assms in \<open>auto simp: b track_guids_def intro!: keeps_dseq frame_replace frame_value_time_splits\<close>)
qed

lemma track_guids_ingest_all:
  assumes "\<forall>b\<in>set bs. tr_feed_guid (fst b) = g"
  shows "ensures (\<lambda>s. track_guids s g = K) (dforeach ingest_track bs) (\<lambda>s. track_guids s g = K \<union> (\<lambda>b. tr_track_guid (fst b)) ` set bs)"
  using assms
proof (induction bs arbitrary: K)
  case (Cons b bs)
  then show ?case
    using ensures_seq [OF track_guids_ingest [of b g K] Cons.IH [of "insert (tr_track_guid (fst b)) K"]] by simp
qed (simp add: ensures_def dret_def)

definition stale_removed :: "env \<Rightarrow> string \<Rightarrow> string \<Rightarrow> db \<Rightarrow> db" where
  "stale_removed env g t s = (if get_track_for_feed s g t \<noteq> None then delete_track_sql env g t s else s)"

lemma remove_stale_run:
  "remove_stale_track pm f t s = (Inr (track_removed_event pm f t), stale_removed (pm_env pm) (fe_feed_guid f) t s)"
  by (simp add: remove_stale_track_def stale_removed_def db_defs)

lemma remove_all_run:
  "dcollect (remove_stale_track pm f) ts s =
    (Inr (map (track_removed_event pm f) ts), fold (stale_removed (pm_env pm) (fe_feed_guid f)) ts s)"
  by (induction ts arbitrary: s) (simp_all add: remove_stale_run dbind_def dret_def)

lemma track_guids_stale: "track_guids (stale_removed env g t s) g = track_guids s g - {t}"
proof (cases "get_track_for_feed s g t")
  case None
  then have "t \<notin> track_guids s g" by (auto simp: get_track_for_feed_def track_guids_def track_key_def image_iff)
  with None show ?thesis by (simp add: stale_removed_def)
next
  case (Some r)
  then show ?thesis by (auto simp: stale_removed_def track_guids_def delete_track_tables)
qed

lemma track_guids_fold: "track_guids (fold (stale_removed env g) ts s) g = track_guids s g - set ts"
  by (induction ts arbitrary: s) (auto simp: track_guids_stale)

lemma track_written_stale:
  assumes "tr_track_guid (fst b) \<noteq> t" "track_written s b"
  shows "track_written (stale_removed env g t s) b"
proof -
  obtain track routes splits items where b: "b = (track, routes, splits, items)" by (cases b)
  have ne: "tr_track_guid track \<noteq> t" using assms(1) by (simp add: b)
  have "get_track_for_feed (delete_track_sql env g t s) h (tr_track_guid track) = get_track_for_feed s h (tr_track_guid track)"
    "get_payment_routes_for_feed_track (delete_track_sql env g t s) h (tr_track_guid track) = get_payment_routes_for_feed_track s h (tr_track_guid track)"
    "get_track_remote_items_for_feed_track (delete_track_sql env g t s) h (tr_track_guid track) = get_track_remote_items_for_feed_track s h (tr_track_guid track)" for h
  proof -
    have find: "find p (delete_where q xs) = find p xs" if "\<And>x. p x \<Longrightarrow> \<not> q x" for p q and xs :: "'x list"
      using that by (induction xs) (auto simp: delete_where_def)
    have filt: "filter p (delete_where q xs) = filter p xs" if "\<And>x. p x \<Longrightarrow> \<not> q x" for p q and xs :: "'x list"
      using that by (auto simp: delete_where_def intro: filter_cong)
    show "get_track_for_feed (delete_track_sql env g t s) h (tr_track_guid track) = get_track_for_feed s h (tr_track_guid track)"
      unfolding get_track_for_feed_def lookup_by_def delete_track_tables by (rule find) (use ne in \<open>auto simp: track_key_def\<close>)
    show "get_payment_routes_for_feed_track (delete_track_sql env g t s) h (tr_track_guid track) = get_payment_routes_for_feed_track s h (tr_track_guid track)"
      unfolding get_payment_routes_for_feed_track_def delete_track_tables by (rule filt) (use ne in auto)
    have "filter (tri_owner h (tr_track_guid track)) (delete_where (tri_owner g t) xs) = filter (tri_owner h (tr_track_guid track)) xs" for xs
      by (rule filt) (use ne in \<open>auto simp: tri_owner_def\<close>)
    then show "get_track_remote_items_for_feed_track (delete_track_sql env g t s) h (tr_track_guid track) = get_track_remote_items_for_feed_track s h (tr_track_guid track)"
      by (simp add: get_track_remote_items_for_feed_track_def delete_track_tables)
  qed
  with assms(2) show ?thesis by (simp add: track_written_def b stale_removed_def Let_def)
qed

lemma track_written_fold:
  "tr_track_guid (fst b) \<notin> set ts \<Longrightarrow> track_written s b \<Longrightarrow> track_written (fold (stale_removed env g) ts s) b"
  by (induction ts arbitrary: s) (auto intro: track_written_stale)

section \<open>The log of an ingest\<close>

fun signed_rows :: "primary \<Rightarrow> int \<Rightarrow> new_event list \<Rightarrow> event_row list" where
  "signed_rows pm n [] = []"
| "signed_rows pm n (er # ers) = signed_row pm er n # signed_rows pm (n + 1) ers"

definition row_receipt :: "event_row \<Rightarrow> int \<times> string \<times> string" where
  "row_receipt r = (er_seq r, er_signed_by r, er_signature r)"

lemma next_seq_snoc: "er_seq r = next_seq s \<Longrightarrow> next_seq (s\<lparr>t_events := t_events s @ [r]\<rparr>) = next_seq s + 1"
  by (cases "t_events s") (auto simp: next_seq_def)

lemma insert_all_run:
  "dcollect (insert_new_event pm) ers s = (Inr seqs, s') \<Longrightarrow>
    s' = s\<lparr>t_events := t_events s @ signed_rows pm (next_seq s) ers\<rparr>
    \<and> seqs = map row_receipt (signed_rows pm (next_seq s) ers)"
proof (induction ers arbitrary: s seqs)
  case (Cons er ers)
  then obtain x s1 ys where run: "insert_new_event pm er s = (Inr x, s1)"
    "dcollect (insert_new_event pm) ers s1 = (Inr ys, s')" "seqs = x # ys"
    by (auto simp: dbind_Inr dret_def)
  then have new: "\<not> event_id_taken (nw_event_id er) s"
    using insert_new_event_error [of er s pm] by auto
  let ?r = "signed_row pm er (next_seq s)"
  have s1: "s1 = s\<lparr>t_events := t_events s @ [?r]\<rparr>" "x = row_receipt ?r"
    using run(1) insert_new_event_ok [OF new, of pm] by (simp_all add: row_receipt_def)
  have "next_seq s1 = next_seq s + 1" unfolding s1 by (rule next_seq_snoc) simp
  with Cons.IH [OF run(2)] show ?case by (simp add: s1 run(3))
qed (simp add: dret_def)

text \<open>The removals of one ingest, and all the events of it.\<close>

definition removals_of :: "primary \<Rightarrow> feed_write \<Rightarrow> db \<Rightarrow> string list" where
  "removals_of pm w s = stale_guids pm w (map tr_track_guid (get_tracks_for_feed s (fe_feed_guid (fw_feed w))))"

definition ingest_events :: "primary \<Rightarrow> (nat \<Rightarrow> string) \<Rightarrow> feed_write \<Rightarrow> new_event list \<Rightarrow> db \<Rightarrow> new_event list" where
  "ingest_events pm uuid w rows s = rows @ with_ids uuid (map (track_removed_event pm (fw_feed w)) (removals_of pm w s))"

lemma tracks_before_tail:
  "keeps (\<lambda>s. t_tracks s = c) (ingest_feed_rows pm w)" "keeps (\<lambda>s. t_tracks s = c) (ingest_source_claims w)"
  "keeps (\<lambda>s. t_tracks s = c) (ingest_source_items w)"
  "keeps (\<lambda>s. t_events s = e) (ingest_feed_rows pm w)" "keeps (\<lambda>s. t_events s = e) (ingest_source_claims w)"
  "keeps (\<lambda>s. t_events s = e) (ingest_source_items w)"
  unfolding ingest_feed_rows_def ingest_source_claims_def ingest_source_items_def Let_def
  by (intro keeps_dseq keeps_dexec frame_replace frame_upserts; simp)+

lemma stale_removed_events [simp]: "t_events (fold (stale_removed env g) ts s) = t_events s"
  by (induction ts arbitrary: s) (simp_all add: stale_removed_def delete_track_sql_def)

text \<open>The states of a successful ingest.\<close>

lemma ingest_body_steps:
  assumes "ingest_body pm uuid now w rows mv s = (Inr seqs, s')"
  obtains s1 s2 s3 where
    "t_tracks s1 = t_tracks s" "t_events s1 = t_events s" "refs_ok s \<Longrightarrow> refs_ok s1"
    "dforeach ingest_track (fw_tracks w) s1 = (Inr (), s2)"
    "s3 = fold (stale_removed (pm_env pm) (fe_feed_guid (fw_feed w))) (removals_of pm w s) s2"
    "t_tracks s' = t_tracks s3" "t_payment_routes s' = t_payment_routes s3"
    "t_track_remote_items_raw s' = t_track_remote_items_raw s3"
    "t_events s' = t_events s @ signed_rows pm (next_seq s) (ingest_events pm uuid w rows s)"
    "seqs = map row_receipt (signed_rows pm (next_seq s) (ingest_events pm uuid w rows s))"
proof -
  let ?g = "fe_feed_guid (fw_feed w)" and ?rm = "stale_removed (pm_env pm) (fe_feed_guid (fw_feed w))"
  from assms obtain a b s1 s2 s4 s5 s6 x where pre: "ingest_feed_rows pm w s = (Inr (), a)" "ingest_source_claims w a = (Inr (), b)"
      "ingest_source_items w b = (Inr (), s1)"
    and tracks: "dforeach ingest_track (fw_tracks w) s1 = (Inr (), s2)"
    and ins: "dcollect (insert_new_event pm) (rows @ with_ids uuid (map (track_removed_event pm (fw_feed w))
        (stale_guids pm w (map tr_track_guid (get_tracks_for_feed s1 ?g)))))
      (fold ?rm (stale_guids pm w (map tr_track_guid (get_tracks_for_feed s1 ?g))) s2) = (Inr seqs, s4)"
    and sync: "sync_source_read_models_for_feed (pm_env pm) now ?g s4 = (Inr (), s5)"
    and move: "(case mv of None \<Rightarrow> dret () :: unit dbm | Some m \<Rightarrow> dexec (write_feed_move ?g m)) s5 = (Inr x, s')"
    unfolding ingest_body_tail ingest_tail_def Let_def dseq_Inr dbind_Inr
    by (auto simp: dread_def remove_all_run dret_def)
  note kept = tracks_before_tail [THEN keeps_read]
  have tr1: "t_tracks s1 = t_tracks s" and ev1: "t_events s1 = t_events s"
    using kept(1) [OF pre(1)] kept(2) [OF pre(2)] kept(3) [OF pre(3)] kept(4) [OF pre(1)] kept(5) [OF pre(2)] kept(6) [OF pre(3)]
    by simp_all
  have refs: "refs_ok s1" if "refs_ok s"
    using that pre refs_prefix(4,5,6) by (metis keepsD snd_conv)
  have stale: "stale_guids pm w (map tr_track_guid (get_tracks_for_feed s1 ?g)) = removals_of pm w s"
    by (simp add: removals_of_def get_tracks_for_feed_def tr1)
  let ?s3 = "fold ?rm (removals_of pm w s) s2"
  have ev2: "t_events s2 = t_events s1"
  proof (rule keeps_read [where get = t_events and m = "dforeach ingest_track (fw_tracks w)" and s = s1, OF _ tracks])
    show "keeps (\<lambda>s. t_events s = c) (dforeach ingest_track (fw_tracks w))" for c
      unfolding ingest_track_def
      by (auto intro!: keeps_dforeach keeps_dseq frame_replace frame_value_time_splits frame_upserts simp: Let_def split: prod.split)
  qed
  have nseq: "next_seq ?s3 = next_seq s" by (simp add: next_seq_def ev2 ev1)
  from insert_all_run [OF ins] have s4: "s4 = ?s3\<lparr>t_events := t_events s @ signed_rows pm (next_seq s) (ingest_events pm uuid w rows s)\<rparr>"
    and seqs: "seqs = map row_receipt (signed_rows pm (next_seq s) (ingest_events pm uuid w rows s))"
    by (simp_all add: stale nseq ev2 ev1 ingest_events_def)
  have same: "get s' = get s4" if "\<And>c. keeps (\<lambda>s. get s = c) (sync_source_read_models_for_feed (pm_env pm) now ?g)"
      "\<And>m s. get (write_feed_move ?g m s) = get s" for get :: "db \<Rightarrow> 'x"
    using keeps_read [where get = get and m = "sync_source_read_models_for_feed (pm_env pm) now ?g" and s = s4, OF that(1) sync] move that(2) by (auto simp: dret_def dexec_def split: option.splits)
  have mv: "t_tracks (write_feed_move g m s) = t_tracks s" "t_payment_routes (write_feed_move g m s) = t_payment_routes s"
    "t_track_remote_items_raw (write_feed_move g m s) = t_track_remote_items_raw s" "t_events (write_feed_move g m s) = t_events s" for g m s
    by (simp_all add: write_feed_move_def add_left_url_def remove_left_url_def Let_def split: option.split)
  show thesis
    by (rule that [OF tr1 ev1 refs tracks refl])
      (use seqs in \<open>simp_all add: same [of t_tracks] same [of t_payment_routes] same [of t_track_remote_items_raw] same [of t_events] frame_sync mv s4\<close>)
qed

section \<open>The result of an ingest\<close>

lemma ingest_result:
  assumes "refs_ok s" "rows_of_feed w" "list_all bundle_ok (fw_tracks w)"
    and "distinct (map (\<lambda>b. tr_track_guid (fst b)) (fw_tracks w))" "hash_ok (pm_hash_order pm)"
    and "ingest_transaction pm uuid now w rows mv s = (Inr seqs, s')"
  shows "feed_written s' (fw_feed w) \<and> stored_rows s' (fe_feed_guid (fw_feed w)) = written_rows w
    \<and> track_guids s' (fe_feed_guid (fw_feed w)) = (\<lambda>b. tr_track_guid (fst b)) ` set (fw_tracks w)
    \<and> list_all (track_written s') (fw_tracks w) \<and> refs_ok s'"
proof -
  let ?g = "fe_feed_guid (fw_feed w)" and ?new = "(\<lambda>b. tr_track_guid (fst b)) ` set (fw_tracks w)"
  have body: "ingest_body pm uuid now (dedupe_write w) rows mv s = (Inr seqs, s')"
    using assms(6) by (auto simp: ingest_transaction_def dtransaction_def split: prod.splits sum.splits)
  from ingest_body_steps [OF body] obtain s1 s2 s3 where
    t1: "t_tracks s1 = t_tracks s" and ok: "refs_ok s1"
    and tracks: "dforeach ingest_track (fw_tracks w) s1 = (Inr (), s2)"
    and s3: "s3 = fold (stale_removed (pm_env pm) ?g) (removals_of pm (dedupe_write w) s) s2"
    and t': "t_tracks s' = t_tracks s3" "t_payment_routes s' = t_payment_routes s3"
      "t_track_remote_items_raw s' = t_track_remote_items_raw s3"
    using assms(1) by (metis dedupe_write_feed(1,2))
  let ?old = "remdups (map tr_track_guid (get_tracks_for_feed s ?g))"
  have stale: "set (removals_of pm (dedupe_write w) s) = track_guids s ?g - ?new"
    using assms(5) by (auto simp: removals_of_def stale_guids_def hash_ok_def track_guids_def)
  have "track_guids s2 ?g = track_guids s ?g \<union> ?new"
    by (rule ensuresD [OF track_guids_ingest_all tracks])
      (use assms(2) in \<open>auto simp: rows_of_feed_def Let_def list_all_iff track_guids_def t1\<close>)
  moreover have "track_guids s' ?g = track_guids s3 ?g" by (simp add: track_guids_def t')
  ultimately have "track_guids s' ?g = ?new" by (auto simp: s3 track_guids_fold stale)
  moreover have "track_written s' b" if b: "b \<in> set (fw_tracks w)" for b
  proof -
    have "track_written s2 b"
      by (rule ensuresD [OF ingest_tracks_write [OF assms(3,4) b] tracks ok])
    then have "track_written s3 b"
      unfolding s3 by (rule track_written_fold [rotated]) (use b in \<open>auto simp: stale\<close>)
    then show ?thesis
      by (simp add: track_written_def get_track_for_feed_def get_payment_routes_for_feed_track_def
          get_track_remote_items_for_feed_track_def t' split: prod.splits)
  qed
  moreover have "feed_written s' (fw_feed w)"
    using ensuresD [OF ingest_body_feed [of "\<lambda>s. True"] body] by simp
  ultimately show ?thesis
    using ingest_rows [OF assms(1,2,6)] keepsD [OF keeps_ingest(1) assms(1), of pm uuid now w rows mv] assms(6)
    by (simp add: list_all_iff)
qed

lemma ingest_appends:
  assumes "ingest_transaction pm uuid now w rows mv s = (Inr seqs, s')"
  shows "t_events s' = t_events s @ signed_rows pm (next_seq s) (ingest_events pm uuid w rows s)
    \<and> seqs = map row_receipt (signed_rows pm (next_seq s) (ingest_events pm uuid w rows s))"
proof -
  have ev: "ingest_events pm uuid (dedupe_write w) rows s = ingest_events pm uuid w rows s"
    by (simp add: ingest_events_def removals_of_def)
  have body: "ingest_body pm uuid now (dedupe_write w) rows mv s = (Inr seqs, s')"
    using assms by (auto simp: ingest_transaction_def dtransaction_def split: prod.splits sum.splits)
  show ?thesis by (rule ingest_body_steps [OF body]) (simp add: ev)
qed

lemma ingest_failure: "ingest_transaction pm uuid now w rows mv s = (Inl e, s') \<Longrightarrow> s' = s"
  by (auto simp: ingest_transaction_def dtransaction_def split: prod.splits sum.splits)

section \<open>The same submission again\<close>

lemma existing_track_get:
  assumes "refs_ok s"
  shows "existing_track s g t = get_track_for_feed s g t"
proof -
  have "distinct (map track_key (t_tracks s))" using assms by (simp add: refs_ok_def tracks_ok_def)
  then show ?thesis
    unfolding existing_track_def get_track_for_feed_def lookup_by_def get_tracks_for_feed_def
  proof (induction "t_tracks s" arbitrary: s)
    case (Cons r rs)
    have rest: "map_of (rev (map (\<lambda>t. (tr_track_guid t, t)) (filter (\<lambda>t. tr_feed_guid t = g) rs))) t = find (\<lambda>r. track_key r = (g, t)) rs"
      using Cons.hyps(1) [of "empty_db\<lparr>t_tracks := rs\<rparr>"] Cons.prems Cons.hyps(2) [symmetric] by simp
    have new: "find (\<lambda>r. track_key r = (g, t)) rs = None" if "track_key r = (g, t)"
      using Cons.prems Cons.hyps(2) [symmetric] that by (auto simp: find_None_iff image_iff)
    show ?case
      unfolding Cons.hyps(2) [symmetric]
      using rest new by (auto simp: map_add_def track_key_def split: option.splits)
  qed simp
qed

text \<open>
  The submission lists its rows the way the store gives them back, as far as the comparisons read
  them. The live events are compared in one order on both sides.
\<close>

definition in_read_order :: "feed_write \<Rightarrow> bool" where
  "in_read_order w \<longleftrightarrow> (let r = written_rows w in
     map feed_route_content (rw_routes r) = map feed_route_content (fw_feed_routes w)
     \<and> map feed_list_value_content (rw_list_values r) = map feed_list_value_content (fw_feed_list_values w)
     \<and> map feed_remote_item_content (rw_remote_items r) = map feed_remote_item_content (fw_remote_items w)
     \<and> map contributor_claim_content (rw_contributor_claims r) = map contributor_claim_content (fw_source_contributor_claims w)
     \<and> map entity_id_content (rw_entity_ids r) = map entity_id_content (fw_source_entity_ids w)
     \<and> map entity_link_content (rw_entity_links r) = map entity_link_content (fw_source_entity_links w)
     \<and> map release_claim_content (rw_release_claims r) = map release_claim_content (fw_source_release_claims w)
     \<and> map item_enclosure_content (rw_item_enclosures r) = map item_enclosure_content (fw_source_item_enclosures w)
     \<and> map item_transcript_content (rw_item_transcripts r) = map item_transcript_content (fw_source_item_transcripts w)
     \<and> map platform_claim_content (rw_platform_claims r) = map platform_claim_content (fw_source_platform_claims w)
     \<and> list_all (\<lambda>(track, routes, splits, items). map track_remote_item_content (List.sort_key tri_position items)
          = map track_remote_item_content items) (fw_tracks w))"

lemma sort_key_map: "List.sort_key k (map f xs) = map f (List.sort_key (\<lambda>x. k (f x)) xs)"
proof (induction xs)
  case (Cons x xs)
  have "insort_key k (f x) (map f ys) = map f (insort_key (\<lambda>x. k (f x)) x ys)" for ys
    by (induction ys) auto
  with Cons show ?case by simp
qed simp

lemma sort_keys_twice:
  assumes "distinct (map k xs)"
  shows "List.sort_key k (List.sort_key j xs) = List.sort_key k xs"
  by (rule sort_key_inj_key_eq) (use assms in \<open>simp_all add: distinct_map\<close>)

lemma feed_content_created: "feed_content (f\<lparr>fe_created_at := c\<rparr>) = feed_content f"
  by (simp add: feed_content_def)

lemma track_content_created: "track_content (t\<lparr>tr_created_at := c\<rparr>) = track_content t"
  by (simp add: track_content_def)

lemma with_ids_Nil: "with_ids uuid mks = [] \<longleftrightarrow> mks = []"
  by (simp add: with_ids_def enumerate_eq_zip)

lemma emit_Nil [simp]: "emit b mk = [] \<longleftrightarrow> \<not> b"
  by (simp add: emit_def)

lemma track_events_again:
  assumes "refs_ok s" "track_written s (track, routes, splits, items)" "tr_feed_guid track = g"
  shows "track_diff_events json s g now ws (track, routes, splits, items) = [] \<longleftrightarrow>
    map track_remote_item_content (List.sort_key tri_position items) = map track_remote_item_content items"
proof -
  obtain c where row: "existing_track s g (tr_track_guid track) = Some (track\<lparr>tr_created_at := c\<rparr>)"
    using assms(2,3) by (auto simp: track_written_def existing_track_get [OF assms(1)] Let_def)
  have items: "map track_remote_item_content (get_track_remote_items_for_feed_track s g (tr_track_guid track)) =
      map track_remote_item_content (List.sort_key tri_position items)"
    using assms(2,3) by (auto simp: track_written_def Let_def sort_key_map track_remote_item_content_def)
  show ?thesis
    unfolding track_diff_events_def prod.case Let_def assms(3) row option.case changed_iffs items
    by (simp add: track_content_created)
qed

text \<open>Once stored, a submission differs from the store only in the order of its rows.\<close>

lemma same_submission_events:
  assumes "refs_ok s'" "rows_of_feed w" "feed_written s' (fw_feed w)"
    and "stored_rows s' (fe_feed_guid (fw_feed w)) = written_rows w" "list_all (track_written s') (fw_tracks w)"
  shows "build_diff_events json uuid' s' w now' ws = [] \<longleftrightarrow> in_read_order w"
proof -
  let ?g = "fe_feed_guid (fw_feed w)"
  obtain c where feed: "get_feed_by_guid s' ?g = Some ((fw_feed w)\<lparr>fe_created_at := c\<rparr>)"
    using assms(3) by (auto simp: feed_written_def)
  note rows = assms(4) [unfolded stored_rows_def, symmetric]
  have live: "List.sort_key le_live_item_guid (get_live_events_for_feed s' ?g) = dedupe_and_sort_live_events (fw_live_events w)"
  proof -
    have "get_live_events_for_feed s' ?g = rw_live_events (written_rows w)" by (simp add: rows)
    also have "List.sort_key le_live_item_guid \<dots> = dedupe_and_sort_live_events (fw_live_events w)"
      unfolding written_rows_def feed_rows.simps dedupe_and_sort_live_events_def
      by (rule sort_keys_twice) (rule dlive.keys_distinct)
    finally show ?thesis .
  qed
  have tracks: "concat (map (track_diff_events json s' ?g now' ws) (fw_tracks w)) = [] \<longleftrightarrow>
      list_all (\<lambda>(track, routes, splits, items). map track_remote_item_content (List.sort_key tri_position items)
        = map track_remote_item_content items) (fw_tracks w)"
  proof -
    have "track_diff_events json s' ?g now' ws b = [] \<longleftrightarrow> (case b of (track, routes, splits, items) \<Rightarrow>
        map track_remote_item_content (List.sort_key tri_position items) = map track_remote_item_content items)"
      if "b \<in> set (fw_tracks w)" for b
      using that assms(2,5) track_events_again [OF assms(1)]
      by (cases b) (auto simp: rows_of_feed_def Let_def list_all_iff)
    then show ?thesis by (simp add: list_all_iff)
  qed
  show ?thesis
    unfolding build_diff_events_def with_ids_Nil feed option.case build_changed_events_def Let_def append_is_Nil_conv
      emit_Nil changed_iffs live tracks in_read_order_def rows feed_rows.simps
    by (simp add: feed_content_created)
qed

text \<open>The sample submission meets the hypotheses of the properties.\<close>

lemma hash_ok_sample: "hash_ok (pm_hash_order sample_primary)"
  by (simp add: hash_ok_def sample_primary_def)

lemma sample_write_ok:
  "rows_of_feed sample_write" "list_all bundle_ok (fw_tracks sample_write)"
  "distinct (map (\<lambda>b. tr_track_guid (fst b)) (fw_tracks sample_write))" "in_read_order sample_write"
  by code_simp+

lemmas sample_ingest = refs_ok_empty sample_write_ok(1-3) hash_ok_sample

section \<open>Properties of an ingest\<close>

text \<open>
  C2: A successful ingest leaves for the feed exactly what was submitted: the feed itself, the rows of
  every child table (the first of each key, in reading order), and as tracks exactly the submitted
  ones, each with its payment routes and remote items; tracks the submission no longer has are gone.
\<close>

theorem ingest_stores_submission:
  assumes "refs_ok s" "rows_of_feed w" "list_all bundle_ok (fw_tracks w)"
    and "distinct (map (\<lambda>b. tr_track_guid (fst b)) (fw_tracks w))" "hash_ok (pm_hash_order pm)"
    and "ingest_transaction pm uuid now w rows mv s = (Inr seqs, s')"
  shows "feed_written s' (fw_feed w) \<and> stored_rows s' (fe_feed_guid (fw_feed w)) = written_rows w
    \<and> track_guids s' (fe_feed_guid (fw_feed w)) = (\<lambda>b. tr_track_guid (fst b)) ` set (fw_tracks w)
    \<and> list_all (track_written s') (fw_tracks w)"
  using ingest_result [OF assms] by simp

lemma ingest_stores_submission_witness:
  "\<exists>seqs s'. sample_run = (Inr seqs, s') \<and> track_guids s' ''g1'' = {''t1''}
     \<and> stored_rows s' ''g1'' = written_rows sample_write"
proof -
  obtain seqs s' where r: "sample_run = (Inr seqs, s')" using sample_run_Inr by blast
  have "fe_feed_guid (fw_feed sample_write) = ''g1''" "(\<lambda>b. tr_track_guid (fst b)) ` set (fw_tracks sample_write) = {''t1''}"
    by code_simp+
  then show ?thesis
    using ingest_stores_submission [OF sample_ingest r [unfolded sample_run_def]] r by auto
qed

text \<open>
  C5: A successful ingest appends to the log the given events and one removal for each track it drops,
  numbered on without a gap and signed over their numbers, and returns the number and signature of
  each; a failed one changes nothing at all.
\<close>

theorem ingest_log:
  "case ingest_transaction pm uuid now w rows mv s of
     (Inr seqs, s') \<Rightarrow> t_events s' = t_events s @ signed_rows pm (next_seq s) (ingest_events pm uuid w rows s)
       \<and> seqs = map row_receipt (signed_rows pm (next_seq s) (ingest_events pm uuid w rows s))
   | (Inl e, s') \<Rightarrow> s' = s"
  using ingest_appends [of pm uuid now w rows mv s] ingest_failure [of pm uuid now w rows mv s]
  by (auto split: prod.split sum.split)

text \<open>C6: An ingest keeps keys, checks, foreign keys, the search index and the log well formed.\<close>

theorem ingest_keeps_store_ok:
  assumes "store_ok (pm_env pm) s"
  shows "store_ok (pm_env pm) (snd (ingest_transaction pm uuid now w rows mv s))"
  using assms keeps_ingest by (auto simp: store_ok_split keeps_def)

lemma ingest_keeps_store_ok_witness: "store_ok (pm_env sample_primary) (snd sample_run)"
  using ingest_keeps_store_ok [OF empty_store_ok] by (simp add: sample_run_def)

text \<open>
  C7: Once a submission is stored, the same submission produces no event exactly when it lists its
  rows in reading order; rows in another order are taken for a change and sent again.
\<close>

theorem same_submission_is_silent_iff:
  assumes "refs_ok s" "rows_of_feed w" "list_all bundle_ok (fw_tracks w)"
    and "distinct (map (\<lambda>b. tr_track_guid (fst b)) (fw_tracks w))" "hash_ok (pm_hash_order pm)"
    and "ingest_transaction pm uuid now w rows mv s = (Inr seqs, s')"
  shows "build_diff_events json uuid' s' w now' ws = [] \<longleftrightarrow> in_read_order w"
  using same_submission_events [of s' w] ingest_result [OF assms] assms(2) by simp

lemma same_submission_is_silent_iff_witness:
  "build_diff_events (pm_json sample_primary) uuid_at (snd sample_run) sample_write 12 [] = []"
proof -
  obtain seqs s' where r: "sample_run = (Inr seqs, s')" using sample_run_Inr by blast
  show ?thesis
    unfolding r snd_conv
    using same_submission_is_silent_iff [OF sample_ingest r [unfolded sample_run_def]] sample_write_ok(4) by blast
qed

end
