(* ===== verification/Converge.thy ===== *)
theory Converge
  imports Ingested
begin

text \<open>
  Replication of an ingest: the events that the primary emits for a submission carry a community node
  whose view of the feed agrees with the primary's before the ingest to the primary's view after it.
  The view is what the comparisons of the diff read.
\<close>

section \<open>Tables that are compared and replaced\<close>

text \<open>
  What makes a skipped event harmless: the comparison sees the sort key, the deduplication key and
  everything of the view (\<open>norm\<close>), and storing a row changes none of them.
\<close>

locale diffed_rows =
  fixes content :: "'r \<Rightarrow> 'r" and norm :: "'r \<Rightarrow> 'r" and stored :: "'r \<Rightarrow> 'r"
    and key :: "'r \<Rightarrow> 'k::linorder" and dedupe :: "'r list \<Rightarrow> 'r list" and uniq :: "'r list \<Rightarrow> bool"
  assumes norm_content: "norm (content r) = norm r"
    and key_content: "key (content r) = key r"
    and key_stored: "key (stored r) = key r"
    and norm_stored: "norm (stored r) = norm r"
    and uniq_content: "uniq (map content xs) = uniq xs"
    and uniq_dedupe: "uniq xs \<Longrightarrow> dedupe xs = xs"
begin

lemma map_factor:
  assumes "map content xs = map content ys" "\<And>r. f (content r) = f r"
  shows "map f xs = map f ys"
proof -
  have "map f zs = map f (map content zs)" for zs by (simp add: assms(2))
  then show ?thesis using assms(1) by metis
qed

text \<open>A list that compares as unchanged would be stored and read back as what is there already.\<close>

lemma unchanged_written:
  assumes "map content old = map content xs" "sorted (map key old)" "uniq old"
  shows "map norm (List.sort_key key (map stored (dedupe xs))) = map norm old"
proof -
  have "dedupe xs = xs" using assms(1,3) uniq_content uniq_dedupe by metis
  moreover have "map key xs = map key old" using map_factor [OF assms(1), of key] key_content by simp
  then have "List.sort_key key (map stored xs) = map stored xs"
    using assms(2) by (simp add: sort_key_map key_stored sort_key_id_if_sorted)
  moreover have "map norm xs = map norm old" using map_factor [OF assms(1), of norm] norm_content by simp
  ultimately show ?thesis by (simp add: norm_stored comp_def)
qed

text \<open>
  Hence the replica, which replaces its rows exactly when the comparison on the primary tells a
  change, ends with the primary's view.
\<close>

lemma replicated:
  assumes "map norm replica = map norm old" "sorted (map key old)" "uniq old"
    and "\<not> sent \<Longrightarrow> map content old = map content xs"
    and "replica' = (if sent then List.sort_key key (map stored (dedupe xs)) else replica)"
  shows "map norm replica' = map norm (List.sort_key key (map stored (dedupe xs)))"
  using assms unchanged_written by (cases sent) simp_all

end

lemma non_empty_idem: "non_empty (non_empty t) = non_empty t"
  by (simp add: non_empty_def split: option.split)

lemma sort_key_const [simp]: "List.sort_key (\<lambda>x. c) xs = xs"
  by (rule sort_key_id_if_sorted) (induction xs, simp_all)

interpretation d_routes: diffed_rows feed_route_content "(\<lambda>r. feed_route_content (stored_feed_payment_route r))" stored_feed_payment_route
  "(\<lambda>r. 0::nat)" "(\<lambda>xs. xs)" "(\<lambda>xs. True)"
  by unfold_locales (simp_all add: feed_route_content_def stored_feed_payment_route_def non_empty_idem)

interpretation d_list_values: diffed_rows feed_list_value_content "(\<lambda>r. feed_list_value_content (stored_feed_list_value r))" stored_feed_list_value
  "flv_position" "(\<lambda>xs. xs)" "(\<lambda>xs. True)"
  by unfold_locales (simp_all add: feed_list_value_content_def stored_feed_list_value_def non_empty_idem)

interpretation d_remote_items: diffed_rows feed_remote_item_content feed_remote_item_content "(\<lambda>r. r\<lparr>fri_id := None\<rparr>)"
  "fri_position" "(\<lambda>xs. xs)" "(\<lambda>xs. True)"
  by unfold_locales (simp_all add: feed_remote_item_content_def)

interpretation d_live_events: diffed_rows live_event_content live_event_content "(\<lambda>r. r)"
  "le_live_item_guid" dedupe_live_events "(\<lambda>xs. distinct (map le_live_item_guid xs))"
  by unfold_locales (simp_all add: live_event_content_def comp_def dlive.distinct_unchanged)

interpretation d_contributor_claims: diffed_rows contributor_claim_content contributor_claim_content "(\<lambda>r. r\<lparr>scc_id := None\<rparr>)"
  "(\<lambda>r. (scc_entity_type r, scc_entity_id r, scc_position r))" dedupe_source_contributor_claims "(\<lambda>xs. distinct (map scc_key xs))"
  by unfold_locales (simp_all add: contributor_claim_content_def comp_def dcontrib.distinct_unchanged scc_key_def [abs_def])

interpretation d_entity_ids: diffed_rows entity_id_content entity_id_content "(\<lambda>r. r\<lparr>sei_id := None\<rparr>)"
  "(\<lambda>r. (sei_entity_type r, sei_entity_id r, sei_position r, sei_scheme r, sei_value r))" dedupe_source_entity_ids "(\<lambda>xs. distinct (map sei_key xs))"
  by unfold_locales (simp_all add: entity_id_content_def comp_def dids.distinct_unchanged sei_key_def [abs_def])

interpretation d_entity_links: diffed_rows entity_link_content entity_link_content "(\<lambda>r. r\<lparr>sel_id := None\<rparr>)"
  "(\<lambda>r. (sel_entity_type r, sel_entity_id r, sel_position r, sel_link_type r, sel_url r))" dedupe_source_entity_links "(\<lambda>xs. distinct (map sel_key xs))"
  by unfold_locales (simp_all add: entity_link_content_def comp_def dlinks.distinct_unchanged sel_key_def [abs_def])

interpretation d_release_claims: diffed_rows release_claim_content release_claim_content "(\<lambda>r. r\<lparr>src_id := None\<rparr>)"
  "(\<lambda>r. (src_entity_type r, src_entity_id r, src_claim_type r, src_position r))" dedupe_source_release_claims "(\<lambda>xs. distinct (map src_key xs))"
  by unfold_locales (simp_all add: release_claim_content_def comp_def drelease.distinct_unchanged src_key_def [abs_def])

interpretation d_item_enclosures: diffed_rows item_enclosure_content item_enclosure_content "(\<lambda>r. r\<lparr>sie_id := None\<rparr>)"
  "(\<lambda>r. (sie_entity_type r, sie_entity_id r, sie_position r, sie_url r))" dedupe_source_item_enclosures "(\<lambda>xs. distinct (map sie_key xs))"
  by unfold_locales (simp_all add: item_enclosure_content_def comp_def denclosures.distinct_unchanged sie_key_def [abs_def])

interpretation d_item_transcripts: diffed_rows item_transcript_content item_transcript_content "(\<lambda>r. r\<lparr>sit_id := None\<rparr>)"
  "(\<lambda>r. (sit_entity_type r, sit_entity_id r, sit_position r, sit_url r))" dedupe_source_item_transcripts "(\<lambda>xs. distinct (map sit_key xs))"
  by unfold_locales (simp_all add: item_transcript_content_def comp_def dtranscripts.distinct_unchanged sit_key_def [abs_def])

interpretation d_platform_claims: diffed_rows platform_claim_content platform_claim_content "(\<lambda>r. r\<lparr>spc_id := None\<rparr>)"
  "(\<lambda>r. (spc_platform_key r, spc_extraction_path r, spc_url r, spc_owner_name r))" "(\<lambda>xs. xs)" "(\<lambda>xs. True)"
  by unfold_locales (simp_all add: platform_claim_content_def)

interpretation d_track_items: diffed_rows track_remote_item_content track_remote_item_content
  "\<lambda>r. r\<lparr>tri_id := None, tri_feed_guid := g, tri_track_guid := t\<rparr>" tri_position "\<lambda>xs. xs" "\<lambda>xs. True" for g t
  by unfold_locales (simp_all add: track_remote_item_content_def)

section \<open>What an applied event leaves alone\<close>

lemma registry_tables [simp]:
  "t_feeds (upsert_feed_url_observation u g n s) = t_feeds s"
  "t_feed_payment_routes (upsert_feed_url_observation u g n s) = t_feed_payment_routes s"
  "t_feed_list_value_raw (upsert_feed_url_observation u g n s) = t_feed_list_value_raw s"
  "t_feed_remote_items_raw (upsert_feed_url_observation u g n s) = t_feed_remote_items_raw s"
  "t_live_events (upsert_feed_url_observation u g n s) = t_live_events s"
  "t_source_contributor_claims (upsert_feed_url_observation u g n s) = t_source_contributor_claims s"
  "t_source_entity_ids (upsert_feed_url_observation u g n s) = t_source_entity_ids s"
  "t_source_entity_links (upsert_feed_url_observation u g n s) = t_source_entity_links s"
  "t_source_release_claims (upsert_feed_url_observation u g n s) = t_source_release_claims s"
  "t_source_item_enclosures (upsert_feed_url_observation u g n s) = t_source_item_enclosures s"
  "t_source_item_transcripts (upsert_feed_url_observation u g n s) = t_source_item_transcripts s"
  "t_source_platform_claims (upsert_feed_url_observation u g n s) = t_source_platform_claims s"
  "t_tracks (upsert_feed_url_observation u g n s) = t_tracks s"
  "t_track_remote_items_raw (upsert_feed_url_observation u g n s) = t_track_remote_items_raw s"
  "t_feeds (snd (insert_feed_block lc b s)) = t_feeds s"
  "t_feed_payment_routes (snd (insert_feed_block lc b s)) = t_feed_payment_routes s"
  "t_feed_list_value_raw (snd (insert_feed_block lc b s)) = t_feed_list_value_raw s"
  "t_feed_remote_items_raw (snd (insert_feed_block lc b s)) = t_feed_remote_items_raw s"
  "t_live_events (snd (insert_feed_block lc b s)) = t_live_events s"
  "t_source_contributor_claims (snd (insert_feed_block lc b s)) = t_source_contributor_claims s"
  "t_source_entity_ids (snd (insert_feed_block lc b s)) = t_source_entity_ids s"
  "t_source_entity_links (snd (insert_feed_block lc b s)) = t_source_entity_links s"
  "t_source_release_claims (snd (insert_feed_block lc b s)) = t_source_release_claims s"
  "t_source_item_enclosures (snd (insert_feed_block lc b s)) = t_source_item_enclosures s"
  "t_source_item_transcripts (snd (insert_feed_block lc b s)) = t_source_item_transcripts s"
  "t_source_platform_claims (snd (insert_feed_block lc b s)) = t_source_platform_claims s"
  "t_tracks (snd (insert_feed_block lc b s)) = t_tracks s"
  "t_track_remote_items_raw (snd (insert_feed_block lc b s)) = t_track_remote_items_raw s"
  "t_feeds (snd (delete_feed_block i s)) = t_feeds s"
  "t_feed_payment_routes (snd (delete_feed_block i s)) = t_feed_payment_routes s"
  "t_feed_list_value_raw (snd (delete_feed_block i s)) = t_feed_list_value_raw s"
  "t_feed_remote_items_raw (snd (delete_feed_block i s)) = t_feed_remote_items_raw s"
  "t_live_events (snd (delete_feed_block i s)) = t_live_events s"
  "t_source_contributor_claims (snd (delete_feed_block i s)) = t_source_contributor_claims s"
  "t_source_entity_ids (snd (delete_feed_block i s)) = t_source_entity_ids s"
  "t_source_entity_links (snd (delete_feed_block i s)) = t_source_entity_links s"
  "t_source_release_claims (snd (delete_feed_block i s)) = t_source_release_claims s"
  "t_source_item_enclosures (snd (delete_feed_block i s)) = t_source_item_enclosures s"
  "t_source_item_transcripts (snd (delete_feed_block i s)) = t_source_item_transcripts s"
  "t_source_platform_claims (snd (delete_feed_block i s)) = t_source_platform_claims s"
  "t_tracks (snd (delete_feed_block i s)) = t_tracks s"
  "t_track_remote_items_raw (snd (delete_feed_block i s)) = t_track_remote_items_raw s"
  "t_feeds (upsert_feed_copy_summary g u n cs d od s) = t_feeds s"
  "t_feed_payment_routes (upsert_feed_copy_summary g u n cs d od s) = t_feed_payment_routes s"
  "t_feed_list_value_raw (upsert_feed_copy_summary g u n cs d od s) = t_feed_list_value_raw s"
  "t_feed_remote_items_raw (upsert_feed_copy_summary g u n cs d od s) = t_feed_remote_items_raw s"
  "t_live_events (upsert_feed_copy_summary g u n cs d od s) = t_live_events s"
  "t_source_contributor_claims (upsert_feed_copy_summary g u n cs d od s) = t_source_contributor_claims s"
  "t_source_entity_ids (upsert_feed_copy_summary g u n cs d od s) = t_source_entity_ids s"
  "t_source_entity_links (upsert_feed_copy_summary g u n cs d od s) = t_source_entity_links s"
  "t_source_release_claims (upsert_feed_copy_summary g u n cs d od s) = t_source_release_claims s"
  "t_source_item_enclosures (upsert_feed_copy_summary g u n cs d od s) = t_source_item_enclosures s"
  "t_source_item_transcripts (upsert_feed_copy_summary g u n cs d od s) = t_source_item_transcripts s"
  "t_source_platform_claims (upsert_feed_copy_summary g u n cs d od s) = t_source_platform_claims s"
  "t_tracks (upsert_feed_copy_summary g u n cs d od s) = t_tracks s"
  "t_track_remote_items_raw (upsert_feed_copy_summary g u n cs d od s) = t_track_remote_items_raw s"
  "t_feeds (delete_guid_change u s) = t_feeds s"
  "t_feed_payment_routes (delete_guid_change u s) = t_feed_payment_routes s"
  "t_feed_list_value_raw (delete_guid_change u s) = t_feed_list_value_raw s"
  "t_feed_remote_items_raw (delete_guid_change u s) = t_feed_remote_items_raw s"
  "t_live_events (delete_guid_change u s) = t_live_events s"
  "t_source_contributor_claims (delete_guid_change u s) = t_source_contributor_claims s"
  "t_source_entity_ids (delete_guid_change u s) = t_source_entity_ids s"
  "t_source_entity_links (delete_guid_change u s) = t_source_entity_links s"
  "t_source_release_claims (delete_guid_change u s) = t_source_release_claims s"
  "t_source_item_enclosures (delete_guid_change u s) = t_source_item_enclosures s"
  "t_source_item_transcripts (delete_guid_change u s) = t_source_item_transcripts s"
  "t_source_platform_claims (delete_guid_change u s) = t_source_platform_claims s"
  "t_tracks (delete_guid_change u s) = t_tracks s"
  "t_track_remote_items_raw (delete_guid_change u s) = t_track_remote_items_raw s"
  "t_feeds (upsert_guid_change u g h n s) = t_feeds s"
  "t_feed_payment_routes (upsert_guid_change u g h n s) = t_feed_payment_routes s"
  "t_feed_list_value_raw (upsert_guid_change u g h n s) = t_feed_list_value_raw s"
  "t_feed_remote_items_raw (upsert_guid_change u g h n s) = t_feed_remote_items_raw s"
  "t_live_events (upsert_guid_change u g h n s) = t_live_events s"
  "t_source_contributor_claims (upsert_guid_change u g h n s) = t_source_contributor_claims s"
  "t_source_entity_ids (upsert_guid_change u g h n s) = t_source_entity_ids s"
  "t_source_entity_links (upsert_guid_change u g h n s) = t_source_entity_links s"
  "t_source_release_claims (upsert_guid_change u g h n s) = t_source_release_claims s"
  "t_source_item_enclosures (upsert_guid_change u g h n s) = t_source_item_enclosures s"
  "t_source_item_transcripts (upsert_guid_change u g h n s) = t_source_item_transcripts s"
  "t_source_platform_claims (upsert_guid_change u g h n s) = t_source_platform_claims s"
  "t_tracks (upsert_guid_change u g h n s) = t_tracks s"
  "t_track_remote_items_raw (upsert_guid_change u g h n s) = t_track_remote_items_raw s"
  "t_feeds (insert_guid_supersession g h u n s) = t_feeds s"
  "t_feed_payment_routes (insert_guid_supersession g h u n s) = t_feed_payment_routes s"
  "t_feed_list_value_raw (insert_guid_supersession g h u n s) = t_feed_list_value_raw s"
  "t_feed_remote_items_raw (insert_guid_supersession g h u n s) = t_feed_remote_items_raw s"
  "t_live_events (insert_guid_supersession g h u n s) = t_live_events s"
  "t_source_contributor_claims (insert_guid_supersession g h u n s) = t_source_contributor_claims s"
  "t_source_entity_ids (insert_guid_supersession g h u n s) = t_source_entity_ids s"
  "t_source_entity_links (insert_guid_supersession g h u n s) = t_source_entity_links s"
  "t_source_release_claims (insert_guid_supersession g h u n s) = t_source_release_claims s"
  "t_source_item_enclosures (insert_guid_supersession g h u n s) = t_source_item_enclosures s"
  "t_source_item_transcripts (insert_guid_supersession g h u n s) = t_source_item_transcripts s"
  "t_source_platform_claims (insert_guid_supersession g h u n s) = t_source_platform_claims s"
  "t_tracks (insert_guid_supersession g h u n s) = t_tracks s"
  "t_track_remote_items_raw (insert_guid_supersession g h u n s) = t_track_remote_items_raw s"
  by (simp_all add: upsert_feed_url_observation_def insert_feed_block_def delete_feed_block_def Let_def
      upsert_feed_copy_summary_def delete_guid_change_def upsert_guid_change_def insert_guid_supersession_def
      del: exists_where_iff)

lemma delete_track_tables_kept [simp]:
  "t_feeds (delete_track_sql env g t s) = t_feeds s"
  "t_feed_payment_routes (delete_track_sql env g t s) = t_feed_payment_routes s"
  "t_feed_list_value_raw (delete_track_sql env g t s) = t_feed_list_value_raw s"
  "t_feed_remote_items_raw (delete_track_sql env g t s) = t_feed_remote_items_raw s"
  "t_live_events (delete_track_sql env g t s) = t_live_events s"
  "t_source_contributor_claims (delete_track_sql env g t s) = t_source_contributor_claims s"
  "t_source_entity_ids (delete_track_sql env g t s) = t_source_entity_ids s"
  "t_source_entity_links (delete_track_sql env g t s) = t_source_entity_links s"
  "t_source_release_claims (delete_track_sql env g t s) = t_source_release_claims s"
  "t_source_item_enclosures (delete_track_sql env g t s) = t_source_item_enclosures s"
  "t_source_item_transcripts (delete_track_sql env g t s) = t_source_item_transcripts s"
  "t_source_platform_claims (delete_track_sql env g t s) = t_source_platform_claims s"
  by (simp_all add: delete_track_sql_def)

lemma frame_statements [frame_intros]:
  "(\<And>f s. P (t_feed_copies_update f s) = P s) \<Longrightarrow> keeps P (set_feed_copy_resolution g u d r n rd od)"
  "(\<And>f s. P (t_feed_guid_changes_update f s) = P s) \<Longrightarrow> keeps P (set_guid_change_decision u d r n)"
proof -
  show "keeps P (set_feed_copy_resolution g u d r n rd od)" if p: "\<And>f s. P (t_feed_copies_update f s) = P s"
  proof -
    have "P (s\<lparr>t_feed_copies := x\<rparr>) = P s" for x s using p [of "\<lambda>_. x" s] by simp
    then show ?thesis unfolding set_feed_copy_resolution_def by (intro keeps_dstmt) simp
  qed
  show "keeps P (set_guid_change_decision u d r n)" if p: "\<And>f s. P (t_feed_guid_changes_update f s) = P s"
  proof -
    have "P (s\<lparr>t_feed_guid_changes := x\<rparr>) = P s" for x s using p [of "\<lambda>_. x" s] by simp
    then show ?thesis unfolding set_guid_change_decision_def by (intro keeps_dstmt) simp
  qed
qed

text \<open>A payload of another type, short of a retirement, leaves the rows of a table.\<close>

lemmas apply_frame_intros = frame_intros keeps_dseq keeps_dbind keeps_dread keeps_dret keeps_dexec keeps_case_option keeps_if

lemma apply_frame_feed:
  "payload_type p \<noteq> FeedUpserted \<Longrightarrow> payload_type p \<noteq> FeedRetired \<Longrightarrow> keeps (\<lambda>s. get_feed_by_guid s g = c) (apply_payload nd now ca p)"
  by (cases p; simp only: payload_type.simps apply_payload.simps Let_def not_True_eq_False HOL.simp_thms(6);
      (intro apply_frame_intros; simp add: get_feed_by_guid_def)?)

lemma apply_frame_routes:
  "payload_type p \<noteq> FeedRoutesReplaced \<Longrightarrow> payload_type p \<noteq> FeedRetired \<Longrightarrow> keeps (\<lambda>s. get_feed_payment_routes_for_feed s g = c) (apply_payload nd now ca p)"
  by (cases p; simp only: payload_type.simps apply_payload.simps Let_def not_True_eq_False HOL.simp_thms(6);
      (intro apply_frame_intros; simp add: get_feed_payment_routes_for_feed_def)?)

lemma apply_frame_list_values:
  "payload_type p \<noteq> FeedListValueReplaced \<Longrightarrow> payload_type p \<noteq> FeedRetired \<Longrightarrow> keeps (\<lambda>s. get_feed_list_value_raw_for_feed s g = c) (apply_payload nd now ca p)"
  by (cases p; simp only: payload_type.simps apply_payload.simps Let_def not_True_eq_False HOL.simp_thms(6);
      (intro apply_frame_intros; simp add: get_feed_list_value_raw_for_feed_def)?)

lemma apply_frame_remote_items:
  "payload_type p \<noteq> FeedRemoteItemsReplaced \<Longrightarrow> payload_type p \<noteq> FeedRetired \<Longrightarrow> keeps (\<lambda>s. get_feed_remote_items_for_feed s g = c) (apply_payload nd now ca p)"
  by (cases p; simp only: payload_type.simps apply_payload.simps Let_def not_True_eq_False HOL.simp_thms(6);
      (intro apply_frame_intros; simp add: get_feed_remote_items_for_feed_def)?)

lemma apply_frame_live_events:
  "payload_type p \<noteq> LiveEventsReplaced \<Longrightarrow> payload_type p \<noteq> FeedRetired \<Longrightarrow> keeps (\<lambda>s. get_live_events_for_feed s g = c) (apply_payload nd now ca p)"
  by (cases p; simp only: payload_type.simps apply_payload.simps Let_def not_True_eq_False HOL.simp_thms(6);
      (intro apply_frame_intros; simp add: get_live_events_for_feed_def)?)

lemma apply_frame_contributor_claims:
  "payload_type p \<noteq> SourceContributorClaimsReplaced \<Longrightarrow> payload_type p \<noteq> FeedRetired \<Longrightarrow> keeps (\<lambda>s. get_source_contributor_claims_for_feed s g = c) (apply_payload nd now ca p)"
  by (cases p; simp only: payload_type.simps apply_payload.simps Let_def not_True_eq_False HOL.simp_thms(6);
      (intro apply_frame_intros; simp add: get_source_contributor_claims_for_feed_def)?)

lemma apply_frame_entity_ids:
  "payload_type p \<noteq> SourceEntityIdsReplaced \<Longrightarrow> payload_type p \<noteq> FeedRetired \<Longrightarrow> keeps (\<lambda>s. get_source_entity_ids_for_feed s g = c) (apply_payload nd now ca p)"
  by (cases p; simp only: payload_type.simps apply_payload.simps Let_def not_True_eq_False HOL.simp_thms(6);
      (intro apply_frame_intros; simp add: get_source_entity_ids_for_feed_def)?)

lemma apply_frame_entity_links:
  "payload_type p \<noteq> SourceEntityLinksReplaced \<Longrightarrow> payload_type p \<noteq> FeedRetired \<Longrightarrow> keeps (\<lambda>s. get_source_entity_links_for_feed s g = c) (apply_payload nd now ca p)"
  by (cases p; simp only: payload_type.simps apply_payload.simps Let_def not_True_eq_False HOL.simp_thms(6);
      (intro apply_frame_intros; simp add: get_source_entity_links_for_feed_def)?)

lemma apply_frame_release_claims:
  "payload_type p \<noteq> SourceReleaseClaimsReplaced \<Longrightarrow> payload_type p \<noteq> FeedRetired \<Longrightarrow> keeps (\<lambda>s. get_source_release_claims_for_feed s g = c) (apply_payload nd now ca p)"
  by (cases p; simp only: payload_type.simps apply_payload.simps Let_def not_True_eq_False HOL.simp_thms(6);
      (intro apply_frame_intros; simp add: get_source_release_claims_for_feed_def)?)

lemma apply_frame_item_enclosures:
  "payload_type p \<noteq> SourceItemEnclosuresReplaced \<Longrightarrow> payload_type p \<noteq> FeedRetired \<Longrightarrow> keeps (\<lambda>s. get_source_item_enclosures_for_feed s g = c) (apply_payload nd now ca p)"
  by (cases p; simp only: payload_type.simps apply_payload.simps Let_def not_True_eq_False HOL.simp_thms(6);
      (intro apply_frame_intros; simp add: get_source_item_enclosures_for_feed_def)?)

lemma apply_frame_item_transcripts:
  "payload_type p \<noteq> SourceItemTranscriptsReplaced \<Longrightarrow> payload_type p \<noteq> FeedRetired \<Longrightarrow> keeps (\<lambda>s. get_source_item_transcripts_for_feed s g = c) (apply_payload nd now ca p)"
  by (cases p; simp only: payload_type.simps apply_payload.simps Let_def not_True_eq_False HOL.simp_thms(6);
      (intro apply_frame_intros; simp add: get_source_item_transcripts_for_feed_def)?)

lemma apply_frame_platform_claims:
  "payload_type p \<noteq> SourcePlatformClaimsReplaced \<Longrightarrow> payload_type p \<noteq> FeedRetired \<Longrightarrow> keeps (\<lambda>s. get_source_platform_claims_for_feed s g = c) (apply_payload nd now ca p)"
  by (cases p; simp only: payload_type.simps apply_payload.simps Let_def not_True_eq_False HOL.simp_thms(6);
      (intro apply_frame_intros; simp add: get_source_platform_claims_for_feed_def)?)

section \<open>The last writer of a run\<close>

text \<open>
  A successful run of calls, of which those with \<open>W\<close> set a read to one value and the others keep it.
\<close>

lemma dforeach_writer:
  assumes "dforeach f ps s = (Inr (), s')" "P s" "\<And>p. p \<in> set ps \<Longrightarrow> keeps P (f p)"
    and frame: "\<And>p c. p \<in> set ps \<Longrightarrow> \<not> W p \<Longrightarrow> ensures (\<lambda>s. P s \<and> get s = c) (f p) (\<lambda>s. get s = c)"
    and writer: "\<And>p. p \<in> set ps \<Longrightarrow> W p \<Longrightarrow> ensures P (f p) (\<lambda>s. get s = v)"
  shows "get s' = (if \<exists>p\<in>set ps. W p then v else get s)"
  using assms
proof (induction ps arbitrary: s)
  case (Cons p ps)
  obtain s1 where run: "f p s = (Inr (), s1)" "dforeach f ps s1 = (Inr (), s')"
    using Cons.prems(1) by (auto simp: dseq_Inr)
  have s1: "P s1" using Cons.prems(2,3) run(1) by (metis keepsD list.set_intros(1) snd_conv)
  have first: "get s1 = (if W p then v else get s)"
    using Cons.prems(2,4,5) run(1) unfolding ensures_def by (metis list.set_intros(1))
  have "get s' = (if \<exists>p\<in>set ps. W p then v else get s1)"
    by (rule Cons.IH [OF run(2) s1]) (use Cons.prems(3,4,5) in auto)
  with first show ?case by auto
qed (simp add: dret_def)

lemma ensures_frame: "keeps (\<lambda>s. get s = c) m \<Longrightarrow> ensures (\<lambda>s. P s \<and> get s = c) m (\<lambda>s. get s = c)"
  by (rule ensures_weaken [OF keeps_ensures]) simp_all

section \<open>The payloads of a diff\<close>

text \<open>The payloads that can be built for a submission, and that the receiver decodes what the primary encodes.\<close>

definition submission_payloads :: "feed_write \<Rightarrow> event_payload set" where
  "submission_payloads w = {
       FeedUpsertedP \<lparr>fu_feed = fw_feed w, fu_reason = None\<rparr>,
       FeedRoutesReplacedP \<lparr>frr_feed_guid = fe_feed_guid (fw_feed w), frr_routes = fw_feed_routes w\<rparr>,
       FeedListValueReplacedP \<lparr>flr_feed_guid = fe_feed_guid (fw_feed w), flr_list_values = fw_feed_list_values w\<rparr>,
       FeedRemoteItemsReplacedP \<lparr>frir_feed_guid = fe_feed_guid (fw_feed w), frir_remote_items = fw_remote_items w\<rparr>,
       LiveEventsReplacedP \<lparr>ler_feed_guid = fe_feed_guid (fw_feed w), ler_live_events = dedupe_and_sort_live_events (fw_live_events w)\<rparr>,
       SourceContributorClaimsReplacedP \<lparr>sccr_feed_guid = fe_feed_guid (fw_feed w), sccr_claims = fw_source_contributor_claims w\<rparr>,
       SourceEntityIdsReplacedP \<lparr>seir_feed_guid = fe_feed_guid (fw_feed w), seir_claims = fw_source_entity_ids w\<rparr>,
       SourceEntityLinksReplacedP \<lparr>selr_feed_guid = fe_feed_guid (fw_feed w), selr_links = fw_source_entity_links w\<rparr>,
       SourceReleaseClaimsReplacedP \<lparr>srcr_feed_guid = fe_feed_guid (fw_feed w), srcr_claims = fw_source_release_claims w\<rparr>,
       SourceItemEnclosuresReplacedP \<lparr>sier_feed_guid = fe_feed_guid (fw_feed w), sier_enclosures = fw_source_item_enclosures w\<rparr>,
       SourceItemTranscriptsReplacedP \<lparr>sitr_feed_guid = fe_feed_guid (fw_feed w), sitr_transcripts = fw_source_item_transcripts w\<rparr>,
       SourcePlatformClaimsReplacedP \<lparr>spcr_feed_guid = fe_feed_guid (fw_feed w), spcr_claims = fw_source_platform_claims w\<rparr>}
     \<union> (\<Union>(tr, rs, vs, its)\<in>set (fw_tracks w). {TrackUpsertedP \<lparr>tu_track = tr, tu_routes = rs, tu_value_time_splits = vs\<rparr>,
         TrackRemoteItemsReplacedP \<lparr>trir_track_guid = tr_track_guid tr, trir_feed_guid = Some (tr_feed_guid tr), trir_remote_items = its\<rparr>})
     \<union> range (\<lambda>t. TrackRemovedP \<lparr>trm_track_guid = t, trm_feed_guid = fe_feed_guid (fw_feed w)\<rparr>)"

definition json_ok :: "(event_type \<Rightarrow> string \<Rightarrow> event_payload option) \<Rightarrow> (event_payload \<Rightarrow> string) \<Rightarrow> feed_write \<Rightarrow> bool" where
  "json_ok parse json w \<longleftrightarrow> (\<forall>p\<in>submission_payloads w. parse (payload_type p) (json p) = Some p)"

definition payload_in :: "(event_type \<Rightarrow> string \<Rightarrow> event_payload option) \<Rightarrow> new_event \<Rightarrow> event_payload" where
  "payload_in parse er = the (parse (nw_event_type er) (nw_payload_json er))"

lemmas builder_defs = build_feed_upserted_event_def build_feed_routes_event_def build_feed_list_value_event_def
  build_feed_remote_items_event_def build_track_remote_items_event_def build_live_events_event_def
  build_source_contributor_claims_event_def build_source_entity_ids_event_def build_source_entity_links_event_def
  build_source_release_claims_event_def build_source_item_enclosures_event_def build_source_item_transcripts_event_def
  build_source_platform_claims_event_def build_track_upserted_event_def

definition mk_payload :: "(event_type \<Rightarrow> string \<Rightarrow> event_payload option) \<Rightarrow> (string \<Rightarrow> new_event) \<Rightarrow> event_payload" where
  "mk_payload parse mk = payload_in parse (mk [])"

definition id_free :: "(event_type \<Rightarrow> string \<Rightarrow> event_payload option) \<Rightarrow> (string \<Rightarrow> new_event) \<Rightarrow> bool" where
  "id_free parse mk \<longleftrightarrow> (\<forall>i. payload_in parse (mk i) = mk_payload parse mk)"

lemma payloads_with_ids:
  assumes "\<forall>mk\<in>set mks. id_free parse mk"
  shows "map (payload_in parse) (with_ids uuid mks) = map (mk_payload parse) mks"
  using assms by (intro nth_equalityI) (auto simp: with_ids_def id_free_def enumerate_eq_zip nth_zip)

lemma json_payload: "json_ok parse json w \<Longrightarrow> p \<in> submission_payloads w \<Longrightarrow> parse (payload_type p) (json p) = Some p"
  by (simp add: json_ok_def)

lemma built_payloads:
  "FeedUpsertedP \<lparr>fu_feed = fw_feed w, fu_reason = None\<rparr> \<in> submission_payloads w"
  "FeedRoutesReplacedP \<lparr>frr_feed_guid = fe_feed_guid (fw_feed w), frr_routes = fw_feed_routes w\<rparr> \<in> submission_payloads w"
  "FeedListValueReplacedP \<lparr>flr_feed_guid = fe_feed_guid (fw_feed w), flr_list_values = fw_feed_list_values w\<rparr> \<in> submission_payloads w"
  "FeedRemoteItemsReplacedP \<lparr>frir_feed_guid = fe_feed_guid (fw_feed w), frir_remote_items = fw_remote_items w\<rparr> \<in> submission_payloads w"
  "LiveEventsReplacedP \<lparr>ler_feed_guid = fe_feed_guid (fw_feed w), ler_live_events = dedupe_and_sort_live_events (fw_live_events w)\<rparr> \<in> submission_payloads w"
  "SourceContributorClaimsReplacedP \<lparr>sccr_feed_guid = fe_feed_guid (fw_feed w), sccr_claims = fw_source_contributor_claims w\<rparr> \<in> submission_payloads w"
  "SourceEntityIdsReplacedP \<lparr>seir_feed_guid = fe_feed_guid (fw_feed w), seir_claims = fw_source_entity_ids w\<rparr> \<in> submission_payloads w"
  "SourceEntityLinksReplacedP \<lparr>selr_feed_guid = fe_feed_guid (fw_feed w), selr_links = fw_source_entity_links w\<rparr> \<in> submission_payloads w"
  "SourceReleaseClaimsReplacedP \<lparr>srcr_feed_guid = fe_feed_guid (fw_feed w), srcr_claims = fw_source_release_claims w\<rparr> \<in> submission_payloads w"
  "SourceItemEnclosuresReplacedP \<lparr>sier_feed_guid = fe_feed_guid (fw_feed w), sier_enclosures = fw_source_item_enclosures w\<rparr> \<in> submission_payloads w"
  "SourceItemTranscriptsReplacedP \<lparr>sitr_feed_guid = fe_feed_guid (fw_feed w), sitr_transcripts = fw_source_item_transcripts w\<rparr> \<in> submission_payloads w"
  "SourcePlatformClaimsReplacedP \<lparr>spcr_feed_guid = fe_feed_guid (fw_feed w), spcr_claims = fw_source_platform_claims w\<rparr> \<in> submission_payloads w"
  "(tr, rs, vs, its) \<in> set (fw_tracks w) \<Longrightarrow> TrackUpsertedP \<lparr>tu_track = tr, tu_routes = rs, tu_value_time_splits = vs\<rparr> \<in> submission_payloads w"
  "(tr, rs, vs, its) \<in> set (fw_tracks w) \<Longrightarrow> TrackRemoteItemsReplacedP \<lparr>trir_track_guid = tr_track_guid tr,
     trir_feed_guid = Some (tr_feed_guid tr), trir_remote_items = its\<rparr> \<in> submission_payloads w"
  "TrackRemovedP \<lparr>trm_track_guid = t, trm_feed_guid = fe_feed_guid (fw_feed w)\<rparr> \<in> submission_payloads w"
proof -
  assume b: "(tr, rs, vs, its) \<in> set (fw_tracks w)"
  show "TrackUpsertedP \<lparr>tu_track = tr, tu_routes = rs, tu_value_time_splits = vs\<rparr> \<in> submission_payloads w"
    "TrackRemoteItemsReplacedP \<lparr>trir_track_guid = tr_track_guid tr,
     trir_feed_guid = Some (tr_feed_guid tr), trir_remote_items = its\<rparr> \<in> submission_payloads w"
    unfolding submission_payloads_def using b by (intro UnI1 UnI2 UN_I [OF b]; simp)+
qed (simp_all add: submission_payloads_def)

lemmas json_types = json_payload [OF _ built_payloads(1), simplified payload_type.simps]
  json_payload [OF _ built_payloads(2), simplified payload_type.simps]
  json_payload [OF _ built_payloads(3), simplified payload_type.simps]
  json_payload [OF _ built_payloads(4), simplified payload_type.simps]
  json_payload [OF _ built_payloads(5), simplified payload_type.simps]
  json_payload [OF _ built_payloads(6), simplified payload_type.simps]
  json_payload [OF _ built_payloads(7), simplified payload_type.simps]
  json_payload [OF _ built_payloads(8), simplified payload_type.simps]
  json_payload [OF _ built_payloads(9), simplified payload_type.simps]
  json_payload [OF _ built_payloads(10), simplified payload_type.simps]
  json_payload [OF _ built_payloads(11), simplified payload_type.simps]
  json_payload [OF _ built_payloads(12), simplified payload_type.simps]
  json_payload [OF _ built_payloads(13), simplified payload_type.simps]
  json_payload [OF _ built_payloads(14), simplified payload_type.simps]
  json_payload [OF _ built_payloads(15), simplified payload_type.simps]

lemma builder_payloads:
  assumes "json_ok parse json w"
  shows "id_free parse (build_feed_upserted_event json (fw_feed w) now ws)"
    "mk_payload parse (build_feed_upserted_event json (fw_feed w) now ws) = FeedUpsertedP \<lparr>fu_feed = fw_feed w, fu_reason = None\<rparr>"
    "(tr, rs, vs, its) \<in> set (fw_tracks w) \<Longrightarrow> id_free parse (build_track_upserted_event json tr rs vs now ws)"
    "(tr, rs, vs, its) \<in> set (fw_tracks w) \<Longrightarrow> mk_payload parse (build_track_upserted_event json tr rs vs now ws) = TrackUpsertedP \<lparr>tu_track = tr, tu_routes = rs, tu_value_time_splits = vs\<rparr>"
    "(tr, rs, vs, its) \<in> set (fw_tracks w) \<Longrightarrow> id_free parse (build_track_remote_items_event json tr its now ws)"
    "(tr, rs, vs, its) \<in> set (fw_tracks w) \<Longrightarrow> mk_payload parse (build_track_remote_items_event json tr its now ws) =
      TrackRemoteItemsReplacedP \<lparr>trir_track_guid = tr_track_guid tr, trir_feed_guid = Some (tr_feed_guid tr), trir_remote_items = its\<rparr>"
    "id_free parse (build_feed_routes_event json (fw_feed w) (fw_feed_routes w) now ws)"
    "mk_payload parse (build_feed_routes_event json (fw_feed w) (fw_feed_routes w) now ws) = FeedRoutesReplacedP \<lparr>frr_feed_guid = fe_feed_guid (fw_feed w), frr_routes = fw_feed_routes w\<rparr>"
    "id_free parse (build_feed_list_value_event json (fw_feed w) (fw_feed_list_values w) now ws)"
    "mk_payload parse (build_feed_list_value_event json (fw_feed w) (fw_feed_list_values w) now ws) = FeedListValueReplacedP \<lparr>flr_feed_guid = fe_feed_guid (fw_feed w), flr_list_values = fw_feed_list_values w\<rparr>"
    "id_free parse (build_feed_remote_items_event json (fw_feed w) (fw_remote_items w) now ws)"
    "mk_payload parse (build_feed_remote_items_event json (fw_feed w) (fw_remote_items w) now ws) = FeedRemoteItemsReplacedP \<lparr>frir_feed_guid = fe_feed_guid (fw_feed w), frir_remote_items = fw_remote_items w\<rparr>"
    "id_free parse (build_live_events_event json (fw_feed w) (dedupe_and_sort_live_events (fw_live_events w)) now ws)"
    "mk_payload parse (build_live_events_event json (fw_feed w) (dedupe_and_sort_live_events (fw_live_events w)) now ws) = LiveEventsReplacedP \<lparr>ler_feed_guid = fe_feed_guid (fw_feed w), ler_live_events = dedupe_and_sort_live_events (fw_live_events w)\<rparr>"
    "id_free parse (build_source_contributor_claims_event json (fw_feed w) (fw_source_contributor_claims w) now ws)"
    "mk_payload parse (build_source_contributor_claims_event json (fw_feed w) (fw_source_contributor_claims w) now ws) = SourceContributorClaimsReplacedP \<lparr>sccr_feed_guid = fe_feed_guid (fw_feed w), sccr_claims = fw_source_contributor_claims w\<rparr>"
    "id_free parse (build_source_entity_ids_event json (fw_feed w) (fw_source_entity_ids w) now ws)"
    "mk_payload parse (build_source_entity_ids_event json (fw_feed w) (fw_source_entity_ids w) now ws) = SourceEntityIdsReplacedP \<lparr>seir_feed_guid = fe_feed_guid (fw_feed w), seir_claims = fw_source_entity_ids w\<rparr>"
    "id_free parse (build_source_entity_links_event json (fw_feed w) (fw_source_entity_links w) now ws)"
    "mk_payload parse (build_source_entity_links_event json (fw_feed w) (fw_source_entity_links w) now ws) = SourceEntityLinksReplacedP \<lparr>selr_feed_guid = fe_feed_guid (fw_feed w), selr_links = fw_source_entity_links w\<rparr>"
    "id_free parse (build_source_release_claims_event json (fw_feed w) (fw_source_release_claims w) now ws)"
    "mk_payload parse (build_source_release_claims_event json (fw_feed w) (fw_source_release_claims w) now ws) = SourceReleaseClaimsReplacedP \<lparr>srcr_feed_guid = fe_feed_guid (fw_feed w), srcr_claims = fw_source_release_claims w\<rparr>"
    "id_free parse (build_source_item_enclosures_event json (fw_feed w) (fw_source_item_enclosures w) now ws)"
    "mk_payload parse (build_source_item_enclosures_event json (fw_feed w) (fw_source_item_enclosures w) now ws) = SourceItemEnclosuresReplacedP \<lparr>sier_feed_guid = fe_feed_guid (fw_feed w), sier_enclosures = fw_source_item_enclosures w\<rparr>"
    "id_free parse (build_source_item_transcripts_event json (fw_feed w) (fw_source_item_transcripts w) now ws)"
    "mk_payload parse (build_source_item_transcripts_event json (fw_feed w) (fw_source_item_transcripts w) now ws) = SourceItemTranscriptsReplacedP \<lparr>sitr_feed_guid = fe_feed_guid (fw_feed w), sitr_transcripts = fw_source_item_transcripts w\<rparr>"
    "id_free parse (build_source_platform_claims_event json (fw_feed w) (fw_source_platform_claims w) now ws)"
    "mk_payload parse (build_source_platform_claims_event json (fw_feed w) (fw_source_platform_claims w) now ws) = SourcePlatformClaimsReplacedP \<lparr>spcr_feed_guid = fe_feed_guid (fw_feed w), spcr_claims = fw_source_platform_claims w\<rparr>"
  by (simp_all add: id_free_def mk_payload_def payload_in_def builder_defs json_types [OF assms])

text \<open>A set with an element or none.\<close>

definition sent_if :: "bool \<Rightarrow> 'a \<Rightarrow> 'a set" where
  "sent_if b p = (if b then {p} else {})"

lemma in_sent_if [simp]: "q \<in> sent_if b p \<longleftrightarrow> b \<and> q = p"
  by (simp add: sent_if_def)

definition feed_sent :: "db \<Rightarrow> feed \<Rightarrow> bool" where
  "feed_sent s f \<longleftrightarrow> map_option feed_content (get_feed_by_guid s (fe_feed_guid f)) \<noteq> Some (feed_content f)"

definition track_sent :: "db \<Rightarrow> string \<Rightarrow> track \<Rightarrow> bool" where
  "track_sent s g track \<longleftrightarrow> map_option track_content (get_track_for_feed s g (tr_track_guid track)) \<noteq> Some (track_content track)"

definition items_sent :: "db \<Rightarrow> string \<Rightarrow> track \<Rightarrow> track_remote_item_raw list \<Rightarrow> bool" where
  "items_sent s g track items \<longleftrightarrow> (let old = get_track_remote_items_for_feed_track s g (tr_track_guid track) in
     if track_sent s g track then items \<noteq> [] \<or> (get_track_for_feed s g (tr_track_guid track) \<noteq> None \<and> old \<noteq> [])
     else map track_remote_item_content old \<noteq> map track_remote_item_content items)"

definition bundle_payloads :: "db \<Rightarrow> string \<Rightarrow> track_ingest_bundle \<Rightarrow> event_payload set" where
  "bundle_payloads s g b = (case b of (track, routes, splits, items) \<Rightarrow>
     sent_if (track_sent s g track) (TrackUpsertedP \<lparr>tu_track = track, tu_routes = routes, tu_value_time_splits = splits\<rparr>)
     \<union> sent_if (items_sent s g track items) (TrackRemoteItemsReplacedP
         \<lparr>trir_track_guid = tr_track_guid track, trir_feed_guid = Some g, trir_remote_items = items\<rparr>))"

text \<open>What a submission sends, for a known feed and for a new one.\<close>

definition diff_payloads :: "db \<Rightarrow> feed_write \<Rightarrow> event_payload set" where
  "diff_payloads s w = (let f = fw_feed w; g = fe_feed_guid f in
     sent_if (feed_sent s f) (FeedUpsertedP \<lparr>fu_feed = f, fu_reason = None\<rparr>)
     \<union> sent_if (map feed_route_content (get_feed_payment_routes_for_feed s g) \<noteq> map feed_route_content (fw_feed_routes w))
         (FeedRoutesReplacedP \<lparr>frr_feed_guid = g, frr_routes = fw_feed_routes w\<rparr>)
     \<union> sent_if (map feed_list_value_content (get_feed_list_value_raw_for_feed s g) \<noteq> map feed_list_value_content (fw_feed_list_values w))
         (FeedListValueReplacedP \<lparr>flr_feed_guid = g, flr_list_values = fw_feed_list_values w\<rparr>)
     \<union> sent_if (map feed_remote_item_content (get_feed_remote_items_for_feed s g) \<noteq> map feed_remote_item_content (fw_remote_items w))
         (FeedRemoteItemsReplacedP \<lparr>frir_feed_guid = g, frir_remote_items = fw_remote_items w\<rparr>)
     \<union> sent_if (map contributor_claim_content (get_source_contributor_claims_for_feed s g) \<noteq> map contributor_claim_content (fw_source_contributor_claims w))
         (SourceContributorClaimsReplacedP \<lparr>sccr_feed_guid = g, sccr_claims = fw_source_contributor_claims w\<rparr>)
     \<union> sent_if (map entity_id_content (get_source_entity_ids_for_feed s g) \<noteq> map entity_id_content (fw_source_entity_ids w))
         (SourceEntityIdsReplacedP \<lparr>seir_feed_guid = g, seir_claims = fw_source_entity_ids w\<rparr>)
     \<union> sent_if (map entity_link_content (get_source_entity_links_for_feed s g) \<noteq> map entity_link_content (fw_source_entity_links w))
         (SourceEntityLinksReplacedP \<lparr>selr_feed_guid = g, selr_links = fw_source_entity_links w\<rparr>)
     \<union> sent_if (map release_claim_content (get_source_release_claims_for_feed s g) \<noteq> map release_claim_content (fw_source_release_claims w))
         (SourceReleaseClaimsReplacedP \<lparr>srcr_feed_guid = g, srcr_claims = fw_source_release_claims w\<rparr>)
     \<union> sent_if (map item_enclosure_content (get_source_item_enclosures_for_feed s g) \<noteq> map item_enclosure_content (fw_source_item_enclosures w))
         (SourceItemEnclosuresReplacedP \<lparr>sier_feed_guid = g, sier_enclosures = fw_source_item_enclosures w\<rparr>)
     \<union> sent_if (map item_transcript_content (get_source_item_transcripts_for_feed s g) \<noteq> map item_transcript_content (fw_source_item_transcripts w))
         (SourceItemTranscriptsReplacedP \<lparr>sitr_feed_guid = g, sitr_transcripts = fw_source_item_transcripts w\<rparr>)
     \<union> sent_if (map platform_claim_content (get_source_platform_claims_for_feed s g) \<noteq> map platform_claim_content (fw_source_platform_claims w))
         (SourcePlatformClaimsReplacedP \<lparr>spcr_feed_guid = g, spcr_claims = fw_source_platform_claims w\<rparr>)
     \<union> sent_if (map live_event_content (List.sort_key le_live_item_guid (get_live_events_for_feed s g)) \<noteq> map live_event_content (dedupe_and_sort_live_events (fw_live_events w)))
         (LiveEventsReplacedP \<lparr>ler_feed_guid = g, ler_live_events = dedupe_and_sort_live_events (fw_live_events w)\<rparr>)
     \<union> (\<Union>b\<in>set (fw_tracks w). bundle_payloads s g b))"

text \<open>A feed that is not stored has no rows.\<close>

lemma no_rows:
  assumes "\<not> feed_exists g s" "table_ok tab chk key (feed_fk guid) s"
  shows "filter (\<lambda>r. guid r = g) (tab s) = []"
  using assms by (auto simp: table_ok_def feed_fk_def list_all_iff filter_empty_conv)

lemma no_feed_no_rows:
  assumes "refs_ok s" "get_feed_by_guid s g = None"
  shows "get_tracks_for_feed s g = []" "get_feed_payment_routes_for_feed s g = []"
    "get_feed_list_value_raw_for_feed s g = []"
    "get_feed_remote_items_for_feed s g = []"
    "get_live_events_for_feed s g = []"
    "get_source_contributor_claims_for_feed s g = []"
    "get_source_entity_ids_for_feed s g = []"
    "get_source_entity_links_for_feed s g = []"
    "get_source_release_claims_for_feed s g = []"
    "get_source_item_enclosures_for_feed s g = []"
    "get_source_item_transcripts_for_feed s g = []"
    "get_source_platform_claims_for_feed s g = []"
proof -
  have no: "\<not> feed_exists g s" using assms(2) by (auto simp: get_feed_by_guid_def feed_exists_def)
  show "get_tracks_for_feed s g = []"
    using assms(1) no by (auto simp: refs_ok_def tracks_ok_def get_tracks_for_feed_def filter_empty_conv list_all_iff)
  show "get_feed_payment_routes_for_feed s g = []"
    using assms(1) no_rows [OF no, of t_feed_payment_routes fpr_check no_key fpr_feed_guid]
    by (simp add: refs_ok_def feed_children_ok_def get_feed_payment_routes_for_feed_def)
  show "get_feed_list_value_raw_for_feed s g = []"
    using assms(1) no_rows [OF no, of t_feed_list_value_raw flv_check no_key flv_feed_guid]
    by (simp add: refs_ok_def feed_children_ok_def get_feed_list_value_raw_for_feed_def)
  show "get_feed_remote_items_for_feed s g = []"
    using assms(1) no_rows [OF no, of t_feed_remote_items_raw any_row fri_key fri_feed_guid]
    by (simp add: refs_ok_def feed_children_ok_def get_feed_remote_items_for_feed_def)
  show "get_live_events_for_feed s g = []"
    using assms(1) no_rows [OF no, of t_live_events le_check le_key le_feed_guid]
    by (simp add: refs_ok_def feed_children_ok_def get_live_events_for_feed_def)
  show "get_source_contributor_claims_for_feed s g = []"
    using assms(1) no_rows [OF no, of t_source_contributor_claims scc_check "\<lambda>r. Some (scc_key r)" scc_feed_guid]
    by (simp add: refs_ok_def feed_children_ok_def get_source_contributor_claims_for_feed_def)
  show "get_source_entity_ids_for_feed s g = []"
    using assms(1) no_rows [OF no, of t_source_entity_ids sei_check "\<lambda>r. Some (sei_key r)" sei_feed_guid]
    by (simp add: refs_ok_def feed_children_ok_def get_source_entity_ids_for_feed_def)
  show "get_source_entity_links_for_feed s g = []"
    using assms(1) no_rows [OF no, of t_source_entity_links sel_check "\<lambda>r. Some (sel_key r)" sel_feed_guid]
    by (simp add: refs_ok_def feed_children_ok_def get_source_entity_links_for_feed_def)
  show "get_source_release_claims_for_feed s g = []"
    using assms(1) no_rows [OF no, of t_source_release_claims src_check "\<lambda>r. Some (src_key r)" src_feed_guid]
    by (simp add: refs_ok_def feed_children_ok_def get_source_release_claims_for_feed_def)
  show "get_source_item_enclosures_for_feed s g = []"
    using assms(1) no_rows [OF no, of t_source_item_enclosures sie_check "\<lambda>r. Some (sie_key r)" sie_feed_guid]
    by (simp add: refs_ok_def feed_children_ok_def get_source_item_enclosures_for_feed_def)
  show "get_source_item_transcripts_for_feed s g = []"
    using assms(1) no_rows [OF no, of t_source_item_transcripts sit_check "\<lambda>r. Some (sit_key r)" sit_feed_guid]
    by (simp add: refs_ok_def feed_children_ok_def get_source_item_transcripts_for_feed_def)
  show "get_source_platform_claims_for_feed s g = []"
    using assms(1) no_rows [OF no, of t_source_platform_claims any_row no_key spc_feed_guid]
    by (simp add: refs_ok_def feed_children_ok_def get_source_platform_claims_for_feed_def)
qed

lemma get_track_none: "get_tracks_for_feed s g = [] \<Longrightarrow> get_track_for_feed s g t = None"
  by (auto simp: get_tracks_for_feed_def get_track_for_feed_def track_key_def filter_empty_conv)

lemma map_emit [simp]: "set (map f (emit b mk)) = sent_if b (f mk)"
  by (simp add: emit_def sent_if_def)

lemma image_emit: "f ` set (emit b mk) = sent_if b (f mk)"
  by (simp add: emit_def sent_if_def)

lemma image_concat:
  "(\<And>b. b \<in> set bs \<Longrightarrow> f ` set (h b) = q b) \<Longrightarrow> f ` set (concat (map h bs)) = (\<Union>b\<in>set bs. q b)"
  by (induction bs) (simp_all add: image_Un)

lemma emit_id_free: "id_free parse mk \<Longrightarrow> \<forall>m\<in>set (emit b mk). id_free parse m"
  by (simp add: emit_def)

lemma changed_events_payloads:
  assumes "json_ok parse json w" "refs_ok s" "get_feed_by_guid s (fe_feed_guid (fw_feed w)) = Some ef" "rows_of_feed w"
  shows "\<forall>mk\<in>set (build_changed_events json s w now ws ef). id_free parse mk"
    and "mk_payload parse ` set (build_changed_events json s w now ws ef) = diff_payloads s w"
proof -
  let ?g = "fe_feed_guid (fw_feed w)"
  note bp = builder_payloads [OF assms(1)]
  have tr: "\<forall>mk\<in>set (track_diff_events json s ?g now ws b). id_free parse mk" if "b \<in> set (fw_tracks w)" for b
    using that by (auto simp: track_diff_events_def emit_def bp Let_def split: prod.splits)
  show "\<forall>mk\<in>set (build_changed_events json s w now ws ef). id_free parse mk"
    unfolding build_changed_events_def Let_def set_append set_concat ball_Un
    using tr by (auto simp: emit_def bp)
  have bund: "mk_payload parse ` set (track_diff_events json s ?g now ws b) = bundle_payloads s ?g b" if "b \<in> set (fw_tracks w)" for b
  proof -
    obtain track routes splits items where b: "b = (track, routes, splits, items)" by (cases b)
    have g: "tr_feed_guid track = ?g"
      using assms(4) that by (auto simp: rows_of_feed_def Let_def list_all_iff b)
    show ?thesis
      by (cases "get_track_for_feed s ?g (tr_track_guid track)")
        (simp_all add: track_diff_events_def bundle_payloads_def b existing_track_get [OF assms(2)] g track_sent_def items_sent_def
          Let_def image_Un image_emit bp bp(4,6) [OF that [unfolded b]] changed_iffs sent_if_def)
  qed
  have "mk_payload parse ` set (concat (map (track_diff_events json s ?g now ws) (fw_tracks w))) =
      (\<Union>b\<in>set (fw_tracks w). bundle_payloads s ?g b)"
    by (rule image_concat) (rule bund)
  then show "mk_payload parse ` set (build_changed_events json s w now ws ef) = diff_payloads s w"
    unfolding build_changed_events_def diff_payloads_def Let_def set_append image_Un image_emit bp changed_iffs
      feed_sent_def assms(3) option.map option.inject
    by (simp only: Un_assoc)
qed

lemma nil_map: "[] = map f xs \<longleftrightarrow> xs = []"
  by auto

lemma all_events_payloads:
  assumes "json_ok parse json w" "refs_ok s" "get_feed_by_guid s (fe_feed_guid (fw_feed w)) = None" "rows_of_feed w"
  shows "\<forall>mk\<in>set (build_all_events json w now ws). id_free parse mk"
    and "mk_payload parse ` set (build_all_events json w now ws) = diff_payloads s w"
proof -
  let ?g = "fe_feed_guid (fw_feed w)"
  note bp = builder_payloads [OF assms(1)] and none = no_feed_no_rows [OF assms(2,3)]
  show "\<forall>mk\<in>set (build_all_events json w now ws). id_free parse mk"
    unfolding build_all_events_def Let_def set_append set_concat ball_Un
    by (auto simp: emit_def bp)
  let ?of = "\<lambda>(track, routes, vts, items). emit True (build_track_upserted_event json track routes vts now ws)
          @ emit (items \<noteq> []) (build_track_remote_items_event json track items now ws)"
  have bund: "mk_payload parse ` set (?of b) = bundle_payloads s ?g b" if "b \<in> set (fw_tracks w)" for b
  proof -
    obtain track routes splits items where b: "b = (track, routes, splits, items)" by (cases b)
    have g: "tr_feed_guid track = ?g"
      using assms(4) that by (auto simp: rows_of_feed_def Let_def list_all_iff b)
    show ?thesis
      by (simp add: bundle_payloads_def b g track_sent_def items_sent_def get_track_none [OF none(1)] image_Un image_emit bp(4,6) [OF that [unfolded b]])
  qed
  have "mk_payload parse ` set (concat (map ?of (fw_tracks w))) = (\<Union>b\<in>set (fw_tracks w). bundle_payloads s ?g b)"
    by (rule image_concat) (rule bund)
  then show "mk_payload parse ` set (build_all_events json w now ws) = diff_payloads s w"
    unfolding build_all_events_def diff_payloads_def Let_def set_append image_Un image_emit bp none feed_sent_def assms(3)
      list.map sort_key_simps(1) nil_map
    by (simp only: Un_assoc option.map option.distinct simp_thms)
qed

lemma build_diff_payloads:
  assumes "json_ok parse json w" "refs_ok s" "rows_of_feed w"
  shows "payload_in parse ` set (build_diff_events json uuid s w now ws) = diff_payloads s w"
proof (cases "get_feed_by_guid s (fe_feed_guid (fw_feed w))")
  case None
  have "set (map (payload_in parse) (with_ids uuid (build_all_events json w now ws))) = diff_payloads s w"
    unfolding payloads_with_ids [OF all_events_payloads(1) [OF assms(1,2) None assms(3)]] set_map
    by (rule all_events_payloads(2) [OF assms(1,2) None assms(3)])
  with None show ?thesis by (simp add: build_diff_events_def)
next
  case (Some ef)
  have "set (map (payload_in parse) (with_ids uuid (build_changed_events json s w now ws ef))) = diff_payloads s w"
    unfolding payloads_with_ids [OF changed_events_payloads(1) [OF assms(1,2) Some assms(3)]] set_map
    by (rule changed_events_payloads(2) [OF assms(1,2) Some assms(3)])
  with Some show ?thesis by (simp add: build_diff_events_def)
qed

text \<open>With the removals, the payloads of an ingest.\<close>

lemma ingest_payloads:
  assumes "json_ok parse (pm_json pm) w" "refs_ok s" "rows_of_feed w"
  shows "payload_in parse ` set (ingest_events pm uuid w (build_diff_events (pm_json pm) uuid' s w now ws) s) =
    diff_payloads s w \<union> (\<lambda>t. TrackRemovedP \<lparr>trm_track_guid = t, trm_feed_guid = fe_feed_guid (fw_feed w)\<rparr>) ` set (removals_of pm w s)"
proof -
  have rem: "id_free parse (track_removed_event pm (fw_feed w) t)"
    "mk_payload parse (track_removed_event pm (fw_feed w) t) = TrackRemovedP \<lparr>trm_track_guid = t, trm_feed_guid = fe_feed_guid (fw_feed w)\<rparr>" for t
    by (simp_all add: id_free_def mk_payload_def payload_in_def track_removed_event_def json_types [OF assms(1)])
  have "set (map (payload_in parse) (with_ids uuid (map (track_removed_event pm (fw_feed w)) (removals_of pm w s)))) =
      (\<lambda>t. TrackRemovedP \<lparr>trm_track_guid = t, trm_feed_guid = fe_feed_guid (fw_feed w)\<rparr>) ` set (removals_of pm w s)"
    by (subst payloads_with_ids) (auto simp: rem)
  then show ?thesis
    unfolding ingest_events_def set_append image_Un build_diff_payloads [OF assms] by simp
qed

section \<open>The replica's tables\<close>

definition ingest_payload_set :: "primary \<Rightarrow> db \<Rightarrow> feed_write \<Rightarrow> event_payload set" where
  "ingest_payload_set pm s w = diff_payloads s w
     \<union> (\<lambda>t. TrackRemovedP \<lparr>trm_track_guid = t, trm_feed_guid = fe_feed_guid (fw_feed w)\<rparr>) ` set (removals_of pm w s)"

lemma sent_if_bex [simp]: "(\<exists>q\<in>sent_if b p. R q) \<longleftrightarrow> b \<and> R p"
  by (simp add: sent_if_def)

lemma bundle_types: "p \<in> bundle_payloads s g b \<Longrightarrow> payload_type p = TrackUpserted \<or> payload_type p = TrackRemoteItemsReplaced"
  by (cases b) (auto simp: bundle_payloads_def)

lemmas payload_set_defs = ingest_payload_set_def diff_payloads_def Let_def bex_Un

lemma no_retirement: "p \<in> ingest_payload_set pm s w \<Longrightarrow> payload_type p \<noteq> FeedRetired"
  by (auto simp: payload_set_defs dest: bundle_types)

lemma sent_feed:
  "p \<in> ingest_payload_set pm s w \<Longrightarrow> payload_type p = FeedUpserted \<Longrightarrow> p = FeedUpsertedP \<lparr>fu_feed = fw_feed w, fu_reason = None\<rparr>"
  "(\<exists>p\<in>ingest_payload_set pm s w. payload_type p = FeedUpserted) \<longleftrightarrow> feed_sent s (fw_feed w)"
  by (auto simp: payload_set_defs dest: bundle_types)

lemma sent_routes:
  "p \<in> ingest_payload_set pm s w \<Longrightarrow> payload_type p = FeedRoutesReplaced \<Longrightarrow>
    p = FeedRoutesReplacedP \<lparr>frr_feed_guid = fe_feed_guid (fw_feed w), frr_routes = fw_feed_routes w\<rparr>"
  "(\<exists>p\<in>ingest_payload_set pm s w. payload_type p = FeedRoutesReplaced) \<longleftrightarrow>
    map feed_route_content (get_feed_payment_routes_for_feed s (fe_feed_guid (fw_feed w))) \<noteq> map feed_route_content (fw_feed_routes w)"
  by (auto simp: payload_set_defs dest: bundle_types simp del: map_eq_conv)

lemma sent_list_values:
  "p \<in> ingest_payload_set pm s w \<Longrightarrow> payload_type p = FeedListValueReplaced \<Longrightarrow>
    p = FeedListValueReplacedP \<lparr>flr_feed_guid = fe_feed_guid (fw_feed w), flr_list_values = fw_feed_list_values w\<rparr>"
  "(\<exists>p\<in>ingest_payload_set pm s w. payload_type p = FeedListValueReplaced) \<longleftrightarrow>
    map feed_list_value_content (get_feed_list_value_raw_for_feed s (fe_feed_guid (fw_feed w))) \<noteq> map feed_list_value_content (fw_feed_list_values w)"
  by (auto simp: payload_set_defs dest: bundle_types simp del: map_eq_conv)

lemma sent_remote_items:
  "p \<in> ingest_payload_set pm s w \<Longrightarrow> payload_type p = FeedRemoteItemsReplaced \<Longrightarrow>
    p = FeedRemoteItemsReplacedP \<lparr>frir_feed_guid = fe_feed_guid (fw_feed w), frir_remote_items = fw_remote_items w\<rparr>"
  "(\<exists>p\<in>ingest_payload_set pm s w. payload_type p = FeedRemoteItemsReplaced) \<longleftrightarrow>
    map feed_remote_item_content (get_feed_remote_items_for_feed s (fe_feed_guid (fw_feed w))) \<noteq> map feed_remote_item_content (fw_remote_items w)"
  by (auto simp: payload_set_defs dest: bundle_types simp del: map_eq_conv)

lemma sent_live_events:
  "p \<in> ingest_payload_set pm s w \<Longrightarrow> payload_type p = LiveEventsReplaced \<Longrightarrow>
    p = LiveEventsReplacedP \<lparr>ler_feed_guid = fe_feed_guid (fw_feed w), ler_live_events = dedupe_and_sort_live_events (fw_live_events w)\<rparr>"
  "(\<exists>p\<in>ingest_payload_set pm s w. payload_type p = LiveEventsReplaced) \<longleftrightarrow>
    map live_event_content (List.sort_key le_live_item_guid (get_live_events_for_feed s (fe_feed_guid (fw_feed w)))) \<noteq> map live_event_content (dedupe_and_sort_live_events (fw_live_events w))"
  by (auto simp: payload_set_defs dest: bundle_types simp del: map_eq_conv)

lemma sent_contributor_claims:
  "p \<in> ingest_payload_set pm s w \<Longrightarrow> payload_type p = SourceContributorClaimsReplaced \<Longrightarrow>
    p = SourceContributorClaimsReplacedP \<lparr>sccr_feed_guid = fe_feed_guid (fw_feed w), sccr_claims = fw_source_contributor_claims w\<rparr>"
  "(\<exists>p\<in>ingest_payload_set pm s w. payload_type p = SourceContributorClaimsReplaced) \<longleftrightarrow>
    map contributor_claim_content (get_source_contributor_claims_for_feed s (fe_feed_guid (fw_feed w))) \<noteq> map contributor_claim_content (fw_source_contributor_claims w)"
  by (auto simp: payload_set_defs dest: bundle_types simp del: map_eq_conv)

lemma sent_entity_ids:
  "p \<in> ingest_payload_set pm s w \<Longrightarrow> payload_type p = SourceEntityIdsReplaced \<Longrightarrow>
    p = SourceEntityIdsReplacedP \<lparr>seir_feed_guid = fe_feed_guid (fw_feed w), seir_claims = fw_source_entity_ids w\<rparr>"
  "(\<exists>p\<in>ingest_payload_set pm s w. payload_type p = SourceEntityIdsReplaced) \<longleftrightarrow>
    map entity_id_content (get_source_entity_ids_for_feed s (fe_feed_guid (fw_feed w))) \<noteq> map entity_id_content (fw_source_entity_ids w)"
  by (auto simp: payload_set_defs dest: bundle_types simp del: map_eq_conv)

lemma sent_entity_links:
  "p \<in> ingest_payload_set pm s w \<Longrightarrow> payload_type p = SourceEntityLinksReplaced \<Longrightarrow>
    p = SourceEntityLinksReplacedP \<lparr>selr_feed_guid = fe_feed_guid (fw_feed w), selr_links = fw_source_entity_links w\<rparr>"
  "(\<exists>p\<in>ingest_payload_set pm s w. payload_type p = SourceEntityLinksReplaced) \<longleftrightarrow>
    map entity_link_content (get_source_entity_links_for_feed s (fe_feed_guid (fw_feed w))) \<noteq> map entity_link_content (fw_source_entity_links w)"
  by (auto simp: payload_set_defs dest: bundle_types simp del: map_eq_conv)

lemma sent_release_claims:
  "p \<in> ingest_payload_set pm s w \<Longrightarrow> payload_type p = SourceReleaseClaimsReplaced \<Longrightarrow>
    p = SourceReleaseClaimsReplacedP \<lparr>srcr_feed_guid = fe_feed_guid (fw_feed w), srcr_claims = fw_source_release_claims w\<rparr>"
  "(\<exists>p\<in>ingest_payload_set pm s w. payload_type p = SourceReleaseClaimsReplaced) \<longleftrightarrow>
    map release_claim_content (get_source_release_claims_for_feed s (fe_feed_guid (fw_feed w))) \<noteq> map release_claim_content (fw_source_release_claims w)"
  by (auto simp: payload_set_defs dest: bundle_types simp del: map_eq_conv)

lemma sent_item_enclosures:
  "p \<in> ingest_payload_set pm s w \<Longrightarrow> payload_type p = SourceItemEnclosuresReplaced \<Longrightarrow>
    p = SourceItemEnclosuresReplacedP \<lparr>sier_feed_guid = fe_feed_guid (fw_feed w), sier_enclosures = fw_source_item_enclosures w\<rparr>"
  "(\<exists>p\<in>ingest_payload_set pm s w. payload_type p = SourceItemEnclosuresReplaced) \<longleftrightarrow>
    map item_enclosure_content (get_source_item_enclosures_for_feed s (fe_feed_guid (fw_feed w))) \<noteq> map item_enclosure_content (fw_source_item_enclosures w)"
  by (auto simp: payload_set_defs dest: bundle_types simp del: map_eq_conv)

lemma sent_item_transcripts:
  "p \<in> ingest_payload_set pm s w \<Longrightarrow> payload_type p = SourceItemTranscriptsReplaced \<Longrightarrow>
    p = SourceItemTranscriptsReplacedP \<lparr>sitr_feed_guid = fe_feed_guid (fw_feed w), sitr_transcripts = fw_source_item_transcripts w\<rparr>"
  "(\<exists>p\<in>ingest_payload_set pm s w. payload_type p = SourceItemTranscriptsReplaced) \<longleftrightarrow>
    map item_transcript_content (get_source_item_transcripts_for_feed s (fe_feed_guid (fw_feed w))) \<noteq> map item_transcript_content (fw_source_item_transcripts w)"
  by (auto simp: payload_set_defs dest: bundle_types simp del: map_eq_conv)

lemma sent_platform_claims:
  "p \<in> ingest_payload_set pm s w \<Longrightarrow> payload_type p = SourcePlatformClaimsReplaced \<Longrightarrow>
    p = SourcePlatformClaimsReplacedP \<lparr>spcr_feed_guid = fe_feed_guid (fw_feed w), spcr_claims = fw_source_platform_claims w\<rparr>"
  "(\<exists>p\<in>ingest_payload_set pm s w. payload_type p = SourcePlatformClaimsReplaced) \<longleftrightarrow>
    map platform_claim_content (get_source_platform_claims_for_feed s (fe_feed_guid (fw_feed w))) \<noteq> map platform_claim_content (fw_source_platform_claims w)"
  by (auto simp: payload_set_defs dest: bundle_types simp del: map_eq_conv)

text \<open>An event that the community node applies, as the loop of a batch runs it; a duplicate is no success here.\<close>

definition applied_run :: "node \<Rightarrow> int \<Rightarrow> event \<Rightarrow> unit dbm" where
  "applied_run nd now ev = dbind (apply_single_event_inner nd now ev) (\<lambda>outcome. case outcome of
     Applied _ \<Rightarrow> dret () | Duplicate \<Rightarrow> dfail (Other ''duplicate''))"

definition event_payload_of :: "node \<Rightarrow> event \<Rightarrow> event_payload" where
  "event_payload_of nd ev = the (deserialize_verified_payload nd ev)"

lemma frame_insert_received:
  "(\<And>f s. P (t_events_update f s) = P s) \<Longrightarrow> keeps P (insert_received_event ev)"
proof -
  assume p: "\<And>f s. P (t_events_update f s) = P s"
  have "P (s\<lparr>t_events := x\<rparr>) = P s" for x s using p [of "\<lambda>_. x" s] by simp
  then show ?thesis by (simp add: keeps_def insert_received_event_result)
qed

lemma applied_run_Inr:
  assumes "applied_run nd now ev s = (Inr (), s')"
  obtains s1 where "s1 = snd (insert_received_event ev s)"
    "apply_payload nd now (ev_created_at ev) (event_payload_of nd ev) s1 = (Inr (), s')"
proof -
  from assms obtain r s2 where "apply_single_event_inner nd now ev s = (Inr r, s2)"
    and "(case r of Applied _ \<Rightarrow> dret () | Duplicate \<Rightarrow> dfail (Other ''duplicate'')) s2 = (Inr (), s')"
    by (auto simp: applied_run_def dbind_Inr)
  then obtain n where "apply_single_event_inner nd now ev s = (Inr (Applied n), s')"
    by (cases r) (auto simp: dret_def dfail_def)
  then obtain m s1 where ins: "insert_received_event ev s = (Inr m, s1)"
    and rest: "(case m of None \<Rightarrow> dret Duplicate | Some seq \<Rightarrow> (case deserialize_verified_payload nd ev of
        None \<Rightarrow> dfail (Json ''payload'')
      | Some p \<Rightarrow> dseq (apply_payload nd now (ev_created_at ev) p) (dret (Applied seq)))) s1 = (Inr (Applied n), s')"
    by (auto simp: apply_single_event_inner_def dbind_Inr)
  from rest have "apply_payload nd now (ev_created_at ev) (event_payload_of nd ev) s1 = (Inr (), s')"
    by (cases m; cases "deserialize_verified_payload nd ev") (auto simp: dret_def dfail_def dseq_Inr event_payload_of_def)
  with ins show thesis by (intro that) simp_all
qed

lemma keeps_applied_run:
  assumes "keeps P (insert_received_event ev)" "\<And>p. deserialize_verified_payload nd ev = Some p \<Longrightarrow> keeps P (apply_payload nd now (ev_created_at ev) p)"
  shows "keeps P (applied_run nd now ev)"
  unfolding applied_run_def apply_single_event_inner_def
  by (intro keeps_dbind assms(1)) (auto intro!: keeps_intros assms(2) split: option.split apply_outcome.split)

lemma ensures_applied:
  assumes "keeps P (insert_received_event ev)" "ensures P (apply_payload nd now (ev_created_at ev) (event_payload_of nd ev)) Q"
  shows "ensures P (applied_run nd now ev) Q"
  unfolding ensures_def
proof (intro allI impI)
  fix s x s' assume s: "P s" and "applied_run nd now ev s = (Inr x, s')"
  then obtain s1 where s1: "s1 = snd (insert_received_event ev s)"
    and run: "apply_payload nd now (ev_created_at ev) (event_payload_of nd ev) s1 = (Inr (), s')"
    by (auto elim!: applied_run_Inr)
  from s1 s have "P s1" using assms(1) by (simp add: keepsD)
  with ensuresD [OF assms(2) run] show "Q s'" by blast
qed

text \<open>A successful run of the events on the replica, read table by table.\<close>

lemma replica_reads:
  assumes "dforeach (applied_run nd now) evs s = (Inr (), s')" "refs_ok s" "event_payload_of nd ` set evs = PS"
    and "\<And>f s. get (t_events_update f s) = get s"
    and frame: "\<And>p c ca. p \<in> PS \<Longrightarrow> payload_type p \<noteq> T \<Longrightarrow> keeps (\<lambda>s. get s = c) (apply_payload nd now ca p)"
    and writer: "\<And>p ca. p \<in> PS \<Longrightarrow> payload_type p = T \<Longrightarrow> ensures refs_ok (apply_payload nd now ca p) (\<lambda>s. get s = v)"
  shows "get s' = (if \<exists>p\<in>PS. payload_type p = T then v else get s)"
proof -
  have "get s' = (if \<exists>ev\<in>set evs. payload_type (event_payload_of nd ev) = T then v else get s)"
  proof (rule dforeach_writer [where get = get and P = refs_ok and f = "applied_run nd now" and W = "\<lambda>ev. payload_type (event_payload_of nd ev) = T", OF assms(1,2)])
    show "keeps refs_ok (applied_run nd now ev)" for ev
      by (intro keeps_applied_run keeps_insert_received keeps_refs_apply_payload)
    show "ensures (\<lambda>s. refs_ok s \<and> get s = c) (applied_run nd now ev) (\<lambda>s. get s = c)"
      if "ev \<in> set evs" "\<not> payload_type (event_payload_of nd ev) = T" for ev c
      by (rule ensures_weaken [OF ensures_applied [of "\<lambda>s. get s = c"]])
        (use that assms(3,4) in \<open>auto intro!: frame_insert_received keeps_ensures frame\<close>)
    show "ensures refs_ok (applied_run nd now ev) (\<lambda>s. get s = v)"
      if "ev \<in> set evs" "payload_type (event_payload_of nd ev) = T" for ev
      by (rule ensures_applied [OF keeps_insert_received(1)], rule writer) (use that assms(3) in auto)
  qed
  moreover have "(\<exists>ev\<in>set evs. payload_type (event_payload_of nd ev) = T) \<longleftrightarrow> (\<exists>p\<in>PS. payload_type p = T)"
    by (simp only: assms(3) [symmetric] bex_simps)
  ultimately show ?thesis by simp
qed

lemma replica_feed:
  assumes "dforeach (applied_run nd now) evs s = (Inr (), s')" "refs_ok s" "event_payload_of nd ` set evs = ingest_payload_set pm sp w"
  shows "map_option feed_content (get_feed_by_guid s' (fe_feed_guid (fw_feed w))) =
    (if feed_sent sp (fw_feed w) then Some (feed_content (fw_feed w))
     else map_option feed_content (get_feed_by_guid s (fe_feed_guid (fw_feed w))))"
proof -
  have "map_option feed_content (get_feed_by_guid s' (fe_feed_guid (fw_feed w))) =
    (if \<exists>p\<in>ingest_payload_set pm sp w. payload_type p = FeedUpserted then Some (feed_content (fw_feed w))
     else map_option feed_content (get_feed_by_guid s (fe_feed_guid (fw_feed w))))"
  proof (rule replica_reads [OF assms(1-3)])
    fix f s show "map_option feed_content (get_feed_by_guid (t_events_update f s) (fe_feed_guid (fw_feed w))) =
        map_option feed_content (get_feed_by_guid s (fe_feed_guid (fw_feed w)))" by (simp add: get_feed_by_guid_def)
  next
    fix p c ca assume "p \<in> ingest_payload_set pm sp w" "payload_type p \<noteq> FeedUpserted"
    then have "keeps (\<lambda>s. get_feed_by_guid s (fe_feed_guid (fw_feed w)) = d) (apply_payload nd now ca p)" for d
      using no_retirement by (intro apply_frame_feed) auto
    then show "keeps (\<lambda>s. map_option feed_content (get_feed_by_guid s (fe_feed_guid (fw_feed w))) = c) (apply_payload nd now ca p)"
      unfolding keeps_def by metis
  next
    fix p ca assume "p \<in> ingest_payload_set pm sp w" "payload_type p = FeedUpserted"
    then have p: "p = FeedUpsertedP \<lparr>fu_feed = fw_feed w, fu_reason = None\<rparr>" using sent_feed(1) by blast
    have "ensures refs_ok (apply_payload nd now ca p) (\<lambda>s. feed_written s (fw_feed w))"
      unfolding p apply_payload.simps
      by (rule ensures_here, simp, rule ensures_feed) (intro frame_sync; simp add: feed_written_def get_feed_by_guid_def)
    then show "ensures refs_ok (apply_payload nd now ca p)
        (\<lambda>s. map_option feed_content (get_feed_by_guid s (fe_feed_guid (fw_feed w))) = Some (feed_content (fw_feed w)))"
      by (rule ensures_weaken) (auto simp: feed_written_def feed_content_created)
  qed
  then show ?thesis by (simp only: sent_feed(2))
qed

lemma list_all_live: "list_all P es \<Longrightarrow> list_all P (dedupe_and_sort_live_events es)"
  using dlive.dedupe_subset [of es] by (auto simp: list_all_iff dedupe_and_sort_live_events_def)

lemma replica_routes:
  assumes "dforeach (applied_run nd now) evs s = (Inr (), s')" "refs_ok s" "event_payload_of nd ` set evs = ingest_payload_set pm sp w" "rows_of_feed w"
  shows "get_feed_payment_routes_for_feed s' (fe_feed_guid (fw_feed w)) =
    (if map feed_route_content (get_feed_payment_routes_for_feed sp (fe_feed_guid (fw_feed w))) \<noteq> map feed_route_content (fw_feed_routes w)
     then map stored_feed_payment_route (fw_feed_routes w) else get_feed_payment_routes_for_feed s (fe_feed_guid (fw_feed w)))"
proof -
  have own: "list_all (\<lambda>r. fpr_feed_guid r = fe_feed_guid (fw_feed w)) (fw_feed_routes w)"
    using assms(4) by (simp add: rows_of_feed_def Let_def)
  have "get_feed_payment_routes_for_feed s' (fe_feed_guid (fw_feed w)) = (if \<exists>p\<in>ingest_payload_set pm sp w. payload_type p = FeedRoutesReplaced
     then map stored_feed_payment_route (fw_feed_routes w) else get_feed_payment_routes_for_feed s (fe_feed_guid (fw_feed w)))"
  proof (rule replica_reads [OF assms(1-3)])
    fix f s show "get_feed_payment_routes_for_feed (t_events_update f s) (fe_feed_guid (fw_feed w)) = get_feed_payment_routes_for_feed s (fe_feed_guid (fw_feed w))" by (simp add: get_feed_payment_routes_for_feed_def)
  next
    fix p c ca assume "p \<in> ingest_payload_set pm sp w" "payload_type p \<noteq> FeedRoutesReplaced"
    then show "keeps (\<lambda>s. get_feed_payment_routes_for_feed s (fe_feed_guid (fw_feed w)) = c) (apply_payload nd now ca p)"
      using no_retirement by (intro apply_frame_routes) auto
  next
    fix p ca assume "p \<in> ingest_payload_set pm sp w" "payload_type p = FeedRoutesReplaced"
    then have "p = FeedRoutesReplacedP \<lparr>frr_feed_guid = fe_feed_guid (fw_feed w), frr_routes = fw_feed_routes w\<rparr>" using sent_routes(1) by blast
    then show "ensures refs_ok (apply_payload nd now ca p) (\<lambda>s. get_feed_payment_routes_for_feed s (fe_feed_guid (fw_feed w)) = map stored_feed_payment_route (fw_feed_routes w))"
      using ensures_routes [OF own] by simp
  qed
  then show ?thesis by (simp only: sent_routes(2))
qed

lemma replica_list_values:
  assumes "dforeach (applied_run nd now) evs s = (Inr (), s')" "refs_ok s" "event_payload_of nd ` set evs = ingest_payload_set pm sp w" "rows_of_feed w"
  shows "get_feed_list_value_raw_for_feed s' (fe_feed_guid (fw_feed w)) =
    (if map feed_list_value_content (get_feed_list_value_raw_for_feed sp (fe_feed_guid (fw_feed w))) \<noteq> map feed_list_value_content (fw_feed_list_values w)
     then List.sort_key flv_position (map stored_feed_list_value (fw_feed_list_values w)) else get_feed_list_value_raw_for_feed s (fe_feed_guid (fw_feed w)))"
proof -
  have own: "list_all (\<lambda>r. flv_feed_guid r = fe_feed_guid (fw_feed w)) (fw_feed_list_values w)"
    using assms(4) by (simp add: rows_of_feed_def Let_def)
  have "get_feed_list_value_raw_for_feed s' (fe_feed_guid (fw_feed w)) = (if \<exists>p\<in>ingest_payload_set pm sp w. payload_type p = FeedListValueReplaced
     then List.sort_key flv_position (map stored_feed_list_value (fw_feed_list_values w)) else get_feed_list_value_raw_for_feed s (fe_feed_guid (fw_feed w)))"
  proof (rule replica_reads [OF assms(1-3)])
    fix f s show "get_feed_list_value_raw_for_feed (t_events_update f s) (fe_feed_guid (fw_feed w)) = get_feed_list_value_raw_for_feed s (fe_feed_guid (fw_feed w))" by (simp add: get_feed_list_value_raw_for_feed_def)
  next
    fix p c ca assume "p \<in> ingest_payload_set pm sp w" "payload_type p \<noteq> FeedListValueReplaced"
    then show "keeps (\<lambda>s. get_feed_list_value_raw_for_feed s (fe_feed_guid (fw_feed w)) = c) (apply_payload nd now ca p)"
      using no_retirement by (intro apply_frame_list_values) auto
  next
    fix p ca assume "p \<in> ingest_payload_set pm sp w" "payload_type p = FeedListValueReplaced"
    then have "p = FeedListValueReplacedP \<lparr>flr_feed_guid = fe_feed_guid (fw_feed w), flr_list_values = fw_feed_list_values w\<rparr>" using sent_list_values(1) by blast
    then show "ensures refs_ok (apply_payload nd now ca p) (\<lambda>s. get_feed_list_value_raw_for_feed s (fe_feed_guid (fw_feed w)) = List.sort_key flv_position (map stored_feed_list_value (fw_feed_list_values w)))"
      using ensures_list_values [OF own] by simp
  qed
  then show ?thesis by (simp only: sent_list_values(2))
qed

lemma replica_remote_items:
  assumes "dforeach (applied_run nd now) evs s = (Inr (), s')" "refs_ok s" "event_payload_of nd ` set evs = ingest_payload_set pm sp w" "rows_of_feed w"
  shows "get_feed_remote_items_for_feed s' (fe_feed_guid (fw_feed w)) =
    (if map feed_remote_item_content (get_feed_remote_items_for_feed sp (fe_feed_guid (fw_feed w))) \<noteq> map feed_remote_item_content (fw_remote_items w)
     then List.sort_key fri_position (map (\<lambda>r. r\<lparr>fri_id := None\<rparr>) (fw_remote_items w)) else get_feed_remote_items_for_feed s (fe_feed_guid (fw_feed w)))"
proof -
  have own: "list_all (\<lambda>r. fri_feed_guid r = fe_feed_guid (fw_feed w)) (fw_remote_items w)"
    using assms(4) by (simp add: rows_of_feed_def Let_def)
  have "get_feed_remote_items_for_feed s' (fe_feed_guid (fw_feed w)) = (if \<exists>p\<in>ingest_payload_set pm sp w. payload_type p = FeedRemoteItemsReplaced
     then List.sort_key fri_position (map (\<lambda>r. r\<lparr>fri_id := None\<rparr>) (fw_remote_items w)) else get_feed_remote_items_for_feed s (fe_feed_guid (fw_feed w)))"
  proof (rule replica_reads [OF assms(1-3)])
    fix f s show "get_feed_remote_items_for_feed (t_events_update f s) (fe_feed_guid (fw_feed w)) = get_feed_remote_items_for_feed s (fe_feed_guid (fw_feed w))" by (simp add: get_feed_remote_items_for_feed_def)
  next
    fix p c ca assume "p \<in> ingest_payload_set pm sp w" "payload_type p \<noteq> FeedRemoteItemsReplaced"
    then show "keeps (\<lambda>s. get_feed_remote_items_for_feed s (fe_feed_guid (fw_feed w)) = c) (apply_payload nd now ca p)"
      using no_retirement by (intro apply_frame_remote_items) auto
  next
    fix p ca assume "p \<in> ingest_payload_set pm sp w" "payload_type p = FeedRemoteItemsReplaced"
    then have "p = FeedRemoteItemsReplacedP \<lparr>frir_feed_guid = fe_feed_guid (fw_feed w), frir_remote_items = fw_remote_items w\<rparr>" using sent_remote_items(1) by blast
    then show "ensures refs_ok (apply_payload nd now ca p) (\<lambda>s. get_feed_remote_items_for_feed s (fe_feed_guid (fw_feed w)) = List.sort_key fri_position (map (\<lambda>r. r\<lparr>fri_id := None\<rparr>) (fw_remote_items w)))"
      using ensures_remote_items [OF own] by simp
  qed
  then show ?thesis by (simp only: sent_remote_items(2))
qed

lemma replica_live_events:
  assumes "dforeach (applied_run nd now) evs s = (Inr (), s')" "refs_ok s" "event_payload_of nd ` set evs = ingest_payload_set pm sp w" "rows_of_feed w"
  shows "get_live_events_for_feed s' (fe_feed_guid (fw_feed w)) =
    (if map live_event_content (List.sort_key le_live_item_guid (get_live_events_for_feed sp (fe_feed_guid (fw_feed w)))) \<noteq> map live_event_content (dedupe_and_sort_live_events (fw_live_events w))
     then List.sort_key (\<lambda>r. (case le_scheduled_start r of None \<Rightarrow> le_created_at r | Some t \<Rightarrow> t, le_live_item_guid r)) (dedupe_live_events (dedupe_and_sort_live_events (fw_live_events w))) else get_live_events_for_feed s (fe_feed_guid (fw_feed w)))"
proof -
  have own: "list_all (\<lambda>r. le_feed_guid r = fe_feed_guid (fw_feed w)) (dedupe_and_sort_live_events (fw_live_events w))"
    using assms(4) by (simp add: rows_of_feed_def Let_def list_all_live)
  have "get_live_events_for_feed s' (fe_feed_guid (fw_feed w)) = (if \<exists>p\<in>ingest_payload_set pm sp w. payload_type p = LiveEventsReplaced
     then List.sort_key (\<lambda>r. (case le_scheduled_start r of None \<Rightarrow> le_created_at r | Some t \<Rightarrow> t, le_live_item_guid r)) (dedupe_live_events (dedupe_and_sort_live_events (fw_live_events w))) else get_live_events_for_feed s (fe_feed_guid (fw_feed w)))"
  proof (rule replica_reads [OF assms(1-3)])
    fix f s show "get_live_events_for_feed (t_events_update f s) (fe_feed_guid (fw_feed w)) = get_live_events_for_feed s (fe_feed_guid (fw_feed w))" by (simp add: get_live_events_for_feed_def)
  next
    fix p c ca assume "p \<in> ingest_payload_set pm sp w" "payload_type p \<noteq> LiveEventsReplaced"
    then show "keeps (\<lambda>s. get_live_events_for_feed s (fe_feed_guid (fw_feed w)) = c) (apply_payload nd now ca p)"
      using no_retirement by (intro apply_frame_live_events) auto
  next
    fix p ca assume "p \<in> ingest_payload_set pm sp w" "payload_type p = LiveEventsReplaced"
    then have "p = LiveEventsReplacedP \<lparr>ler_feed_guid = fe_feed_guid (fw_feed w), ler_live_events = dedupe_and_sort_live_events (fw_live_events w)\<rparr>" using sent_live_events(1) by blast
    then show "ensures refs_ok (apply_payload nd now ca p) (\<lambda>s. get_live_events_for_feed s (fe_feed_guid (fw_feed w)) = List.sort_key (\<lambda>r. (case le_scheduled_start r of None \<Rightarrow> le_created_at r | Some t \<Rightarrow> t, le_live_item_guid r)) (dedupe_live_events (dedupe_and_sort_live_events (fw_live_events w))))"
      using ensures_live_events [OF own] by simp
  qed
  then show ?thesis by (simp only: sent_live_events(2))
qed

lemma replica_contributor_claims:
  assumes "dforeach (applied_run nd now) evs s = (Inr (), s')" "refs_ok s" "event_payload_of nd ` set evs = ingest_payload_set pm sp w" "rows_of_feed w"
  shows "get_source_contributor_claims_for_feed s' (fe_feed_guid (fw_feed w)) =
    (if map contributor_claim_content (get_source_contributor_claims_for_feed sp (fe_feed_guid (fw_feed w))) \<noteq> map contributor_claim_content (fw_source_contributor_claims w)
     then List.sort_key (\<lambda>r. (scc_entity_type r, scc_entity_id r, scc_position r)) (map (\<lambda>r. r\<lparr>scc_id := None\<rparr>) (dedupe_source_contributor_claims (fw_source_contributor_claims w))) else get_source_contributor_claims_for_feed s (fe_feed_guid (fw_feed w)))"
proof -
  have own: "list_all (\<lambda>r. scc_feed_guid r = fe_feed_guid (fw_feed w)) (fw_source_contributor_claims w)"
    using assms(4) by (simp add: rows_of_feed_def Let_def)
  have "get_source_contributor_claims_for_feed s' (fe_feed_guid (fw_feed w)) = (if \<exists>p\<in>ingest_payload_set pm sp w. payload_type p = SourceContributorClaimsReplaced
     then List.sort_key (\<lambda>r. (scc_entity_type r, scc_entity_id r, scc_position r)) (map (\<lambda>r. r\<lparr>scc_id := None\<rparr>) (dedupe_source_contributor_claims (fw_source_contributor_claims w))) else get_source_contributor_claims_for_feed s (fe_feed_guid (fw_feed w)))"
  proof (rule replica_reads [OF assms(1-3)])
    fix f s show "get_source_contributor_claims_for_feed (t_events_update f s) (fe_feed_guid (fw_feed w)) = get_source_contributor_claims_for_feed s (fe_feed_guid (fw_feed w))" by (simp add: get_source_contributor_claims_for_feed_def)
  next
    fix p c ca assume "p \<in> ingest_payload_set pm sp w" "payload_type p \<noteq> SourceContributorClaimsReplaced"
    then show "keeps (\<lambda>s. get_source_contributor_claims_for_feed s (fe_feed_guid (fw_feed w)) = c) (apply_payload nd now ca p)"
      using no_retirement by (intro apply_frame_contributor_claims) auto
  next
    fix p ca assume "p \<in> ingest_payload_set pm sp w" "payload_type p = SourceContributorClaimsReplaced"
    then have "p = SourceContributorClaimsReplacedP \<lparr>sccr_feed_guid = fe_feed_guid (fw_feed w), sccr_claims = fw_source_contributor_claims w\<rparr>" using sent_contributor_claims(1) by blast
    then show "ensures refs_ok (apply_payload nd now ca p) (\<lambda>s. get_source_contributor_claims_for_feed s (fe_feed_guid (fw_feed w)) = List.sort_key (\<lambda>r. (scc_entity_type r, scc_entity_id r, scc_position r)) (map (\<lambda>r. r\<lparr>scc_id := None\<rparr>) (dedupe_source_contributor_claims (fw_source_contributor_claims w))))"
      using ensures_contributor_claims [OF own] by simp
  qed
  then show ?thesis by (simp only: sent_contributor_claims(2))
qed

lemma replica_entity_ids:
  assumes "dforeach (applied_run nd now) evs s = (Inr (), s')" "refs_ok s" "event_payload_of nd ` set evs = ingest_payload_set pm sp w" "rows_of_feed w"
  shows "get_source_entity_ids_for_feed s' (fe_feed_guid (fw_feed w)) =
    (if map entity_id_content (get_source_entity_ids_for_feed sp (fe_feed_guid (fw_feed w))) \<noteq> map entity_id_content (fw_source_entity_ids w)
     then List.sort_key (\<lambda>r. (sei_entity_type r, sei_entity_id r, sei_position r, sei_scheme r, sei_value r)) (map (\<lambda>r. r\<lparr>sei_id := None\<rparr>) (dedupe_source_entity_ids (fw_source_entity_ids w))) else get_source_entity_ids_for_feed s (fe_feed_guid (fw_feed w)))"
proof -
  have own: "list_all (\<lambda>r. sei_feed_guid r = fe_feed_guid (fw_feed w)) (fw_source_entity_ids w)"
    using assms(4) by (simp add: rows_of_feed_def Let_def)
  have "get_source_entity_ids_for_feed s' (fe_feed_guid (fw_feed w)) = (if \<exists>p\<in>ingest_payload_set pm sp w. payload_type p = SourceEntityIdsReplaced
     then List.sort_key (\<lambda>r. (sei_entity_type r, sei_entity_id r, sei_position r, sei_scheme r, sei_value r)) (map (\<lambda>r. r\<lparr>sei_id := None\<rparr>) (dedupe_source_entity_ids (fw_source_entity_ids w))) else get_source_entity_ids_for_feed s (fe_feed_guid (fw_feed w)))"
  proof (rule replica_reads [OF assms(1-3)])
    fix f s show "get_source_entity_ids_for_feed (t_events_update f s) (fe_feed_guid (fw_feed w)) = get_source_entity_ids_for_feed s (fe_feed_guid (fw_feed w))" by (simp add: get_source_entity_ids_for_feed_def)
  next
    fix p c ca assume "p \<in> ingest_payload_set pm sp w" "payload_type p \<noteq> SourceEntityIdsReplaced"
    then show "keeps (\<lambda>s. get_source_entity_ids_for_feed s (fe_feed_guid (fw_feed w)) = c) (apply_payload nd now ca p)"
      using no_retirement by (intro apply_frame_entity_ids) auto
  next
    fix p ca assume "p \<in> ingest_payload_set pm sp w" "payload_type p = SourceEntityIdsReplaced"
    then have "p = SourceEntityIdsReplacedP \<lparr>seir_feed_guid = fe_feed_guid (fw_feed w), seir_claims = fw_source_entity_ids w\<rparr>" using sent_entity_ids(1) by blast
    then show "ensures refs_ok (apply_payload nd now ca p) (\<lambda>s. get_source_entity_ids_for_feed s (fe_feed_guid (fw_feed w)) = List.sort_key (\<lambda>r. (sei_entity_type r, sei_entity_id r, sei_position r, sei_scheme r, sei_value r)) (map (\<lambda>r. r\<lparr>sei_id := None\<rparr>) (dedupe_source_entity_ids (fw_source_entity_ids w))))"
      using ensures_entity_ids [OF own] by simp
  qed
  then show ?thesis by (simp only: sent_entity_ids(2))
qed

lemma replica_entity_links:
  assumes "dforeach (applied_run nd now) evs s = (Inr (), s')" "refs_ok s" "event_payload_of nd ` set evs = ingest_payload_set pm sp w" "rows_of_feed w"
  shows "get_source_entity_links_for_feed s' (fe_feed_guid (fw_feed w)) =
    (if map entity_link_content (get_source_entity_links_for_feed sp (fe_feed_guid (fw_feed w))) \<noteq> map entity_link_content (fw_source_entity_links w)
     then List.sort_key (\<lambda>r. (sel_entity_type r, sel_entity_id r, sel_position r, sel_link_type r, sel_url r)) (map (\<lambda>r. r\<lparr>sel_id := None\<rparr>) (dedupe_source_entity_links (fw_source_entity_links w))) else get_source_entity_links_for_feed s (fe_feed_guid (fw_feed w)))"
proof -
  have own: "list_all (\<lambda>r. sel_feed_guid r = fe_feed_guid (fw_feed w)) (fw_source_entity_links w)"
    using assms(4) by (simp add: rows_of_feed_def Let_def)
  have "get_source_entity_links_for_feed s' (fe_feed_guid (fw_feed w)) = (if \<exists>p\<in>ingest_payload_set pm sp w. payload_type p = SourceEntityLinksReplaced
     then List.sort_key (\<lambda>r. (sel_entity_type r, sel_entity_id r, sel_position r, sel_link_type r, sel_url r)) (map (\<lambda>r. r\<lparr>sel_id := None\<rparr>) (dedupe_source_entity_links (fw_source_entity_links w))) else get_source_entity_links_for_feed s (fe_feed_guid (fw_feed w)))"
  proof (rule replica_reads [OF assms(1-3)])
    fix f s show "get_source_entity_links_for_feed (t_events_update f s) (fe_feed_guid (fw_feed w)) = get_source_entity_links_for_feed s (fe_feed_guid (fw_feed w))" by (simp add: get_source_entity_links_for_feed_def)
  next
    fix p c ca assume "p \<in> ingest_payload_set pm sp w" "payload_type p \<noteq> SourceEntityLinksReplaced"
    then show "keeps (\<lambda>s. get_source_entity_links_for_feed s (fe_feed_guid (fw_feed w)) = c) (apply_payload nd now ca p)"
      using no_retirement by (intro apply_frame_entity_links) auto
  next
    fix p ca assume "p \<in> ingest_payload_set pm sp w" "payload_type p = SourceEntityLinksReplaced"
    then have "p = SourceEntityLinksReplacedP \<lparr>selr_feed_guid = fe_feed_guid (fw_feed w), selr_links = fw_source_entity_links w\<rparr>" using sent_entity_links(1) by blast
    then show "ensures refs_ok (apply_payload nd now ca p) (\<lambda>s. get_source_entity_links_for_feed s (fe_feed_guid (fw_feed w)) = List.sort_key (\<lambda>r. (sel_entity_type r, sel_entity_id r, sel_position r, sel_link_type r, sel_url r)) (map (\<lambda>r. r\<lparr>sel_id := None\<rparr>) (dedupe_source_entity_links (fw_source_entity_links w))))"
      using ensures_entity_links [OF own] by simp
  qed
  then show ?thesis by (simp only: sent_entity_links(2))
qed

lemma replica_release_claims:
  assumes "dforeach (applied_run nd now) evs s = (Inr (), s')" "refs_ok s" "event_payload_of nd ` set evs = ingest_payload_set pm sp w" "rows_of_feed w"
  shows "get_source_release_claims_for_feed s' (fe_feed_guid (fw_feed w)) =
    (if map release_claim_content (get_source_release_claims_for_feed sp (fe_feed_guid (fw_feed w))) \<noteq> map release_claim_content (fw_source_release_claims w)
     then List.sort_key (\<lambda>r. (src_entity_type r, src_entity_id r, src_claim_type r, src_position r)) (map (\<lambda>r. r\<lparr>src_id := None\<rparr>) (dedupe_source_release_claims (fw_source_release_claims w))) else get_source_release_claims_for_feed s (fe_feed_guid (fw_feed w)))"
proof -
  have own: "list_all (\<lambda>r. src_feed_guid r = fe_feed_guid (fw_feed w)) (fw_source_release_claims w)"
    using assms(4) by (simp add: rows_of_feed_def Let_def)
  have "get_source_release_claims_for_feed s' (fe_feed_guid (fw_feed w)) = (if \<exists>p\<in>ingest_payload_set pm sp w. payload_type p = SourceReleaseClaimsReplaced
     then List.sort_key (\<lambda>r. (src_entity_type r, src_entity_id r, src_claim_type r, src_position r)) (map (\<lambda>r. r\<lparr>src_id := None\<rparr>) (dedupe_source_release_claims (fw_source_release_claims w))) else get_source_release_claims_for_feed s (fe_feed_guid (fw_feed w)))"
  proof (rule replica_reads [OF assms(1-3)])
    fix f s show "get_source_release_claims_for_feed (t_events_update f s) (fe_feed_guid (fw_feed w)) = get_source_release_claims_for_feed s (fe_feed_guid (fw_feed w))" by (simp add: get_source_release_claims_for_feed_def)
  next
    fix p c ca assume "p \<in> ingest_payload_set pm sp w" "payload_type p \<noteq> SourceReleaseClaimsReplaced"
    then show "keeps (\<lambda>s. get_source_release_claims_for_feed s (fe_feed_guid (fw_feed w)) = c) (apply_payload nd now ca p)"
      using no_retirement by (intro apply_frame_release_claims) auto
  next
    fix p ca assume "p \<in> ingest_payload_set pm sp w" "payload_type p = SourceReleaseClaimsReplaced"
    then have "p = SourceReleaseClaimsReplacedP \<lparr>srcr_feed_guid = fe_feed_guid (fw_feed w), srcr_claims = fw_source_release_claims w\<rparr>" using sent_release_claims(1) by blast
    then show "ensures refs_ok (apply_payload nd now ca p) (\<lambda>s. get_source_release_claims_for_feed s (fe_feed_guid (fw_feed w)) = List.sort_key (\<lambda>r. (src_entity_type r, src_entity_id r, src_claim_type r, src_position r)) (map (\<lambda>r. r\<lparr>src_id := None\<rparr>) (dedupe_source_release_claims (fw_source_release_claims w))))"
      using ensures_release_claims [OF own] by simp
  qed
  then show ?thesis by (simp only: sent_release_claims(2))
qed

lemma replica_item_enclosures:
  assumes "dforeach (applied_run nd now) evs s = (Inr (), s')" "refs_ok s" "event_payload_of nd ` set evs = ingest_payload_set pm sp w" "rows_of_feed w"
  shows "get_source_item_enclosures_for_feed s' (fe_feed_guid (fw_feed w)) =
    (if map item_enclosure_content (get_source_item_enclosures_for_feed sp (fe_feed_guid (fw_feed w))) \<noteq> map item_enclosure_content (fw_source_item_enclosures w)
     then List.sort_key (\<lambda>r. (sie_entity_type r, sie_entity_id r, sie_position r, sie_url r)) (map (\<lambda>r. r\<lparr>sie_id := None\<rparr>) (dedupe_source_item_enclosures (fw_source_item_enclosures w))) else get_source_item_enclosures_for_feed s (fe_feed_guid (fw_feed w)))"
proof -
  have own: "list_all (\<lambda>r. sie_feed_guid r = fe_feed_guid (fw_feed w)) (fw_source_item_enclosures w)"
    using assms(4) by (simp add: rows_of_feed_def Let_def)
  have "get_source_item_enclosures_for_feed s' (fe_feed_guid (fw_feed w)) = (if \<exists>p\<in>ingest_payload_set pm sp w. payload_type p = SourceItemEnclosuresReplaced
     then List.sort_key (\<lambda>r. (sie_entity_type r, sie_entity_id r, sie_position r, sie_url r)) (map (\<lambda>r. r\<lparr>sie_id := None\<rparr>) (dedupe_source_item_enclosures (fw_source_item_enclosures w))) else get_source_item_enclosures_for_feed s (fe_feed_guid (fw_feed w)))"
  proof (rule replica_reads [OF assms(1-3)])
    fix f s show "get_source_item_enclosures_for_feed (t_events_update f s) (fe_feed_guid (fw_feed w)) = get_source_item_enclosures_for_feed s (fe_feed_guid (fw_feed w))" by (simp add: get_source_item_enclosures_for_feed_def)
  next
    fix p c ca assume "p \<in> ingest_payload_set pm sp w" "payload_type p \<noteq> SourceItemEnclosuresReplaced"
    then show "keeps (\<lambda>s. get_source_item_enclosures_for_feed s (fe_feed_guid (fw_feed w)) = c) (apply_payload nd now ca p)"
      using no_retirement by (intro apply_frame_item_enclosures) auto
  next
    fix p ca assume "p \<in> ingest_payload_set pm sp w" "payload_type p = SourceItemEnclosuresReplaced"
    then have "p = SourceItemEnclosuresReplacedP \<lparr>sier_feed_guid = fe_feed_guid (fw_feed w), sier_enclosures = fw_source_item_enclosures w\<rparr>" using sent_item_enclosures(1) by blast
    then show "ensures refs_ok (apply_payload nd now ca p) (\<lambda>s. get_source_item_enclosures_for_feed s (fe_feed_guid (fw_feed w)) = List.sort_key (\<lambda>r. (sie_entity_type r, sie_entity_id r, sie_position r, sie_url r)) (map (\<lambda>r. r\<lparr>sie_id := None\<rparr>) (dedupe_source_item_enclosures (fw_source_item_enclosures w))))"
      using ensures_item_enclosures [OF own] by simp
  qed
  then show ?thesis by (simp only: sent_item_enclosures(2))
qed

lemma replica_item_transcripts:
  assumes "dforeach (applied_run nd now) evs s = (Inr (), s')" "refs_ok s" "event_payload_of nd ` set evs = ingest_payload_set pm sp w" "rows_of_feed w"
  shows "get_source_item_transcripts_for_feed s' (fe_feed_guid (fw_feed w)) =
    (if map item_transcript_content (get_source_item_transcripts_for_feed sp (fe_feed_guid (fw_feed w))) \<noteq> map item_transcript_content (fw_source_item_transcripts w)
     then List.sort_key (\<lambda>r. (sit_entity_type r, sit_entity_id r, sit_position r, sit_url r)) (map (\<lambda>r. r\<lparr>sit_id := None\<rparr>) (dedupe_source_item_transcripts (fw_source_item_transcripts w))) else get_source_item_transcripts_for_feed s (fe_feed_guid (fw_feed w)))"
proof -
  have own: "list_all (\<lambda>r. sit_feed_guid r = fe_feed_guid (fw_feed w)) (fw_source_item_transcripts w)"
    using assms(4) by (simp add: rows_of_feed_def Let_def)
  have "get_source_item_transcripts_for_feed s' (fe_feed_guid (fw_feed w)) = (if \<exists>p\<in>ingest_payload_set pm sp w. payload_type p = SourceItemTranscriptsReplaced
     then List.sort_key (\<lambda>r. (sit_entity_type r, sit_entity_id r, sit_position r, sit_url r)) (map (\<lambda>r. r\<lparr>sit_id := None\<rparr>) (dedupe_source_item_transcripts (fw_source_item_transcripts w))) else get_source_item_transcripts_for_feed s (fe_feed_guid (fw_feed w)))"
  proof (rule replica_reads [OF assms(1-3)])
    fix f s show "get_source_item_transcripts_for_feed (t_events_update f s) (fe_feed_guid (fw_feed w)) = get_source_item_transcripts_for_feed s (fe_feed_guid (fw_feed w))" by (simp add: get_source_item_transcripts_for_feed_def)
  next
    fix p c ca assume "p \<in> ingest_payload_set pm sp w" "payload_type p \<noteq> SourceItemTranscriptsReplaced"
    then show "keeps (\<lambda>s. get_source_item_transcripts_for_feed s (fe_feed_guid (fw_feed w)) = c) (apply_payload nd now ca p)"
      using no_retirement by (intro apply_frame_item_transcripts) auto
  next
    fix p ca assume "p \<in> ingest_payload_set pm sp w" "payload_type p = SourceItemTranscriptsReplaced"
    then have "p = SourceItemTranscriptsReplacedP \<lparr>sitr_feed_guid = fe_feed_guid (fw_feed w), sitr_transcripts = fw_source_item_transcripts w\<rparr>" using sent_item_transcripts(1) by blast
    then show "ensures refs_ok (apply_payload nd now ca p) (\<lambda>s. get_source_item_transcripts_for_feed s (fe_feed_guid (fw_feed w)) = List.sort_key (\<lambda>r. (sit_entity_type r, sit_entity_id r, sit_position r, sit_url r)) (map (\<lambda>r. r\<lparr>sit_id := None\<rparr>) (dedupe_source_item_transcripts (fw_source_item_transcripts w))))"
      using ensures_item_transcripts [OF own] by simp
  qed
  then show ?thesis by (simp only: sent_item_transcripts(2))
qed

lemma replica_platform_claims:
  assumes "dforeach (applied_run nd now) evs s = (Inr (), s')" "refs_ok s" "event_payload_of nd ` set evs = ingest_payload_set pm sp w" "rows_of_feed w"
  shows "get_source_platform_claims_for_feed s' (fe_feed_guid (fw_feed w)) =
    (if map platform_claim_content (get_source_platform_claims_for_feed sp (fe_feed_guid (fw_feed w))) \<noteq> map platform_claim_content (fw_source_platform_claims w)
     then List.sort_key (\<lambda>r. (spc_platform_key r, spc_extraction_path r, spc_url r, spc_owner_name r)) (map (\<lambda>r. r\<lparr>spc_id := None\<rparr>) (fw_source_platform_claims w)) else get_source_platform_claims_for_feed s (fe_feed_guid (fw_feed w)))"
proof -
  have own: "list_all (\<lambda>r. spc_feed_guid r = fe_feed_guid (fw_feed w)) (fw_source_platform_claims w)"
    using assms(4) by (simp add: rows_of_feed_def Let_def)
  have "get_source_platform_claims_for_feed s' (fe_feed_guid (fw_feed w)) = (if \<exists>p\<in>ingest_payload_set pm sp w. payload_type p = SourcePlatformClaimsReplaced
     then List.sort_key (\<lambda>r. (spc_platform_key r, spc_extraction_path r, spc_url r, spc_owner_name r)) (map (\<lambda>r. r\<lparr>spc_id := None\<rparr>) (fw_source_platform_claims w)) else get_source_platform_claims_for_feed s (fe_feed_guid (fw_feed w)))"
  proof (rule replica_reads [OF assms(1-3)])
    fix f s show "get_source_platform_claims_for_feed (t_events_update f s) (fe_feed_guid (fw_feed w)) = get_source_platform_claims_for_feed s (fe_feed_guid (fw_feed w))" by (simp add: get_source_platform_claims_for_feed_def)
  next
    fix p c ca assume "p \<in> ingest_payload_set pm sp w" "payload_type p \<noteq> SourcePlatformClaimsReplaced"
    then show "keeps (\<lambda>s. get_source_platform_claims_for_feed s (fe_feed_guid (fw_feed w)) = c) (apply_payload nd now ca p)"
      using no_retirement by (intro apply_frame_platform_claims) auto
  next
    fix p ca assume "p \<in> ingest_payload_set pm sp w" "payload_type p = SourcePlatformClaimsReplaced"
    then have "p = SourcePlatformClaimsReplacedP \<lparr>spcr_feed_guid = fe_feed_guid (fw_feed w), spcr_claims = fw_source_platform_claims w\<rparr>" using sent_platform_claims(1) by blast
    then show "ensures refs_ok (apply_payload nd now ca p) (\<lambda>s. get_source_platform_claims_for_feed s (fe_feed_guid (fw_feed w)) = List.sort_key (\<lambda>r. (spc_platform_key r, spc_extraction_path r, spc_url r, spc_owner_name r)) (map (\<lambda>r. r\<lparr>spc_id := None\<rparr>) (fw_source_platform_claims w)))"
      using ensures_platform_claims [OF own] by simp
  qed
  then show ?thesis by (simp only: sent_platform_claims(2))
qed

section \<open>The view of a feed\<close>

lemma distinct_read: "distinct (map k t) \<Longrightarrow> distinct (map k (List.sort_key j (filter p t)))"
  by (simp add: distinct_map inj_on_def)

text \<open>What a node shows of the child rows of a feed, up to ids, times of observation and live order.\<close>

definition norm_rows :: "feed_rows \<Rightarrow> feed_rows" where
  "norm_rows r = \<lparr>rw_routes = map (\<lambda>r. feed_route_content (stored_feed_payment_route r)) (rw_routes r),
     rw_list_values = map (\<lambda>r. feed_list_value_content (stored_feed_list_value r)) (rw_list_values r),
     rw_remote_items = map feed_remote_item_content (rw_remote_items r),
     rw_live_events = map live_event_content (List.sort_key le_live_item_guid (rw_live_events r)),
     rw_contributor_claims = map contributor_claim_content (rw_contributor_claims r),
     rw_entity_ids = map entity_id_content (rw_entity_ids r),
     rw_entity_links = map entity_link_content (rw_entity_links r),
     rw_release_claims = map release_claim_content (rw_release_claims r),
     rw_item_enclosures = map item_enclosure_content (rw_item_enclosures r),
     rw_item_transcripts = map item_transcript_content (rw_item_transcripts r),
     rw_platform_claims = map platform_claim_content (rw_platform_claims r)\<rparr>"

lemma old_routes:
  assumes "refs_ok s"
  shows "sorted (map (\<lambda>r. 0::nat) (get_feed_payment_routes_for_feed s g))" "True"
  by (simp_all add: map_replicate_const)

lemma same_routes:
  assumes "dforeach (applied_run nd now) evs sr = (Inr (), sr')" "refs_ok sr" "refs_ok sp"
    "event_payload_of nd ` set evs = ingest_payload_set pm sp w"
    "rows_of_feed w" "map (\<lambda>r. feed_route_content (stored_feed_payment_route r)) (get_feed_payment_routes_for_feed sr (fe_feed_guid (fw_feed w))) = map (\<lambda>r. feed_route_content (stored_feed_payment_route r)) (get_feed_payment_routes_for_feed sp (fe_feed_guid (fw_feed w)))"
  shows "map (\<lambda>r. feed_route_content (stored_feed_payment_route r)) (get_feed_payment_routes_for_feed sr' (fe_feed_guid (fw_feed w))) = map (\<lambda>r. feed_route_content (stored_feed_payment_route r)) (map stored_feed_payment_route (fw_feed_routes w))"
  using d_routes.replicated [OF assms(6) old_routes [OF assms(3)] _ refl, of
      "map feed_route_content (get_feed_payment_routes_for_feed sp (fe_feed_guid (fw_feed w))) \<noteq> map feed_route_content (fw_feed_routes w)" "fw_feed_routes w"]
  by (simp only: replica_routes [OF assms(1,2,4,5)] not_not sort_key_const)

lemma old_list_values:
  assumes "refs_ok s"
  shows "sorted (map flv_position (get_feed_list_value_raw_for_feed s g))" "True"
  by (simp_all add: get_feed_list_value_raw_for_feed_def)

lemma same_list_values:
  assumes "dforeach (applied_run nd now) evs sr = (Inr (), sr')" "refs_ok sr" "refs_ok sp"
    "event_payload_of nd ` set evs = ingest_payload_set pm sp w"
    "rows_of_feed w" "map (\<lambda>r. feed_list_value_content (stored_feed_list_value r)) (get_feed_list_value_raw_for_feed sr (fe_feed_guid (fw_feed w))) = map (\<lambda>r. feed_list_value_content (stored_feed_list_value r)) (get_feed_list_value_raw_for_feed sp (fe_feed_guid (fw_feed w)))"
  shows "map (\<lambda>r. feed_list_value_content (stored_feed_list_value r)) (get_feed_list_value_raw_for_feed sr' (fe_feed_guid (fw_feed w))) = map (\<lambda>r. feed_list_value_content (stored_feed_list_value r)) (List.sort_key flv_position (map stored_feed_list_value (fw_feed_list_values w)))"
  using d_list_values.replicated [OF assms(6) old_list_values [OF assms(3)] _ refl, of
      "map feed_list_value_content (get_feed_list_value_raw_for_feed sp (fe_feed_guid (fw_feed w))) \<noteq> map feed_list_value_content (fw_feed_list_values w)" "fw_feed_list_values w"]
  by (simp only: replica_list_values [OF assms(1,2,4,5)] not_not)

lemma old_remote_items:
  assumes "refs_ok s"
  shows "sorted (map fri_position (get_feed_remote_items_for_feed s g))" "True"
  by (simp_all add: get_feed_remote_items_for_feed_def)

lemma same_remote_items:
  assumes "dforeach (applied_run nd now) evs sr = (Inr (), sr')" "refs_ok sr" "refs_ok sp"
    "event_payload_of nd ` set evs = ingest_payload_set pm sp w"
    "rows_of_feed w" "map feed_remote_item_content (get_feed_remote_items_for_feed sr (fe_feed_guid (fw_feed w))) = map feed_remote_item_content (get_feed_remote_items_for_feed sp (fe_feed_guid (fw_feed w)))"
  shows "map feed_remote_item_content (get_feed_remote_items_for_feed sr' (fe_feed_guid (fw_feed w))) = map feed_remote_item_content (List.sort_key fri_position (map (\<lambda>r. r\<lparr>fri_id := None\<rparr>) (fw_remote_items w)))"
  using d_remote_items.replicated [OF assms(6) old_remote_items [OF assms(3)] _ refl, of
      "map feed_remote_item_content (get_feed_remote_items_for_feed sp (fe_feed_guid (fw_feed w))) \<noteq> map feed_remote_item_content (fw_remote_items w)" "fw_remote_items w"]
  by (simp only: replica_remote_items [OF assms(1,2,4,5)] not_not)

lemma old_live_events:
  assumes "refs_ok s"
  shows "sorted (map le_live_item_guid (List.sort_key le_live_item_guid (get_live_events_for_feed s g)))" "distinct (map le_live_item_guid (List.sort_key le_live_item_guid (get_live_events_for_feed s g)))"
proof -
  have "distinct (map (\<lambda>r. (le_feed_guid r, le_live_item_guid r)) (t_live_events s))"
    using assms keys_distinct_Some [of "\<lambda>r. (le_feed_guid r, le_live_item_guid r)" "t_live_events s"]
    by (simp add: refs_ok_def feed_children_ok_def table_ok_def le_key_def [abs_def])
  then have "distinct (map le_live_item_guid (filter (\<lambda>r. le_feed_guid r = g) (t_live_events s)))"
    by (auto simp: distinct_map inj_on_def)
  then show "distinct (map le_live_item_guid (List.sort_key le_live_item_guid (get_live_events_for_feed s g)))"
    by (simp add: get_live_events_for_feed_def distinct_map)
qed simp

lemma same_live_events:
  assumes "dforeach (applied_run nd now) evs sr = (Inr (), sr')" "refs_ok sr" "refs_ok sp"
    "event_payload_of nd ` set evs = ingest_payload_set pm sp w"
    "rows_of_feed w" "map live_event_content (List.sort_key le_live_item_guid (get_live_events_for_feed sr (fe_feed_guid (fw_feed w)))) = map live_event_content (List.sort_key le_live_item_guid (get_live_events_for_feed sp (fe_feed_guid (fw_feed w))))"
  shows "map live_event_content (List.sort_key le_live_item_guid (get_live_events_for_feed sr' (fe_feed_guid (fw_feed w)))) = map live_event_content (List.sort_key le_live_item_guid (List.sort_key (\<lambda>r. (case le_scheduled_start r of None \<Rightarrow> le_created_at r | Some t \<Rightarrow> t, le_live_item_guid r)) (dedupe_live_events (fw_live_events w))))"
proof -
  let ?w = "dedupe_live_events (fw_live_events w)"
  have d: "distinct (map le_live_item_guid ?w)" by (rule dlive.keys_distinct)
  have again: "dedupe_live_events (dedupe_and_sort_live_events (fw_live_events w)) = List.sort_key le_live_item_guid ?w"
    unfolding dedupe_and_sort_live_events_def by (rule dlive.distinct_unchanged) (use d in \<open>simp add: distinct_map\<close>)
  have twice: "List.sort_key le_live_item_guid (List.sort_key k xs) = List.sort_key le_live_item_guid xs"
    if "distinct (map le_live_item_guid xs)" for k :: "live_event \<Rightarrow> int \<times> string" and xs
    by (rule sort_keys_twice [OF that])
  have d2: "distinct (map le_live_item_guid (List.sort_key le_live_item_guid ?w))" using d by (simp add: distinct_map)
  have same: "List.sort_key le_live_item_guid (List.sort_key le_live_item_guid ?w) = List.sort_key le_live_item_guid ?w"
    by (rule sort_keys_twice [OF d])
  have "map live_event_content (List.sort_key le_live_item_guid (get_live_events_for_feed sr' (fe_feed_guid (fw_feed w)))) =
      map live_event_content (List.sort_key le_live_item_guid (map (\<lambda>r. r) (dedupe_live_events (dedupe_and_sort_live_events (fw_live_events w)))))"
  proof (rule d_live_events.replicated [OF assms(6) old_live_events [OF assms(3)]])
    show "\<not> map live_event_content (List.sort_key le_live_item_guid (get_live_events_for_feed sp (fe_feed_guid (fw_feed w))))
        \<noteq> map live_event_content (dedupe_and_sort_live_events (fw_live_events w)) \<Longrightarrow>
      map live_event_content (List.sort_key le_live_item_guid (get_live_events_for_feed sp (fe_feed_guid (fw_feed w))))
        = map live_event_content (dedupe_and_sort_live_events (fw_live_events w))" by simp
  qed (simp add: replica_live_events [OF assms(1,2,4,5)] again twice [OF d2] same)
  then show ?thesis by (simp add: again same twice [OF d])
qed

lemma old_contributor_claims:
  assumes "refs_ok s"
  shows "sorted (map (\<lambda>r. (scc_entity_type r, scc_entity_id r, scc_position r)) (get_source_contributor_claims_for_feed s g))" "distinct (map scc_key (get_source_contributor_claims_for_feed s g))"
proof -
  have "distinct (map scc_key (t_source_contributor_claims s))"
    using assms keys_distinct_Some [of scc_key "t_source_contributor_claims s"] by (simp add: refs_ok_def feed_children_ok_def table_ok_def)
  then show "distinct (map scc_key (get_source_contributor_claims_for_feed s g))"
    unfolding get_source_contributor_claims_for_feed_def by (rule distinct_read)
qed (simp add: get_source_contributor_claims_for_feed_def)

lemma same_contributor_claims:
  assumes "dforeach (applied_run nd now) evs sr = (Inr (), sr')" "refs_ok sr" "refs_ok sp"
    "event_payload_of nd ` set evs = ingest_payload_set pm sp w"
    "rows_of_feed w" "map contributor_claim_content (get_source_contributor_claims_for_feed sr (fe_feed_guid (fw_feed w))) = map contributor_claim_content (get_source_contributor_claims_for_feed sp (fe_feed_guid (fw_feed w)))"
  shows "map contributor_claim_content (get_source_contributor_claims_for_feed sr' (fe_feed_guid (fw_feed w))) = map contributor_claim_content (List.sort_key (\<lambda>r. (scc_entity_type r, scc_entity_id r, scc_position r)) (map (\<lambda>r. r\<lparr>scc_id := None\<rparr>) (dedupe_source_contributor_claims (fw_source_contributor_claims w))))"
  using d_contributor_claims.replicated [OF assms(6) old_contributor_claims [OF assms(3)] _ refl, of
      "map contributor_claim_content (get_source_contributor_claims_for_feed sp (fe_feed_guid (fw_feed w))) \<noteq> map contributor_claim_content (fw_source_contributor_claims w)" "fw_source_contributor_claims w"]
  by (simp only: replica_contributor_claims [OF assms(1,2,4,5)] not_not)

lemma old_entity_ids:
  assumes "refs_ok s"
  shows "sorted (map (\<lambda>r. (sei_entity_type r, sei_entity_id r, sei_position r, sei_scheme r, sei_value r)) (get_source_entity_ids_for_feed s g))" "distinct (map sei_key (get_source_entity_ids_for_feed s g))"
proof -
  have "distinct (map sei_key (t_source_entity_ids s))"
    using assms keys_distinct_Some [of sei_key "t_source_entity_ids s"] by (simp add: refs_ok_def feed_children_ok_def table_ok_def)
  then show "distinct (map sei_key (get_source_entity_ids_for_feed s g))"
    unfolding get_source_entity_ids_for_feed_def by (rule distinct_read)
qed (simp add: get_source_entity_ids_for_feed_def)

lemma same_entity_ids:
  assumes "dforeach (applied_run nd now) evs sr = (Inr (), sr')" "refs_ok sr" "refs_ok sp"
    "event_payload_of nd ` set evs = ingest_payload_set pm sp w"
    "rows_of_feed w" "map entity_id_content (get_source_entity_ids_for_feed sr (fe_feed_guid (fw_feed w))) = map entity_id_content (get_source_entity_ids_for_feed sp (fe_feed_guid (fw_feed w)))"
  shows "map entity_id_content (get_source_entity_ids_for_feed sr' (fe_feed_guid (fw_feed w))) = map entity_id_content (List.sort_key (\<lambda>r. (sei_entity_type r, sei_entity_id r, sei_position r, sei_scheme r, sei_value r)) (map (\<lambda>r. r\<lparr>sei_id := None\<rparr>) (dedupe_source_entity_ids (fw_source_entity_ids w))))"
  using d_entity_ids.replicated [OF assms(6) old_entity_ids [OF assms(3)] _ refl, of
      "map entity_id_content (get_source_entity_ids_for_feed sp (fe_feed_guid (fw_feed w))) \<noteq> map entity_id_content (fw_source_entity_ids w)" "fw_source_entity_ids w"]
  by (simp only: replica_entity_ids [OF assms(1,2,4,5)] not_not)

lemma old_entity_links:
  assumes "refs_ok s"
  shows "sorted (map (\<lambda>r. (sel_entity_type r, sel_entity_id r, sel_position r, sel_link_type r, sel_url r)) (get_source_entity_links_for_feed s g))" "distinct (map sel_key (get_source_entity_links_for_feed s g))"
proof -
  have "distinct (map sel_key (t_source_entity_links s))"
    using assms keys_distinct_Some [of sel_key "t_source_entity_links s"] by (simp add: refs_ok_def feed_children_ok_def table_ok_def)
  then show "distinct (map sel_key (get_source_entity_links_for_feed s g))"
    unfolding get_source_entity_links_for_feed_def by (rule distinct_read)
qed (simp add: get_source_entity_links_for_feed_def)

lemma same_entity_links:
  assumes "dforeach (applied_run nd now) evs sr = (Inr (), sr')" "refs_ok sr" "refs_ok sp"
    "event_payload_of nd ` set evs = ingest_payload_set pm sp w"
    "rows_of_feed w" "map entity_link_content (get_source_entity_links_for_feed sr (fe_feed_guid (fw_feed w))) = map entity_link_content (get_source_entity_links_for_feed sp (fe_feed_guid (fw_feed w)))"
  shows "map entity_link_content (get_source_entity_links_for_feed sr' (fe_feed_guid (fw_feed w))) = map entity_link_content (List.sort_key (\<lambda>r. (sel_entity_type r, sel_entity_id r, sel_position r, sel_link_type r, sel_url r)) (map (\<lambda>r. r\<lparr>sel_id := None\<rparr>) (dedupe_source_entity_links (fw_source_entity_links w))))"
  using d_entity_links.replicated [OF assms(6) old_entity_links [OF assms(3)] _ refl, of
      "map entity_link_content (get_source_entity_links_for_feed sp (fe_feed_guid (fw_feed w))) \<noteq> map entity_link_content (fw_source_entity_links w)" "fw_source_entity_links w"]
  by (simp only: replica_entity_links [OF assms(1,2,4,5)] not_not)

lemma old_release_claims:
  assumes "refs_ok s"
  shows "sorted (map (\<lambda>r. (src_entity_type r, src_entity_id r, src_claim_type r, src_position r)) (get_source_release_claims_for_feed s g))" "distinct (map src_key (get_source_release_claims_for_feed s g))"
proof -
  have "distinct (map src_key (t_source_release_claims s))"
    using assms keys_distinct_Some [of src_key "t_source_release_claims s"] by (simp add: refs_ok_def feed_children_ok_def table_ok_def)
  then show "distinct (map src_key (get_source_release_claims_for_feed s g))"
    unfolding get_source_release_claims_for_feed_def by (rule distinct_read)
qed (simp add: get_source_release_claims_for_feed_def)

lemma same_release_claims:
  assumes "dforeach (applied_run nd now) evs sr = (Inr (), sr')" "refs_ok sr" "refs_ok sp"
    "event_payload_of nd ` set evs = ingest_payload_set pm sp w"
    "rows_of_feed w" "map release_claim_content (get_source_release_claims_for_feed sr (fe_feed_guid (fw_feed w))) = map release_claim_content (get_source_release_claims_for_feed sp (fe_feed_guid (fw_feed w)))"
  shows "map release_claim_content (get_source_release_claims_for_feed sr' (fe_feed_guid (fw_feed w))) = map release_claim_content (List.sort_key (\<lambda>r. (src_entity_type r, src_entity_id r, src_claim_type r, src_position r)) (map (\<lambda>r. r\<lparr>src_id := None\<rparr>) (dedupe_source_release_claims (fw_source_release_claims w))))"
  using d_release_claims.replicated [OF assms(6) old_release_claims [OF assms(3)] _ refl, of
      "map release_claim_content (get_source_release_claims_for_feed sp (fe_feed_guid (fw_feed w))) \<noteq> map release_claim_content (fw_source_release_claims w)" "fw_source_release_claims w"]
  by (simp only: replica_release_claims [OF assms(1,2,4,5)] not_not)

lemma old_item_enclosures:
  assumes "refs_ok s"
  shows "sorted (map (\<lambda>r. (sie_entity_type r, sie_entity_id r, sie_position r, sie_url r)) (get_source_item_enclosures_for_feed s g))" "distinct (map sie_key (get_source_item_enclosures_for_feed s g))"
proof -
  have "distinct (map sie_key (t_source_item_enclosures s))"
    using assms keys_distinct_Some [of sie_key "t_source_item_enclosures s"] by (simp add: refs_ok_def feed_children_ok_def table_ok_def)
  then show "distinct (map sie_key (get_source_item_enclosures_for_feed s g))"
    unfolding get_source_item_enclosures_for_feed_def by (rule distinct_read)
qed (simp add: get_source_item_enclosures_for_feed_def)

lemma same_item_enclosures:
  assumes "dforeach (applied_run nd now) evs sr = (Inr (), sr')" "refs_ok sr" "refs_ok sp"
    "event_payload_of nd ` set evs = ingest_payload_set pm sp w"
    "rows_of_feed w" "map item_enclosure_content (get_source_item_enclosures_for_feed sr (fe_feed_guid (fw_feed w))) = map item_enclosure_content (get_source_item_enclosures_for_feed sp (fe_feed_guid (fw_feed w)))"
  shows "map item_enclosure_content (get_source_item_enclosures_for_feed sr' (fe_feed_guid (fw_feed w))) = map item_enclosure_content (List.sort_key (\<lambda>r. (sie_entity_type r, sie_entity_id r, sie_position r, sie_url r)) (map (\<lambda>r. r\<lparr>sie_id := None\<rparr>) (dedupe_source_item_enclosures (fw_source_item_enclosures w))))"
  using d_item_enclosures.replicated [OF assms(6) old_item_enclosures [OF assms(3)] _ refl, of
      "map item_enclosure_content (get_source_item_enclosures_for_feed sp (fe_feed_guid (fw_feed w))) \<noteq> map item_enclosure_content (fw_source_item_enclosures w)" "fw_source_item_enclosures w"]
  by (simp only: replica_item_enclosures [OF assms(1,2,4,5)] not_not)

lemma old_item_transcripts:
  assumes "refs_ok s"
  shows "sorted (map (\<lambda>r. (sit_entity_type r, sit_entity_id r, sit_position r, sit_url r)) (get_source_item_transcripts_for_feed s g))" "distinct (map sit_key (get_source_item_transcripts_for_feed s g))"
proof -
  have "distinct (map sit_key (t_source_item_transcripts s))"
    using assms keys_distinct_Some [of sit_key "t_source_item_transcripts s"] by (simp add: refs_ok_def feed_children_ok_def table_ok_def)
  then show "distinct (map sit_key (get_source_item_transcripts_for_feed s g))"
    unfolding get_source_item_transcripts_for_feed_def by (rule distinct_read)
qed (simp add: get_source_item_transcripts_for_feed_def)

lemma same_item_transcripts:
  assumes "dforeach (applied_run nd now) evs sr = (Inr (), sr')" "refs_ok sr" "refs_ok sp"
    "event_payload_of nd ` set evs = ingest_payload_set pm sp w"
    "rows_of_feed w" "map item_transcript_content (get_source_item_transcripts_for_feed sr (fe_feed_guid (fw_feed w))) = map item_transcript_content (get_source_item_transcripts_for_feed sp (fe_feed_guid (fw_feed w)))"
  shows "map item_transcript_content (get_source_item_transcripts_for_feed sr' (fe_feed_guid (fw_feed w))) = map item_transcript_content (List.sort_key (\<lambda>r. (sit_entity_type r, sit_entity_id r, sit_position r, sit_url r)) (map (\<lambda>r. r\<lparr>sit_id := None\<rparr>) (dedupe_source_item_transcripts (fw_source_item_transcripts w))))"
  using d_item_transcripts.replicated [OF assms(6) old_item_transcripts [OF assms(3)] _ refl, of
      "map item_transcript_content (get_source_item_transcripts_for_feed sp (fe_feed_guid (fw_feed w))) \<noteq> map item_transcript_content (fw_source_item_transcripts w)" "fw_source_item_transcripts w"]
  by (simp only: replica_item_transcripts [OF assms(1,2,4,5)] not_not)

lemma old_platform_claims:
  assumes "refs_ok s"
  shows "sorted (map (\<lambda>r. (spc_platform_key r, spc_extraction_path r, spc_url r, spc_owner_name r)) (get_source_platform_claims_for_feed s g))" "True"
  by (simp_all add: get_source_platform_claims_for_feed_def)

lemma same_platform_claims:
  assumes "dforeach (applied_run nd now) evs sr = (Inr (), sr')" "refs_ok sr" "refs_ok sp"
    "event_payload_of nd ` set evs = ingest_payload_set pm sp w"
    "rows_of_feed w" "map platform_claim_content (get_source_platform_claims_for_feed sr (fe_feed_guid (fw_feed w))) = map platform_claim_content (get_source_platform_claims_for_feed sp (fe_feed_guid (fw_feed w)))"
  shows "map platform_claim_content (get_source_platform_claims_for_feed sr' (fe_feed_guid (fw_feed w))) = map platform_claim_content (List.sort_key (\<lambda>r. (spc_platform_key r, spc_extraction_path r, spc_url r, spc_owner_name r)) (map (\<lambda>r. r\<lparr>spc_id := None\<rparr>) (fw_source_platform_claims w)))"
  using d_platform_claims.replicated [OF assms(6) old_platform_claims [OF assms(3)] _ refl, of
      "map platform_claim_content (get_source_platform_claims_for_feed sp (fe_feed_guid (fw_feed w))) \<noteq> map platform_claim_content (fw_source_platform_claims w)" "fw_source_platform_claims w"]
  by (simp only: replica_platform_claims [OF assms(1,2,4,5)] not_not)

end
