(* ===== verification/Replicated.thy ===== *)
theory Replicated
  imports Converge
begin

text \<open>
  The tracks of a replica and the replication of a whole ingest: the events that the primary emits
  for a submission carry a community node whose view of the feed agrees with the primary's to the
  primary's view after the ingest.
\<close>

section \<open>Remote items of tracks\<close>

text \<open>
  The migrations left rows of \<^verbatim>\<open>track\_remote\_items\_raw\<close> without a feed GUID, which belong to every feed
  with a track of that GUID; the calls below write none.
\<close>

definition no_legacy :: "db \<Rightarrow> bool" where
  "no_legacy s \<longleftrightarrow> list_all (\<lambda>r. fst r \<noteq> None) (t_track_remote_items_raw s)"

lemma no_legacy_items:
  assumes "refs_ok s" "no_legacy s" "get_track_for_feed s g t = None"
  shows "get_track_remote_items_for_feed_track s g t = []"
proof -
  have "\<not> track_exists g t s" using assms(3) by (simp add: get_track_for_feed_def track_exists_iff)
  then have "filter (tri_owner g t) (t_track_remote_items_raw s) = []"
    using assms(1,2)
    by (auto simp: refs_ok_def track_children_ok_def table_ok_def list_all_iff null_track_fk_def no_legacy_def
        tri_owner_def filter_empty_conv)
  then show ?thesis by (simp add: get_track_remote_items_for_feed_track_def)
qed

lemma keeps_legacy_items: "keeps no_legacy (replace_track_remote_items_raw_for_feed_track g t items)"
  unfolding replace_track_remote_items_raw_for_feed_track_def replace_rows_def insert_row_def
  by (intro keeps_dseq keeps_dforeach keeps_dexec keeps_dstmt) (auto simp: no_legacy_def list_all_iff Let_def delete_where_def)

lemma no_legacy_delete: "no_legacy s \<Longrightarrow> no_legacy (delete_track_sql env g t s)"
  by (auto simp: no_legacy_def list_all_iff delete_track_tables delete_where_def)

lemma apply_frame_tracks:
  "payload_type p \<notin> {TrackUpserted, TrackRemoved, FeedRetired} \<Longrightarrow> keeps (\<lambda>s. Q (t_tracks s)) (apply_payload nd now ca p)"
  by (cases p; simp only: payload_type.simps apply_payload.simps Let_def insert_iff not_True_eq_False HOL.simp_thms de_Morgan_disj;
      (intro apply_frame_intros; simp)?)

lemma apply_frame_items:
  "payload_type p \<notin> {TrackRemoteItemsReplaced, TrackRemoved, FeedRetired} \<Longrightarrow>
    keeps (\<lambda>s. Q (t_track_remote_items_raw s)) (apply_payload nd now ca p)"
  by (cases p; simp only: payload_type.simps apply_payload.simps Let_def insert_iff not_True_eq_False HOL.simp_thms de_Morgan_disj;
      (intro apply_frame_intros; simp)?)

lemma sent_items_feed:
  "TrackRemoteItemsReplacedP q \<in> ingest_payload_set pm sp w \<Longrightarrow> trir_feed_guid q = Some (fe_feed_guid (fw_feed w))"
  by (auto simp: payload_set_defs bundle_payloads_def)

lemma keeps_legacy_payload:
  assumes "p \<in> ingest_payload_set pm sp w"
  shows "keeps no_legacy (apply_payload nd now ca p)"
proof (cases "payload_type p \<in> {TrackRemoteItemsReplaced, TrackRemoved, FeedRetired}")
  case False
  then show ?thesis unfolding no_legacy_def by (rule apply_frame_items)
next
  case True
  then consider q where "p = TrackRemoteItemsReplacedP q" | q where "p = TrackRemovedP q"
    using no_retirement [OF assms] by (cases p) auto
  then show ?thesis
  proof cases
    case 1
    with assms sent_items_feed [of q] show ?thesis by (simp add: keeps_legacy_items)
  next
    case 2
    have "keeps no_legacy (dexec (delete_track_sql (nd_env nd) g t))" for g t
      by (rule keeps_dexec) (rule no_legacy_delete)
    with 2 show ?thesis by (auto intro!: keeps_dbind keeps_dread keeps_dret split: option.split)
  qed
qed

lemma keeps_legacy_ingest: "keeps no_legacy (ingest_transaction pm uuid now w rows mv)"
proof -
  have prefix: "keeps no_legacy (ingest_feed_rows pm v)" "keeps no_legacy (ingest_source_claims v)" "keeps no_legacy (ingest_source_items v)" for v
    unfolding ingest_feed_rows_def ingest_source_claims_def ingest_source_items_def Let_def
    by (intro keeps_dseq keeps_dexec frame_replace frame_upserts; simp add: no_legacy_def)+
  have track: "keeps no_legacy (ingest_track b)" for b
    unfolding ingest_track_def
    by (auto intro!: keeps_dseq keeps_legacy_items frame_replace frame_value_time_splits frame_upserts
        simp: Let_def no_legacy_def split: prod.split)
  have stale: "keeps no_legacy (remove_stale_track pm f t)" for f t
    unfolding remove_stale_track_def by (intro keeps_dbind keeps_dseq keeps_if keeps_dexec keeps_dread keeps_dret no_legacy_delete)
  have new: "keeps no_legacy (insert_new_event pm er)" for er
    unfolding insert_new_event_def by (rule frame_insert_event) (simp add: no_legacy_def)
  have tail: "keeps no_legacy (sync_source_read_models_for_feed env now g)" for env g
    by (intro frame_sync; simp add: no_legacy_def)
  have move: "keeps no_legacy (dexec (write_feed_move g m))" for g m
    by (rule keeps_dexec) (simp add: no_legacy_def write_feed_move_def add_left_url_def remove_left_url_def Let_def split: option.split)
  show ?thesis
    unfolding ingest_transaction_def ingest_body_def Let_def
    by (intro keeps_dtransaction keeps_dseq keeps_dbind keeps_dread keeps_dret keeps_dforeach keeps_dcollect prefix track stale new tail keeps_case_option move)
qed

section \<open>What touches a track\<close>

definition track_touched :: "string \<Rightarrow> string \<Rightarrow> event_payload \<Rightarrow> bool" where
  "track_touched g t p = (case p of
       TrackUpsertedP q \<Rightarrow> tr_feed_guid (tu_track q) = g \<and> tr_track_guid (tu_track q) = t
     | TrackRemovedP q \<Rightarrow> trm_feed_guid q = g \<and> trm_track_guid q = t
     | _ \<Rightarrow> False)"

definition items_touched :: "string \<Rightarrow> string \<Rightarrow> event_payload \<Rightarrow> bool" where
  "items_touched g t p = (case p of
       TrackRemoteItemsReplacedP q \<Rightarrow> trir_feed_guid q = Some g \<and> trir_track_guid q = t
     | TrackRemovedP q \<Rightarrow> trm_feed_guid q = g \<and> trm_track_guid q = t
     | _ \<Rightarrow> False)"

lemma sent_of_tracks:
  "TrackUpsertedP q \<in> ingest_payload_set pm sp w \<longleftrightarrow>
     (\<exists>b\<in>set (fw_tracks w). TrackUpsertedP q \<in> bundle_payloads sp (fe_feed_guid (fw_feed w)) b)"
  "TrackRemoteItemsReplacedP i \<in> ingest_payload_set pm sp w \<longleftrightarrow>
     (\<exists>b\<in>set (fw_tracks w). TrackRemoteItemsReplacedP i \<in> bundle_payloads sp (fe_feed_guid (fw_feed w)) b)"
  "TrackRemovedP r \<in> ingest_payload_set pm sp w \<longleftrightarrow>
     trm_feed_guid r = fe_feed_guid (fw_feed w) \<and> trm_track_guid r \<in> set (removals_of pm w sp)"
proof -
  show "TrackRemovedP r \<in> ingest_payload_set pm sp w \<longleftrightarrow>
     trm_feed_guid r = fe_feed_guid (fw_feed w) \<and> trm_track_guid r \<in> set (removals_of pm w sp)"
    by (cases r) (auto simp: payload_set_defs dest: bundle_types)
qed (auto simp: payload_set_defs)

lemma not_removed: "b \<in> set (fw_tracks w) \<Longrightarrow> tr_track_guid (fst b) \<notin> set (removals_of pm w sp)"
  by (auto simp: removals_of_def stale_guids_def)

lemma removed_iff:
  "hash_ok (pm_hash_order pm) \<Longrightarrow> t \<notin> (\<lambda>b. tr_track_guid (fst b)) ` set (fw_tracks w) \<Longrightarrow>
    t \<in> set (removals_of pm w sp) \<longleftrightarrow> t \<in> track_guids sp (fe_feed_guid (fw_feed w))"
  by (auto simp: removals_of_def stale_guids_def hash_ok_def track_guids_def)

lemma same_bundle:
  "distinct (map (\<lambda>b. tr_track_guid (fst b)) bs) \<Longrightarrow> b \<in> set bs \<Longrightarrow> c \<in> set bs \<Longrightarrow>
    tr_track_guid (fst b) = tr_track_guid (fst c) \<Longrightarrow> b = c"
  by (auto simp: distinct_map inj_on_def)

text \<open>For a submitted track the payloads are those of its bundle; for another one, its removal.\<close>

lemma touching_submitted:
  assumes "rows_of_feed w" "distinct (map (\<lambda>b. tr_track_guid (fst b)) (fw_tracks w))"
    "(track, routes, splits, items) \<in> set (fw_tracks w)" "g = fe_feed_guid (fw_feed w)"
  shows "p \<in> ingest_payload_set pm sp w \<Longrightarrow> track_touched g (tr_track_guid track) p \<Longrightarrow>
      p = TrackUpsertedP \<lparr>tu_track = track, tu_routes = routes, tu_value_time_splits = splits\<rparr>"
    "(\<exists>p\<in>ingest_payload_set pm sp w. track_touched g (tr_track_guid track) p) \<longleftrightarrow> track_sent sp g track"
    "p \<in> ingest_payload_set pm sp w \<Longrightarrow> items_touched g (tr_track_guid track) p \<Longrightarrow>
      p = TrackRemoteItemsReplacedP \<lparr>trir_track_guid = tr_track_guid track, trir_feed_guid = Some g, trir_remote_items = items\<rparr>"
    "(\<exists>p\<in>ingest_payload_set pm sp w. items_touched g (tr_track_guid track) p) \<longleftrightarrow> items_sent sp g track items"
proof -
  let ?b = "(track, routes, splits, items)" and ?t = "tr_track_guid track"
  have gone: "?t \<notin> set (removals_of pm w sp)" using not_removed [OF assms(3)] by simp
  have own: "tr_feed_guid track = g" using assms(1,3,4) by (auto simp: rows_of_feed_def Let_def list_all_iff)
  show up: "p = TrackUpsertedP \<lparr>tu_track = track, tu_routes = routes, tu_value_time_splits = splits\<rparr>"
    if sent: "p \<in> ingest_payload_set pm sp w" "track_touched g ?t p" for p
  proof (cases p)
    case (TrackUpsertedP q)
    then obtain c where c: "c \<in> set (fw_tracks w)" "TrackUpsertedP q \<in> bundle_payloads sp g c"
      using sent(1) assms(4) unfolding TrackUpsertedP sent_of_tracks by blast
    moreover from c(2) TrackUpsertedP sent(2) have "tr_track_guid (fst c) = ?t"
      by (cases c) (auto simp: bundle_payloads_def track_touched_def)
    ultimately have "c = ?b" using same_bundle [OF assms(2) c(1) assms(3)] by simp
    with c(2) TrackUpsertedP show ?thesis by (simp add: bundle_payloads_def)
  qed (use sent gone in \<open>simp_all add: track_touched_def sent_of_tracks\<close>)
  show it: "p = TrackRemoteItemsReplacedP \<lparr>trir_track_guid = ?t, trir_feed_guid = Some g, trir_remote_items = items\<rparr>"
    if sent: "p \<in> ingest_payload_set pm sp w" "items_touched g ?t p" for p
  proof (cases p)
    case (TrackRemoteItemsReplacedP q)
    then obtain c where c: "c \<in> set (fw_tracks w)" "TrackRemoteItemsReplacedP q \<in> bundle_payloads sp g c"
      using sent(1) assms(4) unfolding TrackRemoteItemsReplacedP sent_of_tracks by blast
    moreover from c(2) TrackRemoteItemsReplacedP sent(2) have "tr_track_guid (fst c) = ?t"
      by (cases c) (auto simp: bundle_payloads_def items_touched_def)
    ultimately have "c = ?b" using same_bundle [OF assms(2) c(1) assms(3)] by simp
    with c(2) TrackRemoteItemsReplacedP show ?thesis by (simp add: bundle_payloads_def)
  qed (use sent gone in \<open>simp_all add: items_touched_def sent_of_tracks\<close>)
  have b: "P \<in> bundle_payloads sp g ?b \<Longrightarrow> P \<in> ingest_payload_set pm sp w" for P
    using assms(3,4) unfolding ingest_payload_set_def diff_payloads_def Let_def by blast
  have mine: "TrackUpsertedP \<lparr>tu_track = track, tu_routes = routes, tu_value_time_splits = splits\<rparr> \<in> ingest_payload_set pm sp w \<Longrightarrow>
      track_sent sp g track"
    "TrackRemoteItemsReplacedP \<lparr>trir_track_guid = ?t, trir_feed_guid = Some g, trir_remote_items = items\<rparr> \<in> ingest_payload_set pm sp w \<Longrightarrow>
      items_sent sp g track items"
  proof -
    assume "TrackUpsertedP \<lparr>tu_track = track, tu_routes = routes, tu_value_time_splits = splits\<rparr> \<in> ingest_payload_set pm sp w"
    then obtain c where "TrackUpsertedP \<lparr>tu_track = track, tu_routes = routes, tu_value_time_splits = splits\<rparr> \<in> bundle_payloads sp g c"
      using assms(4) unfolding sent_of_tracks by blast
    then show "track_sent sp g track" by (cases c) (auto simp: bundle_payloads_def)
  next
    assume "TrackRemoteItemsReplacedP \<lparr>trir_track_guid = ?t, trir_feed_guid = Some g, trir_remote_items = items\<rparr> \<in> ingest_payload_set pm sp w"
    then obtain c where c: "c \<in> set (fw_tracks w)"
      "TrackRemoteItemsReplacedP \<lparr>trir_track_guid = ?t, trir_feed_guid = Some g, trir_remote_items = items\<rparr> \<in> bundle_payloads sp g c"
      using assms(4) unfolding sent_of_tracks by blast
    then have "c = ?b" using same_bundle [OF assms(2) c(1) assms(3)] by (cases c) (auto simp: bundle_payloads_def)
    with c(2) show "items_sent sp g track items" by (auto simp: bundle_payloads_def)
  qed
  show "(\<exists>p\<in>ingest_payload_set pm sp w. track_touched g ?t p) \<longleftrightarrow> track_sent sp g track"
  proof
    assume "\<exists>p\<in>ingest_payload_set pm sp w. track_touched g ?t p"
    then show "track_sent sp g track" using up mine(1) by blast
  next
    assume "track_sent sp g track"
    then show "\<exists>p\<in>ingest_payload_set pm sp w. track_touched g ?t p"
      by (intro bexI [OF _ b [of "TrackUpsertedP \<lparr>tu_track = track, tu_routes = routes, tu_value_time_splits = splits\<rparr>"]])
        (simp_all add: track_touched_def own bundle_payloads_def)
  qed
  show "(\<exists>p\<in>ingest_payload_set pm sp w. items_touched g ?t p) \<longleftrightarrow> items_sent sp g track items"
  proof
    assume "\<exists>p\<in>ingest_payload_set pm sp w. items_touched g ?t p"
    then show "items_sent sp g track items" using it mine(2) by blast
  next
    assume "items_sent sp g track items"
    then show "\<exists>p\<in>ingest_payload_set pm sp w. items_touched g ?t p"
      by (intro bexI [OF _ b [of "TrackRemoteItemsReplacedP \<lparr>trir_track_guid = ?t, trir_feed_guid = Some g, trir_remote_items = items\<rparr>"]])
        (simp_all add: items_touched_def bundle_payloads_def)
  qed
qed

lemma touching_other:
  assumes "t \<notin> (\<lambda>b. tr_track_guid (fst b)) ` set (fw_tracks w)" "hash_ok (pm_hash_order pm)" "g = fe_feed_guid (fw_feed w)"
  shows "p \<in> ingest_payload_set pm sp w \<Longrightarrow> track_touched g t p \<or> items_touched g t p \<Longrightarrow>
      p = TrackRemovedP \<lparr>trm_track_guid = t, trm_feed_guid = g\<rparr>"
    "(\<exists>p\<in>ingest_payload_set pm sp w. track_touched g t p) \<longleftrightarrow> t \<in> track_guids sp g"
    "(\<exists>p\<in>ingest_payload_set pm sp w. items_touched g t p) \<longleftrightarrow> t \<in> track_guids sp g"
proof -
  show rm: "p = TrackRemovedP \<lparr>trm_track_guid = t, trm_feed_guid = g\<rparr>"
    if "p \<in> ingest_payload_set pm sp w" "track_touched g t p \<or> items_touched g t p" for p
  proof (cases p)
    case (TrackRemovedP r)
    with that show ?thesis by (cases r) (auto simp: track_touched_def items_touched_def)
  next
    case (TrackUpsertedP q)
    with that assms(1) show ?thesis
      by (force simp: sent_of_tracks bundle_payloads_def track_touched_def items_touched_def image_iff)
  next
    case (TrackRemoteItemsReplacedP q)
    with that assms(1) show ?thesis
      by (force simp: sent_of_tracks bundle_payloads_def track_touched_def items_touched_def image_iff)
  qed (use that in \<open>auto simp: track_touched_def items_touched_def\<close>)
  have mem: "TrackRemovedP \<lparr>trm_track_guid = t, trm_feed_guid = g\<rparr> \<in> ingest_payload_set pm sp w \<longleftrightarrow> t \<in> track_guids sp g"
    using removed_iff [OF assms(2,1)] assms(3) by (simp add: sent_of_tracks)
  have touch: "track_touched g t (TrackRemovedP \<lparr>trm_track_guid = t, trm_feed_guid = g\<rparr>)"
    "items_touched g t (TrackRemovedP \<lparr>trm_track_guid = t, trm_feed_guid = g\<rparr>)"
    by (simp_all add: track_touched_def items_touched_def)
  show "(\<exists>p\<in>ingest_payload_set pm sp w. track_touched g t p) \<longleftrightarrow> t \<in> track_guids sp g"
    "(\<exists>p\<in>ingest_payload_set pm sp w. items_touched g t p) \<longleftrightarrow> t \<in> track_guids sp g"
    using rm mem touch by metis+
qed

section \<open>The tracks after a run\<close>

lemma replica_tracks:
  assumes "dforeach (applied_run nd now) evs s = (Inr (), s')" "refs_ok s" "no_legacy s"
    and ps: "event_payload_of nd ` set evs = ingest_payload_set pm sp w"
    and "\<And>f s. get (t_events_update f s) = get s"
    and frame: "\<And>p c ca. p \<in> ingest_payload_set pm sp w \<Longrightarrow> \<not> W p \<Longrightarrow>
        ensures (\<lambda>s. refs_ok s \<and> get s = c) (apply_payload nd now ca p) (\<lambda>s. get s = c)"
    and writer: "\<And>p ca. p \<in> ingest_payload_set pm sp w \<Longrightarrow> W p \<Longrightarrow>
        ensures (\<lambda>s. refs_ok s \<and> no_legacy s) (apply_payload nd now ca p) (\<lambda>s. get s = v)"
  shows "get s' = (if \<exists>p\<in>ingest_payload_set pm sp w. W p then v else get s)"
proof -
  have log: "keeps P (insert_received_event ev)" if "\<And>f s. P (t_events_update f s) = P s" for P ev
    using that by (rule frame_insert_received)
  have legacy: "no_legacy (t_events_update f s) = no_legacy s" for f s by (simp add: no_legacy_def)
  have inv: "keeps (\<lambda>s. refs_ok s \<and> no_legacy s) (insert_received_event ev)" for ev
    using keeps_insert_received(1) [of ev] log [of no_legacy ev, OF legacy] by (simp add: keeps_def)
  have "get s' = (if \<exists>ev\<in>set evs. W (event_payload_of nd ev) then v else get s)"
  proof (rule dforeach_writer [where get = get and P = "\<lambda>s. refs_ok s \<and> no_legacy s" and f = "applied_run nd now"
        and W = "\<lambda>ev. W (event_payload_of nd ev)", OF assms(1)])
    show "keeps (\<lambda>s. refs_ok s \<and> no_legacy s) (applied_run nd now ev)" if "ev \<in> set evs" for ev
    proof (rule keeps_applied_run [OF inv])
      fix p assume "deserialize_verified_payload nd ev = Some p"
      with that ps have "p \<in> ingest_payload_set pm sp w" by (force simp: event_payload_of_def)
      then show "keeps (\<lambda>s. refs_ok s \<and> no_legacy s) (apply_payload nd now (ev_created_at ev) p)"
        using keeps_legacy_payload keeps_refs_apply_payload by (simp add: keeps_def)
    qed
    show "ensures (\<lambda>s. (refs_ok s \<and> no_legacy s) \<and> get s = c) (applied_run nd now ev) (\<lambda>s. get s = c)"
      if "ev \<in> set evs" "\<not> W (event_payload_of nd ev)" for ev c
    proof (rule ensures_weaken [OF ensures_applied [of "\<lambda>s. refs_ok s \<and> get s = c"]])
      show "keeps (\<lambda>s. refs_ok s \<and> get s = c) (insert_received_event ev)"
        using keeps_insert_received(1) [of ev] log [of "\<lambda>s. get s = c" ev] assms(5) by (simp add: keeps_def)
      show "ensures (\<lambda>s. refs_ok s \<and> get s = c) (apply_payload nd now (ev_created_at ev) (event_payload_of nd ev)) (\<lambda>s. get s = c)"
        by (rule frame) (use that ps in auto)
    qed simp_all
    show "ensures (\<lambda>s. refs_ok s \<and> no_legacy s) (applied_run nd now ev) (\<lambda>s. get s = v)"
      if "ev \<in> set evs" "W (event_payload_of nd ev)" for ev
      by (rule ensures_applied [OF inv], rule writer) (use that ps in auto)
  qed (use assms(2,3) in simp)
  moreover have "(\<exists>ev\<in>set evs. W (event_payload_of nd ev)) \<longleftrightarrow> (\<exists>p\<in>ingest_payload_set pm sp w. W p)"
    by (simp only: ps [symmetric] bex_simps)
  ultimately show ?thesis by simp
qed

lemma delete_other_track:
  assumes "(h, u) \<noteq> (g, t)"
  shows "get_track_for_feed (delete_track_sql env h u s) g t = get_track_for_feed s g t"
proof -
  have find: "find p (delete_where q xs) = find p xs" if "\<And>x. p x \<Longrightarrow> \<not> q x" for p q and xs :: "'x list"
    using that by (induction xs) (auto simp: delete_where_def)
  show ?thesis
    unfolding get_track_for_feed_def lookup_by_def delete_track_tables
    by (rule find) (use assms in \<open>auto simp: track_key_def\<close>)
qed

lemma delete_other_items:
  assumes "u \<noteq> t"
  shows "get_track_remote_items_for_feed_track (delete_track_sql env h u s) g t = get_track_remote_items_for_feed_track s g t"
proof -
  have "filter (tri_owner g t) (delete_where (tri_owner h u) xs) = filter (tri_owner g t) xs" for xs
    using assms by (auto simp: delete_where_def tri_owner_def intro!: filter_cong)
  then show ?thesis by (simp add: get_track_remote_items_for_feed_track_def delete_track_tables)
qed

lemma deleted_track: "get_track_for_feed (delete_track_sql env g t s) g t = None"
  by (auto simp: get_track_for_feed_def delete_track_tables track_key_def)

lemma deleted_items: "get_track_remote_items_for_feed_track (delete_track_sql env g t s) g t = []"
  by (simp add: get_track_remote_items_for_feed_track_def delete_track_tables delete_where_def filter_empty_conv)

text \<open>A payload that does not touch a track keeps it, and keeps its remote items.\<close>

lemma untouched_track:
  assumes "payload_type p \<noteq> FeedRetired" "\<not> track_touched g t p"
    and own: "\<And>q. p = TrackUpsertedP q \<Longrightarrow> tr_feed_guid (tu_track q) = g" "\<And>q. p = TrackRemovedP q \<Longrightarrow> trm_feed_guid q = g"
  shows "keeps (\<lambda>s. get_track_for_feed s g t = c) (apply_payload nd now ca p)"
proof (cases "payload_type p \<in> {TrackUpserted, TrackRemoved, FeedRetired}")
  case False
  then show ?thesis unfolding get_track_for_feed_def by (rule apply_frame_tracks)
next
  case True
  then consider q where "p = TrackUpsertedP q" | q where "p = TrackRemovedP q"
    using assms(1) by (cases p) auto
  then show ?thesis
  proof cases
    case 1
    then have "tr_track_guid (tu_track q) \<noteq> t" using assms(2) own(1) by (simp add: track_touched_def)
    then show ?thesis
      unfolding 1 apply_payload.simps Let_def
      by (intro keeps_dseq upsert_other_track apply_frame_intros; simp add: get_track_for_feed_def)
  next
    case 2
    have "keeps (\<lambda>s. get_track_for_feed s g t = c) (dexec (delete_track_sql (nd_env nd) (trm_feed_guid q) (trm_track_guid q)))"
      by (rule keeps_dexec) (use assms(2) 2 in \<open>auto simp: delete_other_track track_touched_def\<close>)
    with 2 show ?thesis by (auto intro!: keeps_dbind keeps_dread keeps_dret split: option.split)
  qed
qed

lemma untouched_items:
  assumes "payload_type p \<noteq> FeedRetired" "\<not> items_touched g t p"
    and own: "\<And>q. p = TrackRemoteItemsReplacedP q \<Longrightarrow> trir_feed_guid q = Some g" "\<And>q. p = TrackRemovedP q \<Longrightarrow> trm_feed_guid q = g"
  shows "ensures (\<lambda>s. refs_ok s \<and> get_track_remote_items_for_feed_track s g t = c) (apply_payload nd now ca p)
    (\<lambda>s. get_track_remote_items_for_feed_track s g t = c)"
proof (cases "payload_type p \<in> {TrackRemoteItemsReplaced, TrackRemoved, FeedRetired}")
  case False
  then have "keeps (\<lambda>s. get_track_remote_items_for_feed_track s g t = c) (apply_payload nd now ca p)"
    unfolding get_track_remote_items_for_feed_track_def by (rule apply_frame_items)
  then show ?thesis by (rule keeps_kept)
next
  case True
  then consider q where "p = TrackRemoteItemsReplacedP q" | q where "p = TrackRemovedP q"
    using assms(1) by (cases p) auto
  then show ?thesis
  proof cases
    case 1
    then have "trir_track_guid q \<noteq> t" "trir_feed_guid q = Some g" using assms(2) own(1) by (simp_all add: items_touched_def)
    with 1 show ?thesis by (simp add: items_other_track)
  next
    case 2
    have "keeps (\<lambda>s. get_track_remote_items_for_feed_track s g t = c) (dexec (delete_track_sql (nd_env nd) (trm_feed_guid q) (trm_track_guid q)))"
      by (rule keeps_dexec) (use assms(2) own(2) 2 in \<open>auto simp: delete_other_items items_touched_def\<close>)
    then have "keeps (\<lambda>s. get_track_remote_items_for_feed_track s g t = c) (apply_payload nd now ca p)"
      using 2 by (auto intro!: keeps_dbind keeps_dread keeps_dret split: option.split)
    then show ?thesis by (rule keeps_kept)
  qed
qed

lemma sent_owner:
  assumes "p \<in> ingest_payload_set pm sp w" "rows_of_feed w" "g = fe_feed_guid (fw_feed w)"
  shows "p = TrackUpsertedP q \<Longrightarrow> tr_feed_guid (tu_track q) = g" "p = TrackRemoteItemsReplacedP i \<Longrightarrow> trir_feed_guid i = Some g"
    "p = TrackRemovedP r \<Longrightarrow> trm_feed_guid r = g"
proof -
  show "tr_feed_guid (tu_track q) = g" if "p = TrackUpsertedP q"
  proof -
    obtain b where b: "b \<in> set (fw_tracks w)" "TrackUpsertedP q \<in> bundle_payloads sp g b"
      using assms(1,3) \<open>p = TrackUpsertedP q\<close> sent_of_tracks(1) by blast
    moreover from b(1) assms(2,3) have "tr_feed_guid (fst b) = g" by (simp add: rows_of_feed_def Let_def list_all_iff)
    ultimately show ?thesis by (cases b) (auto simp: bundle_payloads_def)
  qed
qed (use assms sent_items_feed in \<open>auto simp: sent_of_tracks\<close>)

text \<open>What a touching payload leaves.\<close>

lemma ensures_upserted:
  "ensures P (apply_payload nd now ca (TrackUpsertedP q))
    (\<lambda>s. map_option track_content (get_track_for_feed s (tr_feed_guid (tu_track q)) (tr_track_guid (tu_track q))) = Some (track_content (tu_track q)))"
proof -
  have "ensures P (apply_payload nd now ca (TrackUpsertedP q))
      (\<lambda>s. \<exists>c. get_track_for_feed s (tr_feed_guid (tu_track q)) (tr_track_guid (tu_track q)) = Some ((tu_track q)\<lparr>tr_created_at := c\<rparr>))"
    unfolding apply_payload.simps Let_def
    by (rule ensures_here, rule ensures_track)
      (intro keeps_dseq frame_replace frame_value_time_splits frame_sync; simp add: get_track_for_feed_def)
  then show ?thesis by (rule ensures_weaken) (auto simp: track_content_created)
qed

lemma removed_track:
  "ensures P (apply_payload nd now ca (TrackRemovedP \<lparr>trm_track_guid = t, trm_feed_guid = g\<rparr>)) (\<lambda>s. get_track_for_feed s g t = None)"
  by (auto simp: ensures_def dbind_Inr dread_def dret_def dexec_def deleted_track split: option.splits)

lemma removed_items:
  "ensures (\<lambda>s. refs_ok s \<and> no_legacy s) (apply_payload nd now ca (TrackRemovedP \<lparr>trm_track_guid = t, trm_feed_guid = g\<rparr>))
    (\<lambda>s. get_track_remote_items_for_feed_track s g t = [])"
  by (auto simp: ensures_def dbind_Inr dread_def dret_def dexec_def deleted_items no_legacy_items split: option.splits)

text \<open>The tracks of the replica, submitted or not.\<close>

lemma track_absent_iff: "get_track_for_feed s g t = None \<longleftrightarrow> t \<notin> track_guids s g"
  by (auto simp: get_track_for_feed_def track_guids_def track_key_def image_iff)

lemma replica_submitted_track:
  assumes run: "dforeach (applied_run nd now) evs sr = (Inr (), sr')" "refs_ok sr" "no_legacy sr"
    "event_payload_of nd ` set evs = ingest_payload_set pm sp w"
    and w: "rows_of_feed w" "distinct (map (\<lambda>b. tr_track_guid (fst b)) (fw_tracks w))"
    "(track, routes, splits, items) \<in> set (fw_tracks w)" "g = fe_feed_guid (fw_feed w)"
    and same: "map_option track_content (get_track_for_feed sr g (tr_track_guid track)) = map_option track_content (get_track_for_feed sp g (tr_track_guid track))"
  shows "map_option track_content (get_track_for_feed sr' g (tr_track_guid track)) = Some (track_content track)"
proof -
  let ?t = "tr_track_guid track"
  have own: "tr_feed_guid track = g" using w(1,3,4) by (auto simp: rows_of_feed_def Let_def list_all_iff)
  have "map_option track_content (get_track_for_feed sr' g ?t) =
      (if \<exists>p\<in>ingest_payload_set pm sp w. track_touched g ?t p then Some (track_content track)
       else map_option track_content (get_track_for_feed sr g ?t))"
  proof (rule replica_tracks [OF run])
    fix p c ca assume p: "p \<in> ingest_payload_set pm sp w" "\<not> track_touched g ?t p"
    then have "keeps (\<lambda>s. get_track_for_feed s g ?t = d) (apply_payload nd now ca p)" for d
      by (intro untouched_track no_retirement) (use sent_owner [OF p(1) w(1,4)] in auto)
    then have "keeps (\<lambda>s. map_option track_content (get_track_for_feed s g ?t) = c) (apply_payload nd now ca p)"
      unfolding keeps_def by metis
    then show "ensures (\<lambda>s. refs_ok s \<and> map_option track_content (get_track_for_feed s g ?t) = c) (apply_payload nd now ca p)
        (\<lambda>s. map_option track_content (get_track_for_feed s g ?t) = c)" by (rule keeps_kept)
  next
    fix p ca assume p: "p \<in> ingest_payload_set pm sp w" "track_touched g ?t p"
    show "ensures (\<lambda>s. refs_ok s \<and> no_legacy s) (apply_payload nd now ca p)
        (\<lambda>s. map_option track_content (get_track_for_feed s g ?t) = Some (track_content track))"
      unfolding touching_submitted(1) [OF w p]
      using ensures_upserted [of _ nd now ca "\<lparr>tu_track = track, tu_routes = routes, tu_value_time_splits = splits\<rparr>"] own by simp
  qed (simp add: get_track_for_feed_def)
  then show ?thesis
    using same by (simp add: touching_submitted(2) [OF w] track_sent_def)
qed

lemma replica_submitted_items:
  assumes run: "dforeach (applied_run nd now) evs sr = (Inr (), sr')" "refs_ok sr" "no_legacy sr"
    "event_payload_of nd ` set evs = ingest_payload_set pm sp w"
    and w: "rows_of_feed w" "distinct (map (\<lambda>b. tr_track_guid (fst b)) (fw_tracks w))"
    "(track, routes, splits, items) \<in> set (fw_tracks w)" "g = fe_feed_guid (fw_feed w)"
    and ok: "bundle_ok (track, routes, splits, items)" "refs_ok sp" "no_legacy sp"
    and same: "map track_remote_item_content (get_track_remote_items_for_feed_track sr g (tr_track_guid track))
      = map track_remote_item_content (get_track_remote_items_for_feed_track sp g (tr_track_guid track))"
  shows "map track_remote_item_content (get_track_remote_items_for_feed_track sr' g (tr_track_guid track))
      = map track_remote_item_content (List.sort_key tri_position (map (\<lambda>r. r\<lparr>tri_id := None, tri_feed_guid := g, tri_track_guid := tr_track_guid track\<rparr>) items))"
proof -
  let ?t = "tr_track_guid track"
  let ?new = "List.sort_key tri_position (map (\<lambda>r. r\<lparr>tri_id := None, tri_feed_guid := g, tri_track_guid := ?t\<rparr>) items)"
  have own: "tr_feed_guid track = g" using w(1,3,4) by (auto simp: rows_of_feed_def Let_def list_all_iff)
  have items_own: "list_all (\<lambda>r. tri_feed_guid r = [] \<or> tri_feed_guid r = g) items" using ok(1) own by (simp add: bundle_ok_def)
  have read: "get_track_remote_items_for_feed_track sr' g ?t =
      (if \<exists>p\<in>ingest_payload_set pm sp w. items_touched g ?t p then ?new else get_track_remote_items_for_feed_track sr g ?t)"
  proof (rule replica_tracks [OF run])
    fix p c ca assume p: "p \<in> ingest_payload_set pm sp w" "\<not> items_touched g ?t p"
    show "ensures (\<lambda>s. refs_ok s \<and> get_track_remote_items_for_feed_track s g ?t = c) (apply_payload nd now ca p)
        (\<lambda>s. get_track_remote_items_for_feed_track s g ?t = c)"
      by (rule untouched_items) (use p sent_owner [OF p(1) w(1,4)] no_retirement in auto)
  next
    fix p ca assume p: "p \<in> ingest_payload_set pm sp w" "items_touched g ?t p"
    show "ensures (\<lambda>s. refs_ok s \<and> no_legacy s) (apply_payload nd now ca p)
        (\<lambda>s. get_track_remote_items_for_feed_track s g ?t = ?new)"
      unfolding touching_submitted(3) [OF w p] apply_payload.simps track_remote_items_replaced_payload.simps option.case
      by (rule ensures_weaken [OF ensures_track_items [OF items_own]]) simp_all
  qed (simp add: get_track_remote_items_for_feed_track_def)
  let ?old = "get_track_remote_items_for_feed_track sp g ?t"
  have "map track_remote_item_content ?old = map track_remote_item_content ?new" if "\<not> items_sent sp g track items"
  proof (cases "track_sent sp g track")
    case True
    with that have "items = []" "get_track_for_feed sp g ?t = None \<or> ?old = []" by (simp_all add: items_sent_def Let_def)
    moreover from this(2) have "?old = []" using no_legacy_items [OF ok(2,3)] by blast
    ultimately show ?thesis by simp
  next
    case False
    with that have "map track_remote_item_content ?old = map track_remote_item_content items" by (simp add: items_sent_def)
    from d_track_items.unchanged_written [OF this] show ?thesis by (simp add: get_track_remote_items_for_feed_track_def)
  qed
  then show ?thesis
    unfolding read touching_submitted(4) [OF w] using same by simp
qed

lemma replica_other_track:
  assumes run: "dforeach (applied_run nd now) evs sr = (Inr (), sr')" "refs_ok sr" "no_legacy sr"
    "event_payload_of nd ` set evs = ingest_payload_set pm sp w"
    and w: "rows_of_feed w" "g = fe_feed_guid (fw_feed w)"
    and t: "t \<notin> (\<lambda>b. tr_track_guid (fst b)) ` set (fw_tracks w)" "hash_ok (pm_hash_order pm)"
    and same: "get_track_for_feed sr g t = None \<longleftrightarrow> get_track_for_feed sp g t = None"
  shows "get_track_for_feed sr' g t = None"
proof -
  have "get_track_for_feed sr' g t =
      (if \<exists>p\<in>ingest_payload_set pm sp w. track_touched g t p then None else get_track_for_feed sr g t)"
  proof (rule replica_tracks [OF run])
    fix p c ca assume p: "p \<in> ingest_payload_set pm sp w" "\<not> track_touched g t p"
    then have "keeps (\<lambda>s. get_track_for_feed s g t = c) (apply_payload nd now ca p)"
      by (intro untouched_track no_retirement) (use sent_owner [OF p(1) w] in auto)
    then show "ensures (\<lambda>s. refs_ok s \<and> get_track_for_feed s g t = c) (apply_payload nd now ca p)
        (\<lambda>s. get_track_for_feed s g t = c)" by (rule keeps_kept)
  next
    fix p ca assume p: "p \<in> ingest_payload_set pm sp w" "track_touched g t p"
    show "ensures (\<lambda>s. refs_ok s \<and> no_legacy s) (apply_payload nd now ca p) (\<lambda>s. get_track_for_feed s g t = None)"
      using touching_other(1) [OF t w(2) p(1)] p(2) removed_track by simp
  qed (simp add: get_track_for_feed_def)
  then show ?thesis using same by (simp add: touching_other(2) [OF t w(2)] track_absent_iff)
qed

lemma replica_other_items:
  assumes run: "dforeach (applied_run nd now) evs sr = (Inr (), sr')" "refs_ok sr" "no_legacy sr"
    "event_payload_of nd ` set evs = ingest_payload_set pm sp w"
    and w: "rows_of_feed w" "g = fe_feed_guid (fw_feed w)"
    and t: "t \<notin> (\<lambda>b. tr_track_guid (fst b)) ` set (fw_tracks w)" "hash_ok (pm_hash_order pm)"
    and same: "get_track_for_feed sr g t = None \<longleftrightarrow> get_track_for_feed sp g t = None"
  shows "get_track_remote_items_for_feed_track sr' g t = []"
proof -
  have "get_track_remote_items_for_feed_track sr' g t =
      (if \<exists>p\<in>ingest_payload_set pm sp w. items_touched g t p then [] else get_track_remote_items_for_feed_track sr g t)"
  proof (rule replica_tracks [OF run])
    fix p c ca assume p: "p \<in> ingest_payload_set pm sp w" "\<not> items_touched g t p"
    show "ensures (\<lambda>s. refs_ok s \<and> get_track_remote_items_for_feed_track s g t = c) (apply_payload nd now ca p)
        (\<lambda>s. get_track_remote_items_for_feed_track s g t = c)"
      by (rule untouched_items) (use p sent_owner [OF p(1) w] no_retirement in auto)
  next
    fix p ca assume p: "p \<in> ingest_payload_set pm sp w" "items_touched g t p"
    show "ensures (\<lambda>s. refs_ok s \<and> no_legacy s) (apply_payload nd now ca p) (\<lambda>s. get_track_remote_items_for_feed_track s g t = [])"
      using touching_other(1) [OF t w(2) p(1)] p(2) removed_items by simp
  qed (simp add: get_track_remote_items_for_feed_track_def)
  then show ?thesis
    using same no_legacy_items [OF run(2,3)] by (simp add: touching_other(3) [OF t w(2)] track_absent_iff)
qed

section \<open>The books of a feed\<close>

text \<open>
  What two nodes agree on: the feed, its child rows, and its tracks with their remote items, up to the
  columns no comparison of the diff reads. Payment routes and time splits of the tracks are left out
  on purpose: a change of these alone emits no event.
\<close>

record feed_books =
  bk_feed :: "feed option"
  bk_rows :: feed_rows
  bk_track :: "string \<Rightarrow> track option"
  bk_items :: "string \<Rightarrow> track_remote_item_raw list"

definition feed_books :: "db \<Rightarrow> string \<Rightarrow> feed_books" where
  "feed_books s g = \<lparr>bk_feed = map_option feed_content (get_feed_by_guid s g), bk_rows = norm_rows (stored_rows s g),
     bk_track = (\<lambda>t. map_option track_content (get_track_for_feed s g t)),
     bk_items = (\<lambda>t. map track_remote_item_content (get_track_remote_items_for_feed_track s g t))\<rparr>"

text \<open>What the books of a feed are after a submission.\<close>

definition submitted_books :: "feed_write \<Rightarrow> feed_books" where
  "submitted_books w = (let g = fe_feed_guid (fw_feed w);
       bundle_for = (\<lambda>t. find (\<lambda>b. tr_track_guid (fst b) = t) (fw_tracks w)) in
     \<lparr>bk_feed = Some (feed_content (fw_feed w)), bk_rows = norm_rows (written_rows w),
      bk_track = (\<lambda>t. map_option (\<lambda>b. track_content (fst b)) (bundle_for t)),
      bk_items = (\<lambda>t. case bundle_for t of None \<Rightarrow> []
        | Some (track, routes, splits, items) \<Rightarrow> map track_remote_item_content (List.sort_key tri_position
            (map (\<lambda>r. r\<lparr>tri_id := None, tri_feed_guid := g, tri_track_guid := t\<rparr>) items)))\<rparr>)"

lemma find_bundle:
  assumes "distinct (map (\<lambda>b. tr_track_guid (fst b)) bs)" "b \<in> set bs"
  shows "find (\<lambda>c. tr_track_guid (fst c) = tr_track_guid (fst b)) bs = Some b"
  using assms
proof (induction bs)
  case (Cons c bs)
  then show ?case by (cases "b = c") (auto simp: image_iff)
qed simp

lemma bundle_cases:
  assumes "distinct (map (\<lambda>b. tr_track_guid (fst b)) bs)"
  obtains b where "b \<in> set bs" "tr_track_guid (fst b) = t" "find (\<lambda>c. tr_track_guid (fst c) = t) bs = Some b"
  | "t \<notin> (\<lambda>b. tr_track_guid (fst b)) ` set bs" "find (\<lambda>c. tr_track_guid (fst c) = t) bs = None"
proof (cases "t \<in> (\<lambda>b. tr_track_guid (fst b)) ` set bs")
  case True
  then obtain b where b: "b \<in> set bs" "t = tr_track_guid (fst b)" by blast
  from find_bundle [OF assms b(1)] show ?thesis by (intro that(1) [OF b(1)]) (simp_all add: b(2))
next
  case False
  moreover from False have "find (\<lambda>c. tr_track_guid (fst c) = t) bs = None" unfolding find_None_iff by blast
  ultimately show ?thesis by (rule that(2))
qed

lemma books_after_ingest:
  assumes "refs_ok s" "rows_of_feed w" "list_all bundle_ok (fw_tracks w)"
    and "distinct (map (\<lambda>b. tr_track_guid (fst b)) (fw_tracks w))" "hash_ok (pm_hash_order pm)" "no_legacy s"
    and "ingest_transaction pm uuid now w rows mv s = (Inr seqs, s')"
  shows "feed_books s' (fe_feed_guid (fw_feed w)) = submitted_books w"
proof -
  let ?g = "fe_feed_guid (fw_feed w)"
  from ingest_result [OF assms(1-5,7)] have feed: "feed_written s' (fw_feed w)" and rows: "stored_rows s' ?g = written_rows w"
    and tracks: "track_guids s' ?g = (\<lambda>b. tr_track_guid (fst b)) ` set (fw_tracks w)"
    and written: "list_all (track_written s') (fw_tracks w)" and ok: "refs_ok s'" by simp_all
  have legacy: "no_legacy s'" using keepsD [OF keeps_legacy_ingest assms(6)] assms(7) by (metis snd_conv)
  have feed': "map_option feed_content (get_feed_by_guid s' ?g) = Some (feed_content (fw_feed w))"
    using feed by (auto simp: feed_written_def feed_content_created)
  have track: "map_option track_content (get_track_for_feed s' ?g t) =
      map_option (\<lambda>b. track_content (fst b)) (find (\<lambda>b. tr_track_guid (fst b) = t) (fw_tracks w))
    \<and> map track_remote_item_content (get_track_remote_items_for_feed_track s' ?g t) =
      (case find (\<lambda>b. tr_track_guid (fst b) = t) (fw_tracks w) of None \<Rightarrow> []
        | Some (track, routes, splits, items) \<Rightarrow> map track_remote_item_content (List.sort_key tri_position
            (map (\<lambda>r. r\<lparr>tri_id := None, tri_feed_guid := ?g, tri_track_guid := t\<rparr>) items)))" for t
  proof (cases rule: bundle_cases [OF assms(4), of t])
    case (1 b)
    moreover obtain track routes splits items where b: "b = (track, routes, splits, items)" by (cases b)
    moreover have "track_written s' b" "tr_feed_guid track = ?g"
      using 1(1) written assms(2) b by (auto simp: list_all_iff rows_of_feed_def Let_def)
    ultimately show ?thesis by (auto simp: track_written_def track_content_created Let_def)
  next
    case 2
    then have "get_track_for_feed s' ?g t = None" by (simp add: track_absent_iff tracks)
    with 2 no_legacy_items [OF ok legacy this] show ?thesis by simp
  qed
  show ?thesis unfolding feed_books_def submitted_books_def Let_def by (simp add: feed' rows track)
qed

section \<open>A batch that applies\<close>

lemma batch_loop_applied_le:
  "apply_batch_loop nd now b evs s = (Inr b', s') \<Longrightarrow> as_applied (ba_summary b') \<le> as_applied (ba_summary b) + length evs"
proof (induction evs arbitrary: b s)
  case (Cons ev evs)
  from Cons.prems show ?case
    by (auto simp: Let_def note_applied_def note_duplicate_def note_rejected_def dest!: Cons.IH
        split: option.splits prod.splits sum.splits apply_outcome.splits)
qed (simp add: dret_def)

lemma all_applied_run:
  "apply_batch_loop nd now b evs s = (Inr b', s') \<Longrightarrow> as_applied (ba_summary b') = as_applied (ba_summary b) + length evs \<Longrightarrow>
    dforeach (applied_run nd now) evs s = (Inr (), s')"
proof (induction evs arbitrary: b s)
  case (Cons ev evs)
  obtain p where p: "deserialize_verified_payload nd ev = Some p" using Cons.prems(1) by (auto split: option.splits)
  let ?b = "note_live_diff s p b"
  obtain r s1 where r: "apply_single_event_inner nd now ev s = (r, s1)" by force
  have few: "apply_batch_loop nd now c evs s1 = (Inr b', s') \<Longrightarrow> as_applied (ba_summary c) = as_applied (ba_summary b) \<Longrightarrow> False" for c
    using batch_loop_applied_le [of nd now c evs s1 b' s'] Cons.prems(2) by simp
  show ?case
  proof (cases r)
    case (Inl e)
    with Cons.prems(1) p r few [of "note_rejected ?b"] show ?thesis by (simp add: Let_def note_rejected_def)
  next
    case (Inr out)
    show ?thesis
    proof (cases out)
      case (Applied n)
      with Cons.prems(1) p r Inr have rest: "apply_batch_loop nd now (note_applied ev n ?b) evs s1 = (Inr b', s')" by (simp add: Let_def)
      have "dforeach (applied_run nd now) evs s1 = (Inr (), s')"
        by (rule Cons.IH [OF rest]) (use Cons.prems(2) in \<open>simp add: note_applied_def\<close>)
      moreover have "applied_run nd now ev s = (Inr (), s1)"
        by (simp add: applied_run_def dbind_def dret_def r Inr Applied)
      ultimately show ?thesis by (simp add: dseq_Inr)
    next
      case Duplicate
      with Cons.prems(1) p r Inr few [of "note_duplicate ev ?b"] show ?thesis by (simp add: Let_def note_duplicate_def)
    qed
  qed
qed (simp add: dret_def)

lemma books_of_cursor [simp]: "feed_books (upsert_node_sync_state k n now s) g = feed_books s g"
  by (simp add: feed_books_def stored_rows_def upsert_node_sync_state_def get_feed_by_guid_def get_track_for_feed_def
      get_track_remote_items_for_feed_track_def get_feed_payment_routes_for_feed_def get_feed_list_value_raw_for_feed_def
      get_feed_remote_items_for_feed_def get_live_events_for_feed_def get_source_contributor_claims_for_feed_def
      get_source_entity_ids_for_feed_def get_source_entity_links_for_feed_def get_source_release_claims_for_feed_def
      get_source_item_enclosures_for_feed_def get_source_item_transcripts_for_feed_def get_source_platform_claims_for_feed_def)

lemma applied_events_run:
  assumes "as_applied (fst (apply_events nd now evs (s, reg))) = length evs"
  obtains s1 where "dforeach (applied_run nd now) evs s = (Inr (), s1)"
    "feed_books (fst (snd (apply_events nd now evs (s, reg)))) g = feed_books s1 g"
proof (cases "filter (is_verified nd) evs = []")
  case True
  with assms have "evs = []" by (simp add: apply_events_def Let_def empty_summary_def)
  then show ?thesis by (intro that [of s]) (simp_all add: dret_def apply_events_def)
next
  case False
  let ?v = "filter (is_verified nd) evs"
  have le: "length ?v \<le> length evs" by simp
  obtain r s' where r: "apply_batch nd now ?v s = (r, s')" by force
  show ?thesis
  proof (cases r)
    case (Inl e)
    with assms False r have "evs = []" by (auto simp: apply_events_def Let_def empty_summary_def)
    with False show ?thesis by simp
  next
    case (Inr b)
    with r obtain s1 where loop: "apply_batch_loop nd now empty_batch ?v s = (Inr b, s1)"
      and s': "feed_books s' g = feed_books s1 g" by (auto simp: apply_batch_Inr)
    from assms False r Inr have n: "as_applied (ba_summary b) = length evs" by (simp add: apply_events_def Let_def)
    with batch_loop_applied_le [OF loop] le have "length ?v = length evs" by (simp add: empty_batch_def empty_summary_def)
    then have all: "?v = evs" by (metis filter_True length_filter_less less_irrefl)
    have "dforeach (applied_run nd now) evs s = (Inr (), s1)"
      using all_applied_run [OF loop] n by (simp add: all empty_batch_def empty_summary_def)
    with s' False r Inr show ?thesis by (intro that [of s1]) (simp_all add: apply_events_def Let_def)
  qed
qed

section \<open>Replication of an ingest\<close>

lemma payloads_of_rows:
  "rmap (event_of_row (nd_parse nd)) (signed_rows pm n ers) = Inr evs \<Longrightarrow>
    event_payload_of nd ` set evs = payload_in (nd_parse nd) ` set ers"
proof (induction ers arbitrary: n evs)
  case (Cons er ers)
  then obtain ev rest where ev: "event_of_row (nd_parse nd) (signed_row pm er n) = Inr ev"
    and rest: "rmap (event_of_row (nd_parse nd)) (signed_rows pm (n + 1) ers) = Inr rest" "evs = ev # rest"
    by (auto split: sum.splits)
  have "event_payload_of nd ev = payload_in (nd_parse nd) er"
    using ev by (auto simp: event_of_row_def event_payload_of_def payload_in_def deserialize_verified_payload_def split: option.splits)
  with Cons.IH [OF rest(1)] rest(2) show ?case by simp
qed simp

lemma rows_agree:
  assumes "norm_rows (stored_rows sr g) = norm_rows (stored_rows sp g)"
  shows "map (\<lambda>r. feed_route_content (stored_feed_payment_route r)) (get_feed_payment_routes_for_feed sr g)
      = map (\<lambda>r. feed_route_content (stored_feed_payment_route r)) (get_feed_payment_routes_for_feed sp g)"
    "map (\<lambda>r. feed_list_value_content (stored_feed_list_value r)) (get_feed_list_value_raw_for_feed sr g)
      = map (\<lambda>r. feed_list_value_content (stored_feed_list_value r)) (get_feed_list_value_raw_for_feed sp g)"
    "map feed_remote_item_content (get_feed_remote_items_for_feed sr g) = map feed_remote_item_content (get_feed_remote_items_for_feed sp g)"
    "map live_event_content (List.sort_key le_live_item_guid (get_live_events_for_feed sr g))
      = map live_event_content (List.sort_key le_live_item_guid (get_live_events_for_feed sp g))"
    "map contributor_claim_content (get_source_contributor_claims_for_feed sr g) = map contributor_claim_content (get_source_contributor_claims_for_feed sp g)"
    "map entity_id_content (get_source_entity_ids_for_feed sr g) = map entity_id_content (get_source_entity_ids_for_feed sp g)"
    "map entity_link_content (get_source_entity_links_for_feed sr g) = map entity_link_content (get_source_entity_links_for_feed sp g)"
    "map release_claim_content (get_source_release_claims_for_feed sr g) = map release_claim_content (get_source_release_claims_for_feed sp g)"
    "map item_enclosure_content (get_source_item_enclosures_for_feed sr g) = map item_enclosure_content (get_source_item_enclosures_for_feed sp g)"
    "map item_transcript_content (get_source_item_transcripts_for_feed sr g) = map item_transcript_content (get_source_item_transcripts_for_feed sp g)"
    "map platform_claim_content (get_source_platform_claims_for_feed sr g) = map platform_claim_content (get_source_platform_claims_for_feed sp g)"
  using assms unfolding norm_rows_def stored_rows_def feed_rows.simps feed_rows.iffs by blast+

lemma replicated_rows:
  assumes run: "dforeach (applied_run nd now) evs sr = (Inr (), sr')" "refs_ok sr" "refs_ok sp"
    "event_payload_of nd ` set evs = ingest_payload_set pm sp w" "rows_of_feed w"
    and same: "norm_rows (stored_rows sr (fe_feed_guid (fw_feed w))) = norm_rows (stored_rows sp (fe_feed_guid (fw_feed w)))"
  shows "norm_rows (stored_rows sr' (fe_feed_guid (fw_feed w))) = norm_rows (written_rows w)"
  unfolding norm_rows_def stored_rows_def written_rows_def feed_rows.simps feed_rows.iffs
  by (intro conjI same_routes [OF run rows_agree(1) [OF same]] same_list_values [OF run rows_agree(2) [OF same]]
      same_remote_items [OF run rows_agree(3) [OF same]] same_live_events [OF run rows_agree(4) [OF same]]
      same_contributor_claims [OF run rows_agree(5) [OF same]] same_entity_ids [OF run rows_agree(6) [OF same]]
      same_entity_links [OF run rows_agree(7) [OF same]] same_release_claims [OF run rows_agree(8) [OF same]]
      same_item_enclosures [OF run rows_agree(9) [OF same]] same_item_transcripts [OF run rows_agree(10) [OF same]]
      same_platform_claims [OF run rows_agree(11) [OF same]] refl)

lemma books_after_replay:
  assumes run: "dforeach (applied_run nd now) evs sr = (Inr (), sr')" "refs_ok sr" "refs_ok sp"
    "event_payload_of nd ` set evs = ingest_payload_set pm sp w" "rows_of_feed w"
    and w: "list_all bundle_ok (fw_tracks w)" "distinct (map (\<lambda>b. tr_track_guid (fst b)) (fw_tracks w))" "hash_ok (pm_hash_order pm)"
    and legacy: "no_legacy sr" "no_legacy sp"
    and same: "feed_books sr (fe_feed_guid (fw_feed w)) = feed_books sp (fe_feed_guid (fw_feed w))"
  shows "feed_books sr' (fe_feed_guid (fw_feed w)) = submitted_books w"
proof -
  let ?g = "fe_feed_guid (fw_feed w)"
  have agree: "map_option feed_content (get_feed_by_guid sr ?g) = map_option feed_content (get_feed_by_guid sp ?g)"
    "norm_rows (stored_rows sr ?g) = norm_rows (stored_rows sp ?g)"
    "map_option track_content (get_track_for_feed sr ?g t) = map_option track_content (get_track_for_feed sp ?g t)"
    "map track_remote_item_content (get_track_remote_items_for_feed_track sr ?g t) = map track_remote_item_content (get_track_remote_items_for_feed_track sp ?g t)" for t
    using same by (simp_all add: feed_books_def fun_eq_iff)
  have feed: "map_option feed_content (get_feed_by_guid sr' ?g) = Some (feed_content (fw_feed w))"
    using replica_feed [OF run(1,2,4)] agree(1) by (auto simp: feed_sent_def split: if_splits)
  have rows: "norm_rows (stored_rows sr' ?g) = norm_rows (written_rows w)"
    by (rule replicated_rows [OF run agree(2)])
  have track: "map_option track_content (get_track_for_feed sr' ?g t) =
      map_option (\<lambda>b. track_content (fst b)) (find (\<lambda>b. tr_track_guid (fst b) = t) (fw_tracks w))
    \<and> map track_remote_item_content (get_track_remote_items_for_feed_track sr' ?g t) =
      (case find (\<lambda>b. tr_track_guid (fst b) = t) (fw_tracks w) of None \<Rightarrow> []
        | Some (track, routes, splits, items) \<Rightarrow> map track_remote_item_content (List.sort_key tri_position
            (map (\<lambda>r. r\<lparr>tri_id := None, tri_feed_guid := ?g, tri_track_guid := t\<rparr>) items)))" for t
  proof (cases rule: bundle_cases [OF w(2), of t])
    case (1 b)
    obtain track routes splits items where b: "b = (track, routes, splits, items)" by (cases b)
    have mem: "(track, routes, splits, items) \<in> set (fw_tracks w)" and t: "tr_track_guid track = t" using 1(1,2) by (simp_all add: b)
    have ok: "bundle_ok (track, routes, splits, items)" using w(1) mem by (simp add: list_all_iff)
    show ?thesis
      using replica_submitted_track [OF run(1,2) legacy(1) run(4,5) w(2) mem refl agree(3)]
        replica_submitted_items [OF run(1,2) legacy(1) run(4,5) w(2) mem refl ok run(3) legacy(2) agree(4)]
      by (simp add: 1(3) b t)
  next
    case 2
    have none: "get_track_for_feed sr ?g t = None \<longleftrightarrow> get_track_for_feed sp ?g t = None"
      using agree(3) [of t] by (metis option.map_disc_iff)
    show ?thesis
      using replica_other_track [OF run(1,2) legacy(1) run(4,5) refl 2(1) w(3) none]
        replica_other_items [OF run(1,2) legacy(1) run(4,5) refl 2(1) w(3) none]
      by (simp add: 2(2))
  qed
  show ?thesis unfolding feed_books_def submitted_books_def Let_def by (simp add: feed rows track)
qed

text \<open>
  C1: The ingest is replicated: when the primary stores a submission with the events of its diff, and a
  community node whose books of the feed agree with the primary's before the ingest applies all of the
  new events, both end with the books of the submission.
\<close>

theorem ingest_is_replicated:
  assumes "refs_ok sp" "no_legacy sp" "refs_ok sr" "no_legacy sr"
    and "rows_of_feed w" "list_all bundle_ok (fw_tracks w)" "distinct (map (\<lambda>b. tr_track_guid (fst b)) (fw_tracks w))"
    and "hash_ok (pm_hash_order pm)" "json_ok (nd_parse nd) (pm_json pm) w"
    and "g = fe_feed_guid (fw_feed w)" "feed_books sr g = feed_books sp g"
    and "ingest_transaction pm uuid now w (build_diff_events (pm_json pm) uuid' sp w now' ws) mv sp = (Inr seqs, sp')"
    and "rmap (event_of_row (nd_parse nd)) (drop (length (t_events sp)) (t_events sp')) = Inr evs"
    and "as_applied (fst (apply_events nd t evs (sr, reg))) = length evs"
  shows "feed_books sp' g = submitted_books w \<and> feed_books (fst (snd (apply_events nd t evs (sr, reg)))) g = submitted_books w"
proof -
  have log: "drop (length (t_events sp)) (t_events sp')
      = signed_rows pm (next_seq sp) (ingest_events pm uuid w (build_diff_events (pm_json pm) uuid' sp w now' ws) sp)"
    using ingest_appends [OF assms(12)] by simp
  have payloads: "event_payload_of nd ` set evs = ingest_payload_set pm sp w"
    using payloads_of_rows [OF assms(13) [unfolded log]] ingest_payloads [OF assms(9,1,5)]
    by (simp add: ingest_payload_set_def)
  from applied_events_run [OF assms(14)] obtain s1 where run: "dforeach (applied_run nd t) evs sr = (Inr (), s1)"
    and books: "feed_books (fst (snd (apply_events nd t evs (sr, reg)))) g = feed_books s1 g" by blast
  have "feed_books sp' g = submitted_books w" unfolding assms(10) by (rule books_after_ingest [OF assms(1,5-8,2,12)])
  moreover have "feed_books s1 g = submitted_books w"
    unfolding assms(10) by (rule books_after_replay [OF run assms(3,1) payloads assms(5-8,4,2) assms(11) [unfolded assms(10)]])
  ultimately show ?thesis by (simp add: books)
qed

text \<open>The sample submission, sent to an empty node.\<close>

lemma sample_decodes_submission: "json_ok (nd_parse sample_replica) (pm_json sample_primary) sample_write"
proof -
  have "list_all (\<lambda>p. payload_type p \<noteq> TrackRemoved \<and> sample_decode (payload_type p) [] = Some p) sample_payloads"
    by code_simp
  then have sent: "sample_decode (payload_type p) j = Some p" if "p \<in> set sample_payloads" for p j
    using that by (auto simp: list_all_iff sample_decode_def)
  have removed: "sample_decode TrackRemoved (pm_json sample_primary p) = Some p"
    if "p = TrackRemovedP \<lparr>trm_track_guid = t, trm_feed_guid = ''g1''\<rparr>" for p t
    using that by (simp add: sample_decode_def sample_primary_def)
  have "p \<in> set sample_payloads \<or> (\<exists>t. p = TrackRemovedP \<lparr>trm_track_guid = t, trm_feed_guid = ''g1''\<rparr>)"
    if "p \<in> submission_payloads sample_write" for p
    using that by (auto simp: submission_payloads_def sample_payloads_def sample_write_def sample_feed_def sample_track_def Let_def)
  then show ?thesis using sent removed by (fastforce simp: json_ok_def sample_replica_def)
qed

lemma ingest_is_replicated_witness:
  "feed_books (snd sample_run) ''g1'' = submitted_books sample_write
    \<and> feed_books (fst (snd (apply_events sample_replica 9 sample_received (empty_db, None)))) ''g1'' = submitted_books sample_write"
proof -
  obtain seqs s' where r: "sample_run = (Inr seqs, s')" using sample_run_Inr by blast
  have none: "no_legacy empty_db" "t_events empty_db = []" by (simp_all add: no_legacy_def empty_db_def)
  have g: "''g1'' = fe_feed_guid (fw_feed sample_write)" by code_simp
  have sent: "rmap (event_of_row (nd_parse sample_replica)) (drop (length (t_events empty_db)) (t_events s')) = Inr sample_received"
    using sample_received_rows [OF r] none(2) by simp
  show ?thesis
    unfolding r snd_conv
    by (rule ingest_is_replicated [OF refs_ok_empty none(1) refs_ok_empty none(1) sample_write_ok(1-3) hash_ok_sample
        sample_decodes_submission g refl r [unfolded sample_run_def sample_events_def] sent sample_received_applied])
qed

end
