(* ===== verification/Retire.thy ===== *)
theory Retire
  imports Frames SampleIngest
begin

text \<open>
  Retirement of a feed and removal of a track by the primary, \<^verbatim>\<open>delete\_feed\_with\_event\<close> and
  \<^verbatim>\<open>delete\_track\_with\_event\<close> of \<^verbatim>\<open>src/db.rs\<close>: the delete, the hold on the source URL, the signed
  events and the blocks in one transaction. The statements that append to the log are those of
  \<open>insert_event\<close>. Parsing of JSON text is a parameter: \<open>parse\<close> for a tagged payload, \<open>parse_retired\<close> for
  the payload of a retirement alone.
\<close>

section \<open>The operations\<close>

definition replace_retired_source_hold :: "retired_source_hold \<Rightarrow> db \<Rightarrow> db" where
  "replace_retired_source_hold hold s = s\<lparr>t_retired_source_holds :=
     delete_where (\<lambda>r. rsh_feed_guid r = rsh_feed_guid hold) (t_retired_source_holds s) @ [hold]\<rparr>"

definition hold_source_url :: "string \<Rightarrow> feed_block list \<Rightarrow> db \<Rightarrow> string option" where
  "hold_source_url feed_guid blocks s = (if blocks = []
     then map_option fe_feed_url (lookup_by fe_feed_guid (t_feeds s) feed_guid) else None)"

definition write_retired_hold ::
  "(string \<Rightarrow> string) \<Rightarrow> (string \<Rightarrow> feed_retired_payload option) \<Rightarrow> string \<Rightarrow> string \<Rightarrow> int \<Rightarrow> string option \<Rightarrow> unit dbm" where
  "write_retired_hold lc parse_retired feed_guid payload_json created_at source = (case source of
       None \<Rightarrow> dret ()
     | Some source_url \<Rightarrow> (case parse_retired payload_json of
           None \<Rightarrow> dfail (Json ''feed_retired'')
         | Some p \<Rightarrow> dexec (replace_retired_source_hold
             \<lparr>rsh_feed_guid = lc feed_guid, rsh_source_url = source_url,
               rsh_reason = (case frt_reason p of None \<Rightarrow> [] | Some r \<Rightarrow> r),
               rsh_retired_at = created_at, rsh_released_at = None\<rparr>)))"

text \<open>One signed event: the log row, and the event value that the caller publishes.\<close>

definition signed_event ::
  "primary \<Rightarrow> (event_type \<Rightarrow> string \<Rightarrow> event_payload option) \<Rightarrow> string \<Rightarrow> event_type \<Rightarrow> string \<Rightarrow> string
   \<Rightarrow> int \<Rightarrow> string list \<Rightarrow> event dbm" where
  "signed_event pm parse event_id event_type payload_json subject_guid created_at warnings =
     dbind (insert_event (pm_crypto pm) (pm_key pm) event_id event_type payload_json subject_guid created_at warnings)
       (\<lambda>(seq, signed_by, signature). case parse event_type payload_json of
          None \<Rightarrow> dfail (Json ''payload'')
        | Some payload \<Rightarrow> dret \<lparr>ev_event_id = event_id, ev_event_type = event_type, ev_payload = payload,
            ev_subject_guid = subject_guid, ev_signed_by = signed_by, ev_signature = signature, ev_seq = seq,
            ev_created_at = created_at, ev_warnings = warnings, ev_payload_json = payload_json\<rparr>)"

fun block_loop ::
  "primary \<Rightarrow> (event_type \<Rightarrow> string \<Rightarrow> event_payload option) \<Rightarrow> int \<Rightarrow> (string \<times> feed_block) list \<Rightarrow> event list dbm" where
  "block_loop pm parse created_at [] = dret []"
| "block_loop pm parse created_at ((event_id, block) # blocks) =
     dbind (\<lambda>s. let (changed, s') = insert_feed_block (pm_lc pm) block s in (Inr changed, s')) (\<lambda>changed.
       if \<not> changed then block_loop pm parse created_at blocks
       else dbind (signed_event pm parse event_id FeedBlocked (pm_json pm (FeedBlockedP (blocked_payload block)))
               (fb_block_id block) created_at []) (\<lambda>ev.
            dbind (block_loop pm parse created_at blocks) (\<lambda>evs. dret (ev # evs))))"

definition delete_feed_with_event ::
  "primary \<Rightarrow> (event_type \<Rightarrow> string \<Rightarrow> event_payload option) \<Rightarrow> (string \<Rightarrow> feed_retired_payload option) \<Rightarrow> (nat \<Rightarrow> string)
   \<Rightarrow> string \<Rightarrow> string \<Rightarrow> string \<Rightarrow> string \<Rightarrow> int \<Rightarrow> string list \<Rightarrow> feed_block list \<Rightarrow> event list dbm" where
  "delete_feed_with_event pm parse parse_retired uuid feed_guid event_id payload_json subject_guid created_at warnings blocks =
     dtransaction
       (dbind (dread (hold_source_url feed_guid blocks)) (\<lambda>source.
        dseq (dexec (delete_feed_sql (pm_env pm) feed_guid))
       (dseq (write_retired_hold (pm_lc pm) parse_retired feed_guid payload_json created_at source)
       (dbind (signed_event pm parse event_id FeedRetired payload_json subject_guid created_at warnings) (\<lambda>ev.
        dbind (block_loop pm parse created_at (map (\<lambda>(i, b). (uuid i, b)) (enumerate 0 blocks))) (\<lambda>evs.
        dret (ev # evs)))))))"

definition delete_track_with_event ::
  "primary \<Rightarrow> string \<Rightarrow> string \<Rightarrow> string \<Rightarrow> string \<Rightarrow> string \<Rightarrow> int \<Rightarrow> string list \<Rightarrow> (int \<times> string \<times> string) dbm" where
  "delete_track_with_event pm feed_guid track_guid event_id payload_json subject_guid created_at warnings =
     dtransaction
       (dseq (dexec (delete_track_sql (pm_env pm) feed_guid track_guid))
          (insert_event (pm_crypto pm) (pm_key pm) event_id TrackRemoved payload_json subject_guid created_at warnings))"

section \<open>The events\<close>

text \<open>What a call appends to the log, and that it appends the events it returns.\<close>

definition returned_rows :: "event list \<Rightarrow> event_row list" where
  "returned_rows evs = map (\<lambda>ev. row_at ev (ev_seq ev)) evs"

definition numbered_from :: "int \<Rightarrow> event list \<Rightarrow> bool" where
  "numbered_from n evs \<longleftrightarrow> map ev_seq evs = map (\<lambda>i. n + int i) [0..<length evs]"

lemma numbered_Cons: "numbered_from n (ev # evs) \<longleftrightarrow> ev_seq ev = n \<and> numbered_from (n + 1) evs"
proof -
  have "map (\<lambda>i. n + int i) [0..<Suc (length evs)] = n # map (\<lambda>i. (n + 1) + int i) [0..<length evs]"
    by (rule nth_equalityI) (auto simp: nth_Cons simp del: upt_Suc split: nat.split)
  then show ?thesis by (auto simp: numbered_from_def simp del: upt_Suc)
qed

definition signed_by_key :: "primary \<Rightarrow> event \<Rightarrow> bool" where
  "signed_by_key pm ev \<longleftrightarrow> (ev_signed_by ev, ev_signature ev) = sign_event (pm_crypto pm) (pm_key pm) (ev_event_id ev)
     (ev_event_type ev) (ev_payload_json ev) (ev_subject_guid ev) (ev_created_at ev) (ev_seq ev)"

lemma signed_event_run:
  assumes "signed_event pm parse i t pj sg ca ws s = (Inr ev, s')"
  shows "s' = s\<lparr>t_events := t_events s @ [row_at ev (ev_seq ev)]\<rparr>" "ev_seq ev = next_seq s" "signed_by_key pm ev"
    "ev_event_id ev = i" "ev_event_type ev = t" "ev_payload_json ev = pj" "ev_subject_guid ev = sg"
    "ev_created_at ev = ca" "parse t pj = Some (ev_payload ev)" "\<not> event_id_taken i s"
proof -
  let ?er = "\<lparr>nw_event_id = i, nw_event_type = t, nw_payload_json = pj, nw_subject_guid = sg, nw_created_at = ca, nw_warnings = ws\<rparr>"
  have run: "signed_event pm parse i t pj sg ca ws = dbind (insert_new_event pm ?er) (\<lambda>(seq, signed_by, signature). case parse t pj of
          None \<Rightarrow> dfail (Json ''payload'')
        | Some payload \<Rightarrow> dret \<lparr>ev_event_id = i, ev_event_type = t, ev_payload = payload,
            ev_subject_guid = sg, ev_signed_by = signed_by, ev_signature = signature, ev_seq = seq,
            ev_created_at = ca, ev_warnings = ws, ev_payload_json = pj\<rparr>)"
    by (simp add: signed_event_def insert_new_event_def)
  show new: "\<not> event_id_taken i s"
    using assms insert_new_event_error [of ?er s pm] unfolding run by (auto simp: dbind_def)
  let ?row = "signed_row pm ?er (next_seq s)"
  have ok: "insert_new_event pm ?er s = (Inr (next_seq s, er_signed_by ?row, er_signature ?row), s\<lparr>t_events := t_events s @ [?row]\<rparr>)"
    by (rule insert_new_event_ok) (simp add: new)
  obtain p where p: "parse t pj = Some p"
    using assms unfolding run dbind_def ok by (cases "parse t pj") (simp_all add: dfail_def)
  have ev: "ev = \<lparr>ev_event_id = i, ev_event_type = t, ev_payload = p, ev_subject_guid = sg, ev_signed_by = er_signed_by ?row,
      ev_signature = er_signature ?row, ev_seq = next_seq s, ev_created_at = ca, ev_warnings = ws, ev_payload_json = pj\<rparr>"
    and s': "s' = s\<lparr>t_events := t_events s @ [?row]\<rparr>"
    using assms unfolding run dbind_def ok by (simp_all add: p dret_def)
  show "s' = s\<lparr>t_events := t_events s @ [row_at ev (ev_seq ev)]\<rparr>" "ev_seq ev = next_seq s" "signed_by_key pm ev"
    "ev_event_id ev = i" "ev_event_type ev = t" "ev_payload_json ev = pj" "ev_subject_guid ev = sg"
    "ev_created_at ev = ca" "parse t pj = Some (ev_payload ev)"
    by (simp_all add: ev s' p row_at_def signed_row_def signed_by_key_def Let_def)
qed

lemma keeps_signed_event:
  "keeps refs_ok (signed_event pm parse i t pj sg ca ws)" "keeps (log_index_ok env) (signed_event pm parse i t pj sg ca ws)"
proof -
  let ?er = "\<lparr>nw_event_id = i, nw_event_type = t, nw_payload_json = pj, nw_subject_guid = sg, nw_created_at = ca, nw_warnings = ws\<rparr>"
  have ins: "insert_event (pm_crypto pm) (pm_key pm) i t pj sg ca ws = insert_new_event pm ?er" by (simp add: insert_new_event_def)
  show "keeps refs_ok (signed_event pm parse i t pj sg ca ws)" "keeps (log_index_ok env) (signed_event pm parse i t pj sg ca ws)"
    unfolding signed_event_def ins by (auto intro!: keeps_intros keeps_insert_new_event split: prod.split option.split)
qed

section \<open>The blocks\<close>

lemma block_step:
  assumes "block_loop pm parse ca ((i, b) # ibs) s = (Inr evs, s')"
  shows "if fst (insert_feed_block (pm_lc pm) b s)
    then \<exists>ev s1 rest. signed_event pm parse i FeedBlocked (pm_json pm (FeedBlockedP (blocked_payload b))) (fb_block_id b) ca []
        (snd (insert_feed_block (pm_lc pm) b s)) = (Inr ev, s1) \<and> block_loop pm parse ca ibs s1 = (Inr rest, s') \<and> evs = ev # rest
    else block_loop pm parse ca ibs (snd (insert_feed_block (pm_lc pm) b s)) = (Inr evs, s')"
  using assms by (cases "insert_feed_block (pm_lc pm) b s") (auto simp: dbind_Inr dret_def Let_def)

lemma block_log [simp]: "t_events (snd (insert_feed_block lc b s)) = t_events s" "next_seq (snd (insert_feed_block lc b s)) = next_seq s"
  by (simp_all add: insert_feed_block_def Let_def next_seq_def)

lemma returned_Nil [simp]: "returned_rows [] = []" "numbered_from n []"
  by (simp_all add: returned_rows_def numbered_from_def)

lemma returned_Cons [simp]: "returned_rows (ev # evs) = row_at ev (ev_seq ev) # returned_rows evs"
  by (simp add: returned_rows_def)

lemma block_loop_log:
  "block_loop pm parse ca ibs s = (Inr evs, s') \<Longrightarrow>
    t_events s' = t_events s @ returned_rows evs \<and> numbered_from (next_seq s) evs
    \<and> list_all (\<lambda>ev. signed_by_key pm ev \<and> ev_event_type ev = FeedBlocked) evs"
proof (induction ibs arbitrary: s evs)
  case (Cons ib ibs)
  obtain i b where ib: "ib = (i, b)" by (cases ib)
  note step = block_step [OF Cons.prems [unfolded ib]]
  show ?case
  proof (cases "fst (insert_feed_block (pm_lc pm) b s)")
    case True
    with step obtain ev s1 rest where ev: "signed_event pm parse i FeedBlocked (pm_json pm (FeedBlockedP (blocked_payload b))) (fb_block_id b) ca []
        (snd (insert_feed_block (pm_lc pm) b s)) = (Inr ev, s1)"
      and loop: "block_loop pm parse ca ibs s1 = (Inr rest, s')" and evs: "evs = ev # rest" by auto
    note one = signed_event_run [OF ev]
    have "t_events s1 = t_events s @ [row_at ev (ev_seq ev)]" by (simp add: one(1))
    moreover have "next_seq s1 = next_seq s + 1"
      by (rule next_seq_append) (simp add: one(1,2))
    ultimately show ?thesis using Cons.IH [OF loop] one by (simp add: evs numbered_Cons)
  next
    case False
    with step Cons.IH [of "snd (insert_feed_block (pm_lc pm) b s)" evs] show ?thesis by simp
  qed
qed (simp add: dret_def)

lemma keeps_signed:
  assumes "\<And>f s. P (t_events_update f s) = P s"
  shows "keeps P (signed_event pm parse i t pj sg ca ws)"
  unfolding signed_event_def by (auto intro!: keeps_intros frame_insert_event assms split: prod.split option.split)

lemma keeps_block_loop:
  assumes "\<And>b. keeps P (dexec (\<lambda>s. snd (insert_feed_block (pm_lc pm) b s)))"
    and "\<And>i t pj sg. keeps P (signed_event pm parse i t pj sg ca [])"
  shows "keeps P (block_loop pm parse ca ibs)"
proof (induction ibs)
  case (Cons ib ibs)
  obtain i b where ib: "ib = (i, b)" by (cases ib)
  have "keeps P (\<lambda>s. let (changed, s') = insert_feed_block (pm_lc pm) b s in (Inr changed, s'))"
    using assms(1) [of b] by (auto simp: keeps_def dexec_def split: prod.splits)
  with Cons assms(2) show ?case by (auto simp: ib intro!: keeps_intros)
qed simp

lemma apart_insert: "B \<subseteq> insert x C \<Longrightarrow> x \<notin> A \<Longrightarrow> A \<inter> C = {} \<Longrightarrow> A \<inter> B = {}"
  by blast

text \<open>A block with a new id is there afterwards, written now or before.\<close>

lemma block_loop_pairs:
  assumes "block_loop pm parse ca ibs s = (Inr evs, s')"
    and "distinct (map (\<lambda>x. fb_block_id (snd x)) ibs)" "(\<lambda>x. fb_block_id (snd x)) ` set ibs \<inter> fb_block_id ` set (t_feed_blocks s) = {}"
  shows "fb_pair ` set (t_feed_blocks s') = fb_pair ` set (t_feed_blocks s)
      \<union> (\<lambda>x. (fb_kind (snd x), normalize (pm_lc pm) (fb_kind (snd x)) (fb_value (snd x)))) ` set ibs"
  using assms
proof (induction ibs arbitrary: s evs)
  case (Cons ib ibs)
  obtain i b where ib: "ib = (i, b)" by (cases ib)
  let ?s1 = "snd (insert_feed_block (pm_lc pm) b s)"
  note step = block_step [OF Cons.prems(1) [unfolded ib]]
  have new: "fb_block_id b \<notin> fb_block_id ` set (t_feed_blocks s)" using Cons.prems(3) by (auto simp: ib)
  have ids: "fb_block_id ` set (t_feed_blocks ?s1) \<subseteq> insert (fb_block_id b) (fb_block_id ` set (t_feed_blocks s))"
    by (auto simp: insert_feed_block_result)
  have pairs: "fb_pair ` set (t_feed_blocks ?s1) = insert (fb_kind b, normalize (pm_lc pm) (fb_kind b) (fb_value b)) (fb_pair ` set (t_feed_blocks s))"
    using new by (auto simp: insert_feed_block_result block_absent_def image_iff fb_pair_def)
  obtain s2 rest where rest: "block_loop pm parse ca ibs s2 = (Inr rest, s')" "t_feed_blocks s2 = t_feed_blocks ?s1"
  proof (cases "fst (insert_feed_block (pm_lc pm) b s)")
    case True
    with step obtain ev s1 rest where ev: "signed_event pm parse i FeedBlocked (pm_json pm (FeedBlockedP (blocked_payload b))) (fb_block_id b) ca []
        ?s1 = (Inr ev, s1)" and loop: "block_loop pm parse ca ibs s1 = (Inr rest, s')" by auto
    show thesis by (rule that [OF loop]) (simp add: signed_event_run(1) [OF ev])
  next
    case False
    with step show thesis by (intro that) auto
  qed
  have apart: "(\<lambda>x. fb_block_id (snd x)) ` set ibs \<inter> fb_block_id ` set (t_feed_blocks s2) = {}"
    "distinct (map (\<lambda>x. fb_block_id (snd x)) ibs)"
    unfolding rest(2) by (rule apart_insert [OF ids]) (use Cons.prems(2,3) in \<open>simp_all add: ib\<close>)
  have "fb_pair ` set (t_feed_blocks s') = fb_pair ` set (t_feed_blocks s2)
      \<union> (\<lambda>x. (fb_kind (snd x), normalize (pm_lc pm) (fb_kind (snd x)) (fb_value (snd x)))) ` set ibs"
    by (rule Cons.IH [OF rest(1) apart(2,1)])
  then show ?case by (simp add: rest(2) pairs ib insert_commute)
qed (simp add: dret_def)

section \<open>A retirement\<close>

text \<open>The states of a retirement that succeeds.\<close>

lemma retire_steps:
  assumes "delete_feed_with_event pm parse parse_retired uuid g i pj sg ca ws blocks s = (Inr events, s')"
  obtains s1 ev s2 evs where "write_retired_hold (pm_lc pm) parse_retired g pj ca (hold_source_url g blocks s)
      (delete_feed_sql (pm_env pm) g s) = (Inr (), s1)"
    "signed_event pm parse i FeedRetired pj sg ca ws s1 = (Inr ev, s2)"
    "block_loop pm parse ca (map (\<lambda>(i, b). (uuid i, b)) (enumerate 0 blocks)) s2 = (Inr evs, s')" "events = ev # evs"
  using assms
  by (auto simp: delete_feed_with_event_def dtransaction_def dbind_Inr dseq_Inr dread_def dexec_def dret_def
      split: prod.splits sum.splits)

lemma retire_failure:
  "delete_feed_with_event pm parse parse_retired uuid g i pj sg ca ws blocks s = (Inl e, s') \<Longrightarrow> s' = s"
  by (auto simp: delete_feed_with_event_def dtransaction_def split: prod.splits sum.splits)

lemma hold_kept [simp]:
  "write_retired_hold lc pr g pj ca src s = (Inr (), s1) \<Longrightarrow> t_events s1 = t_events s"
  "write_retired_hold lc pr g pj ca src s = (Inr (), s1) \<Longrightarrow> feed_view s1 h = feed_view s h"
  "write_retired_hold lc pr g pj ca src s = (Inr (), s1) \<Longrightarrow> t_feed_blocks s1 = t_feed_blocks s"
  by (auto simp: write_retired_hold_def replace_retired_source_hold_def dret_def dexec_def dfail_def feed_view_def
      split: option.splits)

lemma keeps_hold:
  assumes "\<And>f s. P (t_retired_source_holds_update f s) = P s"
  shows "keeps P (write_retired_hold lc pr g pj ca src)"
proof -
  have "P (s\<lparr>t_retired_source_holds := x\<rparr>) = P s" for x s using assms [of "\<lambda>_. x" s] by simp
  then show ?thesis
    unfolding write_retired_hold_def replace_retired_source_hold_def
    by (auto intro!: keeps_intros split: option.split)
qed

lemma views_of_block:
  "(feed_view (snd (insert_feed_block lc b s)) h)\<lparr>v_copies := []\<rparr> = (feed_view s h)\<lparr>v_copies := []\<rparr>"
  "v_copies (feed_view s h) = [] \<Longrightarrow> v_copies (feed_view (snd (insert_feed_block lc b s)) h) = []"
  by (auto simp: insert_feed_block_def feed_view_def Let_def delete_where_def filter_empty_conv)

lemma view_equality: "(x :: feed_view)\<lparr>v_copies := []\<rparr> = y\<lparr>v_copies := []\<rparr> \<Longrightarrow> v_copies x = v_copies y \<Longrightarrow> x = y"
  by (cases x; cases y) simp

lemma views_after_blocks:
  assumes "block_loop pm parse ca ibs s = (Inr evs, s')"
  shows "(feed_view s' h)\<lparr>v_copies := []\<rparr> = (feed_view s h)\<lparr>v_copies := []\<rparr>"
    "v_copies (feed_view s h) = [] \<Longrightarrow> v_copies (feed_view s' h) = []"
proof -
  have "feed_view (t_events_update f s) h = feed_view s h" for f s by (simp add: feed_view_def)
  then have signed: "keeps (\<lambda>s. Q (feed_view s h)) (signed_event pm parse i t pj sg ca ws)" for Q i t pj sg ws
    by (intro keeps_signed) simp
  have "keeps (\<lambda>s. (feed_view s h)\<lparr>v_copies := []\<rparr> = c) (block_loop pm parse ca ibs)" for c
    by (rule keeps_block_loop [OF keeps_dexec signed]) (simp only: views_of_block(1))
  then show "(feed_view s' h)\<lparr>v_copies := []\<rparr> = (feed_view s h)\<lparr>v_copies := []\<rparr>"
    by (rule keeps_read [where get = "\<lambda>s. (feed_view s h)\<lparr>v_copies := []\<rparr>" and m = "block_loop pm parse ca ibs" and s = s, OF _ assms])
  have "keeps (\<lambda>s. v_copies (feed_view s h) = []) (block_loop pm parse ca ibs)"
    by (rule keeps_block_loop [OF keeps_dexec signed]) (rule views_of_block(2))
  then show "v_copies (feed_view s h) = [] \<Longrightarrow> v_copies (feed_view s' h) = []"
    using keepsD [of "\<lambda>s. v_copies (feed_view s h) = []" "block_loop pm parse ca ibs" s] assms by simp
qed

lemma retire_log_result:
  assumes "delete_feed_with_event pm parse parse_retired uuid g i pj sg ca ws blocks s = (Inr events, s')"
  shows "t_events s' = t_events s @ returned_rows events \<and> numbered_from (next_seq s) events
    \<and> list_all (signed_by_key pm) events
    \<and> (\<exists>ev evs. events = ev # evs \<and> ev_event_type ev = FeedRetired \<and> ev_subject_guid ev = sg
        \<and> list_all (\<lambda>e. ev_event_type e = FeedBlocked) evs)"
proof -
  from retire_steps [OF assms] obtain s1 ev s2 evs where
    hold: "write_retired_hold (pm_lc pm) parse_retired g pj ca (hold_source_url g blocks s) (delete_feed_sql (pm_env pm) g s) = (Inr (), s1)"
    and ev: "signed_event pm parse i FeedRetired pj sg ca ws s1 = (Inr ev, s2)"
    and loop: "block_loop pm parse ca (map (\<lambda>(i, b). (uuid i, b)) (enumerate 0 blocks)) s2 = (Inr evs, s')" "events = ev # evs" .
  have log1: "t_events s1 = t_events s" using hold_kept(1) [OF hold] by (simp add: delete_feed_sql_same)
  then have seq1: "next_seq s1 = next_seq s" by (simp add: next_seq_def)
  note one = signed_event_run [OF ev]
  have "next_seq s2 = next_seq s1 + 1" by (rule next_seq_append) (simp add: one(1,2))
  with block_loop_log [OF loop(1)] one show ?thesis
    by (auto simp: loop(2) log1 seq1 numbered_Cons list_all_iff)
qed

text \<open>Every invariant of the store survives a retirement.\<close>

lemma keeps_retire:
  "keeps refs_ok (delete_feed_with_event pm parse parse_retired uuid g i pj sg ca ws blocks)"
  "keeps (log_index_ok (pm_env pm)) (delete_feed_with_event pm parse parse_retired uuid g i pj sg ca ws blocks)"
  "keeps refs_ok (delete_track_with_event pm g t i pj sg ca ws)"
  "keeps (log_index_ok (pm_env pm)) (delete_track_with_event pm g t i pj sg ca ws)"
proof -
  have holds: "refs_ok (t_retired_source_holds_update f s) = refs_ok s"
    "log_index_ok env (t_retired_source_holds_update f s) = log_index_ok env s" for f s env
    by (simp_all add: frame_defs log_defs)
  show "keeps refs_ok (delete_feed_with_event pm parse parse_retired uuid g i pj sg ca ws blocks)"
    "keeps (log_index_ok (pm_env pm)) (delete_feed_with_event pm parse parse_retired uuid g i pj sg ca ws blocks)"
    unfolding delete_feed_with_event_def
    by (intro keeps_intros keeps_dexec delete_feed_refs_ok log_index_deletes keeps_hold holds keeps_signed_event keeps_block_loop; simp)+
  let ?er = "\<lparr>nw_event_id = i, nw_event_type = TrackRemoved, nw_payload_json = pj, nw_subject_guid = sg, nw_created_at = ca, nw_warnings = ws\<rparr>"
  have ins: "insert_event (pm_crypto pm) (pm_key pm) i TrackRemoved pj sg ca ws = insert_new_event pm ?er" by (simp add: insert_new_event_def)
  show "keeps refs_ok (delete_track_with_event pm g t i pj sg ca ws)"
    "keeps (log_index_ok (pm_env pm)) (delete_track_with_event pm g t i pj sg ca ws)"
    unfolding delete_track_with_event_def ins
    by (intro keeps_intros keeps_dexec delete_track_refs_ok log_index_deletes keeps_insert_new_event; simp)+
qed

section \<open>Properties of a retirement\<close>

lemma retire_success:
  assumes "refs_ok s" "delete_feed_with_event pm parse parse_retired uuid g i pj sg ca ws blocks s = (Inr events, s')"
  shows "feed_view s' g = empty_view"
    and "h \<noteq> g \<Longrightarrow> (feed_view s' h)\<lparr>v_copies := []\<rparr> = (feed_view s h)\<lparr>v_copies := []\<rparr>"
    and "t_retired_source_holds s' = t_retired_source_holds (snd (write_retired_hold (pm_lc pm) parse_retired g pj ca
        (hold_source_url g blocks s) (delete_feed_sql (pm_env pm) g s)))"
proof -
  from retire_steps [OF assms(2)] obtain s1 ev s2 evs where
    hold: "write_retired_hold (pm_lc pm) parse_retired g pj ca (hold_source_url g blocks s) (delete_feed_sql (pm_env pm) g s) = (Inr (), s1)"
    and ev: "signed_event pm parse i FeedRetired pj sg ca ws s1 = (Inr ev, s2)"
    and loop: "block_loop pm parse ca (map (\<lambda>(i, b). (uuid i, b)) (enumerate 0 blocks)) s2 = (Inr evs, s')" .
  have view2: "feed_view s2 h = feed_view (delete_feed_sql (pm_env pm) g s) h" for h
    using hold_kept(2) [OF hold, of h] by (simp add: signed_event_run(1) [OF ev] feed_view_def)
  have gone: "feed_view s2 g = empty_view" by (simp only: view2 delete_feed_view_self [OF assms(1)])
  have none: "v_copies empty_view = []" by (simp add: empty_view_def feed_view_def empty_db_def)
  have "(feed_view s' g)\<lparr>v_copies := []\<rparr> = empty_view\<lparr>v_copies := []\<rparr>"
    using views_after_blocks(1) [OF loop, of g] unfolding gone .
  moreover have "v_copies (feed_view s' g) = v_copies empty_view"
    unfolding none by (rule views_after_blocks(2) [OF loop]) (simp only: gone none)
  ultimately show "feed_view s' g = empty_view"
    by (rule view_equality)
  show "h \<noteq> g \<Longrightarrow> (feed_view s' h)\<lparr>v_copies := []\<rparr> = (feed_view s h)\<lparr>v_copies := []\<rparr>"
    using views_after_blocks(1) [OF loop, of h] by (simp add: view2 delete_feed_view_other)
  have "keeps (\<lambda>s. t_retired_source_holds s = c) (block_loop pm parse ca ibs)" for c ibs
    by (rule keeps_block_loop [OF keeps_dexec keeps_signed]) (simp_all add: insert_feed_block_def Let_def)
  then have "t_retired_source_holds s' = t_retired_source_holds s2"
    by (rule keeps_read [where get = t_retired_source_holds and m = "block_loop pm parse ca (map (\<lambda>(i, b). (uuid i, b)) (enumerate 0 blocks))" and s = s2, OF _ loop])
  then show "t_retired_source_holds s' = t_retired_source_holds (snd (write_retired_hold (pm_lc pm) parse_retired g pj ca
        (hold_source_url g blocks s) (delete_feed_sql (pm_env pm) g s)))"
    by (simp add: hold signed_event_run(1) [OF ev])
qed


text \<open>
  C18: A retirement without a block of a known feed leaves an active hold on its source URL, also over an
  older or released one; a retirement with blocks writes no hold.
\<close>

theorem retire_leaves_hold:
  assumes "refs_ok s" "get_feed_by_guid s g = Some f"
    and "delete_feed_with_event pm parse parse_retired uuid g i pj sg ca ws blocks s = (Inr events, s')"
  shows "if blocks = [] then map_option (\<lambda>h. (rsh_source_url h, rsh_retired_at h, rsh_released_at h)) (get_retired_source_hold (pm_lc pm) s' g)
      = Some (fe_feed_url f, ca, None)
    else t_retired_source_holds s' = t_retired_source_holds s"
proof -
  from retire_steps [OF assms(3)] obtain s1 where
    hold: "write_retired_hold (pm_lc pm) parse_retired g pj ca (hold_source_url g blocks s) (delete_feed_sql (pm_env pm) g s) = (Inr (), s1)" by blast
  have holds: "t_retired_source_holds s' = t_retired_source_holds s1" using retire_success(3) [OF assms(1,3)] by (simp add: hold)
  have src: "hold_source_url g blocks s = (if blocks = [] then Some (fe_feed_url f) else None)"
    using assms(2) by (auto simp: hold_source_url_def get_feed_by_guid_def feed.truncate_def)
  show ?thesis
  proof (cases "blocks = []")
    case True
    then obtain p where p: "parse_retired pj = Some p"
      using hold src by (cases "parse_retired pj") (simp_all add: write_retired_hold_def dfail_def)
    have none: "lookup_by rsh_feed_guid (delete_where (\<lambda>r. rsh_feed_guid r = k) xs) k = None" for k xs by auto
    show ?thesis
      using True hold src p
      by (auto simp: none write_retired_hold_def dexec_def replace_retired_source_hold_def get_retired_source_hold_def holds
          lookup_by_append simp del: lookup_by_None)
  next
    case False
    with hold src have "s1 = delete_feed_sql (pm_env pm) g s" by (simp add: write_retired_hold_def dret_def)
    with False show ?thesis by (simp add: holds delete_feed_sql_same)
  qed
qed

lemma sample_primary_simps [simp]: "pm_env sample_primary = length_env" "pm_lc sample_primary = (\<lambda>t. t)"
  "pm_json sample_primary (FeedBlockedP q) = ''{}''" "pm_hash_order sample_primary = (\<lambda>xs. xs)"
  by (simp_all add: sample_primary_def)

definition sample_retired :: feed_retired_payload where
  "sample_retired = \<lparr>frt_feed_guid = ''g1'', frt_reason = Some ''source_gone''\<rparr>"

abbreviation sample_retirement :: "feed_block list \<Rightarrow> event list dbm" where
  "sample_retirement blocks \<equiv> delete_feed_with_event sample_primary
     (\<lambda>t j. Some (FeedRetiredP sample_retired)) (\<lambda>j. Some sample_retired) uuid_at ''g1'' ''e1'' ''{}'' ''g1'' 9 [] blocks"

definition guid_block :: feed_block where
  "guid_block = \<lparr>fb_block_id = ''k1'', fb_kind = Guid, fb_value = ''g1'', fb_reason = ''takedown'', fb_blocked_at = 9\<rparr>"

lemma signed_event_new:
  assumes "\<not> event_id_taken i s"
  shows "\<exists>ev. signed_event pm (\<lambda>t j. Some p) i t pj sg ca ws s = (Inr ev, s\<lparr>t_events := t_events s @ [row_at ev (ev_seq ev)]\<rparr>)
    \<and> ev_event_id ev = i"
proof -
  let ?er = "\<lparr>nw_event_id = i, nw_event_type = t, nw_payload_json = pj, nw_subject_guid = sg, nw_created_at = ca, nw_warnings = ws\<rparr>"
  obtain a b s1 where ok: "insert_event (pm_crypto pm) (pm_key pm) i t pj sg ca ws s = (Inr (next_seq s, a, b), s1)"
    using insert_new_event_ok [of ?er s pm] assms by (simp add: insert_new_event_def)
  then obtain ev s' where run: "signed_event pm (\<lambda>t j. Some p) i t pj sg ca ws s = (Inr ev, s')"
    by (simp add: signed_event_def dbind_def dret_def)
  from signed_event_run [OF run] run show ?thesis by auto
qed

lemma sample_retirement_runs:
  assumes "blocks = [] \<or> blocks = [guid_block]"
  shows "\<exists>events s'. sample_retirement blocks track_db = (Inr events, s') \<and> length events = Suc (length blocks)"
proof -
  let ?d = "delete_feed_sql length_env ''g1'' track_db"
  obtain s1 where hold: "write_retired_hold (\<lambda>t. t) (\<lambda>j. Some sample_retired) ''g1'' ''{}'' 9 (hold_source_url ''g1'' blocks track_db) ?d = (Inr (), s1)"
    by (cases "hold_source_url ''g1'' blocks track_db") (auto simp: write_retired_hold_def dret_def dexec_def)
  have empty: "t_events s1 = []" "t_feed_blocks s1 = []"
    using hold_kept(1,3) [OF hold] by (simp_all add: delete_feed_sql_same track_db_def feed_db_def empty_db_def)
  have new: "\<not> event_id_taken ''e1'' s1" by (simp add: event_id_taken_iff empty)
  obtain ev where ev: "signed_event sample_primary (\<lambda>t j. Some (FeedRetiredP sample_retired)) ''e1'' FeedRetired ''{}'' ''g1'' 9 [] s1
      = (Inr ev, s1\<lparr>t_events := [row_at ev (ev_seq ev)]\<rparr>)" and id: "ev_event_id ev = ''e1''"
    using signed_event_new [OF new, of sample_primary] by (force simp: empty)
  let ?s2 = "s1\<lparr>t_events := [row_at ev (ev_seq ev)]\<rparr>"
  have "\<exists>evs s'. block_loop sample_primary (\<lambda>t j. Some (FeedRetiredP sample_retired)) 9
      (map (\<lambda>(i, b). (uuid_at i, b)) (enumerate 0 blocks)) ?s2 = (Inr evs, s') \<and> length evs = length blocks"
    using assms
  proof
    assume blocks: "blocks = [guid_block]"
    obtain s3 where s3: "insert_feed_block (\<lambda>t. t) guid_block ?s2 = (True, s3)" "t_events s3 = [row_at ev (ev_seq ev)]"
      by (simp add: insert_feed_block_def guid_block_def empty Let_def)
    have "\<not> event_id_taken (uuid_at 0) s3" by (simp add: event_id_taken_iff s3(2) row_at_def id uuid_at_def)
    from signed_event_new [OF this, of sample_primary] obtain ev2 s4 where
      "signed_event sample_primary (\<lambda>t j. Some (FeedRetiredP sample_retired)) (uuid_at 0) FeedBlocked ''{}'' ''k1'' 9 [] s3 = (Inr ev2, s4)"
      by blast
    then show ?thesis
      by (simp add: blocks s3 dbind_def dret_def) (simp add: guid_block_def)
  qed (simp add: dret_def)
  with hold ev show ?thesis
    by (auto simp: delete_feed_with_event_def dtransaction_def dbind_def dseq_def dread_def dexec_def dret_def)
qed


theorem retire_leaves_hold_witness:
  "\<exists>events s'. sample_retirement [] track_db = (Inr events, s')
    \<and> map_option rsh_source_url (get_retired_source_hold (\<lambda>t. t) s' ''g1'') = Some ''https://a.example/f.xml''"
proof -
  obtain events s' where run: "sample_retirement [] track_db = (Inr events, s')"
    using sample_retirement_runs [of "[]"] by auto
  have "get_feed_by_guid track_db ''g1'' = Some sample_feed"
    by (simp add: get_feed_by_guid_def track_db_def feed_db_def lookup_by_def feed_row_of_def sample_feed_def feed.defs)
  from retire_leaves_hold [OF track_db_refs this run] show ?thesis
    using run by (auto simp: sample_feed_def)
qed

end
