(* ===== verification/Observe.thy ===== *)
theory Observe
  imports Retire Verify
begin

text \<open>
  The parts of the ingest handler of \<^verbatim>\<open>src/api.rs\<close> that write observations of their own: URL
  observations, summaries of copies, and the change of a GUID. Each runs in a transaction of its
  own and returns the events it signed.

  A handler fails with an \<^verbatim>\<open>ApiError\<close>; the server's configuration and what it takes from third-party
  code are the record \<open>app\<close>. \<open>ap_uuid site n\<close> is the \<open>n\<close>-th UUID drawn at a place of the code. All
  reads of the clock in one request are the one \<open>now\<close>.
\<close>

section \<open>Errors\<close>

record api_error =
  ae_status :: int
  ae_message :: string
  ae_www_authenticate :: "string option"

definition api_error :: "int \<Rightarrow> string \<Rightarrow> api_error" where
  "api_error status message = \<lparr>ae_status = status, ae_message = message, ae_www_authenticate = None\<rparr>"

definition api_error_of :: "db_error \<Rightarrow> api_error" where
  "api_error_of e = api_error 500 (case e of Rusqlite _ \<Rightarrow> ''database error'' | Json _ \<Rightarrow> ''json error''
     | Poisoned \<Rightarrow> ''database mutex poisoned'' | Other msg \<Rightarrow> msg)"

definition or_api_error :: "'a dbm \<Rightarrow> (api_error, 'a) call" where
  "or_api_error m = (\<lambda>s. case m s of (Inl e, s') \<Rightarrow> (Inl (api_error_of e), s') | (Inr x, s') \<Rightarrow> (Inr x, s'))"

record app =
  ap_primary :: primary
  ap_parse :: "event_type \<Rightarrow> string \<Rightarrow> event_payload option"
  ap_parse_retired :: "string \<Rightarrow> feed_retired_payload option"
  ap_chain :: verifier_chain
  ap_sha256 :: "string \<Rightarrow> string"
  ap_sha256_hex :: "string \<Rightarrow> string"
  ap_items_json :: "copy_remote_item list \<Rightarrow> string"
  ap_digest_json :: "copy_summary_digest_fields \<Rightarrow> string"
  ap_uuid5 :: "string \<Rightarrow> string"
  ap_uuid :: "string \<Rightarrow> nat \<Rightarrow> string"
  ap_source_gone_hosts :: "string list"

section \<open>Signed rows\<close>

record signed_event_row =
  sr_row :: new_event
  sr_seq :: int
  sr_signed_by :: string
  sr_signature :: string

definition built_event_row :: "app \<Rightarrow> string \<Rightarrow> event_payload \<Rightarrow> string \<Rightarrow> int \<Rightarrow> new_event" where
  "built_event_row ap event_id p subject_guid created_at =
     \<lparr>nw_event_id = event_id, nw_event_type = payload_type p, nw_payload_json = pm_json (ap_primary ap) p,
       nw_subject_guid = subject_guid, nw_created_at = created_at, nw_warnings = []\<rparr>"

definition signed_row_to_event :: "app \<Rightarrow> signed_event_row \<Rightarrow> api_error + event" where
  "signed_row_to_event ap sr = (let row = sr_row sr in
     case ap_parse ap (nw_event_type row) (nw_payload_json row) of
       None \<Rightarrow> Inl (api_error 500 ''failed to deserialize event payload for fan-out'')
     | Some payload \<Rightarrow> Inr \<lparr>ev_event_id = nw_event_id row, ev_event_type = nw_event_type row, ev_payload = payload,
         ev_subject_guid = nw_subject_guid row, ev_signed_by = sr_signed_by sr, ev_signature = sr_signature sr,
         ev_seq = sr_seq sr, ev_created_at = nw_created_at row, ev_warnings = nw_warnings row,
         ev_payload_json = nw_payload_json row\<rparr>)"

definition sign_event_row :: "app \<Rightarrow> new_event \<Rightarrow> (api_error, signed_event_row) call" where
  "sign_event_row ap row =
     dbind (or_api_error (insert_new_event (ap_primary ap) row)) (\<lambda>(seq, signed_by, signature).
       dret \<lparr>sr_row = row, sr_seq = seq, sr_signed_by = signed_by, sr_signature = signature\<rparr>)"

section \<open>URL observations\<close>

definition feed_url_observed_event_row :: "app \<Rightarrow> string \<Rightarrow> feed_url_observation \<Rightarrow> new_event" where
  "feed_url_observed_event_row ap event_id ob = built_event_row ap event_id
     (FeedUrlObservedP \<lparr>fuo_url = ob_url ob, fuo_feed_guid = ob_feed_guid ob, fuo_observed_at = ob_observed_at ob\<rparr>)
     (ob_feed_guid ob) (ob_observed_at ob)"

text \<open>A call that returns a value and a new state without failing.\<close>

definition dstate :: "(db \<Rightarrow> 'a \<times> db) \<Rightarrow> ('e, 'a) call" where
  "dstate f = (\<lambda>s. let (x, s') = f s in (Inr x, s'))"

fun url_observation_loop :: "app \<Rightarrow> string \<Rightarrow> int \<Rightarrow> (string \<times> string) list \<Rightarrow> (api_error, signed_event_row list) call" where
  "url_observation_loop ap feed_guid now [] = dret []"
| "url_observation_loop ap feed_guid now ((event_id, url) # urls) =
     dbind (dstate (record_feed_url_observation url feed_guid now)) (\<lambda>observation.
       case observation of None \<Rightarrow> url_observation_loop ap feed_guid now urls
       | Some ob \<Rightarrow> dbind (sign_event_row ap (feed_url_observed_event_row ap event_id ob)) (\<lambda>row.
           dbind (url_observation_loop ap feed_guid now urls) (\<lambda>rows. dret (row # rows))))"

definition observed_urls :: "string \<Rightarrow> string \<Rightarrow> string list" where
  "observed_urls canonical_url source_url =
     (if source_url \<noteq> canonical_url then [canonical_url, source_url] else [canonical_url])"

definition record_feed_url_observations_for_ingest ::
  "app \<Rightarrow> string \<Rightarrow> string \<Rightarrow> string \<Rightarrow> int \<Rightarrow> (api_error, signed_event_row list) call" where
  "record_feed_url_observations_for_ingest ap canonical_url source_url feed_guid now = dtransaction
     (url_observation_loop ap feed_guid now
       (map (\<lambda>(i, url). (ap_uuid ap ''url_observed'' i, url)) (enumerate 0 (observed_urls canonical_url source_url))))"

section \<open>Copies\<close>

definition feed_copy_observed_event_row :: "app \<Rightarrow> string \<Rightarrow> string \<Rightarrow> string \<Rightarrow> int \<Rightarrow> copy_summary \<Rightarrow> string \<Rightarrow> int \<Rightarrow> new_event" where
  "feed_copy_observed_event_row ap event_id feed_guid url first_seen sm digest now = built_event_row ap event_id
     (FeedCopyObservedP \<lparr>fco_feed_guid = feed_guid, fco_url = url, fco_first_seen = first_seen, fco_title = cs_title sm,
       fco_item_guids = cs_item_guids sm, fco_item_titles = cs_item_titles sm, fco_image_url = cs_image_url sm,
       fco_remote_items = cs_remote_items sm, fco_item_durations = cs_item_durations sm,
       fco_item_enclosure_urls = cs_item_enclosure_urls sm, fco_item_pub_dates = cs_item_pub_dates sm,
       fco_author = cs_author sm, fco_feed_recipients = cs_feed_recipients sm,
       fco_track_recipients = cs_track_recipients sm, fco_summary_digest = digest\<rparr>) feed_guid now"

definition copy_changed :: "copy_summary \<Rightarrow> string \<Rightarrow> string option \<Rightarrow> feed_copy_row \<Rightarrow> bool" where
  "copy_changed sm digest items_digest row \<longleftrightarrow> (let old = fcy_summary row in
     digest \<noteq> fcy_summary_digest row \<or> cs_title sm \<noteq> cs_title old \<or> cs_item_titles sm \<noteq> cs_item_titles old
     \<or> cs_image_url sm \<noteq> cs_image_url old \<or> items_digest \<noteq> fcy_remote_items_digest row
     \<or> cs_item_durations sm \<noteq> cs_item_durations old \<or> cs_item_enclosure_urls sm \<noteq> cs_item_enclosure_urls old
     \<or> cs_item_pub_dates sm \<noteq> cs_item_pub_dates old \<or> cs_author sm \<noteq> cs_author old)"

definition record_feed_copy_for_ingest ::
  "app \<Rightarrow> string \<Rightarrow> string \<Rightarrow> string \<Rightarrow> ingest_feed_data \<Rightarrow> int \<Rightarrow> (api_error, signed_event_row list) call" where
  "record_feed_copy_for_ingest ap event_id feed_guid url fd now =
     (let sm = copy_summary fd; digest = summary_digest (ap_digest_json ap) (ap_sha256_hex ap) sm;
          items_digest = remote_items_digest (ap_items_json ap) (ap_sha256_hex ap) sm;
          sign = (\<lambda>first_seen. dbind (sign_event_row ap
             (feed_copy_observed_event_row ap event_id feed_guid url first_seen sm digest now)) (\<lambda>row. dret [row]))
      in dtransaction (dbind (dread (\<lambda>s. get_feed_copy s feed_guid url)) (\<lambda>existing. case existing of
           Some row \<Rightarrow>
             dseq (dexec (touch_feed_copy_last_seen feed_guid url now))
               (if copy_changed sm digest items_digest row
                then dseq (dexec (upsert_feed_copy_summary feed_guid url (fcy_first_seen row) sm digest items_digest))
                       (sign (fcy_first_seen row))
                else dret [])
         | None \<Rightarrow> dbind (dread (\<lambda>s. count_feed_copies s feed_guid)) (\<lambda>n.
             if n \<ge> MAX_COPIES_PER_GUID then dseq (dexec (increment_copy_overflow feed_guid)) (dret [])
             else dseq (dexec (upsert_feed_copy_summary feed_guid url now sm digest items_digest))
                 (dseq (dexec (touch_feed_copy_last_seen feed_guid url now)) (sign now))))))"

section \<open>GUID changes\<close>

definition guid_change_observed_event_row :: "app \<Rightarrow> string \<Rightarrow> string \<Rightarrow> string \<Rightarrow> string \<Rightarrow> int \<Rightarrow> int \<Rightarrow> new_event" where
  "guid_change_observed_event_row ap event_id source_url old_guid new_guid first_seen now = built_event_row ap event_id
     (FeedGuidChangeObservedP \<lparr>gco_source_url = source_url, gco_old_guid = old_guid, gco_new_guid = new_guid,
       gco_first_seen = first_seen\<rparr>) old_guid now"

datatype guid_change_pending_outcome = Rejected | Pending "signed_event_row list"

definition record_guid_change_pending_for_ingest ::
  "app \<Rightarrow> string \<Rightarrow> string \<Rightarrow> string \<Rightarrow> string \<Rightarrow> int \<Rightarrow> (api_error, guid_change_pending_outcome) call" where
  "record_guid_change_pending_for_ingest ap event_id source_url old_guid new_guid now =
     dbind (dread (\<lambda>s. get_guid_change s source_url)) (\<lambda>existing.
       if (case existing of None \<Rightarrow> False | Some row \<Rightarrow> gc_new_guid row = new_guid \<and> gc_decision row = Some ''reject'')
       then dret Rejected
       else
         let is_new_or_changed = (case existing of None \<Rightarrow> True | Some row \<Rightarrow> gc_new_guid row \<noteq> new_guid);
             first_seen = (if is_new_or_changed then now else case existing of None \<Rightarrow> now | Some row \<Rightarrow> gc_first_seen row)
         in dtransaction
              (dseq (dexec (upsert_guid_change source_url old_guid new_guid first_seen))
              (dseq (dexec (touch_guid_change_last_seen source_url now))
                 (if is_new_or_changed
                  then dbind (sign_event_row ap (guid_change_observed_event_row ap event_id source_url old_guid new_guid first_seen now))
                         (\<lambda>row. dret (Pending [row]))
                  else dret (Pending [])))))"

definition record_guid_change_return_for_ingest ::
  "app \<Rightarrow> string \<Rightarrow> string \<Rightarrow> string \<Rightarrow> int \<Rightarrow> (api_error, signed_event_row list) call" where
  "record_guid_change_return_for_ingest ap event_id source_url guid now =
     dbind (dread (\<lambda>s. get_guid_change s source_url)) (\<lambda>existing.
       if existing = None then dret []
       else dtransaction
         (dseq (dexec (delete_guid_change source_url))
            (dbind (sign_event_row ap (guid_change_observed_event_row ap event_id source_url guid guid now now))
               (\<lambda>delete_marker. dret [delete_marker]))))"

definition guid_change_transition ::
  "app \<Rightarrow> string \<Rightarrow> string \<Rightarrow> string \<Rightarrow> int \<Rightarrow> (api_error, signed_event_row list) call" where
  "guid_change_transition ap old_guid new_guid source_url now = dtransaction
     (dseq (dexec (delete_feed_sql (pm_env (ap_primary ap)) old_guid))
     (dbind (sign_event_row ap (built_event_row ap (ap_uuid ap ''transition'' 0)
        (FeedRetiredP \<lparr>frt_feed_guid = old_guid, frt_reason = Some ''guid_superseded''\<rparr>) old_guid now)) (\<lambda>retired.
      dseq (dexec (insert_guid_supersession old_guid new_guid source_url now))
     (dbind (sign_event_row ap (built_event_row ap (ap_uuid ap ''transition'' 1)
        (FeedGuidSupersededP \<lparr>fgs_old_guid = old_guid, fgs_new_guid = new_guid, fgs_source_url = source_url\<rparr>) old_guid now)) (\<lambda>superseded.
      dbind (dread (\<lambda>s. get_guid_change s source_url)) (\<lambda>existing.
        if existing = None then dret [retired, superseded]
        else dseq (dexec (delete_guid_change source_url))
          (dbind (sign_event_row ap (guid_change_observed_event_row ap (ap_uuid ap ''transition'' 2) source_url old_guid old_guid now now))
            (\<lambda>marker. dret [retired, superseded, marker]))))))))"

end
