(* ===== verification/Live.thy ===== *)
theory Live
  imports Summary Model Tables "HOL-Library.Multiset"
begin

text \<open>
  \<^verbatim>\<open>src/live.rs\<close>: the rules of ADR 0064 for live items. The list of confirming hosts is an argument,
  as in the source; the process-wide cell that holds it is start-up wiring.
\<close>

section \<open>The rules\<close>

definition MAX_ACTIVE_LIVE_ROWS :: nat where "MAX_ACTIVE_LIVE_ROWS = 10"
definition MAX_ENDED_LIVE_ROWS :: nat where "MAX_ENDED_LIVE_ROWS = 10"
definition MAX_UNRELAYED_LIVE_SECS :: int where "MAX_UNRELAYED_LIVE_SECS = 6 * 3600"
definition LIVE_END_MARGIN_SECS :: int where "LIVE_END_MARGIN_SECS = 3600"
definition PENDING_START_MARGIN_SECS :: int where "PENDING_START_MARGIN_SECS = 3600"

definition has_relay_link :: "ingest_live_item_data \<Rightarrow> bool" where
  "has_relay_link item = is_some_and (\<lambda>uri. uri \<noteq> []) (ili_live_value_uri item)"

definition is_banned_live_item :: "ingest_live_item_data \<Rightarrow> bool" where
  "is_banned_live_item item =
     (if \<not> eq_ignore_ascii_case (ili_status item) ''live'' \<or> has_relay_link item then False
      else case (ili_start_at item, ili_end_at item) of
          (Some start_at, Some end_at) \<Rightarrow> i64_sub end_at start_at > MAX_UNRELAYED_LIVE_SECS
        | _ \<Rightarrow> True)"

text \<open>The five steps. Each returns what it keeps and its warnings.\<close>

definition known_status :: "ingest_live_item_data \<Rightarrow> bool" where
  "known_status item = (to_ascii_lowercase (ili_status item) \<in> {''pending'', ''live'', ''ended''})"

fun keep_known :: "ingest_live_item_data list \<Rightarrow> ingest_live_item_data list \<times> string list" where
  "keep_known [] = ([], [])"
| "keep_known (item # items) = (let (kept, ws) = keep_known items in
     if known_status item then (item # kept, ws)
     else (kept, (''dropped live item '' @ ili_live_item_guid item @ '': unknown status '' @ ili_status item
            @ '' (ADR 0064 section 4)'') # ws))"

fun keep_new_guid :: "string list \<Rightarrow> ingest_live_item_data list \<Rightarrow> ingest_live_item_data list \<times> string list" where
  "keep_new_guid seen [] = ([], [])"
| "keep_new_guid seen (item # items) =
     (if ili_live_item_guid item \<notin> set seen
      then let (kept, ws) = keep_new_guid (ili_live_item_guid item # seen) items in (item # kept, ws)
      else let (kept, ws) = keep_new_guid seen items in
        (kept, (''dropped duplicate live_item_guid '' @ ili_live_item_guid item @ '' (ADR 0064 section 4)'') # ws))"

fun keep_allowed :: "ingest_live_item_data list \<Rightarrow> ingest_live_item_data list \<times> string list" where
  "keep_allowed [] = ([], [])"
| "keep_allowed (item # items) = (let (kept, ws) = keep_allowed items in
     if is_banned_live_item item
     then (kept, (''dropped live item '' @ ili_live_item_guid item
            @ '': no relay link and no start/end window of at most '' @ show_int (MAX_UNRELAYED_LIVE_SECS div 3600)
            @ '' hours (ADR 0064 section 4)'') # ws)
     else (item # kept, ws))"

definition ended_status :: "ingest_live_item_data \<Rightarrow> bool" where
  "ended_status item = eq_ignore_ascii_case (ili_status item) ''ended''"

fun keep_active :: "nat \<Rightarrow> ingest_live_item_data list \<Rightarrow> string list \<times> string list" where
  "keep_active active_kept [] = ([], [])"
| "keep_active active_kept (item # items) =
     (if ended_status item then keep_active active_kept items
      else if active_kept < MAX_ACTIVE_LIVE_ROWS
      then let (guids, ws) = keep_active (Suc active_kept) items in (ili_live_item_guid item # guids, ws)
      else let (guids, ws) = keep_active active_kept items in
        (guids, (''dropped live item '' @ ili_live_item_guid item @ '': more than '' @ show_nat MAX_ACTIVE_LIVE_ROWS
            @ '' pending or live items (ADR 0064 section 4)'') # ws))"

text \<open>The order of \<^verbatim>\<open>sort\_by\<close>: the newest start first, no start last, and stable.\<close>

definition newest_first :: "ingest_live_item_data \<Rightarrow> nat \<times> int" where
  "newest_first item = (case ili_start_at item of Some start \<Rightarrow> (0, - start) | None \<Rightarrow> (1, 0))"

fun keep_ended :: "nat \<Rightarrow> ingest_live_item_data list \<Rightarrow> string list \<times> string list" where
  "keep_ended index [] = ([], [])"
| "keep_ended index (item # items) = (let (guids, ws) = keep_ended (Suc index) items in
     if index < MAX_ENDED_LIVE_ROWS then (ili_live_item_guid item # guids, ws)
     else (guids, (''dropped live item '' @ ili_live_item_guid item @ '': more than '' @ show_nat MAX_ENDED_LIVE_ROWS
            @ '' ended items (ADR 0064 section 4)'') # ws))"

definition select_live_items :: "ingest_live_item_data list \<Rightarrow> ingest_live_item_data list \<times> string list" where
  "select_live_items items =
     (let (known, w1) = keep_known items;
          (deduped, w2) = keep_new_guid [] known;
          (survivors, w3) = keep_allowed deduped;
          (active, w4) = keep_active 0 survivors;
          (recent, w5) = keep_ended 0 (List.sort_key newest_first (filter ended_status survivors));
          kept_guids = active @ recent
      in (filter (\<lambda>item. ili_live_item_guid item \<in> set kept_guids) survivors, w1 @ w2 @ w3 @ w4 @ w5))"

definition is_confirming_relay :: "(string \<Rightarrow> url option) \<Rightarrow> string option \<Rightarrow> string list \<Rightarrow> bool" where
  "is_confirming_relay url_parse uri hosts = (case uri of
       None \<Rightarrow> False
     | Some u \<Rightarrow> (case url_parse u of
           None \<Rightarrow> False
         | Some parsed \<Rightarrow> (if ur_scheme parsed \<noteq> ''https'' then False
             else case ur_host_str parsed of
                 None \<Rightarrow> False
               | Some host \<Rightarrow> list_ex (\<lambda>listed. eq_ignore_ascii_case listed host) hosts)))"

definition in_now_view :: "live_event \<Rightarrow> int \<Rightarrow> bool \<Rightarrow> bool" where
  "in_now_view row now confirming =
     (if \<not> eq_ignore_ascii_case (le_status row) ''live'' then False
      else if confirming then True
      else case le_scheduled_end row of
          None \<Rightarrow> True
        | Some scheduled_end \<Rightarrow> now < i64_add scheduled_end LIVE_END_MARGIN_SECS)"

definition in_upcoming_view :: "live_event \<Rightarrow> int \<Rightarrow> bool" where
  "in_upcoming_view row now =
     (if \<not> eq_ignore_ascii_case (le_status row) ''pending'' then False
      else case le_scheduled_end row of
          Some scheduled_end \<Rightarrow> now < scheduled_end
        | None \<Rightarrow> (case le_scheduled_start row of
              Some scheduled_start \<Rightarrow> now < i64_add scheduled_start PENDING_START_MARGIN_SECS
            | None \<Rightarrow> False))"

section \<open>The steps keep what they say\<close>

lemma keep_known_result: "fst (keep_known items) = filter known_status items"
  "length (snd (keep_known items)) + length (fst (keep_known items)) = length items"
  by (induction items) (auto simp: Let_def split: prod.splits)

lemma keep_allowed_result: "fst (keep_allowed items) = filter (\<lambda>i. \<not> is_banned_live_item i) items"
  "length (snd (keep_allowed items)) + length (fst (keep_allowed items)) = length items"
  by (induction items) (auto simp: Let_def split: prod.splits)

lemma keep_new_guid_result: "fst (keep_new_guid seen items) = dedupe_loop ili_live_item_guid seen items"
  "length (snd (keep_new_guid seen items)) + length (fst (keep_new_guid seen items)) = length items"
  by (induction seen items rule: keep_new_guid.induct) (auto simp: Let_def split: prod.splits)

lemma keep_active_result:
  "n \<le> MAX_ACTIVE_LIVE_ROWS \<Longrightarrow> fst (keep_active n items) =
    map ili_live_item_guid (take (MAX_ACTIVE_LIVE_ROWS - n) (filter (\<lambda>i. \<not> ended_status i) items))"
  "length (fst (keep_active n items)) + length (snd (keep_active n items)) = length (filter (\<lambda>i. \<not> ended_status i) items)"
proof -
  show "n \<le> MAX_ACTIVE_LIVE_ROWS \<Longrightarrow> fst (keep_active n items) =
    map ili_live_item_guid (take (MAX_ACTIVE_LIVE_ROWS - n) (filter (\<lambda>i. \<not> ended_status i) items))"
  proof (induction n items rule: keep_active.induct)
    case (2 n item items)
    then show ?case
      by (cases "n < MAX_ACTIVE_LIVE_ROWS") (auto simp: Let_def Suc_diff_Suc take_Cons' split: prod.splits)
  qed simp
  show "length (fst (keep_active n items)) + length (snd (keep_active n items)) = length (filter (\<lambda>i. \<not> ended_status i) items)"
    by (induction n items rule: keep_active.induct) (auto simp: Let_def split: prod.splits)
qed

lemma keep_ended_result:
  "fst (keep_ended n items) = map ili_live_item_guid (take (MAX_ENDED_LIVE_ROWS - n) items)"
  "length (fst (keep_ended n items)) + length (snd (keep_ended n items)) = length items"
proof -
  show "fst (keep_ended n items) = map ili_live_item_guid (take (MAX_ENDED_LIVE_ROWS - n) items)"
  proof (induction n items rule: keep_ended.induct)
    case (2 n item items)
    then show ?case
      by (cases "n < MAX_ENDED_LIVE_ROWS") (auto simp: Let_def take_Cons' split: prod.splits)
  qed simp
  show "length (fst (keep_ended n items)) + length (snd (keep_ended n items)) = length items"
    by (induction n items rule: keep_ended.induct) (auto simp: Let_def split: prod.splits)
qed

section \<open>The selection\<close>

text \<open>The items that pass the first three steps, and the two capped lists.\<close>

definition survivors_of :: "ingest_live_item_data list \<Rightarrow> ingest_live_item_data list" where
  "survivors_of items = filter (\<lambda>i. \<not> is_banned_live_item i) (dedupe_by ili_live_item_guid (filter known_status items))"

definition active_of :: "ingest_live_item_data list \<Rightarrow> ingest_live_item_data list" where
  "active_of items = take MAX_ACTIVE_LIVE_ROWS (filter (\<lambda>i. \<not> ended_status i) items)"

definition recent_of :: "ingest_live_item_data list \<Rightarrow> ingest_live_item_data list" where
  "recent_of items = take MAX_ENDED_LIVE_ROWS (List.sort_key newest_first (filter ended_status items))"

lemma survivors_ok:
  "subseq (survivors_of items) items" "distinct (map ili_live_item_guid (survivors_of items))"
  "i \<in> set (survivors_of items) \<Longrightarrow> known_status i \<and> \<not> is_banned_live_item i"
proof -
  have d: "subseq (dedupe_by ili_live_item_guid (filter known_status items)) (filter known_status items)"
    unfolding dedupe_by_def by (rule dedupe_loop_subseq)
  then have sub: "set (dedupe_by ili_live_item_guid (filter known_status items)) \<subseteq> {i \<in> set items. known_status i}"
    by (auto elim!: list_emb_set)
  show "subseq (survivors_of items) items"
    unfolding survivors_of_def by (meson d subseq_filter_left subseq_order.order_trans)
  have "distinct (map ili_live_item_guid (dedupe_by ili_live_item_guid (filter known_status items)))"
    using dedupe_loop_keys [of ili_live_item_guid "[]"] by (simp add: dedupe_by_def)
  then show "distinct (map ili_live_item_guid (survivors_of items))"
    unfolding survivors_of_def by (rule distinct_map_filter)
  show "i \<in> set (survivors_of items) \<Longrightarrow> known_status i \<and> \<not> is_banned_live_item i"
    using sub by (auto simp: survivors_of_def)
qed

lemma capped_subset: "set (active_of s) \<subseteq> {i \<in> set s. \<not> ended_status i}" "set (recent_of s) \<subseteq> {i \<in> set s. ended_status i}"
  by (auto simp: active_of_def recent_of_def dest!: in_set_takeD)

lemma selected:
  "fst (select_live_items items) = filter (\<lambda>i. i \<in> set (active_of (survivors_of items)) \<union> set (recent_of (survivors_of items))) (survivors_of items)"
  (is "_ = filter (\<lambda>i. i \<in> ?chosen) ?s")
proof -
  have s: "fst (keep_allowed (fst (keep_new_guid [] (fst (keep_known items))))) = ?s"
    by (simp add: keep_known_result(1) keep_new_guid_result(1) keep_allowed_result(1) survivors_of_def dedupe_by_def)
  have guids: "set (fst (keep_active 0 ?s)) \<union> set (fst (keep_ended 0 (List.sort_key newest_first (filter ended_status ?s))))
      = ili_live_item_guid ` ?chosen"
    by (simp add: keep_active_result(1) keep_ended_result(1) active_of_def recent_of_def image_Un)
  have "fst (select_live_items items) = filter (\<lambda>i. ili_live_item_guid i \<in> ili_live_item_guid ` ?chosen) ?s"
    unfolding select_live_items_def by (simp add: prod.case_eq_if Let_def s guids [symmetric])
  moreover have "ili_live_item_guid i \<in> ili_live_item_guid ` ?chosen \<longleftrightarrow> i \<in> ?chosen" if "i \<in> set ?s" for i
  proof -
    have "inj_on ili_live_item_guid (set ?s)" using survivors_ok(2) [of items] by (simp add: distinct_map)
    then show ?thesis using that capped_subset [of ?s] by (auto simp: inj_on_def)
  qed
  ultimately show ?thesis by (simp cong: filter_cong)
qed

lemma filter_in_take: "distinct xs \<Longrightarrow> filter (\<lambda>i. i \<in> set (take n xs)) xs = take n xs"
proof (induction xs arbitrary: n)
  case (Cons x xs)
  then have "filter (\<lambda>i. i = x \<or> i \<in> set (take m xs)) xs = take m xs" for m
    using filter_cong [of xs xs "\<lambda>i. i = x \<or> i \<in> set (take m xs)" "\<lambda>i. i \<in> set (take m xs)"] by auto
  with Cons show ?case by (cases n) auto
qed simp

lemma chosen_length:
  assumes "distinct s"
  shows "filter (\<lambda>i. \<not> ended_status i) (filter (\<lambda>i. i \<in> set (active_of s) \<union> set (recent_of s)) s) = active_of s"
    and "mset (filter ended_status (filter (\<lambda>i. i \<in> set (active_of s) \<union> set (recent_of s)) s)) = mset (recent_of s)"
proof -
  let ?a = "filter (\<lambda>i. \<not> ended_status i) s"
  have da: "distinct ?a" using assms by simp
  from filter_in_take [OF da, of MAX_ACTIVE_LIVE_ROWS]
  have "filter (\<lambda>i. i \<in> set (active_of s)) ?a = active_of s" by (simp add: active_of_def)
  moreover have "filter (\<lambda>i. \<not> ended_status i) (filter (\<lambda>i. i \<in> set (active_of s) \<union> set (recent_of s)) s) = filter (\<lambda>i. i \<in> set (active_of s)) ?a"
    using capped_subset [of s] by (auto intro!: filter_cong)
  ultimately show "filter (\<lambda>i. \<not> ended_status i) (filter (\<lambda>i. i \<in> set (active_of s) \<union> set (recent_of s)) s) = active_of s" by simp
  have "set (filter ended_status (filter (\<lambda>i. i \<in> set (active_of s) \<union> set (recent_of s)) s)) = set (recent_of s)"
    using capped_subset [of s] by auto
  moreover have "distinct (recent_of s)" using assms by (simp add: recent_of_def)
  ultimately show "mset (filter ended_status (filter (\<lambda>i. i \<in> set (active_of s) \<union> set (recent_of s)) s)) = mset (recent_of s)"
    using assms by (intro set_eq_iff_mset_eq_distinct [THEN iffD1]) simp_all
qed

text \<open>Dropped and kept items add up, one warning for each dropped one.\<close>

lemma selected_lengths: "length (fst (select_live_items items)) + length (snd (select_live_items items)) = length items"
proof -
  let ?s = "survivors_of items"
  have d: "distinct ?s" using survivors_ok(2) [of items] by (simp add: distinct_map)
  have s: "fst (keep_allowed (fst (keep_new_guid [] (fst (keep_known items))))) = ?s"
    by (simp add: keep_known_result(1) keep_new_guid_result(1) keep_allowed_result(1) survivors_of_def dedupe_by_def)
  let ?k = "fst (keep_known items)" and ?e = "List.sort_key newest_first (filter ended_status ?s)"
  let ?n = "fst (keep_new_guid [] ?k)"
  have "length (filter (\<lambda>i. \<not> ended_status i) (fst (select_live_items items))) = length (fst (keep_active 0 ?s))"
    unfolding selected chosen_length(1) [OF d] by (simp add: keep_active_result(1) active_of_def)
  moreover have "length (filter ended_status (fst (select_live_items items))) = length (fst (keep_ended 0 ?e))"
    unfolding selected using mset_eq_length [OF chosen_length(2) [OF d]] by (simp add: keep_ended_result(1) recent_of_def)
  moreover have "length (filter ended_status (fst (select_live_items items))) + length (filter (\<lambda>i. \<not> ended_status i) (fst (select_live_items items)))
      = length (fst (select_live_items items))" by (rule sum_length_filter_compl)
  moreover have "length (filter ended_status ?s) + length (filter (\<lambda>i. \<not> ended_status i) ?s) = length ?s"
    by (rule sum_length_filter_compl)
  moreover have "snd (select_live_items items) = snd (keep_known items) @ snd (keep_new_guid [] ?k) @ snd (keep_allowed ?n)
      @ snd (keep_active 0 ?s) @ snd (keep_ended 0 ?e)"
    unfolding select_live_items_def by (simp add: prod.case_eq_if Let_def s)
  moreover have "length (snd (keep_known items)) + length ?k = length items" by (rule keep_known_result(2))
  moreover have "length (snd (keep_new_guid [] ?k)) + length ?n = length ?k" by (rule keep_new_guid_result(2))
  moreover have "length (snd (keep_allowed ?n)) + length ?s = length ?n" using keep_allowed_result(2) [of ?n] by (simp only: s)
  moreover have "length (fst (keep_active 0 ?s)) + length (snd (keep_active 0 ?s)) = length (filter (\<lambda>i. \<not> ended_status i) ?s)"
    by (rule keep_active_result(2))
  moreover have "length (fst (keep_ended 0 ?e)) + length (snd (keep_ended 0 ?e)) = length (filter ended_status ?s)"
    using keep_ended_result(2) [of 0 ?e] by simp
  ultimately show ?thesis by simp
qed

lemma selected_caps:
  "length (filter (\<lambda>i. \<not> ended_status i) (fst (select_live_items items))) \<le> MAX_ACTIVE_LIVE_ROWS"
  "length (filter ended_status (fst (select_live_items items))) \<le> MAX_ENDED_LIVE_ROWS"
proof -
  have d: "distinct (survivors_of items)" using survivors_ok(2) [of items] by (simp add: distinct_map)
  show "length (filter (\<lambda>i. \<not> ended_status i) (fst (select_live_items items))) \<le> MAX_ACTIVE_LIVE_ROWS"
    unfolding selected chosen_length(1) [OF d] by (simp add: active_of_def)
  show "length (filter ended_status (fst (select_live_items items))) \<le> MAX_ENDED_LIVE_ROWS"
    unfolding selected using mset_eq_length [OF chosen_length(2) [OF d]] by (simp add: recent_of_def)
qed

lemma selected_ok:
  "subseq (fst (select_live_items items)) items" "distinct (map ili_live_item_guid (fst (select_live_items items)))"
  "i \<in> set (fst (select_live_items items)) \<Longrightarrow> known_status i \<and> \<not> is_banned_live_item i"
  unfolding selected
  using survivors_ok(2) [of items] survivors_ok(3) [where items = items] subseq_order.order_trans [OF subseq_filter_left survivors_ok(1) [of items]]
  by (auto intro: distinct_map_filter)

text \<open>What is within the rules already is kept as it is.\<close>

lemma select_nothing_to_drop:
  assumes "list_all (\<lambda>i. known_status i \<and> \<not> is_banned_live_item i) items" "distinct (map ili_live_item_guid items)"
    and "length (filter (\<lambda>i. \<not> ended_status i) items) \<le> MAX_ACTIVE_LIVE_ROWS" "length (filter ended_status items) \<le> MAX_ENDED_LIVE_ROWS"
  shows "select_live_items items = (items, [])"
proof -
  have "filter known_status items = items" "filter (\<lambda>i. \<not> is_banned_live_item i) items = items"
    using assms(1) by (simp_all add: list_all_iff filter_id_conv)
  then have s: "survivors_of items = items"
    using assms(2) by (simp add: survivors_of_def dedupe_by_def dedupe_loop_id)
  have "active_of items = filter (\<lambda>i. \<not> ended_status i) items" using assms(3) by (simp add: active_of_def)
  moreover have "set (recent_of items) = {i \<in> set items. ended_status i}" using assms(4) by (simp add: recent_of_def)
  ultimately have "filter (\<lambda>i. i \<in> set (active_of items) \<union> set (recent_of items)) items = items"
    by (auto simp: filter_id_conv)
  then have fst: "fst (select_live_items items) = items" unfolding selected s .
  with selected_lengths [of items] have "snd (select_live_items items) = []" by simp
  with fst show ?thesis by (metis prod.collapse)
qed

section \<open>Properties of the rules\<close>

text \<open>
  C19: The live items a feed keeps are a part of those it gave, in their order, with distinct GUIDs, known
  statuses and none that the ban names; at most ten of them are pending or live and ten ended, and
  each dropped item has one warning.
\<close>

theorem select_live_items_kept:
  "case select_live_items items of (kept, warnings) \<Rightarrow>
     subseq kept items \<and> distinct (map ili_live_item_guid kept)
     \<and> list_all (\<lambda>i. known_status i \<and> \<not> is_banned_live_item i) kept
     \<and> length (filter (\<lambda>i. \<not> ended_status i) kept) \<le> MAX_ACTIVE_LIVE_ROWS
     \<and> length (filter ended_status kept) \<le> MAX_ENDED_LIVE_ROWS
     \<and> length kept + length warnings = length items"
  using selected_ok(1,2) [of items] selected_ok(3) [where items = items] selected_caps [of items] selected_lengths [of items]
  by (simp add: prod.case_eq_if list_all_iff)

text \<open>Selecting from what was kept keeps all of it and warns of nothing.\<close>

theorem select_live_items_twice:
  "select_live_items (fst (select_live_items items)) = (fst (select_live_items items), [])"
  by (rule select_nothing_to_drop) (simp_all add: list_all_iff selected_ok selected_caps)

text \<open>
  No row is in the view of what is on now and in that of what is coming at once; a live row with a
  confirming relay stays in the first whatever the clock says.
\<close>

theorem live_views_disjoint:
  "\<not> (in_now_view row now confirming \<and> in_upcoming_view row now')
    \<and> (eq_ignore_ascii_case (le_status row) ''live'' \<longrightarrow> in_now_view row now True)"
proof -
  have "to_ascii_lowercase ''live'' \<noteq> to_ascii_lowercase ''pending''" by code_simp
  then show ?thesis by (auto simp: in_now_view_def in_upcoming_view_def eq_ignore_ascii_case_def)
qed

end
