(* ===== verification/Stage.thy ===== *)
theory Stage
  imports Live Diff
begin

text \<open>
  How \<^verbatim>\<open>handle\_ingest\_feed\<close> of \<^verbatim>\<open>src/api.rs\<close> turns a parsed submission into the rows that
  \<^verbatim>\<open>ingest\_transaction\<close> stores: the builders of staged source claims, the feed and its tracks.
  \<^verbatim>\<open>to\_lowercase\<close> is the argument \<open>lc\<close> and \<^verbatim>\<open>Url::parse\<close> the argument \<open>url_parse\<close>.
\<close>

section \<open>Text\<close>

definition non_empty_trimmed :: "string option \<Rightarrow> string option" where
  "non_empty_trimmed v = (case v of None \<Rightarrow> None | Some t \<Rightarrow> if trim t = [] then None else Some (trim t))"

definition normalize_role :: "string option \<Rightarrow> string option" where
  "normalize_role role = (case role of None \<Rightarrow> None
     | Some t \<Rightarrow> if trim t = [] then None
         else Some (join '' '' (map to_ascii_lowercase (split_whitespace (trim t)))))"

definition classify_platform_owner :: "string \<Rightarrow> string option" where
  "classify_platform_owner owner_name = (let n = to_ascii_lowercase (trim owner_name) in
     if n = ''wavlake'' then Some ''wavlake''
     else if n = ''fountain'' then Some ''fountain''
     else if n = ''rss blue'' \<or> n = ''rssblue'' then Some ''rss_blue''
     else if n = ''podhome'' then Some ''podhome''
     else if n = ''justcast'' then Some ''justcast'' else None)"

definition is_platform_owner_name :: "string \<Rightarrow> bool" where
  "is_platform_owner_name name = (classify_platform_owner name \<noteq> None)"

definition classify_platform_url :: "(string \<Rightarrow> url option) \<Rightarrow> string \<Rightarrow> string option" where
  "classify_platform_url url_parse text = (case url_parse text of None \<Rightarrow> None
     | Some u \<Rightarrow> (case ur_host_str u of None \<Rightarrow> None
         | Some h \<Rightarrow> (let host = to_ascii_lowercase (trim h) in
             if host \<in> {''wavlake.com'', ''www.wavlake.com''} then Some ''wavlake''
             else if host \<in> {''fountain.fm'', ''www.fountain.fm'', ''feeds.fountain.fm''} then Some ''fountain''
             else if host \<in> {''rssblue.com'', ''www.rssblue.com'', ''feeds.rssblue.com''} then Some ''rss_blue''
             else if host \<in> {''podhome.fm'', ''serve.podhome.fm''} then Some ''podhome''
             else if host \<in> {''justcast.com'', ''feed.justcast.com''} then Some ''justcast'' else None)))"

definition derive_release_artist :: "ingest_feed_data \<Rightarrow> string \<times> string" where
  "derive_release_artist fd = (case non_empty_trimmed (ifd_author_name fd) of
       Some author_name \<Rightarrow> (author_name, ''itunes_author'')
     | None \<Rightarrow> (case non_empty_trimmed (ifd_owner_name fd) of
           Some owner_name \<Rightarrow> if \<not> is_platform_owner_name owner_name then (owner_name, ''itunes_owner'')
             else (''Unknown Artist'', ''placeholder'')
         | None \<Rightarrow> (''Unknown Artist'', ''placeholder'')))"

definition derive_publisher_name :: "ingest_feed_data \<Rightarrow> string option" where
  "derive_publisher_name fd = non_empty_trimmed (ifd_owner_name fd)"

section \<open>Staged source claims\<close>

definition split_is_valid :: "ingest_value_time_split \<Rightarrow> bool" where
  "split_is_valid v = (let non_empty = is_some_and (\<lambda>t. trim t \<noteq> []) in
     case ivts_form v of
       Remote \<Rightarrow> non_empty (ivts_remote_feed_guid v) \<and> ivts_recipients v = []
     | Local \<Rightarrow> ivts_recipients v \<noteq> [] \<and> \<not> non_empty (ivts_remote_feed_guid v) \<and> \<not> non_empty (ivts_remote_item_guid v))"

definition split_recipient :: "ingest_payment_route \<Rightarrow> value_time_split_recipient" where
  "split_recipient r = \<lparr>vtr_recipient_name = ipr_recipient_name r, vtr_route_type = ipr_route_type r,
     vtr_address = ipr_address r, vtr_custom_key = ipr_custom_key r, vtr_custom_value = ipr_custom_value r,
     vtr_split = ipr_split r, vtr_fee = ipr_fee r\<rparr>"

definition build_value_time_splits :: "string \<Rightarrow> string \<Rightarrow> ingest_value_time_split list \<Rightarrow> int \<Rightarrow> value_time_split list" where
  "build_value_time_splits feed_guid track_guid splits now =
     map (\<lambda>(index, v). \<lparr>vts_id = None, vts_source_feed_guid = feed_guid, vts_source_track_guid = track_guid,
            vts_position = int index, vts_form = ivts_form v, vts_start_time_secs = ivts_start_time_secs v,
            vts_duration_secs = ivts_duration_secs v, vts_remote_feed_guid = ivts_remote_feed_guid v,
            vts_remote_item_guid = ivts_remote_item_guid v, vts_remote_start_time_secs = ivts_remote_start_time_secs v,
            vts_remote_percentage = ivts_remote_percentage v, vts_recipients = map split_recipient (ivts_recipients v),
            vts_created_at = now\<rparr>)
       (filter (\<lambda>(index, v). split_is_valid v) (enumerate 0 splits))"

definition build_source_contributor_claims ::
  "string \<Rightarrow> string \<Rightarrow> string \<Rightarrow> ingest_person list \<Rightarrow> int \<Rightarrow> source_contributor_claim list" where
  "build_source_contributor_claims feed_guid entity_type entity_id persons now =
     map (\<lambda>(position, person). \<lparr>scc_id = None, scc_feed_guid = feed_guid, scc_entity_type = entity_type,
            scc_entity_id = entity_id, scc_position = int position, scc_name = ip_name person, scc_role = ip_role person,
            scc_role_norm = normalize_role (ip_role person), scc_group_name = ip_group_name person,
            scc_href = ip_href person, scc_img = ip_img person, scc_npub = ip_npub person,
            scc_source = ''podcast_person'', scc_extraction_path = entity_type @ ''.podcast:person'',
            scc_observed_at = now\<rparr>)
       (enumerate 0 persons)"

definition build_source_entity_id_claims ::
  "string \<Rightarrow> string \<Rightarrow> string \<Rightarrow> ingest_entity_id list \<Rightarrow> int \<Rightarrow> source_entity_id_claim list" where
  "build_source_entity_id_claims feed_guid entity_type entity_id entity_ids now =
     map (\<lambda>claim. \<lparr>sei_id = None, sei_feed_guid = feed_guid, sei_entity_type = entity_type, sei_entity_id = entity_id,
            sei_position = iei_position claim, sei_scheme = iei_scheme claim, sei_value = iei_value claim,
            sei_source = ''podcast_txt'', sei_extraction_path = entity_type @ ''.podcast:txt'', sei_observed_at = now\<rparr>)
       (dedupe_by (\<lambda>claim. (iei_scheme claim, iei_value claim)) entity_ids)"

definition link_extraction_path :: "ingest_link \<Rightarrow> string" where
  "link_extraction_path link =
     (if trim (il_extraction_path link) = []
      then if il_link_type link = ''self_feed'' then ''feed.atom:link[@rel='' @ [CHR 0x27] @ ''self'' @ [CHR 0x27] @ '']''
        else if il_link_type link = ''website'' then ''feed.link[*]''
        else if il_link_type link = ''web_page'' then ''entity.link[*]''
        else if il_link_type link = ''content_stream'' then ''live_item.@contentLink''
        else ''entity.link''
      else il_extraction_path link)"

definition build_source_entity_links ::
  "string \<Rightarrow> string \<Rightarrow> string \<Rightarrow> ingest_link list \<Rightarrow> int \<Rightarrow> source_entity_link list" where
  "build_source_entity_links feed_guid entity_type entity_id links now =
     map (\<lambda>link. \<lparr>sel_id = None, sel_feed_guid = feed_guid, sel_entity_type = entity_type, sel_entity_id = entity_id,
            sel_position = il_position link, sel_link_type = il_link_type link, sel_url = il_url link,
            sel_source = (if il_link_type link = ''funding'' then ''podcast_funding'' else ''rss_link''),
            sel_extraction_path = link_extraction_path link, sel_observed_at = now, sel_label = il_label link\<rparr>)
       (dedupe_by (\<lambda>link. (il_link_type link, il_url link)) links)"

text \<open>The loop over the alternate enclosures, from the URLs seen and the rows built so far.\<close>

fun add_alternate_enclosures ::
  "string \<Rightarrow> string \<Rightarrow> string \<Rightarrow> int \<Rightarrow> string list \<Rightarrow> source_item_enclosure list \<Rightarrow> ingest_alternate_enclosure list
   \<Rightarrow> source_item_enclosure list" where
  "add_alternate_enclosures feed_guid entity_type entity_id now seen out [] = out"
| "add_alternate_enclosures feed_guid entity_type entity_id now seen out (enclosure # es) =
     (let url = trim (iae_url enclosure) in
      if url = [] \<or> url \<in> set seen then add_alternate_enclosures feed_guid entity_type entity_id now seen out es
      else add_alternate_enclosures feed_guid entity_type entity_id now (url # seen)
        (out @ [\<lparr>sie_id = None, sie_feed_guid = feed_guid, sie_entity_type = entity_type, sie_entity_id = entity_id,
           sie_position = int (length out), sie_url = url, sie_mime_type = iae_mime_type enclosure,
           sie_bytes = iae_bytes enclosure, sie_rel = iae_rel enclosure, sie_title = iae_title enclosure,
           sie_is_primary = False, sie_source = ''podcast_alternate_enclosure'',
           sie_extraction_path = (if trim (iae_extraction_path enclosure) = []
             then entity_type @ ''.podcast:alternateEnclosure'' else iae_extraction_path enclosure),
           sie_observed_at = now\<rparr>]) es)"

definition build_source_item_enclosures ::
  "string \<Rightarrow> string \<Rightarrow> string \<Rightarrow> string option \<Rightarrow> string option \<Rightarrow> int option \<Rightarrow> ingest_alternate_enclosure list
   \<Rightarrow> int \<Rightarrow> source_item_enclosure list" where
  "build_source_item_enclosures feed_guid entity_type entity_id primary_url primary_mime_type primary_bytes alternates now =
     (case non_empty_trimmed primary_url of
        Some url \<Rightarrow> add_alternate_enclosures feed_guid entity_type entity_id now [url]
          [\<lparr>sie_id = None, sie_feed_guid = feed_guid, sie_entity_type = entity_type, sie_entity_id = entity_id,
             sie_position = 0, sie_url = url, sie_mime_type = primary_mime_type, sie_bytes = primary_bytes,
             sie_rel = None, sie_title = None, sie_is_primary = True, sie_source = ''rss_enclosure'',
             sie_extraction_path = entity_type @ ''.enclosure'', sie_observed_at = now\<rparr>] alternates
      | None \<Rightarrow> add_alternate_enclosures feed_guid entity_type entity_id now [] [] alternates)"

definition build_source_item_transcripts ::
  "string \<Rightarrow> string \<Rightarrow> string \<Rightarrow> ingest_transcript list \<Rightarrow> int \<Rightarrow> source_item_transcript list" where
  "build_source_item_transcripts feed_guid entity_type entity_id transcripts now =
     map (\<lambda>(position, transcript). \<lparr>sit_id = None, sit_feed_guid = feed_guid, sit_entity_type = entity_type,
            sit_entity_id = entity_id, sit_position = int position, sit_url = trim (itr_url transcript),
            sit_mime_type = itr_mime_type transcript, sit_language = itr_language transcript, sit_rel = itr_rel transcript,
            sit_source = ''podcast_transcript'', sit_extraction_path = entity_type @ ''.podcast:transcript'',
            sit_observed_at = now\<rparr>)
       (enumerate 0 (filter (\<lambda>transcript. trim (itr_url transcript) \<noteq> []) transcripts))"

definition platform_claim ::
  "string \<Rightarrow> int \<Rightarrow> string \<Rightarrow> string option \<Rightarrow> string option \<Rightarrow> string \<Rightarrow> source_platform_claim" where
  "platform_claim feed_guid now platform_key url owner_name extraction_path =
     \<lparr>spc_id = None, spc_feed_guid = feed_guid, spc_platform_key = platform_key, spc_url = url,
       spc_owner_name = owner_name, spc_source = ''platform_classifier'', spc_extraction_path = extraction_path,
       spc_observed_at = now\<rparr>"

definition platform_key_of :: "source_platform_claim \<Rightarrow> string \<times> string option \<times> string option \<times> string" where
  "platform_key_of c = (spc_platform_key c, spc_url c, spc_owner_name c, spc_extraction_path c)"

definition build_source_platform_claims ::
  "(string \<Rightarrow> url option) \<Rightarrow> string \<Rightarrow> string \<Rightarrow> string option \<Rightarrow> ingest_link list \<Rightarrow> int \<Rightarrow> source_platform_claim list" where
  "build_source_platform_claims url_parse feed_guid canonical_url owner_name links now =
     dedupe_by platform_key_of
       ((case classify_platform_url url_parse canonical_url of None \<Rightarrow> []
         | Some k \<Rightarrow> [platform_claim feed_guid now k (Some (trim canonical_url)) None ''request.canonical_url''])
        @ concat (map (\<lambda>link. case classify_platform_url url_parse (il_url link) of None \<Rightarrow> []
            | Some k \<Rightarrow> [platform_claim feed_guid now k (Some (trim (il_url link))) None
                (if trim (il_extraction_path link) = [] then ''feed.link'' else il_extraction_path link)]) links)
        @ (case non_empty_trimmed owner_name of None \<Rightarrow> []
           | Some n \<Rightarrow> (case classify_platform_owner n of None \<Rightarrow> []
               | Some k \<Rightarrow> [platform_claim feed_guid now k None (Some n) ''feed.owner_name''])))"

definition push_source_release_claim ::
  "string \<Rightarrow> string \<Rightarrow> string \<Rightarrow> int \<Rightarrow> string \<Rightarrow> string option \<Rightarrow> string
   \<Rightarrow> source_release_claim list \<Rightarrow> source_release_claim list" where
  "push_source_release_claim feed_guid entity_type entity_id now claim_type claim_value extraction_path claims =
     (case non_empty_trimmed claim_value of None \<Rightarrow> claims
      | Some v \<Rightarrow> claims @ [\<lparr>src_id = None, src_feed_guid = feed_guid, src_entity_type = entity_type,
          src_entity_id = entity_id, src_position = 0, src_claim_type = claim_type, src_claim_value = v,
          src_source = ''rss_metadata'', src_extraction_path = extraction_path, src_observed_at = now\<rparr>])"

section \<open>The rows of a submission\<close>

definition feed_remote_items_of :: "ingest_feed_data \<Rightarrow> feed_remote_item_raw list" where
  "feed_remote_items_of fd = map (\<lambda>item. \<lparr>fri_id = None, fri_feed_guid = ifd_feed_guid fd,
     fri_position = irf_position item, fri_medium = irf_medium item, fri_remote_feed_guid = irf_remote_feed_guid item,
     fri_remote_feed_url = irf_remote_feed_url item, fri_rel = irf_rel item,
     fri_source = (if irf_publisher_reference item then ''podcast_publisher'' else ''podcast_remote_item''),
     fri_remote_item_guid = irf_item_guid item, fri_remote_item_title = irf_item_title item\<rparr>) (ifd_remote_items fd)"

text \<open>\<^verbatim>\<open>Iterator::max\<close> and \<^verbatim>\<open>min\<close>.\<close>

definition max_of :: "int list \<Rightarrow> int option" where
  "max_of xs = (case xs of [] \<Rightarrow> None | y # ys \<Rightarrow> Some (fold max ys y))"

definition min_of :: "int list \<Rightarrow> int option" where
  "min_of xs = (case xs of [] \<Rightarrow> None | y # ys \<Rightarrow> Some (fold min ys y))"

definition or_else :: "'a option \<Rightarrow> 'a option \<Rightarrow> 'a option" where
  "or_else a b = (case a of Some x \<Rightarrow> Some x | None \<Rightarrow> b)"

definition pub_dates_of :: "ingest_track_data list \<Rightarrow> int list" where
  "pub_dates_of tracks = List.map_filter itd_pub_date tracks"

definition feed_of_submission ::
  "(string \<Rightarrow> string) \<Rightarrow> ingest_feed_data \<Rightarrow> ingest_track_data list \<Rightarrow> string \<Rightarrow> int \<Rightarrow> feed" where
  "feed_of_submission lc fd tracks feed_url now =
     \<lparr>fe_feed_guid = ifd_feed_guid fd, fe_feed_url = feed_url, fe_title = ifd_title fd, fe_title_lower = lc (ifd_title fd),
       fe_description = ifd_description fd, fe_image_url = ifd_image_url fd, fe_publisher = derive_publisher_name fd,
       fe_language = ifd_language fd, fe_explicit = ifd_explicit fd, fe_itunes_type = ifd_itunes_type fd,
       fe_release_artist = Some (fst (derive_release_artist fd)), fe_release_artist_sort = None,
       fe_release_date = or_else (ifd_pub_date fd) (min_of (pub_dates_of tracks)),
       fe_release_kind = Some ''unknown'', fe_episode_count = int (length tracks),
       fe_newest_item_at = max_of (pub_dates_of tracks), fe_oldest_item_at = min_of (pub_dates_of tracks),
       fe_created_at = now, fe_updated_at = now, fe_raw_medium = ifd_raw_medium fd,
       fe_last_build_date = ifd_last_build_date fd, fe_release_artist_source = Some (snd (derive_release_artist fd))\<rparr>"

definition feed_routes_of :: "ingest_feed_data \<Rightarrow> feed_payment_route list" where
  "feed_routes_of fd = (if is_musicl (ifd_raw_medium fd) then []
     else map (\<lambda>r. \<lparr>fpr_id = None, fpr_feed_guid = ifd_feed_guid fd, fpr_recipient_name = ipr_recipient_name r,
       fpr_route_type = ipr_route_type r, fpr_address = ipr_address r, fpr_custom_key = ipr_custom_key r,
       fpr_custom_value = ipr_custom_value r, fpr_split = ipr_split r, fpr_fee = ipr_fee r\<rparr>) (ifd_feed_payment_routes fd))"

definition feed_list_values_of :: "ingest_feed_data \<Rightarrow> feed_list_value_raw list" where
  "feed_list_values_of fd = (if \<not> is_musicl (ifd_raw_medium fd) then []
     else map (\<lambda>(idx, r). \<lparr>flv_id = None, flv_feed_guid = ifd_feed_guid fd, flv_recipient_name = ipr_recipient_name r,
       flv_route_type = ipr_route_type r, flv_address = ipr_address r, flv_custom_key = ipr_custom_key r,
       flv_custom_value = ipr_custom_value r, flv_split = ipr_split r, flv_fee = ipr_fee r, flv_position = int idx\<rparr>)
       (enumerate 0 (ifd_feed_payment_routes fd)))"

definition live_events_of :: "ingest_feed_data \<Rightarrow> ingest_live_item_data list \<Rightarrow> int \<Rightarrow> live_event list" where
  "live_events_of fd live_items now = map (\<lambda>item. \<lparr>le_live_item_guid = ili_live_item_guid item,
     le_feed_guid = ifd_feed_guid fd, le_title = ili_title item, le_content_link = ili_content_link item,
     le_status = ili_status item, le_scheduled_start = ili_start_at item, le_scheduled_end = ili_end_at item,
     le_created_at = now, le_updated_at = now, le_live_value_uri = ili_live_value_uri item,
     le_live_value_protocol = ili_live_value_protocol item\<rparr>) live_items"

definition feed_release_claims_of :: "ingest_feed_data \<Rightarrow> ingest_track_data list \<Rightarrow> int \<Rightarrow> source_release_claim list" where
  "feed_release_claims_of fd tracks now =
     (let g = ifd_feed_guid fd; push = push_source_release_claim g ''feed'' g now in
      push ''itunes_type'' (ifd_itunes_type fd) ''feed.itunes_type''
     (push ''raw_medium'' (ifd_raw_medium fd) ''feed.raw_medium''
     (push ''image_url'' (ifd_image_url fd) ''feed.image_url''
     (push ''language'' (ifd_language fd) ''feed.language''
     (push ''description'' (ifd_description fd) ''feed.description''
     (push ''last_build_date'' (map_option show_int (ifd_last_build_date fd)) ''feed.last_build_date''
     (push ''release_date'' (map_option show_int (or_else (ifd_pub_date fd) (min_of (pub_dates_of tracks))))
        (if ifd_pub_date fd \<noteq> None then ''feed.pub_date'' else ''oldest_item.pub_date'') [])))))))"

text \<open>The lists of staged claims that grow over the tracks and the live items.\<close>

record staged =
  stg_contributor_claims :: "source_contributor_claim list"
  stg_entity_ids :: "source_entity_id_claim list"
  stg_entity_links :: "source_entity_link list"
  stg_release_claims :: "source_release_claim list"
  stg_item_enclosures :: "source_item_enclosure list"
  stg_item_transcripts :: "source_item_transcript list"

definition stage_feed :: "ingest_feed_data \<Rightarrow> ingest_track_data list \<Rightarrow> int \<Rightarrow> staged" where
  "stage_feed fd tracks now = (let g = ifd_feed_guid fd in
     \<lparr>stg_contributor_claims = build_source_contributor_claims g ''feed'' g (ifd_persons fd) now,
       stg_entity_ids = build_source_entity_id_claims g ''feed'' g (ifd_entity_ids fd) now,
       stg_entity_links = build_source_entity_links g ''feed'' g (ifd_links fd) now,
       stg_release_claims = feed_release_claims_of fd tracks now, stg_item_enclosures = [], stg_item_transcripts = []\<rparr>)"

definition stage_track :: "string \<Rightarrow> int \<Rightarrow> ingest_track_data \<Rightarrow> staged \<Rightarrow> staged" where
  "stage_track g now t st = (let i = itd_track_guid t in
     \<lparr>stg_contributor_claims = stg_contributor_claims st @ build_source_contributor_claims g ''track'' i (itd_persons t) now,
       stg_entity_ids = stg_entity_ids st @ build_source_entity_id_claims g ''track'' i (itd_entity_ids t) now,
       stg_entity_links = stg_entity_links st @ build_source_entity_links g ''track'' i (itd_links t) now,
       stg_release_claims = push_source_release_claim g ''track'' i now ''description'' (itd_description t) ''track.description''
         (push_source_release_claim g ''track'' i now ''release_date'' (map_option show_int (itd_pub_date t)) ''track.pub_date''
           (stg_release_claims st)),
       stg_item_enclosures = stg_item_enclosures st @ build_source_item_enclosures g ''track'' i (itd_enclosure_url t)
         (itd_enclosure_type t) (itd_enclosure_bytes t) (itd_alternate_enclosures t) now,
       stg_item_transcripts = stg_item_transcripts st @ build_source_item_transcripts g ''track'' i (itd_transcripts t) now\<rparr>)"

definition stage_live_item :: "string \<Rightarrow> int \<Rightarrow> ingest_live_item_data \<Rightarrow> staged \<Rightarrow> staged" where
  "stage_live_item g now l st = (let i = ili_live_item_guid l in
     \<lparr>stg_contributor_claims = stg_contributor_claims st @ build_source_contributor_claims g ''live_item'' i (ili_persons l) now,
       stg_entity_ids = stg_entity_ids st @ build_source_entity_id_claims g ''live_item'' i (ili_entity_ids l) now,
       stg_entity_links = stg_entity_links st @ build_source_entity_links g ''live_item'' i (ili_links l) now,
       stg_release_claims = push_source_release_claim g ''live_item'' i now ''description'' (ili_description l) ''live_item.description''
         (push_source_release_claim g ''live_item'' i now ''release_date'' (map_option show_int (ili_pub_date l)) ''live_item.pub_date''
           (stg_release_claims st)),
       stg_item_enclosures = stg_item_enclosures st @ build_source_item_enclosures g ''live_item'' i (ili_enclosure_url l)
         (ili_enclosure_type l) (ili_enclosure_bytes l) (ili_alternate_enclosures l) now,
       stg_item_transcripts = stg_item_transcripts st @ build_source_item_transcripts g ''live_item'' i (ili_transcripts l) now\<rparr>)"

definition track_of_submission :: "(string \<Rightarrow> string) \<Rightarrow> ingest_feed_data \<Rightarrow> int \<Rightarrow> ingest_track_data \<Rightarrow> track" where
  "track_of_submission lc fd now t =
     \<lparr>tr_track_guid = itd_track_guid t, tr_feed_guid = ifd_feed_guid fd, tr_title = itd_title t, tr_title_lower = lc (itd_title t),
       tr_pub_date = itd_pub_date t, tr_duration_secs = itd_duration_secs t, tr_enclosure_url = itd_enclosure_url t,
       tr_enclosure_type = itd_enclosure_type t, tr_enclosure_bytes = itd_enclosure_bytes t,
       tr_track_number = itd_track_number t, tr_season = itd_season t, tr_image_url = itd_image_url t,
       tr_publisher = derive_publisher_name fd, tr_language = or_else (itd_language t) (ifd_language fd),
       tr_explicit = itd_explicit t, tr_description = itd_description t,
       tr_track_artist = Some (case itd_author_name t of Some a \<Rightarrow> a | None \<Rightarrow> fst (derive_release_artist fd)),
       tr_track_artist_sort = None, tr_created_at = now, tr_updated_at = now\<rparr>"

definition bundle_of_track :: "(string \<Rightarrow> string) \<Rightarrow> ingest_feed_data \<Rightarrow> int \<Rightarrow> ingest_track_data \<Rightarrow> track_ingest_bundle" where
  "bundle_of_track lc fd now t =
     (track_of_submission lc fd now t,
      map (\<lambda>r. \<lparr>pr_id = None, pr_track_guid = itd_track_guid t, pr_feed_guid = ifd_feed_guid fd,
        pr_recipient_name = ipr_recipient_name r, pr_route_type = ipr_route_type r, pr_address = ipr_address r,
        pr_custom_key = ipr_custom_key r, pr_custom_value = ipr_custom_value r, pr_split = ipr_split r,
        pr_fee = ipr_fee r\<rparr>) (itd_payment_routes t),
      build_value_time_splits (ifd_feed_guid fd) (itd_track_guid t) (itd_value_time_splits t) now,
      map (\<lambda>r. \<lparr>tri_id = None, tri_feed_guid = ifd_feed_guid fd, tri_track_guid = itd_track_guid t,
        tri_position = irf_position r, tri_medium = irf_medium r, tri_remote_feed_guid = irf_remote_feed_guid r,
        tri_remote_feed_url = irf_remote_feed_url r, tri_rel = irf_rel r, tri_source = ''podcast_remote_item''\<rparr>)
        (itd_remote_items t))"

text \<open>A \<^verbatim>\<open>musicL\<close> feed contributes no tracks and no live items.\<close>

definition submitted_tracks :: "ingest_feed_data \<Rightarrow> ingest_track_data list" where
  "submitted_tracks fd = (if is_musicl (ifd_raw_medium fd) then [] else ifd_tracks fd)"

definition submitted_live_items :: "ingest_feed_data \<Rightarrow> ingest_live_item_data list" where
  "submitted_live_items fd = fst (select_live_items (if is_musicl (ifd_raw_medium fd) then [] else ifd_live_items fd))"

definition stage_submission ::
  "(string \<Rightarrow> string) \<Rightarrow> (string \<Rightarrow> url option) \<Rightarrow> ingest_feed_data \<Rightarrow> string \<Rightarrow> string \<Rightarrow> int \<Rightarrow> feed_write" where
  "stage_submission lc url_parse fd canonical_url feed_url now =
     (let g = ifd_feed_guid fd; tracks = submitted_tracks fd; live_items = submitted_live_items fd;
          st = fold (stage_live_item g now) live_items (fold (stage_track g now) tracks (stage_feed fd tracks now))
      in \<lparr>fw_feed = feed_of_submission lc fd tracks feed_url now, fw_remote_items = feed_remote_items_of fd,
           fw_source_contributor_claims = dedupe_source_contributor_claims (stg_contributor_claims st),
           fw_source_entity_ids = dedupe_source_entity_ids (stg_entity_ids st),
           fw_source_entity_links = dedupe_source_entity_links (stg_entity_links st),
           fw_source_release_claims = dedupe_source_release_claims (stg_release_claims st),
           fw_source_item_enclosures = dedupe_source_item_enclosures (stg_item_enclosures st),
           fw_source_item_transcripts = dedupe_source_item_transcripts (stg_item_transcripts st),
           fw_source_platform_claims = build_source_platform_claims url_parse g canonical_url (ifd_owner_name fd) (ifd_links fd) now,
           fw_feed_routes = feed_routes_of fd, fw_feed_list_values = feed_list_values_of fd,
           fw_live_events = live_events_of fd live_items now, fw_tracks = map (bundle_of_track lc fd now) tracks\<rparr>)"

end
