(* ===== verification/Admit.thy ===== *)
theory Admit
  imports Observe Stage
begin

text \<open>
  What the ingest handler of \<^verbatim>\<open>src/api.rs\<close> decides before it stores a body: reports of a gone source
  (ADR 0067), the move of a record to another URL (ADR 0052 and 0083), and the warnings about URLs
  that are not web addresses (ADR 0054).
\<close>

section \<open>Answers\<close>

text \<open>\<^verbatim>\<open>IngestBlockingOutput\<close>: the response, the events to send on, and the frames of live items.\<close>

type_synonym ingest_blocking_output = "ingest_response \<times> event list \<times> (string \<times> sse_frame) list"

definition rejection :: "string \<Rightarrow> string list \<Rightarrow> event list \<Rightarrow> ingest_blocking_output" where
  "rejection reason event_ids events =
     (\<lparr>irs_accepted = False, irs_reason = Some reason, irs_events_emitted = event_ids, irs_no_change = False,
       irs_warnings = [], irs_source_url = None\<rparr>, events, [])"

section \<open>A gone source\<close>

definition SOURCE_GONE_RETIRE_AFTER_SECS :: int where "SOURCE_GONE_RETIRE_AFTER_SECS = 24 * 60 * 60"

definition source_gone_url_host :: "(string \<Rightarrow> url option) \<Rightarrow> string \<Rightarrow> string option" where
  "source_gone_url_host url_parse u =
     (case url_parse u of None \<Rightarrow> None | Some parsed \<Rightarrow> map_option to_ascii_lowercase (ur_host_str parsed))"

definition source_gone_report_counts :: "(string \<Rightarrow> url option) \<Rightarrow> ingest_feed_request \<Rightarrow> string list \<Rightarrow> bool" where
  "source_gone_report_counts url_parse req hosts \<longleftrightarrow>
     ifr_source_url req = ifr_canonical_url req \<and> ifr_redirects req = []
     \<and> (ifr_http_status req = 410
        \<or> ifr_http_status req = 404
          \<and> (case source_gone_url_host url_parse (ifr_source_url req) of None \<Rightarrow> False | Some host \<Rightarrow> host \<in> set hosts))"

definition retire_for_source_gone :: "app \<Rightarrow> string \<Rightarrow> int \<Rightarrow> (api_error, event list) call" where
  "retire_for_source_gone ap feed_guid now = or_api_error
     (delete_feed_with_event (ap_primary ap) (ap_parse ap) (ap_parse_retired ap) (ap_uuid ap ''block'') feed_guid
       (ap_uuid ap ''retire'' 0)
       (pm_json (ap_primary ap) (FeedRetiredP \<lparr>frt_feed_guid = feed_guid, frt_reason = Some ''source_gone''\<rparr>))
       feed_guid now [] [])"

definition handle_source_gone_report :: "app \<Rightarrow> int \<Rightarrow> ingest_feed_request \<Rightarrow> (api_error, ingest_blocking_output) call" where
  "handle_source_gone_report ap now req =
     dbind (dread (\<lambda>s. find_feed_block (pm_lc (ap_primary ap)) s None [ifr_source_url req, ifr_canonical_url req])) (\<lambda>block.
       if block \<noteq> None then dret (rejection ''blocked'' [] [])
       else dbind (dread (\<lambda>s.
           if source_gone_report_counts (pm_url_parse (ap_primary ap)) req (ap_source_gone_hosts ap)
           then feed_guid_for_source_url s (ifr_source_url req) else None)) (\<lambda>held.
         case held of None \<Rightarrow> dret (rejection ''source_gone_ignored'' [] [])
         | Some feed_guid \<Rightarrow>
             dbind (dread (\<lambda>s. get_source_gone_answer s feed_guid)) (\<lambda>existing.
               if (case existing of None \<Rightarrow> False
                   | Some row \<Rightarrow> i64_sub now (sg_first_gone_at row) \<ge> SOURCE_GONE_RETIRE_AFTER_SECS)
               then dbind (retire_for_source_gone ap feed_guid now) (\<lambda>events.
                      dret (rejection ''source_gone'' (map ev_event_id events) events))
               else dseq (or_api_error (record_source_gone_answer feed_guid (ifr_source_url req) now (ifr_http_status req)))
                      (dret (rejection ''source_gone_observed'' [] [])))))"

section \<open>Moves\<close>

record move_goal =
  mt_new_feed_url :: string
  mt_trigger :: string
  mt_return_values :: "(int \<times> int) option"

datatype move_decision = NoTrigger | Move move_goal | Refused string | WaitingRedirect string

definition refused_move_warning :: "string \<Rightarrow> string" where
  "refused_move_warning target_url = ''move to '' @ target_url @ '' refused: the record left that URL (ADR 0083)''"

definition next_return_values :: "move_state \<Rightarrow> int \<Rightarrow> int \<times> int" where
  "next_return_values st now = (saturating_add (effective_return_count (ms_return_count st) (ms_last_return_at st) now) 1, now)"

definition cooldown_active :: "move_state \<Rightarrow> int \<Rightarrow> bool" where
  "cooldown_active st now = (case return_cooldown_end (ms_return_count st) (ms_last_return_at st) now of
     None \<Rightarrow> False | Some end_at \<Rightarrow> end_at > now)"

text \<open>The declared URL that is one of the URLs of the submission, with its trigger.\<close>

definition mirror_goal :: "db \<Rightarrow> string \<Rightarrow> string \<Rightarrow> string \<Rightarrow> move_goal option" where
  "mirror_goal s feed_guid source_url canonical_url =
     (let own = (\<lambda>declared. case declared of None \<Rightarrow> None
            | Some u \<Rightarrow> if u = source_url \<or> u = canonical_url then Some u else None)
      in case own (get_declared_new_feed_url s feed_guid) of
           Some u \<Rightarrow> Some \<lparr>mt_new_feed_url = u, mt_trigger = ''new-feed-url'', mt_return_values = None\<rparr>
         | None \<Rightarrow> map_option (\<lambda>u. \<lparr>mt_new_feed_url = u, mt_trigger = ''self link'', mt_return_values = None\<rparr>)
             (own (get_declared_self_url s feed_guid)))"

definition mirror_move :: "db \<Rightarrow> string \<Rightarrow> move_goal \<Rightarrow> ingest_feed_data \<Rightarrow> int \<Rightarrow> move_decision" where
  "mirror_move s feed_guid target body now =
     (if mt_new_feed_url target \<notin> set (get_left_urls s feed_guid) then Move target
      else let st = get_move_state s feed_guid
           in if mt_trigger target = ''new-feed-url'' \<and> ifd_new_feed_url body = Some (mt_new_feed_url target)
                \<and> ms_arrival_tag st \<noteq> Some (mt_new_feed_url target) \<and> \<not> cooldown_active st now
              then Move (target\<lparr>mt_return_values := Some (next_return_values st now)\<rparr>)
              else Refused (mt_new_feed_url target))"

definition redirect_move :: "db \<Rightarrow> string \<Rightarrow> string \<Rightarrow> string \<Rightarrow> redirect_hop list \<Rightarrow> int \<Rightarrow> move_decision" where
  "redirect_move s feed_guid source_url canonical_url redirects now =
     (case get_feed_by_guid s feed_guid of None \<Rightarrow> NoTrigger
      | Some feed \<Rightarrow>
          if source_url \<noteq> fe_feed_url feed \<or> redirects = [] \<or> canonical_url = fe_feed_url feed
             \<or> \<not> list_all (\<lambda>hop. rh_status hop = 301 \<or> rh_status hop = 308) redirects
          then NoTrigger
          else let target = \<lparr>mt_new_feed_url = canonical_url, mt_trigger = ''permanent redirect'', mt_return_values = None\<rparr>
               in if canonical_url \<notin> set (get_left_urls s feed_guid) then Move target
                  else let st = get_move_state s feed_guid
                       in if cooldown_active st now then WaitingRedirect canonical_url
                          else Move (target\<lparr>mt_return_values := Some (next_return_values st now)\<rparr>))"

definition move_target ::
  "db \<Rightarrow> string \<Rightarrow> string \<Rightarrow> string \<Rightarrow> redirect_hop list \<Rightarrow> ingest_feed_data \<Rightarrow> int \<Rightarrow> move_decision" where
  "move_target s feed_guid source_url canonical_url redirects body now =
     (case classify_submission s feed_guid source_url canonical_url of
        Mirror _ \<Rightarrow> (case mirror_goal s feed_guid source_url canonical_url of
            None \<Rightarrow> NoTrigger | Some target \<Rightarrow> mirror_move s feed_guid target body now)
      | Update \<Rightarrow> redirect_move s feed_guid source_url canonical_url redirects now
      | _ \<Rightarrow> NoTrigger)"

definition is_move :: "move_decision \<Rightarrow> bool" where
  "is_move d = (case d of Move _ \<Rightarrow> True | _ \<Rightarrow> False)"

section \<open>Warnings about URLs\<close>

definition is_non_web :: "(string \<Rightarrow> url option) \<Rightarrow> string option \<Rightarrow> bool" where
  "is_non_web url_parse v \<longleftrightarrow> v \<noteq> None \<and> web_url_or_none url_parse v = None"

definition is_non_web_scheme :: "(string \<Rightarrow> url option) \<Rightarrow> string option \<Rightarrow> bool" where
  "is_non_web_scheme url_parse v = (case v of None \<Rightarrow> False
     | Some u \<Rightarrow> (case url_parse u of None \<Rightarrow> False
         | Some parsed \<Rightarrow> \<not> (ur_scheme parsed = ''http'' \<or> ur_scheme parsed = ''https'')))"

definition non_web_url_warnings ::
  "(string \<Rightarrow> url option) \<Rightarrow> ingest_feed_data \<Rightarrow> ingest_track_data list \<Rightarrow> ingest_live_item_data list \<Rightarrow> string list" where
  "non_web_url_warnings url_parse fd tracks live_items =
     (let bad = is_non_web url_parse;
          bad_image_url = bad (ifd_image_url fd) \<or> list_ex (\<lambda>t. bad (itd_image_url t)) tracks;
          bad_enclosure_url = list_ex (\<lambda>t. bad (itd_enclosure_url t)) tracks;
          bad_url = list_ex (\<lambda>l. bad (Some (il_url l))) (ifd_links fd)
            \<or> list_ex (\<lambda>t. list_ex (\<lambda>l. bad (Some (il_url l))) (itd_links t)
                 \<or> list_ex (\<lambda>a. bad (Some (iae_url a))) (itd_alternate_enclosures t)
                 \<or> list_ex (\<lambda>r. bad (Some (itr_url r))) (itd_transcripts t)) tracks;
          bad_remote_feed_url = list_ex (\<lambda>i. bad (irf_remote_feed_url i)) (ifd_remote_items fd)
            \<or> list_ex (\<lambda>t. list_ex (\<lambda>i. bad (irf_remote_feed_url i)) (itd_remote_items t)) tracks;
          bad_href = list_ex (\<lambda>p. bad (ip_href p)) (ifd_persons fd)
            \<or> list_ex (\<lambda>t. list_ex (\<lambda>p. bad (ip_href p)) (itd_persons t)) tracks;
          bad_img = list_ex (\<lambda>p. bad (ip_img p)) (ifd_persons fd)
            \<or> list_ex (\<lambda>t. list_ex (\<lambda>p. bad (ip_img p)) (itd_persons t)) tracks;
          bad_content_link = list_ex (\<lambda>i. bad (ili_content_link i)) live_items;
          bad_live_value_uri = list_ex (\<lambda>i. is_non_web_scheme url_parse (ili_live_value_uri i)) live_items
      in (if bad_image_url then [''non-web URL in image_url''] else [])
         @ (if bad_enclosure_url then [''non-web URL in enclosure_url''] else [])
         @ (if bad_url then [''non-web URL in url''] else [])
         @ (if bad_remote_feed_url then [''non-web URL in remote_feed_url''] else [])
         @ (if bad_href then [''non-web URL in href''] else [])
         @ (if bad_img then [''non-web URL in img''] else [])
         @ (if bad_content_link then [''non-web URL in content_link''] else [])
         @ (if bad_live_value_uri then [''non-web URL in live_value_uri''] else []))"

end
