(* ===== verification/Handle.thy ===== *)
theory Handle
  imports Admit
begin

text \<open>
  \<^verbatim>\<open>handle\_ingest\_feed\<close> of \<^verbatim>\<open>src/api.rs\<close>: a crawler's submission from the token to the answer. The read
  phase works on the state of a reader connection, the write phase on the state that the writer lock
  gives, which another request may have changed in between; both are arguments. The step that only
  logs changed recipients is left out.
\<close>

section \<open>The read phase\<close>

datatype read_phase_outcome = NoChange | Rejected string | Verified "string list"

definition is_no_change_reason :: "string \<Rightarrow> bool" where
  "is_no_change_reason reason \<longleftrightarrow> reason = ''['' @ vf_name content_hash_verifier @ ''] '' @ NO_CHANGE_SENTINEL"

definition forced_request :: "app \<Rightarrow> int \<Rightarrow> ingest_feed_request \<Rightarrow> db \<Rightarrow> ingest_feed_request" where
  "forced_request ap now req s = (case ifr_feed_data req of None \<Rightarrow> req
     | Some fd \<Rightarrow> if is_move (move_target s (ifd_feed_guid fd) (ifr_source_url req) (ifr_canonical_url req)
           (ifr_redirects req) fd now) then req\<lparr>ifr_force_reingest := True\<rparr> else req)"

definition verify_phase :: "app \<Rightarrow> ingest_feed_request \<Rightarrow> db \<Rightarrow> read_phase_outcome" where
  "verify_phase ap req s =
     (case run_chain (ap_chain ap) \<lparr>ic_request = req, ic_db = s, ic_existing = get_existing_feed s (ifr_canonical_url req)\<rparr> of
        Inl e \<Rightarrow> if is_no_change_reason e then NoChange else Rejected e
      | Inr warnings \<Rightarrow> Verified warnings)"

text \<open>\<open>None\<close> when an operator block refuses the submission.\<close>

definition read_phase :: "app \<Rightarrow> int \<Rightarrow> ingest_feed_request \<Rightarrow> db \<Rightarrow> read_phase_outcome option" where
  "read_phase ap now req s =
     (if find_feed_block (pm_lc (ap_primary ap)) s (map_option ifd_feed_guid (ifr_feed_data req))
           [ifr_source_url req, ifr_canonical_url req] \<noteq> None
      then None
      else Some (verify_phase ap (forced_request ap now req s) s))"

section \<open>A body that did not change\<close>

definition fanout_events :: "app \<Rightarrow> signed_event_row list \<Rightarrow> (api_error, event list) call" where
  "fanout_events ap rows = (\<lambda>s. (rmap (signed_row_to_event ap) rows, s))"

definition row_ids :: "signed_event_row list \<Rightarrow> string list" where
  "row_ids rows = map (\<lambda>r. nw_event_id (sr_row r)) rows"

text \<open>A mirror writes down a copy for its canonical URL, and one for its source URL if that is a third one.\<close>

definition record_mirror_copies ::
  "app \<Rightarrow> ingest_feed_request \<Rightarrow> ingest_feed_data \<Rightarrow> string \<Rightarrow> int \<Rightarrow> (api_error, signed_event_row list) call" where
  "record_mirror_copies ap req fd source_url now =
     dbind (record_feed_copy_for_ingest ap (ap_uuid ap ''copy'' 0) (ifd_feed_guid fd) (ifr_canonical_url req) fd now) (\<lambda>rows.
       if ifr_source_url req \<noteq> source_url \<and> ifr_source_url req \<noteq> ifr_canonical_url req
       then dbind (record_feed_copy_for_ingest ap (ap_uuid ap ''copy'' 1) (ifd_feed_guid fd) (ifr_source_url req) fd now)
              (\<lambda>more. dret (rows @ more))
       else dret rows)"

definition conflict_reason :: "submission_class \<Rightarrow> string option" where
  "conflict_reason c = (case c of RecordConflict \<Rightarrow> Some ''record_conflict'' | GuidChange _ \<Rightarrow> Some ''guid_change_pending''
     | _ \<Rightarrow> None)"

definition no_change_answer :: "string list \<Rightarrow> event list \<Rightarrow> ingest_blocking_output" where
  "no_change_answer event_ids events =
     (\<lparr>irs_accepted = True, irs_reason = None, irs_events_emitted = event_ids, irs_no_change = True,
       irs_warnings = [], irs_source_url = None\<rparr>, events, [])"

definition no_change_phase :: "app \<Rightarrow> int \<Rightarrow> ingest_feed_request \<Rightarrow> (api_error, ingest_blocking_output) call" where
  "no_change_phase ap now req = (case ifr_feed_data req of None \<Rightarrow> dret (no_change_answer [] [])
     | Some fd \<Rightarrow>
       dbind (dread (\<lambda>s. classify_submission s (ifd_feed_guid fd) (ifr_source_url req) (ifr_canonical_url req))) (\<lambda>class.
         case conflict_reason class of Some reason \<Rightarrow> dret (rejection reason [] [])
         | None \<Rightarrow>
           dbind (record_feed_url_observations_for_ingest ap (ifr_canonical_url req) (ifr_source_url req) (ifd_feed_guid fd) now) (\<lambda>urls.
           dbind (case class of Mirror source_url \<Rightarrow> record_mirror_copies ap req fd source_url now | _ \<Rightarrow> dret []) (\<lambda>copies.
           dbind (fanout_events ap (urls @ copies)) (\<lambda>events.
             dret (no_change_answer (row_ids (urls @ copies)) events))))))"

section \<open>Admission\<close>

text \<open>What the match on the class leaves to the rest of the handler.\<close>

record admitted =
  ad_warnings :: "string list"
  ad_move :: "(string \<times> string \<times> string) option"
  ad_return :: "(int \<times> int) option"
  ad_prefix_events :: "signed_event_row list"
  ad_guid_transition :: "string option"

datatype admission = Answer ingest_blocking_output | Admit admitted

definition plain_admission :: "string list \<Rightarrow> admitted" where
  "plain_admission warnings = \<lparr>ad_warnings = warnings, ad_move = None, ad_return = None, ad_prefix_events = [],
     ad_guid_transition = None\<rparr>"

definition moved_warning :: "string \<Rightarrow> move_goal \<Rightarrow> string" where
  "moved_warning old target = ''moved from '' @ old @ '' to '' @ mt_new_feed_url target @ '' (ADR 0052 '' @ mt_trigger target @ '')''"

definition admit_move :: "string \<Rightarrow> move_goal \<Rightarrow> admitted \<Rightarrow> admitted" where
  "admit_move old target ad = ad\<lparr>ad_warnings := ad_warnings ad @ [moved_warning old target],
     ad_return := mt_return_values target, ad_move := Some (old, mt_new_feed_url target, mt_trigger target)\<rparr>"

definition is_stale :: "db \<Rightarrow> ingest_feed_data \<Rightarrow> bool" where
  "is_stale s fd = (case (Option.bind (get_feed_by_guid s (ifd_feed_guid fd)) fe_last_build_date, ifd_last_build_date fd) of
     (Some stored, Some submitted) \<Rightarrow> submitted < stored | _ \<Rightarrow> False)"

definition retire_blocked :: "app \<Rightarrow> int \<Rightarrow> string list \<Rightarrow> string \<Rightarrow> (api_error, admission) call" where
  "retire_blocked ap now warnings g =
     dbind (or_api_error (delete_feed_with_event (ap_primary ap) (ap_parse ap) (ap_parse_retired ap) (ap_uuid ap ''block'') g
         (ap_uuid ap ''retire'' 0)
         (pm_json (ap_primary ap) (FeedRetiredP \<lparr>frt_feed_guid = g, frt_reason = Some ''podcast_block''\<rparr>)) g now warnings []))
       (\<lambda>events. dret (Answer (rejection ''source_blocked'' (map ev_event_id events) events)))"

definition admit_update ::
  "app \<Rightarrow> int \<Rightarrow> ingest_feed_request \<Rightarrow> ingest_feed_data \<Rightarrow> string list \<Rightarrow> (api_error, admission) call" where
  "admit_update ap now req fd warnings = (let g = ifd_feed_guid fd in
     dbind (dread (\<lambda>s. is_stale s fd)) (\<lambda>stale.
       if stale then dret (Answer (rejection ''stale_submission'' [] []))
       else if source_blocks_this_index (pm_lc (ap_primary ap)) (ifd_blocks fd) then retire_blocked ap now warnings g
       else dbind (record_guid_change_return_for_ingest ap (ap_uuid ap ''return'' 0) (ifr_source_url req) g now) (\<lambda>prefix.
            dbind (dread (\<lambda>s. move_target s g (ifr_source_url req) (ifr_canonical_url req) (ifr_redirects req) fd now)) (\<lambda>decision.
              let ad = (plain_admission warnings)\<lparr>ad_prefix_events := prefix\<rparr>
              in dret (Admit (case decision of
                   Move target \<Rightarrow> admit_move (ifr_source_url req) target ad
                 | WaitingRedirect target_url \<Rightarrow> ad\<lparr>ad_warnings := warnings @ [refused_move_warning target_url]\<rparr>
                 | _ \<Rightarrow> ad))))))"

definition hold_refuses :: "app \<Rightarrow> ingest_feed_request \<Rightarrow> string \<Rightarrow> db \<Rightarrow> bool" where
  "hold_refuses ap req g s = (case get_retired_source_hold (pm_lc (ap_primary ap)) s g of None \<Rightarrow> False
     | Some hold \<Rightarrow> rsh_released_at hold = None \<and> rsh_source_url hold \<noteq> ifr_source_url req
         \<and> rsh_source_url hold \<noteq> ifr_canonical_url req)"

definition admit_new_feed ::
  "app \<Rightarrow> ingest_feed_request \<Rightarrow> ingest_feed_data \<Rightarrow> string list \<Rightarrow> (api_error, admission) call" where
  "admit_new_feed ap req fd warnings =
     dbind (dread (hold_refuses ap req (ifd_feed_guid fd))) (\<lambda>held.
       if held then dret (Answer (rejection ''retired_source_conflict'' [] []))
       else if source_blocks_this_index (pm_lc (ap_primary ap)) (ifd_blocks fd)
       then dret (Answer (rejection ''source_blocked'' [] []))
       else dret (Admit (plain_admission warnings)))"

definition admit_mirror ::
  "app \<Rightarrow> int \<Rightarrow> ingest_feed_request \<Rightarrow> ingest_feed_data \<Rightarrow> string \<Rightarrow> string list \<Rightarrow> (api_error, admission) call" where
  "admit_mirror ap now req fd source_url warnings = (let g = ifd_feed_guid fd in
     dbind (dread (\<lambda>s. move_target s g (ifr_source_url req) (ifr_canonical_url req) (ifr_redirects req) fd now)) (\<lambda>decision.
       case decision of Move target \<Rightarrow> dret (Admit (admit_move source_url target (plain_admission warnings)))
       | _ \<Rightarrow>
         dbind (record_feed_url_observations_for_ingest ap (ifr_canonical_url req) (ifr_source_url req) g now) (\<lambda>urls.
         dbind (record_mirror_copies ap req fd source_url now) (\<lambda>copies.
         dbind (fanout_events ap (urls @ copies)) (\<lambda>events.
           dret (Answer
             ((fst (rejection ''source_conflict'' (row_ids (urls @ copies)) []))
                \<lparr>irs_warnings := (case decision of Refused target_url \<Rightarrow> [refused_move_warning target_url] | _ \<Rightarrow> []),
                 irs_source_url := Some source_url\<rparr>, events, [])))))))"

definition guid_change_approved :: "db \<Rightarrow> string \<Rightarrow> string \<Rightarrow> bool" where
  "guid_change_approved s source_url new_guid = (case get_guid_change s source_url of None \<Rightarrow> False
     | Some row \<Rightarrow> gc_new_guid row = new_guid \<and> gc_decision row = Some ''approve'')"

definition admit_guid_change ::
  "app \<Rightarrow> int \<Rightarrow> ingest_feed_request \<Rightarrow> ingest_feed_data \<Rightarrow> string \<Rightarrow> string list \<Rightarrow> (api_error, admission) call" where
  "admit_guid_change ap now req fd held_guid warnings = (let g = ifd_feed_guid fd in
     dbind (dread (\<lambda>s. guid_change_approved s (ifr_source_url req) g)) (\<lambda>approved.
       let guid_origin = guid_origin_matches (ap_uuid5 ap) g (ifr_source_url req)
       in if guid_origin \<or> approved
          then dret (Admit ((plain_admission (warnings @ [''GUID changed from '' @ held_guid @ '' to '' @ g @ '' (ADR 0052 ''
                 @ (if guid_origin then ''UUIDv5'' else ''approved'') @ '')'']))\<lparr>ad_guid_transition := Some held_guid\<rparr>))
          else dbind (record_guid_change_pending_for_ingest ap (ap_uuid ap ''pending'' 0) (ifr_source_url req) held_guid g now) (\<lambda>outcome.
            case outcome of
              guid_change_pending_outcome.Rejected \<Rightarrow> dret (Answer (rejection ''guid_change_rejected'' [] []))
            | Pending rows \<Rightarrow> dbind (fanout_events ap rows) (\<lambda>events.
                dret (Answer (rejection ''guid_change_pending'' (row_ids rows) events))))))"

definition admit :: "app \<Rightarrow> int \<Rightarrow> ingest_feed_request \<Rightarrow> ingest_feed_data \<Rightarrow> string list \<Rightarrow> (api_error, admission) call" where
  "admit ap now req fd warnings =
     dbind (dread (\<lambda>s. classify_submission s (ifd_feed_guid fd) (ifr_source_url req) (ifr_canonical_url req))) (\<lambda>class.
       case class of
         Update \<Rightarrow> admit_update ap now req fd warnings
       | NewFeed \<Rightarrow> admit_new_feed ap req fd warnings
       | Mirror source_url \<Rightarrow> admit_mirror ap now req fd source_url warnings
       | RecordConflict \<Rightarrow> dret (Answer (rejection ''record_conflict'' [] []))
       | GuidChange held_guid \<Rightarrow> admit_guid_change ap now req fd held_guid warnings)"

section \<open>The write phase\<close>

definition MAX_TRACKS_PER_INGEST :: nat where "MAX_TRACKS_PER_INGEST = 500"

definition resolved_feed_url :: "db \<Rightarrow> ingest_feed_request \<Rightarrow> string \<Rightarrow> admitted \<Rightarrow> string" where
  "resolved_feed_url s req g ad = (case ad_move ad of Some (old, new_url, trigger) \<Rightarrow> new_url
     | None \<Rightarrow> (case get_feed_by_guid s g of Some f \<Rightarrow> fe_feed_url f | None \<Rightarrow> ifr_canonical_url req))"

definition feed_move_of :: "ingest_feed_data \<Rightarrow> admitted \<Rightarrow> feed_move_write option" where
  "feed_move_of fd ad = map_option (\<lambda>(old, new_url, trigger). \<lparr>fm_old_url = old, fm_new_url = new_url,
     fm_arrival_tag = ifd_new_feed_url fd, fm_return_values = ad_return ad\<rparr>) (ad_move ad)"

text \<open>What a source body declares about itself.\<close>

definition self_link_of :: "ingest_feed_data \<Rightarrow> string option" where
  "self_link_of fd = map_option il_url (find (\<lambda>l. il_link_type l = ''self_feed'') (ifd_links fd))"

definition write_declarations :: "ingest_feed_data \<Rightarrow> admitted \<Rightarrow> db \<Rightarrow> db" where
  "write_declarations fd ad s =
     (let g = ifd_feed_guid fd;
          s1 = set_feed_move_declarations g (ifd_new_feed_url fd) (ifd_locked fd) (ifd_locked_owner fd)
                 (set_declared_self_url g (self_link_of fd) s)
      in if ad_move ad = None then clear_arrival_tag_unless g (ifd_new_feed_url fd) s1 else s1)"

definition ingest_warnings :: "app \<Rightarrow> ingest_feed_data \<Rightarrow> admitted \<Rightarrow> string list" where
  "ingest_warnings ap fd ad = ad_warnings ad
     @ snd (select_live_items (if is_musicl (ifd_raw_medium fd) then [] else ifd_live_items fd))
     @ non_web_url_warnings (pm_url_parse (ap_primary ap)) fd (submitted_tracks fd) (submitted_live_items fd)"

definition signed_rows_of :: "new_event list \<Rightarrow> (int \<times> string \<times> string) list \<Rightarrow> signed_event_row list" where
  "signed_rows_of rows seqs = map (\<lambda>(row, seq, signed_by, signature).
     \<lparr>sr_row = row, sr_seq = seq, sr_signed_by = signed_by, sr_signature = signature\<rparr>) (zip rows seqs)"

definition accept_body ::
  "app \<Rightarrow> int \<Rightarrow> ingest_feed_request \<Rightarrow> ingest_feed_data \<Rightarrow> admitted \<Rightarrow> (api_error, ingest_blocking_output) call" where
  "accept_body ap now req fd ad = (let g = ifd_feed_guid fd; pm = ap_primary ap; warnings = ingest_warnings ap fd ad in
     if length (submitted_tracks fd) > MAX_TRACKS_PER_INGEST
     then dfail (api_error 400 (''feed contains '' @ show_int (int (length (submitted_tracks fd))) @ '' tracks, maximum is 500''))
     else
     dbind (dread (\<lambda>s. get_live_events_for_feed s g)) (\<lambda>existing_live_events.
     dbind (dread (\<lambda>s. resolved_feed_url s req g ad)) (\<lambda>feed_url.
     let w = stage_submission (pm_lc pm) (pm_url_parse pm) fd (ifr_canonical_url req) feed_url now in
     dbind (dread (\<lambda>s. build_diff_events (pm_json pm) (ap_uuid ap ''diff'') s w now warnings)) (\<lambda>event_rows.
     dbind (case ad_guid_transition ad of None \<Rightarrow> dret []
            | Some old_guid \<Rightarrow> guid_change_transition ap old_guid g (ifr_source_url req) now) (\<lambda>transition.
     let prefix = ad_prefix_events ad @ transition in
     dbind (or_api_error (ingest_transaction pm (ap_uuid ap ''removal'') now w event_rows (feed_move_of fd ad))) (\<lambda>seqs.
     dseq (dexec (write_declarations fd ad))
    (dbind (record_feed_url_observations_for_ingest ap (ifr_canonical_url req) (ifr_source_url req) g now) (\<lambda>urls.
     dseq (dexec (upsert_feed_crawl_cache (ifr_canonical_url req) (ifr_content_hash req) now))
    (dbind (fanout_events ap (prefix @ signed_rows_of event_rows seqs @ urls)) (\<lambda>events.
     dret (\<lparr>irs_accepted = True, irs_reason = None,
        irs_events_emitted = row_ids prefix @ map nw_event_id event_rows @ row_ids urls, irs_no_change = False,
        irs_warnings = warnings, irs_source_url = None\<rparr>, events,
        build_live_sse_frames_for_feed g existing_live_events (fw_live_events w) events)))))))))))"

definition write_phase ::
  "app \<Rightarrow> int \<Rightarrow> ingest_feed_request \<Rightarrow> string list \<Rightarrow> (api_error, ingest_blocking_output) call" where
  "write_phase ap now req warnings = (case ifr_feed_data req of
       None \<Rightarrow> dfail (api_error 400 ''feed_data is required for successful ingest'')
     | Some fd \<Rightarrow> dbind (admit ap now req fd warnings) (\<lambda>admission. case admission of
           Answer output \<Rightarrow> dret output
         | Admit ad \<Rightarrow> accept_body ap now req fd ad))"

section \<open>The handler\<close>

text \<open>The reader saw the state \<open>seen\<close>; the call runs on the state of the writer.\<close>

definition handle_after_read ::
  "app \<Rightarrow> int \<Rightarrow> ingest_feed_request \<Rightarrow> db \<Rightarrow> (api_error, ingest_blocking_output) call" where
  "handle_after_read ap now req seen =
     (case authenticate (ap_sha256 ap) (ap_chain ap) req of
        Inl e \<Rightarrow> dret (rejection e [] [])
      | Inr _ \<Rightarrow>
        if ifr_feed_data req = None \<and> (ifr_http_status req = 404 \<or> ifr_http_status req = 410)
        then handle_source_gone_report ap now req
        else (case read_phase ap now req seen of
            None \<Rightarrow> dret (rejection ''blocked'' [] [])
          | Some (Rejected reason) \<Rightarrow> dret (rejection reason [] [])
          | Some NoChange \<Rightarrow> no_change_phase ap now req
          | Some (Verified warnings) \<Rightarrow> write_phase ap now req warnings))"

definition handle_ingest_feed :: "app \<Rightarrow> int \<Rightarrow> ingest_feed_request \<Rightarrow> (api_error, ingest_blocking_output) call" where
  "handle_ingest_feed ap now req s = handle_after_read ap now req s s"

text \<open>What the handler then publishes to the channels.\<close>

definition publish_ingest :: "ingest_blocking_output \<Rightarrow> sse_registry \<Rightarrow> sse_registry" where
  "publish_ingest output r = (case output of (response, events, frames) \<Rightarrow>
     publish_sse_frames frames (publish_events_to_sse events r))"

end
