(* ===== verification/SampleApp.thy ===== *)
theory SampleApp
  imports Handle SampleIngest
begin

text \<open>A server, its crawler's request, and what the ingest handler makes of it, for the witnesses.\<close>

definition sample_app :: app where
  "sample_app = \<lparr>ap_primary = sample_primary, ap_parse = (\<lambda>ty t. or_else (sample_decode ty t) (Some sample_routes)),
     ap_parse_retired = (\<lambda>t. None),
     ap_chain = \<lparr>vc_crawl_token = ''secret'', vc_verifiers = [content_hash_verifier, medium_music_verifier, feed_guid_verifier (\<lambda>u. True)]\<rparr>,
     ap_sha256 = (\<lambda>t. t), ap_sha256_hex = (\<lambda>t. t), ap_items_json = (\<lambda>items. []), ap_digest_json = (\<lambda>fields. []),
     ap_uuid5 = (\<lambda>u. u), ap_uuid = (\<lambda>site n. site @ ''-'' @ show_nat n), ap_source_gone_hosts = []\<rparr>"

definition sample_handled :: "(api_error + ingest_blocking_output) \<times> db" where
  "sample_handled = handle_ingest_feed sample_app 9 sample_request empty_db"

lemma sample_handled_evaluated:
  "case sample_handled of
     (Inr (response, events, frames), s) \<Rightarrow> irs_accepted response \<and> t_feeds s \<noteq> []
       \<and> length events = 4
   | (Inl e, s) \<Rightarrow> False"
  by code_simp

lemma sample_handled_stores: "t_feeds (snd sample_handled) \<noteq> []"
proof (cases sample_handled)
  case (Pair r s)
  show ?thesis using sample_handled_evaluated unfolding Pair by (auto split: sum.splits prod.splits)
qed

end
