(* ===== verification/Staged.thy ===== *)
theory Staged
  imports Stage Ingested Verify
begin

text \<open>
  What staging promises the ingest transaction: every staged row names the feed of the submission, so
  the properties of the transaction hold for every submission that the handler stages.
\<close>

section \<open>The rows name their feed\<close>

definition staged_for :: "string \<Rightarrow> staged \<Rightarrow> bool" where
  "staged_for g st \<longleftrightarrow> list_all (\<lambda>r. scc_feed_guid r = g) (stg_contributor_claims st)
     \<and> list_all (\<lambda>r. sei_feed_guid r = g) (stg_entity_ids st) \<and> list_all (\<lambda>r. sel_feed_guid r = g) (stg_entity_links st)
     \<and> list_all (\<lambda>r. src_feed_guid r = g) (stg_release_claims st)
     \<and> list_all (\<lambda>r. sie_feed_guid r = g) (stg_item_enclosures st)
     \<and> list_all (\<lambda>r. sit_feed_guid r = g) (stg_item_transcripts st)"

lemma built_contributor_claims [simp]: "list_all (\<lambda>r. scc_feed_guid r = g) (build_source_contributor_claims g ty i ps now)"
  by (simp add: build_source_contributor_claims_def list.pred_map list_all_iff split_beta)

lemma built_entity_ids [simp]: "list_all (\<lambda>r. sei_feed_guid r = g) (build_source_entity_id_claims g ty i es now)"
  by (simp add: build_source_entity_id_claims_def list_all_iff)

lemma built_entity_links [simp]: "list_all (\<lambda>r. sel_feed_guid r = g) (build_source_entity_links g ty i ls now)"
  by (simp add: build_source_entity_links_def list_all_iff)

lemma added_enclosures:
  "list_all (\<lambda>r. sie_feed_guid r = g) out \<Longrightarrow> list_all (\<lambda>r. sie_feed_guid r = g) (add_alternate_enclosures g ty i now seen out es)"
  by (induction es arbitrary: seen out) (simp_all add: Let_def)

lemma built_enclosures [simp]: "list_all (\<lambda>r. sie_feed_guid r = g) (build_source_item_enclosures g ty i u mt bs es now)"
  by (auto simp: build_source_item_enclosures_def split: option.splits intro!: added_enclosures)

lemma pushed_release_claim:
  "list_all (\<lambda>r. src_feed_guid r = g) cs \<Longrightarrow> list_all (\<lambda>r. src_feed_guid r = g) (push_source_release_claim g ty i now ct v p cs)"
  by (simp add: push_source_release_claim_def split: option.split)

lemma built_transcripts [simp]: "list_all (\<lambda>r. sit_feed_guid r = g) (build_source_item_transcripts g ty i ts now)"
  by (simp add: build_source_item_transcripts_def list_all_iff split_beta)

lemma built_platform_claims [simp]: "list_all (\<lambda>r. spc_feed_guid r = g) (build_source_platform_claims up g cu ow ls now)"
proof -
  have "set (build_source_platform_claims up g cu ow ls now) \<subseteq> {r. spc_feed_guid r = g}"
    unfolding build_source_platform_claims_def
    by (rule subset_trans [OF keep_first.dedupe_subset [OF keep_first_dedupe_by]])
      (auto simp: platform_claim_def split: option.splits)
  then show ?thesis by (auto simp: list_all_iff)
qed

lemma staged_for_feed: "staged_for (ifd_feed_guid fd) (stage_feed fd tracks now)"
  by (simp add: staged_for_def stage_feed_def feed_release_claims_of_def Let_def pushed_release_claim)

lemma staged_for_track: "staged_for g st \<Longrightarrow> staged_for g (stage_track g now t st)"
  by (simp add: staged_for_def stage_track_def Let_def pushed_release_claim)

lemma staged_for_live_item: "staged_for g st \<Longrightarrow> staged_for g (stage_live_item g now l st)"
  by (simp add: staged_for_def stage_live_item_def Let_def pushed_release_claim)

lemma staged_for_fold: "(\<And>x st. staged_for g st \<Longrightarrow> staged_for g (f x st)) \<Longrightarrow> staged_for g st \<Longrightarrow> staged_for g (fold f xs st)"
  by (induction xs arbitrary: st) simp_all

lemma submission_feed [simp]: "fe_feed_guid (fw_feed (stage_submission lc up fd cu u now)) = ifd_feed_guid fd"
  by (simp add: stage_submission_def Let_def feed_of_submission_def)

lemma submission_tracks [simp]: "fw_tracks (stage_submission lc up fd cu u now) = map (bundle_of_track lc fd now) (submitted_tracks fd)"
  by (simp add: stage_submission_def Let_def)

lemma all_dedupe: "keep_first key d \<Longrightarrow> list_all P xs \<Longrightarrow> list_all P (d xs)"
  using keep_first.dedupe_subset [of key d xs] by (auto simp: list_all_iff)

lemma staged_rows_of_feed: "rows_of_feed (stage_submission lc up fd cu u now)"
proof -
  let ?g = "ifd_feed_guid fd"
  let ?st = "fold (stage_live_item ?g now) (submitted_live_items fd) (fold (stage_track ?g now) (submitted_tracks fd)
    (stage_feed fd (submitted_tracks fd) now))"
  have st: "staged_for ?g ?st"
    by (intro staged_for_fold staged_for_live_item staged_for_track staged_for_feed)
  show ?thesis
    using st unfolding rows_of_feed_def Let_def submission_feed submission_tracks
    by (simp add: staged_for_def stage_submission_def Let_def all_dedupe [OF dcontrib.keep_first_axioms]
        all_dedupe [OF dids.keep_first_axioms] all_dedupe [OF dlinks.keep_first_axioms]
        all_dedupe [OF drelease.keep_first_axioms] all_dedupe [OF denclosures.keep_first_axioms]
        all_dedupe [OF dtranscripts.keep_first_axioms])
      (simp add: list_all_iff feed_routes_of_def feed_list_values_of_def feed_remote_items_of_def live_events_of_def
        bundle_of_track_def track_of_submission_def split_beta)
qed

lemma staged_bundles_ok: "list_all bundle_ok (fw_tracks (stage_submission lc up fd cu u now))"
  by (simp add: list_all_iff bundle_ok_def bundle_of_track_def track_of_submission_def)

lemma staged_guids: "map (\<lambda>b. tr_track_guid (fst b)) (fw_tracks (stage_submission lc up fd cu u now)) = map itd_track_guid (submitted_tracks fd)"
  by (simp add: bundle_of_track_def track_of_submission_def)

section \<open>The order of the release claims\<close>

text \<open>
  The store reads release claims by entity and claim type; the handler pushes them in an order of its
  own, the release date first.
\<close>

definition has_release_date :: "ingest_feed_data \<Rightarrow> bool" where
  "has_release_date fd \<longleftrightarrow> or_else (ifd_pub_date fd) (min_of (pub_dates_of (submitted_tracks fd))) \<noteq> None"

text \<open>A list of claims that starts with the release date of the feed and has its description.\<close>

definition date_first :: "string \<Rightarrow> source_release_claim list \<Rightarrow> bool" where
  "date_first g cs \<longleftrightarrow> (\<exists>c cs'. cs = c # cs' \<and> src_key c = (g, ''feed'', g, ''release_date'', 0)
     \<and> (g, ''feed'', g, ''description'', 0) \<in> src_key ` set cs')"

lemma printable_not_white:
  assumes "list_all (\<lambda>c. 33 \<le> byte c \<and> byte c < 128) t"
  shows "\<not> white_space t"
  using assms by (auto simp: white_space_def split: list.splits)

lemma trim_printable: "list_all (\<lambda>c. 33 \<le> byte c \<and> byte c < 128) t \<Longrightarrow> trim t = t"
proof -
  assume t: "list_all (\<lambda>c. 33 \<le> byte c \<and> byte c < 128) t"
  have "\<not> white_space (take n t)" "\<not> white_space (drop n t)" for n
    using t by (auto intro!: printable_not_white simp: list_all_iff dest!: in_set_takeD in_set_dropD)
  then have "ws_prefix t = 0" "ws_suffix t = 0" by (simp_all add: ws_prefix_def ws_suffix_def)
  then show "trim t = t" by (simp add: trim_def trim_start.simps trim_end.simps)
qed

lemma show_nat_printable: "show_nat n \<noteq> [] \<and> list_all (\<lambda>c. 33 \<le> byte c \<and> byte c < 128) (show_nat n)"
proof (induction n rule: show_nat.induct)
  case (1 n)
  have digit: "33 \<le> byte (char_of (48 + d)) \<and> byte (char_of (48 + d)) < 128" if "d < 10" for d :: nat
    using that by (simp add: of_char_of)
  show ?case
    by (subst (1 2) show_nat.simps) (use 1 digit [of n] digit [of "n mod 10"] in auto)
qed

lemma trim_show_int: "trim (show_int n) = show_int n" "show_int n \<noteq> []"
  using show_nat_printable [of "nat n"] show_nat_printable [of "nat (- n)"]
  by (auto intro!: trim_printable simp: show_int_def)

lemma push_keeps_date_first: "date_first g cs \<Longrightarrow> date_first g (push_source_release_claim g' ty i now ct v p cs)"
  by (force simp: date_first_def push_source_release_claim_def split: option.split)

lemma push_new: "non_empty_trimmed v = Some u \<Longrightarrow> push_source_release_claim g ty i now ct v p cs =
    cs @ [\<lparr>src_id = None, src_feed_guid = g, src_entity_type = ty, src_entity_id = i, src_position = 0, src_claim_type = ct,
      src_claim_value = u, src_source = ''rss_metadata'', src_extraction_path = p, src_observed_at = now\<rparr>]"
  by (simp add: push_source_release_claim_def)

lemma push_starts: "cs \<noteq> [] \<Longrightarrow> \<exists>more. push_source_release_claim g ty i now ct v p cs = cs @ more"
  by (auto simp: push_source_release_claim_def split: option.split)

lemma feed_claims_date_first:
  assumes "has_release_date fd" "non_empty_trimmed (ifd_description fd) \<noteq> None"
  shows "date_first (ifd_feed_guid fd) (feed_release_claims_of fd (submitted_tracks fd) now)"
proof -
  let ?g = "ifd_feed_guid fd"
  obtain n where n: "or_else (ifd_pub_date fd) (min_of (pub_dates_of (submitted_tracks fd))) = Some n"
    using assms(1) by (auto simp: has_release_date_def)
  obtain d where d: "non_empty_trimmed (ifd_description fd) = Some d" using assms(2) by blast
  have date: "non_empty_trimmed (map_option show_int (Some n)) = Some (show_int n)"
    by (simp add: non_empty_trimmed_def trim_show_int)
  have start: "date_first ?g (push_source_release_claim ?g ''feed'' ?g now ''description'' (ifd_description fd) p
      (push_source_release_claim ?g ''feed'' ?g now ''last_build_date'' v p'
        (push_source_release_claim ?g ''feed'' ?g now ''release_date'' (map_option show_int (Some n)) p'' [])))" for p p' p'' v
    unfolding push_new [OF date] push_new [OF d]
    by (cases "non_empty_trimmed v") (simp_all add: push_source_release_claim_def date_first_def src_key_def)
  show ?thesis
    unfolding feed_release_claims_of_def Let_def n by (intro push_keeps_date_first start)
qed

lemma fold_date_first: "(\<And>x st. date_first g (f st) \<Longrightarrow> date_first g (f (h x st))) \<Longrightarrow> date_first g (f st) \<Longrightarrow> date_first g (f (fold h xs st))"
  by (induction xs arbitrary: st) simp_all

lemma dedupe_date_first: "date_first g cs \<Longrightarrow> date_first g (dedupe_source_release_claims cs)"
proof -
  assume "date_first g cs"
  then obtain c cs' where c: "cs = c # cs'" "src_key c = (g, ''feed'', g, ''release_date'', 0)"
    "(g, ''feed'', g, ''description'', 0) \<in> src_key ` set cs'" by (auto simp: date_first_def)
  have "dedupe_source_release_claims cs = c # dedupe_loop src_key [src_key c] cs'"
    by (simp add: c(1) dedupe_source_release_claims_def dedupe_by_def)
  moreover have "src_key ` set (dedupe_source_release_claims cs) = src_key ` set cs" by (rule drelease.dedupe_keys)
  ultimately have "(g, ''feed'', g, ''description'', 0) \<in> insert (src_key c) (src_key ` set (dedupe_loop src_key [src_key c] cs'))"
    using c(1,3) by simp
  then show ?thesis using \<open>dedupe_source_release_claims cs = _\<close> c(2) by (auto simp: date_first_def)
qed

lemma submitted_date_first:
  assumes "has_release_date fd" "non_empty_trimmed (ifd_description fd) \<noteq> None"
  shows "date_first (ifd_feed_guid fd) (fw_source_release_claims (stage_submission lc up fd cu u now))"
proof -
  have "date_first (ifd_feed_guid fd) (stg_release_claims (fold (stage_live_item (ifd_feed_guid fd) now) (submitted_live_items fd)
      (fold (stage_track (ifd_feed_guid fd) now) (submitted_tracks fd) (stage_feed fd (submitted_tracks fd) now))))"
    by (intro fold_date_first [where f = stg_release_claims])
      (simp_all add: stage_live_item_def stage_track_def stage_feed_def Let_def push_keeps_date_first feed_claims_date_first [OF assms])
  then show ?thesis by (simp add: stage_submission_def Let_def dedupe_date_first)
qed

lemma date_first_unsorted:
  assumes "date_first g cs" "map release_claim_content rs = map release_claim_content cs"
  shows "\<not> sorted (map (\<lambda>r. (src_entity_type r, src_entity_id r, src_claim_type r, src_position r)) rs)"
proof -
  let ?k = "\<lambda>r. (src_entity_type r, src_entity_id r, src_claim_type r, src_position r)"
  have "map ?k rs = map ?k (map release_claim_content rs)" by (simp add: release_claim_content_def)
  also have "\<dots> = map ?k cs" by (simp add: assms(2) release_claim_content_def)
  finally have keys: "map ?k rs = map ?k cs" .
  from assms(1) obtain c cs' d where "cs = c # cs'" "d \<in> set cs'" "src_key c = (g, ''feed'', g, ''release_date'', 0)"
    "src_key d = (g, ''feed'', g, ''description'', 0)" by (auto simp: date_first_def)
  moreover have "\<not> (''release_date'' \<le> (''description'' :: string))" "\<not> (''release_date'' < (''description'' :: string))"
    by code_simp+
  ultimately show ?thesis unfolding keys by (fastforce simp: src_key_def less_eq_prod_def)
qed

lemma nothing_selected: "select_live_items [] = ([], [])"
  by code_simp

lemma with_ids_mem: "mk \<in> set mks \<Longrightarrow> \<exists>i. mk (uuid i) \<in> set (with_ids uuid mks)"
  by (force simp: with_ids_def in_set_conv_nth enumerate_eq_zip nth_zip)

text \<open>Submissions that the witnesses use.\<close>

definition dated_submission :: ingest_feed_data where
  "dated_submission = sample_submission\<lparr>ifd_description := Some ''About'', ifd_pub_date := Some 7\<rparr>"

definition ended_item :: ingest_live_item_data where
  "ended_item = \<lparr>ili_live_item_guid = ''l1'', ili_title = ''Show'', ili_status = ''Ended'', ili_start_at = Some 5, ili_end_at = Some 6,
     ili_content_link = None, ili_pub_date = None, ili_duration_secs = None, ili_image_url = None, ili_language = None,
     ili_enclosure_url = None, ili_enclosure_type = None, ili_enclosure_bytes = None, ili_alternate_enclosures = [],
     ili_track_number = None, ili_season = None, ili_explicit = False, ili_description = None, ili_author_name = None,
     ili_live_value_uri = None, ili_live_value_protocol = None, ili_remote_items = [], ili_persons = [], ili_entity_ids = [],
     ili_links = [], ili_payment_routes = [], ili_value_time_splits = [], ili_transcripts = []\<rparr>"

definition ended_submission :: ingest_feed_data where
  "ended_submission = sample_submission\<lparr>ifd_live_items := [ended_item]\<rparr>"

definition sample_route_of_track :: payment_route where
  "sample_route_of_track = \<lparr>pr_id = None, pr_track_guid = ''t1'', pr_feed_guid = ''g1'', pr_recipient_name = Some ''thief'',
     pr_route_type = Keysend, pr_address = ''02ff'', pr_custom_key = None, pr_custom_value = None, pr_split = 100, pr_fee = False\<rparr>"

section \<open>Properties of staging\<close>

text \<open>
  C24: Whatever a submission holds, each of its staged rows names its own feed, each staged bundle is
  well formed and the staged tracks are its tracks, so a staged submission that is ingested is stored
  as it was submitted; a musicL feed stages no track and no live item.
\<close>

theorem staged_submission_well_formed:
  "let w = stage_submission lc up fd canonical_url feed_url now in
     rows_of_feed w \<and> list_all bundle_ok (fw_tracks w) \<and> fe_feed_guid (fw_feed w) = ifd_feed_guid fd
     \<and> map (\<lambda>b. tr_track_guid (fst b)) (fw_tracks w) = map itd_track_guid (submitted_tracks fd)
     \<and> distinct (map le_live_item_guid (fw_live_events w))
     \<and> (if is_musicl (ifd_raw_medium fd) then fw_tracks w = [] \<and> fw_live_events w = [] \<and> fw_feed_routes w = []
        else fw_feed_list_values w = [])"
proof -
  have "distinct (map ili_live_item_guid (submitted_live_items fd))"
    by (simp add: submitted_live_items_def selected_ok)
  then have "distinct (map le_live_item_guid (fw_live_events (stage_submission lc up fd canonical_url feed_url now)))"
    by (simp add: stage_submission_def Let_def live_events_of_def comp_def)
  moreover have "let w = stage_submission lc up fd canonical_url feed_url now in if is_musicl (ifd_raw_medium fd)
      then fw_tracks w = [] \<and> fw_live_events w = [] \<and> fw_feed_routes w = [] else fw_feed_list_values w = []"
    by (simp add: stage_submission_def Let_def submitted_tracks_def submitted_live_items_def live_events_of_def
        feed_routes_of_def feed_list_values_of_def nothing_selected)
  ultimately show ?thesis
    unfolding Let_def staged_guids submission_feed using staged_rows_of_feed staged_bundles_ok by blast
qed

text \<open>
  A known feed that has a description and a release date sends its release claims again with every
  submission, changed or not: they are staged in another order than the store reads them.
\<close>

theorem release_claims_are_always_resent:
  assumes "get_feed_by_guid s (ifd_feed_guid fd) = Some f"
    and "has_release_date fd" "non_empty_trimmed (ifd_description fd) \<noteq> None"
  shows "\<exists>row\<in>set (build_diff_events json uuid s (stage_submission lc up fd canonical_url feed_url now) now ws).
    nw_event_type row = SourceReleaseClaimsReplaced"
proof -
  let ?w = "stage_submission lc up fd canonical_url feed_url now" and ?stored = "get_source_release_claims_for_feed s (ifd_feed_guid fd)"
  have "sorted (map (\<lambda>r. (src_entity_type r, src_entity_id r, src_claim_type r, src_position r)) ?stored)"
    by (simp add: get_source_release_claims_for_feed_def)
  then have "source_release_claims_changed ?stored (fw_source_release_claims ?w)"
    using date_first_unsorted [OF submitted_date_first [OF assms(2,3)]] by (auto simp: source_release_claims_changed_iff)
  then have "build_source_release_claims_event json (fw_feed ?w) (fw_source_release_claims ?w) now ws
      \<in> set (build_changed_events json s ?w now ws f)"
    unfolding build_changed_events_def Let_def submission_feed by (simp add: emit_def)
  from with_ids_mem [OF this] show ?thesis
    unfolding build_diff_events_def submission_feed assms(1) option.case
    by (force simp: build_source_release_claims_event_def)
qed

lemma release_claims_are_always_resent_witness:
  "\<exists>row\<in>set (build_diff_events (\<lambda>p. []) uuid_at feed_db (stage_submission (\<lambda>t. t) (\<lambda>u. None) dated_submission [] [] 9) 9 []).
    nw_event_type row = SourceReleaseClaimsReplaced"
proof -
  have "get_feed_by_guid feed_db (ifd_feed_guid dated_submission) = Some sample_feed"
    by (simp add: get_feed_by_guid_def feed_db_def lookup_by_def feed_row_of_def sample_feed_def feed.defs dated_submission_def
        sample_submission_def)
  moreover have "has_release_date dated_submission" "non_empty_trimmed (ifd_description dated_submission) \<noteq> None"
    by code_simp+
  ultimately show ?thesis by (rule release_claims_are_always_resent)
qed

text \<open>
  The payment routes and the value time splits of a known track whose other fields did not change
  decide nothing in the diff: whatever they are, the events are the same, so their change is stored on
  the primary and sent to nobody.
\<close>

theorem changed_track_routes_send_nothing:
  assumes "get_feed_by_guid s (fe_feed_guid (fw_feed w)) = Some f"
    and "list_all (\<lambda>(track, routes, splits, items). \<exists>e. existing_track s (fe_feed_guid (fw_feed w)) (tr_track_guid track) = Some e
           \<and> \<not> track_fields_changed e track) (fw_tracks w)"
  shows "build_diff_events json uuid s
      (w\<lparr>fw_tracks := map (\<lambda>(track, routes, splits, items). (track, new_routes track, new_splits track, items)) (fw_tracks w)\<rparr>) now ws
    = build_diff_events json uuid s w now ws"
proof -
  let ?g = "fe_feed_guid (fw_feed w)"
  have same: "track_diff_events json s ?g now ws (track, routes', splits', items) = track_diff_events json s ?g now ws (track, routes, splits, items)"
    if mem: "(track, routes, splits, items) \<in> set (fw_tracks w)" for track routes splits items routes' splits'
  proof -
    obtain e where "existing_track s ?g (tr_track_guid track) = Some e" "\<not> track_fields_changed e track"
      using assms(2) mem by (fastforce simp: list_all_iff)
    then show ?thesis by (simp add: track_diff_events_def)
  qed
  have "map (track_diff_events json s ?g now ws)
        (map (\<lambda>(track, routes, splits, items). (track, new_routes track, new_splits track, items)) (fw_tracks w))
      = map (track_diff_events json s ?g now ws) (fw_tracks w)"
    unfolding map_map
  proof (intro map_cong refl)
    fix b assume mem: "b \<in> set (fw_tracks w)"
    obtain track routes splits items where b: "b = (track, routes, splits, items)" by (cases b)
    show "(track_diff_events json s ?g now ws \<circ> (\<lambda>(track, routes, splits, items). (track, new_routes track, new_splits track, items))) b
        = track_diff_events json s ?g now ws b"
      unfolding b comp_apply prod.case by (rule same) (use mem in \<open>simp add: b\<close>)
  qed
  note tracks = this
  have changed: "build_changed_events json s (w\<lparr>fw_tracks := map (\<lambda>(track, routes, splits, items).
      (track, new_routes track, new_splits track, items)) (fw_tracks w)\<rparr>) now ws ef = build_changed_events json s w now ws ef" for ef
    by (simp add: build_changed_events_def tracks del: map_map)
  show ?thesis by (simp add: build_diff_events_def assms(1) changed)
qed

lemma changed_track_routes_send_nothing_witness:
  "build_diff_events (\<lambda>p. []) uuid_at (snd sample_run) (sample_write\<lparr>fw_tracks := [(sample_track, [sample_route_of_track], [], [sample_item])]\<rparr>) 12 []
    = []"
proof -
  let ?w = "sample_write"
  obtain seqs s' where r: "sample_run = (Inr seqs, s')" using sample_run_Inr by blast
  note result = ingest_result [OF sample_ingest r [unfolded sample_run_def]]
  have g: "fe_feed_guid (fw_feed ?w) = ''g1''" "fw_tracks ?w = [(sample_track, [], [], [sample_item])]" "tr_feed_guid sample_track = ''g1''"
    by code_simp+
  obtain c where "get_feed_by_guid s' (fe_feed_guid (fw_feed ?w)) = Some ((fw_feed ?w)\<lparr>fe_created_at := c\<rparr>)"
    using result by (auto simp: feed_written_def)
  moreover have "list_all (\<lambda>(track, routes, splits, items). \<exists>e. existing_track s' (fe_feed_guid (fw_feed ?w)) (tr_track_guid track) = Some e
      \<and> \<not> track_fields_changed e track) (fw_tracks ?w)"
  proof -
    have "track_written s' (sample_track, [], [], [sample_item])" using result by (simp add: g)
    then obtain c where "get_track_for_feed s' ''g1'' (tr_track_guid sample_track) = Some (sample_track\<lparr>tr_created_at := c\<rparr>)"
      by (auto simp: track_written_def Let_def g)
    with result show ?thesis by (simp add: g existing_track_get track_fields_changed_def)
  qed
  ultimately have "build_diff_events (\<lambda>p. []) uuid_at s' (?w\<lparr>fw_tracks := map (\<lambda>(track, routes, splits, items).
      (track, (\<lambda>_. [sample_route_of_track]) track, (\<lambda>_. []) track, items)) (fw_tracks ?w)\<rparr>) 12 []
    = build_diff_events (\<lambda>p. []) uuid_at s' ?w 12 []"
    by (rule changed_track_routes_send_nothing)
  also have "\<dots> = []"
    using same_submission_events [of s' ?w] result sample_write_ok by simp
  finally show ?thesis by (simp add: g r)
qed

text \<open>
  A live item whose status is not in lower case passes the selection, and then makes the whole
  ingest fail on the check of its column; nothing of the submission is stored.
\<close>

theorem mixed_case_status_fails:
  assumes "refs_ok s" "item \<in> set (submitted_live_items fd)" "ili_status item \<notin> {''pending'', ''live'', ''ended''}"
  shows "\<exists>e. ingest_transaction pm uuid now (stage_submission lc up fd canonical_url feed_url t) rows mv s = (Inl e, s)"
proof (cases "ingest_transaction pm uuid now (stage_submission lc up fd canonical_url feed_url t) rows mv s")
  case (Pair r s')
  let ?w = "stage_submission lc up fd canonical_url feed_url t" and ?g = "ifd_feed_guid fd"
  show ?thesis
  proof (cases r)
    case (Inl e)
    with Pair ingest_failure show ?thesis by blast
  next
    case (Inr seqs)
    note run = Pair [unfolded Inr]
    have "stored_rows s' ?g = written_rows ?w" using ingest_rows [OF assms(1) staged_rows_of_feed run] by simp
    then have "set (get_live_events_for_feed s' ?g) = set (dedupe_live_events (fw_live_events ?w))"
      by (simp add: stored_rows_def written_rows_def)
    also have "dedupe_live_events (fw_live_events ?w) = fw_live_events ?w"
      by (rule dlive.distinct_unchanged)
        (simp add: stage_submission_def Let_def live_events_of_def comp_def submitted_live_items_def selected_ok)
    finally have "\<exists>r\<in>set (get_live_events_for_feed s' ?g). le_status r = ili_status item"
      using assms(2) by (auto simp: stage_submission_def Let_def live_events_of_def)
    then have "\<exists>r\<in>set (t_live_events s'). \<not> le_check r"
      using assms(3) by (simp add: get_live_events_for_feed_def le_check_def) metis
    moreover have "refs_ok s'" using keepsD [OF keeps_ingest(1) assms(1)] run by (metis snd_conv)
    ultimately have False by (auto simp: refs_ok_def feed_children_ok_def table_ok_def list_all_iff)
    then show ?thesis ..
  qed
qed

lemma mixed_case_status_fails_witness:
  "\<exists>e. ingest_transaction sample_primary removal_uuid 9 (stage_submission (\<lambda>t. t) (\<lambda>u. None) ended_submission [] [] 9) [] None empty_db
     = (Inl e, empty_db)"
proof (rule mixed_case_status_fails [OF refs_ok_empty])
  show "ended_item \<in> set (submitted_live_items ended_submission)" by code_simp
qed (simp add: ended_item_def)

end
