(* ===== verification/Admitted.thy ===== *)
theory Admitted
  imports SampleApp Staged
begin

text \<open>
  What the ingest handler promises: which submissions may change the content of the index, what is
  stored when one is accepted, and that every answer leaves a well-formed store.
\<close>

section \<open>Observations\<close>

text \<open>
  A property of the store that the observations of a submission cannot break: it survives a new
  event, and does not read the tables of observations, copies and GUID changes.
\<close>

locale observer =
  fixes pm :: primary and P :: "db \<Rightarrow> bool"
  assumes log: "keeps P (insert_new_event pm er)"
    and observations: "P (s\<lparr>t_feed_url_observations := a\<rparr>) = P s"
    and copies: "P (s\<lparr>t_feed_copies := b\<rparr>) = P s"
    and overflow: "P (s\<lparr>t_feed_copy_overflow := c\<rparr>) = P s"
    and guid_changes: "P (s\<lparr>t_feed_guid_changes := d\<rparr>) = P s"
begin

lemma keeps_or_api: "keeps P m \<Longrightarrow> keeps P (or_api_error m)"
  by (auto simp: keeps_def or_api_error_def split: prod.split sum.split)

lemma keeps_sign:
  assumes "ap_primary ap = pm"
  shows "keeps P (sign_event_row ap row)"
  unfolding sign_event_row_def assms by (intro keeps_dbind keeps_or_api log) (auto split: prod.split)

lemma keeps_fanout: "keeps P (fanout_events ap rows)"
  by (simp add: keeps_def fanout_events_def)

lemma keeps_url_loop: "ap_primary ap = pm \<Longrightarrow> keeps P (url_observation_loop ap g now urls)"
proof (induction urls)
  case (Cons url urls)
  have "keeps P (dstate (record_feed_url_observation u g now))" for u
    by (auto simp: keeps_def dstate_def record_feed_url_observation_def Let_def observations split: option.split)
  with Cons show ?case by (cases url) (auto intro!: keeps_intros keeps_sign)
qed simp

lemma keeps_urls: "ap_primary ap = pm \<Longrightarrow> keeps P (record_feed_url_observations_for_ingest ap cu su g now)"
  unfolding record_feed_url_observations_for_ingest_def by (intro keeps_intros keeps_url_loop)

lemma keeps_copy: "ap_primary ap = pm \<Longrightarrow> keeps P (record_feed_copy_for_ingest ap i g u fd now)"
  unfolding record_feed_copy_for_ingest_def Let_def
  by (intro keeps_intros keeps_sign)
    (auto simp: touch_feed_copy_last_seen_def upsert_feed_copy_summary_def increment_copy_overflow_def copies overflow)

lemma keeps_mirror_copies: "ap_primary ap = pm \<Longrightarrow> keeps P (record_mirror_copies ap req fd su now)"
  unfolding record_mirror_copies_def by (intro keeps_intros keeps_copy)

lemma keeps_pending: "ap_primary ap = pm \<Longrightarrow> keeps P (record_guid_change_pending_for_ingest ap i su og ng now)"
  unfolding record_guid_change_pending_for_ingest_def Let_def
  by (intro keeps_intros keeps_sign) (auto simp: upsert_guid_change_def touch_guid_change_last_seen_def guid_changes)

lemma keeps_return: "ap_primary ap = pm \<Longrightarrow> keeps P (record_guid_change_return_for_ingest ap i su g now)"
  unfolding record_guid_change_return_for_ingest_def
  by (intro keeps_intros keeps_sign) (auto simp: delete_guid_change_def guid_changes)

lemma keeps_no_change: "ap_primary ap = pm \<Longrightarrow> keeps P (no_change_phase ap now req)"
  unfolding no_change_phase_def
  by (intro keeps_intros keeps_urls)
    (auto intro!: keeps_intros keeps_urls keeps_mirror_copies keeps_fanout split: submission_class.split)

end

text \<open>The content of the index: all tables but the log and the local observations.\<close>

definition content_view :: "db \<Rightarrow> db" where
  "content_view s = s\<lparr>t_events := [], t_feed_url_observations := [], t_feed_copies := [], t_feed_copy_overflow := [],
     t_feed_guid_changes := [], t_source_gone_answers := []\<rparr>"

interpretation refs: observer pm refs_ok for pm
  by unfold_locales (simp_all add: keeps_insert_new_event frame_defs)

interpretation log_index: observer pm "log_index_ok (pm_env pm)" for pm
  by unfold_locales (simp_all add: keeps_insert_new_event log_defs)

interpretation content: observer pm "\<lambda>s. content_view s = c" for pm c
proof unfold_locales
  show "keeps (\<lambda>s. content_view s = c) (insert_new_event pm er)" for er
    unfolding insert_new_event_def by (rule frame_insert_event) (simp add: content_view_def)
qed (simp_all add: content_view_def)

section \<open>The store stays well formed\<close>

lemma refs_feed_columns:
  assumes "\<And>r. fe_feed_guid (f r) = fe_feed_guid r" "\<And>r. fe_feed_url (f r) = fe_feed_url r"
  shows "refs_ok (s\<lparr>t_feeds := update_where p f (t_feeds s)\<rparr>) = refs_ok s"
proof -
  have cols: "map fe_feed_guid (update_where p f rs) = map fe_feed_guid rs" "map fe_feed_url (update_where p f rs) = map fe_feed_url rs" for rs
    by (simp_all add: update_where_def assms comp_def if_distrib cong: if_cong)
  have ex: "feed_exists g (s\<lparr>t_feeds := update_where p f (t_feeds s)\<rparr>) = feed_exists g s" for g
  proof -
    have "feed_exists g t \<longleftrightarrow> g \<in> set (map fe_feed_guid (t_feeds t))" for t by (auto simp: feed_exists_def)
    then show ?thesis by (simp add: cols(1) del: set_map)
  qed
  show ?thesis
    by (simp add: refs_defs table_ok_def feed_fk_def track_fk_def null_track_fk_def track_exists_def ex cols)
qed

lemma refs_declarations: "refs_ok (write_declarations fd ad s) = refs_ok s"
proof -
  let ?g = "ifd_feed_guid fd"
  have "refs_ok (clear_arrival_tag_unless g u t) = refs_ok t" for g u t by (simp add: clear_arrival_tag_unless_def frame_defs)
  moreover have "refs_ok (set_feed_move_declarations ?g a b c t) = refs_ok t" for a b c t
    unfolding set_feed_move_declarations_def by (rule refs_feed_columns) simp_all
  moreover have "refs_ok (set_declared_self_url ?g u t) = refs_ok t" for u t
    unfolding set_declared_self_url_def by (rule refs_feed_columns) simp_all
  ultimately show ?thesis by (simp add: write_declarations_def Let_def)
qed

lemma log_declarations: "log_index_ok env (write_declarations fd ad s) = log_index_ok env s"
  by (simp add: write_declarations_def Let_def set_feed_move_declarations_def set_declared_self_url_def
      clear_arrival_tag_unless_def log_defs)

lemma refs_gone_rows:
  "refs_ok s \<Longrightarrow> list_all (\<lambda>r. feed_exists (sg_feed_guid r) s) rows \<Longrightarrow> distinct (map sg_feed_guid rows) \<Longrightarrow>
    refs_ok (s\<lparr>t_source_gone_answers := rows\<rparr>)"
  by (simp add: frame_defs keys_distinct_Some list_all_iff any_row_def)

lemma refs_record_gone: "keeps refs_ok (record_source_gone_answer g u now st)"
  unfolding record_source_gone_answer_def
proof (rule keeps_dstmt, rule refs_gone_rows)
  fix s
  let ?merge = "\<lambda>old new. old\<lparr>sg_last_gone_at := sg_last_gone_at new, sg_last_status := sg_last_status new\<rparr>"
    and ?row = "\<lparr>sg_feed_guid = g, sg_source_url = u, sg_first_gone_at = now, sg_last_gone_at = now, sg_last_status = uint st\<rparr>"
  assume s: "refs_ok s" and c: "constraints True True (feed_exists g s \<or> exists_where (\<lambda>r. sg_feed_guid r = g) (t_source_gone_answers s)) = None"
  have rows: "list_all (\<lambda>r. feed_exists (sg_feed_guid r) s) (t_source_gone_answers s)" "distinct (map sg_feed_guid (t_source_gone_answers s))"
    using s by (auto simp: refs_ok_def feed_children_ok_def table_ok_def feed_fk_def keys_distinct_Some list_all_iff)
  have "feed_exists g s" using c rows(1) by (auto simp: list_all_iff)
  with rows(1) show "list_all (\<lambda>r. feed_exists (sg_feed_guid r) s) (upsert_by sg_feed_guid ?merge ?row (t_source_gone_answers s))"
    by (auto simp: upsert_by_def update_where_def list_all_iff)
  show "distinct (map sg_feed_guid (upsert_by sg_feed_guid ?merge ?row (t_source_gone_answers s)))"
    by (rule distinct_upsert_by [OF _ rows(2)]) simp
qed

lemma refs_transition:
  "keeps refs_ok (guid_change_transition ap og ng u now)"
  "keeps (log_index_ok (pm_env (ap_primary ap))) (guid_change_transition ap og ng u now)"
  unfolding guid_change_transition_def
  by (intro keeps_intros refs.keeps_sign refl; simp add: delete_feed_refs_ok)
    (intro keeps_intros log_index.keeps_sign refl; simp add: log_index_deletes)

text \<open>A property that the changing steps of the handler keep as well is kept by the handler.\<close>

locale handled = observer pm P for pm P +
  fixes ap :: app and now :: int
  assumes primary: "ap_primary ap = pm"
    and retire: "keeps P (delete_feed_with_event pm (ap_parse ap) (ap_parse_retired ap) (ap_uuid ap ''block'') g i pj g now ws [])"
    and gone: "keeps P (record_source_gone_answer g u now st)"
    and transition: "keeps P (guid_change_transition ap og g u now)"
    and ingest: "keeps P (ingest_transaction pm (ap_uuid ap ''removal'') now w rows mv)"
    and declared: "P s \<Longrightarrow> P (write_declarations fd ad s)"
    and cache: "P s \<Longrightarrow> P (upsert_feed_crawl_cache u h now s)"
begin

lemma keeps_gone_report: "keeps P (handle_source_gone_report ap now req)"
  unfolding handle_source_gone_report_def retire_for_source_gone_def primary
  by (intro keeps_intros keeps_or_api retire gone)

lemma keeps_admit: "keeps P (admit ap now req fd ws)"
proof -
  have "keeps P (admit_update ap now req fd ws)"
    unfolding admit_update_def retire_blocked_def Let_def primary
    by (intro keeps_intros keeps_or_api retire keeps_return primary)
  moreover have "keeps P (admit_new_feed ap req fd ws)"
    unfolding admit_new_feed_def by (intro keeps_intros)
  moreover have "keeps P (admit_mirror ap now req fd u ws)" for u
    unfolding admit_mirror_def Let_def
    by (rule keeps_dbind) (auto intro!: keeps_intros keeps_urls keeps_mirror_copies keeps_fanout primary split: move_decision.split)
  moreover have "keeps P (admit_guid_change ap now req fd h ws)" for h
    unfolding admit_guid_change_def Let_def
    by (intro keeps_intros keeps_pending primary)
      (auto intro!: keeps_intros keeps_fanout split: guid_change_pending_outcome.split)
  ultimately show ?thesis unfolding admit_def by (auto intro!: keeps_dbind split: submission_class.split)
qed

lemma keeps_accept: "keeps P (accept_body ap now req fd ad)"
  unfolding accept_body_def Let_def primary
  by (intro keeps_intros keeps_or_api transition ingest keeps_urls keeps_fanout primary declared cache)

lemma keeps_handler: "keeps P (handle_after_read ap now req seen)"
proof -
  have "keeps P (write_phase ap now req ws)" for ws
    unfolding write_phase_def
    by (auto intro!: keeps_intros keeps_admit keeps_accept split: option.split admission.split)
  then show ?thesis
    unfolding handle_after_read_def
    by (auto intro!: keeps_intros keeps_gone_report keeps_no_change primary split: sum.split option.split read_phase_outcome.split)
qed

end

lemma cache_frame:
  "refs_ok (upsert_feed_crawl_cache u h now s) = refs_ok s"
  "log_index_ok env (upsert_feed_crawl_cache u h now s) = log_index_ok env s"
  by (simp_all add: upsert_feed_crawl_cache_def frame_defs log_defs)

lemma log_record_gone: "keeps (log_index_ok env) (record_source_gone_answer g u now st)"
  unfolding record_source_gone_answer_def by (rule keeps_dstmt) (simp add: log_defs)

interpretation refs_handled: handled "ap_primary ap" refs_ok ap now for ap now
  by unfold_locales (simp_all add: keeps_retire refs_record_gone refs_transition keeps_ingest refs_declarations cache_frame)

interpretation log_handled: handled "ap_primary ap" "log_index_ok (pm_env (ap_primary ap))" ap now for ap now
  by unfold_locales (simp_all add: keeps_retire log_record_gone refs_transition keeps_ingest log_declarations cache_frame)

section \<open>Who may change the content\<close>

text \<open>What the write phase asks of a submission before it stores or retires anything (ADR 0051 to 0083).\<close>

definition source_authority :: "app \<Rightarrow> int \<Rightarrow> ingest_feed_request \<Rightarrow> ingest_feed_data \<Rightarrow> db \<Rightarrow> bool" where
  "source_authority ap now req fd s = (let g = ifd_feed_guid fd in
     case classify_submission s g (ifr_source_url req) (ifr_canonical_url req) of
       Update \<Rightarrow> \<not> is_stale s fd
     | NewFeed \<Rightarrow> \<not> hold_refuses ap req g s \<and> \<not> source_blocks_this_index (pm_lc (ap_primary ap)) (ifd_blocks fd)
     | Mirror _ \<Rightarrow> is_move (move_target s g (ifr_source_url req) (ifr_canonical_url req) (ifr_redirects req) fd now)
     | GuidChange _ \<Rightarrow> guid_origin_matches (ap_uuid5 ap) g (ifr_source_url req) \<or> guid_change_approved s (ifr_source_url req) g
     | RecordConflict \<Rightarrow> False)"

definition gone_authority :: "app \<Rightarrow> int \<Rightarrow> ingest_feed_request \<Rightarrow> db \<Rightarrow> bool" where
  "gone_authority ap now req s \<longleftrightarrow> source_gone_report_counts (pm_url_parse (ap_primary ap)) req (ap_source_gone_hosts ap)
     \<and> find_feed_block (pm_lc (ap_primary ap)) s None [ifr_source_url req, ifr_canonical_url req] = None
     \<and> (case feed_guid_for_source_url s (ifr_source_url req) of None \<Rightarrow> False
        | Some g \<Rightarrow> (case get_source_gone_answer s g of None \<Rightarrow> False
            | Some row \<Rightarrow> i64_sub now (sg_first_gone_at row) \<ge> SOURCE_GONE_RETIRE_AFTER_SECS))"

lemma content_kept: "(\<And>c. keeps (\<lambda>s. content_view s = c) m) \<Longrightarrow> content_view (snd (m s)) = content_view s"
  using keepsD [where P = "\<lambda>t. content_view t = content_view s" and m = m and s = s] by blast

text \<open>A run that answers, and leaves the content alone.\<close>

definition only_answers :: "(api_error, admission) call \<Rightarrow> db \<Rightarrow> bool" where
  "only_answers m s \<longleftrightarrow> content_view (snd (m s)) = content_view s \<and> (\<forall>ad. fst (m s) \<noteq> Inr (Admit ad))"

lemma only_answers_dret [simp]: "only_answers (dret (Answer out)) s"
  by (simp add: only_answers_def dret_def)

lemma never_admits:
  assumes "\<And>x. \<forall>t ad. fst (f x t) \<noteq> Inr (Admit ad)"
  shows "fst (dbind m f t) \<noteq> Inr (Admit ad)"
  using assms by (auto simp: dbind_def split: prod.split sum.split)

lemma only_answers_bind:
  assumes "\<And>c. keeps (\<lambda>s. content_view s = c) (dbind m f)" "\<And>x. \<forall>t ad. fst (f x t) \<noteq> Inr (Admit ad)"
  shows "only_answers (dbind m f) s"
  unfolding only_answers_def
  using content_kept [where m = "dbind m f", OF assms(1)] never_admits [where f = f and m = m, OF assms(2)] by blast

lemma read_then: "dbind (dread g) f s = f (g s) s"
  by (simp add: dbind_def dread_def)

lemma mirror_only_answers:
  assumes "\<not> is_move (move_target s (ifd_feed_guid fd) (ifr_source_url req) (ifr_canonical_url req) (ifr_redirects req) fd now)"
  shows "only_answers (admit_mirror ap now req fd u ws) s"
proof -
  let ?d = "move_target s (ifd_feed_guid fd) (ifr_source_url req) (ifr_canonical_url req) (ifr_redirects req) fd now"
  let ?rest = "dbind (record_feed_url_observations_for_ingest ap (ifr_canonical_url req) (ifr_source_url req) (ifd_feed_guid fd) now) (\<lambda>urls.
         dbind (record_mirror_copies ap req fd u now) (\<lambda>copies.
         dbind (fanout_events ap (urls @ copies)) (\<lambda>events.
           dret (Answer
             ((fst (rejection ''source_conflict'' (row_ids (urls @ copies)) []))
                \<lparr>irs_warnings := (case ?d of Refused target_url \<Rightarrow> [refused_move_warning target_url] | _ \<Rightarrow> []),
                 irs_source_url := Some u\<rparr>, events, [])))))"
  have eq: "admit_mirror ap now req fd u ws s = ?rest s"
    using assms by (cases ?d) (simp_all add: admit_mirror_def Let_def read_then is_move_def)
  have "only_answers ?rest s"
  proof (rule only_answers_bind)
    show "keeps (\<lambda>s. content_view s = c) ?rest" for c
      by (intro keeps_intros content.keeps_urls [where pm = "ap_primary ap", OF refl] content.keeps_mirror_copies [where pm = "ap_primary ap", OF refl]
        content.keeps_fanout)
  qed (auto intro!: never_admits simp: dret_def)
  then show ?thesis by (simp add: only_answers_def eq)
qed

lemma guid_change_only_answers:
  assumes "\<not> (guid_origin_matches (ap_uuid5 ap) (ifd_feed_guid fd) (ifr_source_url req) \<or> guid_change_approved s (ifr_source_url req) (ifd_feed_guid fd))"
  shows "only_answers (admit_guid_change ap now req fd h ws) s"
proof -
  let ?rest = "dbind (record_guid_change_pending_for_ingest ap (ap_uuid ap ''pending'' 0) (ifr_source_url req) h (ifd_feed_guid fd) now) (\<lambda>outcome.
            case outcome of
              guid_change_pending_outcome.Rejected \<Rightarrow> dret (Answer (rejection ''guid_change_rejected'' [] []))
            | Pending rows \<Rightarrow> dbind (fanout_events ap rows) (\<lambda>events.
                dret (Answer (rejection ''guid_change_pending'' (row_ids rows) events))))"
  have eq: "admit_guid_change ap now req fd h ws s = ?rest s"
    using assms unfolding admit_guid_change_def Let_def read_then by simp
  have "only_answers ?rest s"
  proof (rule only_answers_bind)
    show "keeps (\<lambda>s. content_view s = c) ?rest" for c
      by (intro keeps_dbind content.keeps_pending refl)
        (auto intro!: keeps_intros content.keeps_fanout split: guid_change_pending_outcome.split)
  qed (auto simp: dret_def dbind_def fanout_events_def split: guid_change_pending_outcome.split sum.split)
  then show ?thesis by (simp add: only_answers_def eq)
qed

lemma admit_without_authority:
  assumes "\<not> source_authority ap now req fd s"
  shows "only_answers (admit ap now req fd ws) s"
proof -
  let ?c = "classify_submission s (ifd_feed_guid fd) (ifr_source_url req) (ifr_canonical_url req)"
  have eq: "admit ap now req fd ws s = (case ?c of
         Update \<Rightarrow> admit_update ap now req fd ws s
       | NewFeed \<Rightarrow> admit_new_feed ap req fd ws s
       | Mirror source_url \<Rightarrow> admit_mirror ap now req fd source_url ws s
       | RecordConflict \<Rightarrow> dret (Answer (rejection ''record_conflict'' [] [])) s
       | GuidChange held_guid \<Rightarrow> admit_guid_change ap now req fd held_guid ws s)"
    unfolding admit_def read_then by (simp split: submission_class.split)
  have update: "?c = Update \<Longrightarrow> only_answers (admit_update ap now req fd ws) s"
    using assms by (simp add: source_authority_def admit_update_def Let_def only_answers_def read_then dret_def)
  have new: "?c = NewFeed \<Longrightarrow> only_answers (admit_new_feed ap req fd ws) s"
    using assms by (auto simp: source_authority_def admit_new_feed_def Let_def only_answers_def read_then dret_def)
  have mirror: "?c = Mirror u \<Longrightarrow> only_answers (admit_mirror ap now req fd u ws) s" for u
    using assms by (intro mirror_only_answers) (simp add: source_authority_def)
  have change: "?c = GuidChange h \<Longrightarrow> only_answers (admit_guid_change ap now req fd h ws) s" for h
    using assms by (intro guid_change_only_answers) (simp add: source_authority_def Let_def)
  show ?thesis
    using update new mirror change by (cases ?c) (simp_all add: only_answers_def eq dret_def)
qed

lemma only_answers_then:
  assumes "only_answers m s"
  shows "content_view (snd (dbind m (\<lambda>a. case a of Answer out \<Rightarrow> dret out | Admit ad \<Rightarrow> f ad) s)) = content_view s"
  using assms by (cases "m s"; cases "fst (m s)") (auto simp: only_answers_def dbind_def dret_def split: admission.splits)

lemma gone_without_authority:
  assumes "\<not> gone_authority ap now req s"
  shows "content_view (snd (handle_source_gone_report ap now req s)) = content_view s"
proof -
  let ?pm = "ap_primary ap"
  have rec: "content_view (snd (dseq (or_api_error (record_source_gone_answer g u now st)) (dret x) s)) = content_view s" for g u st and x :: ingest_blocking_output
  proof (rule content_kept)
    show "keeps (\<lambda>s. content_view s = c) (dseq (or_api_error (record_source_gone_answer g u now st)) (dret x))" for c
      unfolding record_source_gone_answer_def
      by (intro keeps_dseq content.keeps_or_api keeps_dstmt keeps_dret) (simp add: content_view_def)
  qed
  show ?thesis
  proof (cases "source_gone_report_counts (pm_url_parse ?pm) req (ap_source_gone_hosts ap)
      \<and> find_feed_block (pm_lc ?pm) s None [ifr_source_url req, ifr_canonical_url req] = None")
    case counted: True
    show ?thesis
    proof (cases "feed_guid_for_source_url s (ifr_source_url req)")
      case (Some g)
      with assms counted rec show ?thesis
        by (cases "get_source_gone_answer s g") (simp_all add: gone_authority_def handle_source_gone_report_def read_then)
    qed (simp add: handle_source_gone_report_def read_then dret_def)
  qed (auto simp: handle_source_gone_report_def read_then dret_def)
qed

section \<open>Properties of the handler\<close>

text \<open>
  C4: Whatever a crawler submits and whatever the reader saw before, the ingest handler keeps keys,
  checks, foreign keys, the search index and the log well formed, also when it fails half-way.
\<close>

theorem handler_keeps_store_ok:
  assumes "store_ok (pm_env (ap_primary ap)) s"
  shows "store_ok (pm_env (ap_primary ap)) (snd (handle_after_read ap now req seen s))"
  using assms keepsD [OF refs_handled.keeps_handler] keepsD [OF log_handled.keeps_handler] by (simp add: store_ok_split)

lemma handler_keeps_store_ok_witness: "store_ok (pm_env (ap_primary sample_app)) (snd sample_handled)"
  unfolding sample_handled_def handle_ingest_feed_def by (rule handler_keeps_store_ok) (rule empty_store_ok)

text \<open>
  C3: Nothing but the source of a record changes the content of the index: if the handler changes
  anything besides its log and its observations, the crawler's token was right and either a body
  passed the verifiers and the state at the time of the write gives it authority (an update from the
  record's own URL that is not stale, a mirror that a declared URL names, a new GUID that no hold
  refuses, or a change of GUID that the URL proves or the operator approved), or a second answer, a day
  after the first, reports the stored URL gone.
\<close>

theorem only_authority_changes_content:
  assumes "content_view (snd (handle_after_read ap now req seen s)) \<noteq> content_view s"
  shows "authenticate (ap_sha256 ap) (ap_chain ap) req = Inr ()
    \<and> (case ifr_feed_data req of None \<Rightarrow> gone_authority ap now req s
       | Some fd \<Rightarrow> (\<exists>ws. read_phase ap now req seen = Some (Verified ws)) \<and> source_authority ap now req fd s)"
proof -
  have quiet: "content_view (snd (no_change_phase ap now req s)) = content_view s"
    by (rule content_kept) (rule content.keeps_no_change [OF refl])
  have body: "content_view (snd (write_phase ap now req ws s)) = content_view s"
    if "ifr_feed_data req = Some fd" "\<not> source_authority ap now req fd s" for ws fd
    using that only_answers_then [OF admit_without_authority] by (simp add: write_phase_def)
  have empty: "content_view (snd (write_phase ap now req ws s)) = content_view s" if "ifr_feed_data req = None" for ws
    using that by (simp add: write_phase_def dfail_def)
  show ?thesis
  proof (cases "authenticate (ap_sha256 ap) (ap_chain ap) req")
    case (Inr u)
    show ?thesis
      using assms quiet body empty gone_without_authority [of ap now req s] Inr unfolding handle_after_read_def
      by (cases "ifr_feed_data req"; cases "read_phase ap now req seen")
        (auto simp: dret_def split: read_phase_outcome.splits if_splits)
  qed (use assms in \<open>simp add: handle_after_read_def dret_def\<close>)
qed

lemma only_authority_changes_content_witness:
  "authenticate (ap_sha256 sample_app) (ap_chain sample_app) sample_request = Inr ()
    \<and> source_authority sample_app 9 sample_request sample_submission empty_db"
proof -
  have "content_view (snd (handle_after_read sample_app 9 sample_request empty_db empty_db)) \<noteq> content_view empty_db"
  proof
    assume "content_view (snd (handle_after_read sample_app 9 sample_request empty_db empty_db)) = content_view empty_db"
    then have "t_feeds (content_view (snd sample_handled)) = t_feeds (content_view empty_db)"
      by (simp add: sample_handled_def handle_ingest_feed_def)
    then show False using sample_handled_stores by (simp add: content_view_def empty_db_def)
  qed
  from only_authority_changes_content [OF this] show ?thesis by (simp add: sample_request_def)
qed

end
