(* ===== verification/Guard.thy ===== *)
theory Guard
  imports Summary "HOL-Library.Word"
begin

unbundle bit_operations_syntax

text \<open>
  \<^verbatim>\<open>src/fetch_guard.rs\<close>: which addresses a node may connect to (ADR 0054), the tests of a URL, and the
  fetch that follows redirects with pinned addresses. Reading an IP address is the parser of the
  standard library. The DNS resolver, \<^verbatim>\<open>url::Url\<close> and the HTTP client are arguments. A message is a
  value of \<open>guard_error\<close>, not its text.
\<close>

section \<open>Addresses\<close>

datatype ipv4_addr = Ipv4Addr "8 word" "8 word" "8 word" "8 word"

datatype ipv6_addr = Ipv6Addr "16 word" "16 word" "16 word" "16 word" "16 word" "16 word" "16 word" "16 word"

datatype ip_addr = V4 ipv4_addr | V6 ipv6_addr

text \<open>The tests of the standard library.\<close>

fun v4_is_loopback :: "ipv4_addr \<Rightarrow> bool" where
  "v4_is_loopback (Ipv4Addr a b c d) \<longleftrightarrow> a = 127"

fun v4_is_private :: "ipv4_addr \<Rightarrow> bool" where
  "v4_is_private (Ipv4Addr a b c d) \<longleftrightarrow> a = 10 \<or> (a = 172 \<and> b \<ge> 16 \<and> b \<le> 31) \<or> (a = 192 \<and> b = 168)"

fun v4_is_link_local :: "ipv4_addr \<Rightarrow> bool" where
  "v4_is_link_local (Ipv4Addr a b c d) \<longleftrightarrow> a = 169 \<and> b = 254"

fun v4_is_broadcast :: "ipv4_addr \<Rightarrow> bool" where
  "v4_is_broadcast (Ipv4Addr a b c d) \<longleftrightarrow> a = 255 \<and> b = 255 \<and> c = 255 \<and> d = 255"

fun v4_is_unspecified :: "ipv4_addr \<Rightarrow> bool" where
  "v4_is_unspecified (Ipv4Addr a b c d) \<longleftrightarrow> a = 0 \<and> b = 0 \<and> c = 0 \<and> d = 0"

fun v4_is_multicast :: "ipv4_addr \<Rightarrow> bool" where
  "v4_is_multicast (Ipv4Addr a b c d) \<longleftrightarrow> a \<ge> 224 \<and> a \<le> 239"

fun is_public_ipv4 :: "ipv4_addr \<Rightarrow> bool" where
  "is_public_ipv4 (Ipv4Addr o0 o1 o2 o3) =
     (let v4 = Ipv4Addr o0 o1 o2 o3;
          documentation = (o0 = 192 \<and> o1 = 0 \<and> o2 = 2) \<or> (o0 = 198 \<and> o1 = 51 \<and> o2 = 100) \<or> (o0 = 203 \<and> o1 = 0 \<and> o2 = 113);
          benchmark = (o0 = 198 \<and> o1 AND 0xFE = 18);
          cgnat = (o0 = 100 \<and> o1 AND 0xC0 = 64)
      in \<not> (v4_is_loopback v4 \<or> v4_is_private v4 \<or> v4_is_link_local v4 \<or> v4_is_broadcast v4 \<or> v4_is_unspecified v4
            \<or> v4_is_multicast v4 \<or> documentation \<or> benchmark \<or> cgnat))"

text \<open>The two bytes of a segment, in network order.\<close>

definition to_be_bytes :: "16 word \<Rightarrow> 8 word \<times> 8 word" where
  "to_be_bytes w = (ucast (drop_bit 8 w), ucast w)"

fun embedded_ipv4 :: "ipv6_addr \<Rightarrow> ipv4_addr" where
  "embedded_ipv4 (Ipv6Addr s0 s1 s2 s3 s4 s5 s6 s7) =
     Ipv4Addr (fst (to_be_bytes s6)) (snd (to_be_bytes s6)) (fst (to_be_bytes s7)) (snd (to_be_bytes s7))"

fun is_public_ipv6 :: "ipv6_addr \<Rightarrow> bool" where
  "is_public_ipv6 (Ipv6Addr s0 s1 s2 s3 s4 s5 s6 s7) =
     (let v6 = Ipv6Addr s0 s1 s2 s3 s4 s5 s6 s7;
          is_v4_mapped = s0 = 0 \<and> s1 = 0 \<and> s2 = 0 \<and> s3 = 0 \<and> s4 = 0 \<and> s5 = 0xffff;
          is_v4_compatible = s0 = 0 \<and> s1 = 0 \<and> s2 = 0 \<and> s3 = 0 \<and> s4 = 0 \<and> s5 = 0;
          is_nat64 = s0 = 0x0064 \<and> s1 = 0xff9b \<and> s2 = 0 \<and> s3 = 0 \<and> s4 = 0 \<and> s5 = 0;
          ula = s0 AND 0xFE00 = 0xFC00;
          link_local = s0 AND 0xFFC0 = 0xFE80;
          multicast = s0 AND 0xFF00 = 0xFF00;
          documentation = s0 = 0x2001 \<and> s1 = 0x0db8
      in if v6 = Ipv6Addr 0 0 0 0 0 0 0 0 \<or> v6 = Ipv6Addr 0 0 0 0 0 0 0 1 then False
         else if is_v4_mapped \<or> is_v4_compatible \<or> is_nat64 then is_public_ipv4 (embedded_ipv4 v6)
         else \<not> (ula \<or> link_local \<or> multicast \<or> documentation))"

fun is_public_ip :: "ip_addr \<Rightarrow> bool" where
  "is_public_ip (V4 v4) = is_public_ipv4 v4"
| "is_public_ip (V6 v6) = is_public_ipv6 v6"

definition is_private_ip :: "ip_addr \<Rightarrow> bool" where
  "is_private_ip ip \<longleftrightarrow> \<not> is_public_ip ip"

section \<open>Reading an address\<close>

text \<open>\<^verbatim>\<open>str::parse::<IpAddr>\<close>. A parser takes a text to what it read and the rest.\<close>

definition dec_digit :: "char \<Rightarrow> nat option" where
  "dec_digit c = (if is_ascii_digit c then Some (byte c - 48) else None)"

definition hex_digit :: "char \<Rightarrow> nat option" where
  "hex_digit c = (if is_ascii_digit c then Some (byte c - 48)
     else if 97 \<le> byte c \<and> byte c \<le> 102 then Some (byte c - 87)
     else if 65 \<le> byte c \<and> byte c \<le> 70 then Some (byte c - 55) else None)"

text \<open>At most \<open>left\<close> digits; more than that is no number.\<close>

fun read_digits :: "(char \<Rightarrow> nat option) \<Rightarrow> nat \<Rightarrow> nat \<Rightarrow> nat \<Rightarrow> string \<Rightarrow> (nat \<times> nat \<times> string) option" where
  "read_digits digit radix left n [] = Some (n, left, [])"
| "read_digits digit radix left n (c # s) = (case digit c of None \<Rightarrow> Some (n, left, c # s)
     | Some d \<Rightarrow> (case left of 0 \<Rightarrow> None | Suc l \<Rightarrow> read_digits digit radix l (n * radix + d) s))"

text \<open>An octet has one to three digits, no leading zero, and is at most 255.\<close>

definition read_octet :: "string \<Rightarrow> (nat \<times> string) option" where
  "read_octet s = (case read_digits dec_digit 10 3 0 s of None \<Rightarrow> None
     | Some (n, left, rest) \<Rightarrow>
         if left = 3 \<or> n > 255 \<or> (take 1 s = ''0'' \<and> left < 2) then None else Some (n, rest))"

definition read_char :: "char \<Rightarrow> string \<Rightarrow> string option" where
  "read_char c s = (case s of [] \<Rightarrow> None | d # rest \<Rightarrow> if d = c then Some rest else None)"

definition read_ipv4 :: "string \<Rightarrow> (ipv4_addr \<times> string) option" where
  "read_ipv4 s =
     Option.bind (read_octet s) (\<lambda>(a, s1). Option.bind (read_char CHR ''.'' s1) (\<lambda>s2.
     Option.bind (read_octet s2) (\<lambda>(b, s3). Option.bind (read_char CHR ''.'' s3) (\<lambda>s4.
     Option.bind (read_octet s4) (\<lambda>(c, s5). Option.bind (read_char CHR ''.'' s5) (\<lambda>s6.
     Option.bind (read_octet s6) (\<lambda>(d, s7).
       Some (Ipv4Addr (of_nat a) (of_nat b) (of_nat c) (of_nat d), s7))))))))"

text \<open>A group has one to four hexadecimal digits.\<close>

definition read_group :: "string \<Rightarrow> (nat \<times> string) option" where
  "read_group s = (case read_digits hex_digit 16 4 0 s of None \<Rightarrow> None
     | Some (n, left, rest) \<Rightarrow> if left = 4 then None else Some (n, rest))"

definition read_separator :: "bool \<Rightarrow> string \<Rightarrow> string option" where
  "read_separator first s = (if first then Some s else read_char CHR '':'' s)"

definition groups_of_ipv4 :: "ipv4_addr \<Rightarrow> nat list" where
  "groups_of_ipv4 v = (case v of Ipv4Addr a b c d \<Rightarrow> [unat a * 256 + unat b, unat c * 256 + unat d])"

text \<open>As many groups as there are, up to \<open>left\<close>; an IPv4 address may end them if it has room for two.\<close>

fun read_groups :: "nat \<Rightarrow> bool \<Rightarrow> string \<Rightarrow> nat list \<times> bool \<times> string" where
  "read_groups 0 first s = ([], False, s)"
| "read_groups (Suc left) first s =
     (case (if left = 0 then None else Option.bind (read_separator first s) read_ipv4) of
        Some (v4, rest) \<Rightarrow> (groups_of_ipv4 v4, True, rest)
      | None \<Rightarrow> (case Option.bind (read_separator first s) read_group of
            None \<Rightarrow> ([], False, s)
          | Some (g, rest) \<Rightarrow> (case read_groups left False rest of (gs, v4, rest') \<Rightarrow> (g # gs, v4, rest'))))"

definition ipv6_of_groups :: "nat list \<Rightarrow> ipv6_addr" where
  "ipv6_of_groups gs = Ipv6Addr (of_nat (gs ! 0)) (of_nat (gs ! 1)) (of_nat (gs ! 2)) (of_nat (gs ! 3))
     (of_nat (gs ! 4)) (of_nat (gs ! 5)) (of_nat (gs ! 6)) (of_nat (gs ! 7))"

definition read_ipv6 :: "string \<Rightarrow> (ipv6_addr \<times> string) option" where
  "read_ipv6 s = (case read_groups 8 True s of (head, v4, rest) \<Rightarrow>
     if length head = 8 then Some (ipv6_of_groups head, rest)
     else if v4 then None
     else Option.bind (read_char CHR '':'' rest) (\<lambda>r1. Option.bind (read_char CHR '':'' r1) (\<lambda>r2.
       case read_groups (8 - (length head + 1)) True r2 of (tail, _, r3) \<Rightarrow>
         Some (ipv6_of_groups (head @ replicate (8 - length head - length tail) 0 @ tail), r3))))"

definition parse_ip :: "string \<Rightarrow> ip_addr option" where
  "parse_ip s = (case read_ipv4 s of
       Some (v4, rest) \<Rightarrow> if rest = [] then Some (V4 v4) else None
     | None \<Rightarrow> (case read_ipv6 s of Some (v6, []) \<Rightarrow> Some (V6 v6) | _ \<Rightarrow> None))"

section \<open>The tests of a URL\<close>

datatype guard_error =
    InvalidUrl string
  | DisallowedScheme string
  | NoHost
  | PrivateAddress ip_addr
  | DnsFailed string string
  | NoAddresses string
  | NodeUrlRejected string
  | TimedOut
  | FetchFailed string
  | HttpStatus int
  | TooLarge nat
  | NotUtf8
  | TooManyRedirects nat
  | NoLocation
  | BadLocation string
  | RedirectBlocked guard_error

type_synonym socket_addr = "ip_addr \<times> nat"

text \<open>Resolving a host and a port: \<^verbatim>\<open>to\_socket\_addrs\<close>.\<close>

type_synonym resolver = "string \<Rightarrow> nat \<Rightarrow> string + socket_addr list"

definition web_scheme :: "url \<Rightarrow> bool" where
  "web_scheme u \<longleftrightarrow> ur_scheme u = ''http'' \<or> ur_scheme u = ''https''"

definition port_of :: "url \<Rightarrow> nat" where
  "port_of u = (case ur_port_or_known_default u of None \<Rightarrow> 443 | Some p \<Rightarrow> p)"

text \<open>The addresses of a host, if none of them is private: the common part of the two checks.\<close>

definition resolve_host :: "resolver \<Rightarrow> string \<Rightarrow> nat \<Rightarrow> guard_error + socket_addr list" where
  "resolve_host resolve host port =
     (case parse_ip host of
        Some ip \<Rightarrow> if is_private_ip ip then Inl (PrivateAddress ip) else Inr [(ip, port)]
      | None \<Rightarrow> (case resolve host port of
            Inl e \<Rightarrow> Inl (DnsFailed host e)
          | Inr addrs \<Rightarrow>
              if addrs = [] then Inl (NoAddresses host)
              else (case find (\<lambda>a. is_private_ip (fst a)) addrs of
                  Some a \<Rightarrow> Inl (PrivateAddress (fst a))
                | None \<Rightarrow> Inr addrs)))"

definition validate_feed_url :: "(string \<Rightarrow> url option) \<Rightarrow> resolver \<Rightarrow> string \<Rightarrow> guard_error + socket_addr list" where
  "validate_feed_url url_parse resolve feed_url = (case url_parse feed_url of
       None \<Rightarrow> Inl (InvalidUrl feed_url)
     | Some u \<Rightarrow>
         if \<not> web_scheme u then Inl (DisallowedScheme (ur_scheme u))
         else (case ur_host_str u of None \<Rightarrow> Inl NoHost | Some host \<Rightarrow> resolve_host resolve host (port_of u)))"

definition is_url_ssrf_safe :: "resolver \<Rightarrow> url \<Rightarrow> bool" where
  "is_url_ssrf_safe resolve u =
     (if \<not> web_scheme u then False
      else if ur_username u \<noteq> [] \<or> ur_password u \<noteq> None then False
      else (case ur_host_str u of None \<Rightarrow> False
        | Some host \<Rightarrow> (case parse_ip host of
              Some ip \<Rightarrow> \<not> is_private_ip ip
            | None \<Rightarrow> (case resolve host (port_of u) of
                  Inl _ \<Rightarrow> False
                | Inr addrs \<Rightarrow> if addrs = [] then False else \<not> list_ex (\<lambda>a. is_private_ip (fst a)) addrs))))"

definition resolve_and_validate_url :: "resolver \<Rightarrow> url \<Rightarrow> guard_error + (string \<times> socket_addr list)" where
  "resolve_and_validate_url resolve u =
     (if \<not> web_scheme u then Inl (DisallowedScheme (ur_scheme u))
      else (case ur_host_str u of None \<Rightarrow> Inl NoHost
        | Some host \<Rightarrow> (case resolve_host resolve host (port_of u) of
              Inl e \<Rightarrow> Inl e | Inr addrs \<Rightarrow> Inr (host, addrs))))"

definition validate_node_url :: "(string \<Rightarrow> url option) \<Rightarrow> resolver \<Rightarrow> string \<Rightarrow> guard_error + unit" where
  "validate_node_url url_parse resolve node_url = (case url_parse node_url of
       None \<Rightarrow> Inl (InvalidUrl node_url)
     | Some u \<Rightarrow> if is_url_ssrf_safe resolve u then Inr () else Inl (NodeUrlRejected node_url))"

section \<open>A fetch with pinned redirects\<close>

text \<open>What the server answers: the status, the headers that matter, and the body in chunks.\<close>

record http_reply =
  hr_status :: int
  hr_location :: "(string + string) option"
  hr_content_length :: "nat option"
  hr_chunks :: "(string + string) list"

fun read_body :: "nat \<Rightarrow> string \<Rightarrow> (string + string) list \<Rightarrow> guard_error + string" where
  "read_body limit body [] = Inr body"
| "read_body limit body (Inl e # chunks) = Inl (FetchFailed e)"
| "read_body limit body (Inr chunk # chunks) =
     (let b = body @ chunk in if length b > limit then Inl (TooLarge limit) else read_body limit b chunks)"

text \<open>\<^verbatim>\<open>String::from\_utf8\<close>.\<close>

definition is_cont :: "char \<Rightarrow> bool" where
  "is_cont c \<longleftrightarrow> 128 \<le> byte c \<and> byte c < 192"

fun utf8_valid :: "string \<Rightarrow> bool" where
  "utf8_valid [] = True"
| "utf8_valid (a # s) =
     (if byte a < 128 then utf8_valid s
      else (case s of [] \<Rightarrow> False
        | b # s1 \<Rightarrow>
            if 0xC2 \<le> byte a \<and> byte a \<le> 0xDF then is_cont b \<and> utf8_valid s1
            else (case s1 of [] \<Rightarrow> False
              | c # s2 \<Rightarrow>
                  if 0xE0 \<le> byte a \<and> byte a \<le> 0xEF
                  then is_cont b \<and> (byte a = 0xE0 \<longrightarrow> byte b \<ge> 0xA0) \<and> (byte a = 0xED \<longrightarrow> byte b \<le> 0x9F)
                    \<and> is_cont c \<and> utf8_valid s2
                  else (case s2 of [] \<Rightarrow> False
                    | d # s3 \<Rightarrow> 0xF0 \<le> byte a \<and> byte a \<le> 0xF4 \<and> is_cont b \<and> (byte a = 0xF0 \<longrightarrow> byte b \<ge> 0x90)
                        \<and> (byte a = 0xF4 \<longrightarrow> byte b \<le> 0x8F) \<and> is_cont c \<and> is_cont d \<and> utf8_valid s3))))"

text \<open>
  The client of a hop: the URL, the host whose addresses are pinned, and the addresses. \<open>clock hop\<close> is
  the time left before the deadline when the hop starts; \<open>join\<close> is \<^verbatim>\<open>Url::join\<close> with its text.
\<close>

type_synonym http_client = "string \<Rightarrow> string \<Rightarrow> socket_addr list \<Rightarrow> nat \<Rightarrow> string + http_reply"

function fetch_hops ::
  "http_client \<Rightarrow> (string \<Rightarrow> string \<Rightarrow> string + (string \<times> url)) \<Rightarrow> resolver \<Rightarrow> (nat \<Rightarrow> nat)
    \<Rightarrow> nat \<Rightarrow> nat \<Rightarrow> nat \<Rightarrow> string \<Rightarrow> string \<Rightarrow> socket_addr list \<Rightarrow> guard_error + string" where
  "fetch_hops send url_join resolve clock max_redirects limit hop current_url hostname addrs =
     (if hop > max_redirects then Inl (TooManyRedirects max_redirects)
      else if clock hop = 0 then Inl TimedOut
      else (case send current_url hostname addrs (min (clock hop) 10) of
          Inl e \<Rightarrow> Inl (FetchFailed e)
        | Inr resp \<Rightarrow>
            if \<not> (300 \<le> hr_status resp \<and> hr_status resp < 400)
            then if \<not> (200 \<le> hr_status resp \<and> hr_status resp < 300) then Inl (HttpStatus (hr_status resp))
                 else if (case hr_content_length resp of None \<Rightarrow> False | Some n \<Rightarrow> n > limit) then Inl (TooLarge limit)
                 else rbind (read_body limit [] (hr_chunks resp)) (\<lambda>body. if utf8_valid body then Inr body else Inl NotUtf8)
            else if hop = max_redirects then Inl (TooManyRedirects max_redirects)
            else (case hr_location resp of
                None \<Rightarrow> Inl NoLocation
              | Some (Inl e) \<Rightarrow> Inl (BadLocation e)
              | Some (Inr location) \<Rightarrow> (case url_join current_url location of
                    Inl e \<Rightarrow> Inl (BadLocation e)
                  | Inr (next_text, next_url) \<Rightarrow> (case resolve_and_validate_url resolve next_url of
                        Inl e \<Rightarrow> Inl (RedirectBlocked e)
                      | Inr (next_hostname, next_addrs) \<Rightarrow>
                          fetch_hops send url_join resolve clock max_redirects limit (Suc hop)
                            next_text next_hostname next_addrs)))))"
  by pat_completeness auto
termination
  by (relation "measure (\<lambda>(send, url_join, resolve, clock, max_redirects, limit, hop, u, h, as). Suc max_redirects - hop)") auto

declare fetch_hops.simps [simp del]

definition fetch_with_pinned_redirects where
  "fetch_with_pinned_redirects send url_join resolve clock initial_url initial_hostname initial_addrs max_redirects max_body_bytes =
     fetch_hops send url_join resolve clock max_redirects max_body_bytes 0 initial_url initial_hostname initial_addrs"

end
