(* ===== verification/SyncServer.thy ===== *)
theory SyncServer
  imports Observe Guard
begin

text \<open>
  The primary's side of replication: the sync endpoints of \<^verbatim>\<open>src/api.rs\<close> with the message types of
  \<^verbatim>\<open>src/sync.rs\<close>, and the push of new events to the registered peers with its retries and evictions.
  A request carries the text of its token header if it has one. The HTTP client, the resolver and the
  JSON codec are arguments; the tasks of a fan-out run one after the other, each on its own row.
\<close>

section \<open>Messages\<close>

type_synonym event_ref = "string \<times> int"

record sync_events_response =
  ser_events :: "event list"
  ser_has_more :: bool
  ser_next_seq :: int

record reconcile_request =
  rcq_node_pubkey :: string
  rcq_have :: "event_ref list"
  rcq_since_seq :: int

record reconcile_response =
  rcr_send_to_node :: "event list"
  rcr_unknown_to_us :: "event_ref list"
  rcr_has_more :: bool
  rcr_next_seq :: int

record push_response =
  psr_applied :: nat
  psr_rejected :: nat
  psr_duplicate :: nat

record register_signing_payload =
  rsp_node_pubkey :: string
  rsp_node_url :: string
  rsp_signed_at :: int

record register_request =
  rgq_node_pubkey :: string
  rgq_node_url :: string
  rgq_signed_at :: "int option"
  rgq_signature :: "string option"

record peer_entry =
  pe_node_pubkey :: string
  pe_node_url :: string
  pe_last_push_at :: "int option"

record node_info_response =
  nir_node_pubkey :: string
  nir_git_revision :: "string option"
  nir_built_at :: "string option"

section \<open>Tokens\<close>

record server =
  sv_app :: app
  sv_sync_token :: "string option"
  sv_admin_token :: string
  sv_node_pubkey_hex :: string
  sv_git_revision :: "string option"
  sv_built_at :: "string option"
  sv_register_json :: "register_signing_payload \<Rightarrow> string"
  sv_resolve :: resolver
  sv_guard_message :: "guard_error \<Rightarrow> string"
  sv_signing_message :: "signing_error \<Rightarrow> string"
  sv_status_text :: "int \<Rightarrow> string"

definition provided_token :: "string option \<Rightarrow> string" where
  "provided_token header = (case header of None \<Rightarrow> [] | Some t \<Rightarrow> t)"

definition check_admin_token :: "(string \<Rightarrow> string) \<Rightarrow> string option \<Rightarrow> string \<Rightarrow> api_error + unit" where
  "check_admin_token sha256 header expected =
     (if expected = [] then Inl (api_error 403 ''admin token not configured on this node'')
      else if sha256 (provided_token header) = sha256 expected then Inr ()
      else Inl (api_error 403 ''invalid or missing X-Admin-Token''))"

definition check_sync_token :: "(string \<Rightarrow> string) \<Rightarrow> string option \<Rightarrow> string option \<Rightarrow> api_error + unit" where
  "check_sync_token sha256 header sync_token = (case sync_token of
       None \<Rightarrow> Inl (api_error 403 ''sync token not configured on this node'')
     | Some expected_sync \<Rightarrow>
         if expected_sync = [] then Inl (api_error 403 ''sync token not configured on this node'')
         else if sha256 (provided_token header) = sha256 expected_sync then Inr ()
         else Inl (api_error 403 ''invalid or missing X-Sync-Token''))"

definition sync_auth :: "server \<Rightarrow> string option \<Rightarrow> api_error + unit" where
  "sync_auth sv header = check_sync_token (ap_sha256 (sv_app sv)) header (sv_sync_token sv)"

definition db_result :: "db_error + 'a \<Rightarrow> api_error + 'a" where
  "db_result r = (case r of Inl e \<Rightarrow> Inl (api_error_of e) | Inr x \<Rightarrow> Inr x)"

section \<open>Pages of the log\<close>

record sync_events_query =
  seq_after_seq :: int
  seq_limit :: "int option"

definition clamp :: "int \<Rightarrow> int \<Rightarrow> int \<Rightarrow> int" where
  "clamp lo hi x = (if x < lo then lo else if x > hi then hi else x)"

definition handle_sync_events ::
  "server \<Rightarrow> string option \<Rightarrow> sync_events_query \<Rightarrow> db \<Rightarrow> api_error + sync_events_response" where
  "handle_sync_events sv header params s =
     rbind (sync_auth sv header) (\<lambda>_.
     let after_seq = seq_after_seq params;
         capped_limit = clamp 1 1000 (case seq_limit params of None \<Rightarrow> 500 | Some l \<Rightarrow> l)
     in rbind (db_result (get_events_since (ap_parse (sv_app sv)) s after_seq capped_limit)) (\<lambda>events.
          Inr \<lparr>ser_events = events, ser_has_more = (int (length events) = capped_limit),
            ser_next_seq = (if events = [] then after_seq else ev_seq (last events))\<rparr>))"

definition MAX_RECONCILE_HAVE :: nat where "MAX_RECONCILE_HAVE = 10000"
definition MAX_RECONCILE_REFS :: int where "MAX_RECONCILE_REFS = 50000"
definition MAX_RECONCILE_EVENTS :: int where "MAX_RECONCILE_EVENTS = 10000"

definition handle_sync_reconcile ::
  "server \<Rightarrow> string option \<Rightarrow> reconcile_request \<Rightarrow> db \<Rightarrow> api_error + reconcile_response" where
  "handle_sync_reconcile sv header req s =
     rbind (sync_auth sv header) (\<lambda>_.
     if length (rcq_have req) > MAX_RECONCILE_HAVE then Inl (api_error 400 ''have array exceeds maximum size of 10000'')
     else
       let (our_refs, refs_truncated) = get_event_refs_since s (rcq_since_seq req) MAX_RECONCILE_REFS;
           our_ids = fst ` set our_refs;
           their_ids = fst ` set (rcq_have req);
           missing_ids = our_ids - their_ids;
           unknown_to_us = filter (\<lambda>r. fst r \<notin> our_ids) (rcq_have req)
       in rbind (db_result (get_events_since (ap_parse (sv_app sv)) s (rcq_since_seq req) MAX_RECONCILE_EVENTS)) (\<lambda>all_events.
            Inr \<lparr>rcr_send_to_node = filter (\<lambda>e. ev_event_id e \<in> missing_ids) all_events,
              rcr_unknown_to_us = unknown_to_us,
              rcr_has_more = (refs_truncated \<or> int (length all_events) \<ge> MAX_RECONCILE_EVENTS),
              rcr_next_seq = (if our_refs = [] then rcq_since_seq req else Max (snd ` set our_refs))\<rparr>))"

section \<open>Registration of a peer\<close>

definition SYNC_REGISTER_MAX_SKEW_SECS :: int where "SYNC_REGISTER_MAX_SKEW_SECS = 600"

text \<open>\<^verbatim>\<open>i64::abs\<close>, which wraps at the least value.\<close>

definition i64_abs :: "int \<Rightarrow> int" where
  "i64_abs x = i64_wrap \<bar>x\<bar>"

text \<open>The URL of the node information: the path of the push endpoint replaced. The parts are those of \<^verbatim>\<open>url::Url\<close>.\<close>

definition node_info_path :: "string \<Rightarrow> string + string" where
  "node_info_path path = (case strip_suffix ''/sync/push'' (rev (dropWhile (\<lambda>c. c = CHR ''/'') (rev path))) of
       None \<Rightarrow> Inl ''node URL must end with /sync/push''
     | Some base_path \<Rightarrow> Inr (if base_path = [] then ''/node/info'' else base_path @ ''/node/info''))"

text \<open>
  \<open>url_path\<close> gives the path of a URL text and \<open>with_path\<close> the text with the path replaced and neither
  query nor fragment; \<open>get_info\<close> is the request to the node, pinned to the validated addresses.
\<close>

record node_client =
  nc_url_path :: "string \<Rightarrow> string + string"
  nc_with_path :: "string \<Rightarrow> string \<Rightarrow> string"
  nc_get_info :: "string \<Rightarrow> socket_addr list \<Rightarrow> string + (int \<times> (string + node_info_response))"

definition sync_register_node_info_url :: "node_client \<Rightarrow> string \<Rightarrow> string + string" where
  "sync_register_node_info_url nc node_url = (case nc_url_path nc node_url of
       Inl e \<Rightarrow> Inl (''invalid node URL: '' @ e)
     | Inr path \<Rightarrow> rbind (node_info_path path) (\<lambda>p. Inr (nc_with_path nc node_url p)))"

definition verify_sync_register_target :: "server \<Rightarrow> node_client \<Rightarrow> string \<Rightarrow> string \<Rightarrow> api_error + unit" where
  "verify_sync_register_target sv nc node_url expected_pubkey =
     (case sync_register_node_info_url nc node_url of
        Inl e \<Rightarrow> Inl (api_error 422 e)
      | Inr info_url \<Rightarrow>
          (case pm_url_parse (ap_primary (sv_app sv)) info_url of
             None \<Rightarrow> Inl (api_error 422 ''node/info URL rejected: invalid node/info URL'')
           | Some parsed \<Rightarrow>
               (case resolve_and_validate_url (sv_resolve sv) parsed of
                  Inl e \<Rightarrow> Inl (api_error 422 (''node/info URL rejected: '' @ sv_guard_message sv e))
                | Inr (hostname, addrs) \<Rightarrow>
                    (case nc_get_info nc info_url addrs of
                       Inl e \<Rightarrow> Inl (api_error 422 (''failed to verify node URL ownership via '' @ info_url @ '': '' @ e))
                     | Inr (status, body) \<Rightarrow>
                         if \<not> (200 \<le> status \<and> status < 300)
                         then Inl (api_error 422 (''node URL ownership check returned HTTP '' @ sv_status_text sv status @ '' from '' @ info_url))
                         else (case body of
                             Inl e \<Rightarrow> Inl (api_error 422 (''invalid node/info response from '' @ info_url @ '': '' @ e))
                           | Inr info \<Rightarrow>
                               if nir_node_pubkey info \<noteq> expected_pubkey
                               then Inl (api_error 422 (''node/info pubkey mismatch for '' @ info_url @ '': expected ''
                                 @ expected_pubkey @ '', got '' @ nir_node_pubkey info))
                               else Inr ())))))"

text \<open>The checks of a registration, in the order of the handler.\<close>

definition register_checks ::
  "server \<Rightarrow> node_client \<Rightarrow> int \<Rightarrow> string option \<Rightarrow> register_request \<Rightarrow> api_error + unit" where
  "register_checks sv nc now header req =
     rbind (sync_auth sv header) (\<lambda>_.
     case (rgq_signed_at req, rgq_signature req) of
       (Some signed_at, Some signature_hex) \<Rightarrow>
         if i64_abs (i64_sub now signed_at) > SYNC_REGISTER_MAX_SKEW_SECS
         then Inl (api_error 400 ''sync/register signed_at is outside the allowed skew window of 600 seconds'')
         else
           let payload = \<lparr>rsp_node_pubkey = rgq_node_pubkey req, rsp_node_url = rgq_node_url req, rsp_signed_at = signed_at\<rparr>
           in (case verify_json_signature (pm_crypto (ap_primary (sv_app sv))) (sv_register_json sv)
                   (rgq_node_pubkey req) payload signature_hex of
                Inl e \<Rightarrow> Inl (api_error 403 (''invalid sync/register signature: '' @ sv_signing_message sv e))
              | Inr _ \<Rightarrow>
                  (case validate_node_url (pm_url_parse (ap_primary (sv_app sv))) (sv_resolve sv) (rgq_node_url req) of
                     Inl e \<Rightarrow> Inl (api_error 422 (sv_guard_message sv e))
                   | Inr _ \<Rightarrow> verify_sync_register_target sv nc (rgq_node_url req) (rgq_node_pubkey req)))
     | _ \<Rightarrow> Inl (api_error 400 ''sync/register requires signed_at and signature''))"

type_synonym subscribers = "string \<rightharpoonup> string"

definition handle_sync_register ::
  "server \<Rightarrow> node_client \<Rightarrow> int \<Rightarrow> string option \<Rightarrow> register_request \<Rightarrow> db \<times> subscribers
    \<Rightarrow> (api_error + bool) \<times> db \<times> subscribers" where
  "handle_sync_register sv nc now header req st = (case st of (s, subs) \<Rightarrow>
     (case register_checks sv nc now header req of
        Inl e \<Rightarrow> (Inl e, s, subs)
      | Inr _ \<Rightarrow> (Inr True,
           reset_peer_failures (rgq_node_pubkey req) (upsert_peer_node (rgq_node_pubkey req) (rgq_node_url req) now s),
           subs(rgq_node_pubkey req \<mapsto> rgq_node_url req))))"

definition handle_sync_peers :: "server \<Rightarrow> string option \<Rightarrow> db \<Rightarrow> api_error + peer_entry list" where
  "handle_sync_peers sv header s = rbind (sync_auth sv header) (\<lambda>_.
     Inr (map (\<lambda>p. \<lparr>pe_node_pubkey = pn_node_pubkey p, pe_node_url = pn_node_url p, pe_last_push_at = pn_last_push_at p\<rparr>)
       (get_push_peers s)))"

definition build_value :: "string option \<Rightarrow> string option" where
  "build_value v = (case v of Some t \<Rightarrow> if t = [] then None else Some t | None \<Rightarrow> None)"

definition handle_node_info :: "server \<Rightarrow> node_info_response" where
  "handle_node_info sv = \<lparr>nir_node_pubkey = sv_node_pubkey_hex sv, nir_git_revision = build_value (sv_git_revision sv),
     nir_built_at = build_value (sv_built_at sv)\<rparr>"

section \<open>Pushing new events\<close>

definition PUSH_MAX_ATTEMPTS :: nat where "PUSH_MAX_ATTEMPTS = 3"
definition PUSH_EVICTION_THRESHOLD :: int where "PUSH_EVICTION_THRESHOLD = MAX_PEER_FAILURES"

text \<open>
  The answer to one attempt: a transport error, a status that is no success, or a success with the
  body if it can be read as JSON.
\<close>

datatype push_reply = SendFailed string | NonSuccess int | Success "push_response option"

definition handle_push_failure :: "string \<Rightarrow> db \<times> subscribers \<Rightarrow> db \<times> subscribers" where
  "handle_push_failure pubkey st = (case st of (s, subs) \<Rightarrow>
     let s1 = increment_peer_failures pubkey s;
         failures = (case lookup_by pn_node_pubkey (t_peer_nodes s1) pubkey of None \<Rightarrow> 0 | Some p \<Rightarrow> pn_consecutive_failures p)
     in (s1, if failures \<ge> PUSH_EVICTION_THRESHOLD then subs(pubkey := None) else subs))"

definition check_push_response_rejections :: "string \<Rightarrow> push_response option \<Rightarrow> db \<times> subscribers \<Rightarrow> bool \<times> db \<times> subscribers" where
  "check_push_response_rejections pubkey body st = (case body of
       None \<Rightarrow> (False, st)
     | Some r \<Rightarrow> if psr_rejected r > 0 then (True, handle_push_failure pubkey st) else (False, st))"

text \<open>The attempts of a push: \<open>left\<close> of them from the given one on. The first success ends them.\<close>

fun push_attempts :: "nat \<Rightarrow> nat \<Rightarrow> (nat \<Rightarrow> push_reply) \<Rightarrow> string \<Rightarrow> db \<times> subscribers \<Rightarrow> bool \<times> db \<times> subscribers" where
  "push_attempts 0 attempt post pubkey st = (False, st)"
| "push_attempts (Suc left) attempt post pubkey st = (case post attempt of
       Success body \<Rightarrow> (case check_push_response_rejections pubkey body st of (had_rejections, st') \<Rightarrow> (\<not> had_rejections, st'))
     | _ \<Rightarrow> push_attempts left (Suc attempt) post pubkey st)"

definition push_to_peer ::
  "(string \<Rightarrow> url option) \<Rightarrow> resolver \<Rightarrow> int \<Rightarrow> (string \<Rightarrow> nat \<Rightarrow> push_reply) \<Rightarrow> string \<times> string \<Rightarrow> db \<times> subscribers
    \<Rightarrow> db \<times> subscribers" where
  "push_to_peer url_parse resolve now post peer st = (case peer of (pubkey, push_url) \<Rightarrow>
     (case url_parse push_url of
        None \<Rightarrow> st
      | Some parsed \<Rightarrow>
          if \<not> is_url_ssrf_safe resolve parsed then st
          else (case push_attempts PUSH_MAX_ATTEMPTS 0 (post push_url) pubkey st of
              (True, s, subs) \<Rightarrow> (record_push_success pubkey now s, subs)
            | (False, st') \<Rightarrow> handle_push_failure pubkey st')))"

text \<open>\<open>peers\<close> lists the subscribers in the order of the hash map.\<close>

definition fan_out_push_inner ::
  "(string \<Rightarrow> url option) \<Rightarrow> resolver \<Rightarrow> int \<Rightarrow> (string \<Rightarrow> nat \<Rightarrow> push_reply) \<Rightarrow> (string \<times> string) list \<Rightarrow> db \<times> subscribers
    \<Rightarrow> db \<times> subscribers" where
  "fan_out_push_inner url_parse resolve now post peers st = fold (push_to_peer url_parse resolve now post) peers st"

end
