(* ===== verification/Community.thy ===== *)
theory Community
  imports Apply SyncServer
begin

text \<open>
  \<^verbatim>\<open>src/community.rs\<close>: a community node. It registers with the primary, polls pages of the log when no
  push came for a while, and takes pushes. The HTTP client is an argument: what the server answers to
  a request. The poll loop runs for ever; \<open>poll_iteration\<close> is one turn of it without the sleep.
\<close>

definition DEFAULT_POLL_INTERVAL_SECS :: nat where "DEFAULT_POLL_INTERVAL_SECS = 300"
definition DEFAULT_PUSH_TIMEOUT_SECS :: int where "DEFAULT_PUSH_TIMEOUT_SECS = 90"
definition MAX_PUSH_EVENTS :: nat where "MAX_PUSH_EVENTS = 1000"
definition MAX_DRAIN_PAGES :: nat where "MAX_DRAIN_PAGES = 100"

text \<open>\<open>parse\<close> is \<^verbatim>\<open>FromStr\<close> of the type.\<close>

definition parse_or_default :: "(string \<Rightarrow> 'a option) \<Rightarrow> string option \<Rightarrow> 'a \<Rightarrow> 'a" where
  "parse_or_default parse v d = (case Option.bind v parse of None \<Rightarrow> d | Some x \<Rightarrow> x)"

section \<open>State\<close>

record community =
  cm_node :: node
  cm_primary_url :: string
  cm_node_address :: string
  cm_push_timeout_secs :: int
  cm_primary_pubkey_hex :: string
  cm_sync_token :: "string option"
  cm_key :: string
  cm_register_json :: "register_signing_payload \<Rightarrow> string"

definition load_sync_auth_from_env :: "string option \<Rightarrow> string option" where
  "load_sync_auth_from_env v = (case v of None \<Rightarrow> None | Some t \<Rightarrow> if t = [] then None else Some t)"

text \<open>
  The database with the channels, the cursor that the poll loop holds in memory, and the time of the
  last push.
\<close>

record node_state =
  nst_store :: "db \<times> sse_registry option"
  nst_cursor :: int
  nst_last_push_at :: int

section \<open>Start\<close>

text \<open>\<open>allow\<close> is the value of the environment variable that allows plain HTTP.\<close>

definition require_https_for_discovery :: "string option \<Rightarrow> string \<Rightarrow> bool" where
  "require_https_for_discovery allow primary_url =
     (if starts_with primary_url ''https://'' then True
      else if starts_with primary_url ''http://'' then allow = Some ''true'' \<or> allow = Some ''1''
      else True)"

text \<open>The attempts to read the primary's key; \<open>get n\<close> is the key that the answer to attempt \<open>n\<close> holds.\<close>

fun fetch_attempts :: "nat \<Rightarrow> nat \<Rightarrow> (nat \<Rightarrow> string option) \<Rightarrow> string option" where
  "fetch_attempts 0 attempt get = None"
| "fetch_attempts (Suc left) attempt get = (case get attempt of
       Some key \<Rightarrow> Some key | None \<Rightarrow> fetch_attempts left (Suc attempt) get)"

definition fetch_primary_pubkey :: "(string \<Rightarrow> nat \<Rightarrow> string option) \<Rightarrow> string \<Rightarrow> nat \<Rightarrow> string option" where
  "fetch_primary_pubkey get primary_url max_attempts = fetch_attempts max_attempts 1 (get (primary_url @ ''/node/info''))"

definition trim_end_slashes :: "string \<Rightarrow> string" where
  "trim_end_slashes s = rev (dropWhile (\<lambda>c. c = CHR ''/'') (rev s))"

text \<open>The registration that the node sends, and the URL it sends it to.\<close>

definition register_with_primary :: "community \<Rightarrow> int \<Rightarrow> string \<times> register_request" where
  "register_with_primary cm signed_at =
     (let c = nd_crypto (cm_node cm);
          node_pubkey = pubkey_hex c (cm_key cm);
          node_url = trim_end_slashes (cm_node_address cm) @ ''/sync/push'';
          payload = \<lparr>rsp_node_pubkey = node_pubkey, rsp_node_url = node_url, rsp_signed_at = signed_at\<rparr>
      in (cm_primary_url cm @ ''/sync/register'',
          \<lparr>rgq_node_pubkey = node_pubkey, rgq_node_url = node_url, rgq_signed_at = Some signed_at,
           rgq_signature = Some (sign_json c (cm_register_json cm) (cm_key cm) payload)\<rparr>))"

section \<open>Polling\<close>

text \<open>
  An answer: a transport error, or a status (with its text) and the body, if it can be read.
\<close>

type_synonym net = "string \<Rightarrow> string option \<Rightarrow> string + (int \<times> string \<times> (string + sync_events_response))"

definition events_url :: "string \<Rightarrow> int \<Rightarrow> string" where
  "events_url primary_url after_seq = primary_url @ ''/sync/events?after_seq='' @ show_int after_seq @ ''&limit=500''"

definition poll_once :: "net \<Rightarrow> string \<Rightarrow> int \<Rightarrow> string option \<Rightarrow> string + sync_events_response" where
  "poll_once net primary_url after_seq auth =
     (let url = events_url primary_url after_seq
      in case net url auth of
           Inl e \<Rightarrow> Inl (''GET '' @ url @ '': '' @ e)
         | Inr (status, status_text, body) \<Rightarrow>
             if \<not> (200 \<le> status \<and> status < 300) then Inl (''GET '' @ url @ '' returned HTTP '' @ status_text)
             else (case body of Inl e \<Rightarrow> Inl (''failed to deserialise sync response: '' @ e) | Inr r \<Rightarrow> Inr r))"

text \<open>What one page does to the cursor in memory and the store.\<close>

definition apply_page :: "community \<Rightarrow> int \<Rightarrow> sync_events_response \<Rightarrow> int \<times> db \<times> sse_registry option
    \<Rightarrow> int \<times> db \<times> sse_registry option" where
  "apply_page cm now response st = (case st of (last_seq, store) \<Rightarrow>
     if ser_events response \<noteq> [] then
       (case apply_events (cm_node cm) now (ser_events response) store of (summary, store') \<Rightarrow>
          if as_applied summary > 0
          then (max last_seq (get_node_sync_cursor (fst store') SYNC_CURSOR_KEY), store')
          else (max last_seq (ser_next_seq response), store'))
     else (max last_seq (ser_next_seq response), store))"

text \<open>The drain: page after page until there is no more, an error, or too many pages.\<close>

function drain :: "community \<Rightarrow> (nat \<Rightarrow> net) \<Rightarrow> (nat \<Rightarrow> int) \<Rightarrow> nat \<Rightarrow> int \<times> db \<times> sse_registry option
    \<Rightarrow> int \<times> db \<times> sse_registry option" where
  "drain cm nets clock pages_drained st =
     (case poll_once (nets pages_drained) (cm_primary_url cm) (fst st) (cm_sync_token cm) of
        Inl e \<Rightarrow> st
      | Inr response \<Rightarrow>
          let st' = apply_page cm (clock pages_drained) response st
          in if \<not> ser_has_more response then st'
             else if Suc pages_drained \<ge> MAX_DRAIN_PAGES then st'
             else drain cm nets clock (Suc pages_drained) st')"
  by pat_completeness auto
termination
  by (relation "measure (\<lambda>(cm, nets, clock, pages, st). MAX_DRAIN_PAGES - pages)") auto

declare drain.simps [simp del]

definition poll_iteration :: "community \<Rightarrow> (nat \<Rightarrow> net) \<Rightarrow> (nat \<Rightarrow> int) \<Rightarrow> int \<Rightarrow> node_state \<Rightarrow> node_state" where
  "poll_iteration cm nets clock now_secs ns =
     (if i64_sub now_secs (nst_last_push_at ns) > cm_push_timeout_secs cm
      then (case drain cm nets clock 0 (nst_cursor ns, nst_store ns) of (c, store) \<Rightarrow> ns\<lparr>nst_cursor := c, nst_store := store\<rparr>)
      else ns)"

text \<open>The turns of the loop, each with the connections and times it meets.\<close>

definition poll_turns :: "community \<Rightarrow> ((nat \<Rightarrow> net) \<times> (nat \<Rightarrow> int) \<times> int) list \<Rightarrow> node_state \<Rightarrow> node_state" where
  "poll_turns cm turns ns = fold (\<lambda>(nets, clock, now_secs). poll_iteration cm nets clock now_secs) turns ns"

text \<open>A start takes the cursor from the database.\<close>

definition start_node :: "db \<times> sse_registry option \<Rightarrow> int \<Rightarrow> node_state" where
  "start_node store last_push_at = \<lparr>nst_store = store, nst_cursor = get_node_sync_cursor (fst store) SYNC_CURSOR_KEY,
     nst_last_push_at = last_push_at\<rparr>"

section \<open>Pushes\<close>

text \<open>\<open>None\<close> is the status 400.\<close>

definition handle_sync_push :: "community \<Rightarrow> int \<Rightarrow> int \<Rightarrow> event list \<Rightarrow> node_state \<Rightarrow> push_response option \<times> node_state" where
  "handle_sync_push cm now apply_now events ns =
     (if length events > MAX_PUSH_EVENTS then (None, ns)
      else
        let trusted = filter (\<lambda>ev. ev_signed_by ev = cm_primary_pubkey_hex cm) events;
            pre_rejected = length (filter (\<lambda>ev. ev_signed_by ev \<noteq> cm_primary_pubkey_hex cm) events)
        in case apply_events (cm_node cm) apply_now trusted (nst_store ns) of (summary, store') \<Rightarrow>
             (Some \<lparr>psr_applied = as_applied summary, psr_rejected = as_rejected summary + pre_rejected,
                psr_duplicate = as_duplicate summary\<rparr>,
              ns\<lparr>nst_store := store',
                 nst_last_push_at := (if as_applied summary > 0 \<or> as_duplicate summary > 0 then now else nst_last_push_at ns)\<rparr>))"

end
