(* ===== verification/Served.thy ===== *)
theory Served
  imports SyncServer SampleApp Sync
begin

text \<open>
  What the sync endpoints promise: a token, a whole answer to a reconciliation while the log fits, and
  what is lost when it does not; the failures that a push counts.
\<close>

section \<open>Pages\<close>

lemma rows_since: "events_ok s \<Longrightarrow> event_rows_since s a limit = take (nat (max limit 1)) (filter (\<lambda>r. er_seq r > a) (t_events s))"
  by (rule event_rows_since_sorted)

lemma rmap_ids: "rmap (event_of_row parse) rows = Inr evs \<Longrightarrow> map ev_event_id evs = map er_event_id rows"
  by (induction rows arbitrary: evs) (auto simp: event_of_row_def split: option.splits)

text \<open>The events of a page, each with the row it was read from.\<close>

lemma page_rows:
  assumes "events_ok s" "get_events_since parse s a limit = Inr page" "1 \<le> limit"
  shows "map ev_event_id page = map er_event_id (take (nat limit) (filter (\<lambda>r. er_seq r > a) (t_events s)))"
    and "map ev_seq page = map er_seq (take (nat limit) (filter (\<lambda>r. er_seq r > a) (t_events s)))"
  using assms rmap_ids [of parse "event_rows_since s a limit" page] rmap_seqs [of parse "event_rows_since s a limit" page]
  by (simp_all add: get_events_since_def rows_since max_absorb1)

definition refs_from :: "db \<Rightarrow> int \<Rightarrow> event_ref list" where
  "refs_from s a = map (\<lambda>r. (er_event_id r, er_seq r)) (filter (\<lambda>r. er_seq r \<ge> a) (t_events s))"

lemma refs_page:
  "events_ok s \<Longrightarrow> get_event_refs_since s a MAX_RECONCILE_REFS = (take 50000 (refs_from s a), length (refs_from s a) > 50000)"
  using event_refs_page [of s MAX_RECONCILE_REFS a]
  by (simp add: MAX_RECONCILE_REFS_def i64_max_def refs_from_def take_map)

lemma refs_from_seqs: "events_ok s \<Longrightarrow> sorted_wrt (<) (map snd (refs_from s a))"
  using sorted_filter_seq [of "t_events s" "\<lambda>r. er_seq r \<ge> a"] by (simp add: refs_from_def events_ok_def comp_def)

text \<open>The greatest number of references in order is the last.\<close>

lemma Max_last: "sorted_wrt (<) (map snd rs) \<Longrightarrow> rs \<noteq> [] \<Longrightarrow> Max (snd ` set rs) = snd (last rs)" for rs :: "event_ref list"
proof -
  assume sorted: "sorted_wrt (<) (map snd rs)" and ne: "rs \<noteq> []"
  have "x \<le> snd (last rs)" if "x \<in> snd ` set rs" for x
    using sorted that ne by (induction rs) (auto intro: less_imp_le split: if_splits)
  with ne show "Max (snd ` set rs) = snd (last rs)" by (intro Max_eqI) auto
qed

text \<open>At most one row has the number itself; the rows from it on start with that one.\<close>

lemma rows_from_number:
  assumes "events_ok s"
  shows "\<exists>xs. length xs \<le> 1 \<and> filter (\<lambda>r. er_seq r \<ge> a) (t_events s) = xs @ filter (\<lambda>r. er_seq r > a) (t_events s)"
proof -
  have "\<exists>xs. length xs \<le> 1 \<and> filter (\<lambda>r. er_seq r \<ge> a) rows = xs @ filter (\<lambda>r. er_seq r > a) rows"
    if "sorted_wrt (<) (map er_seq rows)" for rows
    using that
  proof (induction rows)
    case (Cons r rows)
    have "filter (\<lambda>r. er_seq r \<ge> a) rows = rows" "filter (\<lambda>r. er_seq r > a) rows = rows" if "a \<le> er_seq r"
      using Cons.prems that by (auto simp: filter_id_conv)
    with Cons show ?case by (cases "a \<le> er_seq r") (auto intro: exI [of _ "[r]"])
  qed simp
  moreover have "sorted_wrt (<) (map er_seq (t_events s))" using assms by (simp add: events_ok_def)
  ultimately show ?thesis by blast
qed

lemma nth_in_take: "m < length ys \<Longrightarrow> m + length xs < n \<Longrightarrow> ys ! m \<in> set (take n (xs @ ys))"
  by (auto simp: in_set_conv_nth intro!: exI [of _ "m"])

section \<open>Reconciliation\<close>

text \<open>
  A reconciliation whose token and size are accepted, as a function of the rows from the given
  number on and the rows after it.
\<close>

lemma reconcile_result:
  assumes "sync_auth sv header = Inr ()" "length (rcq_have req) \<le> MAX_RECONCILE_HAVE" "events_ok s"
    and "get_events_since (ap_parse (sv_app sv)) s (rcq_since_seq req) MAX_RECONCILE_EVENTS = Inr page"
  shows "\<exists>r. handle_sync_reconcile sv header req s = Inr r
    \<and> map ev_event_id (rcr_send_to_node r) = filter (\<lambda>i. i \<in> fst ` set (take 50000 (refs_from s (rcq_since_seq req))) - fst ` set (rcq_have req))
         (map er_event_id (take 10000 (filter (\<lambda>r. er_seq r > rcq_since_seq req) (t_events s))))
    \<and> rcr_unknown_to_us r = filter (\<lambda>e. fst e \<notin> fst ` set (take 50000 (refs_from s (rcq_since_seq req)))) (rcq_have req)
    \<and> rcr_has_more r = (length (refs_from s (rcq_since_seq req)) > 50000
         \<or> length (filter (\<lambda>r. er_seq r > rcq_since_seq req) (t_events s)) \<ge> 10000)
    \<and> rcr_next_seq r = (if refs_from s (rcq_since_seq req) = [] then rcq_since_seq req
         else snd (last (take 50000 (refs_from s (rcq_since_seq req)))))"
proof -
  let ?refs = "refs_from s (rcq_since_seq req)"
  note rows = page_rows [OF assms(3,4)]
  have ids: "map ev_event_id page = map er_event_id (take 10000 (filter (\<lambda>r. er_seq r > rcq_since_seq req) (t_events s)))"
    using rows(1) by (simp add: MAX_RECONCILE_EVENTS_def)
  have len: "int (length page) \<ge> MAX_RECONCILE_EVENTS \<longleftrightarrow> length (filter (\<lambda>r. er_seq r > rcq_since_seq req) (t_events s)) \<ge> 10000"
    using arg_cong [OF ids, of length] by (auto simp: MAX_RECONCILE_EVENTS_def min_def)
  have "sorted_wrt (<) (map snd (take 50000 ?refs))"
    using refs_from_seqs [OF assms(3)] by (metis sorted_wrt_take take_map)
  then have top: "?refs \<noteq> [] \<Longrightarrow> Max (snd ` set (take 50000 ?refs)) = snd (last (take 50000 ?refs))"
    by (intro Max_last) simp_all
  show ?thesis
    using assms(1,2) top
    by (simp add: handle_sync_reconcile_def assms(4) refs_page [OF assms(3)] db_result_def len filter_map comp_def flip: ids)
qed

lemma reconcile_rows:
  assumes "events_ok s" "handle_sync_reconcile sv header req s = Inr r" "e \<in> set (rcr_send_to_node r)"
  shows "\<exists>x\<in>set (t_events s). er_event_id x = ev_event_id e \<and> er_seq x > rcq_since_seq req"
proof -
  obtain page where page: "get_events_since (ap_parse (sv_app sv)) s (rcq_since_seq req) MAX_RECONCILE_EVENTS = Inr page" "e \<in> set page"
    using assms(2,3)
    by (auto simp: handle_sync_reconcile_def rbind_eq_Inr db_result_def Let_def split: prod.splits if_splits sum.splits)
  have "ev_event_id e \<in> set (map er_event_id (take (nat MAX_RECONCILE_EVENTS) (filter (\<lambda>r. er_seq r > rcq_since_seq req) (t_events s))))"
    using page_rows(1) [OF assms(1) page(1)] page(2) by (metis MAX_RECONCILE_EVENTS_def image_eqI list.set_map one_le_numeral)
  then show ?thesis by (auto dest!: in_set_takeD)
qed

section \<open>A long log\<close>

text \<open>A log of \<open>n\<close> events and a server that reads it.\<close>

definition long_log :: "nat \<Rightarrow> db" where
  "long_log n = empty_db\<lparr>t_events := map (\<lambda>i. \<lparr>er_event_id = replicate i CHR ''x'', er_event_type = FeedUnblocked, er_payload_json = ''{}'',
     er_subject_guid = ''b1'', er_signed_by = ''key'', er_signature = ''s'', er_seq = int i, er_created_at = 5, er_warnings = []\<rparr>) [1..<Suc n]\<rparr>"

lemma long_log_events: "t_events (long_log n) = map (\<lambda>i. \<lparr>er_event_id = replicate i CHR ''x'', er_event_type = FeedUnblocked,
    er_payload_json = ''{}'', er_subject_guid = ''b1'', er_signed_by = ''key'', er_signature = ''s'', er_seq = int i, er_created_at = 5,
    er_warnings = []\<rparr>) [1..<Suc n]"
  by (simp add: long_log_def empty_db_def)

lemma long_log_ok: "events_ok (long_log n)"
proof -
  have "inj_on (\<lambda>i. replicate i CHR ''x'') A" for A :: "nat set" by (auto simp: inj_on_def dest: arg_cong [where f = length])
  moreover have "sorted_wrt (<) (map int [1..<Suc n])" by (simp add: sorted_wrt_map del: upt_Suc)
  ultimately show ?thesis by (simp add: events_ok_def long_log_events comp_def distinct_map del: upt_Suc)
qed

lemma rmap_total: "(\<And>t j. parse t j \<noteq> None) \<Longrightarrow> \<exists>evs. rmap (event_of_row parse) rows = Inr evs"
proof (induction rows)
  case (Cons r rows)
  then show ?case by (auto simp: event_of_row_def split: option.split)
qed simp

definition sample_server :: server where
  "sample_server = \<lparr>sv_app = sample_app, sv_sync_token = Some ''sync'', sv_admin_token = ''admin'', sv_node_pubkey_hex = ''key'',
     sv_git_revision = None, sv_built_at = None, sv_register_json = rsp_node_url, sv_resolve = (\<lambda>h p. Inl ''none''),
     sv_guard_message = (\<lambda>e. []), sv_signing_message = (\<lambda>e. []), sv_status_text = (\<lambda>n. [])\<rparr>"

lemma sample_auth: "sync_auth sample_server (Some ''sync'') = Inr ()"
  by (simp add: sync_auth_def sample_server_def check_sync_token_def provided_token_def)

lemma long_log_page: "\<exists>page. get_events_since (ap_parse (sv_app sample_server)) (long_log n) a limit = Inr page"
  unfolding get_events_since_def by (rule rmap_total) (simp add: sample_server_def sample_app_def or_else_def split: option.split)

lemma long_log_after: "filter (\<lambda>r. er_seq r > 0) (t_events (long_log n)) = t_events (long_log n)"
  by (auto simp: filter_id_conv long_log_events)

section \<open>Properties of the sync endpoints\<close>

text \<open>
  C29: A reconciliation whose log fits in one answer (fewer than 10,000 events after the given number)
  sends exactly the events after the number that the node does not have, in order, and says that
  there are no more.
\<close>

theorem reconcile_sends_missing_events:
  assumes "sync_auth sv header = Inr ()" "length (rcq_have req) \<le> MAX_RECONCILE_HAVE" "events_ok s"
    and "get_events_since (ap_parse (sv_app sv)) s (rcq_since_seq req) MAX_RECONCILE_EVENTS = Inr page"
    and "length (filter (\<lambda>r. er_seq r > rcq_since_seq req) (t_events s)) < 10000"
  shows "\<exists>r. handle_sync_reconcile sv header req s = Inr r \<and> \<not> rcr_has_more r
    \<and> map ev_event_id (rcr_send_to_node r) = filter (\<lambda>i. i \<notin> fst ` set (rcq_have req))
        (map er_event_id (filter (\<lambda>r. er_seq r > rcq_since_seq req) (t_events s)))"
proof -
  let ?a = "rcq_since_seq req" and ?after = "filter (\<lambda>r. er_seq r > rcq_since_seq req) (t_events s)"
  obtain xs where "length xs \<le> 1" "filter (\<lambda>r. er_seq r \<ge> ?a) (t_events s) = xs @ ?after" using rows_from_number [OF assms(3)] by metis
  with assms(5) have few: "length (refs_from s ?a) \<le> 10000" by (simp add: refs_from_def)
  have "set (map er_event_id ?after) \<subseteq> fst ` set (refs_from s ?a)"
    by (force simp: refs_from_def)
  then have "filter (\<lambda>i. i \<in> fst ` set (refs_from s ?a) - H) (map er_event_id ?after) = filter (\<lambda>i. i \<notin> H) (map er_event_id ?after)" for H
    by (intro filter_cong) auto
  with reconcile_result [OF assms(1-4)] few assms(5) show ?thesis by (auto simp del: filter_map)
qed

lemma reconcile_sends_missing_events_witness:
  "\<exists>r. handle_sync_reconcile sample_server (Some ''sync'') \<lparr>rcq_node_pubkey = ''n'', rcq_have = [(''x'', 1)], rcq_since_seq = 0\<rparr> (long_log 2) = Inr r
    \<and> \<not> rcr_has_more r \<and> map ev_event_id (rcr_send_to_node r) = [''xx'']"
proof -
  let ?req = "\<lparr>rcq_node_pubkey = ''n'', rcq_have = [(''x'', 1)], rcq_since_seq = 0\<rparr>"
  obtain page where page: "get_events_since (ap_parse (sv_app sample_server)) (long_log 2) (rcq_since_seq ?req) MAX_RECONCILE_EVENTS = Inr page"
    using long_log_page by blast
  have rows: "map er_event_id (filter (\<lambda>r. er_seq r > rcq_since_seq ?req) (t_events (long_log 2))) = [''x'', ''xx'']"
    by (simp add: long_log_events numeral_2_eq_2)
  have "length (rcq_have ?req) \<le> MAX_RECONCILE_HAVE" by (simp add: MAX_RECONCILE_HAVE_def)
  moreover have "length (filter (\<lambda>r. er_seq r > rcq_since_seq ?req) (t_events (long_log 2))) < 10000"
    using arg_cong [OF rows, of length] by simp
  ultimately show ?thesis
    using reconcile_sends_missing_events [OF sample_auth _ long_log_ok page] unfolding rows by simp
qed

text \<open>
  C30: A longer log loses events: the answer says that there is more and names the number to go on
  from, up to 50,000 events ahead, but sends the first 10,000 only, so the events between are sent
  neither now nor by any later call that follows that number.
\<close>

theorem reconcile_skips_events:
  assumes "sync_auth sv header = Inr ()" "length (rcq_have req) \<le> MAX_RECONCILE_HAVE" "events_ok s"
    and "get_events_since (ap_parse (sv_app sv)) s (rcq_since_seq req) MAX_RECONCILE_EVENTS = Inr page"
    and "10000 < length (filter (\<lambda>r. er_seq r > rcq_since_seq req) (t_events s))"
    and "row = filter (\<lambda>r. er_seq r > rcq_since_seq req) (t_events s) ! 10000"
  shows "\<exists>r. handle_sync_reconcile sv header req s = Inr r \<and> rcr_has_more r
    \<and> rcq_since_seq req < er_seq row \<and> er_seq row \<le> rcr_next_seq r
    \<and> er_event_id row \<notin> ev_event_id ` set (rcr_send_to_node r)
    \<and> (\<forall>req2 r2. rcq_since_seq req2 \<ge> rcr_next_seq r \<longrightarrow> handle_sync_reconcile sv header req2 s = Inr r2
          \<longrightarrow> er_event_id row \<notin> ev_event_id ` set (rcr_send_to_node r2))"
proof -
  let ?a = "rcq_since_seq req" and ?from = "filter (\<lambda>r. er_seq r \<ge> rcq_since_seq req) (t_events s)"
  let ?after = "filter (\<lambda>r. er_seq r > rcq_since_seq req) (t_events s)"
  obtain r where run: "handle_sync_reconcile sv header req s = Inr r"
    and ids_sent: "map ev_event_id (rcr_send_to_node r) = filter (\<lambda>i. i \<in> fst ` set (take 50000 (refs_from s ?a)) - fst ` set (rcq_have req))
         (map er_event_id (take 10000 ?after))"
    and more: "rcr_has_more r" and at: "rcr_next_seq r = (if refs_from s ?a = [] then ?a else snd (last (take 50000 (refs_from s ?a))))"
    using reconcile_result [OF assms(1-4)] less_imp_le [OF assms(5)] by (auto simp del: filter_map)
  have "ev_event_id ` set (rcr_send_to_node r) = set (map ev_event_id (rcr_send_to_node r))" by (rule list.set_map [symmetric])
  then have sent: "ev_event_id ` set (rcr_send_to_node r) \<subseteq> er_event_id ` set (take 10000 ?after)"
    unfolding ids_sent list.set_map [symmetric] by (auto simp del: list.set_map filter_map)
  have row: "row \<in> set ?after" unfolding assms(6) by (rule nth_mem) (rule assms(5))
  then have row': "row \<in> set (t_events s)" "?a < er_seq row" by auto
  have ids: "inj_on er_event_id (set (t_events s))" and seqs: "sorted_wrt (<) (map er_seq (t_events s))"
    using assms(3) by (simp_all add: events_ok_def distinct_map)
  have "row \<notin> set (take 10000 ?after)"
  proof -
    have "distinct ?after" using seqs by (intro distinct_filter) (metis strict_sorted_iff distinct_map)
    then show ?thesis using assms(5,6) by (auto simp: in_set_conv_nth nth_eq_iff_index_eq)
  qed
  then have fresh: "er_event_id row \<notin> er_event_id ` set (take 10000 ?after)"
  proof (rule contrapos_nn)
    assume "er_event_id row \<in> er_event_id ` set (take 10000 ?after)"
    then obtain x where x: "er_event_id row = er_event_id x" "x \<in> set (take 10000 ?after)" by (rule imageE)
    from inj_onD [OF ids x(1) row'(1)] in_set_takeD [OF x(2)] have same: "row = x" by simp
    show "row \<in> set (take 10000 ?after)" unfolding same by (rule x(2))
  qed
  have reached: "er_seq row \<le> rcr_next_seq r"
  proof -
    obtain xs where xs: "length xs \<le> 1" "?from = xs @ ?after" using rows_from_number [OF assms(3)] by metis
    have "row \<in> set (take 50000 ?from)"
      unfolding assms(6) xs(2) by (rule nth_in_take [OF assms(5)]) (use xs(1) in simp)
    then have mem: "er_seq row \<in> snd ` set (take 50000 (refs_from s ?a))" by (force simp: refs_from_def take_map)
    then have ne: "refs_from s ?a \<noteq> []" by auto
    have "sorted_wrt (<) (map snd (take 50000 (refs_from s ?a)))"
      using refs_from_seqs [OF assms(3)] by (metis sorted_wrt_take take_map)
    from Max_last [OF this] ne Max_ge [OF _ mem] at show ?thesis by simp
  qed
  have later: "er_event_id row \<notin> ev_event_id ` set (rcr_send_to_node r2)"
    if "rcq_since_seq req2 \<ge> rcr_next_seq r" "handle_sync_reconcile sv header req2 s = Inr r2" for req2 r2
  proof
    assume "er_event_id row \<in> ev_event_id ` set (rcr_send_to_node r2)"
    then obtain e where e: "er_event_id row = ev_event_id e" "e \<in> set (rcr_send_to_node r2)" by (rule imageE)
    from reconcile_rows [OF assms(3) that(2) e(2)] e(1) obtain x where
      x: "x \<in> set (t_events s)" "er_event_id row = er_event_id x" "er_seq x > rcq_since_seq req2" by auto
    from inj_onD [OF ids x(2) row'(1) x(1)] x(3) reached that(1) show False by simp
  qed
  have unsent: "er_event_id row \<notin> ev_event_id ` set (rcr_send_to_node r)" using sent fresh by (rule contra_subsetD)
  show ?thesis using run more row'(2) reached unsent later by blast
qed

lemma reconcile_skips_events_witness:
  "\<exists>r. handle_sync_reconcile sample_server (Some ''sync'') \<lparr>rcq_node_pubkey = ''n'', rcq_have = [], rcq_since_seq = 0\<rparr> (long_log 10001) = Inr r
    \<and> rcr_has_more r \<and> replicate 10001 CHR ''x'' \<notin> ev_event_id ` set (rcr_send_to_node r)"
proof -
  let ?req = "\<lparr>rcq_node_pubkey = ''n'', rcq_have = [], rcq_since_seq = 0\<rparr>"
  obtain page where page: "get_events_since (ap_parse (sv_app sample_server)) (long_log 10001) (rcq_since_seq ?req) MAX_RECONCILE_EVENTS = Inr page"
    using long_log_page by blast
  have rows: "filter (\<lambda>r. er_seq r > rcq_since_seq ?req) (t_events (long_log 10001)) = t_events (long_log 10001)"
    using long_log_after by simp
  have nth: "er_event_id (t_events (long_log 10001) ! 10000) = replicate 10001 CHR ''x''"
    unfolding long_log_events by (subst nth_map) (simp_all del: upt_Suc replicate.simps replicate_Suc)
  have len: "10000 < length (t_events (long_log 10001))" by (simp add: long_log_events del: upt_Suc)
  show ?thesis
    using reconcile_skips_events [OF sample_auth _ long_log_ok page, unfolded rows, OF _ len refl] unfolding nth by auto
qed

section \<open>Clock skew\<close>

lemma skew_within:
  assumes "0 \<le> now" "now < 2 ^ 62" "is_i64 signed_at"
  shows "i64_abs (i64_sub now signed_at) \<le> 600 \<longleftrightarrow> \<bar>now - signed_at\<bar> \<le> 600 \<or> now - signed_at = 2 ^ 63"
proof -
  define d where "d = now - signed_at"
  have range: "- (2 ^ 63) < d" "d < 2 ^ 62 + 2 ^ 63 + 1" using assms by (simp_all add: d_def is_i64_def i64_min_def i64_max_def)
  show ?thesis
  proof (cases "d < 2 ^ 63")
    case True
    then have "i64_wrap d = d" "i64_wrap \<bar>d\<bar> = \<bar>d\<bar>" using range
      by (auto intro!: i64_wrap_id simp: is_i64_def i64_min_def i64_max_def)
    with True show ?thesis by (simp add: i64_abs_def i64_sub_def d_def)
  next
    case False
    have wrapped: "i64_wrap d = d - 2 ^ 64"
    proof -
      have "(d + 2 ^ 63) mod 2 ^ 64 = (d + 2 ^ 63 - 2 ^ 64) mod 2 ^ 64" using minus_mod_self2 [of "d + 2 ^ 63" "2 ^ 64"] by presburger
      also have "\<dots> = d + 2 ^ 63 - 2 ^ 64" using False range by (intro mod_pos_pos_trivial) simp_all
      finally show ?thesis by (simp add: i64_wrap_def)
    qed
    show ?thesis
    proof (cases "d = 2 ^ 63")
      case True
      have "i64_wrap (- (2 ^ 63)) = - (2 ^ 63)" "i64_wrap (2 ^ 63) = - (2 ^ 63)" by (simp_all add: i64_wrap_def)
      with True wrapped show ?thesis by (simp add: i64_abs_def i64_sub_def d_def)
    next
      case other: False
      then have "i64_wrap \<bar>d - 2 ^ 64\<bar> = \<bar>d - 2 ^ 64\<bar>" using False range
        by (intro i64_wrap_id) (auto simp: is_i64_def i64_min_def i64_max_def)
      with other False range wrapped show ?thesis by (simp add: i64_abs_def i64_sub_def d_def)
    qed
  qed
qed

section \<open>Failures of a peer\<close>

definition peer_failures :: "db \<Rightarrow> string \<Rightarrow> int option" where
  "peer_failures s k = map_option pn_consecutive_failures (lookup_by pn_node_pubkey (t_peer_nodes s) k)"

lemma failures_updated:
  "peer_failures (increment_peer_failures k s) k = map_option (\<lambda>n. n + 1) (peer_failures s k)"
  "peer_failures (record_push_success k now s) k = map_option (\<lambda>n. 0) (peer_failures s k)"
  by (simp_all add: peer_failures_def increment_peer_failures_def record_push_success_def lookup_update_where option.map_comp comp_def
      del: lookup_by_None)

lemma push_failure_result:
  assumes "peer_failures s k = Some n"
  shows "handle_push_failure k (s, subs) = (increment_peer_failures k s, if n + 1 \<ge> 10 then subs(k := None) else subs)"
    and "peer_failures (increment_peer_failures k s) k = Some (n + 1)"
proof -
  show next_n: "peer_failures (increment_peer_failures k s) k = Some (n + 1)" by (simp add: failures_updated assms)
  have "(case lookup_by pn_node_pubkey (t_peer_nodes s1) k of None \<Rightarrow> 0 | Some p \<Rightarrow> pn_consecutive_failures p)
      = (case peer_failures s1 k of None \<Rightarrow> 0 | Some m \<Rightarrow> m)" for s1
    by (simp add: peer_failures_def split: option.split del: lookup_by_None)
  then show "handle_push_failure k (s, subs) = (increment_peer_failures k s, if n + 1 \<ge> 10 then subs(k := None) else subs)"
    by (simp add: handle_push_failure_def Let_def next_n PUSH_EVICTION_THRESHOLD_def MAX_PEER_FAILURES_def)
qed

lemma attempts_fail:
  assumes "\<forall>a<n. case post (i + a) of Success _ \<Rightarrow> False | _ \<Rightarrow> True"
  shows "push_attempts n i post k st = (False, st)"
  using assms
proof (induction n arbitrary: i)
  case (Suc n)
  have "\<forall>a<n. case post (Suc i + a) of Success _ \<Rightarrow> False | _ \<Rightarrow> True" using Suc.prems by (metis Suc_less_eq add_Suc_shift)
  from Suc.IH [OF this] spec [OF Suc.prems, of 0] show ?case by (auto split: push_reply.splits)
qed simp

lemma attempts_answer:
  "post i = Success (Some r) \<Longrightarrow> push_attempts (Suc n) i post k st =
     (if psr_rejected r > 0 then (False, handle_push_failure k st) else (True, st))"
  by (simp add: check_push_response_rejections_def)

text \<open>
  What one push counts against a peer: an unreachable peer, after three attempts, one failure; a
  success resets the count; but a peer that answers with rejected events two failures, one for the
  answer and one for the push. A peer is dropped from the cache at ten, so after five such answers.
\<close>

theorem push_counts_failures:
  assumes "peer_failures s k = Some n" "url_parse u = Some parsed" "is_url_ssrf_safe resolve parsed"
    and "push_to_peer url_parse resolve now post (k, u) (s, subs) = (s', subs')"
  shows "((\<forall>a<3. case post u a of Success _ \<Rightarrow> False | _ \<Rightarrow> True) \<longrightarrow>
      peer_failures s' k = Some (n + 1) \<and> subs' = (if n + 1 \<ge> 10 then subs(k := None) else subs))
    \<and> (\<forall>r. post u 0 = Success (Some r) \<longrightarrow>
      (if psr_rejected r = 0 then peer_failures s' k = Some 0 \<and> subs' = subs
       else peer_failures s' k = Some (n + 2) \<and> subs' = (if n + 2 \<ge> 10 then subs(k := None) else subs)))"
proof (intro conjI impI allI)
  note once = push_failure_result [OF assms(1)]
  have twice: "peer_failures (increment_peer_failures k (increment_peer_failures k s)) k = Some (n + 2)"
    "handle_push_failure k (increment_peer_failures k s, subs1)
      = (increment_peer_failures k (increment_peer_failures k s), if n + 2 \<ge> 10 then subs1(k := None) else subs1)" for subs1
    using push_failure_result [OF once(2)] by (simp_all add: algebra_simps)
  have attempts: "push_attempts PUSH_MAX_ATTEMPTS 0 post' k st = push_attempts (Suc 2) 0 post' k st" for post' st
    by (simp add: PUSH_MAX_ATTEMPTS_def numeral_3_eq_3 numeral_2_eq_2)
  {
    assume "\<forall>a<3. case post u a of Success _ \<Rightarrow> False | _ \<Rightarrow> True"
    then have "push_attempts PUSH_MAX_ATTEMPTS 0 (post u) k (s, subs) = (False, s, subs)"
      unfolding PUSH_MAX_ATTEMPTS_def by (intro attempts_fail) simp
    with assms(2-4) once show "peer_failures s' k = Some (n + 1)" "subs' = (if n + 1 \<ge> 10 then subs(k := None) else subs)"
      by (auto simp: push_to_peer_def)
  }
  fix r
  assume "post u 0 = Success (Some r)"
  from attempts_answer [of "post u" 0, OF this] have res: "push_attempts PUSH_MAX_ATTEMPTS 0 (post u) k (s, subs) =
      (if psr_rejected r > 0 then (False, handle_push_failure k (s, subs)) else (True, s, subs))"
    unfolding attempts .
  show "if psr_rejected r = 0 then peer_failures s' k = Some 0 \<and> subs' = subs
     else peer_failures s' k = Some (n + 2) \<and> subs' = (if n + 2 \<ge> 10 then subs(k := None) else subs)"
  proof (cases "psr_rejected r = 0")
    case True
    with assms(1-4) res show ?thesis by (auto simp: push_to_peer_def failures_updated)
  next
    case False
    with assms(2-4) res have "(s', subs') = handle_push_failure k (handle_push_failure k (s, subs))" by (simp add: push_to_peer_def)
    with False show ?thesis unfolding once(1) twice(2) using twice(1) by simp
  qed
qed

definition sample_peer_db :: db where
  "sample_peer_db = upsert_peer_node ''peer'' ''https://93.184.216.34/sync/push'' 5 empty_db"

lemma push_counts_failures_witness:
  "peer_failures (fst (push_to_peer (\<lambda>u. Some \<lparr>ur_scheme = ''https'', ur_username = [], ur_password = None, ur_host_str = Some ''93.184.216.34'',
       ur_port_or_known_default = None\<rparr>) (\<lambda>h p. Inl []) 9 (\<lambda>u a. Success (Some \<lparr>psr_applied = 1, psr_rejected = 1, psr_duplicate = 0\<rparr>))
     (''peer'', ''u'') (sample_peer_db, [''peer'' \<mapsto> ''u'']))) ''peer'' = Some 2"
proof -
  let ?parse = "\<lambda>u :: string. Some \<lparr>ur_scheme = ''https'', ur_username = [], ur_password = None, ur_host_str = Some ''93.184.216.34'',
       ur_port_or_known_default = None\<rparr>" and ?post = "\<lambda>(u :: string) (a :: nat). Success (Some \<lparr>psr_applied = 1, psr_rejected = 1, psr_duplicate = 0\<rparr>)"
  obtain s' subs' where run: "push_to_peer ?parse (\<lambda>h p. Inl []) 9 ?post (''peer'', ''u'') (sample_peer_db, [''peer'' \<mapsto> ''u'']) = (s', subs')"
    by force
  have "peer_failures sample_peer_db ''peer'' = Some 0" by code_simp
  moreover have "is_url_ssrf_safe (\<lambda>h p. Inl []) (the (?parse []))" by code_simp
  ultimately have "peer_failures s' ''peer'' = Some 2" using push_counts_failures [OF _ refl _ run] by simp
  then show ?thesis by (simp only: run fst_conv)
qed

text \<open>
  A registration is refused for its clock exactly when it is signed more than 600 seconds away from
  the primary's clock, with one exception: a time 2 to the 63 seconds before it passes, because the
  absolute value of the wrapped difference is negative.
\<close>

theorem register_skew_check:
  assumes "sync_auth sv header = Inr ()" "rgq_signed_at req = Some signed_at" "rgq_signature req = Some sig"
    and "0 \<le> now" "now < 2 ^ 62" "is_i64 signed_at"
  shows "(\<exists>e. register_checks sv nc now header req = Inl e \<and> ae_status e = 400)
    \<longleftrightarrow> \<bar>now - signed_at\<bar> > 600 \<and> now - signed_at \<noteq> 2 ^ 63"
proof -
  have other: "ae_status e \<noteq> 400" if "verify_sync_register_target sv nc u k = Inl e" for u k e
    using that by (auto simp: verify_sync_register_target_def api_error_def split: sum.splits option.splits if_splits)
  show ?thesis
    using skew_within [OF assms(4-6)] other
    by (auto simp: register_checks_def assms(1-3) Let_def SYNC_REGISTER_MAX_SKEW_SECS_def api_error_def not_le split: sum.splits)
qed

definition sample_client :: node_client where
  "sample_client = \<lparr>nc_url_path = Inr, nc_with_path = (\<lambda>u p. u @ p), nc_get_info = (\<lambda>u a. Inl [])\<rparr>"

lemma register_skew_check_witness:
  "(\<exists>e. register_checks sample_server sample_client 1000 (Some ''sync'') \<lparr>rgq_node_pubkey = ''n'', rgq_node_url = ''u'', rgq_signed_at = Some 399,
      rgq_signature = Some ''s''\<rparr> = Inl e \<and> ae_status e = 400)"
  using register_skew_check [OF sample_auth, of "\<lparr>rgq_node_pubkey = ''n'', rgq_node_url = ''u'', rgq_signed_at = Some 399,
      rgq_signature = Some ''s''\<rparr>" 399 "''s''" 1000 sample_client]
  by (simp add: is_i64_def i64_min_def i64_max_def)

end
