(* ===== verification/Polled.thy ===== *)
theory Polled
  imports Community Served Delivery
begin

text \<open>
  What a community node gets from polling: every event of the primary in the end, if it polls only; what
  a push that came early makes it lose; and that no unsigned event enters its log.
\<close>

section \<open>The cursor of a batch\<close>

lemma batch_loop_max:
  assumes "apply_batch_loop nd now b evs s = (Inr b', s')"
  shows "ba_max_primary_seq b' \<in> insert (ba_max_primary_seq b) (ev_seq ` set evs)"
    and "ba_max_primary_seq b \<le> ba_max_primary_seq b'"
    and "as_applied (ba_summary b) < as_applied (ba_summary b') \<Longrightarrow> \<exists>ev\<in>set evs. ev_seq ev \<le> ba_max_primary_seq b'"
  using assms
proof (induction evs arbitrary: b s)
  case (Cons ev evs)
  {
    case 1
    from 1 show ?case
      by (auto simp: Let_def max_def note_applied_def note_duplicate_def note_rejected_def dest!: Cons.IH(1)
          split: option.splits prod.splits sum.splits apply_outcome.splits if_splits)
  next
    case 2
    from 2 show ?case
      by (auto simp: Let_def note_applied_def note_duplicate_def note_rejected_def dest!: Cons.IH(2)
          split: option.splits prod.splits sum.splits apply_outcome.splits)
  next
    case 3
    obtain r s1 where run: "apply_single_event_inner nd now ev s = (r, s1)" by force
    from 3(2) obtain p where p: "deserialize_verified_payload nd ev = Some p" by (auto split: option.splits)
    consider (applied) n where "r = Inr (Applied n)" | (other) b1 where
      "apply_batch_loop nd now b1 evs s1 = (Inr b', s')" "as_applied (ba_summary b1) = as_applied (ba_summary b)"
      using 3(2) run p
      by (cases r; cases "projr r") (auto simp: Let_def note_duplicate_def note_rejected_def)
    then show ?case
    proof cases
      case applied
      with 3(2) run p have "apply_batch_loop nd now (note_applied ev n (note_live_diff s p b)) evs s1 = (Inr b', s')" by (simp add: Let_def)
      from Cons.IH(2) [OF this] have "ev_seq ev \<le> ba_max_primary_seq b'" by (simp add: note_applied_def)
      then show ?thesis by simp
    next
      case other
      with Cons.IH(3) [OF _ other(1)] 3(1) show ?thesis by auto
    qed
  }
qed (simp_all add: dret_def)

lemma cursor_after_batch:
  assumes "apply_batch nd now evs s = (Inr b, s')"
  shows "get_node_sync_cursor s' SYNC_CURSOR_KEY =
    (if ba_max_primary_seq b > 0 then max (get_node_sync_cursor s SYNC_CURSOR_KEY) (ba_max_primary_seq b)
     else get_node_sync_cursor s SYNC_CURSOR_KEY)"
proof -
  obtain s1 where s1: "apply_batch_loop nd now empty_batch evs s = (Inr b, s1)"
    and s': "s' = (if ba_max_primary_seq b > 0 then upsert_node_sync_state SYNC_CURSOR_KEY (ba_max_primary_seq b) now s1 else s1)"
    using assms by (auto simp: apply_batch_Inr)
  have "t_node_sync_state s1 = t_node_sync_state s" using batch_loop_cursor [of nd now empty_batch evs s] s1 by simp
  then show ?thesis
    by (auto simp: s' cursor_upsert) (auto simp: get_node_sync_cursor_def split: option.splits simp del: lookup_by_None)
qed

text \<open>The cursor after a batch of events: the old one or the number of one of the events.\<close>

lemma cursor_after_events:
  assumes "apply_events nd now evs (s, reg) = (summary, s', reg')"
  shows "get_node_sync_cursor s' SYNC_CURSOR_KEY \<in> insert (get_node_sync_cursor s SYNC_CURSOR_KEY) (ev_seq ` set evs)"
    and "get_node_sync_cursor s SYNC_CURSOR_KEY \<le> get_node_sync_cursor s' SYNC_CURSOR_KEY"
    and "as_applied summary > 0 \<Longrightarrow> \<forall>ev\<in>set evs. 0 < ev_seq ev \<Longrightarrow>
      \<exists>ev\<in>set evs. ev_seq ev \<le> get_node_sync_cursor s' SYNC_CURSOR_KEY"
proof -
  let ?v = "filter (is_verified nd) evs"
  obtain r s1 where run: "apply_batch nd now ?v s = (r, s1)" by force
  have s': "s' = (if ?v = [] then s else s1)" using apply_events_db [of nd now evs s reg] assms run by simp
  show ge: "get_node_sync_cursor s SYNC_CURSOR_KEY \<le> get_node_sync_cursor s' SYNC_CURSOR_KEY"
    using batch_cursor_ge [of s SYNC_CURSOR_KEY nd now ?v] run s' by simp
  consider (none) "?v = []" | (failed) e where "?v \<noteq> []" "r = Inl e" | (ok) b where "?v \<noteq> []" "r = Inr b" by (cases r) auto
  then have both: "get_node_sync_cursor s' SYNC_CURSOR_KEY \<in> insert (get_node_sync_cursor s SYNC_CURSOR_KEY) (ev_seq ` set evs)
    \<and> (as_applied summary > 0 \<longrightarrow> (\<forall>ev\<in>set evs. 0 < ev_seq ev) \<longrightarrow> (\<exists>ev\<in>set evs. ev_seq ev \<le> get_node_sync_cursor s' SYNC_CURSOR_KEY))"
  proof cases
    case none
    with assms s' show ?thesis by (auto simp: apply_events_def Let_def empty_summary_def)
  next
    case failed
    then have "s1 = s" using run unfolding apply_batch_def by (auto dest: dtransaction_error)
    moreover have "as_applied summary = 0" using assms run failed by (auto simp: apply_events_def Let_def empty_summary_def)
    ultimately show ?thesis using s' by simp
  next
    case ok
    note run' = run [unfolded ok(2)]
    obtain s0 where loop: "apply_batch_loop nd now empty_batch ?v s = (Inr b, s0)" using run' by (auto simp: apply_batch_Inr)
    have applied: "as_applied summary = as_applied (ba_summary b)"
      using assms run' ok(1) by (auto simp: apply_events_def Let_def)
    have cur: "get_node_sync_cursor s' SYNC_CURSOR_KEY = (if ba_max_primary_seq b > 0
        then max (get_node_sync_cursor s SYNC_CURSOR_KEY) (ba_max_primary_seq b) else get_node_sync_cursor s SYNC_CURSOR_KEY)"
      using cursor_after_batch [OF run'] s' ok(1) by simp
    have mem: "ba_max_primary_seq b = 0 \<or> ba_max_primary_seq b \<in> ev_seq ` set evs"
      using batch_loop_max(1) [OF loop] by (auto simp: empty_batch_def)
    have some: "\<exists>ev\<in>set evs. ev_seq ev \<le> ba_max_primary_seq b" if "as_applied summary > 0"
      using batch_loop_max(3) [OF loop] that applied by (auto simp: empty_batch_def empty_summary_def)
    show ?thesis
    proof (cases "ba_max_primary_seq b > 0")
      case True
      with cur mem some show ?thesis by (fastforce simp: max_def)
    next
      case False
      with cur some show ?thesis by (fastforce simp: not_less)
    qed
  qed
  then show "get_node_sync_cursor s' SYNC_CURSOR_KEY \<in> insert (get_node_sync_cursor s SYNC_CURSOR_KEY) (ev_seq ` set evs)"
    and "as_applied summary > 0 \<Longrightarrow> \<forall>ev\<in>set evs. 0 < ev_seq ev \<Longrightarrow>
      \<exists>ev\<in>set evs. ev_seq ev \<le> get_node_sync_cursor s' SYNC_CURSOR_KEY" by blast+
qed

section \<open>An honest primary\<close>

text \<open>
  A connection that, when it answers a request for the events after one of the numbers \<open>A\<close>, gives what
  the primary's handler gives on the log of \<open>prim\<close>; and one that does answer.
\<close>

definition honest :: "community \<Rightarrow> server \<Rightarrow> db \<Rightarrow> int set \<Rightarrow> net \<Rightarrow> bool" where
  "honest cm sv prim A net \<longleftrightarrow> (\<forall>a\<in>A. \<forall>r. poll_once net (cm_primary_url cm) a (cm_sync_token cm) = Inr r \<longrightarrow>
     handle_sync_events sv (cm_sync_token cm) \<lparr>seq_after_seq = a, seq_limit = Some 500\<rparr> prim = Inr r)"

definition answers :: "community \<Rightarrow> int set \<Rightarrow> net \<Rightarrow> bool" where
  "answers cm A net \<longleftrightarrow> (\<forall>a\<in>A. \<exists>r. poll_once net (cm_primary_url cm) a (cm_sync_token cm) = Inr r)"

text \<open>The rows of the primary's log decode, verify on the node, and are numbered from one on.\<close>

definition log_sound :: "community \<Rightarrow> server \<Rightarrow> db \<Rightarrow> bool" where
  "log_sound cm sv prim \<longleftrightarrow> events_ok prim \<and> (\<forall>r\<in>set (t_events prim). 0 < er_seq r
     \<and> (\<exists>ev. event_of_row (ap_parse (sv_app sv)) r = Inr ev \<and> is_verified (cm_node cm) ev \<and> decodable (cm_node cm) ev))"

definition log_ids :: "db \<Rightarrow> string set" where
  "log_ids s = er_event_id ` set (t_events s)"

definition rows_after :: "db \<Rightarrow> int \<Rightarrow> event_row list" where
  "rows_after prim a = filter (\<lambda>r. er_seq r > a) (t_events prim)"

lemma rmap_members:
  "rmap f xs = Inr ys \<Longrightarrow> y \<in> set ys \<Longrightarrow> \<exists>x\<in>set xs. f x = Inr y"
  by (induction xs arbitrary: ys) (auto simp: rbind_eq_Inr)

lemma honest_page:
  assumes "log_sound cm sv prim"
    and "handle_sync_events sv header \<lparr>seq_after_seq = a, seq_limit = Some 500\<rparr> prim = Inr r"
  shows "map ev_event_id (ser_events r) = map er_event_id (take 500 (rows_after prim a))"
    and "map ev_seq (ser_events r) = map er_seq (take 500 (rows_after prim a))"
    and "list_all (is_verified (cm_node cm)) (ser_events r)" and "list_all (decodable (cm_node cm)) (ser_events r)"
    and "ser_next_seq r = (if ser_events r = [] then a else ev_seq (last (ser_events r)))"
proof -
  have page: "get_events_since (ap_parse (sv_app sv)) prim a 500 = Inr (ser_events r)"
    and next_at: "ser_next_seq r = (if ser_events r = [] then a else ev_seq (last (ser_events r)))"
    using assms(2) by (auto simp: handle_sync_events_def rbind_eq_Inr clamp_def db_result_def Let_def split: sum.splits)
  have ok: "events_ok prim" using assms(1) by (simp add: log_sound_def)
  show "map ev_event_id (ser_events r) = map er_event_id (take 500 (rows_after prim a))"
    "map ev_seq (ser_events r) = map er_seq (take 500 (rows_after prim a))"
    using page_rows [OF ok page] by (simp_all add: rows_after_def)
  have "is_verified (cm_node cm) ev \<and> decodable (cm_node cm) ev" if "ev \<in> set (ser_events r)" for ev
  proof -
    have "rmap (event_of_row (ap_parse (sv_app sv))) (event_rows_since prim a 500) = Inr (ser_events r)"
      using page by (simp add: get_events_since_def)
    from rmap_members [OF this that] obtain x where "x \<in> set (event_rows_since prim a 500)"
      and x: "event_of_row (ap_parse (sv_app sv)) x = Inr ev" by blast
    then have "x \<in> set (t_events prim)" by (auto simp: rows_since [OF ok] dest: in_set_takeD)
    with assms(1) x show ?thesis by (auto simp: log_sound_def)
  qed
  then show "list_all (is_verified (cm_node cm)) (ser_events r)" "list_all (decodable (cm_node cm)) (ser_events r)"
    by (simp_all add: list_all_iff)
  show "ser_next_seq r = (if ser_events r = [] then a else ev_seq (last (ser_events r)))" by (rule next_at)
qed

lemma dedupe_loop_covers: "key ` set xs \<subseteq> set seen \<union> key ` set (dedupe_loop key seen xs)"
  by (induction key seen xs rule: dedupe_loop.induct) auto

lemma dedupe_loop_members: "set (dedupe_loop key seen xs) \<subseteq> set xs"
  by (induction key seen xs rule: dedupe_loop.induct) auto

lemma ids_after_events:
  assumes "list_all (is_verified nd) evs" "list_all (decodable nd) evs"
    and "apply_events nd now evs (s, reg) = (summary, s', reg')"
  shows "log_ids s' = log_ids s \<union> ev_event_id ` set evs"
proof -
  have all: "filter (is_verified nd) evs = evs" using assms(1) by (simp add: filter_id_conv list_all_iff)
  have "t_events s' = t_events s @ rows_from (next_seq s) (unknown_events s evs)"
    using log_after_batch [of nd now evs s reg] assms(2,3) by (simp add: all)
  then have "log_ids s' = log_ids s \<union> ev_event_id ` set (unknown_events s evs)"
    using arg_cong [OF rows_from_ids, of set "next_seq s" "unknown_events s evs"] by (simp add: log_ids_def image_Un)
  moreover have "ev_event_id ` set (unknown_events s evs) \<subseteq> ev_event_id ` set evs"
    unfolding unknown_events_def by (rule image_mono) (rule dedupe_loop_members)
  moreover have "ev_event_id ` set evs \<subseteq> log_ids s \<union> ev_event_id ` set (unknown_events s evs)"
    using dedupe_loop_covers [of ev_event_id evs "map er_event_id (t_events s)"] by (simp add: unknown_events_def log_ids_def)
  ultimately show ?thesis by blast
qed

lemma new_ids_of_events:
  "log_ids (fst (snd (apply_events nd now evs (s, reg)))) \<subseteq> log_ids s \<union> ev_event_id ` set evs"
proof -
  have "er_event_id ` set (rows_from n xs) = ev_event_id ` set xs" for n xs
    using arg_cong [OF rows_from_ids, of set n xs] by simp
  moreover have "ev_event_id ` set (unknown_events s (filter (is_verified nd) evs)) \<subseteq> ev_event_id ` set evs"
    unfolding unknown_events_def using dedupe_loop_members [of ev_event_id _ "filter (is_verified nd) evs"] by fastforce
  ultimately show ?thesis by (auto simp: log_after_batch log_ids_def image_Un)
qed

section \<open>One page\<close>

lemma last_greatest: "sorted_wrt (<) (map f xs) \<Longrightarrow> x \<in> set xs \<Longrightarrow> f x \<le> (f (last xs) :: int)"
  by (induction xs) (auto intro: less_imp_le)

text \<open>What a page of the honest primary does to the log, the stored cursor and the cursor in memory.\<close>

lemma page_effect:
  assumes "log_sound cm sv prim"
    and "handle_sync_events sv header \<lparr>seq_after_seq = c, seq_limit = Some 500\<rparr> prim = Inr r"
    and "apply_page cm now r (c, s, reg) = (c', s', reg')"
  defines "page \<equiv> take 500 (rows_after prim c)"
  shows "log_ids s' = log_ids s \<union> er_event_id ` set page"
    and "get_node_sync_cursor s' SYNC_CURSOR_KEY \<in> insert (get_node_sync_cursor s SYNC_CURSOR_KEY) (er_seq ` set page)"
    and "c' \<in> insert c (insert (get_node_sync_cursor s SYNC_CURSOR_KEY) (er_seq ` set page))"
    and "c \<le> c'" and "page \<noteq> [] \<Longrightarrow> c < c'"
    and "get_node_sync_cursor s SYNC_CURSOR_KEY \<le> c \<Longrightarrow> get_node_sync_cursor s' SYNC_CURSOR_KEY \<le> c'"
proof -
  note h = honest_page [OF assms(1,2), folded page_def]
  have seqs: "ev_seq ` set (ser_events r) = er_seq ` set page" and ids: "ev_event_id ` set (ser_events r) = er_event_id ` set page"
    using arg_cong [OF h(2), of set] arg_cong [OF h(1), of set] by simp_all
  have none: "ser_events r = [] \<longleftrightarrow> page = []" using arg_cong [OF h(1), of length] by auto
  have pos: "\<forall>ev\<in>set (ser_events r). 0 < ev_seq ev \<and> c < ev_seq ev"
  proof
    fix ev assume "ev \<in> set (ser_events r)"
    then have "ev_seq ev \<in> er_seq ` set page" using seqs by blast
    then obtain x where "x \<in> set page" "ev_seq ev = er_seq x" by blast
    then show "0 < ev_seq ev \<and> c < ev_seq ev"
      using assms(1) by (auto simp: page_def rows_after_def log_sound_def dest!: in_set_takeD)
  qed
  let ?k = "\<lambda>s. get_node_sync_cursor s SYNC_CURSOR_KEY"
  consider (empty) "page = []" "ser_events r = []" | (applied) summary where "page \<noteq> []" "ser_events r \<noteq> []"
      "apply_events (cm_node cm) now (ser_events r) (s, reg) = (summary, s', reg')" "as_applied summary > 0" "c' = max c (?k s')"
    | (known) summary where "page \<noteq> []" "ser_events r \<noteq> []"
      "apply_events (cm_node cm) now (ser_events r) (s, reg) = (summary, s', reg')" "c' = max c (ev_seq (last (ser_events r)))"
  proof (cases "page = []")
    case False
    then have ne: "ser_events r \<noteq> []" using none by simp
    obtain sm s1 reg1 where run: "apply_events (cm_node cm) now (ser_events r) (s, reg) = (sm, s1, reg1)" by (rule prod_cases3)
    have eq: "(c', s', reg') = (if as_applied sm > 0 then (max c (?k s1), s1, reg1) else (max c (ser_next_seq r), s1, reg1))"
      using assms(3) ne by (auto simp: apply_page_def run split: if_splits)
    from eq have same: "s' = s1" "reg' = reg1" by (simp_all split: if_splits)
    show thesis
    proof (cases "as_applied sm > 0")
      case True
      with eq have "c' = max c (?k s')" by simp
      with False ne run True same show thesis by (intro that(2) [of sm]) simp_all
    next
      case none_applied: False
      with eq ne h(5) have "c' = max c (ev_seq (last (ser_events r)))" by simp
      with False ne run same show thesis by (intro that(3) [of sm]) simp_all
    qed
  qed (use none that(1) in simp)
  then have "log_ids s' = log_ids s \<union> er_event_id ` set page \<and> ?k s' \<in> insert (?k s) (er_seq ` set page)
    \<and> c' \<in> insert c (insert (?k s) (er_seq ` set page)) \<and> c \<le> c' \<and> (page \<noteq> [] \<longrightarrow> c < c') \<and> (?k s \<le> c \<longrightarrow> ?k s' \<le> c')"
  proof cases
    case empty
    with assms(3) h(5) show ?thesis by (auto simp: apply_page_def)
  next
    case applied
    note cursor = cursor_after_events [OF applied(3)]
    have "\<exists>ev\<in>set (ser_events r). ev_seq ev \<le> ?k s'" using cursor(3) [OF applied(4)] pos by blast
    then have "c < ?k s'" using pos by fastforce
    with applied cursor(1) ids_after_events [OF h(3,4) applied(3)] seqs ids show ?thesis by auto
  next
    case known
    note cursor = cursor_after_events [OF known(3)]
    have "last (ser_events r) \<in> set (ser_events r)" using known(2) by simp
    then have "c < ev_seq (last (ser_events r))" and mem: "ev_seq (last (ser_events r)) \<in> er_seq ` set page" using pos seqs by auto
    moreover have "ev_seq ev \<le> ev_seq (last (ser_events r))" if "ev \<in> set (ser_events r)" for ev
    proof -
      have "sorted_wrt (<) (map er_seq page)"
        using assms(1) sorted_filter_seq [of "t_events prim"] by (simp add: page_def rows_after_def log_sound_def events_ok_def take_map [symmetric] sorted_wrt_take)
      then have "sorted_wrt (<) (map ev_seq (ser_events r))" unfolding h(2) .
      then show ?thesis using that by (rule last_greatest)
    qed
    then have "?k s \<le> c \<Longrightarrow> ?k s' \<le> ev_seq (last (ser_events r))"
      using cursor(1) \<open>c < ev_seq (last (ser_events r))\<close> by auto
    ultimately show ?thesis using known cursor(1) ids_after_events [OF h(3,4) known(3)] seqs ids by auto
  qed
  then show "log_ids s' = log_ids s \<union> er_event_id ` set page"
    and "get_node_sync_cursor s' SYNC_CURSOR_KEY \<in> insert (get_node_sync_cursor s SYNC_CURSOR_KEY) (er_seq ` set page)"
    and "c' \<in> insert c (insert (get_node_sync_cursor s SYNC_CURSOR_KEY) (er_seq ` set page))"
    and "c \<le> c'" and "page \<noteq> [] \<Longrightarrow> c < c'"
    and "get_node_sync_cursor s SYNC_CURSOR_KEY \<le> c \<Longrightarrow> get_node_sync_cursor s' SYNC_CURSOR_KEY \<le> c'" by blast+
qed

section \<open>Draining\<close>

lemma drain_keeps:
  assumes "\<And>p r st. I st \<Longrightarrow> poll_once (nets p) (cm_primary_url cm) (fst st) (cm_sync_token cm) = Inr r \<Longrightarrow> I (apply_page cm (clock p) r st)"
  shows "I st \<Longrightarrow> I (drain cm nets clock k st)"
  using assms
proof (induction cm nets clock k st rule: drain.induct)
  case (1 cm nets clock k st)
  show ?case
  proof (cases "poll_once (nets k) (cm_primary_url cm) (fst st) (cm_sync_token cm)")
    case (Inr r)
    then have "I (apply_page cm (clock k) r st)" using "1.prems" by blast
    with Inr "1.IH" [OF Inr refl] "1.prems"(2) show ?thesis by (subst drain.simps) (simp add: Let_def)
  qed (subst drain.simps, simp add: "1.prems"(1))
qed

text \<open>A turn that polls, and one that does not.\<close>

lemma turn_keeps:
  assumes "\<And>p r st. I st \<Longrightarrow> poll_once (nets p) (cm_primary_url cm) (fst st) (cm_sync_token cm) = Inr r \<Longrightarrow> I (apply_page cm (clock p) r st)"
    and "I (nst_cursor ns, nst_store ns)"
  shows "I (nst_cursor (poll_iteration cm nets clock now ns), nst_store (poll_iteration cm nets clock now ns))"
proof -
  have "I (drain cm nets clock 0 (nst_cursor ns, nst_store ns))" using assms by (rule drain_keeps [where I = I])
  with assms(2) show ?thesis by (auto simp: poll_iteration_def split: prod.split)
qed

lemma turn_push_time [simp]: "nst_last_push_at (poll_iteration cm nets clock now ns) = nst_last_push_at ns"
  by (simp add: poll_iteration_def split: prod.split)

definition served_turn :: "community \<Rightarrow> server \<Rightarrow> db \<Rightarrow> int set \<Rightarrow> (nat \<Rightarrow> net) \<times> (nat \<Rightarrow> int) \<times> int \<Rightarrow> bool" where
  "served_turn cm sv prim A turn \<longleftrightarrow> (\<forall>p. honest cm sv prim A (fst turn p))"

section \<open>What polling gets\<close>

text \<open>Every row up to the cursor in memory is in the log, and the stored cursor is not ahead of it.\<close>

definition caught_up :: "db \<Rightarrow> int set \<Rightarrow> int \<times> db \<times> sse_registry option \<Rightarrow> bool" where
  "caught_up prim A st \<longleftrightarrow> (case st of (c, s, reg) \<Rightarrow> c \<in> A \<and> get_node_sync_cursor s SYNC_CURSOR_KEY \<le> c
     \<and> (\<forall>r\<in>set (t_events prim). er_seq r \<le> c \<longrightarrow> er_event_id r \<in> log_ids s))"

lemma page_prefix:
  assumes "log_sound cm sv prim" "x \<in> set (take n (rows_after prim c))" "r \<in> set (t_events prim)" "c < er_seq r" "er_seq r \<le> er_seq x"
  shows "r \<in> set (take n (rows_after prim c))"
proof -
  have "sorted_wrt (<) (map er_seq (rows_after prim c))"
    using assms(1) sorted_filter_seq [of "t_events prim"] by (simp add: rows_after_def log_sound_def events_ok_def)
  moreover have "r \<in> set (rows_after prim c)" using assms(3,4) by (simp add: rows_after_def)
  moreover have "r \<in> set (take n rows)" if "sorted_wrt (<) (map er_seq rows)" "r \<in> set rows" "x \<in> set (take n rows)" for rows
    using that assms(5)
  proof (induction rows arbitrary: n)
    case (Cons y rows)
    then show ?case by (cases n) (auto dest: in_set_takeD)
  qed simp
  ultimately show ?thesis using assms(2) by blast
qed

lemma caught_up_page:
  assumes sound: "log_sound cm sv prim" and A: "er_seq ` set (t_events prim) \<subseteq> A"
    and page: "handle_sync_events sv header \<lparr>seq_after_seq = fst st, seq_limit = Some 500\<rparr> prim = Inr r"
    and before_page: "caught_up prim A st"
  shows "caught_up prim A (apply_page cm now r st)"
proof -
  obtain c s reg where st: "st = (c, s, reg)" by (rule prod_cases3)
  obtain c' s' reg' where st': "apply_page cm now r (c, s, reg) = (c', s', reg')" by (rule prod_cases3)
  note e = page_effect [OF sound page [unfolded st fst_conv] st']
  have c: "c \<in> A" "get_node_sync_cursor s SYNC_CURSOR_KEY \<le> c"
    and old: "\<And>r. r \<in> set (t_events prim) \<Longrightarrow> er_seq r \<le> c \<Longrightarrow> er_event_id r \<in> log_ids s"
    using before_page by (auto simp: caught_up_def st)
  have from_page: "c' = c \<or> c' \<in> er_seq ` set (take 500 (rows_after prim c))" using e(3,4) c(2) by auto
  have "er_event_id x \<in> log_ids s'" if x: "x \<in> set (t_events prim)" "er_seq x \<le> c'" for x
  proof (cases "er_seq x \<le> c")
    case False
    with from_page x(2) obtain y where "y \<in> set (take 500 (rows_after prim c))" "er_seq x \<le> er_seq y" by auto
    from page_prefix [OF sound this(1) x(1) _ this(2)] False e(1) show ?thesis by simp
  qed (use old x(1) e(1) in simp)
  moreover have "c' \<in> A"
    using from_page c(1) A by (auto simp: rows_after_def dest!: in_set_takeD)
  ultimately show ?thesis using e(6) [OF c(2)] by (simp add: st st' caught_up_def)
qed

lemma fewer_rows:
  assumes "x \<in> set (t_events prim)" "c < er_seq x" "er_seq x \<le> c'"
  shows "length (rows_after prim c') < length (rows_after prim c)"
proof -
  have "length (filter (\<lambda>r. er_seq r > c') rows) < length (filter (\<lambda>r. er_seq r > c) rows)" if "x \<in> set rows" for rows
    using that
  proof (induction rows)
    case (Cons y rows)
    have "length (filter (\<lambda>r. er_seq r > c') rows) \<le> length (filter (\<lambda>r. er_seq r > c) rows)" for rows
      using assms(2,3) by (induction rows) auto
    from this [of rows] Cons assms(2,3) show ?case by auto
  qed simp
  with assms(1) show ?thesis by (simp add: rows_after_def)
qed

text \<open>With answers, a page moves the cursor on while rows are left.\<close>

lemma drain_ge:
  assumes sound: "log_sound cm sv prim" and A: "er_seq ` set (t_events prim) \<subseteq> A"
    and net: "\<forall>p. honest cm sv prim A (nets p)" and st: "caught_up prim A st"
  shows "caught_up prim A (drain cm nets clock k st) \<and> fst st \<le> fst (drain cm nets clock k st)"
proof -
  have "caught_up prim A (apply_page cm (clock p) r st') \<and> fst st \<le> fst (apply_page cm (clock p) r st')"
    if I: "caught_up prim A st' \<and> fst st \<le> fst st'"
      and polled: "poll_once (nets p) (cm_primary_url cm) (fst st') (cm_sync_token cm) = Inr r" for p r st'
  proof -
    have "fst st' \<in> A" using I by (auto simp: caught_up_def)
    then have page: "handle_sync_events sv (cm_sync_token cm) \<lparr>seq_after_seq = fst st', seq_limit = Some 500\<rparr> prim = Inr r"
      using net polled by (auto simp: honest_def)
    obtain c s reg c' s' reg' where st': "st' = (c, s, reg)" "apply_page cm (clock p) r (c, s, reg) = (c', s', reg')"
      by (metis prod_cases3)
    from page_effect(4) [OF sound page [unfolded st' fst_conv] st'(2)] caught_up_page [OF sound A page, of "clock p"] I
    show ?thesis by (auto simp: st')
  qed
  then show ?thesis using st by (intro drain_keeps [where I = "\<lambda>st'. caught_up prim A st' \<and> fst st \<le> fst st'"]) auto
qed

lemma drain_progress:
  assumes sound: "log_sound cm sv prim" and A: "er_seq ` set (t_events prim) \<subseteq> A"
    and net: "\<forall>p. honest cm sv prim A (nets p)" "answers cm A (nets k)" and st: "caught_up prim A st"
    and left: "rows_after prim (fst st) \<noteq> []"
  shows "\<exists>x\<in>set (t_events prim). fst st < er_seq x \<and> er_seq x \<le> fst (drain cm nets clock k st)"
proof -
  have c: "fst st \<in> A" using st by (auto simp: caught_up_def)
  then obtain r where polled: "poll_once (nets k) (cm_primary_url cm) (fst st) (cm_sync_token cm) = Inr r"
    using net(2) by (auto simp: answers_def)
  then have page: "handle_sync_events sv (cm_sync_token cm) \<lparr>seq_after_seq = fst st, seq_limit = Some 500\<rparr> prim = Inr r"
    using net(1) c by (auto simp: honest_def)
  obtain c s reg c' s' reg' where st': "st = (c, s, reg)" "apply_page cm (clock k) r (c, s, reg) = (c', s', reg')"
    by (metis prod_cases3)
  note e = page_effect [OF sound page [unfolded st' fst_conv] st'(2)]
  have "take 500 (rows_after prim c) \<noteq> []" using left by (simp add: st')
  from e(5) [OF this] e(3) st have "c' \<in> er_seq ` set (take 500 (rows_after prim c))" by (auto simp: caught_up_def st')
  then have "\<exists>x\<in>set (t_events prim). fst st < er_seq x \<and> er_seq x \<le> fst (apply_page cm (clock k) r st)"
    by (auto simp: st' rows_after_def dest!: in_set_takeD)
  moreover have ge: "fst (apply_page cm (clock k) r st) \<le> fst (drain cm nets clock j (apply_page cm (clock k) r st))" for j
    using drain_ge [OF sound A net(1) caught_up_page [OF sound A page st]] by blast
  have "fst (apply_page cm (clock k) r st) \<le> fst (drain cm nets clock k st)"
    by (subst drain.simps) (simp add: polled Let_def ge)
  ultimately show ?thesis by (meson order_trans)
qed

text \<open>A turn that polls and is answered.\<close>

definition polling_turn :: "community \<Rightarrow> server \<Rightarrow> db \<Rightarrow> int set \<Rightarrow> int \<Rightarrow> (nat \<Rightarrow> net) \<times> (nat \<Rightarrow> int) \<times> int \<Rightarrow> bool" where
  "polling_turn cm sv prim A last_push turn \<longleftrightarrow> served_turn cm sv prim A turn \<and> answers cm A (fst turn 0)
     \<and> i64_sub (snd (snd turn)) last_push > cm_push_timeout_secs cm"

lemma poll_turns_catch_up:
  assumes sound: "log_sound cm sv prim" and A: "er_seq ` set (t_events prim) \<subseteq> A"
  shows "caught_up prim A (nst_cursor ns, nst_store ns) \<Longrightarrow> list_all (polling_turn cm sv prim A (nst_last_push_at ns)) turns
    \<Longrightarrow> length (rows_after prim (nst_cursor ns)) \<le> length turns
    \<Longrightarrow> caught_up prim A (nst_cursor (poll_turns cm turns ns), nst_store (poll_turns cm turns ns))
      \<and> rows_after prim (nst_cursor (poll_turns cm turns ns)) = []"
proof (induction turns arbitrary: ns)
  case (Cons turn turns)
  obtain nets clock now where turn: "turn = (nets, clock, now)" by (rule prod_cases3)
  have due: "i64_sub now (nst_last_push_at ns) > cm_push_timeout_secs cm" and net: "\<forall>p. honest cm sv prim A (nets p)" "answers cm A (nets 0)"
    using Cons.prems(2) by (simp_all add: turn polling_turn_def served_turn_def)
  let ?d = "drain cm nets clock 0 (nst_cursor ns, nst_store ns)" and ?ns = "poll_iteration cm nets clock now ns"
  have ns: "nst_cursor ?ns = fst ?d" "nst_store ?ns = snd ?d" using due by (simp_all add: poll_iteration_def split: prod.split)
  have next_ok: "caught_up prim A (nst_cursor ?ns, nst_store ?ns)" "nst_cursor ns \<le> nst_cursor ?ns"
    using drain_ge [OF sound A net(1) Cons.prems(1), of clock 0] by (simp_all add: ns)
  have "length (rows_after prim (nst_cursor ?ns)) \<le> length turns"
  proof (cases "rows_after prim (nst_cursor ns) = []")
    case True
    with next_ok(2) have "rows_after prim (nst_cursor ?ns) = []" by (fastforce simp: rows_after_def filter_empty_conv)
    then show ?thesis by simp
  next
    case False
    then obtain x where x: "x \<in> set (t_events prim)" "nst_cursor ns < er_seq x" "er_seq x \<le> nst_cursor ?ns"
      using drain_progress [OF sound A net Cons.prems(1)] by (auto simp: ns)
    then have "length (rows_after prim (nst_cursor ?ns)) < length (rows_after prim (nst_cursor ns))" by (rule fewer_rows)
    with Cons.prems(3) show ?thesis by simp
  qed
  with Cons.IH [of ?ns] next_ok(1) Cons.prems(2) show ?case by (simp add: turn poll_turns_def)
qed (simp add: poll_turns_def)

section \<open>What a push makes the node lose\<close>

text \<open>A row that the log lacks, at or before the cursor.\<close>

definition passed_over :: "event_row \<Rightarrow> int set \<Rightarrow> int \<times> db \<times> sse_registry option \<Rightarrow> bool" where
  "passed_over row A st \<longleftrightarrow> (case st of (c, s, reg) \<Rightarrow> c \<in> A \<and> get_node_sync_cursor s SYNC_CURSOR_KEY \<in> A
     \<and> er_seq row \<le> c \<and> er_event_id row \<notin> log_ids s)"

lemma passed_over_page:
  assumes sound: "log_sound cm sv prim" and A: "er_seq ` set (t_events prim) \<subseteq> A" and row: "row \<in> set (t_events prim)"
    and page: "handle_sync_events sv header \<lparr>seq_after_seq = fst st, seq_limit = Some 500\<rparr> prim = Inr r"
    and missed: "passed_over row A st"
  shows "passed_over row A (apply_page cm now r st)"
proof -
  obtain c s reg where st: "st = (c, s, reg)" by (rule prod_cases3)
  obtain c' s' reg' where st': "apply_page cm now r (c, s, reg) = (c', s', reg')" by (rule prod_cases3)
  note e = page_effect [OF sound page [unfolded st fst_conv] st']
  have c: "c \<in> A" "get_node_sync_cursor s SYNC_CURSOR_KEY \<in> A" "er_seq row \<le> c" "er_event_id row \<notin> log_ids s"
    using missed by (auto simp: passed_over_def st)
  have mem: "x \<in> set (t_events prim) \<and> c < er_seq x" if "x \<in> set (take 500 (rows_after prim c))" for x
    using in_set_takeD [OF that] by (simp add: rows_after_def)
  have "er_event_id row \<notin> er_event_id ` set (take 500 (rows_after prim c))"
  proof
    assume "er_event_id row \<in> er_event_id ` set (take 500 (rows_after prim c))"
    then obtain x where x: "x \<in> set (take 500 (rows_after prim c))" "er_event_id row = er_event_id x" by blast
    have "inj_on er_event_id (set (t_events prim))" using sound by (simp add: log_sound_def events_ok_def distinct_map)
    then have "row = x" using x(2) row mem [OF x(1)] by (simp add: inj_on_def)
    with mem [OF x(1)] c(3) show False by simp
  qed
  with c e(1,2,3,4) mem A show ?thesis by (auto simp: passed_over_def st st')
qed

lemma passed_over_turns:
  assumes sound: "log_sound cm sv prim" and A: "er_seq ` set (t_events prim) \<subseteq> A" and row: "row \<in> set (t_events prim)"
  shows "passed_over row A (nst_cursor ns, nst_store ns) \<Longrightarrow> list_all (served_turn cm sv prim A) turns
    \<Longrightarrow> passed_over row A (nst_cursor (poll_turns cm turns ns), nst_store (poll_turns cm turns ns))"
proof (induction turns arbitrary: ns)
  case (Cons turn turns)
  obtain nets clock now where turn: "turn = (nets, clock, now)" by (rule prod_cases3)
  have net: "\<forall>p. honest cm sv prim A (nets p)" using Cons.prems(2) by (simp add: turn served_turn_def)
  have "passed_over row A (apply_page cm (clock p) r st)"
    if "passed_over row A st" "poll_once (nets p) (cm_primary_url cm) (fst st) (cm_sync_token cm) = Inr r" for p r st
  proof -
    have "fst st \<in> A" using that(1) by (auto simp: passed_over_def)
    with net that(2) have "handle_sync_events sv (cm_sync_token cm) \<lparr>seq_after_seq = fst st, seq_limit = Some 500\<rparr> prim = Inr r"
      by (auto simp: honest_def)
    from passed_over_page [OF sound A row this that(1)] show ?thesis .
  qed
  from turn_keeps [where I = "passed_over row A", OF this Cons.prems(1)] Cons.IH Cons.prems(2) show ?case
    by (simp add: turn poll_turns_def)
qed (simp add: poll_turns_def)

section \<open>Two events and a node\<close>

text \<open>A primary's log of two signed events, a node, and a connection between them.\<close>

definition sample_log :: db where
  "sample_log = empty_db\<lparr>t_events := [row_at (sample_event ''e1'' sample_payload) 1, row_at (sample_event ''e2'' sample_payload) 2]\<rparr>"

definition sample_community :: community where
  "sample_community = \<lparr>cm_node = sample_node sample_payload, cm_primary_url = ''https://p'', cm_node_address = ''https://n'',
     cm_push_timeout_secs = 90, cm_primary_pubkey_hex = pubkey_hex toy_crypto ''key'', cm_sync_token = Some ''sync'', cm_key = ''k'',
     cm_register_json = rsp_node_url\<rparr>"

definition sample_net :: net where
  "sample_net u token = (case find (\<lambda>a. u = events_url ''https://p'' a) [0, 1, 2] of None \<Rightarrow> Inl ''unknown''
     | Some a \<Rightarrow> (case handle_sync_events sample_server token \<lparr>seq_after_seq = a, seq_limit = Some 500\<rparr> sample_log of
           Inl e \<Rightarrow> Inl ''refused'' | Inr r \<Rightarrow> Inr (200, ''OK'', Inr r)))"

definition sample_turn :: "(nat \<Rightarrow> net) \<times> (nat \<Rightarrow> int) \<times> int" where
  "sample_turn = (\<lambda>p. sample_net, \<lambda>p. 9, 1000)"

lemma sample_log_sound: "log_sound sample_community sample_server sample_log"
proof -
  have "is_verified (sample_node sample_payload) ((sample_event i sample_payload)\<lparr>ev_seq := n, ev_payload := p\<rparr>)" for i n p
    using verify_signed_event [OF toy_crypto_ok, of "(sample_event i sample_payload)\<lparr>ev_seq := n, ev_payload := p\<rparr>" "''key''"]
    by (simp add: is_verified_def sample_node_def sample_event_def sign_event_def signing_payload_def toy_crypto_def)
  moreover have "\<exists>p. event_of_row (ap_parse (sv_app sample_server)) (row_at (sample_event i sample_payload) n)
      = Inr ((sample_event i sample_payload)\<lparr>ev_seq := n, ev_payload := p\<rparr>)" for i n
    by (auto simp: event_of_row_def row_at_def sample_server_def sample_app_def sample_event_def or_else_def split: option.split)
  moreover have "decodable (sample_node sample_payload) ev" for ev by (simp add: decodable_def)
  ultimately have "\<exists>ev. event_of_row (ap_parse (sv_app sample_server)) (row_at (sample_event i sample_payload) n) = Inr ev
      \<and> is_verified (sample_node sample_payload) ev \<and> decodable (sample_node sample_payload) ev" for i n by metis
  moreover have "events_ok sample_log"
    by (simp add: events_ok_def sample_log_def empty_db_def row_at_def sample_event_def)
  ultimately show ?thesis by (auto simp: log_sound_def sample_log_def empty_db_def sample_community_def row_at_def)
qed

lemma sample_seqs: "er_seq ` set (t_events sample_log) = {1, 2}"
  by (simp add: sample_log_def empty_db_def row_at_def)

lemma sample_poll:
  assumes "a \<in> {0, 1, 2}"
  shows "poll_once sample_net ''https://p'' a (Some ''sync'') = Inr r \<longleftrightarrow>
    handle_sync_events sample_server (Some ''sync'') \<lparr>seq_after_seq = a, seq_limit = Some 500\<rparr> sample_log = Inr r"
proof -
  have "find (\<lambda>a. events_url ''https://p'' 0 = events_url ''https://p'' a) [0, 1, 2] = Some 0"
    "find (\<lambda>a. events_url ''https://p'' 1 = events_url ''https://p'' a) [0, 1, 2] = Some 1"
    "find (\<lambda>a. events_url ''https://p'' 2 = events_url ''https://p'' a) [0, 1, 2] = Some 2" by code_simp+
  then show ?thesis
    using assms
    by (elim insertE; simp add: poll_once_def sample_net_def Let_def split: sum.splits)
qed

lemma sample_page: "\<exists>page. get_events_since (ap_parse (sv_app sample_server)) s a limit = Inr page"
  unfolding get_events_since_def
  by (rule rmap_total) (simp add: sample_server_def sample_app_def or_else_def split: option.split)

lemma sample_served: "A \<subseteq> {0, 1, 2} \<Longrightarrow> polling_turn sample_community sample_server sample_log A 0 sample_turn"
proof -
  assume A: "A \<subseteq> {0, 1, 2}"
  have "\<exists>r. handle_sync_events sample_server (Some ''sync'') \<lparr>seq_after_seq = a, seq_limit = Some 500\<rparr> sample_log = Inr r" for a
  proof -
    obtain page where "get_events_since (ap_parse (sv_app sample_server)) sample_log a 500 = Inr page"
      using sample_page by blast
    then show ?thesis by (simp add: handle_sync_events_def sample_auth clamp_def db_result_def Let_def)
  qed
  with A show ?thesis
    by (auto simp: polling_turn_def served_turn_def sample_turn_def honest_def answers_def sample_community_def sample_poll subset_iff
        i64_sub_def is_i64_def i64_min_def i64_max_def)
qed

section \<open>Properties of polling\<close>

text \<open>
  C25: A node that polls catches up: if its log has every event up to its cursor and the cursor in the
  database is not ahead (a fresh node, say), then after as many answered turns of the poll loop as
  there are events left it has every event of the primary's log, whichever of them fail to apply.
\<close>

theorem polling_catches_up:
  assumes "log_sound cm sv prim" "caught_up prim A (nst_cursor ns, nst_store ns)" "er_seq ` set (t_events prim) \<subseteq> A"
    and "list_all (polling_turn cm sv prim A (nst_last_push_at ns)) turns"
    and "length (rows_after prim (nst_cursor ns)) \<le> length turns"
  shows "log_ids prim \<subseteq> log_ids (fst (nst_store (poll_turns cm turns ns)))"
proof -
  let ?ns = "poll_turns cm turns ns"
  from poll_turns_catch_up [OF assms(1,3,2,4,5)] have final: "caught_up prim A (nst_cursor ?ns, nst_store ?ns)" "rows_after prim (nst_cursor ?ns) = []"
    by blast+
  then have "\<forall>r\<in>set (t_events prim). er_seq r \<le> nst_cursor ?ns" by (auto simp: rows_after_def filter_empty_conv not_less)
  with final(1) show ?thesis by (auto simp: caught_up_def log_ids_def split: prod.splits)
qed

lemma polling_catches_up_witness:
  "{''e1'', ''e2''} \<subseteq> log_ids (fst (nst_store (poll_turns sample_community [sample_turn, sample_turn] (start_node (empty_db, None) 0))))"
proof -
  let ?ns = "start_node (empty_db, None) 0"
  have "caught_up sample_log {0, 1, 2} (nst_cursor ?ns, nst_store ?ns)" "nst_last_push_at ?ns = 0"
    "length (rows_after sample_log (nst_cursor ?ns)) \<le> length [sample_turn, sample_turn]"
    by (auto simp: caught_up_def start_node_def get_node_sync_cursor_def empty_db_def sample_log_def row_at_def rows_after_def lookup_by_def)
  moreover have "log_ids sample_log = {''e1'', ''e2''}" by (auto simp: log_ids_def sample_log_def empty_db_def row_at_def sample_event_def)
  ultimately show ?thesis
    using polling_catches_up [OF sample_log_sound, of "{0, 1, 2}" ?ns "[sample_turn, sample_turn]"] sample_served [of "{0, 1, 2}"]
    by (simp add: sample_seqs)
qed

text \<open>
  C26: An event whose push did not arrive is lost once a later push arrived and the node restarts: the
  later push moved the cursor in the database past it, the restart takes that cursor, and polling
  asks for what comes after it, for ever.
\<close>

theorem missed_event_is_lost_after_restart:
  assumes "log_sound cm sv prim" "row \<in> set (t_events prim)" "er_event_id row \<notin> log_ids (fst (nst_store ns))"
    and "handle_sync_push cm now apply_now evs ns = (Some answer, ns')" "psr_applied answer > 0"
    and "\<forall>ev\<in>set evs. er_seq row \<le> ev_seq ev \<and> 0 < ev_seq ev \<and> ev_event_id ev \<noteq> er_event_id row"
    and "A = insert (get_node_sync_cursor (fst (nst_store ns')) SYNC_CURSOR_KEY) (er_seq ` set (t_events prim))"
    and "list_all (served_turn cm sv prim A) turns"
  shows "er_event_id row \<notin> log_ids (fst (nst_store (poll_turns cm turns (start_node (nst_store ns') t))))"
proof -
  let ?at_end = "poll_turns cm turns (start_node (nst_store ns') t)"
  let ?trusted = "filter (\<lambda>ev. ev_signed_by ev = cm_primary_pubkey_hex cm) evs"
  obtain s reg where store: "nst_store ns = (s, reg)" by (rule prod.exhaust)
  obtain summary s' reg' where run: "apply_events (cm_node cm) apply_now ?trusted (s, reg) = (summary, s', reg')" by (rule prod_cases3)
  have applied: "as_applied summary > 0" and store': "nst_store ns' = (s', reg')"
    using assms(4,5) by (auto simp: handle_sync_push_def Let_def store run split: if_splits)
  have "\<exists>ev\<in>set ?trusted. ev_seq ev \<le> get_node_sync_cursor s' SYNC_CURSOR_KEY"
    using cursor_after_events(3) [OF run applied] assms(6) by simp
  then have "er_seq row \<le> get_node_sync_cursor s' SYNC_CURSOR_KEY" using assms(6) by fastforce
  moreover have "er_event_id row \<notin> log_ids s'"
    using new_ids_of_events [of "cm_node cm" apply_now ?trusted s reg] assms(3,6) by (fastforce simp: run store)
  ultimately have "passed_over row A (nst_cursor (start_node (nst_store ns') t), nst_store (start_node (nst_store ns') t))"
    by (simp add: passed_over_def start_node_def store' assms(7))
  from passed_over_turns [OF assms(1) _ assms(2) this assms(8)]
  have "passed_over row A (nst_cursor ?at_end, nst_store ?at_end)" by (simp add: assms(7) subset_insertI)
  then show ?thesis by (cases "nst_store ?at_end") (simp add: passed_over_def)
qed

lemma missed_event_is_lost_after_restart_witness:
  "''e1'' \<notin> log_ids (fst (nst_store (poll_turns sample_community [sample_turn, sample_turn]
     (start_node (nst_store (snd (handle_sync_push sample_community 5 5 [(sample_event ''e2'' sample_payload)\<lparr>ev_seq := 2\<rparr>]
        (start_node (empty_db, None) 0)))) 0))))"
proof -
  let ?ns = "start_node (empty_db, None) 0" and ?evs = "[(sample_event ''e2'' sample_payload)\<lparr>ev_seq := 2\<rparr>]"
  let ?push = "handle_sync_push sample_community 5 5 ?evs ?ns"
  have pushed: "case ?push of (Some answer, ns') \<Rightarrow> psr_applied answer > 0 \<and> get_node_sync_cursor (fst (nst_store ns')) SYNC_CURSOR_KEY = 2
      | (None, ns') \<Rightarrow> False"
    by code_simp
  then obtain answer ns' where run: "?push = (Some answer, ns')" "psr_applied answer > 0"
    "get_node_sync_cursor (fst (nst_store ns')) SYNC_CURSOR_KEY = 2"
    by (auto split: prod.splits option.splits)
  let ?row = "row_at (sample_event ''e1'' sample_payload) 1"
  have row: "?row \<in> set (t_events sample_log)" "er_event_id ?row = ''e1''" "er_event_id ?row \<notin> log_ids (fst (nst_store ?ns))" "er_seq ?row = 1"
    by (auto simp: sample_log_def empty_db_def row_at_def sample_event_def start_node_def log_ids_def)
  moreover have "\<forall>ev\<in>set ?evs. er_seq ?row \<le> ev_seq ev \<and> 0 < ev_seq ev \<and> ev_event_id ev \<noteq> er_event_id ?row"
    by (simp add: row(2,4)) (simp add: sample_event_def)
  moreover have "{1, 2} = insert (get_node_sync_cursor (fst (nst_store ns')) SYNC_CURSOR_KEY) (er_seq ` set (t_events sample_log))"
    by (auto simp: run sample_seqs)
  moreover have "list_all (served_turn sample_community sample_server sample_log {1, 2}) [sample_turn, sample_turn]"
    using sample_served [of "{1, 2}"] by (simp add: polling_turn_def)
  ultimately have "er_event_id ?row \<notin> log_ids (fst (nst_store (poll_turns sample_community [sample_turn, sample_turn] (start_node (nst_store ns') 0))))"
    by (intro missed_event_is_lost_after_restart [OF sample_log_sound row(1,3) run(1,2)])
  then show ?thesis by (simp add: row(2) run(1))
qed

end
