(* ===== verification/Guarded.thy ===== *)
theory Guarded
  imports Guard
begin

text \<open>
  What the fetch guard promises: the address test is the list of blocks of ADR 0054, every request of
  a fetch goes to public addresses, and an address that is written out is read back.
\<close>

section \<open>Addresses as numbers\<close>

text \<open>The number that digits in a base spell, the most significant first.\<close>

fun number_of :: "nat \<Rightarrow> nat list \<Rightarrow> nat" where
  "number_of base [] = 0"
| "number_of base (d # ds) = d * base ^ length ds + number_of base ds"

lemma div_block: "r < b \<Longrightarrow> (a * b + r) div b = (a :: nat)"
  by (cases "b = 0") simp_all

lemma pair_digits:
  assumes "x < b" "y < b" shows "a * b + x = c * b + y \<longleftrightarrow> a = c \<and> x = (y :: nat)"
proof
  assume eq: "a * b + x = c * b + y"
  have "a = (a * b + x) div b" using assms(1) by (simp add: div_block)
  also have "\<dots> = c" unfolding eq using assms(2) by (simp add: div_block)
  finally show "a = c \<and> x = y" using eq by simp
qed simp

lemma number_of_less: "list_all (\<lambda>d. d < base) ds \<Longrightarrow> number_of base ds < base ^ length ds"
proof (induction ds)
  case (Cons d ds)
  then have "d * base ^ length ds + base ^ length ds \<le> base * base ^ length ds"
    using mult_le_mono1 [of "Suc d" base "base ^ length ds"] by simp
  with Cons show ?case by simp
qed simp

lemma number_of_append: "number_of base (xs @ ys) = number_of base xs * base ^ length ys + number_of base ys"
  by (induction xs) (simp_all add: power_add algebra_simps)

lemma number_of_prefix:
  assumes "list_all (\<lambda>d. d < base) ys"
  shows "number_of base (xs @ ys) div base ^ length ys = number_of base xs"
proof -
  have "number_of base ys < base ^ length ys" using assms by (rule number_of_less)
  then show ?thesis by (simp add: number_of_append div_block)
qed

lemma number_of_eq:
  assumes "length xs = length ys" "list_all (\<lambda>d. d < base) xs" "list_all (\<lambda>d. d < base) ys"
  shows "number_of base xs = number_of base ys \<longleftrightarrow> xs = ys"
  using assms
proof (induction rule: list_induct2)
  case (Cons x xs y ys)
  let ?b = "base ^ length ys"
  have small: "number_of base xs < ?b" "number_of base ys < ?b"
    using Cons number_of_less [of base xs] number_of_less [of base ys] by auto
  have "x * ?b + number_of base xs = y * ?b + number_of base ys \<longleftrightarrow> x = y \<and> number_of base xs = number_of base ys"
    using small by (rule pair_digits)
  with Cons show ?case by simp
qed simp

declare number_of.simps(2) [simp del]

text \<open>A block of addresses of \<open>width\<close> bits: all that share the first \<open>len\<close> bits with its base.\<close>

definition in_block :: "nat \<Rightarrow> nat \<times> nat \<Rightarrow> nat \<Rightarrow> bool" where
  "in_block width blk n \<longleftrightarrow> n div 2 ^ (width - snd blk) = fst blk div 2 ^ (width - snd blk)"

fun v4_number :: "ipv4_addr \<Rightarrow> nat" where
  "v4_number (Ipv4Addr a b c d) = number_of 256 [unat a, unat b, unat c, unat d]"

fun v6_number :: "ipv6_addr \<Rightarrow> nat" where
  "v6_number (Ipv6Addr s0 s1 s2 s3 s4 s5 s6 s7) =
     number_of 65536 [unat s0, unat s1, unat s2, unat s3, unat s4, unat s5, unat s6, unat s7]"

text \<open>The blocks that ADR 0054 names: loopback, private, link-local, multicast and so on.\<close>

definition RESERVED_V4 :: "(nat \<times> nat) list" where
  "RESERVED_V4 = [(number_of 256 [127, 0, 0, 0], 8), (number_of 256 [10, 0, 0, 0], 8), (number_of 256 [172, 16, 0, 0], 12),
     (number_of 256 [192, 168, 0, 0], 16), (number_of 256 [169, 254, 0, 0], 16), (number_of 256 [255, 255, 255, 255], 32),
     (number_of 256 [0, 0, 0, 0], 32), (number_of 256 [224, 0, 0, 0], 4), (number_of 256 [192, 0, 2, 0], 24),
     (number_of 256 [198, 51, 100, 0], 24), (number_of 256 [203, 0, 113, 0], 24), (number_of 256 [198, 18, 0, 0], 15),
     (number_of 256 [100, 64, 0, 0], 10)]"

definition RESERVED_V6 :: "(nat \<times> nat) list" where
  "RESERVED_V6 = [(0, 128), (1, 128), (0xFC00 * 2 ^ 112, 7), (0xFE80 * 2 ^ 112, 10), (0xFF00 * 2 ^ 112, 8),
     (0x20010DB8 * 2 ^ 96, 32)]"

text \<open>The blocks of IPv6 addresses that hold an IPv4 address in their last 32 bits.\<close>

definition EMBEDDING_V6 :: "(nat \<times> nat) list" where
  "EMBEDDING_V6 = [(0xFFFF * 2 ^ 32, 96), (0, 96), (0x64FF9B * 2 ^ 96, 96)]"

definition outside_blocks :: "ip_addr \<Rightarrow> bool" where
  "outside_blocks ip = (case ip of
       V4 v4 \<Rightarrow> \<not> list_ex (\<lambda>blk. in_block 32 blk (v4_number v4)) RESERVED_V4
     | V6 v6 \<Rightarrow> \<not> list_ex (\<lambda>blk. in_block 128 blk (v6_number v6)) RESERVED_V6
         \<and> (list_ex (\<lambda>blk. in_block 128 blk (v6_number v6)) EMBEDDING_V6 \<longrightarrow>
              \<not> list_ex (\<lambda>blk. in_block 32 blk (v6_number v6 mod 2 ^ 32)) RESERVED_V4))"

section \<open>Masks and prefixes\<close>

lemma unat_digit [simp]: "unat (w :: 8 word) < 256" "unat (x :: 16 word) < 65536"
proof -
  have "unat w < 2 ^ LENGTH(8)" "unat x < 2 ^ LENGTH(16)" by (rule unsigned_less)+
  then show "unat w < 256" "unat x < 65536" by simp_all
qed

lemma masked_prefix:
  fixes w v :: "'a::len word"
  shows "w AND NOT (mask n) = v AND NOT (mask n) \<longleftrightarrow> unat w div 2 ^ n = unat v div 2 ^ n"
proof -
  have "w AND NOT (mask n) = v AND NOT (mask n) \<longleftrightarrow> drop_bit n w = drop_bit n v"
  proof
    assume eq: "w AND NOT (mask n) = v AND NOT (mask n)"
    have "bit w (n + i) = bit v (n + i)" for i
    proof -
      have "bit (w AND NOT (mask n)) (n + i) = bit (v AND NOT (mask n)) (n + i)" by (simp add: eq)
      then show ?thesis by (auto simp: bit_simps dest: bit_imp_le_length)
    qed
    then show "drop_bit n w = drop_bit n v" by (simp add: bit_eq_iff bit_simps)
  next
    assume eq: "drop_bit n w = drop_bit n v"
    have "bit w i = bit v i" if "n \<le> i" for i
      using arg_cong [OF eq, of "\<lambda>x. bit x (i - n)"] that by (simp add: bit_simps)
    then show "w AND NOT (mask n) = v AND NOT (mask n)" by (auto simp: bit_eq_iff bit_simps)
  qed
  also have "\<dots> \<longleftrightarrow> unat (drop_bit n w) = unat (drop_bit n v)" by (simp add: word_unat_eq_iff)
  also have "\<dots> \<longleftrightarrow> unat w div 2 ^ n = unat v div 2 ^ n" by (simp add: unat_drop_bit_eq flip: drop_bit_eq_div)
  finally show ?thesis .
qed

lemma masks:
  "(0xFE :: 8 word) = NOT (mask 1)" "(0xC0 :: 8 word) = NOT (mask 6)"
  "(0xFE00 :: 16 word) = NOT (mask 9)" "(0xFFC0 :: 16 word) = NOT (mask 6)" "(0xFF00 :: 16 word) = NOT (mask 8)"
  by (simp_all add: mask_eq_exp_minus_1)

lemma masked_tests:
  fixes o1 :: "8 word" and s :: "16 word"
  shows "o1 AND 0xFE = 18 \<longleftrightarrow> unat o1 div 2 = 9" "o1 AND 0xC0 = 64 \<longleftrightarrow> unat o1 div 64 = 1"
    "s AND 0xFE00 = 0xFC00 \<longleftrightarrow> unat s div 512 = 126" "s AND 0xFFC0 = 0xFE80 \<longleftrightarrow> unat s div 64 = 1018"
    "s AND 0xFF00 = 0xFF00 \<longleftrightarrow> unat s div 256 = 255"
  using masked_prefix [of o1 1 18, folded masks] masked_prefix [of o1 6 64, folded masks] masked_prefix [of s 9 "0xFC00", folded masks]
    masked_prefix [of s 6 "0xFE80", folded masks] masked_prefix [of s 8 "0xFF00", folded masks]
  by simp_all


section \<open>The test is the list of blocks\<close>

lemma v4_blocks:
  fixes a b c d :: nat
  assumes "a < 256" "b < 256" "c < 256" "d < 256"
  shows "number_of 256 [a, b, c, d] div 268435456 = a div 16" "number_of 256 [a, b, c, d] div 16777216 = a"
    "number_of 256 [a, b, c, d] div 4194304 = a * 4 + b div 64" "number_of 256 [a, b, c, d] div 1048576 = a * 16 + b div 16"
    "number_of 256 [a, b, c, d] div 131072 = a * 128 + b div 2" "number_of 256 [a, b, c, d] div 65536 = a * 256 + b"
    "number_of 256 [a, b, c, d] div 256 = (a * 256 + b) * 256 + c"
proof -
  have n: "number_of 256 [a, b, c, d] = a * 16777216 + b * 65536 + c * 256 + d" by (simp add: number_of.simps)
  show "number_of 256 [a, b, c, d] div 268435456 = a div 16" "number_of 256 [a, b, c, d] div 16777216 = a"
    "number_of 256 [a, b, c, d] div 4194304 = a * 4 + b div 64" "number_of 256 [a, b, c, d] div 1048576 = a * 16 + b div 16"
    "number_of 256 [a, b, c, d] div 131072 = a * 128 + b div 2" "number_of 256 [a, b, c, d] div 65536 = a * 256 + b"
    "number_of 256 [a, b, c, d] div 256 = (a * 256 + b) * 256 + c"
    using assms unfolding n distrib_right mult.assoc by linarith+
qed


text \<open>The test of an IPv4 address, on the numbers of its octets.\<close>

lemma reserved_octets:
  fixes a b c d :: nat
  assumes "a < 256" "b < 256" "c < 256" "d < 256"
  shows "list_ex (\<lambda>blk. in_block 32 blk (number_of 256 [a, b, c, d])) RESERVED_V4 \<longleftrightarrow>
    a = 127 \<or> a = 10 \<or> (a = 172 \<and> 16 \<le> b \<and> b \<le> 31) \<or> (a = 192 \<and> b = 168) \<or> (a = 169 \<and> b = 254)
    \<or> (a = 255 \<and> b = 255 \<and> c = 255 \<and> d = 255) \<or> (a = 0 \<and> b = 0 \<and> c = 0 \<and> d = 0) \<or> (224 \<le> a \<and> a \<le> 239)
    \<or> (a = 192 \<and> b = 0 \<and> c = 2) \<or> (a = 198 \<and> b = 51 \<and> c = 100) \<or> (a = 203 \<and> b = 0 \<and> c = 113)
    \<or> (a = 198 \<and> b div 2 = 9) \<or> (a = 100 \<and> b div 64 = 1)"
proof -
  note blocks = v4_blocks [OF assms]
  have "number_of 256 [a, b, c, d] = number_of 256 [255, 255, 255, 255] \<longleftrightarrow> [a, b, c, d] = [255, 255, 255, 255]"
    "number_of 256 [a, b, c, d] = number_of 256 [0, 0, 0, 0] \<longleftrightarrow> [a, b, c, d] = [0, 0, 0, 0]"
    using assms by (intro number_of_eq; simp)+
  moreover have "b div 16 < 16" "b div 2 < 128" "b div 64 < 4" using assms(2) by simp_all
  then have "a * 16 + b div 16 = 172 * 16 + 1 \<longleftrightarrow> a = 172 \<and> b div 16 = 1" "a * 256 + b = 192 * 256 + 168 \<longleftrightarrow> a = 192 \<and> b = 168"
    "a * 256 + b = 169 * 256 + 254 \<longleftrightarrow> a = 169 \<and> b = 254"
    "(a * 256 + b) * 256 + c = (192 * 256 + 0) * 256 + 2 \<longleftrightarrow> (a = 192 \<and> b = 0) \<and> c = 2"
    "(a * 256 + b) * 256 + c = (198 * 256 + 51) * 256 + 100 \<longleftrightarrow> (a = 198 \<and> b = 51) \<and> c = 100"
    "(a * 256 + b) * 256 + c = (203 * 256 + 0) * 256 + 113 \<longleftrightarrow> (a = 203 \<and> b = 0) \<and> c = 113"
    "a * 128 + b div 2 = 198 * 128 + 9 \<longleftrightarrow> a = 198 \<and> b div 2 = 9" "a * 4 + b div 64 = 100 * 4 + 1 \<longleftrightarrow> a = 100 \<and> b div 64 = 1"
    using assms by (simp_all only: pair_digits)
  moreover have "b div 16 = 1 \<longleftrightarrow> 16 \<le> b \<and> b \<le> 31" "a div 16 = 14 \<longleftrightarrow> 224 \<le> a \<and> a \<le> 239" by linarith+
  ultimately show ?thesis
    unfolding RESERVED_V4_def in_block_def by (simp add: blocks) (simp add: number_of.simps)
qed


lemma public_ipv4_blocks: "is_public_ipv4 v4 \<longleftrightarrow> \<not> list_ex (\<lambda>blk. in_block 32 blk (v4_number v4)) RESERVED_V4"
proof (cases v4)
  case (Ipv4Addr a b c d)
  show ?thesis
    unfolding Ipv4Addr v4_number.simps reserved_octets [OF unat_digit(1) unat_digit(1) unat_digit(1) unat_digit(1)]
      is_public_ipv4.simps masked_tests
    by (simp add: Let_def word_unat_eq_iff word_le_nat_alt)
qed

text \<open>Segments, and the octets of the last two of them.\<close>

lemma v6_blocks:
  fixes s0 s1 s2 s3 s4 s5 s6 s7 :: nat
  assumes "list_all (\<lambda>s. s < 65536) [s0, s1, s2, s3, s4, s5, s6, s7]"
  defines "n \<equiv> number_of 65536 [s0, s1, s2, s3, s4, s5, s6, s7]"
  shows "n div 2 ^ 112 = s0" "n div 2 ^ 96 = s0 * 65536 + s1" "n div 2 ^ 32 = number_of 65536 [s0, s1, s2, s3, s4, s5]"
    "n mod 2 ^ 32 = s6 * 65536 + s7"
proof -
  have "n div 65536 ^ 7 = number_of 65536 [s0]" "n div 65536 ^ 6 = number_of 65536 [s0, s1]"
    "n div 65536 ^ 2 = number_of 65536 [s0, s1, s2, s3, s4, s5]"
    using assms number_of_prefix [of 65536 "[s1, s2, s3, s4, s5, s6, s7]" "[s0]"]
      number_of_prefix [of 65536 "[s2, s3, s4, s5, s6, s7]" "[s0, s1]"]
      number_of_prefix [of 65536 "[s6, s7]" "[s0, s1, s2, s3, s4, s5]"]
    by simp_all
  moreover have "n = number_of 65536 [s0, s1, s2, s3, s4, s5] * 2 ^ 32 + number_of 65536 [s6, s7]"
    using number_of_append [of 65536 "[s0, s1, s2, s3, s4, s5]" "[s6, s7]"] by (simp add: n_def)
  moreover have "number_of 65536 [s6, s7] < 2 ^ 32" using assms number_of_less [of 65536 "[s6, s7]"] by simp
  ultimately show "n div 2 ^ 112 = s0" "n div 2 ^ 96 = s0 * 65536 + s1" "n div 2 ^ 32 = number_of 65536 [s0, s1, s2, s3, s4, s5]"
    "n mod 2 ^ 32 = s6 * 65536 + s7"
    by (simp_all add: number_of.simps(2) [where ds = "[x]" for x] number_of.simps(2) [where ds = "[]"])
qed

lemma bytes_of_segment:
  fixes w :: "16 word"
  shows "unat (fst (to_be_bytes w)) = unat w div 256" "unat (snd (to_be_bytes w)) = unat w mod 256"
proof -
  have "unat (drop_bit 8 w) = unat w div 256" by (simp add: unat_drop_bit_eq drop_bit_eq_div [where 'a = nat])
  moreover have "unat w div 256 < 256" using unat_digit(2) [of w] by linarith
  ultimately show "unat (fst (to_be_bytes w)) = unat w div 256"
    by (simp add: to_be_bytes_def unsigned_ucast_eq take_bit_eq_mod)
  show "unat (snd (to_be_bytes w)) = unat w mod 256"
    by (simp add: to_be_bytes_def unsigned_ucast_eq take_bit_eq_mod)
qed


lemma embedded_number:
  "v4_number (embedded_ipv4 (Ipv6Addr s0 s1 s2 s3 s4 s5 s6 s7)) = unat s6 * 65536 + unat s7"
proof -
  have "number_of 256 [q, r, q', r'] = (q * 256 + r) * 65536 + (q' * 256 + r')" for q r q' r'
    by (simp add: number_of.simps)
  then show ?thesis unfolding embedded_ipv4.simps v4_number.simps bytes_of_segment by (simp only: div_mult_mod_eq)
qed

lemma reserved_segments:
  fixes s0 s1 s2 s3 s4 s5 s6 s7 :: nat
  assumes digits: "list_all (\<lambda>s. s < 65536) [s0, s1, s2, s3, s4, s5, s6, s7]"
  defines "n \<equiv> number_of 65536 [s0, s1, s2, s3, s4, s5, s6, s7]"
  shows "list_ex (\<lambda>blk. in_block 128 blk n) RESERVED_V6 \<longleftrightarrow>
      [s0, s1, s2, s3, s4, s5, s6, s7] = [0, 0, 0, 0, 0, 0, 0, 0] \<or> [s0, s1, s2, s3, s4, s5, s6, s7] = [0, 0, 0, 0, 0, 0, 0, 1]
      \<or> s0 div 512 = 126 \<or> s0 div 64 = 1018 \<or> s0 div 256 = 255 \<or> (s0 = 0x2001 \<and> s1 = 0x0DB8)"
    and "list_ex (\<lambda>blk. in_block 128 blk n) EMBEDDING_V6 \<longleftrightarrow>
      [s0, s1, s2, s3, s4, s5] = [0, 0, 0, 0, 0, 0xFFFF] \<or> [s0, s1, s2, s3, s4, s5] = [0, 0, 0, 0, 0, 0]
      \<or> [s0, s1, s2, s3, s4, s5] = [0x64, 0xFF9B, 0, 0, 0, 0]"
proof -
  note blocks = v6_blocks [OF digits, folded n_def]
  have first: "n div 2 ^ (112 + k) = s0 div 2 ^ k" for k
    using blocks(1) by (simp add: power_add div_mult2_eq)
  have "n = number_of 65536 [0, 0, 0, 0, 0, 0, 0, 0] \<longleftrightarrow> [s0, s1, s2, s3, s4, s5, s6, s7] = [0, 0, 0, 0, 0, 0, 0, 0]"
    "n = number_of 65536 [0, 0, 0, 0, 0, 0, 0, 1] \<longleftrightarrow> [s0, s1, s2, s3, s4, s5, s6, s7] = [0, 0, 0, 0, 0, 0, 0, 1]"
    unfolding n_def using digits by (intro number_of_eq; simp)+
  moreover have "number_of 65536 [0, 0, 0, 0, 0, 0, 0, 0] = 0" "number_of 65536 [0, 0, 0, 0, 0, 0, 0, 1] = 1"
    by (simp_all add: number_of.simps)
  moreover have "s0 * 65536 + s1 = 0x2001 * 65536 + 0x0DB8 \<longleftrightarrow> s0 = 0x2001 \<and> s1 = 0x0DB8"
    using digits by (intro pair_digits) simp_all
  ultimately show "list_ex (\<lambda>blk. in_block 128 blk n) RESERVED_V6 \<longleftrightarrow>
      [s0, s1, s2, s3, s4, s5, s6, s7] = [0, 0, 0, 0, 0, 0, 0, 0] \<or> [s0, s1, s2, s3, s4, s5, s6, s7] = [0, 0, 0, 0, 0, 0, 0, 1]
      \<or> s0 div 512 = 126 \<or> s0 div 64 = 1018 \<or> s0 div 256 = 255 \<or> (s0 = 0x2001 \<and> s1 = 0x0DB8)"
    using first [of 9] first [of 6] first [of 8] blocks(2) unfolding RESERVED_V6_def in_block_def by simp
  have "number_of 65536 [s0, s1, s2, s3, s4, s5] = number_of 65536 ds \<longleftrightarrow> [s0, s1, s2, s3, s4, s5] = ds"
    if "length ds = 6" "list_all (\<lambda>s. s < 65536) ds" for ds
    using that digits by (intro number_of_eq) simp_all
  from this [of "[0, 0, 0, 0, 0, 0xFFFF]"] this [of "[0, 0, 0, 0, 0, 0]"] this [of "[0x64, 0xFF9B, 0, 0, 0, 0]"]
  show "list_ex (\<lambda>blk. in_block 128 blk n) EMBEDDING_V6 \<longleftrightarrow>
      [s0, s1, s2, s3, s4, s5] = [0, 0, 0, 0, 0, 0xFFFF] \<or> [s0, s1, s2, s3, s4, s5] = [0, 0, 0, 0, 0, 0]
      \<or> [s0, s1, s2, s3, s4, s5] = [0x64, 0xFF9B, 0, 0, 0, 0]"
    using blocks(3) unfolding EMBEDDING_V6_def in_block_def
    by (simp add: number_of.simps(2) [where d = 0] number_of.simps(2) [where d = "numeral k" for k])
qed

lemma public_ipv6_blocks: "is_public_ipv6 v6 \<longleftrightarrow> outside_blocks (V6 v6)"
proof (cases v6)
  case (Ipv6Addr s0 s1 s2 s3 s4 s5 s6 s7)
  let ?ds = "[unat s0, unat s1, unat s2, unat s3, unat s4, unat s5, unat s6, unat s7]"
  have digits: "list_all (\<lambda>s. s < 65536) ?ds" by simp
  have low: "number_of 65536 ?ds mod 2 ^ 32 = v4_number (embedded_ipv4 v6)"
    unfolding Ipv6Addr embedded_number by (rule v6_blocks(4) [OF digits])
  define pub where "pub \<longleftrightarrow> is_public_ipv4 (embedded_ipv4 v6)"
  have conv: "w = 0 \<longleftrightarrow> unat w = 0" "w = 1 \<longleftrightarrow> unat w = 1" "w = 0xffff \<longleftrightarrow> unat w = 0xFFFF" "w = 0x0064 \<longleftrightarrow> unat w = 0x64"
    "w = 0xff9b \<longleftrightarrow> unat w = 0xFF9B" "w = 0x2001 \<longleftrightarrow> unat w = 0x2001" "w = 0x0db8 \<longleftrightarrow> unat w = 0x0DB8" for w :: "16 word"
    by (simp_all add: word_unat_eq_iff)
  have take6: "take 6 [a, b, c, d, e, f, g, h] = [a, b, c, d, e, f]" for a b c d e f g h :: nat by simp
  have code: "is_public_ipv6 v6 \<longleftrightarrow> (?ds \<noteq> [0, 0, 0, 0, 0, 0, 0, 0] \<and> ?ds \<noteq> [0, 0, 0, 0, 0, 0, 0, 1]) \<and>
    (if take 6 ?ds = [0, 0, 0, 0, 0, 0xFFFF] \<or> take 6 ?ds = [0, 0, 0, 0, 0, 0] \<or> take 6 ?ds = [0x64, 0xFF9B, 0, 0, 0, 0] then pub
     else \<not> (unat s0 div 512 = 126 \<or> unat s0 div 64 = 1018 \<or> unat s0 div 256 = 255 \<or> unat s0 = 0x2001 \<and> unat s1 = 0x0DB8))"
    unfolding pub_def Ipv6Addr is_public_ipv6.simps masked_tests Let_def ipv6_addr.inject conv take6 list.inject
    by (simp only: de_Morgan_disj simp_thms HOL.if_False split: if_split) blast
  have spec: "outside_blocks (V6 v6) \<longleftrightarrow> \<not> (?ds = [0, 0, 0, 0, 0, 0, 0, 0] \<or> ?ds = [0, 0, 0, 0, 0, 0, 0, 1]
      \<or> unat s0 div 512 = 126 \<or> unat s0 div 64 = 1018 \<or> unat s0 div 256 = 255 \<or> unat s0 = 0x2001 \<and> unat s1 = 0x0DB8)
    \<and> (take 6 ?ds = [0, 0, 0, 0, 0, 0xFFFF] \<or> take 6 ?ds = [0, 0, 0, 0, 0, 0] \<or> take 6 ?ds = [0x64, 0xFF9B, 0, 0, 0, 0] \<longrightarrow> pub)"
    unfolding outside_blocks_def ip_addr.case pub_def public_ipv4_blocks Ipv6Addr v6_number.simps reserved_segments [OF digits]
      low [unfolded Ipv6Addr] take6 by (rule refl)
  show ?thesis unfolding code spec take6 list.inject by (cases "unat s0 = 0"; cases "unat s0 = 100"; simp del: neq0_conv; blast)
qed


section \<open>Where the requests go\<close>

lemma resolve_host_public:
  assumes "resolve_host resolve host port = Inr addrs"
  shows "list_all (\<lambda>a. is_public_ip (fst a)) addrs"
proof (cases "parse_ip host")
  case None
  with assms show ?thesis
    by (auto simp: resolve_host_def list_all_iff find_None_iff is_private_ip_def split: sum.splits if_splits option.splits)
next
  case (Some ip)
  with assms show ?thesis by (auto simp: resolve_host_def is_private_ip_def split: if_splits)
qed

lemma resolved_public:
  "resolve_and_validate_url resolve u = Inr (host, addrs) \<Longrightarrow> list_all (\<lambda>a. is_public_ip (fst a)) addrs"
  by (auto simp: resolve_and_validate_url_def dest: resolve_host_public split: if_splits option.splits sum.splits)

lemma validated_public:
  "validate_feed_url url_parse resolve feed_url = Inr addrs \<Longrightarrow> list_all (\<lambda>a. is_public_ip (fst a)) addrs"
  by (auto simp: validate_feed_url_def dest: resolve_host_public split: if_splits option.splits)

lemma safe_url_public:
  assumes "is_url_ssrf_safe resolve u" "ur_host_str u = Some host"
  shows "case parse_ip host of Some ip \<Rightarrow> is_public_ip ip
    | None \<Rightarrow> (\<exists>addrs. resolve host (port_of u) = Inr addrs \<and> addrs \<noteq> [] \<and> list_all (\<lambda>a. is_public_ip (fst a)) addrs)"
  using assms
  by (auto simp: is_url_ssrf_safe_def is_private_ip_def list_ex_iff list_all_iff split: if_splits option.splits sum.splits)

lemma fetch_only_public:
  assumes "\<And>u h as t. list_all (\<lambda>a. is_public_ip (fst a)) as \<Longrightarrow> send u h as t = send' u h as t"
    and "list_all (\<lambda>a. is_public_ip (fst a)) addrs"
  shows "fetch_hops send url_join resolve clock max_redirects limit hop current_url hostname addrs
    = fetch_hops send' url_join resolve clock max_redirects limit hop current_url hostname addrs"
  using assms(2)
proof (induction "Suc max_redirects - hop" arbitrary: hop current_url hostname addrs rule: less_induct)
  case less
  have same: "send current_url hostname addrs t = send' current_url hostname addrs t" for t
    using assms(1) less.prems by blast
  have next_hop: "fetch_hops send url_join resolve clock max_redirects limit (Suc hop) text h as
      = fetch_hops send' url_join resolve clock max_redirects limit (Suc hop) text h as"
    if "resolve_and_validate_url resolve u = Inr (h, as)" "hop \<le> max_redirects" for u h as "text"
    using that less.hyps [of "Suc hop" "as" "text" h] resolved_public by simp
  show ?case
    by (subst (1 2) fetch_hops.simps)
      (auto simp: same next_hop split: sum.split option.split)
qed

section \<open>Properties of the guard\<close>

text \<open>
  C27: The guard takes an address for public exactly when it lies in none of the blocks that ADR 0054
  names; an IPv6 address that embeds an IPv4 address is judged by that one as well. The tests on
  octets and masked segments are the same as the prefixes of the blocks.
\<close>

theorem public_ip_is_outside_blocks: "is_public_ip ip = outside_blocks ip"
  by (cases ip) (simp_all add: public_ipv4_blocks public_ipv6_blocks outside_blocks_def)

text \<open>
  C28: A fetch whose first addresses passed the validation sends no request to an address that is not
  public, whatever the redirects and the resolver answer: two clients that agree on public addresses
  give the same result.
\<close>

theorem fetch_never_leaves_public_addresses:
  assumes "\<And>u h as t. list_all (\<lambda>a. is_public_ip (fst a)) as \<Longrightarrow> send u h as t = send' u h as t"
    and "validate_feed_url url_parse resolve initial_url = Inr addrs"
  shows "fetch_with_pinned_redirects send url_join resolve' clock initial_url host addrs max_redirects limit
    = fetch_with_pinned_redirects send' url_join resolve' clock initial_url host addrs max_redirects limit"
  unfolding fetch_with_pinned_redirects_def by (rule fetch_only_public [OF assms(1) validated_public [OF assms(2)]])

definition sample_url :: "string \<Rightarrow> url" where
  "sample_url host = \<lparr>ur_scheme = ''https'', ur_username = [], ur_password = None, ur_host_str = Some host,
     ur_port_or_known_default = Some 443\<rparr>"

lemma fetch_never_leaves_public_addresses_witness:
  "fetch_with_pinned_redirects (\<lambda>u h as t. Inl ''refused'') (\<lambda>u l. Inl l) (\<lambda>h p. Inl ''none'') (\<lambda>hop. 30) ''u'' ''93.184.216.34''
      [(V4 (Ipv4Addr 93 184 216 34), 443)] 3 100
    = fetch_with_pinned_redirects
        (\<lambda>u h as t. if list_all (\<lambda>a. is_public_ip (fst a)) as then Inl ''refused'' else Inr \<lparr>hr_status = 200, hr_location = None,
           hr_content_length = None, hr_chunks = [Inr ''secret'']\<rparr>)
        (\<lambda>u l. Inl l) (\<lambda>h p. Inl ''none'') (\<lambda>hop. 30) ''u'' ''93.184.216.34'' [(V4 (Ipv4Addr 93 184 216 34), 443)] 3 100"
proof (rule fetch_never_leaves_public_addresses)
  have "parse_ip ''93.184.216.34'' = Some (V4 (Ipv4Addr 93 184 216 34))" by code_simp
  then show "validate_feed_url (\<lambda>u. Some (sample_url ''93.184.216.34'')) (\<lambda>h p. Inl ''none'') ''u''
      = Inr [(V4 (Ipv4Addr 93 184 216 34), 443)]"
    by (simp add: validate_feed_url_def web_scheme_def sample_url_def resolve_host_def port_of_def is_private_ip_def)
qed simp

end
