(* ===== verification/Reads.thy ===== *)
theory Reads
  imports Moves Registry
begin

text \<open>
  The reads of \<^verbatim>\<open>src/db.rs\<close> that the query routes are built on: one feed, the staged claims of one
  entity, the albums that name a publisher feed, and the feeds that name a feed. The two searches
  collect their hits in a hash set, whose order is the argument \<open>order\<close>.
\<close>

definition get_feed :: "db \<Rightarrow> string \<Rightarrow> feed option" where
  "get_feed s feed_guid = map_option feed.truncate (lookup_by fe_feed_guid (t_feeds s) feed_guid)"

section \<open>The claims of an entity\<close>

definition get_source_contributor_claims_for_entity :: "db \<Rightarrow> string \<Rightarrow> string \<Rightarrow> source_contributor_claim list" where
  "get_source_contributor_claims_for_entity s entity_type entity_id =
     List.sort_key (\<lambda>r. (scc_position r, scc_name r))
       (filter (\<lambda>r. scc_entity_type r = entity_type \<and> scc_entity_id r = entity_id) (t_source_contributor_claims s))"

definition get_source_contributor_claims_for_feed_entity ::
  "db \<Rightarrow> string \<Rightarrow> string \<Rightarrow> string \<Rightarrow> source_contributor_claim list" where
  "get_source_contributor_claims_for_feed_entity s feed_guid entity_type entity_id =
     List.sort_key (\<lambda>r. (scc_position r, scc_name r))
       (filter (\<lambda>r. scc_feed_guid r = feed_guid \<and> scc_entity_type r = entity_type \<and> scc_entity_id r = entity_id)
         (t_source_contributor_claims s))"

text \<open>A track without claims of its own has those of its feed.\<close>

definition get_effective_source_contributor_claims_for_track :: "db \<Rightarrow> string \<Rightarrow> string \<Rightarrow> source_contributor_claim list" where
  "get_effective_source_contributor_claims_for_track s feed_guid track_guid =
     (let track_claims = get_source_contributor_claims_for_feed_entity s feed_guid ''track'' track_guid
      in if track_claims = [] then get_source_contributor_claims_for_feed_entity s feed_guid ''feed'' feed_guid
         else track_claims)"

definition get_source_entity_ids_for_entity :: "db \<Rightarrow> string \<Rightarrow> string \<Rightarrow> source_entity_id_claim list" where
  "get_source_entity_ids_for_entity s entity_type entity_id =
     List.sort_key (\<lambda>r. (sei_position r, sei_scheme r, sei_value r))
       (filter (\<lambda>r. sei_entity_type r = entity_type \<and> sei_entity_id r = entity_id) (t_source_entity_ids s))"

definition get_source_entity_ids_for_feed_entity :: "db \<Rightarrow> string \<Rightarrow> string \<Rightarrow> string \<Rightarrow> source_entity_id_claim list" where
  "get_source_entity_ids_for_feed_entity s feed_guid entity_type entity_id =
     List.sort_key (\<lambda>r. (sei_position r, sei_scheme r, sei_value r))
       (filter (\<lambda>r. sei_feed_guid r = feed_guid \<and> sei_entity_type r = entity_type \<and> sei_entity_id r = entity_id)
         (t_source_entity_ids s))"

definition get_source_entity_links_for_entity :: "db \<Rightarrow> string \<Rightarrow> string \<Rightarrow> source_entity_link list" where
  "get_source_entity_links_for_entity s entity_type entity_id =
     List.sort_key (\<lambda>r. (sel_position r, sel_link_type r, sel_url r))
       (filter (\<lambda>r. sel_entity_type r = entity_type \<and> sel_entity_id r = entity_id) (t_source_entity_links s))"

definition get_source_entity_links_for_feed_entity :: "db \<Rightarrow> string \<Rightarrow> string \<Rightarrow> string \<Rightarrow> source_entity_link list" where
  "get_source_entity_links_for_feed_entity s feed_guid entity_type entity_id =
     List.sort_key (\<lambda>r. (sel_position r, sel_link_type r, sel_url r))
       (filter (\<lambda>r. sel_feed_guid r = feed_guid \<and> sel_entity_type r = entity_type \<and> sel_entity_id r = entity_id)
         (t_source_entity_links s))"

definition get_source_release_claims_for_entity :: "db \<Rightarrow> string \<Rightarrow> string \<Rightarrow> source_release_claim list" where
  "get_source_release_claims_for_entity s entity_type entity_id =
     List.sort_key (\<lambda>r. (src_claim_type r, src_position r))
       (filter (\<lambda>r. src_entity_type r = entity_type \<and> src_entity_id r = entity_id) (t_source_release_claims s))"

definition get_source_release_claims_for_feed_entity :: "db \<Rightarrow> string \<Rightarrow> string \<Rightarrow> string \<Rightarrow> source_release_claim list" where
  "get_source_release_claims_for_feed_entity s feed_guid entity_type entity_id =
     List.sort_key (\<lambda>r. (src_claim_type r, src_position r))
       (filter (\<lambda>r. src_feed_guid r = feed_guid \<and> src_entity_type r = entity_type \<and> src_entity_id r = entity_id)
         (t_source_release_claims s))"

definition get_source_item_enclosures_for_entity :: "db \<Rightarrow> string \<Rightarrow> string \<Rightarrow> source_item_enclosure list" where
  "get_source_item_enclosures_for_entity s entity_type entity_id =
     List.sort_key (\<lambda>r. (sie_position r, sie_url r))
       (filter (\<lambda>r. sie_entity_type r = entity_type \<and> sie_entity_id r = entity_id) (t_source_item_enclosures s))"

definition get_source_item_enclosures_for_feed_entity :: "db \<Rightarrow> string \<Rightarrow> string \<Rightarrow> string \<Rightarrow> source_item_enclosure list" where
  "get_source_item_enclosures_for_feed_entity s feed_guid entity_type entity_id =
     List.sort_key (\<lambda>r. (sie_position r, sie_url r))
       (filter (\<lambda>r. sie_feed_guid r = feed_guid \<and> sie_entity_type r = entity_type \<and> sie_entity_id r = entity_id)
         (t_source_item_enclosures s))"

definition get_source_item_transcripts_for_entity :: "db \<Rightarrow> string \<Rightarrow> string \<Rightarrow> source_item_transcript list" where
  "get_source_item_transcripts_for_entity s entity_type entity_id =
     List.sort_key (\<lambda>r. (sit_position r, sit_url r))
       (filter (\<lambda>r. sit_entity_type r = entity_type \<and> sit_entity_id r = entity_id) (t_source_item_transcripts s))"

definition get_source_item_transcripts_for_feed_entity :: "db \<Rightarrow> string \<Rightarrow> string \<Rightarrow> string \<Rightarrow> source_item_transcript list" where
  "get_source_item_transcripts_for_feed_entity s feed_guid entity_type entity_id =
     List.sort_key (\<lambda>r. (sit_position r, sit_url r))
       (filter (\<lambda>r. sit_feed_guid r = feed_guid \<and> sit_entity_type r = entity_type \<and> sit_entity_id r = entity_id)
         (t_source_item_transcripts s))"

section \<open>Links between albums and publisher feeds\<close>

text \<open>The rows of the two \<^verbatim>\<open>SELECT\<close>s: the publisher links of all feeds.\<close>

definition publisher_link_items :: "db \<Rightarrow> feed_remote_item_raw list" where
  "publisher_link_items s =
     filter (\<lambda>r. fri_medium r = Some ''publisher'' \<and> fri_source r = ''podcast_publisher'') (t_feed_remote_items_raw s)"

definition item_resolution :: "db \<Rightarrow> feed_remote_item_raw \<Rightarrow> string option" where
  "item_resolution s r = resolved_guid (resolve_listed_feed s (fri_remote_feed_guid r) (fri_remote_feed_url r))"

text \<open>The URLs that name a feed: those observed for it, and the stored one.\<close>

definition urls_of_feed :: "db \<Rightarrow> string \<Rightarrow> string list" where
  "urls_of_feed s g =
     remdups (map ob_url (filter (\<lambda>ob. ob_feed_guid ob = g) (t_feed_url_observations s))
       @ (case get_feed s g of None \<Rightarrow> [] | Some f \<Rightarrow> [fe_feed_url f]))"

record publisher_album_artist =
  paa_feed_guid :: string
  paa_release_artist :: string

definition get_publisher_album_release_artists ::
  "(string list \<Rightarrow> string list) \<Rightarrow> db \<Rightarrow> string \<Rightarrow> publisher_album_artist list" where
  "get_publisher_album_release_artists order s publisher_feed_guid =
     (let resolves = (\<lambda>r. item_resolution s r = Some publisher_feed_guid);
          by_guid = filter (\<lambda>r. fri_remote_feed_guid r = publisher_feed_guid \<and> resolves r) (publisher_link_items s);
          by_url = concat (map (\<lambda>url. filter (\<lambda>r. fri_remote_feed_url r = Some url \<and> resolves r) (publisher_link_items s))
                     (order (urls_of_feed s publisher_feed_guid)));
          candidates = order (remdups (map fri_feed_guid (by_guid @ by_url)))
      in concat (map (\<lambda>g. case get_feed s g of None \<Rightarrow> []
           | Some f \<Rightarrow> if fe_release_artist_source f \<noteq> Some ''itunes_author'' then []
               else (case fe_release_artist f of None \<Rightarrow> []
                 | Some a \<Rightarrow> [\<lparr>paa_feed_guid = fe_feed_guid f, paa_release_artist = a\<rparr>])) candidates))"

definition get_feeds_naming_feed :: "(string list \<Rightarrow> string list) \<Rightarrow> db \<Rightarrow> string \<Rightarrow> string list" where
  "get_feeds_naming_feed order s named_feed_guid =
     (let names_it = (\<lambda>r. case item_resolution s r of None \<Rightarrow> True | Some g \<Rightarrow> g = named_feed_guid);
          by_guid = filter (\<lambda>r. fri_remote_feed_guid r = named_feed_guid \<and> names_it r) (publisher_link_items s);
          by_url = (case get_feed s named_feed_guid of None \<Rightarrow> []
             | Some f \<Rightarrow> concat (map (\<lambda>url. filter (\<lambda>r. fri_remote_feed_url r = Some url
                   \<and> item_resolution s r = Some named_feed_guid) (publisher_link_items s))
                 (order (urls_of_feed s named_feed_guid))))
      in order (remdups (map fri_feed_guid (by_guid @ by_url))))"

section \<open>Statistics of the listed links\<close>

record publisher_link_stats =
  pls_listed_links :: int
  pls_resolved_by_guid :: int
  pls_resolved_by_feed_url :: int
  pls_unresolved :: int

definition count_link :: "listed_feed_resolution \<Rightarrow> int \<times> int \<times> int \<Rightarrow> int \<times> int \<times> int" where
  "count_link r n = (case n of (by_guid, by_url, unresolved) \<Rightarrow> (case r of
       ByGuid _ \<Rightarrow> (by_guid + 1, by_url, unresolved)
     | ByFeedUrl _ _ \<Rightarrow> (by_guid, by_url + 1, unresolved)
     | Unresolved \<Rightarrow> (by_guid, by_url, unresolved + 1)))"

text \<open>The \<^verbatim>\<open>JOIN\<close> keeps the music items of the feeds whose medium is publisher in any case.\<close>

definition listed_link_items :: "db \<Rightarrow> feed_remote_item_raw list" where
  "listed_link_items s = filter (\<lambda>r. fri_medium r = Some ''music''
     \<and> (case get_feed s (fri_feed_guid r) of None \<Rightarrow> False
        | Some f \<Rightarrow> map_option to_ascii_lowercase (fe_raw_medium f) = Some ''publisher'')) (t_feed_remote_items_raw s)"

definition get_publisher_link_stats :: "db \<Rightarrow> publisher_link_stats" where
  "get_publisher_link_stats s =
     (case fold (\<lambda>r. count_link (resolve_listed_feed s (fri_remote_feed_guid r) (fri_remote_feed_url r)))
        (listed_link_items s) (0, 0, 0) of
      (by_guid, by_url, unresolved) \<Rightarrow>
        \<lparr>pls_listed_links = by_guid + by_url + unresolved, pls_resolved_by_guid = by_guid,
         pls_resolved_by_feed_url = by_url, pls_unresolved = unresolved\<rparr>)"

end
