(* ===== verification/Publisher.thy ===== *)
theory Publisher
  imports Reads Live
begin

text \<open>
  The \<^verbatim>\<open>publisher\<close> view of \<^verbatim>\<open>src/query.rs\<close>: the links between an album and the publisher feeds it
  names, read from both sides; the role that each side states, their agreement, and what is derived
  from the confirmed links of a publisher feed.
\<close>

section \<open>What the routes use\<close>

text \<open>
  URL parsing, Unicode lower case, the order of a hash set, and the coding of a cursor are arguments;
  so is the host list of the confirming relays, which the node reads from its environment.
\<close>

record query_env =
  qe_url_parse :: "string \<Rightarrow> url option"
  qe_lc :: "string \<Rightarrow> string"
  qe_hash_order :: "string list \<Rightarrow> string list"
  qe_relay_hosts :: "string list"
  qe_node_pubkey :: string
  qe_encode :: "string \<Rightarrow> string"
  qe_decode :: "string \<Rightarrow> string option"

definition web_url :: "query_env \<Rightarrow> string option \<Rightarrow> string option" where
  "web_url qe v = web_url_or_none (qe_url_parse qe) v"

section \<open>Roles\<close>

text \<open>\<^verbatim>\<open>str::split(", ")\<close>.\<close>

function split_roles :: "string \<Rightarrow> string list" where
  "split_roles s = (case s of [] \<Rightarrow> [[]]
     | c # s' \<Rightarrow> if starts_with s '', '' then [] # split_roles (drop 2 s)
         else (case split_roles s' of [] \<Rightarrow> [[c]] | p # ps \<Rightarrow> (c # p) # ps))"
  by pat_completeness auto
termination
  by (relation "measure length") auto

declare split_roles.simps [simp del]

text \<open>The roles of a raw \<^verbatim>\<open>rel\<close>: a comma list if it has a comma, else a list separated by white space.\<close>

definition raw_roles :: "string \<Rightarrow> string list" where
  "raw_roles v =
     (if CHR '','' \<in> set v
      then filter (\<lambda>role. role \<noteq> []) (map (\<lambda>part. to_ascii_lowercase (join '' '' (split_whitespace part))) (split_on CHR '','' v))
      else map to_ascii_lowercase (split_whitespace v))"

definition normalize_rel :: "string \<Rightarrow> string option" where
  "normalize_rel v = (let roles = bts_of_list (raw_roles v) in if roles = [] then None else Some (join '', '' roles))"

definition rel_of :: "string option \<Rightarrow> string option" where
  "rel_of rel = Option.bind rel normalize_rel"

definition resolve_role :: "string option \<Rightarrow> string option \<Rightarrow> string option \<times> string" where
  "resolve_role publisher_rel music_rel = (case (rel_of publisher_rel, rel_of music_rel) of
       (Some v, None) \<Rightarrow> (Some v, ''publisher_rel'')
     | (None, Some v) \<Rightarrow> (Some v, ''music_rel'')
     | (Some p, Some m) \<Rightarrow> if p = m then (Some p, ''publisher_rel'') else (None, ''conflict'')
     | (None, None) \<Rightarrow> (None, ''default''))"

definition role_agreement :: "string option \<Rightarrow> string option \<Rightarrow> string option" where
  "role_agreement publisher_rel music_rel = (case (rel_of publisher_rel, rel_of music_rel) of
       (Some p, Some m) \<Rightarrow> Some (if p = m then ''both'' else ''conflict'')
     | (Some _, None) \<Rightarrow> Some ''one_side''
     | (None, Some _) \<Rightarrow> Some ''one_side''
     | (None, None) \<Rightarrow> None)"

definition rel_tokens :: "string \<Rightarrow> string list" where
  "rel_tokens v = (case normalize_rel v of None \<Rightarrow> [] | Some roles \<Rightarrow> split_roles roles)"

section \<open>Summaries of a named feed and track\<close>

record named_feed =
  nf_title :: "string option"
  nf_image_url :: "string option"
  nf_release_artist :: "string option"
  nf_release_artist_source :: "string option"
  nf_episode_count :: "int option"

definition no_feed :: named_feed where
  "no_feed = \<lparr>nf_title = None, nf_image_url = None, nf_release_artist = None, nf_release_artist_source = None,
     nf_episode_count = None\<rparr>"

definition named_feed_summary :: "query_env \<Rightarrow> db \<Rightarrow> string option \<Rightarrow> named_feed" where
  "named_feed_summary qe s feed_guid = (case feed_guid of None \<Rightarrow> no_feed
     | Some g \<Rightarrow> (case lookup_by fe_feed_guid (t_feeds s) g of None \<Rightarrow> no_feed
         | Some f \<Rightarrow> \<lparr>nf_title = Some (fe_title f), nf_image_url = web_url qe (fe_image_url f),
             nf_release_artist = fe_release_artist f, nf_release_artist_source = fe_release_artist_source f,
             nf_episode_count = Some (fe_episode_count f)\<rparr>))"

definition remote_item_summary :: "query_env \<Rightarrow> db \<Rightarrow> string \<Rightarrow> string option \<Rightarrow> named_feed" where
  "remote_item_summary qe s remote_feed_guid remote_feed_url =
     named_feed_summary qe s (resolved_guid (resolve_listed_feed s remote_feed_guid remote_feed_url))"

record named_track =
  nt_guid :: "string option"
  nt_title :: "string option"
  nt_duration_secs :: "int option"
  nt_image_url :: "string option"

definition no_track :: named_track where
  "no_track = \<lparr>nt_guid = None, nt_title = None, nt_duration_secs = None, nt_image_url = None\<rparr>"

definition named_track_summary :: "query_env \<Rightarrow> db \<Rightarrow> string \<Rightarrow> string \<Rightarrow> named_track" where
  "named_track_summary qe s feed_guid item_guid = (case lookup_by track_key (t_tracks s) (feed_guid, item_guid) of
       None \<Rightarrow> no_track
     | Some t \<Rightarrow> \<lparr>nt_guid = Some (tr_track_guid t), nt_title = Some (tr_title t), nt_duration_secs = tr_duration_secs t,
         nt_image_url = web_url qe (tr_image_url t)\<rparr>)"

section \<open>One row of the view\<close>

record publisher_response =
  pbr_direction :: string
  pbr_remote_feed_guid :: string
  pbr_remote_feed_url :: "string option"
  pbr_remote_feed_medium :: "string option"
  pbr_publisher_feed_guid :: string
  pbr_publisher_feed_url :: "string option"
  pbr_music_feed_guid :: string
  pbr_music_feed_url :: "string option"
  pbr_music_names_publisher :: bool
  pbr_publisher_lists_music :: bool
  pbr_publisher_link_resolution :: string
  pbr_publisher_link_observed_at :: "int option"
  pbr_reciprocal_declared :: bool
  pbr_reciprocal_medium :: "string option"
  pbr_two_way_validated :: bool
  pbr_publisher_rel :: "string option"
  pbr_music_rel :: "string option"
  pbr_role :: "string option"
  pbr_role_source :: string
  pbr_role_agreement :: "string option"
  pbr_remote_feed_title :: "string option"
  pbr_remote_feed_image_url :: "string option"
  pbr_remote_release_artist :: "string option"
  pbr_remote_release_artist_source :: "string option"
  pbr_remote_episode_count :: "int option"
  pbr_album_names_as :: "string option"
  pbr_album_names_rank :: "nat option"

definition is_album_publisher_link :: "string \<Rightarrow> bool" where
  "is_album_publisher_link source \<longleftrightarrow> source = ''podcast_publisher''"

definition album_names_as_value :: "string \<Rightarrow> string option" where
  "album_names_as_value source = (if is_album_publisher_link source then Some ''publisher'' else None)"

text \<open>The test of an album item that counts as a publisher link.\<close>

definition names_publisher :: "feed_remote_item_raw \<Rightarrow> bool" where
  "names_publisher item \<longleftrightarrow> fri_medium item = Some ''publisher'' \<and> is_album_publisher_link (fri_source item)"

text \<open>\<^verbatim>\<open>Iterator::position\<close>.\<close>

fun index_of :: "('a \<Rightarrow> bool) \<Rightarrow> 'a list \<Rightarrow> nat option" where
  "index_of p [] = None"
| "index_of p (x # xs) = (if p x then Some 0 else map_option Suc (index_of p xs))"

definition album_item_rank :: "feed_remote_item_raw list \<Rightarrow> int \<Rightarrow> nat option" where
  "album_item_rank items matched_position =
     map_option Suc (index_of (\<lambda>item. fri_position item = matched_position) (filter names_publisher items))"

definition resolution_kind :: "listed_feed_resolution \<Rightarrow> string" where
  "resolution_kind r = (case r of ByGuid _ \<Rightarrow> ''guid'' | ByFeedUrl _ _ \<Rightarrow> ''feed_url'' | Unresolved \<Rightarrow> ''unresolved'')"

definition resolution_observed_at :: "listed_feed_resolution \<Rightarrow> int option" where
  "resolution_observed_at r = (case r of ByFeedUrl _ t \<Rightarrow> Some t | _ \<Rightarrow> None)"

definition resolved_or_declared ::
  "db \<Rightarrow> listed_feed_resolution \<Rightarrow> string \<Rightarrow> string option \<Rightarrow> string \<times> string option" where
  "resolved_or_declared s resolution declared_guid declared_url = (case resolved_guid resolution of
       None \<Rightarrow> (declared_guid, declared_url)
     | Some g \<Rightarrow> (g, case get_feed s g of None \<Rightarrow> declared_url | Some f \<Rightarrow> Some (fe_feed_url f)))"

record publisher_link_facts =
  plf_music_names_publisher :: bool
  plf_publisher_lists_music :: bool
  plf_publisher_link_resolution :: string
  plf_publisher_link_observed_at :: "int option"
  plf_reciprocal_medium :: "string option"
  plf_publisher_feed_guid :: string
  plf_publisher_feed_url :: "string option"
  plf_music_feed_guid :: string
  plf_music_feed_url :: "string option"
  plf_matched_item_rel :: "string option"
  plf_matched_item_source :: "string option"
  plf_album_names_rank :: "nat option"
  plf_named_feed_guid :: "string option"

text \<open>The resolution of an item, and the first of the items that resolves to a feed.\<close>

definition resolution_of :: "db \<Rightarrow> feed_remote_item_raw \<Rightarrow> listed_feed_resolution" where
  "resolution_of s item = resolve_listed_feed s (fri_remote_feed_guid item) (fri_remote_feed_url item)"

definition first_match :: "db \<Rightarrow> string \<Rightarrow> feed_remote_item_raw list \<Rightarrow> feed_remote_item_raw option" where
  "first_match s feed_guid items = find (\<lambda>item. resolved_guid (resolution_of s item) = Some feed_guid) items"

definition music_to_publisher_facts :: "db \<Rightarrow> feed \<Rightarrow> string \<Rightarrow> string option \<Rightarrow> publisher_link_facts" where
  "music_to_publisher_facts s current_feed listed_guid listed_url =
     (let publisher_resolution = resolve_listed_feed s listed_guid listed_url;
          (publisher_feed_guid, publisher_feed_url) = resolved_or_declared s publisher_resolution listed_guid listed_url;
          matched = (case resolved_guid publisher_resolution of None \<Rightarrow> None
            | Some g \<Rightarrow> first_match s (fe_feed_guid current_feed)
                (filter (\<lambda>item. fri_medium item = Some ''music'') (get_feed_remote_items_for_feed s g)))
      in \<lparr>plf_music_names_publisher = True,
          plf_publisher_lists_music = (matched \<noteq> None),
          plf_publisher_link_resolution = (case matched of None \<Rightarrow> ''unresolved'' | Some m \<Rightarrow> resolution_kind (resolution_of s m)),
          plf_publisher_link_observed_at = Option.bind matched (\<lambda>m. resolution_observed_at (resolution_of s m)),
          plf_reciprocal_medium = Option.bind matched fri_medium,
          plf_publisher_feed_guid = publisher_feed_guid, plf_publisher_feed_url = publisher_feed_url,
          plf_music_feed_guid = fe_feed_guid current_feed, plf_music_feed_url = Some (fe_feed_url current_feed),
          plf_matched_item_rel = Option.bind matched fri_rel, plf_matched_item_source = None, plf_album_names_rank = None,
          plf_named_feed_guid = resolved_guid publisher_resolution\<rparr>)"

definition publisher_to_music_facts :: "db \<Rightarrow> feed \<Rightarrow> string \<Rightarrow> string option \<Rightarrow> publisher_link_facts" where
  "publisher_to_music_facts s current_feed listed_guid listed_url =
     (let music_resolution = resolve_listed_feed s listed_guid listed_url;
          (music_feed_guid, music_feed_url) = resolved_or_declared s music_resolution listed_guid listed_url;
          album_items = (case resolved_guid music_resolution of None \<Rightarrow> [] | Some g \<Rightarrow> get_feed_remote_items_for_feed s g);
          matched = first_match s (fe_feed_guid current_feed) (filter names_publisher album_items)
      in \<lparr>plf_music_names_publisher = (matched \<noteq> None),
          plf_publisher_lists_music = True,
          plf_publisher_link_resolution = resolution_kind music_resolution,
          plf_publisher_link_observed_at = resolution_observed_at music_resolution,
          plf_reciprocal_medium = Option.bind matched fri_medium,
          plf_publisher_feed_guid = fe_feed_guid current_feed, plf_publisher_feed_url = Some (fe_feed_url current_feed),
          plf_music_feed_guid = music_feed_guid, plf_music_feed_url = music_feed_url,
          plf_matched_item_rel = Option.bind matched fri_rel,
          plf_matched_item_source = map_option fri_source matched,
          plf_album_names_rank = Option.bind matched (\<lambda>m. album_item_rank album_items (fri_position m)),
          plf_named_feed_guid = resolved_guid music_resolution\<rparr>)"

definition publisher_direction :: "string option \<Rightarrow> string option" where
  "publisher_direction medium =
     (if medium = Some ''publisher'' then Some ''music_to_publisher''
      else if medium = Some ''music'' then Some ''publisher_to_music'' else None)"

record publisher_row_item =
  pri_medium :: "string option"
  pri_remote_feed_guid :: string
  pri_remote_feed_url :: "string option"
  pri_rel :: "string option"
  pri_source :: string
  pri_position :: int

definition build_publisher_row ::
  "query_env \<Rightarrow> db \<Rightarrow> feed \<Rightarrow> feed_remote_item_raw list \<Rightarrow> publisher_row_item \<Rightarrow> publisher_response option" where
  "build_publisher_row qe s current_feed current_feed_remote_items item =
     (case publisher_direction (pri_medium item) of None \<Rightarrow> None
      | Some direction \<Rightarrow>
          let to_publisher = (direction = ''music_to_publisher'');
              facts = (if to_publisher
                then music_to_publisher_facts s current_feed (pri_remote_feed_guid item) (pri_remote_feed_url item)
                else publisher_to_music_facts s current_feed (pri_remote_feed_guid item) (pri_remote_feed_url item));
              reciprocal_declared = (plf_music_names_publisher facts \<and> plf_publisher_lists_music facts);
              publisher_rel = (if to_publisher then plf_matched_item_rel facts else pri_rel item);
              music_rel = (if to_publisher then pri_rel item else plf_matched_item_rel facts);
              (role, role_source) = resolve_role publisher_rel music_rel;
              summary = named_feed_summary qe s (plf_named_feed_guid facts)
          in Some \<lparr>pbr_direction = direction,
               pbr_remote_feed_guid = pri_remote_feed_guid item,
               pbr_remote_feed_url = web_url qe (pri_remote_feed_url item),
               pbr_remote_feed_medium = Option.bind (get_feed s (pri_remote_feed_guid item)) fe_raw_medium,
               pbr_publisher_feed_guid = plf_publisher_feed_guid facts,
               pbr_publisher_feed_url = web_url qe (plf_publisher_feed_url facts),
               pbr_music_feed_guid = plf_music_feed_guid facts,
               pbr_music_feed_url = web_url qe (plf_music_feed_url facts),
               pbr_music_names_publisher = plf_music_names_publisher facts,
               pbr_publisher_lists_music = plf_publisher_lists_music facts,
               pbr_publisher_link_resolution = plf_publisher_link_resolution facts,
               pbr_publisher_link_observed_at = plf_publisher_link_observed_at facts,
               pbr_reciprocal_declared = reciprocal_declared,
               pbr_reciprocal_medium = plf_reciprocal_medium facts,
               pbr_two_way_validated = reciprocal_declared,
               pbr_publisher_rel = publisher_rel, pbr_music_rel = music_rel,
               pbr_role = role, pbr_role_source = role_source,
               pbr_role_agreement = role_agreement publisher_rel music_rel,
               pbr_remote_feed_title = nf_title summary, pbr_remote_feed_image_url = nf_image_url summary,
               pbr_remote_release_artist = nf_release_artist summary,
               pbr_remote_release_artist_source = nf_release_artist_source summary,
               pbr_remote_episode_count = nf_episode_count summary,
               pbr_album_names_as = (if to_publisher then album_names_as_value (pri_source item)
                 else Option.bind (plf_matched_item_source facts) album_names_as_value),
               pbr_album_names_rank = (if to_publisher then album_item_rank current_feed_remote_items (pri_position item)
                 else plf_album_names_rank facts)\<rparr>)"

definition row_item_of_feed :: "feed_remote_item_raw \<Rightarrow> publisher_row_item" where
  "row_item_of_feed item = \<lparr>pri_medium = fri_medium item, pri_remote_feed_guid = fri_remote_feed_guid item,
     pri_remote_feed_url = fri_remote_feed_url item, pri_rel = fri_rel item, pri_source = fri_source item,
     pri_position = fri_position item\<rparr>"

definition row_item_of_track :: "track_remote_item_raw \<Rightarrow> publisher_row_item" where
  "row_item_of_track item = \<lparr>pri_medium = tri_medium item, pri_remote_feed_guid = tri_remote_feed_guid item,
     pri_remote_feed_url = tri_remote_feed_url item, pri_rel = tri_rel item, pri_source = tri_source item,
     pri_position = tri_position item\<rparr>"

definition load_publisher :: "query_env \<Rightarrow> db \<Rightarrow> string \<Rightarrow> publisher_response list" where
  "load_publisher qe s feed_guid = (case get_feed s feed_guid of None \<Rightarrow> []
     | Some current_feed \<Rightarrow>
         let remote_items = get_feed_remote_items_for_feed s feed_guid
         in List.map_filter (\<lambda>item.
              if fri_medium item = Some ''publisher'' \<and> \<not> is_album_publisher_link (fri_source item) then None
              else build_publisher_row qe s current_feed remote_items (row_item_of_feed item)) remote_items)"

text \<open>\<open>None\<close> is the error of a track whose feed is missing.\<close>

definition load_track_publisher :: "query_env \<Rightarrow> db \<Rightarrow> string \<Rightarrow> string \<Rightarrow> publisher_response list option" where
  "load_track_publisher qe s feed_guid track_guid = (case get_track_for_feed s feed_guid track_guid of None \<Rightarrow> Some []
     | Some current_track \<Rightarrow> (case get_feed s (tr_feed_guid current_track) of None \<Rightarrow> None
         | Some current_feed \<Rightarrow> Some (List.map_filter (\<lambda>item. build_publisher_row qe s current_feed [] (row_item_of_track item))
             (get_track_remote_items_for_feed_track s feed_guid track_guid))))"

section \<open>What is derived from the rows\<close>

definition is_confirmed_link :: "publisher_response \<Rightarrow> bool" where
  "is_confirmed_link row \<longleftrightarrow> pbr_two_way_validated row \<and> pbr_role_agreement row \<noteq> Some ''conflict''"

definition is_name_level_release :: "publisher_response list \<Rightarrow> bool" where
  "is_name_level_release rows =
     list_all (\<lambda>row. pbr_role_agreement row = Some ''both''
         \<and> list_all (\<lambda>token. token \<noteq> ''artist'') (case pbr_role row of None \<Rightarrow> [] | Some r \<Rightarrow> rel_tokens r))
       (filter (\<lambda>row. pbr_direction row = ''music_to_publisher'' \<and> pbr_remote_feed_title row \<noteq> None) rows)"

text \<open>The loop over the rows: the keys seen and the artists kept, confirmed and not.\<close>

fun artist_lists :: "(string \<Rightarrow> string) \<Rightarrow> publisher_response list \<Rightarrow> string list \<times> string list \<Rightarrow> string list \<times> string list" where
  "artist_lists key [] st = st"
| "artist_lists key (row # rows) (confirmed, unconfirmed) =
     (if pbr_direction row \<noteq> ''publisher_to_music'' \<or> pbr_publisher_link_resolution row = ''unresolved''
      then artist_lists key rows (confirmed, unconfirmed)
      else if pbr_remote_release_artist_source row = Some ''placeholder'' then artist_lists key rows (confirmed, unconfirmed)
      else (case pbr_remote_release_artist row of None \<Rightarrow> artist_lists key rows (confirmed, unconfirmed)
        | Some artist \<Rightarrow>
            if is_confirmed_link row
            then artist_lists key rows (if key artist \<in> key ` set confirmed then confirmed else confirmed @ [artist], unconfirmed)
            else artist_lists key rows (confirmed, if key artist \<in> key ` set unconfirmed then unconfirmed else unconfirmed @ [artist])))"

definition confirmed_and_unconfirmed_release_artists ::
  "query_env \<Rightarrow> publisher_response list \<Rightarrow> string list \<times> string list" where
  "confirmed_and_unconfirmed_release_artists qe rows =
     (case artist_lists (sort_key (qe_lc qe)) rows ([], []) of (confirmed, unconfirmed) \<Rightarrow>
        (confirmed, filter (\<lambda>a. sort_key (qe_lc qe) a \<notin> sort_key (qe_lc qe) ` set confirmed) unconfirmed))"

record link_fact_values =
  lf_two_way_link_count :: int
  lf_stated_rels :: "string list"
  lf_agreed_roles :: "string list"
  lf_confirmed_release_artists :: "string list"
  lf_first_named_count :: int

definition tokens_of_rows :: "publisher_response list \<Rightarrow> string list" where
  "tokens_of_rows rows = bts_of_list (concat (map (\<lambda>row. case pbr_publisher_rel row of None \<Rightarrow> [] | Some r \<Rightarrow> rel_tokens r) rows))"

definition link_facts :: "query_env \<Rightarrow> publisher_response list \<Rightarrow> link_fact_values" where
  "link_facts qe rows =
     (let confirmed = filter (\<lambda>row. pbr_direction row = ''publisher_to_music'' \<and> is_confirmed_link row) rows
      in \<lparr>lf_two_way_link_count = int (length confirmed),
          lf_stated_rels = tokens_of_rows confirmed,
          lf_agreed_roles = tokens_of_rows (filter (\<lambda>row. pbr_role_agreement row = Some ''both'') confirmed),
          lf_confirmed_release_artists = fst (confirmed_and_unconfirmed_release_artists qe rows),
          lf_first_named_count = int (length (filter (\<lambda>row. pbr_album_names_rank row = Some 1) confirmed))\<rparr>)"

section \<open>Publisher feeds that share albums\<close>

record credit_entry =
  ce_title :: "string option"
  ce_roles :: "string list"
  ce_albums :: "string list"

definition credit_album ::
  "string \<Rightarrow> publisher_response \<Rightarrow> (string \<times> credit_entry) list \<Rightarrow> (string \<times> credit_entry) list" where
  "credit_album album row entries =
     (let entry = (case map_of entries (pbr_publisher_feed_guid row) of
            None \<Rightarrow> \<lparr>ce_title = pbr_remote_feed_title row, ce_roles = [], ce_albums = []\<rparr> | Some e \<Rightarrow> e);
          rel = (case pbr_music_rel row of None \<Rightarrow> [] | Some r \<Rightarrow> trim r)
      in bt_insert (pbr_publisher_feed_guid row)
           \<lparr>ce_title = ce_title entry,
            ce_roles = (if rel = [] then ce_roles entry else bts_of_list (rel # ce_roles entry)),
            ce_albums = bts_of_list (album # ce_albums entry)\<rparr> entries)"

record co_credited_feed_response =
  ccf_feed_guid :: string
  ccf_title :: "string option"
  ccf_roles :: "string list"
  ccf_album_count :: int

definition co_credited_feeds :: "query_env \<Rightarrow> db \<Rightarrow> string \<Rightarrow> publisher_response list \<Rightarrow> co_credited_feed_response list" where
  "co_credited_feeds qe s publisher_guid rows =
     (let albums = map pbr_music_feed_guid
            (filter (\<lambda>row. pbr_direction row = ''publisher_to_music'' \<and> is_confirmed_link row) rows);
          album_rows = (\<lambda>album. filter (\<lambda>r. pbr_direction r = ''music_to_publisher'' \<and> is_confirmed_link r
            \<and> pbr_publisher_feed_guid r \<noteq> publisher_guid) (load_publisher qe s album));
          entries = fold (\<lambda>album. fold (credit_album album) (album_rows album)) albums []
      in List.sort_key (\<lambda>c. (- ccf_album_count c, ccf_feed_guid c))
           (map (\<lambda>(g, e). \<lparr>ccf_feed_guid = g, ccf_title = ce_title e, ccf_roles = ce_roles e,
              ccf_album_count = int (length (ce_albums e))\<rparr>) entries))"

section \<open>The publisher of an album\<close>

definition resolve_publisher_feed :: "db \<Rightarrow> string \<Rightarrow> (string \<times> string) option" where
  "resolve_publisher_feed s feed_guid = (case find names_publisher (get_feed_remote_items_for_feed s feed_guid) of
       None \<Rightarrow> None
     | Some item \<Rightarrow> (case resolved_guid (resolution_of s item) of None \<Rightarrow> None
         | Some g \<Rightarrow> map_option (\<lambda>f. (fe_feed_guid f, fe_title f)) (get_feed s g)))"

definition publisher_name_fields :: "(string \<times> string) option \<Rightarrow> string option \<times> string option" where
  "publisher_name_fields name = (map_option fst name, map_option snd name)"

text \<open>A map from the normal form of an artist to the artist of the album with the least GUID.\<close>

definition publisher_artist_count :: "query_env \<Rightarrow> db \<Rightarrow> string \<Rightarrow> int \<times> string list" where
  "publisher_artist_count qe s feed_guid =
     (let albums = List.sort_key paa_feed_guid (get_publisher_album_release_artists (qe_hash_order qe) s feed_guid);
          by_normalized = fold (\<lambda>album m. let k = sort_key (qe_lc qe) (paa_release_artist album)
             in if map_of m k = None then bt_insert k (paa_release_artist album) m else m) albums []
      in (int (length by_normalized), map snd by_normalized))"

record named_feed_entry =
  nfe_publisher_feed_guid :: string
  nfe_remote_feed_title :: "string option"
  nfe_album_names_rank :: "nat option"
  nfe_role :: "string option"
  nfe_role_agreement :: "string option"
  nfe_two_way_validated :: bool

definition named_feed_entries :: "publisher_response list \<Rightarrow> named_feed_entry list" where
  "named_feed_entries rows =
     List.sort_key (\<lambda>e. (nfe_album_names_rank e = None, nfe_album_names_rank e))
       (map (\<lambda>row. \<lparr>nfe_publisher_feed_guid = pbr_publisher_feed_guid row, nfe_remote_feed_title = pbr_remote_feed_title row,
            nfe_album_names_rank = pbr_album_names_rank row, nfe_role = pbr_role row,
            nfe_role_agreement = pbr_role_agreement row, nfe_two_way_validated = pbr_two_way_validated row\<rparr>)
         (filter (\<lambda>row. pbr_direction row = ''music_to_publisher'') rows))"

end
