(* ===== verification/View.thy ===== *)
theory View
  imports Publisher Observe Guard
begin

text \<open>
  What the read routes of \<^verbatim>\<open>src/query.rs\<close> give for one feed and one track: the response rows, the
  includes of a request, and the handlers of \<^verbatim>\<open>GET /v1/feeds/\{guid\}\<close>, \<^verbatim>\<open>GET /v1/tracks/\{guid\}\<close> and
  \<^verbatim>\<open>GET /v1/feeds/\{guid\}/tracks/\{guid\}\<close>. A row of the store stands for the row struct that a query
  fills. The envelope's \<^verbatim>\<open>meta\<close> is left out.
\<close>

section \<open>The parameters of a list\<close>

definition LIST_LIMIT_MAX :: int where "LIST_LIMIT_MAX = 200"
definition SEARCH_LIMIT_MAX :: int where "SEARCH_LIMIT_MAX = 100"

record list_query =
  lq_cursor :: "string option"
  lq_limit :: "int option"
  lq_include :: "string option"
  lq_medium :: "string option"
  lq_stated_rel :: "string option"
  lq_two_way_links :: "string option"
  lq_from :: "string option"
  lq_artist_key :: "string option"
  lq_named_feed_guid :: "string option"

definition clamp_limit :: "int \<Rightarrow> int \<Rightarrow> int" where
  "clamp_limit hi x = (if x < 1 then 1 else if x > hi then hi else x)"

definition limit_or :: "int \<Rightarrow> int option \<Rightarrow> int" where
  "limit_or d v = (case v of None \<Rightarrow> d | Some l \<Rightarrow> l)"

definition capped_limit :: "list_query \<Rightarrow> int" where
  "capped_limit params = clamp_limit LIST_LIMIT_MAX (limit_or 50 (lq_limit params))"

definition has_include :: "list_query \<Rightarrow> string \<Rightarrow> bool" where
  "has_include params field = (case lq_include params of None \<Rightarrow> False
     | Some s \<Rightarrow> list_ex (\<lambda>f. trim f = field) (split_on CHR '','' s))"

definition include_if :: "list_query \<Rightarrow> string \<Rightarrow> 'a \<Rightarrow> 'a option" where
  "include_if params field v = (if has_include params field then Some v else None)"

record pagination =
  pg_cursor :: "string option"
  pg_has_more :: bool

record 'a query_response =
  qr_data :: 'a
  qr_pagination :: pagination

definition one_page :: "'a \<Rightarrow> 'a query_response" where
  "one_page x = \<lparr>qr_data = x, qr_pagination = \<lparr>pg_cursor = None, pg_has_more = False\<rparr>\<rparr>"

text \<open>\<^verbatim>\<open>COALESCE\<close> of SQL, \<^verbatim>\<open>or\<close> of an option.\<close>

definition coalesce :: "'a option \<Rightarrow> 'a option \<Rightarrow> 'a option" where
  "coalesce a b = (case a of None \<Rightarrow> b | Some x \<Rightarrow> Some x)"

section \<open>Payment routes and value time splits\<close>

text \<open>The JSON text of a \<^verbatim>\<open>RouteType\<close>, as the column stores it.\<close>

fun route_type_str :: "route_type \<Rightarrow> string" where
  "route_type_str Node = ''node''"
| "route_type_str Wallet = ''wallet''"
| "route_type_str Keysend = ''keysend''"
| "route_type_str Lnaddress = ''lnaddress''"

record route_response =
  rtr_recipient_name :: "string option"
  rtr_route_type :: string
  rtr_address :: string
  rtr_custom_key :: "string option"
  rtr_custom_value :: "string option"
  rtr_split :: int
  rtr_fee :: bool

definition feed_route_response :: "feed_payment_route \<Rightarrow> route_response" where
  "feed_route_response r = \<lparr>rtr_recipient_name = fpr_recipient_name r, rtr_route_type = route_type_str (fpr_route_type r),
     rtr_address = fpr_address r, rtr_custom_key = fpr_custom_key r, rtr_custom_value = fpr_custom_value r,
     rtr_split = fpr_split r, rtr_fee = fpr_fee r\<rparr>"

definition track_route_response :: "payment_route \<Rightarrow> route_response" where
  "track_route_response r = \<lparr>rtr_recipient_name = pr_recipient_name r, rtr_route_type = route_type_str (pr_route_type r),
     rtr_address = pr_address r, rtr_custom_key = pr_custom_key r, rtr_custom_value = pr_custom_value r,
     rtr_split = pr_split r, rtr_fee = pr_fee r\<rparr>"

definition feed_routes :: "db \<Rightarrow> string \<Rightarrow> route_response list" where
  "feed_routes s feed_guid = map feed_route_response (get_feed_payment_routes_for_feed s feed_guid)"

text \<open>A track with no route of its own gives those of its feed.\<close>

definition track_routes :: "db \<Rightarrow> string \<Rightarrow> string \<Rightarrow> route_response list" where
  "track_routes s feed_guid track_guid =
     (let routes = map track_route_response (get_payment_routes_for_feed_track s feed_guid track_guid)
      in if routes = [] then feed_routes s feed_guid else routes)"

text \<open>
  \<^verbatim>\<open>x.floor() as i64\<close> of a 64-bit pattern: the cast of a NaN is 0, and a value out of range goes to the
  nearest end.
\<close>

definition f64_is_nan :: "f64 \<Rightarrow> bool" where
  "f64_is_nan x \<longleftrightarrow> (unat x div 2 ^ 52) mod 2048 = 2047 \<and> unat x mod 2 ^ 52 \<noteq> 0"

definition f64_floor_i64 :: "f64 \<Rightarrow> int" where
  "f64_floor_i64 x =
     (let negative = unat x div 2 ^ 63 = 1;
          e = (unat x div 2 ^ 52) mod 2048;
          m = unat x mod 2 ^ 52;
          sig = int (if e = 0 then m else 2 ^ 52 + m);
          signed = (if negative then - sig else sig);
          k = (if e = 0 then 1 else e)
      in if f64_is_nan x then 0
         else if e = 2047 \<or> k \<ge> 1075 + 64 then (if sig = 0 then 0 else if negative then i64_min else i64_max)
         else if k \<ge> 1075 then max i64_min (min i64_max (signed * 2 ^ (k - 1075)))
         else signed div 2 ^ (1075 - k))"

text \<open>The stated percentage, limited to 0 to 100 and rounded down; 100 if none is stated.\<close>

definition effective_percentage :: "f64 option \<Rightarrow> int" where
  "effective_percentage p = (case p of None \<Rightarrow> 100 | Some x \<Rightarrow> max 0 (min 100 (f64_floor_i64 x)))"

record vts_response =
  vr_start_time_secs :: int
  vr_duration_secs :: "int option"
  vr_remote_feed_guid :: string
  vr_remote_item_guid :: string
  vr_remote_feed_title :: "string option"
  vr_remote_feed_image_url :: "string option"
  vr_remote_release_artist :: "string option"
  vr_remote_release_artist_source :: "string option"
  vr_remote_episode_count :: "int option"
  vr_remote_track_guid :: "string option"
  vr_remote_track_title :: "string option"
  vr_remote_track_duration_secs :: "int option"
  vr_remote_track_image_url :: "string option"
  vr_split :: int
  vr_start_time :: f64
  vr_duration :: "f64 option"
  vr_remote_start_time :: "f64 option"
  vr_remote_percentage :: "f64 option"

definition vts_response_from_split :: "query_env \<Rightarrow> db \<Rightarrow> value_time_split \<Rightarrow> vts_response option" where
  "vts_response_from_split qe s split =
     (if vts_form split \<noteq> Remote then None
      else (case vts_remote_feed_guid split of None \<Rightarrow> None
        | Some remote_feed_guid \<Rightarrow>
            let remote_item_guid = (case vts_remote_item_guid split of None \<Rightarrow> [] | Some g \<Rightarrow> g);
                feed = named_feed_summary qe s (Some remote_feed_guid);
                track = (if nf_title feed \<noteq> None \<and> remote_item_guid \<noteq> []
                  then named_track_summary qe s remote_feed_guid remote_item_guid else no_track)
            in Some \<lparr>vr_start_time_secs = f64_floor_i64 (vts_start_time_secs split),
                 vr_duration_secs = map_option f64_floor_i64 (vts_duration_secs split),
                 vr_remote_feed_guid = remote_feed_guid, vr_remote_item_guid = remote_item_guid,
                 vr_remote_feed_title = nf_title feed, vr_remote_feed_image_url = nf_image_url feed,
                 vr_remote_release_artist = nf_release_artist feed,
                 vr_remote_release_artist_source = nf_release_artist_source feed,
                 vr_remote_episode_count = nf_episode_count feed,
                 vr_remote_track_guid = nt_guid track, vr_remote_track_title = nt_title track,
                 vr_remote_track_duration_secs = nt_duration_secs track, vr_remote_track_image_url = nt_image_url track,
                 vr_split = effective_percentage (vts_remote_percentage split),
                 vr_start_time = vts_start_time_secs split, vr_duration = vts_duration_secs split,
                 vr_remote_start_time = vts_remote_start_time_secs split,
                 vr_remote_percentage = vts_remote_percentage split\<rparr>))"

record local_vts_response =
  lvr_position :: int
  lvr_start_time :: f64
  lvr_duration :: "f64 option"
  lvr_recipients :: "route_response list"

definition recipient_response :: "value_time_split_recipient \<Rightarrow> route_response" where
  "recipient_response r = \<lparr>rtr_recipient_name = vtr_recipient_name r, rtr_route_type = route_type_str (vtr_route_type r),
     rtr_address = vtr_address r, rtr_custom_key = vtr_custom_key r, rtr_custom_value = vtr_custom_value r,
     rtr_split = vtr_split r, rtr_fee = vtr_fee r\<rparr>"

definition local_vts_response_from_split :: "value_time_split \<Rightarrow> local_vts_response option" where
  "local_vts_response_from_split split =
     (if vts_form split \<noteq> Local then None
      else Some \<lparr>lvr_position = vts_position split, lvr_start_time = vts_start_time_secs split,
        lvr_duration = vts_duration_secs split, lvr_recipients = map recipient_response (vts_recipients split)\<rparr>)"

section \<open>The claims\<close>

record source_contributor_claim_response =
  ccr_entity_type :: string
  ccr_entity_id :: string
  ccr_position :: int
  ccr_name :: string
  ccr_role :: "string option"
  ccr_role_norm :: "string option"
  ccr_group_name :: "string option"
  ccr_href :: "string option"
  ccr_img :: "string option"
  ccr_npub :: "string option"
  ccr_source :: string
  ccr_extraction_path :: string
  ccr_observed_at :: int

definition contributor_claim_response :: "query_env \<Rightarrow> source_contributor_claim \<Rightarrow> source_contributor_claim_response" where
  "contributor_claim_response qe claim = \<lparr>ccr_entity_type = scc_entity_type claim, ccr_entity_id = scc_entity_id claim,
     ccr_position = scc_position claim, ccr_name = scc_name claim, ccr_role = scc_role claim,
     ccr_role_norm = scc_role_norm claim, ccr_group_name = scc_group_name claim,
     ccr_href = web_url qe (scc_href claim), ccr_img = web_url qe (scc_img claim), ccr_npub = scc_npub claim,
     ccr_source = scc_source claim, ccr_extraction_path = scc_extraction_path claim,
     ccr_observed_at = scc_observed_at claim\<rparr>"

record source_entity_id_response =
  eir_entity_type :: string
  eir_entity_id :: string
  eir_position :: int
  eir_scheme :: string
  eir_value :: string
  eir_source :: string
  eir_extraction_path :: string
  eir_observed_at :: int

definition entity_id_response :: "source_entity_id_claim \<Rightarrow> source_entity_id_response" where
  "entity_id_response claim = \<lparr>eir_entity_type = sei_entity_type claim, eir_entity_id = sei_entity_id claim,
     eir_position = sei_position claim, eir_scheme = sei_scheme claim, eir_value = sei_value claim,
     eir_source = sei_source claim, eir_extraction_path = sei_extraction_path claim,
     eir_observed_at = sei_observed_at claim\<rparr>"

record source_entity_link_response =
  elr_entity_type :: string
  elr_entity_id :: string
  elr_position :: int
  elr_link_type :: string
  elr_url :: "string option"
  elr_url_scheme_added :: bool
  elr_label :: "string option"
  elr_source :: string
  elr_extraction_path :: string
  elr_observed_at :: int

definition entity_link_response :: "query_env \<Rightarrow> source_entity_link \<Rightarrow> source_entity_link_response" where
  "entity_link_response qe link =
     (let (url, url_scheme_added) =
            (if sel_link_type link = ''website'' \<or> sel_link_type link = ''web_page''
             then web_link_for_read (qe_url_parse qe) (sel_url link)
             else (web_url qe (Some (sel_url link)), False))
      in \<lparr>elr_entity_type = sel_entity_type link, elr_entity_id = sel_entity_id link, elr_position = sel_position link,
          elr_link_type = sel_link_type link, elr_url = url, elr_url_scheme_added = url_scheme_added,
          elr_label = sel_label link, elr_source = sel_source link, elr_extraction_path = sel_extraction_path link,
          elr_observed_at = sel_observed_at link\<rparr>)"

record source_release_claim_response =
  rcl_entity_type :: string
  rcl_entity_id :: string
  rcl_position :: int
  rcl_claim_type :: string
  rcl_claim_value :: string
  rcl_source :: string
  rcl_extraction_path :: string
  rcl_observed_at :: int

definition release_claim_response :: "source_release_claim \<Rightarrow> source_release_claim_response" where
  "release_claim_response claim = \<lparr>rcl_entity_type = src_entity_type claim, rcl_entity_id = src_entity_id claim,
     rcl_position = src_position claim, rcl_claim_type = src_claim_type claim, rcl_claim_value = src_claim_value claim,
     rcl_source = src_source claim, rcl_extraction_path = src_extraction_path claim,
     rcl_observed_at = src_observed_at claim\<rparr>"

record source_platform_claim_response =
  plr_platform_key :: string
  plr_url :: "string option"
  plr_owner_name :: "string option"
  plr_source :: string
  plr_extraction_path :: string
  plr_observed_at :: int

definition platform_claim_response :: "query_env \<Rightarrow> source_platform_claim \<Rightarrow> source_platform_claim_response" where
  "platform_claim_response qe claim = \<lparr>plr_platform_key = spc_platform_key claim, plr_url = web_url qe (spc_url claim),
     plr_owner_name = spc_owner_name claim, plr_source = spc_source claim,
     plr_extraction_path = spc_extraction_path claim, plr_observed_at = spc_observed_at claim\<rparr>"

record source_item_transcript_response =
  tsr_entity_type :: string
  tsr_entity_id :: string
  tsr_position :: int
  tsr_url :: "string option"
  tsr_mime_type :: "string option"
  tsr_language :: "string option"
  tsr_rel :: "string option"
  tsr_source :: string
  tsr_extraction_path :: string
  tsr_observed_at :: int

definition transcript_response :: "query_env \<Rightarrow> source_item_transcript \<Rightarrow> source_item_transcript_response" where
  "transcript_response qe t = \<lparr>tsr_entity_type = sit_entity_type t, tsr_entity_id = sit_entity_id t,
     tsr_position = sit_position t, tsr_url = web_url qe (Some (sit_url t)), tsr_mime_type = sit_mime_type t,
     tsr_language = sit_language t, tsr_rel = sit_rel t, tsr_source = sit_source t,
     tsr_extraction_path = sit_extraction_path t, tsr_observed_at = sit_observed_at t\<rparr>"

record source_item_enclosure_response =
  enr_entity_type :: string
  enr_entity_id :: string
  enr_position :: int
  enr_url :: "string option"
  enr_mime_type :: "string option"
  enr_bytes :: "int option"
  enr_rel :: "string option"
  enr_title :: "string option"
  enr_is_primary :: bool
  enr_source :: string
  enr_extraction_path :: string
  enr_observed_at :: int

definition enclosure_response :: "query_env \<Rightarrow> source_item_enclosure \<Rightarrow> source_item_enclosure_response" where
  "enclosure_response qe e = \<lparr>enr_entity_type = sie_entity_type e, enr_entity_id = sie_entity_id e,
     enr_position = sie_position e, enr_url = web_url qe (Some (sie_url e)), enr_mime_type = sie_mime_type e,
     enr_bytes = sie_bytes e, enr_rel = sie_rel e, enr_title = sie_title e, enr_is_primary = sie_is_primary e,
     enr_source = sie_source e, enr_extraction_path = sie_extraction_path e, enr_observed_at = sie_observed_at e\<rparr>"

section \<open>Remote items\<close>

record feed_remote_item_response =
  frr_position :: int
  frr_medium :: "string option"
  frr_remote_feed_guid :: string
  frr_remote_feed_url :: "string option"
  frr_rel :: "string option"
  frr_source :: string
  frr_remote_feed_title :: "string option"
  frr_remote_feed_image_url :: "string option"
  frr_remote_release_artist :: "string option"
  frr_remote_release_artist_source :: "string option"
  frr_remote_episode_count :: "int option"
  frr_remote_item_guid :: "string option"
  frr_remote_item_title :: "string option"
  frr_remote_track_guid :: "string option"
  frr_remote_track_title :: "string option"
  frr_remote_track_duration_secs :: "int option"
  frr_remote_track_image_url :: "string option"

definition feed_remote_item_response_of :: "query_env \<Rightarrow> db \<Rightarrow> feed_remote_item_raw \<Rightarrow> feed_remote_item_response" where
  "feed_remote_item_response_of qe s item =
     (let resolved = resolved_guid (resolution_of s item);
          summary = named_feed_summary qe s resolved;
          track = (case (resolved, fri_remote_item_guid item) of
              (Some feed_guid, Some item_guid) \<Rightarrow> named_track_summary qe s feed_guid item_guid
            | _ \<Rightarrow> no_track)
      in \<lparr>frr_position = fri_position item, frr_medium = fri_medium item,
          frr_remote_feed_guid = fri_remote_feed_guid item, frr_remote_feed_url = web_url qe (fri_remote_feed_url item),
          frr_rel = fri_rel item, frr_source = fri_source item,
          frr_remote_feed_title = nf_title summary, frr_remote_feed_image_url = nf_image_url summary,
          frr_remote_release_artist = nf_release_artist summary,
          frr_remote_release_artist_source = nf_release_artist_source summary,
          frr_remote_episode_count = nf_episode_count summary,
          frr_remote_item_guid = fri_remote_item_guid item, frr_remote_item_title = fri_remote_item_title item,
          frr_remote_track_guid = nt_guid track, frr_remote_track_title = nt_title track,
          frr_remote_track_duration_secs = nt_duration_secs track, frr_remote_track_image_url = nt_image_url track\<rparr>)"

record track_remote_item_response =
  rir_position :: int
  rir_medium :: "string option"
  rir_remote_feed_guid :: string
  rir_remote_feed_url :: "string option"
  rir_rel :: "string option"
  rir_source :: string
  rir_remote_feed_title :: "string option"
  rir_remote_feed_image_url :: "string option"
  rir_remote_release_artist :: "string option"
  rir_remote_release_artist_source :: "string option"
  rir_remote_episode_count :: "int option"

definition track_remote_item_response_of :: "query_env \<Rightarrow> db \<Rightarrow> track_remote_item_raw \<Rightarrow> track_remote_item_response" where
  "track_remote_item_response_of qe s item =
     (let summary = remote_item_summary qe s (tri_remote_feed_guid item) (tri_remote_feed_url item)
      in \<lparr>rir_position = tri_position item, rir_medium = tri_medium item,
          rir_remote_feed_guid = tri_remote_feed_guid item, rir_remote_feed_url = web_url qe (tri_remote_feed_url item),
          rir_rel = tri_rel item, rir_source = tri_source item,
          rir_remote_feed_title = nf_title summary, rir_remote_feed_image_url = nf_image_url summary,
          rir_remote_release_artist = nf_release_artist summary,
          rir_remote_release_artist_source = nf_release_artist_source summary,
          rir_remote_episode_count = nf_episode_count summary\<rparr>)"

definition load_track_remote_items :: "query_env \<Rightarrow> db \<Rightarrow> string \<Rightarrow> string \<Rightarrow> track_remote_item_response list" where
  "load_track_remote_items qe s feed_guid track_guid =
     map (track_remote_item_response_of qe s) (get_track_remote_items_for_feed_track s feed_guid track_guid)"

section \<open>Live items\<close>

record live_item_response =
  lir_live_item_guid :: string
  lir_title :: string
  lir_status :: string
  lir_content_link :: "string option"
  lir_scheduled_start :: "int option"
  lir_scheduled_end :: "int option"
  lir_live_value_uri :: "string option"
  lir_live_value_protocol :: "string option"
  lir_confirming_relay :: bool
  lir_in_now_view :: bool
  lir_in_upcoming_view :: bool
  lir_link :: "string option"
  lir_link_scheme_added :: bool

definition live_value_uri_response :: "query_env \<Rightarrow> string option \<Rightarrow> string option" where
  "live_value_uri_response qe uri = (case uri of None \<Rightarrow> None
     | Some raw \<Rightarrow> if qe_url_parse qe raw \<noteq> None then web_url qe (Some raw) else Some raw)"

definition live_item_response_of :: "query_env \<Rightarrow> live_event \<Rightarrow> int \<Rightarrow> string option \<Rightarrow> live_item_response" where
  "live_item_response_of qe event now stored_link =
     (let confirming = is_confirming_relay (qe_url_parse qe) (le_live_value_uri event) (qe_relay_hosts qe);
          (link, added) = (case stored_link of None \<Rightarrow> (None, False) | Some raw \<Rightarrow> web_link_for_read (qe_url_parse qe) raw)
      in \<lparr>lir_live_item_guid = le_live_item_guid event, lir_title = le_title event, lir_status = le_status event,
          lir_content_link = web_url qe (le_content_link event),
          lir_scheduled_start = le_scheduled_start event, lir_scheduled_end = le_scheduled_end event,
          lir_live_value_uri = live_value_uri_response qe (le_live_value_uri event),
          lir_live_value_protocol = le_live_value_protocol event, lir_confirming_relay = confirming,
          lir_in_now_view = in_now_view event now confirming, lir_in_upcoming_view = in_upcoming_view event now,
          lir_link = link, lir_link_scheme_added = added\<rparr>)"

definition is_rss_link :: "source_entity_link \<Rightarrow> bool" where
  "is_rss_link link \<longleftrightarrow> sel_link_type link = ''web_page'' \<and> sel_extraction_path link = ''entity.link''"

text \<open>The map of the links keeps the first one of each live item.\<close>

definition live_item_links_for_feed :: "db \<Rightarrow> string \<Rightarrow> string \<Rightarrow> string option" where
  "live_item_links_for_feed s feed_guid live_item_guid =
     map_option sel_url (find (\<lambda>link. sel_entity_type link = ''live_item'' \<and> is_rss_link link
       \<and> sel_entity_id link = live_item_guid) (get_source_entity_links_for_feed s feed_guid))"

definition live_item_link_for_feed_item :: "db \<Rightarrow> string \<Rightarrow> string \<Rightarrow> string option" where
  "live_item_link_for_feed_item s feed_guid live_item_guid =
     map_option sel_url (find is_rss_link (get_source_entity_links_for_feed_entity s feed_guid ''live_item'' live_item_guid))"

definition build_live_items_response :: "query_env \<Rightarrow> db \<Rightarrow> string \<Rightarrow> int \<Rightarrow> live_item_response list" where
  "build_live_items_response qe s feed_guid now =
     map (\<lambda>event. live_item_response_of qe event now (live_item_links_for_feed s feed_guid (le_live_item_guid event)))
       (List.sort_key le_live_item_guid (get_live_events_for_feed s feed_guid))"

end
