(* ===== verification/Detail.thy ===== *)
theory Detail
  imports View
begin

text \<open>
  The response of one feed and of one track of \<^verbatim>\<open>src/query.rs\<close>, and the handlers of the three routes that
  give them.
\<close>

section \<open>A feed\<close>

record track_summary =
  tsm_track_guid :: string
  tsm_title :: string
  tsm_pub_date :: "int option"
  tsm_duration_secs :: "int option"
  tsm_image_url :: "string option"
  tsm_track_image_url :: "string option"
  tsm_feed_image_url :: "string option"
  tsm_track_number :: "int option"
  tsm_publisher_text :: "string option"

record pending_guid_change_response =
  pgc_new_guid :: string
  pgc_first_seen :: int
  pgc_last_seen :: "int option"
  pgc_decision :: "string option"

definition pending_guid_change_response_of :: "guid_change_row \<Rightarrow> pending_guid_change_response" where
  "pending_guid_change_response_of row = \<lparr>pgc_new_guid = gc_new_guid row, pgc_first_seen = gc_first_seen row,
     pgc_last_seen = gc_last_seen row, pgc_decision = gc_decision row\<rparr>"

record feed_response =
  fdr_feed_guid :: string
  fdr_feed_url :: string
  fdr_title :: string
  fdr_raw_medium :: "string option"
  fdr_release_artist :: "string option"
  fdr_release_artist_source :: "string option"
  fdr_release_artist_sort :: "string option"
  fdr_release_date :: "int option"
  fdr_last_build_date :: "int option"
  fdr_release_kind :: "string option"
  fdr_description :: "string option"
  fdr_image_url :: "string option"
  fdr_publisher_text :: "string option"
  fdr_publisher_feed_title :: "string option"
  fdr_publisher_feed_guid :: "string option"
  fdr_distinct_release_artist_count :: "int option"
  fdr_distinct_release_artists :: "string list option"
  fdr_confirmed_release_artist_count :: "int option"
  fdr_confirmed_release_artists :: "string list option"
  fdr_unconfirmed_release_artist_count :: "int option"
  fdr_unconfirmed_release_artists :: "string list option"
  fdr_two_way_link_count :: "int option"
  fdr_stated_rels :: "string list option"
  fdr_agreed_roles :: "string list option"
  fdr_first_named_count :: "int option"
  fdr_language :: "string option"
  fdr_explicit :: bool
  fdr_episode_count :: "int option"
  fdr_newest_item_at :: "int option"
  fdr_oldest_item_at :: "int option"
  fdr_copy_count :: int
  fdr_created_at :: int
  fdr_updated_at :: int
  fdr_tracks :: "track_summary list option"
  fdr_payment_routes :: "route_response list option"
  fdr_source_links :: "source_entity_link_response list option"
  fdr_source_ids :: "source_entity_id_response list option"
  fdr_source_contributors :: "source_contributor_claim_response list option"
  fdr_source_platforms :: "source_platform_claim_response list option"
  fdr_source_release_claims :: "source_release_claim_response list option"
  fdr_remote_items :: "feed_remote_item_response list option"
  fdr_publisher :: "publisher_response list option"
  fdr_co_credited_feeds :: "co_credited_feed_response list option"
  fdr_named_feeds :: "named_feed_entry list option"
  fdr_pending_guid_change :: "pending_guid_change_response option"
  fdr_live_items :: "live_item_response list option"
  fdr_sort_name :: "string option"

text \<open>The part of the response that both builders fill from the row.\<close>

definition plain_feed_response :: "query_env \<Rightarrow> db \<Rightarrow> feed_row \<Rightarrow> feed_response" where
  "plain_feed_response qe s row =
     (let (publisher_feed_guid, publisher_feed_title) = publisher_name_fields (resolve_publisher_feed s (fe_feed_guid row))
      in \<lparr>fdr_feed_guid = fe_feed_guid row, fdr_feed_url = fe_feed_url row, fdr_title = fe_title row,
          fdr_raw_medium = fe_raw_medium row, fdr_release_artist = fe_release_artist row,
          fdr_release_artist_source = fe_release_artist_source row,
          fdr_release_artist_sort = fe_release_artist_sort row, fdr_release_date = fe_release_date row,
          fdr_last_build_date = fe_last_build_date row, fdr_release_kind = fe_release_kind row,
          fdr_description = fe_description row, fdr_image_url = web_url qe (fe_image_url row),
          fdr_publisher_text = fe_publisher row, fdr_publisher_feed_title = publisher_feed_title,
          fdr_publisher_feed_guid = publisher_feed_guid, fdr_distinct_release_artist_count = None,
          fdr_distinct_release_artists = None, fdr_confirmed_release_artist_count = None,
          fdr_confirmed_release_artists = None, fdr_unconfirmed_release_artist_count = None,
          fdr_unconfirmed_release_artists = None, fdr_two_way_link_count = None, fdr_stated_rels = None,
          fdr_agreed_roles = None, fdr_first_named_count = None, fdr_language = fe_language row,
          fdr_explicit = fe_explicit row, fdr_episode_count = Some (fe_episode_count row),
          fdr_newest_item_at = fe_newest_item_at row, fdr_oldest_item_at = fe_oldest_item_at row,
          fdr_copy_count = fst (open_copy_summary s (fe_feed_guid row)), fdr_created_at = fe_created_at row,
          fdr_updated_at = fe_updated_at row, fdr_tracks = None, fdr_payment_routes = None, fdr_source_links = None,
          fdr_source_ids = None, fdr_source_contributors = None, fdr_source_platforms = None,
          fdr_source_release_claims = None, fdr_remote_items = None, fdr_publisher = None,
          fdr_co_credited_feeds = None, fdr_named_feeds = None,
          fdr_pending_guid_change = map_option pending_guid_change_response_of
            (get_pending_guid_change_for_feed s (fe_feed_guid row)),
          fdr_live_items = None, fdr_sort_name = None\<rparr>)"

text \<open>\<^verbatim>\<open>ORDER BY track\_number ASC, pub\_date DESC\<close>, where NULL is the least value.\<close>

definition number_then_newest :: "track \<Rightarrow> int option \<times> bool \<times> int" where
  "number_then_newest t = (tr_track_number t, tr_pub_date t = None, (case tr_pub_date t of None \<Rightarrow> 0 | Some d \<Rightarrow> - d))"

definition track_summary_of :: "query_env \<Rightarrow> string option \<Rightarrow> track \<Rightarrow> track_summary" where
  "track_summary_of qe feed_artwork t =
     (let track_image_url = web_url qe (tr_image_url t)
      in \<lparr>tsm_track_guid = tr_track_guid t, tsm_title = tr_title t, tsm_pub_date = tr_pub_date t,
          tsm_duration_secs = tr_duration_secs t, tsm_image_url = coalesce track_image_url feed_artwork,
          tsm_track_image_url = track_image_url, tsm_feed_image_url = feed_artwork,
          tsm_track_number = tr_track_number t, tsm_publisher_text = tr_publisher t\<rparr>)"

definition track_summaries :: "query_env \<Rightarrow> db \<Rightarrow> string \<Rightarrow> string option \<Rightarrow> track_summary list" where
  "track_summaries qe s feed_guid feed_artwork =
     map (track_summary_of qe feed_artwork)
       (List.sort_key number_then_newest (filter (\<lambda>t. tr_feed_guid t = feed_guid) (t_tracks s)))"

text \<open>The artist counts of a publisher feed, from the rows of its view.\<close>

definition with_artist_counts :: "query_env \<Rightarrow> db \<Rightarrow> string \<Rightarrow> publisher_response list \<Rightarrow> feed_response \<Rightarrow> feed_response" where
  "with_artist_counts qe s feed_guid rows resp =
     (let (count, artists) = publisher_artist_count qe s feed_guid;
          (confirmed, unconfirmed) = confirmed_and_unconfirmed_release_artists qe rows
      in resp\<lparr>fdr_distinct_release_artist_count := Some count, fdr_distinct_release_artists := Some artists,
          fdr_confirmed_release_artist_count := Some (int (length confirmed)),
          fdr_confirmed_release_artists := Some confirmed,
          fdr_unconfirmed_release_artist_count := Some (int (length unconfirmed)),
          fdr_unconfirmed_release_artists := Some unconfirmed\<rparr>)"

text \<open>The includes, each of which sets a field of its own.\<close>

definition with_feed_includes :: "query_env \<Rightarrow> db \<Rightarrow> list_query \<Rightarrow> string \<Rightarrow> feed_response \<Rightarrow> feed_response" where
  "with_feed_includes qe s params feed_guid resp =
     resp\<lparr>fdr_tracks := include_if params ''tracks'' (track_summaries qe s feed_guid (fdr_image_url resp)),
       fdr_payment_routes := include_if params ''payment_routes'' (feed_routes s feed_guid),
       fdr_source_links := include_if params ''source_links''
         (map (entity_link_response qe) (get_source_entity_links_for_entity s ''feed'' feed_guid)),
       fdr_source_ids := include_if params ''source_ids''
         (map entity_id_response (get_source_entity_ids_for_entity s ''feed'' feed_guid)),
       fdr_source_contributors := include_if params ''source_contributors''
         (map (contributor_claim_response qe) (get_source_contributor_claims_for_entity s ''feed'' feed_guid)),
       fdr_source_platforms := include_if params ''source_platforms''
         (map (platform_claim_response qe) (get_source_platform_claims_for_feed s feed_guid)),
       fdr_source_release_claims := include_if params ''source_release_claims''
         (map release_claim_response (get_source_release_claims_for_entity s ''feed'' feed_guid)),
       fdr_remote_items := include_if params ''remote_items''
         (map (feed_remote_item_response_of qe s) (get_feed_remote_items_for_feed s feed_guid)),
       fdr_publisher := include_if params ''publisher'' (load_publisher qe s feed_guid)\<rparr>"

definition build_feed_response :: "query_env \<Rightarrow> db \<Rightarrow> int \<Rightarrow> feed_row \<Rightarrow> list_query \<Rightarrow> feed_response" where
  "build_feed_response qe s now row params =
     (let feed_guid = fe_feed_guid row;
          resp = (plain_feed_response qe s row)\<lparr>fdr_live_items := Some (build_live_items_response qe s feed_guid now)\<rparr>;
          rows = load_publisher qe s feed_guid;
          resp1 = (if is_publisher (fe_raw_medium row) then with_artist_counts qe s feed_guid rows resp else resp);
          resp2 = with_feed_includes qe s params feed_guid resp1
      in if is_publisher (fe_raw_medium row) \<and> has_include params ''publisher''
         then resp2\<lparr>fdr_co_credited_feeds := Some (co_credited_feeds qe s feed_guid rows)\<rparr> else resp2)"

datatype feed_detail_outcome = Found "feed_response query_response" | NotFound | Superseded string

definition handle_get_feed :: "query_env \<Rightarrow> db \<Rightarrow> int \<Rightarrow> string \<Rightarrow> list_query \<Rightarrow> feed_detail_outcome" where
  "handle_get_feed qe s now feed_guid params = (case lookup_by fe_feed_guid (t_feeds s) feed_guid of
       None \<Rightarrow> (case get_guid_supersession s feed_guid of
           Some supersession \<Rightarrow> Superseded (gs_new_guid supersession) | None \<Rightarrow> NotFound)
     | Some row \<Rightarrow> Found (one_page (build_feed_response qe s now row params)))"

section \<open>A track\<close>

record track_response =
  trr_track_guid :: string
  trr_feed_guid :: string
  trr_title :: string
  trr_publisher_text :: "string option"
  trr_track_artist :: "string option"
  trr_track_artist_sort :: "string option"
  trr_pub_date :: "int option"
  trr_duration_secs :: "int option"
  trr_image_url :: "string option"
  trr_track_image_url :: "string option"
  trr_feed_image_url :: "string option"
  trr_language :: "string option"
  trr_enclosure_url :: "string option"
  trr_enclosure_type :: "string option"
  trr_enclosure_bytes :: "int option"
  trr_track_number :: "int option"
  trr_explicit :: bool
  trr_description :: "string option"
  trr_created_at :: int
  trr_updated_at :: int
  trr_feed_title :: string
  trr_release_artist :: "string option"
  trr_release_artist_source :: "string option"
  trr_payment_routes :: "route_response list option"
  trr_value_time_splits :: "vts_response list option"
  trr_local_value_time_splits :: "local_vts_response list option"
  trr_source_links :: "source_entity_link_response list option"
  trr_source_ids :: "source_entity_id_response list option"
  trr_source_contributors :: "source_contributor_claim_response list option"
  trr_source_release_claims :: "source_release_claim_response list option"
  trr_source_enclosures :: "source_item_enclosure_response list option"
  trr_source_transcripts :: "source_item_transcript_response list option"
  trr_remote_items :: "track_remote_item_response list option"
  trr_publisher :: "publisher_response list option"

text \<open>The row of the \<^verbatim>\<open>LEFT JOIN\<close>: the track, and its feed if there is one.\<close>

type_synonym track_row = "track \<times> feed_row option"

definition track_row_of :: "db \<Rightarrow> track \<Rightarrow> track_row" where
  "track_row_of s t = (t, lookup_by fe_feed_guid (t_feeds s) (tr_feed_guid t))"

definition feed_image :: "track_row \<Rightarrow> string option" where
  "feed_image r = Option.bind (snd r) fe_image_url"

text \<open>\<^verbatim>\<open>COALESCE(t.image\_url, f.image\_url)\<close>.\<close>

definition row_image :: "track_row \<Rightarrow> string option" where
  "row_image r = coalesce (tr_image_url (fst r)) (feed_image r)"

definition get_track_rows_by_guid :: "db \<Rightarrow> string \<Rightarrow> track_row list" where
  "get_track_rows_by_guid s track_guid =
     map (track_row_of s) (List.sort_key tr_feed_guid (filter (\<lambda>t. tr_track_guid t = track_guid) (t_tracks s)))"

definition get_track_row_for_feed :: "db \<Rightarrow> string \<Rightarrow> string \<Rightarrow> track_row option" where
  "get_track_row_for_feed s feed_guid track_guid =
     map_option (track_row_of s) (lookup_by track_key (t_tracks s) (feed_guid, track_guid))"

definition plain_track_response :: "query_env \<Rightarrow> track_row \<Rightarrow> track_response" where
  "plain_track_response qe r = (case r of (t, f) \<Rightarrow>
     \<lparr>trr_track_guid = tr_track_guid t, trr_feed_guid = tr_feed_guid t, trr_title = tr_title t,
      trr_publisher_text = tr_publisher t, trr_track_artist = tr_track_artist t,
      trr_track_artist_sort = tr_track_artist_sort t, trr_pub_date = tr_pub_date t,
      trr_duration_secs = tr_duration_secs t, trr_image_url = web_url qe (row_image r),
      trr_track_image_url = web_url qe (tr_image_url t), trr_feed_image_url = web_url qe (feed_image r),
      trr_language = tr_language t, trr_enclosure_url = web_url qe (tr_enclosure_url t),
      trr_enclosure_type = tr_enclosure_type t, trr_enclosure_bytes = tr_enclosure_bytes t,
      trr_track_number = tr_track_number t, trr_explicit = tr_explicit t, trr_description = tr_description t,
      trr_created_at = tr_created_at t, trr_updated_at = tr_updated_at t,
      trr_feed_title = (case f of None \<Rightarrow> [] | Some x \<Rightarrow> fe_title x),
      trr_release_artist = Option.bind f fe_release_artist,
      trr_release_artist_source = Option.bind f fe_release_artist_source,
      trr_payment_routes = None, trr_value_time_splits = None, trr_local_value_time_splits = None,
      trr_source_links = None, trr_source_ids = None, trr_source_contributors = None,
      trr_source_release_claims = None, trr_source_enclosures = None, trr_source_transcripts = None,
      trr_remote_items = None, trr_publisher = None\<rparr>)"

definition with_track_includes :: "query_env \<Rightarrow> db \<Rightarrow> list_query \<Rightarrow> string \<Rightarrow> string \<Rightarrow> track_response \<Rightarrow> track_response" where
  "with_track_includes qe s params feed_guid track_guid resp =
     resp\<lparr>trr_payment_routes := include_if params ''payment_routes'' (track_routes s feed_guid track_guid),
       trr_value_time_splits := include_if params ''value_time_splits''
         (List.map_filter (vts_response_from_split qe s) (get_value_time_splits_for_feed_track s feed_guid track_guid)),
       trr_local_value_time_splits := include_if params ''local_value_time_splits''
         (List.map_filter local_vts_response_from_split (get_value_time_splits_for_feed_track s feed_guid track_guid)),
       trr_source_links := include_if params ''source_links''
         (map (entity_link_response qe) (get_source_entity_links_for_feed_entity s feed_guid ''track'' track_guid)),
       trr_source_ids := include_if params ''source_ids''
         (map entity_id_response (get_source_entity_ids_for_feed_entity s feed_guid ''track'' track_guid)),
       trr_source_contributors := include_if params ''source_contributors''
         (map (contributor_claim_response qe) (get_effective_source_contributor_claims_for_track s feed_guid track_guid)),
       trr_source_release_claims := include_if params ''source_release_claims''
         (map release_claim_response (get_source_release_claims_for_feed_entity s feed_guid ''track'' track_guid)),
       trr_source_enclosures := include_if params ''source_enclosures''
         (map (enclosure_response qe) (get_source_item_enclosures_for_feed_entity s feed_guid ''track'' track_guid)),
       trr_source_transcripts := include_if params ''source_transcripts''
         (map (transcript_response qe) (get_source_item_transcripts_for_feed_entity s feed_guid ''track'' track_guid)),
       trr_remote_items := include_if params ''remote_items'' (load_track_remote_items qe s feed_guid track_guid)\<rparr>"

text \<open>The last include can fail: the feed of the track is missing.\<close>

definition build_track_response :: "query_env \<Rightarrow> db \<Rightarrow> track_row \<Rightarrow> list_query \<Rightarrow> api_error + track_response" where
  "build_track_response qe s r params =
     (let feed_guid = tr_feed_guid (fst r); track_guid = tr_track_guid (fst r);
          resp = with_track_includes qe s params feed_guid track_guid (plain_track_response qe r)
      in if has_include params ''publisher''
         then (case load_track_publisher qe s feed_guid track_guid of
             None \<Rightarrow> Inl (api_error 500 ''orphaned track'')
           | Some rows \<Rightarrow> Inr (resp\<lparr>trr_publisher := Some rows\<rparr>))
         else Inr resp)"

text \<open>A GUID that several feeds use is ambiguous: the answer lists the feeds.\<close>

datatype track_answer = FoundTrack "track_response query_response" | Ambiguous "(string \<times> string) list"

definition handle_get_track :: "query_env \<Rightarrow> db \<Rightarrow> string \<Rightarrow> list_query \<Rightarrow> api_error + track_answer" where
  "handle_get_track qe s track_guid params = (case get_track_rows_by_guid s track_guid of
       [] \<Rightarrow> Inl (api_error 404 ''track not found'')
     | [r] \<Rightarrow> rbind (build_track_response qe s r params) (\<lambda>resp. Inr (FoundTrack (one_page resp)))
     | rows \<Rightarrow> Inr (Ambiguous (map (\<lambda>r. (tr_feed_guid (fst r), tr_track_guid (fst r))) rows)))"

definition handle_get_feed_track ::
  "query_env \<Rightarrow> db \<Rightarrow> string \<Rightarrow> string \<Rightarrow> list_query \<Rightarrow> api_error + track_response query_response" where
  "handle_get_feed_track qe s feed_guid track_guid params = (case get_track_row_for_feed s feed_guid track_guid of
       None \<Rightarrow> Inl (api_error 404 (''track '' @ track_guid @ '' not found in feed '' @ feed_guid))
     | Some r \<Rightarrow> rbind (build_track_response qe s r params) (\<lambda>resp. Inr (one_page resp)))"

end
