(* ===== verification/Lists.thy ===== *)
theory Lists
  imports Detail
begin

text \<open>
  The lists of feeds of \<^verbatim>\<open>src/query.rs\<close>: cursors, the filters of a list, and the handlers of
  \<^verbatim>\<open>GET /v1/feeds/recent\<close> and \<^verbatim>\<open>GET /v1/feeds/by-name\<close>. The JSON array of GUIDs that a query reads with
  \<^verbatim>\<open>json\_each\<close> is the list itself.
\<close>

section \<open>Cursors\<close>

definition encode_cursor :: "query_env \<Rightarrow> string \<Rightarrow> string" where
  "encode_cursor qe v = qe_encode qe v"

definition decode_cursor :: "query_env \<Rightarrow> string \<Rightarrow> api_error + string" where
  "decode_cursor qe cursor = (case qe_decode qe cursor of
       None \<Rightarrow> Inl (api_error 400 ''invalid cursor'')
     | Some bytes \<Rightarrow> if utf8_valid bytes then Inr bytes else Inl (api_error 400 ''invalid cursor encoding''))"

definition NUL :: char where "NUL = CHR 0x00"

definition cursor_text :: "string \<Rightarrow> string \<Rightarrow> string" where
  "cursor_text a b = a @ [NUL] @ b"

text \<open>\<^verbatim>\<open>splitn(2, NUL)\<close> with exactly two parts.\<close>

definition split_cursor :: "string \<Rightarrow> api_error + string \<times> string" where
  "split_cursor decoded = (case split_once [NUL] decoded of
       None \<Rightarrow> Inl (api_error 400 ''invalid cursor format'') | Some parts \<Rightarrow> Inr parts)"

text \<open>\<^verbatim>\<open>str::parse::<i64>\<close>.\<close>

definition digits_value :: "string \<Rightarrow> int option" where
  "digits_value s = (if s = [] \<or> \<not> list_all is_ascii_digit s then None
     else Some (foldl (\<lambda>n c. n * 10 + int (byte c - 48)) 0 s))"

definition in_i64 :: "int option \<Rightarrow> int option" where
  "in_i64 v = Option.bind v (\<lambda>n. if is_i64 n then Some n else None)"

definition parse_i64 :: "string \<Rightarrow> int option" where
  "parse_i64 s = (case s of [] \<Rightarrow> None
     | c # r \<Rightarrow> if c = CHR ''-'' then in_i64 (map_option uminus (digits_value r))
         else if c = CHR ''+'' then in_i64 (digits_value r) else in_i64 (digits_value s))"

type_synonym recent_cursor = "int \<times> string"

definition parse_recent_cursor :: "query_env \<Rightarrow> string \<Rightarrow> api_error + recent_cursor" where
  "parse_recent_cursor qe cursor =
     rbind (decode_cursor qe cursor) (\<lambda>decoded. rbind (split_cursor decoded) (\<lambda>(ts, guid).
       case parse_i64 ts of None \<Rightarrow> Inl (api_error 400 ''invalid cursor timestamp'') | Some t \<Rightarrow> Inr (t, guid)))"

definition parse_by_name_cursor :: "query_env \<Rightarrow> string \<Rightarrow> api_error + string \<times> string" where
  "parse_by_name_cursor qe cursor = rbind (decode_cursor qe cursor) split_cursor"

text \<open>\<^verbatim>\<open>Option::map(f).transpose()\<close>.\<close>

definition parse_optional :: "(string \<Rightarrow> 'e + 'a) \<Rightarrow> string option \<Rightarrow> 'e + 'a option" where
  "parse_optional p v = (case v of None \<Rightarrow> Inr None | Some t \<Rightarrow> rbind (p t) (\<lambda>x. Inr (Some x)))"

section \<open>The filters of a list\<close>

definition LINK_FACT_FILTER_SCAN_MAX :: nat where "LINK_FACT_FILTER_SCAN_MAX = 1000"
definition LINK_FACT_FILTER_BATCH :: nat where "LINK_FACT_FILTER_BATCH = 200"

record link_fact_filter =
  lff_stated_rel :: "string option"
  lff_no_two_way_links :: bool

definition link_fact_filter_from_params :: "list_query \<Rightarrow> string \<Rightarrow> api_error + link_fact_filter option" where
  "link_fact_filter_from_params params medium =
     (if lq_stated_rel params = None \<and> lq_two_way_links params = None then Inr None
      else if medium \<noteq> ''publisher''
      then Inl (api_error 400 ''stated_rel and two_way_links need medium=publisher (ADR 0068 section 4)'')
      else if lq_stated_rel params = Some [] then Inl (api_error 400 ''stated_rel must not be empty'')
      else if lq_two_way_links params \<noteq> None \<and> lq_two_way_links params \<noteq> Some ''none''
      then Inl (api_error 400 ''two_way_links accepts only none'')
      else (case map_option rel_tokens (lq_stated_rel params) of
          None \<Rightarrow> Inr (Some \<lparr>lff_stated_rel = None, lff_no_two_way_links = lq_two_way_links params \<noteq> None\<rparr>)
        | Some [token] \<Rightarrow> Inr (Some \<lparr>lff_stated_rel = Some token, lff_no_two_way_links = lq_two_way_links params \<noteq> None\<rparr>)
        | Some _ \<Rightarrow> Inl (api_error 400 ''stated_rel must be one role token'')))"

definition filter_keeps :: "link_fact_filter \<Rightarrow> link_fact_values \<Rightarrow> bool" where
  "filter_keeps flt facts \<longleftrightarrow>
     (case lff_stated_rel flt of None \<Rightarrow> True | Some rel \<Rightarrow> rel \<in> set (lf_stated_rels facts))
     \<and> (\<not> lff_no_two_way_links flt \<or> lf_two_way_link_count facts = 0)"

definition check_named_feed_guid :: "list_query \<Rightarrow> string \<Rightarrow> api_error + unit" where
  "check_named_feed_guid params medium =
     (if lq_named_feed_guid params = None then Inr ()
      else if medium \<noteq> ''music'' then Inl (api_error 400 ''named_feed_guid needs medium=music (ADR 0076 section 2)'')
      else if lq_artist_key params \<noteq> None
      then Inl (api_error 400 ''named_feed_guid conflicts with artist_key (ADR 0076 section 2)'') else Inr ())"

section \<open>The rows of a page\<close>

text \<open>\<^verbatim>\<open>lower(raw\_medium)\<close>, which lowers the ASCII letters; a row without a medium has none.\<close>

definition has_medium :: "string \<Rightarrow> feed_row \<Rightarrow> bool" where
  "has_medium medium row \<longleftrightarrow> medium = ''all'' \<or> map_option to_ascii_lowercase (fe_raw_medium row) = Some medium"

definition in_guids :: "string list option \<Rightarrow> feed_row \<Rightarrow> bool" where
  "in_guids only_guids row \<longleftrightarrow> (case only_guids of None \<Rightarrow> True | Some guids \<Rightarrow> fe_feed_guid row \<in> set guids)"

definition recent_key :: "feed_row \<Rightarrow> recent_cursor" where
  "recent_key row = (case fe_newest_item_at row of None \<Rightarrow> -1 | Some t \<Rightarrow> t, fe_feed_guid row)"

text \<open>\<^verbatim>\<open>ORDER BY ... DESC\<close> on a key that no two rows share.\<close>

definition sort_desc :: "('r \<Rightarrow> 'k::linorder) \<Rightarrow> 'r list \<Rightarrow> 'r list" where
  "sort_desc key rows = rev (List.sort_key key rows)"

definition recent_feed_rows ::
  "db \<Rightarrow> string \<Rightarrow> recent_cursor option \<Rightarrow> string list option \<Rightarrow> nat \<Rightarrow> feed_row list" where
  "recent_feed_rows s medium after only_guids n =
     take n (sort_desc recent_key (filter (\<lambda>row. has_medium medium row
       \<and> (case after of None \<Rightarrow> True | Some c \<Rightarrow> recent_key row < c) \<and> in_guids only_guids row) (t_feeds s)))"

text \<open>
  The rows of one batch: the kept rows, the number examined and the position so far. \<open>Inl\<close> is the
  page when the scan stops inside the batch.
\<close>

type_synonym recent_page = "feed_row list \<times> bool \<times> recent_cursor option"

fun scan_batch :: "(feed_row \<Rightarrow> bool) \<Rightarrow> nat \<Rightarrow> feed_row list \<Rightarrow> feed_row list \<times> nat \<times> recent_cursor option
    \<Rightarrow> recent_page + feed_row list \<times> nat \<times> recent_cursor option" where
  "scan_batch keep_row limit [] st = Inr st"
| "scan_batch keep_row limit (row # rows) (kept, examined, after) =
     (let kept' = (if keep_row row then kept @ [row] else kept) in
      if keep_row row \<and> length kept' > limit
      then let page = take limit kept' in Inl (page, True, if page = [] then None else Some (recent_key (last page)))
      else if Suc examined \<ge> LINK_FACT_FILTER_SCAN_MAX then Inl (kept', True, Some (recent_key row))
      else scan_batch keep_row limit rows (kept', Suc examined, Some (recent_key row)))"

lemma scan_batch_Inr:
  "scan_batch keep_row limit rows (kept, examined, after) = Inr (kept', examined', after')
    \<Longrightarrow> examined' = examined + length rows \<and> (rows \<noteq> [] \<longrightarrow> examined' < LINK_FACT_FILTER_SCAN_MAX)"
proof (induction rows arbitrary: kept examined after)
  case (Cons row rows)
  from Cons.prems
  have "scan_batch keep_row limit rows (if keep_row row then kept @ [row] else kept, Suc examined, Some (recent_key row)) = Inr (kept', examined', after')"
    "Suc examined < LINK_FACT_FILTER_SCAN_MAX"
    by (auto simp: Let_def split: if_splits)
  from Cons.IH [OF this(1)] this(2) show ?case by (cases "rows = []") auto
qed simp

function filtered_loop :: "db \<Rightarrow> string \<Rightarrow> (feed_row \<Rightarrow> bool) \<Rightarrow> nat \<Rightarrow> feed_row list \<times> nat \<times> recent_cursor option \<Rightarrow> recent_page" where
  "filtered_loop s medium keep_row limit st =
     (let batch = recent_feed_rows s medium (snd (snd st)) None LINK_FACT_FILTER_BATCH
      in case scan_batch keep_row limit batch st of
           Inl page \<Rightarrow> page
         | Inr (kept, examined, after) \<Rightarrow>
             if length batch < LINK_FACT_FILTER_BATCH then (kept, False, None)
             else filtered_loop s medium keep_row limit (kept, examined, after))"
  by pat_completeness auto
termination
proof (relation "measure (\<lambda>(s, medium, keep_row, limit, st). LINK_FACT_FILTER_SCAN_MAX - fst (snd st))")
  fix s medium keep_row limit st batch p kept q examined after
  assume "batch = recent_feed_rows s medium (snd (snd st)) None LINK_FACT_FILTER_BATCH"
    "scan_batch keep_row limit batch st = Inr p" "(kept, q) = p" "(examined, after) = q" "\<not> length batch < LINK_FACT_FILTER_BATCH"
  then show "((s, medium, keep_row, limit, kept, examined, after), s, medium, keep_row, limit, st)
    \<in> measure (\<lambda>(s, medium, keep_row, limit, st). LINK_FACT_FILTER_SCAN_MAX - fst (snd st))"
    using scan_batch_Inr [of keep_row limit batch "fst st" "fst (snd st)" "snd (snd st)" kept examined after]
    by (cases "batch = []") (auto simp: LINK_FACT_FILTER_BATCH_def)
qed simp

declare filtered_loop.simps [simp del]

definition filtered_recent_rows ::
  "query_env \<Rightarrow> db \<Rightarrow> string \<Rightarrow> recent_cursor option \<Rightarrow> nat \<Rightarrow> link_fact_filter \<Rightarrow> recent_page" where
  "filtered_recent_rows qe s medium after limit flt =
     filtered_loop s medium (\<lambda>row. filter_keeps flt (link_facts qe (load_publisher qe s (fe_feed_guid row)))) limit ([], 0, after)"

section \<open>A row of a list\<close>

definition with_link_facts :: "link_fact_values \<Rightarrow> feed_response \<Rightarrow> feed_response" where
  "with_link_facts facts resp = resp\<lparr>fdr_two_way_link_count := Some (lf_two_way_link_count facts),
     fdr_stated_rels := Some (lf_stated_rels facts), fdr_agreed_roles := Some (lf_agreed_roles facts),
     fdr_confirmed_release_artists := Some (lf_confirmed_release_artists facts),
     fdr_first_named_count := Some (lf_first_named_count facts)\<rparr>"

definition feed_list_row_to_response :: "query_env \<Rightarrow> db \<Rightarrow> feed_row \<Rightarrow> bool \<Rightarrow> bool \<Rightarrow> feed_response" where
  "feed_list_row_to_response qe s r include_link_facts include_named_feeds =
     (let resp = (plain_feed_response qe s r)\<lparr>fdr_named_feeds :=
            (if include_named_feeds \<and> is_music (fe_raw_medium r)
             then Some (named_feed_entries (load_publisher qe s (fe_feed_guid r))) else None)\<rparr>
      in if include_link_facts \<and> is_publisher (fe_raw_medium r)
         then with_link_facts (link_facts qe (load_publisher qe s (fe_feed_guid r))) resp else resp)"

section \<open>Recent feeds\<close>

definition medium_of :: "query_env \<Rightarrow> list_query \<Rightarrow> string" where
  "medium_of qe params = qe_lc qe (case lq_medium params of None \<Rightarrow> ''music'' | Some m \<Rightarrow> m)"

text \<open>One page of rows: the rows, whether there are more, and the position of the last.\<close>

definition plain_recent_page :: "db \<Rightarrow> string \<Rightarrow> recent_cursor option \<Rightarrow> string list option \<Rightarrow> nat \<Rightarrow> recent_page" where
  "plain_recent_page s medium after only_guids limit =
     (let rows = recent_feed_rows s medium after only_guids (Suc limit); items = take limit rows
      in (items, length rows > limit, if items = [] then None else Some (recent_key (last items))))"

definition recent_cursor_text :: "query_env \<Rightarrow> recent_cursor \<Rightarrow> string" where
  "recent_cursor_text qe c = encode_cursor qe (cursor_text (show_int (fst c)) (snd c))"

definition handle_get_recent_feeds :: "query_env \<Rightarrow> db \<Rightarrow> list_query \<Rightarrow> api_error + feed_response list query_response" where
  "handle_get_recent_feeds qe s params =
     (let limit = nat (capped_limit params); medium = medium_of qe params
      in rbind (check_named_feed_guid params medium) (\<lambda>_.
         let only_guids = map_option (get_feeds_naming_feed (qe_hash_order qe) s) (lq_named_feed_guid params)
         in rbind (link_fact_filter_from_params params medium) (\<lambda>flt.
            rbind (parse_optional (parse_recent_cursor qe) (lq_cursor params)) (\<lambda>after.
            let (items, has_more, next_after) = (case flt of
                    Some f \<Rightarrow> filtered_recent_rows qe s medium after limit f
                  | None \<Rightarrow> plain_recent_page s medium after only_guids limit);
                next_cursor = (if has_more then map_option (recent_cursor_text qe) next_after else None);
                include_link_facts = (has_include params ''link_facts'' \<or> flt \<noteq> None)
            in Inr \<lparr>qr_data = map (\<lambda>r. feed_list_row_to_response qe s r include_link_facts (has_include params ''named_feeds'')) items,
                 qr_pagination = \<lparr>pg_cursor = next_cursor, pg_has_more = has_more\<rparr>\<rparr>))))"

section \<open>Feeds by name\<close>

definition name_key :: "feed_row \<Rightarrow> string \<times> string" where
  "name_key row = (fr_title_sort row, fe_feed_guid row)"

definition by_name_feed_rows ::
  "db \<Rightarrow> string \<Rightarrow> (string \<times> string) option \<Rightarrow> string option \<Rightarrow> string list option \<Rightarrow> nat \<Rightarrow> feed_row list" where
  "by_name_feed_rows s medium after from_floor only_guids n =
     take n (List.sort_key name_key (filter (\<lambda>row. has_medium medium row
       \<and> (case after of None \<Rightarrow> True | Some c \<Rightarrow> c < name_key row)
       \<and> (case from_floor of None \<Rightarrow> True | Some f \<Rightarrow> f \<le> fr_title_sort row) \<and> in_guids only_guids row) (t_feeds s)))"

text \<open>\<open>name_releases\<close> gives the releases of a key, from the copy of the artist list in memory.\<close>

definition by_name_guids ::
  "query_env \<Rightarrow> db \<Rightarrow> (string \<Rightarrow> string list option) \<Rightarrow> string \<Rightarrow> list_query \<Rightarrow> api_error + string list option" where
  "by_name_guids qe s name_releases medium params = (case lq_named_feed_guid params of
       Some guid \<Rightarrow> Inr (Some (get_feeds_naming_feed (qe_hash_order qe) s guid))
     | None \<Rightarrow> (case lq_artist_key params of
           None \<Rightarrow> Inr None
         | Some key \<Rightarrow> if medium \<noteq> ''music'' then Inl (api_error 400 ''artist_key needs medium=music'')
             else Inr (Some (case name_releases key of None \<Rightarrow> [] | Some guids \<Rightarrow> guids))))"

definition handle_get_feeds_by_name ::
  "query_env \<Rightarrow> db \<Rightarrow> (string \<Rightarrow> string list option) \<Rightarrow> list_query \<Rightarrow> api_error + feed_response list query_response" where
  "handle_get_feeds_by_name qe s name_releases params =
     (let limit = nat (capped_limit params); medium = medium_of qe params
      in rbind (parse_optional (parse_by_name_cursor qe) (lq_cursor params)) (\<lambda>cursor_after.
         let from_floor = (if cursor_after = None then map_option (sort_key (qe_lc qe)) (lq_from params) else None)
         in rbind (check_named_feed_guid params medium) (\<lambda>_.
            rbind (by_name_guids qe s name_releases medium params) (\<lambda>only_guids.
            let rows = by_name_feed_rows s medium cursor_after from_floor only_guids (Suc limit);
                has_more = length rows > limit;
                items = take limit rows;
                next_cursor = (if has_more \<and> items \<noteq> []
                  then Some (encode_cursor qe (cursor_text (fr_title_sort (last items)) (fe_feed_guid (last items)))) else None)
            in Inr \<lparr>qr_data = map (\<lambda>r. (feed_list_row_to_response qe s r (has_include params ''link_facts'') (has_include params ''named_feeds''))
                   \<lparr>fdr_sort_name := Some (fr_title_sort r)\<rparr>) items,
                 qr_pagination = \<lparr>pg_cursor = next_cursor, pg_has_more = has_more\<rparr>\<rparr>))))"

end
