(* ===== verification/Names.thy ===== *)
theory Names
  imports Lists
begin

text \<open>
  The other lists of \<^verbatim>\<open>src/query.rs\<close>: the artist names with their copy in memory, the records with open
  copies, the pending GUID changes, the live items and the tracks of an artist.
\<close>

section \<open>Artist names\<close>

record artist_name_row =
  anr_kind :: string
  anr_name :: string
  anr_sort_name :: string
  anr_key :: string
  anr_feed_guid :: "string option"
  anr_image_url :: "string option"
  anr_release_count :: "int option"
  anr_two_way_link_count :: "int option"
  anr_stated_rels :: "string list option"
  anr_agreed_roles :: "string list option"
  anr_confirmed_release_artists :: "string list option"
  anr_first_named_count :: "int option"

definition name_row_with_link_facts :: "link_fact_values \<Rightarrow> artist_name_row \<Rightarrow> artist_name_row" where
  "name_row_with_link_facts facts row = row\<lparr>anr_two_way_link_count := Some (lf_two_way_link_count facts),
     anr_stated_rels := Some (lf_stated_rels facts), anr_agreed_roles := Some (lf_agreed_roles facts),
     anr_confirmed_release_artists := Some (lf_confirmed_release_artists facts),
     anr_first_named_count := Some (lf_first_named_count facts)\<rparr>"

definition without_link_facts :: "artist_name_row \<Rightarrow> artist_name_row" where
  "without_link_facts row = row\<lparr>anr_two_way_link_count := None, anr_stated_rels := None, anr_agreed_roles := None,
     anr_confirmed_release_artists := None, anr_first_named_count := None\<rparr>"

text \<open>The releases of a group, and the count of each raw text, in the order of the texts.\<close>

record artist_name_group =
  ang_feed_guids :: "string list"
  ang_raw_counts :: "(string \<times> int) list"

fun best_name :: "(string \<times> int) list \<Rightarrow> (string \<times> int) option \<Rightarrow> string" where
  "best_name [] best = (case best of None \<Rightarrow> [] | Some (raw, _) \<Rightarrow> raw)"
| "best_name ((raw, n) # counts) best =
     (if (case best of None \<Rightarrow> False | Some (_, best_count) \<Rightarrow> best_count \<ge> n)
      then best_name counts best else best_name counts (Some (raw, n)))"

definition group_name :: "artist_name_group \<Rightarrow> string" where
  "group_name g = best_name (ang_raw_counts g) None"

definition publisher_feed_rows :: "db \<Rightarrow> feed_row list" where
  "publisher_feed_rows s = filter (has_medium ''publisher'') (t_feeds s)"

definition music_feed_artist_rows :: "db \<Rightarrow> (string \<times> string) list" where
  "music_feed_artist_rows s = List.map_filter (\<lambda>f. if has_medium ''music'' f
     then map_option (\<lambda>a. (fe_feed_guid f, a)) (fe_release_artist f) else None) (t_feeds s)"

record artist_name_list =
  anl_rows :: "artist_name_row list"
  anl_name_releases :: "(string \<times> string list) list"

definition publisher_name_row :: "query_env \<Rightarrow> db \<Rightarrow> feed_row \<Rightarrow> artist_name_row" where
  "publisher_name_row qe s f = name_row_with_link_facts (link_facts qe (load_publisher qe s (fe_feed_guid f)))
     \<lparr>anr_kind = ''publisher'', anr_name = fe_title f, anr_sort_name = sort_key (qe_lc qe) (fe_title f),
      anr_key = fe_feed_guid f, anr_feed_guid = Some (fe_feed_guid f), anr_image_url = web_url qe (fe_image_url f),
      anr_release_count = None, anr_two_way_link_count = None, anr_stated_rels = None, anr_agreed_roles = None,
      anr_confirmed_release_artists = None, anr_first_named_count = None\<rparr>"

definition add_release :: "query_env \<Rightarrow> string \<times> string \<Rightarrow> (string \<times> artist_name_group) list \<Rightarrow> (string \<times> artist_name_group) list" where
  "add_release qe r groups = (case r of (feed_guid, raw_artist) \<Rightarrow>
     let key = sort_key (qe_lc qe) raw_artist;
         g = (case map_of groups key of None \<Rightarrow> \<lparr>ang_feed_guids = [], ang_raw_counts = []\<rparr> | Some g \<Rightarrow> g);
         n = (case map_of (ang_raw_counts g) raw_artist of None \<Rightarrow> 0 | Some n \<Rightarrow> n)
     in bt_insert key \<lparr>ang_feed_guids = ang_feed_guids g @ [feed_guid],
          ang_raw_counts = bt_insert raw_artist (n + 1) (ang_raw_counts g)\<rparr> groups)"

definition name_level_releases :: "query_env \<Rightarrow> db \<Rightarrow> (string \<times> string) list" where
  "name_level_releases qe s = filter (\<lambda>r. trim (snd r) \<noteq> [] \<and> is_name_level_release (load_publisher qe s (fst r)))
     (music_feed_artist_rows s)"

definition name_groups :: "query_env \<Rightarrow> db \<Rightarrow> (string \<times> artist_name_group) list" where
  "name_groups qe s = fold (add_release qe) (name_level_releases qe s) []"

definition group_row :: "string \<times> artist_name_group \<Rightarrow> artist_name_row" where
  "group_row kg = (case kg of (key, g) \<Rightarrow>
     \<lparr>anr_kind = ''name'', anr_name = group_name g, anr_sort_name = key, anr_key = key, anr_feed_guid = None,
      anr_image_url = None, anr_release_count = Some (int (length (ang_feed_guids g))), anr_two_way_link_count = None,
      anr_stated_rels = None, anr_agreed_roles = None, anr_confirmed_release_artists = None, anr_first_named_count = None\<rparr>)"

definition artist_name_key :: "artist_name_row \<Rightarrow> string \<times> string \<times> string" where
  "artist_name_key r = (anr_sort_name r, anr_kind r, anr_key r)"

definition build_artist_name_list :: "query_env \<Rightarrow> db \<Rightarrow> artist_name_list" where
  "build_artist_name_list qe s =
     \<lparr>anl_rows = List.sort_key artist_name_key
        (map (publisher_name_row qe s) (publisher_feed_rows s) @ map group_row (name_groups qe s)),
      anl_name_releases = map (\<lambda>(key, g). (key, ang_feed_guids g)) (name_groups qe s)\<rparr>"

text \<open>The copy in memory: the list, the last sequence number at its build, and the time of the build.\<close>

definition ARTIST_NAME_CACHE_MIN_REBUILD_INTERVAL :: int where "ARTIST_NAME_CACHE_MIN_REBUILD_INTERVAL = 30"

definition current_event_seq :: "db \<Rightarrow> int" where
  "current_event_seq s = (if t_events s = [] then 0 else Max (er_seq ` set (t_events s)))"

record artist_name_cache_entry =
  ace_list :: artist_name_list
  ace_seq_at_build :: int
  ace_built_at :: int

definition get_or_build ::
  "query_env \<Rightarrow> int \<Rightarrow> int \<Rightarrow> db \<Rightarrow> artist_name_cache_entry option \<Rightarrow> artist_name_list \<times> artist_name_cache_entry option" where
  "get_or_build qe min_rebuild_interval now s cache =
     (let current_seq = current_event_seq s;
          list = build_artist_name_list qe s;
          rebuilt = (list, Some \<lparr>ace_list = list, ace_seq_at_build = current_seq, ace_built_at = now\<rparr>)
      in case cache of None \<Rightarrow> rebuilt
         | Some entry \<Rightarrow>
             if ace_seq_at_build entry = current_seq \<or> now - ace_built_at entry < min_rebuild_interval
             then (ace_list entry, cache) else rebuilt)"

definition parse_artist_names_cursor :: "query_env \<Rightarrow> string \<Rightarrow> api_error + string \<times> string \<times> string" where
  "parse_artist_names_cursor qe cursor = rbind (decode_cursor qe cursor) (\<lambda>decoded.
     rbind (split_cursor decoded) (\<lambda>(sort, rest). rbind (split_cursor rest) (\<lambda>(kind, key). Inr (sort, kind, key))))"

text \<open>\<^verbatim>\<open>partition\_point\<close> on a list that the predicate partitions.\<close>

definition after_partition :: "('a \<Rightarrow> bool) \<Rightarrow> 'a list \<Rightarrow> 'a list" where
  "after_partition p xs = dropWhile p xs"

definition artist_names_page :: "query_env \<Rightarrow> artist_name_row list \<Rightarrow> list_query \<Rightarrow> api_error + artist_name_row list query_response" where
  "artist_names_page qe all_rows params =
     (let limit = nat (capped_limit params)
      in rbind (parse_optional (parse_artist_names_cursor qe) (lq_cursor params)) (\<lambda>cursor_after.
         let rest = (case cursor_after of
                 Some c \<Rightarrow> after_partition (\<lambda>r. artist_name_key r \<le> c) all_rows
               | None \<Rightarrow> (case lq_from params of
                     Some from \<Rightarrow> after_partition (\<lambda>r. anr_sort_name r < sort_key (qe_lc qe) from) all_rows
                   | None \<Rightarrow> all_rows));
             has_more = length rest > limit;
             page = map (\<lambda>row. if has_include params ''link_facts'' then row else without_link_facts row) (take limit rest);
             next_cursor = (if has_more \<and> page \<noteq> [] then Some (encode_cursor qe (cursor_text (anr_sort_name (last page))
               (cursor_text (anr_kind (last page)) (anr_key (last page))))) else None)
         in Inr \<lparr>qr_data = page, qr_pagination = \<lparr>pg_cursor = next_cursor, pg_has_more = has_more\<rparr>\<rparr>))"

definition handle_get_artist_names ::
  "query_env \<Rightarrow> int \<Rightarrow> db \<Rightarrow> artist_name_cache_entry option \<Rightarrow> list_query
    \<Rightarrow> (api_error + artist_name_row list query_response) \<times> artist_name_cache_entry option" where
  "handle_get_artist_names qe now s cache params =
     (case get_or_build qe ARTIST_NAME_CACHE_MIN_REBUILD_INTERVAL now s cache of (list, cache') \<Rightarrow>
        (artist_names_page qe (anl_rows list) params, cache'))"

section \<open>Records with open copies\<close>

record copy_record_response =
  crr_feed_guid :: string
  crr_feed_url :: string
  crr_title :: string
  crr_feed_image_url :: "string option"
  crr_copy_count :: int
  crr_copies_over_limit :: int
  crr_newest_first_seen :: "int option"

definition copy_record_sort_key :: "copy_record_response \<Rightarrow> int \<times> string" where
  "copy_record_sort_key r = (case crr_newest_first_seen r of None \<Rightarrow> -1 | Some t \<Rightarrow> t, crr_feed_guid r)"

definition copy_record :: "query_env \<Rightarrow> db \<Rightarrow> string \<Rightarrow> copy_record_response option" where
  "copy_record qe s feed_guid =
     (let (copy_count, newest_first_seen) = open_copy_summary s feed_guid;
          copies_over_limit = get_copy_overflow s feed_guid
      in if copy_count = 0 \<and> copies_over_limit = 0 then None
         else map_option (\<lambda>feed. \<lparr>crr_feed_guid = feed_guid, crr_feed_url = fe_feed_url feed, crr_title = fe_title feed,
           crr_feed_image_url = web_url qe (fe_image_url feed), crr_copy_count = copy_count,
           crr_copies_over_limit = copies_over_limit, crr_newest_first_seen = newest_first_seen\<rparr>)
           (get_feed_by_guid s feed_guid))"

text \<open>The rest of a descending list from the first row before the cursor, and the page at its start.\<close>

definition rest_after :: "('r \<Rightarrow> int \<times> string) \<Rightarrow> (int \<times> string) option \<Rightarrow> 'r list \<Rightarrow> 'r list" where
  "rest_after key cursor records = (case cursor of None \<Rightarrow> records
     | Some c \<Rightarrow> (case index_of (\<lambda>r. key r < c) records of None \<Rightarrow> [] | Some start \<Rightarrow> drop start records))"

definition keyed_page ::
  "query_env \<Rightarrow> ('r \<Rightarrow> int \<times> string) \<Rightarrow> 'r list \<Rightarrow> list_query \<Rightarrow> api_error + 'r list query_response" where
  "keyed_page qe key records params =
     (let limit = nat (min (capped_limit params) SEARCH_LIMIT_MAX)
      in rbind (parse_optional (parse_recent_cursor qe) (lq_cursor params)) (\<lambda>cursor.
         let remaining = rest_after key cursor records;
             has_more = length remaining > limit;
             page = take limit remaining;
             next_cursor = (if has_more \<and> page \<noteq> [] then Some (recent_cursor_text qe (key (last page))) else None)
         in Inr \<lparr>qr_data = page, qr_pagination = \<lparr>pg_cursor = next_cursor, pg_has_more = has_more\<rparr>\<rparr>))"

definition copy_records :: "query_env \<Rightarrow> db \<Rightarrow> copy_record_response list" where
  "copy_records qe s = sort_desc copy_record_sort_key (List.map_filter (copy_record qe s) (list_feed_copy_guids s))"

definition handle_list_copy_records :: "query_env \<Rightarrow> db \<Rightarrow> list_query \<Rightarrow> api_error + copy_record_response list query_response" where
  "handle_list_copy_records qe s params = keyed_page qe copy_record_sort_key (copy_records qe s) params"

section \<open>Pending GUID changes\<close>

record guid_change_response =
  gcr_source_url :: string
  gcr_old_guid :: string
  gcr_new_guid :: string
  gcr_first_seen :: int
  gcr_last_seen :: "int option"
  gcr_decision :: "string option"

definition guid_change_response_of :: "guid_change_row \<Rightarrow> guid_change_response" where
  "guid_change_response_of row = \<lparr>gcr_source_url = gc_source_url row, gcr_old_guid = gc_old_guid row,
     gcr_new_guid = gc_new_guid row, gcr_first_seen = gc_first_seen row, gcr_last_seen = gc_last_seen row,
     gcr_decision = gc_decision row\<rparr>"

definition guid_change_sort_key :: "guid_change_response \<Rightarrow> int \<times> string" where
  "guid_change_sort_key row = (gcr_first_seen row, gcr_source_url row)"

definition handle_list_guid_changes :: "query_env \<Rightarrow> db \<Rightarrow> list_query \<Rightarrow> api_error + guid_change_response list query_response" where
  "handle_list_guid_changes qe s params =
     keyed_page qe guid_change_sort_key (sort_desc guid_change_sort_key (map guid_change_response_of (list_guid_changes s))) params"

section \<open>Live items\<close>

datatype live_item_view = NowView | UpcomingView | AllView

record live_items_query =
  liq_view :: "string option"
  liq_status :: "string option"
  liq_live_value :: "string option"
  liq_ends_after :: "int option"
  liq_starts_after :: "int option"
  liq_cursor :: "string option"
  liq_limit :: "int option"

record live_item_filters =
  lif_view :: live_item_view
  lif_status :: "string option"
  lif_live_value :: "string option"
  lif_ends_after :: "int option"
  lif_starts_after :: "int option"

definition view_of :: "string option \<Rightarrow> api_error + live_item_view" where
  "view_of v = (let name = (case v of None \<Rightarrow> ''now'' | Some n \<Rightarrow> n) in
     if name = ''now'' then Inr NowView else if name = ''upcoming'' then Inr UpcomingView
     else if name = ''all'' then Inr AllView else Inl (api_error 400 (''unknown view: '' @ name)))"

definition known_value :: "string list \<Rightarrow> string option \<Rightarrow> bool" where
  "known_value values v = (case v of None \<Rightarrow> True | Some x \<Rightarrow> x \<in> set values)"

definition the_text :: "string option \<Rightarrow> string" where
  "the_text v = (case v of None \<Rightarrow> [] | Some x \<Rightarrow> x)"

definition validate_live_items_query :: "live_items_query \<Rightarrow> api_error + live_item_filters" where
  "validate_live_items_query params = rbind (view_of (liq_view params)) (\<lambda>view.
     if (liq_status params \<noteq> None \<or> liq_live_value params \<noteq> None \<or> liq_ends_after params \<noteq> None \<or> liq_starts_after params \<noteq> None)
        \<and> view \<noteq> AllView
     then Inl (api_error 400 ''status, live_value, ends_after and starts_after apply only with view=all'')
     else if \<not> known_value [''pending'', ''live'', ''ended''] (liq_status params)
     then Inl (api_error 400 (''unknown status: '' @ the_text (liq_status params)))
     else if \<not> known_value [''set'', ''none''] (liq_live_value params)
     then Inl (api_error 400 (''unknown live_value: '' @ the_text (liq_live_value params)))
     else Inr \<lparr>lif_view = view, lif_status = liq_status params, lif_live_value = liq_live_value params,
       lif_ends_after = liq_ends_after params, lif_starts_after = liq_starts_after params\<rparr>)"

definition matches_raw_filters ::
  "live_event \<Rightarrow> string option \<Rightarrow> string option \<Rightarrow> int option \<Rightarrow> int option \<Rightarrow> bool" where
  "matches_raw_filters event status live_value ends_after starts_after \<longleftrightarrow>
     (case status of None \<Rightarrow> True | Some want \<Rightarrow> eq_ignore_ascii_case (le_status event) want)
     \<and> (case live_value of None \<Rightarrow> True
        | Some want \<Rightarrow> is_some_and (\<lambda>uri. uri \<noteq> []) (le_live_value_uri event) = (want = ''set''))
     \<and> (case ends_after of None \<Rightarrow> True | Some t \<Rightarrow> is_some_and (\<lambda>e. e > t) (le_scheduled_end event))
     \<and> (case starts_after of None \<Rightarrow> True | Some t \<Rightarrow> is_some_and (\<lambda>b. b > t) (le_scheduled_start event))"

definition live_event_matches :: "query_env \<Rightarrow> live_event \<Rightarrow> live_item_filters \<Rightarrow> int \<Rightarrow> bool" where
  "live_event_matches qe event filters now = (case lif_view filters of
       NowView \<Rightarrow> in_now_view event now (is_confirming_relay (qe_url_parse qe) (le_live_value_uri event) (qe_relay_hosts qe))
     | UpcomingView \<Rightarrow> in_upcoming_view event now
     | AllView \<Rightarrow> matches_raw_filters event (lif_status filters) (lif_live_value filters) (lif_ends_after filters) (lif_starts_after filters))"

record live_item_list_response =
  lil_feed_guid :: string
  lil_feed_title :: "string option"
  lil_feed_image_url :: "string option"
  lil_item :: live_item_response

definition live_item_list_response_of :: "query_env \<Rightarrow> db \<Rightarrow> live_event \<Rightarrow> int \<Rightarrow> live_item_list_response" where
  "live_item_list_response_of qe s event now =
     (let feed = named_feed_summary qe s (Some (le_feed_guid event))
      in \<lparr>lil_feed_guid = le_feed_guid event, lil_feed_title = nf_title feed, lil_feed_image_url = nf_image_url feed,
          lil_item = live_item_response_of qe event now (live_item_link_for_feed_item s (le_feed_guid event) (le_live_item_guid event))\<rparr>)"

definition list_live_items :: "query_env \<Rightarrow> db \<Rightarrow> live_items_query \<Rightarrow> int \<Rightarrow> api_error + live_item_list_response list query_response" where
  "list_live_items qe s params now = rbind (validate_live_items_query params) (\<lambda>filters.
     let limit = nat (clamp_limit LIST_LIMIT_MAX (limit_or 50 (liq_limit params)))
     in rbind (parse_optional (parse_by_name_cursor qe) (liq_cursor params)) (\<lambda>cursor_pair.
        let matching = filter (\<lambda>event. live_event_matches qe event filters now) (get_live_events_after_cursor s cursor_pair);
            has_more = length matching > limit;
            page = take limit matching;
            next_cursor = (if has_more \<and> page \<noteq> []
              then Some (encode_cursor qe (cursor_text (le_feed_guid (last page)) (le_live_item_guid (last page)))) else None)
        in Inr \<lparr>qr_data = map (\<lambda>event. live_item_list_response_of qe s event now) page,
             qr_pagination = \<lparr>pg_cursor = next_cursor, pg_has_more = has_more\<rparr>\<rparr>))"

section \<open>Tracks of an artist\<close>

record artist_tracks_query =
  atq_artist :: string
  atq_limit :: "int option"
  atq_cursor :: "string option"

record artist_track_item =
  ati_track_guid :: string
  ati_feed_guid :: string
  ati_title :: string
  ati_track_artist :: "string option"
  ati_track_artist_sort :: "string option"
  ati_pub_date :: "int option"
  ati_duration_secs :: "int option"
  ati_image_url :: "string option"
  ati_track_image_url :: "string option"
  ati_feed_image_url :: "string option"
  ati_track_number :: "int option"
  ati_feed_title :: string
  ati_release_artist :: "string option"
  ati_release_artist_source :: "string option"
  ati_created_at :: int

definition artist_track_item_of :: "query_env \<Rightarrow> track_row \<Rightarrow> artist_track_item" where
  "artist_track_item_of qe r = (case r of (t, f) \<Rightarrow>
     \<lparr>ati_track_guid = tr_track_guid t, ati_feed_guid = tr_feed_guid t, ati_title = tr_title t,
      ati_track_artist = tr_track_artist t, ati_track_artist_sort = tr_track_artist_sort t, ati_pub_date = tr_pub_date t,
      ati_duration_secs = tr_duration_secs t, ati_image_url = web_url qe (row_image r),
      ati_track_image_url = web_url qe (tr_image_url t), ati_feed_image_url = web_url qe (feed_image r),
      ati_track_number = tr_track_number t, ati_feed_title = (case f of None \<Rightarrow> [] | Some x \<Rightarrow> fe_title x),
      ati_release_artist = Option.bind f fe_release_artist,
      ati_release_artist_source = Option.bind f fe_release_artist_source, ati_created_at = tr_created_at t\<rparr>)"

definition artist_track_key :: "track \<Rightarrow> int \<times> string" where
  "artist_track_key t = (tr_created_at t, tr_track_guid t)"

text \<open>The artist is lowered in Rust, the column by SQLite, which lowers ASCII letters only.\<close>

definition artist_track_rows :: "query_env \<Rightarrow> db \<Rightarrow> string \<Rightarrow> (int \<times> string) option \<Rightarrow> nat \<Rightarrow> track list" where
  "artist_track_rows qe s artist cursor n =
     take n (sort_desc artist_track_key (filter (\<lambda>t. map_option to_ascii_lowercase (tr_track_artist t) = Some (qe_lc qe artist)
       \<and> (case cursor of None \<Rightarrow> True | Some c \<Rightarrow> artist_track_key t < c)) (t_tracks s)))"

definition handle_artist_tracks :: "query_env \<Rightarrow> db \<Rightarrow> artist_tracks_query \<Rightarrow> api_error + artist_track_item list query_response" where
  "handle_artist_tracks qe s params =
     (let limit = nat (clamp_limit LIST_LIMIT_MAX (limit_or 50 (atq_limit params)))
      in rbind (parse_optional (parse_recent_cursor qe) (atq_cursor params)) (\<lambda>cursor.
         let rows = artist_track_rows qe s (atq_artist params) cursor (Suc limit);
             has_more = length rows > limit;
             items = take limit rows;
             next_cursor = (if has_more \<and> items \<noteq> [] then Some (recent_cursor_text qe (artist_track_key (last items))) else None)
         in Inr \<lparr>qr_data = map (\<lambda>t. artist_track_item_of qe (track_row_of s t)) items,
              qr_pagination = \<lparr>pg_cursor = next_cursor, pg_has_more = has_more\<rparr>\<rparr>))"

end
