(* ===== verification/Find.thy ===== *)
theory Find
  imports Names
begin

text \<open>
  \<^verbatim>\<open>GET /v1/search\<close>: the parameters of a request with the checks of ADR 0080, the two searches of
  \<^verbatim>\<open>src/search.rs\<close> (by rank and by date) with their filters, and the handler of \<^verbatim>\<open>src/query.rs\<close>. The SQL
  that \<^verbatim>\<open>search.rs\<close> puts together is the function that SQLite evaluates with it: a condition is kept
  when it is true, so an unknown value (NULL) drops the row.
\<close>

section \<open>What a search uses\<close>

text \<open>
  The match and the rank of FTS5, the floating-point expression of the effective rank, the JSON text
  of a track's index id, the calendar and the host parser are arguments.
\<close>

record search_engine =
  sx_match :: "string \<Rightarrow> search_index_row \<Rightarrow> bool"
  sx_bm25 :: "string \<Rightarrow> search_index_row list \<Rightarrow> search_index_row \<Rightarrow> f64"
  sx_effective :: "f64 \<Rightarrow> int \<Rightarrow> f64"
  sx_track_parts :: "string \<Rightarrow> (string \<times> string) option"
  sx_day :: "int \<Rightarrow> int \<Rightarrow> int \<Rightarrow> int option"
  sx_host_parse :: "string \<Rightarrow> string option"

section \<open>Filters\<close>

datatype text_field = ArtistField | TitleField | ReleaseField | AnyField

record text_filter =
  tf_field :: text_field
  tf_phrases :: "string list"

record value_filters =
  vf_kinds :: "string list option"
  vf_tracks :: "int option"
  vf_min_tracks :: "int option"
  vf_max_tracks :: "int option"
  vf_after :: "int option"
  vf_before_end :: "int option"
  vf_min_duration :: "int option"
  vf_max_duration :: "int option"
  vf_host :: "string option"
  vf_not_hosts :: "string list"

record search_filters =
  sf_include :: "text_filter list"
  sf_exclude :: "text_filter list"
  sf_values :: value_filters

definition no_values :: value_filters where
  "no_values = \<lparr>vf_kinds = None, vf_tracks = None, vf_min_tracks = None, vf_max_tracks = None, vf_after = None,
     vf_before_end = None, vf_min_duration = None, vf_max_duration = None, vf_host = None, vf_not_hosts = []\<rparr>"

definition no_filters :: search_filters where
  "no_filters = \<lparr>sf_include = [], sf_exclude = [], sf_values = no_values\<rparr>"

definition values_positive :: "value_filters \<Rightarrow> bool" where
  "values_positive v \<longleftrightarrow> vf_kinds v \<noteq> None \<or> vf_tracks v \<noteq> None \<or> vf_min_tracks v \<noteq> None \<or> vf_max_tracks v \<noteq> None
     \<or> vf_after v \<noteq> None \<or> vf_before_end v \<noteq> None \<or> vf_min_duration v \<noteq> None \<or> vf_max_duration v \<noteq> None \<or> vf_host v \<noteq> None"

definition has_positive :: "search_filters \<Rightarrow> bool" where
  "has_positive f \<longleftrightarrow> sf_include f \<noteq> [] \<or> values_positive (sf_values f)"

definition exclusion_count :: "search_filters \<Rightarrow> nat" where
  "exclusion_count f = length (sf_exclude f) + length (vf_not_hosts (sf_values f))"

section \<open>Conditions of a search\<close>

text \<open>The feed and the track of a hit, as the \<^verbatim>\<open>LEFT JOIN\<close>s give them.\<close>

definition hit_feed :: "search_engine \<Rightarrow> db \<Rightarrow> search_entity_row \<Rightarrow> feed_row option" where
  "hit_feed sx s e = (if se_entity_type e = ''track''
     then Option.bind (sx_track_parts sx (se_entity_id e)) (\<lambda>(feed_guid, _). lookup_by fe_feed_guid (t_feeds s) feed_guid)
     else lookup_by fe_feed_guid (t_feeds s) (se_entity_id e))"

definition hit_track :: "search_engine \<Rightarrow> db \<Rightarrow> search_entity_row \<Rightarrow> track option" where
  "hit_track sx s e = (if se_entity_type e \<noteq> ''track'' then None
     else Option.bind (hit_feed sx s e) (\<lambda>f. Option.bind (sx_track_parts sx (se_entity_id e))
       (\<lambda>(_, track_guid). lookup_by track_key (t_tracks s) (fe_feed_guid f, track_guid))))"

definition hit_date :: "search_engine \<Rightarrow> db \<Rightarrow> search_entity_row \<Rightarrow> int option" where
  "hit_date sx s e = (if se_entity_type e = ''track'' then Option.bind (hit_track sx s e) tr_pub_date
     else Option.bind (hit_feed sx s e) fe_newest_item_at)"

text \<open>A limit that is not set holds; one that is set needs a value.\<close>

definition within :: "(int \<Rightarrow> int \<Rightarrow> bool) \<Rightarrow> int option \<Rightarrow> int option \<Rightarrow> bool" where
  "within op v bound \<longleftrightarrow> (case bound of None \<Rightarrow> True | Some b \<Rightarrow> (case v of None \<Rightarrow> False | Some x \<Rightarrow> op x b))"

definition kind_matches :: "string list \<Rightarrow> string option \<Rightarrow> bool" where
  "kind_matches kinds k \<longleftrightarrow> (case k of None \<Rightarrow> ''unknown'' \<in> set kinds | Some r \<Rightarrow> r \<in> set kinds)"

definition host_matches :: "string option \<Rightarrow> string \<Rightarrow> bool" where
  "host_matches feed_host host \<longleftrightarrow> (case feed_host of None \<Rightarrow> False
     | Some h \<Rightarrow> h = host \<or> ends_with h (CHR ''.'' # host))"

definition values_hold :: "search_engine \<Rightarrow> db \<Rightarrow> value_filters \<Rightarrow> search_entity_row \<Rightarrow> bool" where
  "values_hold sx s v e \<longleftrightarrow>
     (let feed = hit_feed sx s e;
          episodes = map_option fe_episode_count feed;
          duration = Option.bind (hit_track sx s e) tr_duration_secs;
          date = hit_date sx s e;
          feed_host = map_option fr_feed_host feed
      in (case vf_kinds v of None \<Rightarrow> True | Some kinds \<Rightarrow> kind_matches kinds (Option.bind feed fe_release_kind))
       \<and> within (=) episodes (vf_tracks v) \<and> within (\<ge>) episodes (vf_min_tracks v) \<and> within (\<le>) episodes (vf_max_tracks v)
       \<and> within (\<ge>) date (vf_after v) \<and> within (<) date (vf_before_end v)
       \<and> within (\<ge>) duration (vf_min_duration v) \<and> within (\<le>) duration (vf_max_duration v)
       \<and> (case vf_host v of None \<Rightarrow> True | Some host \<Rightarrow> host_matches feed_host host)
       \<and> list_all (\<lambda>host. \<not> host_matches feed_host host) (vf_not_hosts v))"

text \<open>
  The index row that a text filter reads and its columns; no target when the type does not apply the
  field. An empty type is a search without one.
\<close>

definition feed_index_row :: "search_engine \<Rightarrow> db \<Rightarrow> search_entity_row \<Rightarrow> int option" where
  "feed_index_row sx s e = Option.bind (sx_track_parts sx (se_entity_id e))
     (\<lambda>(feed_guid, _). map_option se_rowid (find (\<lambda>fe. se_entity_type fe = ''feed'' \<and> se_entity_id fe = feed_guid) (t_search_entities s)))"

definition filter_target ::
  "search_engine \<Rightarrow> db \<Rightarrow> text_filter \<Rightarrow> string \<Rightarrow> search_entity_row \<Rightarrow> (int option \<times> string) option" where
  "filter_target sx s f entity_type e =
     (let own = Some (se_rowid e); feed = feed_index_row sx s e in
      if tf_field f = ReleaseField \<and> entity_type = ''publisher'' then None
      else if tf_field f = ReleaseField \<and> entity_type = ''track'' then Some (feed, ''title'')
      else if tf_field f = ReleaseField \<and> entity_type = []
      then Some (if se_entity_type e = ''track'' then feed else own, ''title'')
      else if tf_field f = ReleaseField \<or> tf_field f = TitleField \<or> tf_field f = ArtistField \<and> entity_type = ''publisher''
      then Some (own, ''title'')
      else if tf_field f = ArtistField then Some (own, ''name'') else Some (own, ''{name title description}''))"

definition filter_expression :: "text_filter \<Rightarrow> string \<Rightarrow> string" where
  "filter_expression f columns = join '' AND '' (map (\<lambda>phrase. columns @ '' : '' @ phrase) (tf_phrases f))"

definition text_member :: "search_engine \<Rightarrow> db \<Rightarrow> int option \<Rightarrow> string \<Rightarrow> bool" where
  "text_member sx s row expr \<longleftrightarrow> (case row of None \<Rightarrow> False
     | Some r \<Rightarrow> list_ex (\<lambda>m. si_rowid m = r \<and> sx_match sx expr m) (t_search_index s))"

definition text_holds :: "search_engine \<Rightarrow> db \<Rightarrow> string \<Rightarrow> search_entity_row \<Rightarrow> bool \<Rightarrow> text_filter \<Rightarrow> bool" where
  "text_holds sx s entity_type e excluded f \<longleftrightarrow> (case filter_target sx s f entity_type e of None \<Rightarrow> True
     | Some (row, columns) \<Rightarrow> text_member sx s row (filter_expression f columns) \<noteq> excluded)"

definition filters_hold :: "search_engine \<Rightarrow> db \<Rightarrow> search_filters \<Rightarrow> string \<Rightarrow> search_entity_row \<Rightarrow> bool" where
  "filters_hold sx s f entity_type e \<longleftrightarrow> list_all (text_holds sx s entity_type e False) (sf_include f)
     \<and> list_all (text_holds sx s entity_type e True) (sf_exclude f) \<and> values_hold sx s (sf_values f) e"

section \<open>A search by rank\<close>

record search_result =
  sr_entity_type :: string
  sr_entity_id :: string
  sr_rank :: f64
  sr_quality_score :: int
  sr_effective_rank :: f64
  sr_rowid :: int

text \<open>The order of two finite 64-bit floats.\<close>

definition f64_order :: "f64 \<Rightarrow> int" where
  "f64_order x = (let m = int (unat x mod 2 ^ 63) in if unat x div 2 ^ 63 = 1 then - m else m)"

definition result_key :: "search_result \<Rightarrow> int \<times> int" where
  "result_key r = (f64_order (sr_effective_rank r), sr_rowid r)"

definition hit_quality :: "db \<Rightarrow> search_entity_row \<Rightarrow> int" where
  "hit_quality s e = (case lookup_by q_key (t_entity_quality s)
       (if se_entity_type e = ''publisher'' then ''feed'' else se_entity_type e, se_entity_id e) of
     None \<Rightarrow> 0 | Some q \<Rightarrow> q_score q)"

definition search_hit :: "search_engine \<Rightarrow> db \<Rightarrow> string \<Rightarrow> search_index_row \<Rightarrow> search_entity_row \<Rightarrow> search_result" where
  "search_hit sx s expr m e =
     (let rank = sx_bm25 sx expr (t_search_index s) m; quality = hit_quality s e
      in \<lparr>sr_entity_type = se_entity_type e, sr_entity_id = se_entity_id e, sr_rank = rank, sr_quality_score = quality,
          sr_effective_rank = sx_effective sx rank quality, sr_rowid = si_rowid m\<rparr>)"

definition after_rank :: "(f64 \<times> int) option \<Rightarrow> search_result \<Rightarrow> bool" where
  "after_rank cursor r \<longleftrightarrow> (case cursor of None \<Rightarrow> True | Some (rank, rowid) \<Rightarrow> (f64_order rank, rowid) < result_key r)"

definition search_filtered ::
  "search_engine \<Rightarrow> db \<Rightarrow> string \<Rightarrow> search_filters \<Rightarrow> string option \<Rightarrow> nat \<Rightarrow> (f64 \<times> int) option \<Rightarrow> search_result list" where
  "search_filtered sx s query filters entity_type limit cursor =
     (let expr = fts5_query_from_words query; kind = (case entity_type of None \<Rightarrow> [] | Some t \<Rightarrow> t)
      in if trim expr = [] then []
         else take limit (List.sort_key result_key (List.map_filter (\<lambda>m.
           if \<not> sx_match sx expr m then None
           else (case entity_at s (si_rowid m) of None \<Rightarrow> None
             | Some e \<Rightarrow> let r = search_hit sx s expr m e in
                 if after_rank cursor r \<and> (case entity_type of None \<Rightarrow> True | Some t \<Rightarrow> se_entity_type e = t)
                    \<and> filters_hold sx s filters kind e
                 then Some r else None)) (t_search_index s))))"

section \<open>A search by date\<close>

record dated_search_result =
  dsr_result :: search_result
  dsr_date :: "int option"

text \<open>\<^verbatim>\<open>row\_date DESC NULLS LAST, rowid ASC\<close>.\<close>

definition date_key :: "int option \<times> int \<Rightarrow> bool \<times> int \<times> int" where
  "date_key p = (case p of (date, rowid) \<Rightarrow> (date = None, (case date of None \<Rightarrow> 0 | Some d \<Rightarrow> - d), rowid))"

definition dated_hit :: "search_engine \<Rightarrow> db \<Rightarrow> search_entity_row \<Rightarrow> dated_search_result" where
  "dated_hit sx s e = \<lparr>dsr_result = \<lparr>sr_entity_type = se_entity_type e, sr_entity_id = se_entity_id e, sr_rank = 0,
       sr_quality_score = hit_quality s e, sr_effective_rank = 0, sr_rowid = se_rowid e\<rparr>, dsr_date = hit_date sx s e\<rparr>"

definition dated_position :: "dated_search_result \<Rightarrow> int option \<times> int" where
  "dated_position r = (dsr_date r, sr_rowid (dsr_result r))"

text \<open>The three conditions of a cursor, as the query states them.\<close>

definition after_date :: "(int option \<times> int) option \<Rightarrow> int option \<times> int \<Rightarrow> bool" where
  "after_date cursor p \<longleftrightarrow> (case p of (date, rowid) \<Rightarrow> (case cursor of None \<Rightarrow> True
     | Some (None, c) \<Rightarrow> date = None \<and> rowid > c
     | Some (Some d, c) \<Rightarrow> (case date of None \<Rightarrow> True | Some x \<Rightarrow> x < d \<or> x = d \<and> rowid > c)))"

definition search_by_date ::
  "search_engine \<Rightarrow> db \<Rightarrow> search_filters \<Rightarrow> string option \<Rightarrow> nat \<Rightarrow> (int option \<times> int) option \<Rightarrow> dated_search_result list" where
  "search_by_date sx s filters entity_type limit cursor =
     (let kind = (case entity_type of None \<Rightarrow> [] | Some t \<Rightarrow> t)
      in take limit (List.sort_key (\<lambda>r. date_key (dated_position r)) (filter (\<lambda>r. after_date cursor (dated_position r))
           (map (dated_hit sx s) (filter (\<lambda>e.
              (case entity_type of None \<Rightarrow> se_entity_type e = ''feed'' \<or> se_entity_type e = ''track'' | Some t \<Rightarrow> se_entity_type e = t)
              \<and> filters_hold sx s filters kind e) (t_search_entities s))))))"

end
