(* ===== verification/Request.thy ===== *)
theory Request
  imports Find
begin

text \<open>
  The route \<^verbatim>\<open>GET /v1/search\<close> of \<^verbatim>\<open>src/query.rs\<close>: the checks of a request in their sequence (ADR 0080),
  the cursor of each of the two searches, and the response rows.
\<close>

section \<open>The parameters\<close>

record search_request =
  rq_q :: string
  rq_kind :: "string option"
  rq_limit :: "int option"
  rq_cursor :: "string option"
  rq_include :: "string option"
  rq_filters :: search_filters

definition SINGLE :: "string list" where
  "SINGLE = [''q'', ''type'', ''limit'', ''cursor'', ''include'']"

definition ALL_TYPES :: "string list" where "ALL_TYPES = [''feed'', ''track'', ''publisher'']"
definition FEED_AND_TRACK :: "string list" where "FEED_AND_TRACK = [''feed'', ''track'']"

definition SEARCH_FILTERS :: "(string \<times> string list) list" where
  "SEARCH_FILTERS = [(''artist'', ALL_TYPES), (''not_artist'', ALL_TYPES), (''title'', ALL_TYPES), (''not_title'', ALL_TYPES),
     (''release'', FEED_AND_TRACK), (''not_release'', FEED_AND_TRACK), (''not_q'', ALL_TYPES), (''kind'', FEED_AND_TRACK),
     (''tracks'', FEED_AND_TRACK), (''min_tracks'', FEED_AND_TRACK), (''max_tracks'', FEED_AND_TRACK),
     (''after'', FEED_AND_TRACK), (''before'', FEED_AND_TRACK), (''min_duration'', [''track'']),
     (''max_duration'', [''track'']), (''host'', ALL_TYPES), (''not_host'', ALL_TYPES)]"

definition filter_types :: "string \<Rightarrow> string list option" where
  "filter_types name = map_of SEARCH_FILTERS name"

definition repeats :: "string \<Rightarrow> bool" where
  "repeats name = starts_with name ''not_''"

definition SEARCH_KINDS :: "string list" where
  "SEARCH_KINDS = [''album'', ''ep'', ''single'', ''unknown'']"

definition SECONDS_PER_DAY :: int where "SECONDS_PER_DAY = 86400"
definition SEARCH_EXCLUSION_MAX :: nat where "SEARCH_EXCLUSION_MAX = 10"

definition SEARCH_VALUE_FILTERS :: "string list" where
  "SEARCH_VALUE_FILTERS = [''kind'', ''tracks'', ''min_tracks'', ''max_tracks'', ''after'', ''before'', ''min_duration'',
     ''max_duration'', ''host'', ''not_host'']"

section \<open>Values of a filter\<close>

definition parse_filter_integer :: "string \<Rightarrow> int option" where
  "parse_filter_integer v = in_i64 (digits_value v)"

definition parse_filter_day :: "search_engine \<Rightarrow> string \<Rightarrow> int option" where
  "parse_filter_day sx v =
     (if length v \<noteq> 10 \<or> v ! 4 \<noteq> CHR ''-'' \<or> v ! 7 \<noteq> CHR ''-'' then None
      else Option.bind (digits_value (take 4 v)) (\<lambda>year. Option.bind (digits_value (take 2 (drop 5 v))) (\<lambda>month.
        Option.bind (digits_value (drop 8 v)) (\<lambda>day. sx_day sx year month day))))"

fun host_form :: "bool \<Rightarrow> string \<Rightarrow> bool" where
  "host_form in_brackets [] = True"
| "host_form in_brackets (c # s) =
     (if c = CHR ''/'' \<or> c = CHR ''@'' then False
      else if c = CHR ''['' then host_form True s
      else if c = CHR '']'' then host_form False s
      else if c = CHR '':'' \<and> \<not> in_brackets then False
      else host_form in_brackets s)"

definition trim_end_dots :: "string \<Rightarrow> string" where
  "trim_end_dots s = rev (dropWhile (\<lambda>c. c = CHR ''.'') (rev s))"

definition parse_filter_host :: "query_env \<Rightarrow> search_engine \<Rightarrow> string \<Rightarrow> string option" where
  "parse_filter_host qe sx v =
     (if \<not> host_form False v \<or> v = [] then None
      else Option.bind (sx_host_parse sx v) (\<lambda>parsed.
        let host = trim_end_dots (qe_lc qe parsed) in if host = [] then None else Some host))"

definition parse_filter_kinds :: "string \<Rightarrow> string list option" where
  "parse_filter_kinds v =
     (let kinds = split_on CHR '','' v in if list_all (\<lambda>kind. kind \<in> set SEARCH_KINDS) kinds then Some kinds else None)"

section \<open>The checks\<close>

datatype search_rejection = Plain api_error | FilterError string "string option" string

definition filter_error :: "string \<Rightarrow> string \<Rightarrow> string \<Rightarrow> search_rejection" where
  "filter_error code name message = FilterError code (Some name) message"

definition single :: "(string \<times> string) list \<Rightarrow> string \<Rightarrow> search_rejection + string option" where
  "single pairs name = (case filter (\<lambda>p. fst p = name) pairs of
       [] \<Rightarrow> Inr None
     | [p] \<Rightarrow> Inr (Some (snd p))
     | _ \<Rightarrow> Inl (Plain (api_error 400 (''duplicate parameter `'' @ name @ ''`''))))"

definition parse_limit :: "string option \<Rightarrow> search_rejection + int option" where
  "parse_limit v = (case v of None \<Rightarrow> Inr None
     | Some t \<Rightarrow> (case parse_i64 t of None \<Rightarrow> Inl (Plain (api_error 400 ''limit is not an integer'')) | Some n \<Rightarrow> Inr (Some n)))"

text \<open>Check 1: a name that the node does not know.\<close>

definition check_names :: "(string \<times> string) list \<Rightarrow> search_rejection + unit" where
  "check_names pairs = (case find (\<lambda>p. fst p \<notin> set SINGLE \<and> filter_types (fst p) = None) pairs of
       None \<Rightarrow> Inr ()
     | Some p \<Rightarrow> Inl (filter_error ''unsupported_filter'' (fst p) (fst p @ '' is not a parameter of this node'')))"

text \<open>Check 2: a filter that the type of the request does not apply.\<close>

definition request_types :: "string option \<Rightarrow> string list" where
  "request_types kind = (case kind of None \<Rightarrow> [''feed'', ''track'']
     | Some k \<Rightarrow> if k \<in> set ALL_TYPES then [k] else [])"

definition check_types :: "(string \<times> string) list \<Rightarrow> string option \<Rightarrow> search_rejection + unit" where
  "check_types pairs kind =
     (case find (\<lambda>p. case filter_types (fst p) of None \<Rightarrow> False
          | Some types \<Rightarrow> \<not> list_all (\<lambda>t. t \<in> set types) (request_types kind)) pairs of
        None \<Rightarrow> Inr ()
      | Some p \<Rightarrow> Inl (filter_error ''unsupported_filter'' (fst p) (fst p @ '' is not supported for '' @
          (case kind of None \<Rightarrow> ''a request with no type'' | Some k \<Rightarrow> ''type='' @ k))))"

text \<open>Check 3: one filter after the other. The state holds the filters so far and the positive names seen.\<close>

type_synonym filter_state = "search_filters \<times> string list"

definition set_integer :: "string \<Rightarrow> int \<Rightarrow> value_filters \<Rightarrow> value_filters" where
  "set_integer name n vf =
     (if name = ''tracks'' then vf\<lparr>vf_tracks := Some n\<rparr>
      else if name = ''min_tracks'' then vf\<lparr>vf_min_tracks := Some n\<rparr>
      else if name = ''max_tracks'' then vf\<lparr>vf_max_tracks := Some n\<rparr>
      else if name = ''min_duration'' then vf\<lparr>vf_min_duration := Some n\<rparr>
      else vf\<lparr>vf_max_duration := Some n\<rparr>)"

definition set_value :: "query_env \<Rightarrow> search_engine \<Rightarrow> string \<Rightarrow> string \<Rightarrow> value_filters \<Rightarrow> value_filters option" where
  "set_value qe sx name v vf =
     (if name = ''kind'' then map_option (\<lambda>k. vf\<lparr>vf_kinds := Some k\<rparr>) (parse_filter_kinds v)
      else if name = ''host'' then map_option (\<lambda>h. vf\<lparr>vf_host := Some h\<rparr>) (parse_filter_host qe sx v)
      else if name = ''not_host'' then map_option (\<lambda>h. vf\<lparr>vf_not_hosts := vf_not_hosts vf @ [h]\<rparr>) (parse_filter_host qe sx v)
      else if name = ''after'' then map_option (\<lambda>d. vf\<lparr>vf_after := Some d\<rparr>) (parse_filter_day sx v)
      else if name = ''before'' then map_option (\<lambda>d. vf\<lparr>vf_before_end := Some (i64_add d SECONDS_PER_DAY)\<rparr>) (parse_filter_day sx v)
      else map_option (\<lambda>n. set_integer name n vf) (parse_filter_integer v))"

definition text_filter_of :: "string \<Rightarrow> string list \<Rightarrow> text_filter" where
  "text_filter_of name phrases = \<lparr>tf_field =
     (if name = ''artist'' \<or> name = ''not_artist'' then ArtistField
      else if name = ''title'' \<or> name = ''not_title'' then TitleField
      else if name = ''release'' \<or> name = ''not_release'' then ReleaseField else AnyField), tf_phrases = phrases\<rparr>"

definition add_text_filter :: "string \<Rightarrow> string list \<Rightarrow> search_filters \<Rightarrow> search_filters" where
  "add_text_filter name phrases f =
     (if name \<in> set [''artist'', ''title'', ''release''] then f\<lparr>sf_include := sf_include f @ [text_filter_of name phrases]\<rparr>
      else f\<lparr>sf_exclude := sf_exclude f @ [text_filter_of name phrases]\<rparr>)"

definition set_filter :: "query_env \<Rightarrow> search_engine \<Rightarrow> string \<Rightarrow> string \<Rightarrow> search_filters \<Rightarrow> search_rejection + search_filters" where
  "set_filter qe sx name v f =
     (if name \<in> set SEARCH_VALUE_FILTERS
      then (case set_value qe sx name v (sf_values f) of
          None \<Rightarrow> Inl (filter_error ''invalid_filter'' name (name @ '' has a value in the wrong form''))
        | Some vf \<Rightarrow> Inr (f\<lparr>sf_values := vf\<rparr>))
      else let phrases = fts5_phrases v in
        if phrases = [] then Inl (filter_error ''invalid_filter'' name (name @ '' has no word''))
        else Inr (add_text_filter name phrases f))"

definition check_filter :: "query_env \<Rightarrow> search_engine \<Rightarrow> string \<times> string \<Rightarrow> filter_state \<Rightarrow> search_rejection + filter_state" where
  "check_filter qe sx p st = (case (p, st) of ((name, v), (f, seen)) \<Rightarrow>
     if filter_types name = None then Inr (f, seen)
     else if \<not> repeats name \<and> name \<in> set seen
     then Inl (filter_error ''invalid_filter'' name (name @ '' can appear one time''))
     else if repeats name \<and> exclusion_count f \<ge> SEARCH_EXCLUSION_MAX
     then Inl (filter_error ''invalid_filter'' name (''a request has at most '' @ show_nat SEARCH_EXCLUSION_MAX @ '' exclusions''))
     else rbind (set_filter qe sx name v f) (\<lambda>f'. Inr (f', if repeats name then seen else seen @ [name])))"

fun check_filters :: "query_env \<Rightarrow> search_engine \<Rightarrow> (string \<times> string) list \<Rightarrow> filter_state \<Rightarrow> search_rejection + filter_state" where
  "check_filters qe sx [] st = Inr st"
| "check_filters qe sx (p # pairs) st = rbind (check_filter qe sx p st) (check_filters qe sx pairs)"

text \<open>The whole check, on the pairs that the form decoder gives.\<close>

definition parse_search_request :: "query_env \<Rightarrow> search_engine \<Rightarrow> (string \<times> string) list \<Rightarrow> search_rejection + search_request" where
  "parse_search_request qe sx pairs =
     rbind (single pairs ''q'') (\<lambda>q. rbind (single pairs ''type'') (\<lambda>kind. rbind (single pairs ''cursor'') (\<lambda>cursor.
     rbind (single pairs ''include'') (\<lambda>incl. rbind (single pairs ''limit'') (\<lambda>limit_text. rbind (parse_limit limit_text) (\<lambda>limit.
     rbind (check_names pairs) (\<lambda>_. rbind (check_types pairs kind) (\<lambda>_.
     rbind (check_filters qe sx pairs (no_filters, [])) (\<lambda>(filters, seen).
       let words = the_text q in
       if fts5_query_from_words words = [] \<and> \<not> has_positive filters
       then Inl (FilterError ''missing_positive_term'' None ''q has no word'')
       else Inr \<lparr>rq_q = words, rq_kind = kind, rq_limit = limit, rq_cursor = cursor, rq_include = incl,
         rq_filters = filters\<rparr>)))))))))"

section \<open>The cursor\<close>

definition parse_u64 :: "string \<Rightarrow> int option" where
  "parse_u64 s = (case digits_value (case s of c # r \<Rightarrow> if c = CHR ''+'' then r else s | [] \<Rightarrow> []) of
       None \<Rightarrow> None | Some n \<Rightarrow> if n < 2 ^ 64 then Some n else None)"

datatype search_position = ByRank f64 int | ByDate "int option" int

definition f64_is_finite :: "f64 \<Rightarrow> bool" where
  "f64_is_finite x \<longleftrightarrow> (unat x div 2 ^ 52) mod 2048 \<noteq> 2047"

definition date_position :: "string \<Rightarrow> int \<Rightarrow> api_error + search_position" where
  "date_position text rowid =
     (let date = dropWhile (\<lambda>c. c = CHR ''d'') text in
      if date = [] then Inr (ByDate None rowid)
      else (case parse_i64 date of None \<Rightarrow> Inl (api_error 400 ''invalid cursor timestamp'') | Some d \<Rightarrow> Inr (ByDate (Some d) rowid)))"

definition rank_position :: "string \<Rightarrow> int \<Rightarrow> api_error + search_position" where
  "rank_position text rowid = (case parse_u64 text of None \<Rightarrow> Inl (api_error 400 ''invalid cursor rank'')
     | Some bits \<Rightarrow> let rank = word_of_int bits in
         if f64_is_finite rank then Inr (ByRank rank rowid) else Inl (api_error 400 ''invalid cursor rank: non-finite value''))"

definition parse_search_cursor :: "query_env \<Rightarrow> bool \<Rightarrow> string \<Rightarrow> api_error + search_position" where
  "parse_search_cursor qe by_date cursor = rbind (decode_cursor qe cursor) (\<lambda>decoded. rbind (split_cursor decoded) (\<lambda>(head, tail).
     if starts_with head ''d'' \<noteq> by_date then Inl (api_error 400 ''invalid cursor format'')
     else (case parse_i64 tail of None \<Rightarrow> Inl (api_error 400 ''invalid cursor rowid'')
       | Some rowid \<Rightarrow> if by_date then date_position head rowid else rank_position head rowid)))"

definition rank_cursor :: "search_position option \<Rightarrow> (f64 \<times> int) option" where
  "rank_cursor p = (case p of Some (ByRank rank rowid) \<Rightarrow> Some (rank, rowid) | _ \<Rightarrow> None)"

definition date_cursor :: "search_position option \<Rightarrow> (int option \<times> int) option" where
  "date_cursor p = (case p of Some (ByDate date rowid) \<Rightarrow> Some (date, rowid) | _ \<Rightarrow> None)"

definition position_text :: "query_env \<Rightarrow> bool \<Rightarrow> dated_search_result \<Rightarrow> string" where
  "position_text qe by_date r = encode_cursor qe
     (if by_date
      then cursor_text (CHR ''d'' # (case dsr_date r of None \<Rightarrow> [] | Some d \<Rightarrow> show_int d)) (show_int (sr_rowid (dsr_result r)))
      else cursor_text (show_nat (unat (sr_effective_rank (dsr_result r)))) (show_int (sr_rowid (dsr_result r))))"

section \<open>The rows\<close>

definition merged_search ::
  "search_engine \<Rightarrow> db \<Rightarrow> string \<Rightarrow> search_filters \<Rightarrow> nat \<Rightarrow> (f64 \<times> int) option \<Rightarrow> search_result list" where
  "merged_search sx s q filters limit cursor =
     take limit (List.sort_key result_key (concat (map (\<lambda>t. search_filtered sx s q filters (Some t) limit cursor) [''feed'', ''track''])))"

definition found_rows ::
  "search_engine \<Rightarrow> db \<Rightarrow> search_request \<Rightarrow> bool \<Rightarrow> nat \<Rightarrow> search_position option \<Rightarrow> api_error + dated_search_result list" where
  "found_rows sx s rq by_date limit p =
     (case rq_kind rq of
        Some other \<Rightarrow> if other \<notin> set ALL_TYPES then Inl (api_error 400 (''unsupported search type filter: '' @ other))
          else if by_date then Inr (search_by_date sx s (rq_filters rq) (Some other) limit (date_cursor p))
          else Inr (map (\<lambda>r. \<lparr>dsr_result = r, dsr_date = None\<rparr>)
            (search_filtered sx s (rq_q rq) (rq_filters rq) (Some other) limit (rank_cursor p)))
      | None \<Rightarrow> if by_date then Inr (search_by_date sx s (rq_filters rq) None limit (date_cursor p))
          else Inr (map (\<lambda>r. \<lparr>dsr_result = r, dsr_date = None\<rparr>) (merged_search sx s (rq_q rq) (rq_filters rq) limit (rank_cursor p))))"

record search_response_item =
  sri_entity_type :: string
  sri_entity_id :: string
  sri_rank :: f64
  sri_quality_score :: int
  sri_feed_guid :: "string option"
  sri_href :: "string option"
  sri_title :: "string option"
  sri_feed_title :: "string option"
  sri_track_image_url :: "string option"
  sri_feed_image_url :: "string option"
  sri_pub_date :: "int option"
  sri_release_artist :: "string option"
  sri_release_artist_source :: "string option"
  sri_episode_count :: "int option"
  sri_track_artist :: "string option"
  sri_duration_secs :: "int option"
  sri_link_facts :: "link_fact_values option"

definition bare_item :: "search_result \<Rightarrow> search_response_item" where
  "bare_item r = \<lparr>sri_entity_type = sr_entity_type r, sri_entity_id = sr_entity_id r, sri_rank = sr_rank r,
     sri_quality_score = sr_quality_score r, sri_feed_guid = None, sri_href = None, sri_title = None, sri_feed_title = None,
     sri_track_image_url = None, sri_feed_image_url = None, sri_pub_date = None, sri_release_artist = None,
     sri_release_artist_source = None, sri_episode_count = None, sri_track_artist = None, sri_duration_secs = None,
     sri_link_facts = None\<rparr>"

definition with_feed_summary :: "query_env \<Rightarrow> db \<Rightarrow> search_response_item \<Rightarrow> search_response_item" where
  "with_feed_summary qe s item = (case lookup_by fe_feed_guid (t_feeds s) (sri_entity_id item) of None \<Rightarrow> item
     | Some f \<Rightarrow> item\<lparr>sri_title := Some (fe_title f), sri_feed_image_url := web_url qe (fe_image_url f),
         sri_release_artist := fe_release_artist f, sri_release_artist_source := fe_release_artist_source f,
         sri_episode_count := Some (fe_episode_count f)\<rparr>)"

definition with_track_summary :: "query_env \<Rightarrow> db \<Rightarrow> string \<Rightarrow> search_response_item \<Rightarrow> search_response_item" where
  "with_track_summary qe s feed_guid item = (case get_track_row_for_feed s feed_guid (sri_entity_id item) of None \<Rightarrow> item
     | Some (t, f) \<Rightarrow> item\<lparr>sri_title := Some (tr_title t), sri_feed_title := Some (case f of None \<Rightarrow> [] | Some x \<Rightarrow> fe_title x),
         sri_track_image_url := web_url qe (tr_image_url t), sri_feed_image_url := web_url qe (feed_image (t, f)),
         sri_pub_date := tr_pub_date t, sri_track_artist := tr_track_artist t, sri_duration_secs := tr_duration_secs t\<rparr>)"

definition canonical_track_href :: "string \<Rightarrow> string \<Rightarrow> string" where
  "canonical_track_href feed_guid track_guid = ''/v1/feeds/'' @ feed_guid @ ''/tracks/'' @ track_guid"

definition search_item :: "query_env \<Rightarrow> search_engine \<Rightarrow> db \<Rightarrow> bool \<Rightarrow> search_result \<Rightarrow> search_response_item" where
  "search_item qe sx s include_link_facts r =
     (if sr_entity_type r = ''track''
      then (case sx_track_parts sx (sr_entity_id r) of None \<Rightarrow> bare_item r
        | Some (feed_guid, track_guid) \<Rightarrow> with_track_summary qe s feed_guid ((bare_item r)\<lparr>sri_entity_id := track_guid,
            sri_feed_guid := Some feed_guid, sri_href := Some (canonical_track_href feed_guid track_guid)\<rparr>))
      else (with_feed_summary qe s (bare_item r))\<lparr>sri_link_facts :=
        (if include_link_facts \<and> sr_entity_type r = ''publisher'' then Some (link_facts qe (load_publisher qe s (sr_entity_id r))) else None)\<rparr>)"

definition request_includes :: "search_request \<Rightarrow> string \<Rightarrow> bool" where
  "request_includes rq field = (case rq_include rq of None \<Rightarrow> False
     | Some t \<Rightarrow> list_ex (\<lambda>f. trim f = field) (split_on CHR '','' t))"

definition search_page :: "query_env \<Rightarrow> search_engine \<Rightarrow> db \<Rightarrow> search_request \<Rightarrow> api_error + search_response_item list query_response" where
  "search_page qe sx s rq =
     (let limit = nat (clamp_limit SEARCH_LIMIT_MAX (limit_or 20 (rq_limit rq)));
          by_date = (fts5_query_from_words (rq_q rq) = [])
      in rbind (parse_optional (parse_search_cursor qe by_date) (rq_cursor rq)) (\<lambda>p.
         rbind (found_rows sx s rq by_date (Suc limit) p) (\<lambda>results.
         let has_more = length results > limit;
             next_cursor = (if has_more then Some (position_text qe by_date (results ! (limit - 1))) else None)
         in Inr \<lparr>qr_data = map (\<lambda>r. search_item qe sx s (request_includes rq ''link_facts'') (dsr_result r)) (take limit results),
              qr_pagination = \<lparr>pg_cursor = next_cursor, pg_has_more = has_more\<rparr>\<rparr>)))"

definition handle_search ::
  "query_env \<Rightarrow> search_engine \<Rightarrow> db \<Rightarrow> (string \<times> string) list \<Rightarrow> search_rejection + search_response_item list query_response" where
  "handle_search qe sx s pairs = rbind (parse_search_request qe sx pairs) (\<lambda>rq.
     case search_page qe sx s rq of Inl e \<Rightarrow> Inl (Plain e) | Inr r \<Rightarrow> Inr r)"

end
