(* ===== verification/Paging.thy ===== *)
theory Paging
  imports Names "HOL-Library.Sublist"
begin

text \<open>
  Following the cursors of a list: each list of \<^verbatim>\<open>src/query.rs\<close> gives its rows exactly once, in its
  order, and ends. One locale states the law of a page, and each list is an interpretation of it.
\<close>

section \<open>Following cursors\<close>

text \<open>
  A client asks for a page and goes on with the cursor it got, at most \<open>n\<close> times. \<open>None\<close> is an error,
  or that there still was a cursor after \<open>n\<close> pages.
\<close>

fun follow :: "nat \<Rightarrow> (string option \<Rightarrow> 'e + 'x list query_response) \<Rightarrow> string option \<Rightarrow> 'x list list option" where
  "follow 0 ask c = None"
| "follow (Suc n) ask c = (case ask c of Inl e \<Rightarrow> None
     | Inr r \<Rightarrow> (case pg_cursor (qr_pagination r) of None \<Rightarrow> Some [qr_data r]
         | Some c' \<Rightarrow> map_option (\<lambda>pages. qr_data r # pages) (follow n ask (Some c'))))"

text \<open>
  The law of a list: a page after a row shows the kept rows of a first part of the rows after it; it
  gives the cursor of the last row of that part, or no cursor when no kept row is left.
\<close>

definition page_law ::
  "('r \<Rightarrow> bool) \<Rightarrow> ('r \<Rightarrow> 'x) \<Rightarrow> ('r \<Rightarrow> string) \<Rightarrow> 'r list \<Rightarrow> 'x list query_response \<Rightarrow> bool" where
  "page_law keep shown pos rest r \<longleftrightarrow>
     (\<exists>n \<le> length rest. qr_data r = map shown (filter keep (take n rest))
       \<and> (case pg_cursor (qr_pagination r) of
            None \<Rightarrow> filter keep (drop n rest) = [] \<and> \<not> pg_has_more (qr_pagination r)
          | Some c \<Rightarrow> 0 < n \<and> c = pos (rest ! (n - 1)) \<and> pg_has_more (qr_pagination r)))"

locale cursor_list =
  fixes ok :: "'d \<Rightarrow> bool"
    and ask :: "'d \<Rightarrow> string option \<Rightarrow> 'e + 'x list query_response"
    and rows :: "'d \<Rightarrow> 'r list"
    and keep :: "'d \<Rightarrow> 'r \<Rightarrow> bool"
    and shown :: "'d \<Rightarrow> 'r \<Rightarrow> 'x"
    and pos :: "'d \<Rightarrow> 'r \<Rightarrow> string"
  assumes first: "ok d \<Longrightarrow> \<exists>r. ask d None = Inr r \<and> page_law (keep d) (shown d) (pos d) (rows d) r"
    and later: "ok d \<Longrightarrow> rows d = before @ row # rest
      \<Longrightarrow> \<exists>r. ask d (Some (pos d row)) = Inr r \<and> page_law (keep d) (shown d) (pos d) rest r"
begin

lemma followed:
  assumes "ok d" "rows d = before @ rest" "length rest < n" "\<exists>r. ask d c = Inr r \<and> page_law (keep d) (shown d) (pos d) rest r"
  shows "\<exists>pages. follow n (ask d) c = Some pages \<and> concat pages = map (shown d) (filter (keep d) rest)"
  using assms(2-)
proof (induction n arbitrary: before rest c)
  case (Suc n)
  from Suc.prems(3) obtain r m where r: "ask d c = Inr r" "m \<le> length rest" "qr_data r = map (shown d) (filter (keep d) (take m rest))"
    "case pg_cursor (qr_pagination r) of None \<Rightarrow> filter (keep d) (drop m rest) = [] \<and> \<not> pg_has_more (qr_pagination r)
      | Some c \<Rightarrow> 0 < m \<and> c = pos d (rest ! (m - 1)) \<and> pg_has_more (qr_pagination r)"
    by (auto simp: page_law_def)
  have split: "filter (keep d) rest = filter (keep d) (take m rest) @ filter (keep d) (drop m rest)"
    by (simp flip: filter_append)
  show ?case
  proof (cases "pg_cursor (qr_pagination r)")
    case None
    with r split show ?thesis by simp
  next
    case (Some c')
    with r have m: "0 < m" "c' = pos d (rest ! (m - 1))" by auto
    have parts: "rows d = (before @ take (m - 1) rest) @ rest ! (m - 1) # drop m rest"
      using m(1) r(2) Suc.prems(1) id_take_nth_drop [of "m - 1" rest] by simp
    have "\<exists>pages. follow n (ask d) (Some c') = Some pages \<and> concat pages = map (shown d) (filter (keep d) (drop m rest))"
    proof (rule Suc.IH)
      show "rows d = (before @ take m rest) @ drop m rest" using Suc.prems(1) by simp
      show "length (drop m rest) < n" using m(1) r(2) Suc.prems(2) by simp
      show "\<exists>r. ask d (Some c') = Inr r \<and> page_law (keep d) (shown d) (pos d) (drop m rest) r"
        using later [OF assms(1) parts] m(2) by simp
    qed
    with r split Some show ?thesis by auto
  qed
qed simp

theorem all_pages:
  "ok d \<Longrightarrow> length (rows d) < n
    \<Longrightarrow> \<exists>pages. follow n (ask d) None = Some pages \<and> concat pages = map (shown d) (filter (keep d) (rows d))"
  using followed [of d "[]" "rows d" n None] first by simp

end

section \<open>Coding of cursors\<close>

definition cursors_ok :: "query_env \<Rightarrow> bool" where
  "cursors_ok qe \<longleftrightarrow> (\<forall>t. qe_decode qe (qe_encode qe t) = Some t)"

text \<open>A text that a Rust string can hold and that has no NUL byte.\<close>

definition text_ok :: "string \<Rightarrow> bool" where
  "text_ok t \<longleftrightarrow> utf8_valid t \<and> NUL \<notin> set t"

lemma utf8_valid_append: "utf8_valid a \<Longrightarrow> utf8_valid (a @ b) = utf8_valid b"
proof (induction a rule: utf8_valid.induct)
  case (2 a s)
  show ?case
  proof (cases "byte a < 128")
    case True
    with 2 show ?thesis by simp
  next
    case False
    with "2.prems" obtain x s1 where s: "s = x # s1" by (cases s) auto
    show ?thesis
    proof (cases "0xC2 \<le> byte a \<and> byte a \<le> 0xDF")
      case True
      with 2 False s show ?thesis by simp
    next
      case not2: False
      with "2.prems" False s obtain y s2 where s1: "s1 = y # s2" by (cases s1) auto
      show ?thesis
      proof (cases "0xE0 \<le> byte a \<and> byte a \<le> 0xEF")
        case True
        with 2 False not2 s s1 show ?thesis by simp
      next
        case not3: False
        with "2.prems" False not2 s s1 obtain z s3 where "s2 = z # s3" by (cases s2) auto
        with 2 False not2 not3 s s1 show ?thesis by simp
      qed
    qed
  qed
qed simp

lemma utf8_valid_ascii: "list_all (\<lambda>c. byte c < 128) a \<Longrightarrow> utf8_valid a"
  by (induction a) simp_all

lemma split_once_NUL: "NUL \<notin> set a \<Longrightarrow> split_once [NUL] (a @ NUL # b) = Some (a, b)"
  by (induction a) (auto simp: starts_with_def)

lemma cursor_parts:
  assumes "cursors_ok qe" "text_ok a" "utf8_valid b"
  shows "decode_cursor qe (encode_cursor qe (cursor_text a b)) = Inr (cursor_text a b)"
    and "split_cursor (cursor_text a b) = Inr (a, b)"
proof -
  have "utf8_valid (cursor_text a b)"
    using assms(2,3) by (simp add: cursor_text_def text_ok_def utf8_valid_append NUL_def)
  then show "decode_cursor qe (encode_cursor qe (cursor_text a b)) = Inr (cursor_text a b)"
    using assms(1) by (simp add: decode_cursor_def encode_cursor_def cursors_ok_def)
  show "split_cursor (cursor_text a b) = Inr (a, b)"
    using assms(2) by (simp add: split_cursor_def cursor_text_def text_ok_def split_once_NUL)
qed

lemma parse_by_name_encoded:
  "cursors_ok qe \<Longrightarrow> text_ok a \<Longrightarrow> utf8_valid b \<Longrightarrow> parse_by_name_cursor qe (encode_cursor qe (cursor_text a b)) = Inr (a, b)"
  by (simp add: parse_by_name_cursor_def cursor_parts)

section \<open>Numbers in a cursor\<close>

lemma digits_of_show_nat: "list_all is_ascii_digit (show_nat n) \<and> show_nat n \<noteq> []"
proof (induction n rule: show_nat.induct)
  case (1 n)
  have digit: "m < 10 \<Longrightarrow> is_ascii_digit (char_of (48 + m))" for m :: nat
    by (simp add: is_ascii_digit_def)
  show ?case
  proof (cases "n < 10")
    case True
    then show ?thesis using digit by (simp add: show_nat.simps [of n])
  next
    case False
    then show ?thesis using 1 digit [of "n mod 10"] by (simp add: show_nat.simps [of n])
  qed
qed

lemma value_of_show_nat: "foldl (\<lambda>n c. n * 10 + int (byte c - 48)) 0 (show_nat n) = int n"
proof (induction n rule: show_nat.induct)
  case (1 n)
  have digit: "m < 10 \<Longrightarrow> byte (char_of (48 + m)) - 48 = m" for m :: nat by (simp add:)
  show ?case
  proof (cases "n < 10")
    case True
    then show ?thesis using digit by (simp add: show_nat.simps [of n])
  next
    case False
    then show ?thesis using 1 digit [of "n mod 10"] by (simp add: show_nat.simps [of n] zdiv_int zmod_int)
  qed
qed

lemma digits_value_show: "digits_value (show_nat n) = Some (int n)"
  using digits_of_show_nat [of n] value_of_show_nat [of n] by (simp add: digits_value_def)

lemma show_nat_start: "show_nat n \<noteq> [] \<and> hd (show_nat n) \<noteq> CHR ''-'' \<and> hd (show_nat n) \<noteq> CHR ''+''"
  using digits_of_show_nat [of n] by (cases "show_nat n") (auto simp: is_ascii_digit_def)

lemma parse_show_int: "is_i64 i \<Longrightarrow> parse_i64 (show_int i) = Some i"
proof -
  assume i: "is_i64 i"
  show "parse_i64 (show_int i) = Some i"
  proof (cases "i < 0")
    case True
    with i show ?thesis by (simp add: parse_i64_def show_int_def digits_value_show in_i64_def)
  next
    case False
    with i show_nat_start [of "nat i"] digits_value_show [of "nat i"] show ?thesis
      by (cases "show_nat (nat i)") (auto simp: parse_i64_def show_int_def in_i64_def)
  qed
qed

lemma show_int_ascii: "c \<in> set (show_int i) \<Longrightarrow> byte c < 128 \<and> c \<noteq> NUL"
proof -
  have nat: "c \<in> set (show_nat n) \<Longrightarrow> is_ascii_digit c" for c n using digits_of_show_nat [of n] by (simp add: list_all_iff)
  assume "c \<in> set (show_int i)"
  then show ?thesis
    by (auto simp: show_int_def NUL_def split: if_splits dest!: nat) (auto simp: is_ascii_digit_def)
qed

lemma show_int_text: "text_ok (show_int i)"
  using show_int_ascii by (auto simp: text_ok_def list_all_iff intro!: utf8_valid_ascii)

lemma parse_recent_encoded:
  "cursors_ok qe \<Longrightarrow> is_i64 (fst c) \<Longrightarrow> utf8_valid (snd c) \<Longrightarrow> parse_recent_cursor qe (recent_cursor_text qe c) = Inr c"
  by (simp add: parse_recent_cursor_def recent_cursor_text_def cursor_parts [OF _ show_int_text] parse_show_int)

end
