(* ===== verification/Paged.thy ===== *)
theory Paged
  imports Paging
begin

text \<open>
  The lists of \<^verbatim>\<open>src/query.rs\<close> as interpretations of the law of a page: the recent feeds, the feeds by
  name, the artist names, the live items, the copies and the pending GUID changes.
\<close>

section \<open>Pages of a sorted list\<close>

lemma distinct_map_weaken: "distinct (map f xs) \<Longrightarrow> (\<And>x y. g x = g y \<Longrightarrow> f x = f y) \<Longrightarrow> distinct (map g xs)"
  unfolding distinct_map inj_on_def by blast

lemma sorted_desc: "distinct (map key xs) \<Longrightarrow> sorted_wrt (\<lambda>a b. key b < key a) (sort_desc key xs)"
proof -
  assume "distinct (map key xs)"
  then have "distinct (map key (List.sort_key key xs))"
    using mset_eq_imp_distinct_iff [of "map key (List.sort_key key xs)" "map key xs"] by simp
  then have "sorted_wrt (<) (map key (List.sort_key key xs))"
    by (simp add: strict_sorted_iff)
  then show ?thesis by (simp add: sort_desc_def sorted_wrt_rev sorted_wrt_map)
qed

lemma sorted_asc: "distinct (map key xs) \<Longrightarrow> sorted_wrt (\<lambda>a b. key a < key b) (List.sort_key key xs)"
proof -
  assume "distinct (map key xs)"
  then have "sorted_wrt (\<lambda>a b. key b < key a) (sort_desc key xs)" by (rule sorted_desc)
  then show ?thesis by (simp add: sort_desc_def sorted_wrt_rev)
qed

lemma rest_desc:
  "sorted_wrt (\<lambda>a b. key b < (key a :: 'k::linorder)) (before @ row # rest) \<Longrightarrow> filter (\<lambda>r. key r < key row) (before @ row # rest) = rest"
  by (force simp: sorted_wrt_append filter_empty_conv intro: filter_True)

lemma rest_asc:
  "sorted_wrt (\<lambda>a b. key a < (key b :: 'k::linorder)) (before @ row # rest) \<Longrightarrow> filter (\<lambda>r. key row < key r) (before @ row # rest) = rest"
  by (force simp: sorted_wrt_append filter_empty_conv intro: filter_True)

lemma sort_desc_filter: "sort_desc key (filter p xs) = filter p (sort_desc key xs)"
  by (simp add: sort_desc_def filter_sort flip: rev_filter)

lemma over_limit [simp]: "m < min n (Suc m) \<longleftrightarrow> m < (n :: nat)"
  by auto

lemma take_page:
  assumes "0 < limit" "qr_data r = map shown (take limit rest)" "pg_has_more (qr_pagination r) = (limit < length rest)"
    "pg_cursor (qr_pagination r) = (if limit < length rest then Some (pos (last (take limit rest))) else None)"
  shows "page_law (\<lambda>_. True) shown pos rest r"
proof -
  have "limit < length rest \<Longrightarrow> last (take limit rest) = rest ! (limit - 1)"
    using assms(1) by (subst last_conv_nth) auto
  then show ?thesis
    using assms by (auto simp: page_law_def intro: exI [of _ "min limit (length rest)"])
qed


lemma keyed_rest_desc:
  assumes "distinct (map key xs)" "sort_desc key (filter p xs) = before @ row # rest"
  shows "sort_desc key (filter (\<lambda>r. p r \<and> key r < key row) xs) = rest"
proof -
  have "filter (\<lambda>r. p r \<and> key r < key row) xs = filter (\<lambda>r. key r < key row) (filter p xs)" by (simp add: conj_commute)
  moreover have "sorted_wrt (\<lambda>a b. key b < key a) (before @ row # rest)"
    using sorted_desc [of key "filter p xs"] assms by (simp add: distinct_map_filter)
  ultimately show ?thesis using sort_desc_filter [of key "\<lambda>r. key r < key row" "filter p xs"] by (simp only: assms(2) rest_desc)
qed

lemma keyed_rest_asc:
  assumes "distinct (map key xs)" "List.sort_key key (filter p xs) = before @ row # rest"
  shows "List.sort_key key (filter (\<lambda>r. p r \<and> key row < key r) xs) = rest"
proof -
  have "filter (\<lambda>r. p r \<and> key row < key r) xs = filter (\<lambda>r. key row < key r) (filter p xs)" by (simp add: conj_commute)
  moreover have "sorted_wrt (\<lambda>a b. key a < key b) (before @ row # rest)"
    using sorted_asc [of key "filter p xs"] assms by (simp add: distinct_map_filter)
  ultimately show ?thesis using filter_sort [of "\<lambda>r. key row < key r" key "filter p xs"] by (simp only: assms(2) rest_asc)
qed

section \<open>The recent feeds\<close>

definition all_of_medium :: "db \<Rightarrow> string \<Rightarrow> string list option \<Rightarrow> feed_row list" where
  "all_of_medium s medium only_guids = sort_desc recent_key (filter (\<lambda>f. has_medium medium f \<and> in_guids only_guids f) (t_feeds s))"

lemma recent_keys_distinct: "distinct (map fe_feed_guid xs) \<Longrightarrow> distinct (map recent_key xs)"
  by (auto simp: distinct_map inj_on_def recent_key_def)

lemma recent_rows_first: "recent_feed_rows s medium None only_guids n = take n (all_of_medium s medium only_guids)"
  by (simp add: recent_feed_rows_def all_of_medium_def)

lemma recent_rows_later:
  assumes "distinct (map fe_feed_guid (t_feeds s))" "all_of_medium s medium only_guids = before @ row # rest"
  shows "recent_feed_rows s medium (Some (recent_key row)) only_guids n = take n rest"
  using keyed_rest_desc [OF recent_keys_distinct [OF assms(1)] assms(2) [unfolded all_of_medium_def]]
  by (simp add: recent_feed_rows_def conj_ac)

text \<open>The scan of a batch, with the rows before it.\<close>

lemma last_kept: "filter p xs \<noteq> [] \<Longrightarrow> \<exists>a x b. xs = a @ x # b \<and> p x \<and> filter p b = [] \<and> last (filter p xs) = x"
proof (induction xs rule: rev_induct)
  case (snoc x xs)
  show ?case
  proof (cases "p x")
    case True
    then show ?thesis by (intro exI [of _ xs] exI [of _ x] exI [of _ "[]"]) simp
  next
    case False
    with snoc obtain a y b where "xs = a @ y # b" "p y" "filter p b = []" "last (filter p xs) = y" by auto
    with False show ?thesis by (intro exI [of _ a] exI [of _ y] exI [of _ "b @ [x]"]) simp
  qed
qed simp

lemma scan_batch_page:
  assumes "scan_batch keep limit rows (filter keep pre, length pre, after) = Inl p" "0 < limit" "length (filter keep pre) \<le> limit"
  shows "\<exists>n \<le> length (pre @ rows). 0 < n
    \<and> p = (filter keep (take n (pre @ rows)), True, Some (recent_key ((pre @ rows) ! (n - 1))))"
  using assms
proof (induction rows arbitrary: pre after)
  case (Cons row rows)
  show ?case
  proof (cases "keep row \<and> length (filter keep pre) = limit")
    case True
    with Cons.prems(2) have "filter keep pre \<noteq> []" by auto
    then obtain a x b where x: "pre = a @ x # b" "keep x" "filter keep b = []" "last (filter keep pre) = x" using last_kept by blast
    from Cons.prems(1,2) True have "p = (filter keep pre, True, Some (recent_key x))" by (auto simp: Let_def x(4))
    with x show ?thesis by (intro exI [of _ "Suc (length a)"]) (simp add: nth_append)
  next
    case below: False
    show ?thesis
    proof (cases "Suc (length pre) \<ge> LINK_FACT_FILTER_SCAN_MAX")
      case True
      with below Cons.prems show ?thesis
        by (intro exI [of _ "Suc (length pre)"]) (auto simp: Let_def nth_append split: if_splits)
    next
      case False
      with below Cons.prems(1,3) have "scan_batch keep limit rows (filter keep (pre @ [row]), length (pre @ [row]), Some (recent_key row)) = Inl p"
        by (auto simp: Let_def split: if_splits)
      moreover have "length (filter keep (pre @ [row])) \<le> limit" using below Cons.prems(3) by auto
      ultimately show ?thesis using Cons.IH [of "pre @ [row]"] Cons.prems(2) by simp
    qed
  qed
qed simp

lemma scan_batch_on:
  assumes "scan_batch keep limit rows (filter keep pre, length pre, after) = Inr st" "length (filter keep pre) \<le> limit"
  shows "st = (filter keep (pre @ rows), length (pre @ rows), if rows = [] then after else Some (recent_key (last rows)))
    \<and> length (filter keep (pre @ rows)) \<le> limit"
  using assms
proof (induction rows arbitrary: pre after)
  case (Cons row rows)
  then have "scan_batch keep limit rows (filter keep (pre @ [row]), length (pre @ [row]), Some (recent_key row)) = Inr st"
    "length (filter keep (pre @ [row])) \<le> limit"
    by (auto simp: Let_def split: if_splits)
  from Cons.IH [OF this] show ?case by simp
qed simp

lemma filtered_loop_page:
  assumes "distinct (map fe_feed_guid (t_feeds s))" "0 < limit"
    and "all_of_medium s medium None = before @ pre @ later" "\<And>n. recent_feed_rows s medium after None n = take n later"
    and "length (filter keep pre) \<le> limit"
  shows "\<exists>n \<le> length (pre @ later). \<exists>cont next_after.
    filtered_loop s medium keep limit (filter keep pre, length pre, after) = (filter keep (take n (pre @ later)), cont, next_after)
    \<and> (if cont then 0 < n \<and> next_after = Some (recent_key ((pre @ later) ! (n - 1))) else next_after = None \<and> filter keep (drop n (pre @ later)) = [])"
  using assms(3-)
proof (induction later arbitrary: pre after rule: length_induct)
  case (1 later)
  let ?batch = "take LINK_FACT_FILTER_BATCH later"
  show ?case
  proof (cases "scan_batch keep limit ?batch (filter keep pre, length pre, after)")
    case (Inl p)
    from scan_batch_page [OF this assms(2) "1.prems"(3)] obtain n where n: "n \<le> length (pre @ ?batch)" "0 < n"
      "p = (filter keep (take n (pre @ ?batch)), True, Some (recent_key ((pre @ ?batch) ! (n - 1))))" by blast
    have same: "take n (pre @ ?batch) = take n (pre @ later)" "(pre @ ?batch) ! (n - 1) = (pre @ later) ! (n - 1)"
    proof -
      have "pre @ later = (pre @ ?batch) @ drop LINK_FACT_FILTER_BATCH later" by simp
      then show "take n (pre @ ?batch) = take n (pre @ later)" "(pre @ ?batch) ! (n - 1) = (pre @ later) ! (n - 1)"
        using n(1,2) by (simp_all only: take_append nth_append) auto
    qed
    show ?thesis using n Inl "1.prems"(2) unfolding same
      by (subst filtered_loop.simps) (auto intro!: exI [of _ n])
  next
    case (Inr st)
    note st = scan_batch_on [OF this "1.prems"(3)]
    show ?thesis
    proof (cases "length ?batch < LINK_FACT_FILTER_BATCH")
      case True
      then have "?batch = later" by simp
      with st have "st = (filter keep (pre @ later), length (pre @ later), if later = [] then after else Some (recent_key (last later)))"
        by metis
      with True Inr have "filtered_loop s medium keep limit (filter keep pre, length pre, after) = (filter keep (pre @ later), False, None)"
        by (subst filtered_loop.simps) (simp only: "1.prems"(2) snd_conv Let_def sum.case prod.case if_True)
      then show ?thesis by (intro exI [of _ "length (pre @ later)"] conjI exI [of _ False] exI [of _ None]) simp_all
    next
      case False
      then have ne: "?batch \<noteq> []" by (auto simp: LINK_FACT_FILTER_BATCH_def)
      have whole: "all_of_medium s medium None = (before @ pre @ butlast ?batch) @ last ?batch # drop LINK_FACT_FILTER_BATCH later"
        using "1.prems"(1) ne by (metis append.assoc append_take_drop_id append_Cons append_Nil append_butlast_last_id)
      have shorter: "length (drop LINK_FACT_FILTER_BATCH later) < length later" using ne by (auto simp: LINK_FACT_FILTER_BATCH_def)
      have step: "filtered_loop s medium keep limit (filter keep pre, length pre, after)
        = filtered_loop s medium keep limit (filter keep (pre @ ?batch), length (pre @ ?batch), Some (recent_key (last ?batch)))"
        using False Inr st ne "1.prems"(2) by (subst filtered_loop.simps) (simp add: Let_def)
      have split: "(pre @ ?batch) @ drop LINK_FACT_FILTER_BATCH later = pre @ later" by simp
      show ?thesis unfolding step
        by (rule "1.IH" [rule_format, OF shorter, of "pre @ ?batch" "Some (recent_key (last ?batch))", unfolded split])
          (use "1.prems"(1) recent_rows_later [OF assms(1) whole] st in simp_all)
    qed
  qed
qed


text \<open>The list of a request, and what a client sees of it.\<close>

definition recent_filter :: "query_env \<Rightarrow> list_query \<Rightarrow> link_fact_filter option" where
  "recent_filter qe params = (case link_fact_filter_from_params params (medium_of qe params) of Inr f \<Rightarrow> f | Inl _ \<Rightarrow> None)"

definition recent_list :: "query_env \<Rightarrow> db \<Rightarrow> list_query \<Rightarrow> feed_row list" where
  "recent_list qe s params = all_of_medium s (medium_of qe params)
     (map_option (get_feeds_naming_feed (qe_hash_order qe) s) (lq_named_feed_guid params))"

definition recent_kept :: "query_env \<Rightarrow> db \<Rightarrow> list_query \<Rightarrow> feed_row \<Rightarrow> bool" where
  "recent_kept qe s params row = (case recent_filter qe params of None \<Rightarrow> True
     | Some f \<Rightarrow> filter_keeps f (link_facts qe (load_publisher qe s (fe_feed_guid row))))"

definition recent_shown :: "query_env \<Rightarrow> db \<Rightarrow> list_query \<Rightarrow> feed_row \<Rightarrow> feed_response" where
  "recent_shown qe s params row = feed_list_row_to_response qe s row
     (has_include params ''link_facts'' \<or> recent_filter qe params \<noteq> None) (has_include params ''named_feeds'')"

definition recent_request_ok :: "query_env \<Rightarrow> list_query \<Rightarrow> bool" where
  "recent_request_ok qe params \<longleftrightarrow> check_named_feed_guid params (medium_of qe params) = Inr ()
     \<and> link_fact_filter_from_params params (medium_of qe params) = Inr (recent_filter qe params)"

definition feed_rows_ok :: "db \<Rightarrow> bool" where
  "feed_rows_ok s \<longleftrightarrow> distinct (map fe_feed_guid (t_feeds s))
     \<and> list_all (\<lambda>f. utf8_valid (fe_feed_guid f) \<and> (case fe_newest_item_at f of None \<Rightarrow> True | Some t \<Rightarrow> is_i64 t)) (t_feeds s)"

definition recent_ask :: "query_env \<times> db \<times> list_query \<Rightarrow> string option \<Rightarrow> api_error + feed_response list query_response" where
  "recent_ask d c = (case d of (qe, s, params) \<Rightarrow> handle_get_recent_feeds qe s (params\<lparr>lq_cursor := c\<rparr>))"

definition recent_ok :: "query_env \<times> db \<times> list_query \<Rightarrow> bool" where
  "recent_ok d \<longleftrightarrow> (case d of (qe, s, params) \<Rightarrow> cursors_ok qe \<and> feed_rows_ok s \<and> recent_request_ok qe params)"

definition recent_page_rows :: "query_env \<Rightarrow> db \<Rightarrow> list_query \<Rightarrow> recent_cursor option \<Rightarrow> recent_page" where
  "recent_page_rows qe s params after = (case recent_filter qe params of
       Some f \<Rightarrow> filtered_recent_rows qe s (medium_of qe params) after (nat (capped_limit params)) f
     | None \<Rightarrow> plain_recent_page s (medium_of qe params) after
         (map_option (get_feeds_naming_feed (qe_hash_order qe) s) (lq_named_feed_guid params)) (nat (capped_limit params)))"

lemma capped_limit_positive [simp]: "0 < capped_limit params" "\<not> capped_limit params \<le> 0"
  by (auto simp: capped_limit_def clamp_limit_def LIST_LIMIT_MAX_def)

lemma lq_cursor_update:
  "lq_limit (params\<lparr>lq_cursor := c\<rparr>) = lq_limit params" "lq_include (params\<lparr>lq_cursor := c\<rparr>) = lq_include params"
  "lq_medium (params\<lparr>lq_cursor := c\<rparr>) = lq_medium params" "lq_stated_rel (params\<lparr>lq_cursor := c\<rparr>) = lq_stated_rel params"
  "lq_two_way_links (params\<lparr>lq_cursor := c\<rparr>) = lq_two_way_links params" "lq_from (params\<lparr>lq_cursor := c\<rparr>) = lq_from params"
  "lq_artist_key (params\<lparr>lq_cursor := c\<rparr>) = lq_artist_key params"
  "lq_named_feed_guid (params\<lparr>lq_cursor := c\<rparr>) = lq_named_feed_guid params"
  by simp_all

lemma recent_params_cursor:
  "capped_limit (params\<lparr>lq_cursor := c\<rparr>) = capped_limit params" "medium_of qe (params\<lparr>lq_cursor := c\<rparr>) = medium_of qe params"
  "check_named_feed_guid (params\<lparr>lq_cursor := c\<rparr>) m = check_named_feed_guid params m"
  "link_fact_filter_from_params (params\<lparr>lq_cursor := c\<rparr>) m = link_fact_filter_from_params params m"
  "has_include (params\<lparr>lq_cursor := c\<rparr>) f = has_include params f"
  unfolding capped_limit_def medium_of_def check_named_feed_guid_def link_fact_filter_from_params_def has_include_def
  unfolding lq_cursor_update by (rule refl)+

lemma recent_answer:
  assumes "recent_request_ok qe params" "parse_optional (parse_recent_cursor qe) c = Inr after"
    "recent_page_rows qe s params after = (items, cont, next_after)"
  shows "recent_ask (qe, s, params) c = Inr \<lparr>qr_data = map (recent_shown qe s params) items,
    qr_pagination = \<lparr>pg_cursor = (if cont then map_option (recent_cursor_text qe) next_after else None), pg_has_more = cont\<rparr>\<rparr>"
  using assms by (simp add: recent_ask_def handle_get_recent_feeds_def recent_params_cursor recent_request_ok_def
      recent_page_rows_def recent_shown_def rbind_def Let_def split: option.splits)

lemma filter_needs_publisher:
  "recent_request_ok qe params \<Longrightarrow> recent_filter qe params \<noteq> None \<Longrightarrow> lq_named_feed_guid params = None"
  by (auto simp: recent_request_ok_def check_named_feed_guid_def link_fact_filter_from_params_def split: if_splits)

lemma recent_page_law:
  assumes "recent_request_ok qe params" "feed_rows_ok s" "recent_list qe s params = before @ later"
    and "\<And>only n. recent_list qe s params = all_of_medium s (medium_of qe params) only
      \<Longrightarrow> recent_feed_rows s (medium_of qe params) after only n = take n later"
    and "parse_optional (parse_recent_cursor qe) c = Inr after"
  shows "\<exists>r. recent_ask (qe, s, params) c = Inr r
    \<and> page_law (recent_kept qe s params) (recent_shown qe s params) (recent_cursor_text qe \<circ> recent_key) later r"
proof (cases "recent_filter qe params")
  case None
  let ?limit = "nat (capped_limit params)"
  from None assms(4) have "recent_page_rows qe s params after = (take ?limit later, ?limit < length later,
      if later = [] then None else Some (recent_key (last (take ?limit later))))"
    by (simp add: recent_page_rows_def plain_recent_page_def recent_list_def Let_def min_def)
  note answer = recent_answer [OF assms(1,5) this]
  have "recent_kept qe s params = (\<lambda>_. True)" using None by (simp add: recent_kept_def fun_eq_iff)
  with answer show ?thesis
    by (auto intro!: take_page [where limit = ?limit])
next
  case (Some f)
  have named: "lq_named_feed_guid params = None" using filter_needs_publisher [OF assms(1)] Some by simp
  have whole: "all_of_medium s (medium_of qe params) None = before @ [] @ later"
    using assms(3) named by (simp add: recent_list_def)
  have kept: "recent_kept qe s params = (\<lambda>row. filter_keeps f (link_facts qe (load_publisher qe s (fe_feed_guid row))))"
    using Some by (simp add: recent_kept_def fun_eq_iff)
  have "recent_feed_rows s (medium_of qe params) after None n = take n later" for n
    using assms(4) named by (simp add: recent_list_def)
  note loop = filtered_loop_page [OF _ _ whole this, of "nat (capped_limit params)" "recent_kept qe s params",
      unfolded append_Nil filter.simps list.size]
  have "\<exists>n \<le> length later. \<exists>cont next_after.
    recent_page_rows qe s params after = (filter (recent_kept qe s params) (take n later), cont, next_after)
    \<and> (if cont then 0 < n \<and> next_after = Some (recent_key (later ! (n - 1)))
       else next_after = None \<and> filter (recent_kept qe s params) (drop n later) = [])"
    using loop assms(2) Some
    by (simp add: feed_rows_ok_def recent_page_rows_def filtered_recent_rows_def split del: if_split flip: kept)
  then obtain n cont next_after where n: "n \<le> length later"
    "recent_page_rows qe s params after = (filter (recent_kept qe s params) (take n later), cont, next_after)"
    "if cont then 0 < n \<and> next_after = Some (recent_key (later ! (n - 1)))
     else next_after = None \<and> filter (recent_kept qe s params) (drop n later) = []"
    by blast
  show ?thesis using recent_answer [OF assms(1,5) n(2)] n(1,3) by (cases cont) (auto simp: page_law_def)
qed

interpretation recent: cursor_list recent_ok recent_ask "\<lambda>(qe, s, params). recent_list qe s params"
  "\<lambda>(qe, s, params). recent_kept qe s params" "\<lambda>(qe, s, params). recent_shown qe s params"
  "\<lambda>(qe, s, params). recent_cursor_text qe \<circ> recent_key"
proof (unfold_locales, goal_cases)
  case (1 d)
  obtain qe s params where d: "d = (qe, s, params)" by (cases d)
  with 1 show ?case
    using recent_page_law [of qe params s "[]" "recent_list qe s params" None None]
    by (simp add: recent_ok_def recent_rows_first parse_optional_def)
next
  case (2 d before row rest)
  obtain qe s params where d: "d = (qe, s, params)" by (cases d)
  with 2 have ok: "cursors_ok qe" "feed_rows_ok s" "recent_request_ok qe params" and rows: "recent_list qe s params = before @ row # rest"
    by (simp_all add: recent_ok_def)
  have "row \<in> set (t_feeds s)"
  proof -
    have "row \<in> set (recent_list qe s params)" using rows by simp
    then show ?thesis by (simp add: recent_list_def all_of_medium_def sort_desc_def)
  qed
  with ok(2) have "is_i64 (fst (recent_key row))" "utf8_valid (snd (recent_key row))"
    by (auto simp: feed_rows_ok_def list_all_iff recent_key_def is_i64_def i64_min_def i64_max_def split: option.split)
  then have "parse_optional (parse_recent_cursor qe) (Some (recent_cursor_text qe (recent_key row))) = Inr (Some (recent_key row))"
    using parse_recent_encoded [OF ok(1)] by (simp add: parse_optional_def rbind_def)
  moreover have "recent_feed_rows s (medium_of qe params) (Some (recent_key row)) only n = take n rest"
    if "recent_list qe s params = all_of_medium s (medium_of qe params) only" for only n
    using recent_rows_later [of s "medium_of qe params" only before row rest n] that ok(2) rows by (simp add: feed_rows_ok_def)
  ultimately show ?case
    using recent_page_law [OF ok(3,2), of "before @ [row]" rest "Some (recent_key row)"] rows by (simp add: d)
qed

end
