(* ===== verification/Listed.thy ===== *)
theory Listed
  imports Paged
begin

text \<open>
  More lists of \<^verbatim>\<open>src/query.rs\<close> under the law of a page: the feeds by name, the artist names, the
  records with open copies, the pending GUID changes and the live items.
\<close>

section \<open>Feeds by name\<close>

definition by_name_list :: "query_env \<Rightarrow> db \<Rightarrow> string list option \<Rightarrow> list_query \<Rightarrow> feed_row list" where
  "by_name_list qe s only_guids params = List.sort_key name_key (filter (\<lambda>f. has_medium (medium_of qe params) f
     \<and> (case map_option (sort_key (qe_lc qe)) (lq_from params) of None \<Rightarrow> True | Some floor \<Rightarrow> floor \<le> fr_title_sort f)
     \<and> in_guids only_guids f) (t_feeds s))"

definition by_name_shown :: "query_env \<Rightarrow> db \<Rightarrow> list_query \<Rightarrow> feed_row \<Rightarrow> feed_response" where
  "by_name_shown qe s params f = (feed_list_row_to_response qe s f (has_include params ''link_facts'') (has_include params ''named_feeds''))
     \<lparr>fdr_sort_name := Some (fr_title_sort f)\<rparr>"

definition name_cursor :: "query_env \<Rightarrow> feed_row \<Rightarrow> string" where
  "name_cursor qe f = encode_cursor qe (cursor_text (fr_title_sort f) (fe_feed_guid f))"

definition names_text_ok :: "db \<Rightarrow> bool" where
  "names_text_ok s \<longleftrightarrow> list_all (\<lambda>f. text_ok (fr_title_sort f) \<and> utf8_valid (fe_feed_guid f)) (t_feeds s)"

type_synonym by_name_request = "query_env \<times> db \<times> (string \<Rightarrow> string list option) \<times> list_query"

definition by_name_ask :: "by_name_request \<Rightarrow> string option \<Rightarrow> api_error + feed_response list query_response" where
  "by_name_ask d c = (case d of (qe, s, releases, params) \<Rightarrow> handle_get_feeds_by_name qe s releases (params\<lparr>lq_cursor := c\<rparr>))"

definition by_name_rows :: "by_name_request \<Rightarrow> feed_row list" where
  "by_name_rows d = (case d of (qe, s, releases, params) \<Rightarrow>
     by_name_list qe s (case by_name_guids qe s releases (medium_of qe params) params of Inl _ \<Rightarrow> None | Inr g \<Rightarrow> g) params)"

definition by_name_ok :: "by_name_request \<Rightarrow> bool" where
  "by_name_ok d \<longleftrightarrow> (case d of (qe, s, releases, params) \<Rightarrow> cursors_ok qe \<and> distinct (map fe_feed_guid (t_feeds s)) \<and> names_text_ok s
     \<and> check_named_feed_guid params (medium_of qe params) = Inr () \<and> \<not> isl (by_name_guids qe s releases (medium_of qe params) params))"

lemma by_name_params_cursor: "by_name_guids qe s releases m (params\<lparr>lq_cursor := c\<rparr>) = by_name_guids qe s releases m params"
  unfolding by_name_guids_def lq_cursor_update by (rule refl)

lemma name_keys_distinct: "distinct (map fe_feed_guid xs) \<Longrightarrow> distinct (map name_key xs)"
  by (auto simp: distinct_map inj_on_def name_key_def)

lemma by_name_page:
  assumes "by_name_ok (qe, s, releases, params)" "by_name_guids qe s releases (medium_of qe params) params = Inr only"
    and "parse_optional (parse_by_name_cursor qe) c = Inr after"
    and "\<And>n. by_name_feed_rows s (medium_of qe params) after
      (if after = None then map_option (sort_key (qe_lc qe)) (lq_from params) else None) only n = take n rest"
  shows "\<exists>r. by_name_ask (qe, s, releases, params) c = Inr r
    \<and> page_law (\<lambda>_. True) (by_name_shown qe s params) (name_cursor qe) rest r"
proof -
  let ?limit = "nat (capped_limit params)"
  let ?r = "\<lparr>qr_data = map (by_name_shown qe s params) (take ?limit rest),
    qr_pagination = \<lparr>pg_cursor = (if ?limit < length rest then Some (name_cursor qe (last (take ?limit rest))) else None),
      pg_has_more = ?limit < length rest\<rparr>\<rparr>"
  have "by_name_ask (qe, s, releases, params) c = Inr ?r"
    using assms by (auto simp: by_name_ask_def by_name_ok_def handle_get_feeds_by_name_def recent_params_cursor by_name_params_cursor
        lq_cursor_update rbind_def Let_def by_name_shown_def name_cursor_def fun_eq_iff)
  moreover have "page_law (\<lambda>_. True) (by_name_shown qe s params) (name_cursor qe) rest ?r"
    by (rule take_page [where limit = ?limit]) simp_all
  ultimately show ?thesis by blast
qed

lemma by_name_rows_later:
  assumes "distinct (map fe_feed_guid (t_feeds s))" "by_name_list qe s only params = before @ row # rest"
  shows "by_name_feed_rows s (medium_of qe params) (Some (name_key row)) None only n = take n rest"
proof -
  let ?floor = "\<lambda>f. case map_option (sort_key (qe_lc qe)) (lq_from params) of None \<Rightarrow> True | Some x \<Rightarrow> x \<le> fr_title_sort f"
  have "row \<in> set (by_name_list qe s only params)" using assms(2) by simp
  then have floor: "?floor row" by (simp add: by_name_list_def)
  have "?floor f" if "name_key row < name_key f" for f
    using that floor by (auto simp: name_key_def less_prod_def split: option.splits)
  then have "filter (\<lambda>f. (has_medium (medium_of qe params) f \<and> ?floor f \<and> in_guids only f) \<and> name_key row < name_key f) (t_feeds s)
    = filter (\<lambda>f. has_medium (medium_of qe params) f \<and> name_key row < name_key f \<and> in_guids only f) (t_feeds s)"
    by (intro filter_cong) auto
  with keyed_rest_asc [OF name_keys_distinct [OF assms(1)] assms(2) [unfolded by_name_list_def]] show ?thesis
    by (simp add: by_name_feed_rows_def)
qed

interpretation by_name: cursor_list by_name_ok by_name_ask by_name_rows "\<lambda>_ _. True"
  "\<lambda>(qe, s, releases, params). by_name_shown qe s params" "\<lambda>(qe, s, releases, params). name_cursor qe"
proof (unfold_locales, goal_cases)
  case (1 d)
  obtain qe s releases params where d: "d = (qe, s, releases, params)" by (cases d)
  with 1 obtain only where only: "by_name_guids qe s releases (medium_of qe params) params = Inr only"
    by (cases "by_name_guids qe s releases (medium_of qe params) params") (auto simp: by_name_ok_def)
  then have "by_name_feed_rows s (medium_of qe params) None (map_option (sort_key (qe_lc qe)) (lq_from params)) only n = take n (by_name_rows d)" for n
    by (simp add: by_name_feed_rows_def by_name_rows_def by_name_list_def d)
  then show ?case using by_name_page [OF 1 [unfolded d] only, of None None "by_name_rows d"] by (simp add: parse_optional_def d)
next
  case (2 d before row rest)
  obtain qe s releases params where d: "d = (qe, s, releases, params)" by (cases d)
  with 2(1) obtain only where only: "by_name_guids qe s releases (medium_of qe params) params = Inr only"
    by (cases "by_name_guids qe s releases (medium_of qe params) params") (auto simp: by_name_ok_def)
  have rows: "by_name_list qe s only params = before @ row # rest" using 2(2) only by (simp add: d by_name_rows_def)
  have "row \<in> set (by_name_list qe s only params)" using rows by simp
  then have "text_ok (fr_title_sort row)" "utf8_valid (fe_feed_guid row)"
    using 2(1) by (auto simp: d by_name_list_def by_name_ok_def names_text_ok_def list_all_iff)
  then have "parse_optional (parse_by_name_cursor qe) (Some (name_cursor qe row)) = Inr (Some (name_key row))"
    using 2(1) parse_by_name_encoded [of qe "fr_title_sort row" "fe_feed_guid row"]
    by (simp add: d by_name_ok_def parse_optional_def name_cursor_def name_key_def rbind_def)
  from by_name_page [OF 2(1) [unfolded d] only this, of rest] by_name_rows_later [OF _ rows] 2(1)
  show ?case by (simp add: d by_name_ok_def)
qed


section \<open>Records with open copies and pending GUID changes\<close>

lemma rest_after_first:
  "sorted_wrt (\<lambda>a b. key b < key a) (before @ row # rest) \<Longrightarrow> rest_after key (Some (key row)) (before @ row # rest) = rest"
proof -
  assume sorted: "sorted_wrt (\<lambda>a b. key b < key a) (before @ row # rest)"
  have skip: "index_of p (xs @ ys) = map_option ((+) (length xs)) (index_of p ys)" if "filter p xs = []" for p :: "'a \<Rightarrow> bool" and xs ys
    using that by (cases "index_of p ys"; induction xs) (auto split: if_splits)
  have "filter (\<lambda>r. key r < key row) (before @ [row]) = []"
    using sorted by (auto simp: sorted_wrt_append filter_empty_conv)
  from skip [OF this, of rest] show ?thesis
    using sorted by (cases rest) (auto simp: rest_after_def sorted_wrt_append)
qed

definition keyed_cursor :: "query_env \<Rightarrow> ('r \<Rightarrow> int \<times> string) \<Rightarrow> 'r \<Rightarrow> string" where
  "keyed_cursor qe key r = recent_cursor_text qe (key r)"

lemma keyed_page_law:
  assumes "cursors_ok qe" "sorted_wrt (\<lambda>a b. key b < key a) records"
    and "list_all (\<lambda>r. is_i64 (fst (key r)) \<and> utf8_valid (snd (key r))) records"
  shows "\<exists>r. keyed_page qe key records (params\<lparr>lq_cursor := None\<rparr>) = Inr r
      \<and> page_law (\<lambda>_. True) (\<lambda>r. r) (keyed_cursor qe key) records r"
    and "records = before @ row # rest \<Longrightarrow> \<exists>r. keyed_page qe key records (params\<lparr>lq_cursor := Some (keyed_cursor qe key row)\<rparr>) = Inr r
      \<and> page_law (\<lambda>_. True) (\<lambda>r. r) (keyed_cursor qe key) rest r"
proof -
  let ?limit = "nat (min (capped_limit params) SEARCH_LIMIT_MAX)"
  have pos: "0 < ?limit" by (simp add: SEARCH_LIMIT_MAX_def)
  have page: "\<exists>r. keyed_page qe key records (params\<lparr>lq_cursor := c\<rparr>) = Inr r \<and> page_law (\<lambda>_. True) (\<lambda>r. r) (keyed_cursor qe key) rest r"
    if "parse_optional (parse_recent_cursor qe) c = Inr after" "rest_after key after records = rest" for c after rest
  proof -
    let ?r = "\<lparr>qr_data = take ?limit rest, qr_pagination =
      \<lparr>pg_cursor = (if ?limit < length rest then Some (keyed_cursor qe key (last (take ?limit rest))) else None),
       pg_has_more = ?limit < length rest\<rparr>\<rparr>"
    have "keyed_page qe key records (params\<lparr>lq_cursor := c\<rparr>) = Inr ?r"
      using that pos by (auto simp: keyed_page_def recent_params_cursor rbind_def Let_def keyed_cursor_def)
    moreover have "page_law (\<lambda>_. True) (\<lambda>r. r) (keyed_cursor qe key) rest ?r"
      by (rule take_page [OF pos]) simp_all
    ultimately show ?thesis by blast
  qed
  show "\<exists>r. keyed_page qe key records (params\<lparr>lq_cursor := None\<rparr>) = Inr r
      \<and> page_law (\<lambda>_. True) (\<lambda>r. r) (keyed_cursor qe key) records r"
    by (rule page [where after = None]) (simp_all add: parse_optional_def rest_after_def)
  show "\<exists>r. keyed_page qe key records (params\<lparr>lq_cursor := Some (keyed_cursor qe key row)\<rparr>) = Inr r
      \<and> page_law (\<lambda>_. True) (\<lambda>r. r) (keyed_cursor qe key) rest r" if "records = before @ row # rest"
  proof (rule page)
    show "parse_optional (parse_recent_cursor qe) (Some (keyed_cursor qe key row)) = Inr (Some (key row))"
      using assms(1,3) that parse_recent_encoded [of qe "key row"] by (simp add: parse_optional_def keyed_cursor_def rbind_def)
    show "rest_after key (Some (key row)) records = rest" using rest_after_first assms(2) unfolding that .
  qed
qed

text \<open>The records of the two lists have keys of their own, with a cursor that can be read back.\<close>

definition copy_list_ok :: "query_env \<times> db \<times> list_query \<Rightarrow> bool" where
  "copy_list_ok d \<longleftrightarrow> (case d of (qe, s, params) \<Rightarrow> cursors_ok qe \<and> distinct (map crr_feed_guid (copy_records qe s))
     \<and> list_all (\<lambda>r. is_i64 (fst (copy_record_sort_key r)) \<and> utf8_valid (crr_feed_guid r)) (copy_records qe s))"

definition copy_list_ask :: "query_env \<times> db \<times> list_query \<Rightarrow> string option \<Rightarrow> api_error + copy_record_response list query_response" where
  "copy_list_ask d c = (case d of (qe, s, params) \<Rightarrow> handle_list_copy_records qe s (params\<lparr>lq_cursor := c\<rparr>))"

definition guid_changes :: "db \<Rightarrow> guid_change_response list" where
  "guid_changes s = sort_desc guid_change_sort_key (map guid_change_response_of (list_guid_changes s))"

definition guid_list_ok :: "query_env \<times> db \<times> list_query \<Rightarrow> bool" where
  "guid_list_ok d \<longleftrightarrow> (case d of (qe, s, params) \<Rightarrow> cursors_ok qe \<and> distinct (map gc_source_url (list_guid_changes s))
     \<and> list_all (\<lambda>r. is_i64 (gc_first_seen r) \<and> utf8_valid (gc_source_url r)) (list_guid_changes s))"

definition guid_list_ask :: "query_env \<times> db \<times> list_query \<Rightarrow> string option \<Rightarrow> api_error + guid_change_response list query_response" where
  "guid_list_ask d c = (case d of (qe, s, params) \<Rightarrow> handle_list_guid_changes qe s (params\<lparr>lq_cursor := c\<rparr>))"

lemma resorted_desc:
  assumes "distinct (map key xs)" "xs = sort_desc key ys"
  shows "sorted_wrt (\<lambda>a b. key b < key a) xs"
proof -
  have "mset (map key xs) = mset (map key ys)" using assms(2) by (simp add: sort_desc_def)
  then have "distinct (map key ys)" using assms(1) mset_eq_imp_distinct_iff by blast
  then show ?thesis unfolding assms(2) by (rule sorted_desc)
qed

lemma copy_records_sorted:
  assumes "distinct (map crr_feed_guid (copy_records qe s))"
  shows "sorted_wrt (\<lambda>a b. copy_record_sort_key b < copy_record_sort_key a) (copy_records qe s)"
proof (rule resorted_desc [OF _ copy_records_def])
  show "distinct (map copy_record_sort_key (copy_records qe s))"
    using assms by (auto simp: distinct_map inj_on_def copy_record_sort_key_def)
qed

lemma guid_changes_sorted:
  assumes "distinct (map gc_source_url (list_guid_changes s))"
  shows "sorted_wrt (\<lambda>a b. guid_change_sort_key b < guid_change_sort_key a) (guid_changes s)"
proof -
  have "distinct (map guid_change_sort_key (map guid_change_response_of (list_guid_changes s)))"
    using assms by (auto simp: distinct_map inj_on_def guid_change_sort_key_def guid_change_response_of_def)
  then show ?thesis unfolding guid_changes_def by (rule sorted_desc)
qed

interpretation copy_list: cursor_list copy_list_ok copy_list_ask "\<lambda>(qe, s, params). copy_records qe s" "\<lambda>_ _. True" "\<lambda>_ r. r"
  "\<lambda>(qe, s, params). keyed_cursor qe copy_record_sort_key"
proof (unfold_locales, goal_cases)
  case (1 d)
  obtain qe s params where d: "d = (qe, s, params)" by (cases d)
  have ok: "cursors_ok qe" "distinct (map crr_feed_guid (copy_records qe s))"
    "list_all (\<lambda>r. is_i64 (fst (copy_record_sort_key r)) \<and> utf8_valid (snd (copy_record_sort_key r))) (copy_records qe s)"
    using 1 by (auto simp: d copy_list_ok_def copy_record_sort_key_def)
  from keyed_page_law(1) [OF ok(1) copy_records_sorted [OF ok(2)] ok(3), of params] show ?case
    by (simp add: d copy_list_ask_def handle_list_copy_records_def)
next
  case (2 d before row rest)
  obtain qe s params where d: "d = (qe, s, params)" by (cases d)
  have ok: "cursors_ok qe" "distinct (map crr_feed_guid (copy_records qe s))"
    "list_all (\<lambda>r. is_i64 (fst (copy_record_sort_key r)) \<and> utf8_valid (snd (copy_record_sort_key r))) (copy_records qe s)"
    using 2(1) by (auto simp: d copy_list_ok_def copy_record_sort_key_def)
  from keyed_page_law(2) [OF ok(1) copy_records_sorted [OF ok(2)] ok(3), of before row rest params] 2(2) show ?case
    by (simp add: d copy_list_ask_def handle_list_copy_records_def)
qed

interpretation guid_list: cursor_list guid_list_ok guid_list_ask "\<lambda>(qe, s, params). guid_changes s" "\<lambda>_ _. True" "\<lambda>_ r. r"
  "\<lambda>(qe, s, params). keyed_cursor qe guid_change_sort_key"
proof (unfold_locales, goal_cases)
  case (1 d)
  obtain qe s params where d: "d = (qe, s, params)" by (cases d)
  have ok: "cursors_ok qe" "distinct (map gc_source_url (list_guid_changes s))"
    "list_all (\<lambda>r. is_i64 (fst (guid_change_sort_key r)) \<and> utf8_valid (snd (guid_change_sort_key r))) (guid_changes s)"
    using 1 by (auto simp: d guid_list_ok_def guid_changes_def sort_desc_def guid_change_sort_key_def guid_change_response_of_def list_all_iff)
  from keyed_page_law(1) [OF ok(1) guid_changes_sorted [OF ok(2)] ok(3), of params] show ?case
    by (simp add: d guid_list_ask_def handle_list_guid_changes_def guid_changes_def)
next
  case (2 d before row rest)
  obtain qe s params where d: "d = (qe, s, params)" by (cases d)
  have ok: "cursors_ok qe" "distinct (map gc_source_url (list_guid_changes s))"
    "list_all (\<lambda>r. is_i64 (fst (guid_change_sort_key r)) \<and> utf8_valid (snd (guid_change_sort_key r))) (guid_changes s)"
    using 2(1) by (auto simp: d guid_list_ok_def guid_changes_def sort_desc_def guid_change_sort_key_def guid_change_response_of_def list_all_iff)
  from keyed_page_law(2) [OF ok(1) guid_changes_sorted [OF ok(2)] ok(3), of before row rest params] 2(2) show ?case
    by (simp add: d guid_list_ask_def handle_list_guid_changes_def guid_changes_def)
qed

section \<open>Artist names\<close>

type_synonym names_request = "query_env \<times> artist_name_row list \<times> list_query"

definition names_ask :: "names_request \<Rightarrow> string option \<Rightarrow> api_error + artist_name_row list query_response" where
  "names_ask d c = (case d of (qe, all_rows, params) \<Rightarrow> artist_names_page qe all_rows (params\<lparr>lq_cursor := c\<rparr>))"

definition names_rows :: "names_request \<Rightarrow> artist_name_row list" where
  "names_rows d = (case d of (qe, all_rows, params) \<Rightarrow> (case lq_from params of None \<Rightarrow> all_rows
     | Some from \<Rightarrow> dropWhile (\<lambda>r. anr_sort_name r < sort_key (qe_lc qe) from) all_rows))"

definition names_shown :: "list_query \<Rightarrow> artist_name_row \<Rightarrow> artist_name_row" where
  "names_shown params row = (if has_include params ''link_facts'' then row else without_link_facts row)"

definition names_cursor :: "query_env \<Rightarrow> artist_name_row \<Rightarrow> string" where
  "names_cursor qe r = encode_cursor qe (cursor_text (anr_sort_name r) (cursor_text (anr_kind r) (anr_key r)))"

definition name_row_ok :: "artist_name_row \<Rightarrow> bool" where
  "name_row_ok r \<longleftrightarrow> text_ok (anr_sort_name r) \<and> text_ok (anr_kind r) \<and> utf8_valid (anr_key r)"

definition names_ok :: "names_request \<Rightarrow> bool" where
  "names_ok d \<longleftrightarrow> (case d of (qe, all_rows, params) \<Rightarrow> cursors_ok qe
     \<and> sorted_wrt (\<lambda>a b. artist_name_key a < artist_name_key b) all_rows \<and> list_all name_row_ok all_rows)"

lemma utf8_cursor_text: "text_ok a \<Longrightarrow> utf8_valid b \<Longrightarrow> utf8_valid (cursor_text a b)"
  by (simp add: cursor_text_def text_ok_def utf8_valid_append NUL_def)

lemma parse_names_encoded:
  assumes "cursors_ok qe" "name_row_ok r"
  shows "parse_artist_names_cursor qe (names_cursor qe r) = Inr (artist_name_key r)"
proof -
  have ok: "text_ok (anr_sort_name r)" "text_ok (anr_kind r)" "utf8_valid (anr_key r)" using assms(2) by (simp_all add: name_row_ok_def)
  show ?thesis
    using cursor_parts [OF assms(1) ok(1) utf8_cursor_text [OF ok(2,3)]] cursor_parts(2) [OF assms(1) ok(2,3)]
    by (simp add: parse_artist_names_cursor_def names_cursor_def rbind_def artist_name_key_def)
qed

lemma without_link_facts_cursor: "names_cursor qe (names_shown params r) = names_cursor qe r"
  by (simp add: names_cursor_def names_shown_def without_link_facts_def)

lemma names_page:
  assumes "parse_optional (parse_artist_names_cursor qe) c = Inr after"
    and "(case after of Some k \<Rightarrow> dropWhile (\<lambda>r. artist_name_key r \<le> k) all_rows | None \<Rightarrow> names_rows (qe, all_rows, params)) = rest"
  shows "\<exists>r. names_ask (qe, all_rows, params) c = Inr r
    \<and> page_law (\<lambda>_. True) (names_shown params) (names_cursor qe) rest r"
proof -
  let ?limit = "nat (capped_limit params)"
  let ?page = "map (names_shown params) (take ?limit rest)"
  let ?r = "\<lparr>qr_data = ?page, qr_pagination =
    \<lparr>pg_cursor = (if ?limit < length rest then Some (names_cursor qe (last (take ?limit rest))) else None),
     pg_has_more = ?limit < length rest\<rparr>\<rparr>"
  have cursor: "rest \<noteq> [] \<Longrightarrow> names_cursor qe (last ?page) = names_cursor qe (last (take ?limit rest))"
    by (simp add: last_map without_link_facts_cursor)
  have shown: "(\<lambda>row. if has_include params ''link_facts'' then row else without_link_facts row) = names_shown params"
    by (simp add: names_shown_def fun_eq_iff)
  have "(case after of Some k \<Rightarrow> dropWhile (\<lambda>r. artist_name_key r \<le> k) all_rows
     | None \<Rightarrow> (case lq_from params of Some from \<Rightarrow> dropWhile (\<lambda>r. anr_sort_name r < sort_key (qe_lc qe) from) all_rows | None \<Rightarrow> all_rows)) = rest"
    using assms(2) by (cases after; cases "lq_from params") (simp_all add: names_rows_def)
  note rest = this
  have sel: "lq_cursor (params\<lparr>lq_cursor := c\<rparr>) = c" by simp
  have "names_ask (qe, all_rows, params) c = Inr ?r"
    using cursor rest unfolding names_ask_def artist_names_page_def prod.case recent_params_cursor lq_cursor_update sel assms(1) rbind_def
      sum.case after_partition_def shown Let_def
    by (simp add: names_cursor_def)
  moreover have "page_law (\<lambda>_. True) (names_shown params) (names_cursor qe) rest ?r"
    by (rule take_page [where limit = ?limit]) simp_all
  ultimately show ?thesis by blast
qed

interpretation names_list: cursor_list names_ok names_ask names_rows "\<lambda>_ _. True" "\<lambda>(qe, rows, params). names_shown params"
  "\<lambda>(qe, rows, params). names_cursor qe"
proof (unfold_locales, goal_cases)
  case (1 d)
  obtain qe all_rows params where d: "d = (qe, all_rows, params)" by (cases d)
  show ?case using names_page [of qe None None all_rows params "names_rows d"] by (simp add: d parse_optional_def)
next
  case (2 d before row rest)
  obtain qe all_rows params where d: "d = (qe, all_rows, params)" by (cases d)
  have "\<exists>dropped. all_rows = dropped @ names_rows d"
    by (cases "lq_from params") (auto simp: d names_rows_def intro: exI [of _ "[]"] takeWhile_dropWhile_id [symmetric])
  with 2(2) obtain dropped where all: "all_rows = (dropped @ before) @ row # rest" by auto
  have sorted: "sorted_wrt (\<lambda>a b. artist_name_key a < artist_name_key b) ((dropped @ before) @ row # rest)" and row: "name_row_ok row"
    and qe: "cursors_ok qe"
    using 2(1) unfolding d names_ok_def all by (simp_all add: all)
  have "dropWhile (\<lambda>r. artist_name_key r \<le> artist_name_key row) ((dropped @ before) @ row # rest) = rest"
    using sorted by (cases rest) (auto simp: sorted_wrt_append dropWhile_append intro: less_imp_le)
  with parse_names_encoded [OF qe row] show ?case
    using names_page [of qe "Some (names_cursor qe row)" "Some (artist_name_key row)" all_rows params rest]
    by (simp add: d parse_optional_def rbind_def all)
qed


section \<open>Live items\<close>

type_synonym live_request = "query_env \<times> db \<times> live_items_query \<times> int"

definition live_filters :: "live_items_query \<Rightarrow> live_item_filters" where
  "live_filters params = (case validate_live_items_query params of Inr f \<Rightarrow> f | Inl _ \<Rightarrow>
     \<lparr>lif_view = AllView, lif_status = None, lif_live_value = None, lif_ends_after = None, lif_starts_after = None\<rparr>)"

definition live_request_ok :: "live_request \<Rightarrow> bool" where
  "live_request_ok d \<longleftrightarrow> (case d of (qe, s, params, now) \<Rightarrow> cursors_ok qe \<and> distinct (map (\<lambda>e. (le_feed_guid e, le_live_item_guid e)) (t_live_events s))
     \<and> list_all (\<lambda>e. text_ok (le_feed_guid e) \<and> utf8_valid (le_live_item_guid e)) (t_live_events s)
     \<and> \<not> isl (validate_live_items_query params))"

definition live_ask :: "live_request \<Rightarrow> string option \<Rightarrow> api_error + live_item_list_response list query_response" where
  "live_ask d c = (case d of (qe, s, params, now) \<Rightarrow> list_live_items qe s (params\<lparr>liq_cursor := c\<rparr>) now)"

definition live_rows :: "live_request \<Rightarrow> live_event list" where
  "live_rows d = (case d of (qe, s, params, now) \<Rightarrow>
     filter (\<lambda>e. live_event_matches qe e (live_filters params) now) (get_live_events_after_cursor s None))"

definition live_cursor :: "query_env \<Rightarrow> live_event \<Rightarrow> string" where
  "live_cursor qe e = encode_cursor qe (cursor_text (le_feed_guid e) (le_live_item_guid e))"

definition live_position :: "live_event \<Rightarrow> string \<times> string" where
  "live_position e = (le_feed_guid e, le_live_item_guid e)"

lemma live_events_after: "get_live_events_after_cursor s c = filter (\<lambda>e. case c of None \<Rightarrow> True | Some k \<Rightarrow> k < live_position e)
    (get_live_events_after_cursor s None)"
  unfolding get_live_events_after_cursor_def live_position_def by (simp add: filter_sort conj_commute)

lemma live_params_cursor: "validate_live_items_query (params\<lparr>liq_cursor := c\<rparr>) = validate_live_items_query params"
proof -
  have "liq_view (params\<lparr>liq_cursor := c\<rparr>) = liq_view params" "liq_status (params\<lparr>liq_cursor := c\<rparr>) = liq_status params"
    "liq_live_value (params\<lparr>liq_cursor := c\<rparr>) = liq_live_value params" "liq_ends_after (params\<lparr>liq_cursor := c\<rparr>) = liq_ends_after params"
    "liq_starts_after (params\<lparr>liq_cursor := c\<rparr>) = liq_starts_after params" by simp_all
  note same = this
  show ?thesis unfolding validate_live_items_query_def same by (rule refl)
qed

lemma live_page:
  assumes "live_request_ok (qe, s, params, now)" "parse_optional (parse_by_name_cursor qe) c = Inr after"
    and "filter (\<lambda>e. live_event_matches qe e (live_filters params) now) (get_live_events_after_cursor s after) = rest"
  shows "\<exists>r. live_ask (qe, s, params, now) c = Inr r
    \<and> page_law (\<lambda>_. True) (\<lambda>e. live_item_list_response_of qe s e now) (live_cursor qe) rest r"
proof -
  let ?limit = "nat (clamp_limit LIST_LIMIT_MAX (limit_or 50 (liq_limit params)))"
  have pos: "0 < ?limit" by (auto simp: clamp_limit_def LIST_LIMIT_MAX_def)
  let ?r = "\<lparr>qr_data = map (\<lambda>e. live_item_list_response_of qe s e now) (take ?limit rest), qr_pagination =
    \<lparr>pg_cursor = (if ?limit < length rest then Some (live_cursor qe (last (take ?limit rest))) else None),
     pg_has_more = ?limit < length rest\<rparr>\<rparr>"
  have valid: "validate_live_items_query params = Inr (live_filters params)"
    using assms(1) by (cases "validate_live_items_query params") (auto simp: live_request_ok_def live_filters_def)
  have "live_ask (qe, s, params, now) c = Inr ?r"
    using assms(2,3) pos by (auto simp: live_ask_def list_live_items_def live_params_cursor valid rbind_def Let_def live_cursor_def)
  moreover have "page_law (\<lambda>_. True) (\<lambda>e. live_item_list_response_of qe s e now) (live_cursor qe) rest ?r"
    by (rule take_page [OF pos]) simp_all
  ultimately show ?thesis by blast
qed

lemma live_events_sorted:
  assumes "distinct (map live_position (t_live_events s))"
  shows "sorted_wrt (\<lambda>a b. live_position a < live_position b) (get_live_events_after_cursor s None)"
  using sorted_asc [of live_position "filter (\<lambda>r. feed_exists (le_feed_guid r) s) (t_live_events s)"] assms
  by (simp add: get_live_events_after_cursor_def live_position_def [abs_def] distinct_map_filter)

interpretation live_list: cursor_list live_request_ok live_ask live_rows "\<lambda>_ _. True"
  "\<lambda>(qe, s, params, now) e. live_item_list_response_of qe s e now" "\<lambda>(qe, s, params, now). live_cursor qe"
proof (unfold_locales, goal_cases)
  case (1 d)
  obtain qe s params now where d: "d = (qe, s, params, now)" by (cases d)
  from 1 show ?case using live_page [of qe s params now None None "live_rows d"] by (simp add: d parse_optional_def live_rows_def)
next
  case (2 d before row rest)
  obtain qe s params now where d: "d = (qe, s, params, now)" by (cases d)
  let ?matches = "\<lambda>e. live_event_matches qe e (live_filters params) now"
  have rows: "filter ?matches (get_live_events_after_cursor s None) = before @ row # rest" using 2(2) by (simp add: d live_rows_def)
  have distinct: "distinct (map live_position (t_live_events s))" using 2(1) by (simp add: d live_request_ok_def live_position_def [abs_def])
  have "sorted_wrt (\<lambda>a b. live_position a < live_position b) (before @ row # rest)"
    unfolding rows [symmetric] by (rule sorted_wrt_filter [OF live_events_sorted [OF distinct]])
  then have "filter (\<lambda>e. live_position row < live_position e) (filter ?matches (get_live_events_after_cursor s None)) = rest"
    unfolding rows by (rule rest_asc)
  then have rest: "filter ?matches (get_live_events_after_cursor s (Some (live_position row))) = rest"
    by (simp add: live_events_after [of s "Some (live_position row)"] conj_commute)
  have "row \<in> set (filter ?matches (get_live_events_after_cursor s None))" using rows by simp
  then have "text_ok (le_feed_guid row)" "utf8_valid (le_live_item_guid row)"
    using 2(1) by (auto simp: d live_request_ok_def get_live_events_after_cursor_def list_all_iff)
  then have "parse_optional (parse_by_name_cursor qe) (Some (live_cursor qe row)) = Inr (Some (live_position row))"
    using 2(1) parse_by_name_encoded [of qe "le_feed_guid row" "le_live_item_guid row"]
    by (simp add: d live_request_ok_def parse_optional_def live_cursor_def rbind_def live_position_def)
  from live_page [OF 2(1) [unfolded d] this rest] show ?case by (simp add: d)
qed

end
