(* ===== verification/Browsed.thy ===== *)
theory Browsed
  imports Listed SampleApp
begin

text \<open>
  What the lists of \<^verbatim>\<open>src/query.rs\<close> promise a client that follows the cursors: each row once, in the order
  of the list, and an end. The list of an artist's tracks does not keep this promise.
\<close>

section \<open>A store to read\<close>

definition plain_query :: query_env where
  "plain_query = \<lparr>qe_url_parse = (\<lambda>u. None), qe_lc = (\<lambda>t. t), qe_hash_order = (\<lambda>xs. xs), qe_relay_hosts = [],
     qe_node_pubkey = ''key'', qe_encode = (\<lambda>t. t), qe_decode = Some\<rparr>"

definition plain_params :: list_query where
  "plain_params = \<lparr>lq_cursor = None, lq_limit = Some 1, lq_include = None, lq_medium = None, lq_stated_rel = None,
     lq_two_way_links = None, lq_from = None, lq_artist_key = None, lq_named_feed_guid = None\<rparr>"

definition newer_feed :: feed where
  "newer_feed = sample_feed\<lparr>fe_feed_guid := ''g2'', fe_feed_url := ''https://b.example/f.xml'', fe_title := ''Airs'',
     fe_newest_item_at := Some 7\<rparr>"

definition label_feed :: feed where
  "label_feed = sample_feed\<lparr>fe_feed_guid := ''p1'', fe_feed_url := ''https://p.example/f.xml'', fe_title := ''Label'',
     fe_raw_medium := Some ''publisher''\<rparr>"

definition reading_db :: db where
  "reading_db = empty_db\<lparr>t_feeds := map (feed_row_of (\<lambda>t. t) (\<lambda>u. None)) [sample_feed, newer_feed, label_feed]\<rparr>"

lemma plain_params_fields: "lq_stated_rel plain_params = None" "lq_two_way_links plain_params = None" "lq_named_feed_guid plain_params = None"
  "lq_from plain_params = None" "lq_artist_key plain_params = None"
  by (simp_all add: plain_params_def)

lemma plain_cursors: "cursors_ok plain_query"
  by (simp add: cursors_ok_def plain_query_def)

lemma reading_rows_ok: "feed_rows_ok reading_db"
  by (simp add: feed_rows_ok_def reading_db_def feed_row_of_def sample_feed_def newer_feed_def label_feed_def feed.defs is_i64_def i64_min_def i64_max_def)

lemma reading_music: "filter (\<lambda>f. has_medium (medium_of plain_query plain_params) f \<and> in_guids None f) (t_feeds reading_db)
    = map (feed_row_of (\<lambda>t. t) (\<lambda>u. None)) [sample_feed, newer_feed]"
  by (simp add: reading_db_def has_medium_def in_guids_def medium_of_def plain_query_def plain_params_def feed_row_of_def
      sample_feed_def newer_feed_def label_feed_def feed.defs to_ascii_lowercase_def ascii_lower_def is_ascii_uppercase_def)

section \<open>Recent feeds\<close>

lemma no_filter:
  assumes "lq_stated_rel params = None" "lq_two_way_links params = None" "lq_named_feed_guid params = None"
  shows "link_fact_filter_from_params params m = Inr None" "check_named_feed_guid params m = Inr ()"
  unfolding link_fact_filter_from_params_def check_named_feed_guid_def assms by simp_all

lemma recent_shown_guid: "fdr_feed_guid (recent_shown qe s params f) = fe_feed_guid f"
  by (simp add: recent_shown_def feed_list_row_to_response_def plain_feed_response_def with_link_facts_def Let_def split: prod.split)

lemma by_name_shown_guid: "fdr_feed_guid (by_name_shown qe s params f) = fe_feed_guid f"
  by (simp add: by_name_shown_def feed_list_row_to_response_def plain_feed_response_def with_link_facts_def Let_def split: prod.split)

text \<open>
  C31: A client that follows the cursors of \<^verbatim>\<open>GET /v1/feeds/recent\<close> gets every feed of the medium exactly
  once, newest first, and comes to an end, whatever the limit. With a link filter it gets every feed that the
  filter keeps, although a page stops after 1,000 examined rows and may be empty.
\<close>

theorem recent_feeds_are_complete:
  assumes "cursors_ok qe" "feed_rows_ok s" "recent_request_ok qe params" "length (recent_list qe s params) < n"
  shows "\<exists>pages. follow n (\<lambda>c. handle_get_recent_feeds qe s (params\<lparr>lq_cursor := c\<rparr>)) None = Some pages
    \<and> concat pages = map (recent_shown qe s params) (filter (recent_kept qe s params) (recent_list qe s params))"
  using recent.all_pages [of "(qe, s, params)" n] assms by (simp add: recent_ok_def recent_ask_def [abs_def])

theorem recent_feeds_are_complete_witness:
  "\<exists>pages. follow 4 (\<lambda>c. handle_get_recent_feeds plain_query reading_db (plain_params\<lparr>lq_cursor := c\<rparr>)) None = Some pages
    \<and> map fdr_feed_guid (concat pages) = [''g2'', ''g1'']"
proof -
  have request: "recent_filter plain_query plain_params = None" "recent_request_ok plain_query plain_params"
    by (simp_all add: recent_request_ok_def recent_filter_def no_filter [OF plain_params_fields(1,2,3)])
  from reading_music have list: "map fe_feed_guid (recent_list plain_query reading_db plain_params) = [''g2'', ''g1'']"
    by (simp add: recent_list_def all_of_medium_def plain_params_fields sort_desc_def recent_key_def feed_row_of_def
        sample_feed_def newer_feed_def feed.defs)
  then have "length (recent_list plain_query reading_db plain_params) = 2" by (metis length_map list.size(3,4) Suc_1 One_nat_def add_0 plus_1_eq_Suc add.commute)
  then show ?thesis
    using recent_feeds_are_complete [OF plain_cursors reading_rows_ok request(2), of 4] list
    by (auto simp: recent_kept_def request(1) recent_shown_guid)
qed

section \<open>Feeds by name\<close>



section \<open>Artist names\<close>

text \<open>The list is sorted by its key, without a key twice.\<close>

lemma name_groups_ordered: "bt_ordered (name_groups qe s)"
proof -
  have "bt_ordered g \<Longrightarrow> bt_ordered (fold (add_release qe) rs g)" for rs g
    by (induction rs arbitrary: g) (auto simp: add_release_def Let_def bt_ordered_insert split: prod.split)
  then show ?thesis by (simp add: name_groups_def bt_ordered_def)
qed

lemma artist_name_list_sorted:
  assumes "distinct (map fe_feed_guid (t_feeds s))"
  shows "sorted_wrt (\<lambda>a b. artist_name_key a < artist_name_key b) (anl_rows (build_artist_name_list qe s))"
proof -
  let ?publishers = "map (publisher_name_row qe s) (publisher_feed_rows s)"
  let ?names = "map group_row (name_groups qe s)"
  have key: "anr_key (publisher_name_row qe s f) = fe_feed_guid f" "anr_kind (publisher_name_row qe s f) = ''publisher''" for f
    by (simp_all add: publisher_name_row_def name_row_with_link_facts_def)
  have name: "anr_key (group_row g) = fst g" "anr_kind (group_row g) = ''name''" for g
    by (simp_all add: group_row_def split: prod.split)
  have "distinct (map fe_feed_guid (publisher_feed_rows s))"
    using assms by (simp add: publisher_feed_rows_def distinct_map_filter)
  then have "distinct (map (\<lambda>r. (anr_kind r, anr_key r)) ?publishers)"
    by (simp add: comp_def key distinct_map inj_on_def)
  moreover have "distinct (map fst (name_groups qe s))"
    using name_groups_ordered [of qe s] by (simp add: bt_ordered_def strict_sorted_iff)
  then have "distinct (map (\<lambda>r. (anr_kind r, anr_key r)) ?names)"
    by (simp add: comp_def name distinct_map inj_on_def)
  ultimately have "distinct (map (\<lambda>r. (anr_kind r, anr_key r)) (?publishers @ ?names))"
    by (auto simp: key name)
  then have "distinct (map artist_name_key (?publishers @ ?names))"
    by (rule distinct_map_weaken) (simp add: artist_name_key_def)
  then show ?thesis unfolding build_artist_name_list_def artist_name_list.simps by (rule sorted_asc)
qed

lemma dropWhile_sorted:
  assumes "sorted_wrt (\<lambda>a b. artist_name_key a < artist_name_key b) rows"
  shows "dropWhile (\<lambda>r. anr_sort_name r < x) rows = filter (\<lambda>r. x \<le> anr_sort_name r) rows"
  using assms
proof (induction rows)
  case (Cons r rows)
  show ?case
  proof (cases "anr_sort_name r < x")
    case False
    have "x \<le> anr_sort_name q" if "q \<in> set rows" for q
    proof -
      have "anr_sort_name r \<le> anr_sort_name q" using Cons.prems that by (auto simp: artist_name_key_def less_prod_def)
      with False show ?thesis by order
    qed
    with False show ?thesis by (simp add: filter_id_conv not_less)
  qed (use Cons in simp)
qed simp



lemma reading_names:
  "anl_rows (build_artist_name_list plain_query reading_db) = [publisher_name_row plain_query reading_db (feed_row_of (\<lambda>t. t) (\<lambda>u. None) label_feed)]"
proof -
  have publishers: "publisher_feed_rows reading_db = [feed_row_of (\<lambda>t. t) (\<lambda>u. None) label_feed]"
    by (simp add: publisher_feed_rows_def reading_db_def has_medium_def feed_row_of_def
        sample_feed_def newer_feed_def label_feed_def feed.defs to_ascii_lowercase_def ascii_lower_def is_ascii_uppercase_def)
  have "music_feed_artist_rows reading_db = []"
    by (simp add: music_feed_artist_rows_def reading_db_def feed_row_of_def sample_feed_def newer_feed_def label_feed_def feed.defs List.map_filter_def)
  then have "name_groups plain_query reading_db = []" by (simp add: name_groups_def name_level_releases_def)
  with publishers show ?thesis by (simp add: build_artist_name_list_def)
qed


section \<open>Live items\<close>

text \<open>
  C34: A client that follows the cursors of the list of live items gets every item that matches the request
  exactly once, in the order of feed and item, and comes to an end.
\<close>

theorem live_items_are_complete:
  assumes "cursors_ok qe" "distinct (map (\<lambda>e. (le_feed_guid e, le_live_item_guid e)) (t_live_events s))"
    and "list_all (\<lambda>e. text_ok (le_feed_guid e) \<and> utf8_valid (le_live_item_guid e)) (t_live_events s)"
    and "validate_live_items_query params = Inr filters" "length (t_live_events s) < n"
  shows "\<exists>pages. follow n (\<lambda>c. list_live_items qe s (params\<lparr>liq_cursor := c\<rparr>) now) None = Some pages
    \<and> concat pages = map (\<lambda>e. live_item_list_response_of qe s e now)
        (filter (\<lambda>e. live_event_matches qe e filters now) (get_live_events_after_cursor s None))"
proof -
  have "live_rows (qe, s, params, now) = filter (\<lambda>e. live_event_matches qe e filters now) (get_live_events_after_cursor s None)"
    by (simp add: live_rows_def live_filters_def assms(4))
  moreover have "length (filter p (get_live_events_after_cursor s None)) < n" for p
    by (rule le_less_trans [OF length_filter_le], rule le_less_trans [OF _ assms(5)]) (simp add: get_live_events_after_cursor_def)
  ultimately show ?thesis
    using live_list.all_pages [of "(qe, s, params, now)" n] assms by (simp add: live_request_ok_def live_ask_def [abs_def])
qed

definition live_row :: "string \<Rightarrow> live_event" where
  "live_row guid = \<lparr>le_live_item_guid = guid, le_feed_guid = ''g1'', le_title = ''Show'', le_content_link = None, le_status = ''live'',
     le_scheduled_start = None, le_scheduled_end = None, le_created_at = 5, le_updated_at = 5,
     le_live_value_uri = None, le_live_value_protocol = None\<rparr>"

definition live_params :: live_items_query where
  "live_params = \<lparr>liq_view = Some ''all'', liq_status = None, liq_live_value = None, liq_ends_after = None,
     liq_starts_after = None, liq_cursor = None, liq_limit = Some 1\<rparr>"

theorem live_items_are_complete_witness:
  "\<exists>pages. follow 3 (\<lambda>c. list_live_items plain_query (feed_db\<lparr>t_live_events := [live_row ''b'', live_row ''a'']\<rparr>)
      (live_params\<lparr>liq_cursor := c\<rparr>) 9) None = Some pages
    \<and> map (\<lambda>r. lir_live_item_guid (lil_item r)) (concat pages) = [''a'', ''b'']"
proof -
  let ?s = "feed_db\<lparr>t_live_events := [live_row ''b'', live_row ''a'']\<rparr>"
  have valid: "validate_live_items_query live_params = Inr \<lparr>lif_view = AllView, lif_status = None, lif_live_value = None,
      lif_ends_after = None, lif_starts_after = None\<rparr>"
    by (simp add: validate_live_items_query_def view_of_def live_params_def rbind_def known_value_def)
  have order: "\<not> (''g1'', ''b'') \<le> (''g1'', ''a'')" by code_simp
  have exists: "feed_exists ''g1'' ?s" by (simp add: feed_exists_def feed_db_def empty_db_def feed_row_of_def sample_feed_def feed.defs)
  have list: "get_live_events_after_cursor ?s None = [live_row ''a'', live_row ''b'']"
    using order exists by (simp add: get_live_events_after_cursor_def live_row_def)
  have "text_ok ''g1''" "utf8_valid ''a''" "utf8_valid ''b''" by code_simp+
  then have "list_all (\<lambda>e. text_ok (le_feed_guid e) \<and> utf8_valid (le_live_item_guid e)) (t_live_events ?s)"
    by (simp add: live_row_def)
  moreover have "lir_live_item_guid (lil_item (live_item_list_response_of plain_query ?s e 9)) = le_live_item_guid e" for e
    by (simp add: live_item_list_response_of_def live_item_response_of_def Let_def split: prod.split)
  moreover have "distinct (map (\<lambda>e. (le_feed_guid e, le_live_item_guid e)) (t_live_events ?s))" by (simp add: live_row_def)
  ultimately show ?thesis
    using live_items_are_complete [OF plain_cursors _ _ valid, of ?s 3 9] list
    by (auto simp: live_event_matches_def matches_raw_filters_def live_row_def)
qed


section \<open>Tracks of an artist\<close>

lemma sort_desc_two:
  assumes "key a = key b"
  shows "sort_desc key [a, b] = [b, a]"
  using assms by (simp add: sort_desc_def)

text \<open>
  C35: Two tracks of an artist with the same GUID and creation time, in two feeds, share their place in the list of
  \<^verbatim>\<open>GET /v1/tracks\<close>. A page that ends between them loses one: its cursor holds the time and the GUID, not the feed,
  and the next page starts after both.
\<close>

theorem artist_tracks_loses_a_track:
  assumes "cursors_ok qe" "t_tracks s = [a, b]" "artist_track_key a = artist_track_key b"
    and "is_i64 (tr_created_at a)" "utf8_valid (tr_track_guid a)"
    and "map_option to_ascii_lowercase (tr_track_artist a) = Some (qe_lc qe artist)"
    and "map_option to_ascii_lowercase (tr_track_artist b) = Some (qe_lc qe artist)"
  shows "follow 3 (\<lambda>c. handle_artist_tracks qe s \<lparr>atq_artist = artist, atq_limit = Some 1, atq_cursor = c\<rparr>) None
    = Some [[artist_track_item_of qe (track_row_of s b)], []]"
proof -
  have limit: "nat (clamp_limit LIST_LIMIT_MAX (limit_or 50 (Some 1))) = 1"
    by (simp add: clamp_limit_def limit_or_def LIST_LIMIT_MAX_def)
  have cursor: "parse_recent_cursor qe (recent_cursor_text qe (artist_track_key b)) = Inr (artist_track_key b)"
    by (rule parse_recent_encoded [OF assms(1)]) (use assms(3-5) in \<open>auto simp: artist_track_key_def\<close>)
  have "artist_track_rows qe s artist None (Suc 1) = [b, a]"
    using assms(2,6,7) by (simp add: artist_track_rows_def sort_desc_two [of artist_track_key, OF assms(3)])
  then have first: "handle_artist_tracks qe s \<lparr>atq_artist = artist, atq_limit = Some 1, atq_cursor = None\<rparr> =
    Inr \<lparr>qr_data = [artist_track_item_of qe (track_row_of s b)],
      qr_pagination = \<lparr>pg_cursor = Some (recent_cursor_text qe (artist_track_key b)), pg_has_more = True\<rparr>\<rparr>"
    by (simp add: handle_artist_tracks_def limit parse_optional_def rbind_def)
  have "artist_track_rows qe s artist (Some (artist_track_key b)) (Suc 1) = []"
    using assms(2,3) by (simp add: artist_track_rows_def sort_desc_def)
  then have second: "handle_artist_tracks qe s
      \<lparr>atq_artist = artist, atq_limit = Some 1, atq_cursor = Some (recent_cursor_text qe (artist_track_key b))\<rparr> =
    Inr \<lparr>qr_data = [], qr_pagination = \<lparr>pg_cursor = None, pg_has_more = False\<rparr>\<rparr>"
    by (simp add: handle_artist_tracks_def limit parse_optional_def rbind_def cursor)
  show ?thesis by (simp add: numeral_3_eq_3 first second)
qed

definition two_versions :: db where
  "two_versions = track_db\<lparr>t_tracks := [sample_track\<lparr>tr_track_artist := Some ''Ann''\<rparr>,
     sample_track\<lparr>tr_track_artist := Some ''Ann'', tr_feed_guid := ''g2''\<rparr>]\<rparr>"

theorem artist_tracks_loses_a_track_witness:
  "\<exists>item. follow 3 (\<lambda>c. handle_artist_tracks (plain_query\<lparr>qe_lc := to_ascii_lowercase\<rparr>) two_versions
      \<lparr>atq_artist = ''Ann'', atq_limit = Some 1, atq_cursor = c\<rparr>) None = Some [[item], []]
    \<and> length (t_tracks two_versions) = 2"
proof -
  have "cursors_ok (plain_query\<lparr>qe_lc := to_ascii_lowercase\<rparr>)" by (simp add: cursors_ok_def plain_query_def)
  moreover have "utf8_valid ''t1''" "is_i64 5" by code_simp+
  ultimately show ?thesis
    using artist_tracks_loses_a_track [of "plain_query\<lparr>qe_lc := to_ascii_lowercase\<rparr>" two_versions
        "sample_track\<lparr>tr_track_artist := Some ''Ann''\<rparr>" "sample_track\<lparr>tr_track_artist := Some ''Ann'', tr_feed_guid := ''g2''\<rparr>" "''Ann''"]
    by (auto simp: two_versions_def sample_track_def artist_track_key_def)
qed

end
