(* ===== verification/Searched.thy ===== *)
theory Searched
  imports Request Browsed
begin

text \<open>
  What \<^verbatim>\<open>GET /v1/search\<close> promises: a filter selects rows and leaves the rank alone, an accepted request is in
  the form of ADR 0080, and a search by date is complete.
\<close>

section \<open>Filters and the rank\<close>

lemma map_filter_filter: "filter q (List.map_filter f xs) = List.map_filter (\<lambda>x. Option.bind (f x) (\<lambda>y. if q y then Some y else None)) xs"
  by (induction xs) (auto simp: List.map_filter_def split: option.split)

lemma no_filters_hold: "filters_hold sx s no_filters kind e"
  by (simp add: filters_hold_def no_filters_def no_values_def values_hold_def within_def Let_def)

definition filters_keep :: "search_engine \<Rightarrow> db \<Rightarrow> search_filters \<Rightarrow> string option \<Rightarrow> search_result \<Rightarrow> bool" where
  "filters_keep sx s f entity_type r \<longleftrightarrow> (case entity_at s (sr_rowid r) of None \<Rightarrow> False
     | Some e \<Rightarrow> filters_hold sx s f (case entity_type of None \<Rightarrow> [] | Some t \<Rightarrow> t) e)"

text \<open>
  C36: The filters of a search select rows and do nothing else: the rows of a filtered search are the rows of the
  same search without filters that the filters keep, with the same rank and in the same order.
\<close>

theorem search_filters_only_select:
  "search_filtered sx s q f entity_type limit cursor
    = take limit (filter (filters_keep sx s f entity_type) (search_filtered sx s q no_filters entity_type (length (t_search_index s)) cursor))"
proof (cases "trim (fts5_query_from_words q) = []")
  case False
  let ?kind = "case entity_type of None \<Rightarrow> [] | Some t \<Rightarrow> t"
  let ?hits = "\<lambda>g. List.map_filter (\<lambda>m.
      if \<not> sx_match sx (fts5_query_from_words q) m then None
      else (case entity_at s (si_rowid m) of None \<Rightarrow> None
        | Some e \<Rightarrow> let r = search_hit sx s (fts5_query_from_words q) m e in
            if after_rank cursor r \<and> (case entity_type of None \<Rightarrow> True | Some t \<Rightarrow> se_entity_type e = t) \<and> filters_hold sx s g ?kind e
            then Some r else None)) (t_search_index s)"
  have "filter (filters_keep sx s f entity_type) (?hits no_filters) = ?hits f"
    unfolding map_filter_filter
    by (intro arg_cong2 [where f = List.map_filter] ext refl)
      (auto simp: filters_keep_def no_filters_hold search_hit_def Let_def split: option.split)
  moreover have "length (?hits no_filters) \<le> length (t_search_index s)"
    by (simp add: List.map_filter_def)
  ultimately show ?thesis
    using False by (simp add: search_filtered_def Let_def filter_sort)
qed (simp add: search_filtered_def Let_def)

section \<open>Accepted requests\<close>

lemma known_filters: "filter_types name \<noteq> None \<Longrightarrow> name \<in> set (map fst SEARCH_FILTERS)"
  by (auto simp: filter_types_def dest!: map_of_SomeD) (metis fst_conv image_eqI)

lemma set_value_exclusions:
  assumes "set_value qe sx name v vf = Some vf'"
  shows "length (vf_not_hosts vf') = (if name = ''not_host'' then Suc (length (vf_not_hosts vf)) else length (vf_not_hosts vf))"
proof (cases "name = ''not_host''")
  case True
  with assms show ?thesis by (auto simp: set_value_def)
next
  case False
  have "vf_not_hosts (set_integer name n vf) = vf_not_hosts vf" for n by (simp add: set_integer_def)
  with False assms show ?thesis unfolding set_value_def by (auto split: if_split_asm)
qed

lemma set_filter_exclusions:
  assumes "set_filter qe sx name v f = Inr f'" "filter_types name \<noteq> None"
  shows "exclusion_count f' = (if repeats name then Suc (exclusion_count f) else exclusion_count f)"
proof -
  have "list_all (\<lambda>name. repeats name = (name = ''not_host'' \<or> name \<notin> set SEARCH_VALUE_FILTERS
      \<and> name \<notin> set [''artist'', ''title'', ''release''])) (map fst SEARCH_FILTERS)"
    by code_simp
  then have repeats: "repeats name \<longleftrightarrow> name = ''not_host'' \<or> name \<notin> set SEARCH_VALUE_FILTERS \<and> name \<notin> set [''artist'', ''title'', ''release'']"
    using known_filters [OF assms(2)] by (simp only: list_all_iff)
  have host: "''not_host'' \<in> set SEARCH_VALUE_FILTERS" by (simp add: SEARCH_VALUE_FILTERS_def)
  show ?thesis
  proof (cases "name \<in> set SEARCH_VALUE_FILTERS")
    case True
    with assms(1) obtain vf where "set_value qe sx name v (sf_values f) = Some vf" "f' = f\<lparr>sf_values := vf\<rparr>"
      by (auto simp: set_filter_def split: option.splits)
    with True repeats set_value_exclusions [OF this(1)] show ?thesis by (simp add: exclusion_count_def)
  next
    case False
    with assms(1) have "f' = add_text_filter name (fts5_phrases v) f" by (auto simp: set_filter_def Let_def split: if_splits)
    moreover have "name \<noteq> ''not_host''" using False host by blast
    ultimately show ?thesis using False repeats by (simp only: add_text_filter_def) (simp add: exclusion_count_def split: if_split)
  qed
qed

lemma check_filter_step:
  assumes "check_filter qe sx (name, v) (f, seen) = Inr (f', seen')" "exclusion_count f \<le> SEARCH_EXCLUSION_MAX"
  shows "exclusion_count f' \<le> SEARCH_EXCLUSION_MAX"
    and "seen' = (if filter_types name \<noteq> None \<and> \<not> repeats name then seen @ [name] else seen)"
    and "distinct seen \<Longrightarrow> distinct seen'"
  using assms set_filter_exclusions [of qe sx name v f f']
  by (auto simp: check_filter_def rbind_def split: if_splits sum.splits)

definition positive_names :: "(string \<times> string) list \<Rightarrow> string list" where
  "positive_names pairs = filter (\<lambda>name. filter_types name \<noteq> None \<and> \<not> repeats name) (map fst pairs)"

lemma check_filters_run:
  assumes "check_filters qe sx pairs (f, seen) = Inr (f', seen')" "exclusion_count f \<le> SEARCH_EXCLUSION_MAX" "distinct seen"
  shows "exclusion_count f' \<le> SEARCH_EXCLUSION_MAX \<and> seen' = seen @ positive_names pairs \<and> distinct seen'"
  using assms
proof (induction pairs arbitrary: f seen)
  case (Cons p pairs)
  obtain name v where p: "p = (name, v)" by (cases p)
  from Cons.prems(1) obtain f1 seen1 where step: "check_filter qe sx (name, v) (f, seen) = Inr (f1, seen1)"
    "check_filters qe sx pairs (f1, seen1) = Inr (f', seen')"
    by (auto simp: p rbind_def split: sum.splits)
  note one = check_filter_step [OF step(1) Cons.prems(2)]
  from Cons.IH [OF step(2) one(1) one(3) [OF Cons.prems(3)]] have run: "exclusion_count f' \<le> SEARCH_EXCLUSION_MAX" "seen' = seen1 @ positive_names pairs" "distinct seen'"
    by blast+
  have pos: "positive_names (p # pairs) = (if filter_types name \<noteq> None \<and> \<not> repeats name then [name] else []) @ positive_names pairs"
    by (simp add: p positive_names_def)
  have "seen' = seen @ positive_names (p # pairs)" unfolding run(2) one(2) pos by simp
  with run show ?case by blast
qed (simp add: positive_names_def)

text \<open>
  C37: A search request that passes the checks has parameters of this node only, filters that each of its types
  applies, no positive filter twice, at most 10 exclusions, and a word in \<^verbatim>\<open>q\<close> or a positive filter.
\<close>

theorem accepted_search_request:
  assumes "parse_search_request qe sx pairs = Inr rq"
  shows "(\<forall>name\<in>set (map fst pairs). name \<in> set SINGLE
      \<or> (\<exists>types. filter_types name = Some types \<and> set (request_types (rq_kind rq)) \<subseteq> set types))
    \<and> distinct (positive_names pairs) \<and> exclusion_count (rq_filters rq) \<le> 10
    \<and> (fts5_query_from_words (rq_q rq) \<noteq> [] \<or> has_positive (rq_filters rq))"
proof -
  from assms obtain seen where run: "check_names pairs = Inr ()" "check_types pairs (rq_kind rq) = Inr ()"
    "check_filters qe sx pairs (no_filters, []) = Inr (rq_filters rq, seen)"
    "fts5_query_from_words (rq_q rq) \<noteq> [] \<or> has_positive (rq_filters rq)"
    by (auto simp: parse_search_request_def rbind_def Let_def split: sum.splits if_splits)
  have "name \<in> set SINGLE \<or> (\<exists>types. filter_types name = Some types \<and> set (request_types (rq_kind rq)) \<subseteq> set types)"
    if "name \<in> set (map fst pairs)" for name
  proof -
    from that obtain v where pair: "(name, v) \<in> set pairs" by auto
    have "find (\<lambda>p. fst p \<notin> set SINGLE \<and> filter_types (fst p) = None) pairs = None"
      using run(1) by (simp add: check_names_def split: option.splits)
    with pair have known: "name \<in> set SINGLE \<or> filter_types name \<noteq> None" by (auto simp: find_None_iff)
    have "find (\<lambda>p. case filter_types (fst p) of None \<Rightarrow> False | Some types \<Rightarrow> \<not> list_all (\<lambda>t. t \<in> set types) (request_types (rq_kind rq))) pairs = None"
      using run(2) by (simp add: check_types_def split: option.splits)
    with pair have "case filter_types name of None \<Rightarrow> True | Some types \<Rightarrow> list_all (\<lambda>t. t \<in> set types) (request_types (rq_kind rq))"
      by (fastforce simp: find_None_iff split: option.splits)
    with known show ?thesis by (auto simp: list_all_iff split: option.splits)
  qed
  moreover have "exclusion_count no_filters \<le> SEARCH_EXCLUSION_MAX" by (simp add: exclusion_count_def no_filters_def no_values_def)
  from check_filters_run [OF run(3) this] have "exclusion_count (rq_filters rq) \<le> 10" "distinct (positive_names pairs)"
    by (auto simp: SEARCH_EXCLUSION_MAX_def)
  ultimately show ?thesis using run(4) by blast
qed


definition plain_engine :: search_engine where
  "plain_engine = \<lparr>sx_match = (\<lambda>e m. True), sx_bm25 = (\<lambda>e t m. 0), sx_effective = (\<lambda>x n. x), sx_track_parts = (\<lambda>t. None),
     sx_day = (\<lambda>y m d. None), sx_host_parse = Some\<rparr>"

definition sample_pairs :: "(string \<times> string) list" where
  "sample_pairs = [(''q'', ''blue''), (''artist'', ''Ann''), (''not_title'', ''live''), (''min_tracks'', ''3'')]"

theorem accepted_search_request_witness:
  "\<exists>rq. parse_search_request plain_query plain_engine sample_pairs = Inr rq \<and> exclusion_count (rq_filters rq) \<le> 10
    \<and> distinct (positive_names sample_pairs)"
proof -
  have "\<not> isl (parse_search_request plain_query plain_engine sample_pairs)" by code_simp
  then obtain rq where "parse_search_request plain_query plain_engine sample_pairs = Inr rq"
    by (cases "parse_search_request plain_query plain_engine sample_pairs") auto
  with accepted_search_request [OF this] show ?thesis by blast
qed

section \<open>A search by date\<close>

lemma after_date_key: "after_date (Some c) p \<longleftrightarrow> date_key c < date_key p"
  by (cases c; cases p) (auto simp: after_date_def date_key_def less_prod_def split: option.splits)

definition dated_list :: "search_engine \<Rightarrow> db \<Rightarrow> search_request \<Rightarrow> dated_search_result list" where
  "dated_list sx s rq = List.sort_key (\<lambda>r. date_key (dated_position r)) (map (dated_hit sx s) (filter (\<lambda>e.
     (case rq_kind rq of None \<Rightarrow> se_entity_type e = ''feed'' \<or> se_entity_type e = ''track'' | Some t \<Rightarrow> se_entity_type e = t)
     \<and> filters_hold sx s (rq_filters rq) (case rq_kind rq of None \<Rightarrow> [] | Some t \<Rightarrow> t) e) (t_search_entities s)))"

type_synonym dated_request = "query_env \<times> search_engine \<times> db \<times> search_request"

definition dated_ask :: "dated_request \<Rightarrow> string option \<Rightarrow> api_error + search_response_item list query_response" where
  "dated_ask d c = (case d of (qe, sx, s, rq) \<Rightarrow> search_page qe sx s (rq\<lparr>rq_cursor := c\<rparr>))"

definition dated_shown :: "query_env \<Rightarrow> search_engine \<Rightarrow> db \<Rightarrow> search_request \<Rightarrow> dated_search_result \<Rightarrow> search_response_item" where
  "dated_shown qe sx s rq r = search_item qe sx s (request_includes rq ''link_facts'') (dsr_result r)"

definition dated_ok :: "dated_request \<Rightarrow> bool" where
  "dated_ok d \<longleftrightarrow> (case d of (qe, sx, s, rq) \<Rightarrow> cursors_ok qe \<and> fts5_query_from_words (rq_q rq) = []
     \<and> (case rq_kind rq of None \<Rightarrow> True | Some t \<Rightarrow> t \<in> set ALL_TYPES) \<and> distinct (map se_rowid (t_search_entities s))
     \<and> list_all (\<lambda>e. is_i64 (se_rowid e) \<and> (case hit_date sx s e of None \<Rightarrow> True | Some t \<Rightarrow> is_i64 t)) (t_search_entities s))"

lemma not_d: "c \<in> set (show_int i) \<Longrightarrow> c \<noteq> CHR ''d''"
proof -
  have "c \<in> set (show_nat n) \<Longrightarrow> is_ascii_digit c" for n using digits_of_show_nat [of n] by (simp add: list_all_iff)
  moreover have "\<not> is_ascii_digit CHR ''d''" by (simp add: is_ascii_digit_def)
  ultimately show "c \<in> set (show_int i) \<Longrightarrow> c \<noteq> CHR ''d''" by (auto simp: show_int_def split: if_splits)
qed

lemma parse_dated_encoded:
  assumes "cursors_ok qe" "is_i64 (sr_rowid (dsr_result r))" "case dsr_date r of None \<Rightarrow> True | Some t \<Rightarrow> is_i64 t"
  shows "parse_search_cursor qe True (position_text qe True r) = Inr (ByDate (dsr_date r) (sr_rowid (dsr_result r)))"
proof -
  let ?date = "case dsr_date r of None \<Rightarrow> [] | Some d \<Rightarrow> show_int d"
  have digits: "list_all (\<lambda>c. byte c < 128 \<and> c \<noteq> NUL) ?date"
    using show_int_ascii by (auto simp: list_all_iff split: option.splits)
  then have date: "text_ok (CHR ''d'' # ?date)"
    by (auto simp: text_ok_def NUL_def list_all_iff intro!: utf8_valid_ascii)
  have rowid: "utf8_valid (show_int (sr_rowid (dsr_result r)))" using show_int_text by (simp add: text_ok_def)
  have skip: "dropWhile (\<lambda>c. c = CHR ''d'') (show_int d) = show_int d" for d
    using not_d [of _ d] by (cases "show_int d") auto
  have nonempty: "show_int d \<noteq> []" for d using digits_of_show_nat [of "nat d"] by (auto simp: show_int_def)
  show ?thesis
    using cursor_parts [OF assms(1) date rowid] assms(2,3)
    by (cases "dsr_date r") (simp_all add: parse_search_cursor_def position_text_def rbind_def starts_with_def parse_show_int date_position_def skip nonempty)
qed


lemma dated_page:
  assumes "dated_ok (qe, sx, s, rq)" "parse_optional (parse_search_cursor qe True) c = Inr p"
    and "filter (\<lambda>r. after_date (date_cursor p) (dated_position r)) (dated_list sx s rq) = rest"
  shows "\<exists>r. dated_ask (qe, sx, s, rq) c = Inr r \<and> page_law (\<lambda>_. True) (dated_shown qe sx s rq) (position_text qe True) rest r"
proof -
  let ?limit = "nat (clamp_limit SEARCH_LIMIT_MAX (limit_or 20 (rq_limit rq)))"
  have pos: "0 < ?limit" by (auto simp: clamp_limit_def SEARCH_LIMIT_MAX_def)
  let ?r = "\<lparr>qr_data = map (dated_shown qe sx s rq) (take ?limit rest), qr_pagination =
    \<lparr>pg_cursor = (if ?limit < length rest then Some (position_text qe True (last (take ?limit rest))) else None),
     pg_has_more = ?limit < length rest\<rparr>\<rparr>"
  have words: "fts5_query_from_words (rq_q rq) = []" using assms(1) by (simp add: dated_ok_def)
  have found: "found_rows sx s (rq\<lparr>rq_cursor := c\<rparr>) True (Suc ?limit) p = Inr (take (Suc ?limit) rest)"
    using assms(1) unfolding assms(3) [symmetric]
    by (auto simp: found_rows_def dated_ok_def search_by_date_def dated_list_def filter_sort Let_def split: option.splits)
  have last: "?limit < length rest \<Longrightarrow> rest ! (?limit - 1) = last (take ?limit rest)"
    using pos by (subst last_conv_nth) auto
  have "dated_ask (qe, sx, s, rq) c = Inr ?r"
    using found pos last by (simp add: dated_ask_def search_page_def words assms(2) rbind_def Let_def dated_shown_def request_includes_def comp_def)
  moreover have "page_law (\<lambda>_. True) (dated_shown qe sx s rq) (position_text qe True) rest ?r"
    by (rule take_page [OF pos]) simp_all
  ultimately show ?thesis by blast
qed

lemma dated_list_sorted:
  assumes "dated_ok (qe, sx, s, rq)"
  shows "sorted_wrt (\<lambda>a b. date_key (dated_position a) < date_key (dated_position b)) (dated_list sx s rq)"
  unfolding dated_list_def
proof (rule sorted_asc [where key = "\<lambda>r. date_key (dated_position r)"])
  have "distinct (map se_rowid (t_search_entities s))" using assms by (simp add: dated_ok_def)
  then have "distinct (map (\<lambda>r. sr_rowid (dsr_result r)) (map (dated_hit sx s) (t_search_entities s)))"
    by (simp add: dated_hit_def comp_def)
  then have "distinct (map (\<lambda>r. sr_rowid (dsr_result r)) (map (dated_hit sx s) (filter p (t_search_entities s))))" for p
    by (simp add: distinct_map_filter comp_def)
  then show "distinct (map (\<lambda>r. date_key (dated_position r)) (map (dated_hit sx s) (filter p (t_search_entities s))))" for p
    by (rule distinct_map_weaken) (auto simp: date_key_def dated_position_def split: option.splits)
qed

interpretation dated: cursor_list dated_ok dated_ask "\<lambda>(qe, sx, s, rq). dated_list sx s rq" "\<lambda>_ _. True"
  "\<lambda>(qe, sx, s, rq). dated_shown qe sx s rq" "\<lambda>(qe, sx, s, rq). position_text qe True"
proof (unfold_locales, goal_cases)
  case (1 d)
  obtain qe sx s rq where d: "d = (qe, sx, s, rq)" by (cases d)
  with 1 show ?case using dated_page [of qe sx s rq None None "dated_list sx s rq"]
    by (simp add: parse_optional_def date_cursor_def after_date_def split_def)
next
  case (2 d before row rest)
  obtain qe sx s rq where d: "d = (qe, sx, s, rq)" by (cases d)
  note ok = 2(1) [unfolded d]
  have rows: "dated_list sx s rq = before @ row # rest" using 2(2) by (simp add: d)
  have "row \<in> set (dated_list sx s rq)" using rows by simp
  then have "is_i64 (sr_rowid (dsr_result row))" "case dsr_date row of None \<Rightarrow> True | Some t \<Rightarrow> is_i64 t"
    using ok by (auto simp: dated_list_def dated_ok_def dated_hit_def list_all_iff)
  then have parsed: "parse_optional (parse_search_cursor qe True) (Some (position_text qe True row))
      = Inr (Some (ByDate (dsr_date row) (sr_rowid (dsr_result row))))"
    using ok parse_dated_encoded [of qe row] by (simp add: dated_ok_def parse_optional_def rbind_def)
  have "filter (\<lambda>r. date_key (dated_position row) < date_key (dated_position r)) (dated_list sx s rq) = rest"
    using dated_list_sorted [OF ok] unfolding rows by (rule rest_asc [where key = "\<lambda>r. date_key (dated_position r)"])
  then have "filter (\<lambda>r. after_date (date_cursor (Some (ByDate (dsr_date row) (sr_rowid (dsr_result row))))) (dated_position r)) (dated_list sx s rq) = rest"
    by (simp add: date_cursor_def after_date_key dated_position_def)
  from dated_page [OF ok parsed this] show ?case by (simp add: d)
qed

text \<open>
  C38: A client that follows the cursors of a search without words gets every row that the filters keep exactly once,
  the newest first and those without a date last, and comes to an end.
\<close>

theorem search_by_date_is_complete:
  assumes "cursors_ok qe" "fts5_query_from_words (rq_q rq) = []" "case rq_kind rq of None \<Rightarrow> True | Some t \<Rightarrow> t \<in> set ALL_TYPES"
    and "distinct (map se_rowid (t_search_entities s))"
    and "list_all (\<lambda>e. is_i64 (se_rowid e) \<and> (case hit_date sx s e of None \<Rightarrow> True | Some t \<Rightarrow> is_i64 t)) (t_search_entities s)"
    and "length (t_search_entities s) < n"
  shows "\<exists>pages. follow n (\<lambda>c. search_page qe sx s (rq\<lparr>rq_cursor := c\<rparr>)) None = Some pages
    \<and> concat pages = map (dated_shown qe sx s rq) (dated_list sx s rq)"
proof -
  have "length (dated_list sx s rq) < n"
    using le_less_trans [OF length_filter_le assms(6)] by (simp add: dated_list_def)
  then show ?thesis using dated.all_pages [of "(qe, sx, s, rq)" n] assms by (simp add: dated_ok_def dated_ask_def [abs_def])
qed

definition dated_db :: db where
  "dated_db = reading_db\<lparr>t_search_entities := [\<lparr>se_rowid = 1, se_entity_type = ''feed'', se_entity_id = ''g1''\<rparr>,
     \<lparr>se_rowid = 2, se_entity_type = ''feed'', se_entity_id = ''g2''\<rparr>]\<rparr>"

definition dated_request :: search_request where
  "dated_request = \<lparr>rq_q = [], rq_kind = Some ''feed'', rq_limit = Some 1, rq_cursor = None, rq_include = None,
     rq_filters = no_filters\<lparr>sf_values := no_values\<lparr>vf_min_tracks := Some 1\<rparr>\<rparr>\<rparr>"

theorem search_by_date_is_complete_witness:
  "\<exists>pages. follow 3 (\<lambda>c. search_page plain_query plain_engine dated_db (dated_request\<lparr>rq_cursor := c\<rparr>)) None = Some pages
    \<and> map sri_entity_id (concat pages) = [''g2'', ''g1'']"
proof -
  have words: "fts5_query_from_words (rq_q dated_request) = []" by code_simp
  have feeds: "hit_feed plain_engine dated_db \<lparr>se_rowid = 1, se_entity_type = ''feed'', se_entity_id = ''g1''\<rparr> = Some (feed_row_of (\<lambda>t. t) (\<lambda>u. None) sample_feed)"
    "hit_feed plain_engine dated_db \<lparr>se_rowid = 2, se_entity_type = ''feed'', se_entity_id = ''g2''\<rparr> = Some (feed_row_of (\<lambda>t. t) (\<lambda>u. None) newer_feed)"
    by (simp_all add: hit_feed_def dated_db_def reading_db_def lookup_by_def feed_row_of_def sample_feed_def newer_feed_def label_feed_def feed.defs)
  have dates: "hit_date plain_engine dated_db \<lparr>se_rowid = 1, se_entity_type = ''feed'', se_entity_id = ''g1''\<rparr> = None"
    "hit_date plain_engine dated_db \<lparr>se_rowid = 2, se_entity_type = ''feed'', se_entity_id = ''g2''\<rparr> = Some 7"
    by (simp_all add: hit_date_def feeds) (simp_all add: feed_row_of_def sample_feed_def newer_feed_def feed.defs)
  have kept: "filters_hold plain_engine dated_db (rq_filters dated_request) ''feed'' e" if "e \<in> set (t_search_entities dated_db)" for e
    using that by (auto simp: dated_db_def filters_hold_def dated_request_def no_filters_def no_values_def values_hold_def Let_def within_def feeds [unfolded dated_db_def])
      (simp_all add: feed_row_of_def sample_feed_def newer_feed_def feed.defs)
  have "map (\<lambda>r. sr_entity_id (dsr_result r)) (dated_list plain_engine dated_db dated_request) = [''g2'', ''g1'']"
    using kept by (simp add: dated_list_def dated_request_def dated_db_def dated_position_def dated_hit_def date_key_def dates [unfolded dated_db_def] cong: filter_cong)
  moreover have "sri_entity_id (dated_shown plain_query plain_engine dated_db dated_request r) = sr_entity_id (dsr_result r)" for r
    by (simp add: dated_shown_def search_item_def plain_engine_def bare_item_def with_feed_summary_def split: option.split)
  ultimately show ?thesis
    using search_by_date_is_complete [OF plain_cursors words, of dated_db plain_engine 3] dates
    by (auto simp: dated_request_def ALL_TYPES_def dated_db_def is_i64_def i64_min_def i64_max_def)
qed

end
