(* ===== verification/Records.thy ===== *)
theory Records
  imports Names
begin

text \<open>
  The other reads of \<^verbatim>\<open>src/query.rs\<close>: the history of the payment recipients of a feed, the copies of a
  feed, the search of a publisher text, the counts of publisher links, the peers and the capabilities.
\<close>

section \<open>Route history\<close>

datatype route_history_subject = FeedSubject | TrackSubject

record route_history_entry =
  rh_subject :: route_history_subject
  rh_track_guid :: "string option"
  rh_event_id :: string
  rh_seq :: int
  rh_changed_at :: int
  rh_old_recipients :: "route_recipient list option"
  rh_new_recipients :: "route_recipient list"

definition ROUTE_HISTORY_MAX_ENTRIES :: nat where "ROUTE_HISTORY_MAX_ENTRIES = 1000"

text \<open>The subject of an event and its recipients; no other event has a place in the history.\<close>

definition routes_of_event :: "event \<Rightarrow> (string option \<times> route_recipient list) option" where
  "routes_of_event ev = (case ev_payload ev of
       FeedRoutesReplacedP p \<Rightarrow> Some (None, feed_recipient_set (frr_routes p))
     | RoutesReplacedP p \<Rightarrow> Some (Some (rrp_track_guid p), recipient_set (rrp_routes p))
     | TrackUpsertedP p \<Rightarrow> Some (Some (tr_track_guid (tu_track p)), recipient_set (tu_routes p))
     | _ \<Rightarrow> None)"

text \<open>The last set of each subject: \<open>None\<close> is the feed, \<open>Some\<close> a track.\<close>

type_synonym last_sets = "string option \<Rightarrow> route_recipient list option"

fun history_loop :: "event list \<Rightarrow> last_sets \<Rightarrow> route_history_entry list" where
  "history_loop [] last_sets = []"
| "history_loop (ev # events) last_sets = (case routes_of_event ev of
       None \<Rightarrow> history_loop events last_sets
     | Some (track_guid, new_set) \<Rightarrow>
         if last_sets track_guid = Some new_set then history_loop events last_sets
         else \<lparr>rh_subject = (if track_guid = None then FeedSubject else TrackSubject), rh_track_guid = track_guid,
             rh_event_id = ev_event_id ev, rh_seq = ev_seq ev, rh_changed_at = ev_created_at ev,
             rh_old_recipients = last_sets track_guid, rh_new_recipients = new_set\<rparr>
           # history_loop events (last_sets(track_guid := Some new_set)))"

definition build_route_history_entries :: "event list \<Rightarrow> route_history_entry list" where
  "build_route_history_entries events = history_loop events (\<lambda>_. None)"

text \<open>
  The rows of the query: the feed of a track event is read out of its JSON text (\<^verbatim>\<open>json\_extract\<close>), the
  argument \<open>extract\<close>.
\<close>

definition in_route_history :: "(string \<Rightarrow> string \<Rightarrow> string option) \<Rightarrow> string \<Rightarrow> event_row \<Rightarrow> bool" where
  "in_route_history extract feed_guid r \<longleftrightarrow>
     er_event_type r = FeedRoutesReplaced \<and> er_subject_guid r = feed_guid
     \<or> er_event_type r = RoutesReplaced \<and> extract (er_payload_json r) ''$.feed_guid'' = Some feed_guid
     \<or> er_event_type r = TrackUpserted \<and> extract (er_payload_json r) ''$.track.feed_guid'' = Some feed_guid"

definition get_route_history_events_for_feed ::
  "(event_type \<Rightarrow> string \<Rightarrow> event_payload option) \<Rightarrow> (string \<Rightarrow> string \<Rightarrow> string option) \<Rightarrow> db \<Rightarrow> string \<Rightarrow> db_error + event list" where
  "get_route_history_events_for_feed parse extract s feed_guid =
     rmap (event_of_row parse) (List.sort_key er_seq (filter (in_route_history extract feed_guid) (t_events s)))"

definition handle_get_route_history ::
  "(event_type \<Rightarrow> string \<Rightarrow> event_payload option) \<Rightarrow> (string \<Rightarrow> string \<Rightarrow> string option) \<Rightarrow> db \<Rightarrow> string
    \<Rightarrow> api_error + route_history_entry list query_response" where
  "handle_get_route_history parse extract s feed_guid =
     (case get_route_history_events_for_feed parse extract s feed_guid of
        Inl e \<Rightarrow> Inl (api_error_of e)
      | Inr events \<Rightarrow> let entries = build_route_history_entries events in
          if entries = [] then Inl (api_error 404 ''no route history for this feed'')
          else Inr (one_page (drop (length entries - ROUTE_HISTORY_MAX_ENTRIES) entries)))"

section \<open>The copies of a feed\<close>

record feed_copy_resolution_response =
  fcr_decision :: string
  fcr_reason :: string
  fcr_resolved_at :: int
  fcr_current :: bool

record copy_remote_item_response =
  cir_medium :: "string option"
  cir_feed_guid :: string
  cir_feed_url :: "string option"
  cir_item_guid :: "string option"
  cir_resolved_feed_guid :: "string option"
  cir_remote_feed_title :: "string option"
  cir_remote_feed_image_url :: "string option"
  cir_remote_release_artist :: "string option"
  cir_remote_release_artist_source :: "string option"
  cir_remote_episode_count :: "int option"

record feed_copy_response =
  fcp_url :: string
  fcp_first_seen :: int
  fcp_last_seen :: "int option"
  fcp_title :: string
  fcp_item_guids :: "string list"
  fcp_item_titles :: "string option list option"
  fcp_image_url :: "string option"
  fcp_item_durations :: "int option list option"
  fcp_item_enclosure_urls :: "string option list option"
  fcp_item_pub_dates :: "int option list option"
  fcp_author :: "string option"
  fcp_differs_tracks :: bool
  fcp_differs_recipients :: bool
  fcp_differs_remote_items :: bool
  fcp_guid_origin :: bool
  fcp_open :: bool
  fcp_feed_recipients :: "route_recipient list"
  fcp_track_recipients :: "(string \<times> route_recipient list) list"
  fcp_remote_items :: "copy_remote_item_response list option"
  fcp_resolution :: "feed_copy_resolution_response option"

definition copy_resolution :: "feed_copy_row \<Rightarrow> feed_copy_resolution_response option" where
  "copy_resolution row = map_option (\<lambda>decision. \<lparr>fcr_decision = decision,
     fcr_reason = the_text (fcy_resolution_reason row),
     fcr_resolved_at = (case fcy_resolved_at row of None \<Rightarrow> 0 | Some t \<Rightarrow> t), fcr_current = copy_resolution_holds row\<rparr>) (fcy_resolution row)"

definition copy_remote_item_response_of :: "query_env \<Rightarrow> db \<Rightarrow> copy_remote_item \<Rightarrow> copy_remote_item_response" where
  "copy_remote_item_response_of qe s item =
     (let resolved = resolved_guid (resolve_listed_feed s (cri_feed_guid item) (cri_feed_url item));
          summary = named_feed_summary qe s resolved
      in \<lparr>cir_medium = cri_medium item, cir_feed_guid = cri_feed_guid item, cir_feed_url = web_url qe (cri_feed_url item),
          cir_item_guid = cri_item_guid item, cir_resolved_feed_guid = resolved,
          cir_remote_feed_title = nf_title summary, cir_remote_feed_image_url = nf_image_url summary,
          cir_remote_release_artist = nf_release_artist summary,
          cir_remote_release_artist_source = nf_release_artist_source summary,
          cir_remote_episode_count = nf_episode_count summary\<rparr>)"

definition build_feed_copy_response :: "query_env \<Rightarrow> (string \<Rightarrow> string) \<Rightarrow> db \<Rightarrow> string \<Rightarrow> feed_copy_row \<Rightarrow> feed_copy_response" where
  "build_feed_copy_response qe uuid5 s feed_guid row =
     (let (differs_tracks, differs_recipients, differs_remote_items) = copy_differences s feed_guid row;
          summary = fcy_summary row
      in \<lparr>fcp_url = fcy_url row, fcp_first_seen = fcy_first_seen row, fcp_last_seen = fcy_last_seen row,
          fcp_title = cs_title summary, fcp_item_guids = cs_item_guids summary, fcp_item_titles = cs_item_titles summary,
          fcp_image_url = web_url qe (cs_image_url summary), fcp_item_durations = cs_item_durations summary,
          fcp_item_enclosure_urls = map_option (map (web_url qe)) (cs_item_enclosure_urls summary),
          fcp_item_pub_dates = cs_item_pub_dates summary, fcp_author = cs_author summary,
          fcp_differs_tracks = differs_tracks, fcp_differs_recipients = differs_recipients,
          fcp_differs_remote_items = differs_remote_items, fcp_guid_origin = guid_origin_matches uuid5 feed_guid (fcy_url row),
          fcp_open = is_open_copy differs_tracks differs_recipients differs_remote_items row,
          fcp_feed_recipients = cs_feed_recipients summary, fcp_track_recipients = cs_track_recipients summary,
          fcp_remote_items = map_option (map (copy_remote_item_response_of qe s)) (cs_remote_items summary),
          fcp_resolution = copy_resolution row\<rparr>)"

text \<open>The answer with the counter of the copies over the limit.\<close>

definition handle_get_feed_copies ::
  "query_env \<Rightarrow> (string \<Rightarrow> string) \<Rightarrow> db \<Rightarrow> string \<Rightarrow> api_error + feed_copy_response list query_response \<times> int" where
  "handle_get_feed_copies qe uuid5 s feed_guid = (case get_feed_by_guid s feed_guid of
       None \<Rightarrow> Inl (api_error 404 ''feed not found'')
     | Some _ \<Rightarrow> Inr (one_page (map (build_feed_copy_response qe uuid5 s feed_guid) (list_feed_copies s feed_guid)),
         get_copy_overflow s feed_guid))"

section \<open>A publisher text\<close>

definition like_contains_pattern :: "string \<Rightarrow> string" where
  "like_contains_pattern v = ''%'' @ concat (map (\<lambda>c. if c \<in> {CHR 0x5C, CHR ''%'', CHR ''_''} then [CHR 0x5C, c] else [c]) v) @ ''%''"

text \<open>
  SQLite's \<^verbatim>\<open>LIKE\<close> with a backslash as \<^verbatim>\<open>ESCAPE\<close>: ASCII letters match in both cases, a lone backslash at the
  end of the pattern matches nothing. An underscore takes one character with its continuation bytes.
\<close>

definition skip_char :: "string \<Rightarrow> string" where
  "skip_char t = dropWhile is_continuation (tl t)"

function sql_like :: "string \<Rightarrow> string \<Rightarrow> bool" where
  "sql_like [] t = (t = [])"
| "sql_like (c # p) t =
     (if c = CHR ''%'' then sql_like p t \<or> (if t = [] then False else sql_like (c # p) (tl t))
      else if t = [] then False
      else if c = CHR 0x5C then (case p of [] \<Rightarrow> False | d # p' \<Rightarrow> ascii_lower d = ascii_lower (hd t) \<and> sql_like p' (tl t))
      else if c = CHR ''_'' then sql_like p (skip_char t)
      else ascii_lower c = ascii_lower (hd t) \<and> sql_like p (tl t))"
  by pat_completeness auto
termination
  by (relation "measure (\<lambda>(p, t). length p + length t)") (auto simp: neq_Nil_conv skip_char_def intro: le_less_trans [OF length_dropWhile_le])

declare sql_like.simps [simp del]

text \<open>\<^verbatim>\<open>instr(text, part) > 0\<close>.\<close>

fun contains_text :: "string \<Rightarrow> string \<Rightarrow> bool" where
  "contains_text [] part = (part = [])"
| "contains_text (c # t) part = (starts_with (c # t) part \<or> contains_text t part)"

definition publisher_matches :: "bool \<Rightarrow> string \<Rightarrow> string option \<Rightarrow> bool" where
  "publisher_matches case_sensitive q publisher = (case publisher of None \<Rightarrow> False
     | Some p \<Rightarrow> if case_sensitive then contains_text p q else sql_like (like_contains_pattern q) p)"

record publisher_search_item =
  psi_publisher_text :: string
  psi_feed_count :: int
  psi_track_count :: int

definition named_publishers :: "db \<Rightarrow> bool \<Rightarrow> string \<Rightarrow> string list" where
  "named_publishers s case_sensitive q = List.map_filter (\<lambda>f. if fe_publisher f \<noteq> Some [] \<and> has_medium ''music'' f
     \<and> (case_sensitive \<and> q = [] \<or> publisher_matches case_sensitive q (fe_publisher f)) then fe_publisher f else None) (t_feeds s)"

text \<open>\<^verbatim>\<open>GROUP BY publisher ORDER BY feed\_count DESC, publisher ASC\<close>.\<close>

definition publisher_groups :: "string list \<Rightarrow> (string \<times> int) list" where
  "publisher_groups names = List.sort_key (\<lambda>(p, n). (- n, p)) (map (\<lambda>p. (p, int (count_list names p))) (remdups names))"

definition publisher_search_item_of :: "db \<Rightarrow> string \<times> int \<Rightarrow> publisher_search_item" where
  "publisher_search_item_of s g = (case g of (p, n) \<Rightarrow> \<lparr>psi_publisher_text = p, psi_feed_count = n,
     psi_track_count = int (length (filter (\<lambda>t. tr_publisher t = Some p) (t_tracks s)))\<rparr>)"

record publisher_search_query =
  psq_q :: "string option"
  psq_limit :: "int option"
  psq_case_sensitive :: "bool option"

definition handle_publisher_search :: "db \<Rightarrow> publisher_search_query \<Rightarrow> publisher_search_item list query_response" where
  "handle_publisher_search s params =
     (let limit = nat (clamp_limit SEARCH_LIMIT_MAX (limit_or 20 (psq_limit params)));
          groups = take (Suc limit) (publisher_groups (named_publishers s (psq_case_sensitive params = Some True) (the_text (psq_q params))))
      in \<lparr>qr_data = map (publisher_search_item_of s) (take limit groups),
          qr_pagination = \<lparr>pg_cursor = None, pg_has_more = length groups > limit\<rparr>\<rparr>)"

record publisher_feed_summary =
  pfs_feed_guid :: string
  pfs_feed_url :: string
  pfs_title :: string
  pfs_image_url :: "string option"
  pfs_episode_count :: int
  pfs_raw_medium :: "string option"

record publisher_track_summary =
  pts_track_guid :: string
  pts_feed_guid :: string
  pts_title :: string
  pts_image_url :: "string option"
  pts_duration_secs :: "int option"
  pts_track_number :: "int option"
  pts_track_image_url :: "string option"
  pts_feed_image_url :: "string option"

record publisher_detail_response =
  pdr_publisher_text :: string
  pdr_feeds :: "publisher_feed_summary list"
  pdr_tracks :: "publisher_track_summary list"

text \<open>\<^verbatim>\<open>ORDER BY ... DESC\<close> on a column that may be NULL, the least value.\<close>

definition latest_first :: "('r \<Rightarrow> int option) \<Rightarrow> 'r list \<Rightarrow> 'r list" where
  "latest_first date rows = List.sort_key (\<lambda>r. (date r = None, (case date r of None \<Rightarrow> 0 | Some d \<Rightarrow> - d))) rows"

definition publisher_feed_summary_of :: "query_env \<Rightarrow> feed_row \<Rightarrow> publisher_feed_summary" where
  "publisher_feed_summary_of qe f = \<lparr>pfs_feed_guid = fe_feed_guid f, pfs_feed_url = fe_feed_url f, pfs_title = fe_title f,
     pfs_image_url = web_url qe (fe_image_url f), pfs_episode_count = fe_episode_count f, pfs_raw_medium = fe_raw_medium f\<rparr>"

definition publisher_track_summary_of :: "query_env \<Rightarrow> track_row \<Rightarrow> publisher_track_summary" where
  "publisher_track_summary_of qe r = (case r of (t, f) \<Rightarrow> \<lparr>pts_track_guid = tr_track_guid t, pts_feed_guid = tr_feed_guid t,
     pts_title = tr_title t, pts_image_url = web_url qe (row_image r), pts_duration_secs = tr_duration_secs t,
     pts_track_number = tr_track_number t, pts_track_image_url = web_url qe (tr_image_url t),
     pts_feed_image_url = web_url qe (feed_image r)\<rparr>)"

definition publisher_feeds :: "db \<Rightarrow> bool \<Rightarrow> string \<Rightarrow> feed_row list" where
  "publisher_feeds s case_sensitive p = latest_first fe_newest_item_at
     (filter (\<lambda>f. publisher_matches case_sensitive p (fe_publisher f) \<and> has_medium ''music'' f) (t_feeds s))"

definition publisher_tracks :: "db \<Rightarrow> bool \<Rightarrow> string \<Rightarrow> track_row list" where
  "publisher_tracks s case_sensitive p = latest_first (\<lambda>r. tr_pub_date (fst r))
     (filter (\<lambda>(t, f). publisher_matches case_sensitive p (tr_publisher t) \<and> is_some_and (has_medium ''music'') f) (map (track_row_of s) (t_tracks s)))"

record publisher_detail_query =
  pdq_limit :: "int option"
  pdq_case_sensitive :: "bool option"

definition handle_publisher_detail ::
  "query_env \<Rightarrow> db \<Rightarrow> string \<Rightarrow> publisher_detail_query \<Rightarrow> publisher_detail_response query_response" where
  "handle_publisher_detail qe s publisher params =
     (let limit = nat (clamp_limit LIST_LIMIT_MAX (limit_or 50 (pdq_limit params)))
      in one_page \<lparr>pdr_publisher_text = publisher,
           pdr_feeds = map (publisher_feed_summary_of qe) (take limit (publisher_feeds s (pdq_case_sensitive params = Some True) publisher)),
           pdr_tracks = map (publisher_track_summary_of qe) (take limit (publisher_tracks s (pdq_case_sensitive params = Some True) publisher))\<rparr>)"

definition handle_publisher_link_stats :: "db \<Rightarrow> publisher_link_stats query_response" where
  "handle_publisher_link_stats s = one_page (get_publisher_link_stats s)"

section \<open>Peers\<close>

record peer_response =
  per_node_pubkey :: string
  per_node_url :: string
  per_last_push_at :: "int option"

definition handle_get_peers :: "db \<Rightarrow> peer_response list" where
  "handle_get_peers s = map (\<lambda>p. \<lparr>per_node_pubkey = pn_node_pubkey p, per_node_url = pn_node_url p, per_last_push_at = pn_last_push_at p\<rparr>)
     (List.sort_key pn_node_pubkey (t_peer_nodes s))"

end
