(* ===== verification/Recorded.thy ===== *)
theory Recorded
  imports Records Samples
begin

text \<open>
  What the reads of \<^verbatim>\<open>Records\<close> promise: the history of recipients is a chain, and a publisher search treats the
  text of the client as text.
\<close>

section \<open>A publisher text\<close>

definition like_literal :: "string \<Rightarrow> string" where
  "like_literal v = concat (map (\<lambda>c. if c \<in> {CHR 0x5C, CHR ''%'', CHR ''_''} then [CHR 0x5C, c] else [c]) v)"

lemma like_literal_then:
  "sql_like (like_literal v @ p) t \<longleftrightarrow> (\<exists>b c. t = b @ c \<and> map ascii_lower b = map ascii_lower v \<and> sql_like p c)"
proof (induction v arbitrary: t)
  case Nil
  then show ?case by (simp add: like_literal_def)
next
  case (Cons x v)
  have "sql_like (like_literal (x # v) @ p) t \<longleftrightarrow> t \<noteq> [] \<and> ascii_lower x = ascii_lower (hd t) \<and> sql_like (like_literal v @ p) (tl t)"
    by (auto simp: like_literal_def sql_like.simps)
  also have "\<dots> \<longleftrightarrow> (\<exists>b c. t = b @ c \<and> map ascii_lower b = map ascii_lower (x # v) \<and> sql_like p c)"
    unfolding Cons.IH
  proof (rule iffI)
    assume "t \<noteq> [] \<and> ascii_lower x = ascii_lower (hd t) \<and> (\<exists>b c. tl t = b @ c \<and> map ascii_lower b = map ascii_lower v \<and> sql_like p c)"
    then obtain b c where "t = (hd t # b) @ c" "map ascii_lower (hd t # b) = map ascii_lower (x # v)" "sql_like p c" by (cases t) auto
    then show "\<exists>b c. t = b @ c \<and> map ascii_lower b = map ascii_lower (x # v) \<and> sql_like p c" by blast
  next
    assume "\<exists>b c. t = b @ c \<and> map ascii_lower b = map ascii_lower (x # v) \<and> sql_like p c"
    then show "t \<noteq> [] \<and> ascii_lower x = ascii_lower (hd t) \<and> (\<exists>b c. tl t = b @ c \<and> map ascii_lower b = map ascii_lower v \<and> sql_like p c)"
      by (fastforce simp: map_eq_Cons_conv)
  qed
  finally show ?case .
qed

lemma like_percent: "sql_like (CHR ''%'' # p) t \<longleftrightarrow> (\<exists>a c. t = a @ c \<and> sql_like p c)"
proof (induction t)
  case Nil
  then show ?case by (simp add: sql_like.simps)
next
  case (Cons x t)
  have "sql_like (CHR ''%'' # p) (x # t) \<longleftrightarrow> sql_like p (x # t) \<or> sql_like (CHR ''%'' # p) t" by (subst sql_like.simps) simp
  with Cons.IH show ?case by (auto simp: Cons_eq_append_conv)
qed


section \<open>Route history\<close>

definition sets_of :: "event list \<Rightarrow> string option \<Rightarrow> route_recipient list list" where
  "sets_of events subject = map snd (filter (\<lambda>p. fst p = subject) (List.map_filter routes_of_event events))"

definition entries_of :: "route_history_entry list \<Rightarrow> string option \<Rightarrow> route_history_entry list" where
  "entries_of entries subject = filter (\<lambda>e. rh_track_guid e = subject) entries"

lemma sets_of_step:
  "routes_of_event ev = None \<Longrightarrow> sets_of (ev # events) subject = sets_of events subject"
  "routes_of_event ev = Some (t, x) \<Longrightarrow> sets_of (ev # events) subject = (if t = subject then x # sets_of events subject else sets_of events subject)"
  by (simp_all add: sets_of_def List.map_filter_def)

lemma entries_of_step: "entries_of (e # es) subject = (if rh_track_guid e = subject then e # entries_of es subject else entries_of es subject)"
  by (simp add: entries_of_def)

lemma remdups_adj_step: "remdups_adj (x # y # zs) = (if x = y then remdups_adj (y # zs) else x # remdups_adj (y # zs))"
  by simp

lemma history_step:
  assumes "routes_of_event ev = Some (t, x)" "last_sets t \<noteq> Some x"
  shows "\<exists>e. history_loop (ev # events) last_sets = e # history_loop events (last_sets(t := Some x))
    \<and> rh_track_guid e = t \<and> rh_old_recipients e = last_sets t \<and> rh_new_recipients e = x"
  unfolding history_loop.simps assms(1) option.case prod.case if_not_P [OF assms(2)]
  by (intro exI conjI, rule refl) simp_all

lemma history_loop_new:
  "map rh_new_recipients (entries_of (history_loop events last_sets) subject)
    = (case last_sets subject of None \<Rightarrow> remdups_adj (sets_of events subject) | Some x \<Rightarrow> tl (remdups_adj (x # sets_of events subject)))"
proof (induction events arbitrary: last_sets)
  case (Cons ev events)
  show ?case
  proof (cases "routes_of_event ev")
    case (Some p)
    obtain t x where p: "p = (t, x)" by (cases p)
    note ev = Some [unfolded p]
    note step = sets_of_step(2) [OF ev, of events subject]
    show ?thesis
    proof (cases "last_sets t = Some x")
      case True
      then show ?thesis unfolding step using Cons.IH [of last_sets] ev by (cases "t = subject") simp_all
    next
      case False
      have head: "x # tl (remdups_adj (x # ys)) = remdups_adj (x # ys)" for ys :: "route_recipient list list"
        by (simp add: remdups_adj_Cons split: list.split)
      define es where "es = entries_of (history_loop events (last_sets(t := Some x))) subject"
      have new: "map rh_new_recipients es = (case (if t = subject then Some x else last_sets subject) of
          None \<Rightarrow> remdups_adj (sets_of events subject) | Some x \<Rightarrow> tl (remdups_adj (x # sets_of events subject)))"
        using Cons.IH [of "last_sets(t := Some x)"] unfolding es_def [symmetric] by (cases "t = subject") simp_all
      obtain e where e: "history_loop (ev # events) last_sets = e # history_loop events (last_sets(t := Some x))"
        "rh_track_guid e = t" "rh_new_recipients e = x"
        using history_step [of ev t x last_sets events, OF ev False] by blast
      have "map rh_new_recipients (entries_of (history_loop (ev # events) last_sets) subject)
        = (if t = subject then x # map rh_new_recipients es else map rh_new_recipients es)"
        unfolding e(1) entries_of_step e(2) es_def [symmetric] by (simp add: e(3))
      then show ?thesis
        unfolding step new using False head by (cases "t = subject"; cases "last_sets subject") (simp_all del: remdups_adj.simps add: remdups_adj_step)
    qed
  next
    case None
    then show ?thesis unfolding sets_of_step(1) [OF None] using Cons.IH by simp
  qed
qed (simp add: entries_of_def sets_of_def List.map_filter_def split: option.split)

lemma history_loop_old:
  "map rh_old_recipients (entries_of (history_loop events last_sets) subject)
    = butlast (last_sets subject # map (\<lambda>e. Some (rh_new_recipients e)) (entries_of (history_loop events last_sets) subject))"
proof (induction events arbitrary: last_sets)
  case (Cons ev events)
  show ?case
  proof (cases "routes_of_event ev")
    case (Some p)
    obtain t x where p: "p = (t, x)" by (cases p)
    note ev = Some [unfolded p]
    show ?thesis
    proof (cases "last_sets t = Some x")
      case True
      then show ?thesis using Cons.IH [of last_sets] ev by simp
    next
      case False
      define es where "es = entries_of (history_loop events (last_sets(t := Some x))) subject"
      have "map rh_old_recipients es = butlast ((if t = subject then Some x else last_sets subject) # map (\<lambda>e. Some (rh_new_recipients e)) es)"
        using Cons.IH [of "last_sets(t := Some x)"] unfolding es_def [symmetric] by (cases "t = subject") simp_all
      moreover obtain e where e: "history_loop (ev # events) last_sets = e # history_loop events (last_sets(t := Some x))"
        "rh_track_guid e = t" "rh_old_recipients e = last_sets t" "rh_new_recipients e = x"
        using history_step [of ev t x last_sets events, OF ev False] by blast
      moreover have "entries_of (history_loop (ev # events) last_sets) subject = (if t = subject then e # es else es)"
        unfolding e(1) entries_of_step e(2) es_def [symmetric] ..
      ultimately show ?thesis by (cases "t = subject") simp_all
    qed
  qed (use Cons.IH in simp)
qed (simp add: entries_of_def)

text \<open>
  C40: The route history of a feed lists, for the feed and for each of its tracks, the recipient sets of their events
  in order with equal neighbours merged, and each entry names as its old set the set of the entry before.
\<close>

theorem route_history_is_a_chain:
  "map rh_new_recipients (entries_of (build_route_history_entries events) subject) = remdups_adj (sets_of events subject)
    \<and> map rh_old_recipients (entries_of (build_route_history_entries events) subject)
      = butlast (None # map Some (remdups_adj (sets_of events subject)))"
proof -
  have "map rh_new_recipients (entries_of (build_route_history_entries events) subject) = remdups_adj (sets_of events subject)"
    by (simp add: build_route_history_entries_def history_loop_new)
  moreover have "map (\<lambda>e. Some (rh_new_recipients e)) es = map Some (map rh_new_recipients es)" for es by simp
  ultimately show ?thesis
    using history_loop_old [of events "\<lambda>_. None" subject] unfolding build_route_history_entries_def by metis
qed

end
