(* ===== verification/Spec2Isabelle.thy ===== *)
theory Spec2Isabelle
  imports Delivery Verify Replicated Admitted Polled Guarded Searched Recorded
begin

text \<open>
  A model of the music index server of this repository (\<^verbatim>\<open>src/src\<close>, Rust) with the properties that
  make it correct.

  The program. A \<^emph>\<open>primary\<close> accepts parsed feeds from crawlers (\<^verbatim>\<open>POST /ingest/feed\<close>), checks them in a
  chain of verifiers, stores them in SQLite in one transaction, signs an event for every change, numbers
  it in an append-only log, and sends it to \<^emph>\<open>community nodes\<close>, which verify each event and repeat the
  change in a database of their own. Both kinds of node answer the read routes.

  \<^bold>\<open>The theories and the code.\<close>
  \<^item> \<^verbatim>\<open>Prelude\<close>, \<^verbatim>\<open>Strings\<close>, \<^verbatim>\<open>Tables\<close>: 64-bit integers with their wrap-around, \<^verbatim>\<open>str\<close> methods on UTF-8 bytes,
    \<^verbatim>\<open>BTreeMap\<close> as sorted lists, and the lemma collections.
  \<^item> \<^verbatim>\<open>Medium\<close>, \<^verbatim>\<open>Ingest\<close>, \<^verbatim>\<open>Model\<close>, \<^verbatim>\<open>Summary\<close>, \<^verbatim>\<open>Event\<close>, \<^verbatim>\<open>Signing\<close>: the data of \<^verbatim>\<open>medium.rs\<close>, \<^verbatim>\<open>ingest.rs\<close>, \<^verbatim>\<open>model.rs\<close>,
    \<^verbatim>\<open>event.rs\<close>, and \<^verbatim>\<open>signing.rs\<close>.
  \<^item> \<^verbatim>\<open>Rows\<close>, \<^verbatim>\<open>Store\<close>, \<^verbatim>\<open>Replace\<close>, \<^verbatim>\<open>Registry\<close>, \<^verbatim>\<open>Moves\<close>, \<^verbatim>\<open>Delete\<close>, \<^verbatim>\<open>Retire\<close>: the database of \<^verbatim>\<open>db.rs\<close>. Its state is the
    record \<^verbatim>\<open>db\<close>, one list of rows for each table in row-id order; a call is a state-and-error function
    whose statements check the table's \<^verbatim>\<open>CHECK\<close>, \<^verbatim>\<open>UNIQUE\<close> and \<^verbatim>\<open>FOREIGN KEY\<close> clauses, and a transaction gives
    the state back when it fails.
  \<^item> \<^verbatim>\<open>Search\<close>, \<^verbatim>\<open>Quality\<close>, \<^verbatim>\<open>Live\<close>: the read models of \<^verbatim>\<open>search.rs\<close> and \<^verbatim>\<open>quality.rs\<close>, and the rules of
    \<^verbatim>\<open>live.rs\<close>.
  \<^item> \<^verbatim>\<open>Diff\<close>, \<^verbatim>\<open>IngestTx\<close>, \<^verbatim>\<open>Verify\<close>, \<^verbatim>\<open>Stage\<close>, \<^verbatim>\<open>Observe\<close>, \<^verbatim>\<open>Admit\<close>, \<^verbatim>\<open>Handle\<close>: an ingest, from the handler of \<^verbatim>\<open>api.rs\<close>
    over \<^verbatim>\<open>verify.rs\<close> and \<^verbatim>\<open>verifiers/\<close> to \<^verbatim>\<open>ingest_transaction\<close> of \<^verbatim>\<open>db.rs\<close> with the events it builds.
  \<^item> \<^verbatim>\<open>Apply\<close>, \<^verbatim>\<open>Sse\<close>, \<^verbatim>\<open>SyncServer\<close>, \<^verbatim>\<open>Community\<close>: replication, \<^verbatim>\<open>apply.rs\<close>, the event channels and the sync
    endpoints of \<^verbatim>\<open>api.rs\<close>, \<^verbatim>\<open>sync.rs\<close>, and the poll loop of \<^verbatim>\<open>community.rs\<close>.
  \<^item> \<^verbatim>\<open>Guard\<close>: the addresses and the fetch of \<^verbatim>\<open>fetch_guard.rs\<close>.
  \<^item> \<^verbatim>\<open>Reads\<close>, \<^verbatim>\<open>Publisher\<close>, \<^verbatim>\<open>View\<close>, \<^verbatim>\<open>Detail\<close>, \<^verbatim>\<open>Lists\<close>, \<^verbatim>\<open>Names\<close>, \<^verbatim>\<open>Find\<close>, \<^verbatim>\<open>Request\<close>, \<^verbatim>\<open>Records\<close>: the read routes of \<^verbatim>\<open>query.rs\<close>.

  \<^bold>\<open>The lemmas.\<close>
  \<^item> \<^verbatim>\<open>Integrity\<close>, \<^verbatim>\<open>Frames\<close>: each call keeps the constraints of the schema, on success and on failure, and
    leaves the tables alone that it does not name. \<^verbatim>\<open>Delete\<close> and \<^verbatim>\<open>Retire\<close> hold the lemmas on what a deletion
    leaves, \<^verbatim>\<open>Search\<close> and \<^verbatim>\<open>Quality\<close> those on the content of the index.
  \<^item> \<^verbatim>\<open>Written\<close>, \<^verbatim>\<open>Ingested\<close>, \<^verbatim>\<open>Staged\<close>, \<^verbatim>\<open>Admitted\<close>: what an ingest stores and logs, and which request may
    change the content of the index.
  \<^item> \<^verbatim>\<open>Sync\<close>, \<^verbatim>\<open>Delivery\<close>, \<^verbatim>\<open>Converge\<close>, \<^verbatim>\<open>Replicated\<close>, \<^verbatim>\<open>Served\<close>, \<^verbatim>\<open>Polled\<close>: what an applied event, a batch, a whole
    ingest, a reconciliation and a polling node give; \<^verbatim>\<open>Spec2Isabelle\<close> adds the page that is replicated.
  \<^item> \<^verbatim>\<open>Guarded\<close>: the address test and the redirects.
  \<^item> \<^verbatim>\<open>Paging\<close>, \<^verbatim>\<open>Paged\<close>, \<^verbatim>\<open>Listed\<close>, \<^verbatim>\<open>Browsed\<close>, \<^verbatim>\<open>Searched\<close>, \<^verbatim>\<open>Recorded\<close>: what a client gets that follows the cursors
    of a list, what a search request and its filters do, and what the histories and searches answer.
  \<^item> \<^verbatim>\<open>Samples\<close>, \<^verbatim>\<open>SampleIngest\<close>, \<^verbatim>\<open>SampleApp\<close>: the concrete inputs of the witnesses.

  \<^bold>\<open>Interfaces.\<close> A locale states each contract that several parts share: an ordered map, a list without
  repeated keys and a table with a unique key (\<^verbatim>\<open>Tables\<close>), a table that a replace call writes (\<^verbatim>\<open>Rows\<close>), the
  rows that a diff compares (\<^verbatim>\<open>Converge\<close>), a relation that every step of the ingest handler keeps
  (\<^verbatim>\<open>Admitted\<close>), a list that is read page by page (\<^verbatim>\<open>Paging\<close>). Each is interpreted on the definitions of the model.

  \<^bold>\<open>Parameters.\<close> Third-party code is an argument: JSON text, SHA-256, ed25519, hex, UUIDs, base64,
  \<^verbatim>\<open>Url::parse\<close>, DNS, the HTTP client, the order of a hash set, and the Unicode \<^verbatim>\<open>to_lowercase\<close>. Records
  gather them (\<^verbatim>\<open>env\<close>, \<^verbatim>\<open>crypto\<close>, \<^verbatim>\<open>primary\<close>, \<^verbatim>\<open>node\<close>, \<^verbatim>\<open>app\<close>, \<^verbatim>\<open>server\<close>, \<^verbatim>\<open>community\<close>, \<^verbatim>\<open>query_env\<close>,
  \<^verbatim>\<open>search_engine\<close>). Where a property
  relies on one, it names the hypothesis, such as that decoding undoes encoding.

  \<^bold>\<open>Reading the model.\<close> A \<^verbatim>\<open>String\<close> is its list of bytes. An \<^verbatim>\<open>i64\<close> is an \<^verbatim>\<open>int\<close> with the wrap-around of a
  release build written out, an \<^verbatim>\<open>f64\<close> its 64 bits. A query without \<^verbatim>\<open>ORDER BY\<close> gives rows in row-id order; row
  ids themselves are not kept. A request reads the clock once. Requests run one at a time, each on the
  state the one before left: SQLite has one writer, and a reader sees one snapshot.

  \<^bold>\<open>Bounds and fuel.\<close> Loops are structural or have a measure: the redirects of a fetch end at the hop
  limit, the filtered list of feeds at 1,000 examined rows, a drain of the poll loop at the length of the
  log. The fuel of \<^verbatim>\<open>follow\<close> is the number of pages a client may ask for, and of the polling turns the number
  of events left; the properties show that it is enough.

  \<^bold>\<open>Not modelled.\<close> The connection pool (\<^verbatim>\<open>db_pool.rs\<close>), certificates (\<^verbatim>\<open>tls.rs\<close>), start-up (\<^verbatim>\<open>main.rs\<close>,
  \<^verbatim>\<open>lib.rs\<close>) and the key file of \<^verbatim>\<open>signing.rs\<close> are set-up around third-party code; \<^verbatim>\<open>openapi.rs\<close> is a static
  document. The schema migrations run before any other call. The ranking of a full-text match is SQLite's.
  The task that tests audio streams (\<^verbatim>\<open>live.rs\<close>) only talks to the network. The administrative routes of
  \<^verbatim>\<open>api.rs\<close> wrap calls of \<^verbatim>\<open>db.rs\<close> that are modelled.
\<close>

section \<open>Replication\<close>

text \<open>The content of a log row, without the number that the holding node gave it.\<close>

definition row_content :: "event_row \<Rightarrow> event_row" where
  "row_content r = r\<lparr>er_seq := 0\<rparr>"

lemma row_content_row_at: "row_content (row_at ev n) = row_at ev 0"
  by (simp add: row_content_def row_at_def)

lemma rows_from_content: "map row_content (rows_from n evs) = map (\<lambda>ev. row_at ev 0) evs"
  by (induction n evs rule: rows_from.induct) (simp_all add: row_content_row_at)

lemma row_at_event_of_row: "event_of_row parse r = Inr ev \<Longrightarrow> row_at ev 0 = row_content r"
  by (auto simp: event_of_row_def row_at_def row_content_def split: option.splits)

lemma rmap_contents: "rmap (event_of_row parse) rows = Inr evs \<Longrightarrow> map (\<lambda>ev. row_at ev 0) evs = map row_content rows"
  by (induction rows arbitrary: evs) (auto simp: row_at_event_of_row)

lemma rmap_decodable:
  "rmap (event_of_row (nd_parse nd)) rows = Inr evs \<Longrightarrow> list_all (decodable nd) evs"
  by (induction rows arbitrary: evs)
    (auto simp: event_of_row_def decodable_def deserialize_verified_payload_def split: option.splits)

text \<open>
  C11: A page that the primary reads from its log and a community node applies arrives whole: when
  every event of it verifies and none is known, the community log afterwards ends with the rows of
  the page, in order and equal to the primary's in everything but the sequence number.
\<close>

theorem page_is_replicated:
  assumes "events_ok primary" "get_events_since (nd_parse nd) primary a limit = Inr page"
    and "list_all (is_verified nd) page"
    and "ev_event_id ` set page \<inter> er_event_id ` set (t_events replica) = {}"
  shows "\<exists>rows. t_events (fst (snd (apply_events nd now page (replica, reg)))) = t_events replica @ rows
    \<and> map row_content rows = map row_content (event_rows_since primary a limit)"
proof -
  let ?rows = "event_rows_since primary a limit"
  have run: "rmap (event_of_row (nd_parse nd)) ?rows = Inr page" using assms(2) by (simp add: get_events_since_def)
  have all: "filter (is_verified nd) page = page" using assms(3) by (simp add: filter_id_conv list_all_iff)
  have "distinct (map er_event_id ?rows)"
    using assms(1) by (simp add: event_rows_since_sorted take_map [symmetric] events_ok_def distinct_map_filter)
  then have "distinct (map ev_event_id page)" by (simp only: rmap_ids [OF run])
  then have "unknown_events replica page = page"
    using assms(4) unfolding unknown_events_def by (intro dedupe_loop_id) auto
  then have "t_events (fst (snd (apply_events nd now page (replica, reg)))) = t_events replica @ rows_from (next_seq replica) page"
    using log_after_batch [of nd now page replica reg] rmap_decodable [OF run] by (simp add: all)
  moreover have "map row_content (rows_from (next_seq replica) page) = map row_content ?rows"
    by (simp add: rows_from_content rmap_contents [OF run])
  ultimately show ?thesis by blast
qed

theorem page_is_replicated_witness:
  "\<exists>primary page rows. insert_event toy_crypto ''key'' ''e1'' FeedUnblocked ''{}'' ''b1'' 5 [] empty_db = (Inr (1, sign_event toy_crypto ''key'' ''e1'' FeedUnblocked ''{}'' ''b1'' 5 1), primary)
    \<and> t_events (fst (snd (apply_events (sample_node sample_payload) 9 page (empty_db, None)))) = t_events empty_db @ rows
    \<and> map row_content rows = map row_content (t_events primary) \<and> length rows = 1"
proof -
  let ?n = "sample_node sample_payload"
  have new: "\<not> event_id_taken ''e1'' empty_db" "next_seq empty_db = 1"
    by (simp_all add: event_id_taken_iff next_seq_def empty_db_def)
  obtain primary row where ins: "insert_event toy_crypto ''key'' ''e1'' FeedUnblocked ''{}'' ''b1'' 5 [] empty_db
      = (Inr (1, sign_event toy_crypto ''key'' ''e1'' FeedUnblocked ''{}'' ''b1'' 5 1), primary)"
    and log: "t_events primary = [row]"
    and row: "row = \<lparr>er_event_id = ''e1'', er_event_type = FeedUnblocked, er_payload_json = ''{}'', er_subject_guid = ''b1'',
       er_signed_by = fst (sign_event toy_crypto ''key'' ''e1'' FeedUnblocked ''{}'' ''b1'' 5 1),
       er_signature = snd (sign_event toy_crypto ''key'' ''e1'' FeedUnblocked ''{}'' ''b1'' 5 1),
       er_seq = 1, er_created_at = 5, er_warnings = []\<rparr>"
    using insert_event_ok [OF new(1), of toy_crypto "''key''" FeedUnblocked "''{}''" "''b1''" 5 "[]"] new(2)
    by (auto simp: empty_db_def)
  have ok: "events_ok primary" by (simp add: events_ok_def log)
  have rows: "event_rows_since primary 0 10 = [row]" by (simp add: event_rows_since_sorted [OF ok] log) (simp add: row)
  obtain ev where ev: "event_of_row (nd_parse ?n) row = Inr ev" by (simp add: event_of_row_def sample_node_def)
  then have page: "get_events_since (nd_parse ?n) primary 0 10 = Inr [ev]" by (simp add: get_events_since_def rows)
  have "verify_event_signature toy_crypto ev = Inr ()"
    using ev by (intro verify_signed_event [OF toy_crypto_ok, of _ "''key''"]) (auto simp: event_of_row_def sample_node_def row)
  then have "list_all (is_verified ?n) [ev]" by (simp add: is_verified_def sample_node_def)
  from page_is_replicated [OF ok page this, of empty_db 9 None] obtain rows where
    "t_events (fst (snd (apply_events ?n 9 [ev] (empty_db, None)))) = t_events empty_db @ rows"
    "map row_content rows = map row_content [row]"
    by (auto simp: empty_db_def rows)
  moreover from this(2) have "length rows = 1" by (metis length_map One_nat_def list.size(3,4) add_0)
  ultimately show ?thesis using ins log by metis
qed

end
